(* ===== verification/Prelude.thy ===== *)
theory Prelude
  imports Main "HOL-Library.Product_Lexorder" "HOL-Library.Multiset"
begin

text \<open>
  Shared vocabulary of the development: the errors of the platform as one datatype, fallible
  computations as sums, tables of a relational store as lists of rows, and the lemmas about them
  that carry the component proofs.  An operation of the store that fails rolls its transaction
  back, so a failing operation is an error value and no new state.
\<close>

section \<open>Errors and fallible steps\<close>

text \<open>
  The named error values of \<open>internal/platform/store\<close> (\<open>ErrJobConflict\<close>, \<open>ErrPartyFull\<close>, ...)
  keep their names; \<open>NoRows\<close> is \<open>pgx.ErrNoRows\<close>, \<open>Constraint\<close> a rejected SQL statement (unique
  index or CHECK) and \<open>Invalid\<close> an anonymous \<open>fmt.Errorf\<close> with its message.
\<close>

datatype err =
    NoRows
  | Constraint string
  | Invalid string
  | ErrJobConflict string
  | ErrAlreadyInParty
  | ErrPartyFull
  | ErrPartySizeUnset
  | ErrPartyForbidden
  | ErrPartyBusy
  | ErrInvalidInvite
  | ErrCannotRemoveLeader
  | ErrUserBusy
  | ErrInvalidSelection
  | ErrInvalidNodeSelection
  | ErrPresetPartyTooLarge
  | MaintenanceError string string
  | ErrInvalidDesiredCapacity
  | ErrInvalidAdminAction
  | ErrCASConflict
  | ErrContentFactMismatch
  | ErrTemplateFactMismatch
  | ErrInventoryUnknown
  | ErrUnaccountedInstance
  | ErrScopedResourcesActive
  | ErrCapacityFull
  | ErrValidationIncomplete
  | ErrInvalidCredentials
  | ErrNodeUnauthorized

type_synonym 'a res = "err + 'a"

definition bindE :: "'e + 'a \<Rightarrow> ('a \<Rightarrow> 'e + 'b) \<Rightarrow> 'e + 'b" where
  "bindE m f = (case m of Inl e \<Rightarrow> Inl e | Inr x \<Rightarrow> f x)"

text \<open>\<open>rejectE c e k\<close> is the early return \<open>if c { return e }\<close> followed by \<open>k\<close>.\<close>

definition rejectE :: "bool \<Rightarrow> 'e \<Rightarrow> 'e + 'a \<Rightarrow> 'e + 'a" where
  "rejectE c e k = (if c then Inl e else k)"

definition okE :: "'e + 'a \<Rightarrow> bool" where
  "okE m = (case m of Inl _ \<Rightarrow> False | Inr _ \<Rightarrow> True)"

named_theorems result_simps \<open>inversion of successful fallible steps\<close>

lemma bindE_simps [simp]:
  "bindE (Inl e) f = Inl e"
  "bindE (Inr x) f = f x"
  by (simp_all add: bindE_def)

lemma rejectE_simps [simp]:
  "rejectE True e k = Inl e"
  "rejectE False e k = k"
  by (simp_all add: rejectE_def)

lemma okE_simps [simp]:
  "okE (Inl e) = False"
  "okE (Inr x) = True"
  by (simp_all add: okE_def)

lemma bindE_Inr [result_simps]:
  "bindE m f = Inr y \<longleftrightarrow> (\<exists>x. m = Inr x \<and> f x = Inr y)"
  by (cases m) auto

lemma rejectE_Inr [result_simps]:
  "rejectE c e k = Inr y \<longleftrightarrow> \<not> c \<and> k = Inr y"
  by (simp add: rejectE_def)

lemma bindE_cong [fundef_cong]:
  "m = m' \<Longrightarrow> (\<And>x. m' = Inr x \<Longrightarrow> f x = f' x) \<Longrightarrow> bindE m f = bindE m' f'"
  by (cases m') auto

lemma okE_iff [result_simps]: "okE m \<longleftrightarrow> (\<exists>x. m = Inr x)"
  by (cases m) auto

lemma bindE_assoc: "bindE (bindE m f) g = bindE m (\<lambda>x. bindE (f x) g)"
  by (cases m) auto

section \<open>NULL and the empty string\<close>

text \<open>\<open>COALESCE(x,'')\<close>, \<open>COALESCE(x,0)\<close> and \<open>NULLIF(x,'')\<close>.\<close>

definition coalesce :: "'a option \<Rightarrow> 'a \<Rightarrow> 'a" where
  "coalesce x d = (case x of None \<Rightarrow> d | Some v \<Rightarrow> v)"

definition nullif :: "'a \<Rightarrow> 'a \<Rightarrow> 'a option" where
  "nullif x d = (if x = d then None else Some x)"

lemma coalesce_simps [simp]:
  "coalesce None d = d"
  "coalesce (Some v) d = v"
  by (simp_all add: coalesce_def)

lemma coalesce_nullif [simp]: "coalesce (nullif x d) d = x"
  by (simp add: nullif_def)

lemma nullif_eq_None [simp]: "nullif x d = None \<longleftrightarrow> x = d"
  by (simp add: nullif_def)

lemma nullif_eq_Some [simp]: "nullif x d = Some y \<longleftrightarrow> x = y \<and> x \<noteq> d"
  by (auto simp: nullif_def)

lemma coalesce_neq [simp]: "coalesce x d \<noteq> d \<longleftrightarrow> (\<exists>v. x = Some v \<and> v \<noteq> d)"
  by (cases x) auto

text \<open>A condition on a nullable column: NULL does not satisfy it.\<close>

definition some_and :: "('a \<Rightarrow> bool) \<Rightarrow> 'a option \<Rightarrow> bool" where
  "some_and P x = (case x of None \<Rightarrow> False | Some v \<Rightarrow> P v)"

lemma some_and_iff [simp]: "some_and P x \<longleftrightarrow> (\<exists>v. x = Some v \<and> P v)"
  by (cases x) (simp_all add: some_and_def)

section \<open>Tables as lists of rows\<close>

text \<open>
  A table is the list of its rows in insertion order.  \<open>fetch P\<close> is a single-row query
  (\<open>QueryRow(...).Scan\<close>, with \<open>NoRows\<close> when nothing matches), \<open>upd_where P f\<close> an \<open>UPDATE\<close> that
  applies \<open>f\<close> to the rows satisfying \<open>P\<close>, \<open>exists_where P\<close> the SQL \<open>EXISTS\<close>, \<open>count_where P\<close> the
  SQL \<open>count(*)\<close> and \<open>order_by k\<close> an \<open>ORDER BY\<close>.
\<close>

definition fetch :: "('r \<Rightarrow> bool) \<Rightarrow> 'r list \<Rightarrow> 'r res" where
  "fetch P rs = (case find P rs of None \<Rightarrow> Inl NoRows | Some r \<Rightarrow> Inr r)"

definition upd_where :: "('r \<Rightarrow> bool) \<Rightarrow> ('r \<Rightarrow> 'r) \<Rightarrow> 'r list \<Rightarrow> 'r list" where
  "upd_where P f rs = map (\<lambda>r. if P r then f r else r) rs"

definition exists_where :: "('r \<Rightarrow> bool) \<Rightarrow> 'r list \<Rightarrow> bool" where
  "exists_where P rs = list_ex P rs"

definition count_where :: "('r \<Rightarrow> bool) \<Rightarrow> 'r list \<Rightarrow> int" where
  "count_where P rs = int (length (filter P rs))"

definition order_by :: "('r \<Rightarrow> 'k::linorder) \<Rightarrow> 'r list \<Rightarrow> 'r list" where
  "order_by k rs = sort_key k rs"

text \<open>\<open>ORDER BY k LIMIT 1\<close> and \<open>ORDER BY k DESC LIMIT 1\<close>.\<close>

definition oldest :: "('r \<Rightarrow> 'k::linorder) \<Rightarrow> ('r \<Rightarrow> bool) \<Rightarrow> 'r list \<Rightarrow> 'r option" where
  "oldest k P rs = (case order_by k (filter P rs) of [] \<Rightarrow> None | r # _ \<Rightarrow> Some r)"

definition newest :: "('r \<Rightarrow> 'k::linorder) \<Rightarrow> ('r \<Rightarrow> bool) \<Rightarrow> 'r list \<Rightarrow> 'r option" where
  "newest k P rs = (case rev (order_by k (filter P rs)) of [] \<Rightarrow> None | r # _ \<Rightarrow> Some r)"

definition unique_on :: "('r \<Rightarrow> 'k option) \<Rightarrow> 'r list \<Rightarrow> bool" where
  "unique_on k rs = distinct (map k (filter (\<lambda>r. k r \<noteq> None) rs))"

lemma find_SomeD: "find P xs = Some x \<Longrightarrow> x \<in> set xs \<and> P x"
  by (auto simp: find_Some_iff in_set_conv_nth)

lemma find_NoneD: "find P xs = None \<Longrightarrow> x \<in> set xs \<Longrightarrow> \<not> P x"
  by (simp add: find_None_iff)

lemma find_unique:
  assumes "distinct (map k xs)" "x \<in> set xs" "k x = a"
  shows "find (\<lambda>r. k r = a) xs = Some x"
  using assms by (induction xs) (auto simp: rev_image_eqI)

lemma fetch_Inr [result_simps]: "fetch P rs = Inr r \<longleftrightarrow> find P rs = Some r"
  by (simp add: fetch_def split: option.splits)

lemma fetch_Inl [result_simps]: "fetch P rs = Inl e \<longleftrightarrow> e = NoRows \<and> find P rs = None"
  by (auto simp: fetch_def split: option.splits)

lemma fetch_InrD: "fetch P rs = Inr r \<Longrightarrow> r \<in> set rs \<and> P r"
  by (simp add: fetch_Inr find_SomeD)

lemma exists_where_iff [simp]: "exists_where P rs \<longleftrightarrow> (\<exists>r \<in> set rs. P r)"
  by (simp add: exists_where_def list_ex_iff)

lemma set_upd_where:
  "set (upd_where P f rs) = {r \<in> set rs. \<not> P r} \<union> f ` {r \<in> set rs. P r}"
  by (auto simp: upd_where_def)

lemma in_upd_whereE:
  assumes "r' \<in> set (upd_where P f rs)"
  obtains r where "r \<in> set rs" "P r" "r' = f r" | "r' \<in> set rs" "\<not> P r'"
  using assms by (auto simp: set_upd_where)

lemma upd_where_Nil [simp]: "upd_where P f [] = []"
  by (simp add: upd_where_def)

lemma upd_where_Cons [simp]:
  "upd_where P f (r # rs) = (if P r then f r else r) # upd_where P f rs"
  by (simp add: upd_where_def)

lemma upd_where_append [simp]: "upd_where P f (rs @ ss) = upd_where P f rs @ upd_where P f ss"
  by (simp add: upd_where_def)

lemma length_upd_where [simp]: "length (upd_where P f rs) = length rs"
  by (simp add: upd_where_def)

lemma upd_where_id: "(\<And>r. r \<in> set rs \<Longrightarrow> \<not> P r) \<Longrightarrow> upd_where P f rs = rs"
  by (induction rs) auto

text \<open>A column that the update does not write keeps its values, in order.\<close>

lemma map_upd_where: "(\<And>r. P r \<Longrightarrow> k (f r) = k r) \<Longrightarrow> map k (upd_where P f rs) = map k rs"
  by (induction rs) auto

lemma image_upd_where: "(\<And>r. P r \<Longrightarrow> k (f r) = k r) \<Longrightarrow> k ` set (upd_where P f rs) = k ` set rs"
  by (metis list.set_map map_upd_where)

lemma filter_upd_where:
  "(\<And>r. P r \<Longrightarrow> Q (f r) = Q r) \<Longrightarrow> filter Q (upd_where P f rs) = upd_where P f (filter Q rs)"
  by (induction rs) auto

lemma count_upd_where:
  "(\<And>r. P r \<Longrightarrow> Q (f r) = Q r) \<Longrightarrow> count_where Q (upd_where P f rs) = count_where Q rs"
  by (simp add: count_where_def filter_upd_where)

lemma count_upd_where_le:
  "(\<And>r. r \<in> set rs \<Longrightarrow> P r \<Longrightarrow> Q (f r) \<Longrightarrow> Q r) \<Longrightarrow> count_where Q (upd_where P f rs) \<le> count_where Q rs"
  by (induction rs) (auto simp: count_where_def)

lemma count_where_Nil [simp]: "count_where P [] = 0"
  by (simp add: count_where_def)

lemma count_where_Cons: "count_where P (r # rs) = (if P r then 1 else 0) + count_where P rs"
  by (simp add: count_where_def)

lemma count_where_append [simp]: "count_where P (rs @ ss) = count_where P rs + count_where P ss"
  by (simp add: count_where_def)

lemma count_where_nonneg [simp]: "0 \<le> count_where P rs"
  by (simp add: count_where_def)

lemma count_where_zero: "count_where P rs = 0 \<longleftrightarrow> (\<forall>r \<in> set rs. \<not> P r)"
  by (simp add: count_where_def filter_empty_conv)

lemma set_order_by [simp]: "set (order_by k rs) = set rs"
  by (simp add: order_by_def)

lemma mset_order_by [simp]: "mset (order_by k rs) = mset rs"
  by (simp add: order_by_def)

lemma sorted_order_by: "sorted (map k (order_by k rs))"
  by (simp add: order_by_def)

lemma sorted_head_le: "sorted (map k (x # xs)) \<Longrightarrow> y \<in> set xs \<Longrightarrow> k x \<le> k y"
  by simp

lemma oldest_None: "oldest k P rs = None \<longleftrightarrow> (\<forall>r \<in> set rs. \<not> P r)"
proof -
  have "order_by k (filter P rs) = [] \<longleftrightarrow> (\<forall>r \<in> set rs. \<not> P r)"
    by (metis set_empty set_order_by filter_empty_conv)
  then show ?thesis by (cases "order_by k (filter P rs)") (simp_all add: oldest_def)
qed

lemma oldest_SomeD:
  assumes "oldest k P rs = Some r"
  shows "r \<in> set rs \<and> P r \<and> (\<forall>s \<in> set rs. P s \<longrightarrow> k r \<le> k s)"
proof (cases "order_by k (filter P rs)")
  case (Cons x xs)
  have set: "set (x # xs) = {s \<in> set rs. P s}" unfolding Cons [symmetric] by simp
  have "sorted (map k (x # xs))" unfolding Cons [symmetric] by (rule sorted_order_by)
  moreover have "r = x" using assms Cons by (simp add: oldest_def)
  ultimately have "\<forall>s \<in> set (x # xs). k r \<le> k s" by simp
  moreover have "r \<in> set (x # xs)" using \<open>r = x\<close> by simp
  ultimately show ?thesis unfolding set by simp
qed (use assms in \<open>simp add: oldest_def\<close>)

lemma newest_None: "newest k P rs = None \<longleftrightarrow> (\<forall>r \<in> set rs. \<not> P r)"
proof -
  have "rev (order_by k (filter P rs)) = [] \<longleftrightarrow> (\<forall>r \<in> set rs. \<not> P r)"
    by (metis set_empty set_rev set_order_by filter_empty_conv)
  then show ?thesis by (cases "rev (order_by k (filter P rs))") (simp_all add: newest_def)
qed

lemma newest_SomeD:
  assumes "newest k P rs = Some r"
  shows "r \<in> set rs \<and> P r \<and> (\<forall>s \<in> set rs. P s \<longrightarrow> k s \<le> k r)"
proof (cases "rev (order_by k (filter P rs))")
  case (Cons x xs)
  have split: "order_by k (filter P rs) = rev xs @ [x]" using Cons by (metis rev.simps(2) rev_rev_ident)
  have set: "set (rev xs @ [x]) = {s \<in> set rs. P s}" unfolding split [symmetric] by simp
  have "sorted (map k (rev xs @ [x]))" unfolding split [symmetric] by (rule sorted_order_by)
  moreover have "r = x" using assms Cons by (simp add: newest_def)
  ultimately have "\<forall>s \<in> set (rev xs @ [x]). k s \<le> k r" by (simp add: sorted_append)
  moreover have "r \<in> set (rev xs @ [x])" using \<open>r = x\<close> by simp
  ultimately show ?thesis unfolding set by simp
qed (use assms in \<open>simp add: newest_def\<close>)

lemma unique_on_append1:
  "unique_on k (rs @ [r]) \<longleftrightarrow> unique_on k rs \<and> (k r \<noteq> None \<longrightarrow> (\<forall>s \<in> set rs. k s \<noteq> k r))"
  by (auto simp: unique_on_def image_iff)

lemma unique_on_Nil [simp]: "unique_on k []"
  by (simp add: unique_on_def)

lemma unique_on_Cons [simp]:
  "unique_on k (r # rs) \<longleftrightarrow> unique_on k rs \<and> (k r \<noteq> None \<longrightarrow> (\<forall>s \<in> set rs. k s \<noteq> k r))"
  by (auto simp: unique_on_def image_iff)

lemma unique_onD:
  assumes "unique_on k rs" "r \<in> set rs" "s \<in> set rs" "k r = Some a" "k s = Some a"
  shows "r = s"
  using assms by (induction rs) (fastforce)+

lemma unique_on_count:
  assumes "unique_on k rs"
  shows "count_where (\<lambda>r. k r = Some a) rs \<le> 1"
  using assms
proof (induction rs)
  case (Cons r rs)
  have "count_where (\<lambda>s. k s = Some a) rs = 0" if "k r = Some a"
    using Cons.prems that by (auto simp: count_where_zero)
  with Cons show ?case by (auto simp: count_where_Cons)
qed simp

text \<open>An update that can only drop keys (to \<open>None\<close>), never invent one, keeps a partial index.\<close>

lemma unique_on_upd_where:
  assumes "unique_on k rs" "\<And>r. r \<in> set rs \<Longrightarrow> P r \<Longrightarrow> k (f r) = None \<or> k (f r) = k r"
  shows "unique_on k (upd_where P f rs)"
  using assms
proof (induction rs)
  case (Cons r rs)
  define r' where "r' = (if P r then f r else r)"
  have IH: "unique_on k (upd_where P f rs)" using Cons by auto
  have new: "k r' = None \<or> k r' = k r" using Cons.prems(2) [of r] by (simp add: r'_def)
  have old: "k s = None \<or> (\<exists>t \<in> set rs. k s = k t)" if "s \<in> set (upd_where P f rs)" for s
    using that Cons.prems(2) by (fastforce elim!: in_upd_whereE)
  have "k s \<noteq> k r'" if "s \<in> set (upd_where P f rs)" "k r' \<noteq> None" for s
    using old [OF that(1)] new that(2) Cons.prems(1) by auto
  with IH show ?case by (simp add: r'_def [symmetric])
qed simp

text \<open>\<open>find\<close> after an update that keeps the searched column.\<close>

lemma find_upd_where:
  assumes "\<And>r. P r \<Longrightarrow> Q (f r) = Q r"
  shows "find Q (upd_where P f rs) = map_option (\<lambda>r. if P r then f r else r) (find Q rs)"
  using assms by (induction rs) auto

end
