(* ===== verification/Sha256.thy ===== *)
theory Sha256
  imports Prelude "HOL-Library.Word"
begin

text \<open>
  The SHA-256 digest of Go's \<open>crypto/sha256\<close> and the lower-case \<open>encoding/hex\<close> text of it, which
  the platform uses for frozen create requests, entry configurations, invite tokens and sessions.
  A Go string is its list of bytes.
\<close>

unbundle bit_operations_syntax

type_synonym u32 = "32 word"

definition rotr :: "nat \<Rightarrow> u32 \<Rightarrow> u32" where
  "rotr n x = word_rotr n x"

definition sha_ch :: "u32 \<Rightarrow> u32 \<Rightarrow> u32 \<Rightarrow> u32" where
  "sha_ch x y z = ((x AND y) XOR ((NOT x) AND z))"

definition sha_maj :: "u32 \<Rightarrow> u32 \<Rightarrow> u32 \<Rightarrow> u32" where
  "sha_maj x y z = ((x AND y) XOR (x AND z) XOR (y AND z))"

definition big_sigma0 :: "u32 \<Rightarrow> u32" where
  "big_sigma0 x = (rotr 2 x XOR rotr 13 x XOR rotr 22 x)"

definition big_sigma1 :: "u32 \<Rightarrow> u32" where
  "big_sigma1 x = (rotr 6 x XOR rotr 11 x XOR rotr 25 x)"

definition small_sigma0 :: "u32 \<Rightarrow> u32" where
  "small_sigma0 x = (rotr 7 x XOR rotr 18 x XOR drop_bit 3 x)"

definition small_sigma1 :: "u32 \<Rightarrow> u32" where
  "small_sigma1 x = (rotr 17 x XOR rotr 19 x XOR drop_bit 10 x)"

definition sha_k :: "u32 list" where
  "sha_k = [
   0x428a2f98, 0x71374491, 0xb5c0fbcf, 0xe9b5dba5, 0x3956c25b, 0x59f111f1, 0x923f82a4, 0xab1c5ed5,
   0xd807aa98, 0x12835b01, 0x243185be, 0x550c7dc3, 0x72be5d74, 0x80deb1fe, 0x9bdc06a7, 0xc19bf174,
   0xe49b69c1, 0xefbe4786, 0x0fc19dc6, 0x240ca1cc, 0x2de92c6f, 0x4a7484aa, 0x5cb0a9dc, 0x76f988da,
   0x983e5152, 0xa831c66d, 0xb00327c8, 0xbf597fc7, 0xc6e00bf3, 0xd5a79147, 0x06ca6351, 0x14292967,
   0x27b70a85, 0x2e1b2138, 0x4d2c6dfc, 0x53380d13, 0x650a7354, 0x766a0abb, 0x81c2c92e, 0x92722c85,
   0xa2bfe8a1, 0xa81a664b, 0xc24b8b70, 0xc76c51a3, 0xd192e819, 0xd6990624, 0xf40e3585, 0x106aa070,
   0x19a4c116, 0x1e376c08, 0x2748774c, 0x34b0bcb5, 0x391c0cb3, 0x4ed8aa4a, 0x5b9cca4f, 0x682e6ff3,
   0x748f82ee, 0x78a5636f, 0x84c87814, 0x8cc70208, 0x90befffa, 0xa4506ceb, 0xbef9a3f7, 0xc67178f2]"

definition sha_h0 :: "u32 list" where
  "sha_h0 = [0x6a09e667, 0xbb67ae85, 0x3c6ef372, 0xa54ff53a,
             0x510e527f, 0x9b05688c, 0x1f83d9ab, 0x5be0cd19]"

text \<open>Message bytes to big-endian words, with the padding \<open>0x80 0 ... 0 len64\<close>.\<close>

definition byte_of :: "char \<Rightarrow> int" where
  "byte_of c = of_char c"

definition be_bytes :: "nat \<Rightarrow> int \<Rightarrow> int list" where
  "be_bytes n v = map (\<lambda>i. (v div 256 ^ i) mod 256) (rev [0..<n])"

definition sha_pad :: "string \<Rightarrow> int list" where
  "sha_pad m = (let l = length m in
     map byte_of m @ [128] @ replicate ((119 - l mod 64) mod 64) 0 @ be_bytes 8 (8 * int l))"

fun be_words :: "int list \<Rightarrow> u32 list" where
  "be_words (a # b # c # d # r) =
     word_of_int (((a * 256 + b) * 256 + c) * 256 + d) # be_words r"
| "be_words _ = []"

text \<open>
  The message schedule: the last sixteen words, newest first, followed by the older ones, extended
  one word at a time.
\<close>

fun sha_schedule :: "nat \<Rightarrow> u32 list \<Rightarrow> u32 list" where
  "sha_schedule 0 rw = rev rw"
| "sha_schedule (Suc n) rw =
     sha_schedule n ((small_sigma1 (rw ! 1) + rw ! 6 + small_sigma0 (rw ! 14) + rw ! 15) # rw)"

fun sha_round :: "u32 list \<Rightarrow> u32 \<times> u32 \<Rightarrow> u32 list" where
  "sha_round [a, b, c, d, e, f, g, h] (k, w) =
     (let t1 = h + big_sigma1 e + sha_ch e f g + k + w;
          t2 = big_sigma0 a + sha_maj a b c
      in [t1 + t2, a, b, c, d + t1, e, f, g])"
| "sha_round s _ = s"

definition sha_block :: "u32 list \<Rightarrow> u32 list \<Rightarrow> u32 list" where
  "sha_block h ws = map2 (+) h (foldl sha_round h (zip sha_k (sha_schedule 48 (rev ws))))"

function sha_blocks :: "u32 list \<Rightarrow> u32 list \<Rightarrow> u32 list" where
  "sha_blocks h ws = (if ws = [] then h else sha_blocks (sha_block h (take 16 ws)) (drop 16 ws))"
  by pat_completeness auto
termination
  by (relation "measure (\<lambda>(h, ws). length ws)") auto

declare sha_blocks.simps [simp del]

text \<open>The 32 digest bytes, each a number below 256.\<close>

definition sha256 :: "string \<Rightarrow> int list" where
  "sha256 m = concat (map (\<lambda>w. be_bytes 4 (uint w)) (sha_blocks sha_h0 (be_words (sha_pad m))))"

definition hex_digits :: string where
  "hex_digits = ''0123456789abcdef''"

definition hex_digit :: "int \<Rightarrow> char" where
  "hex_digit n = hex_digits ! nat (n mod 16)"

definition hex_encode :: "int list \<Rightarrow> string" where
  "hex_encode bs = concat (map (\<lambda>b. [hex_digit (b div 16), hex_digit b]) bs)"

definition sha256_hex :: "string \<Rightarrow> string" where
  "sha256_hex m = hex_encode (sha256 m)"

section \<open>Shape of the digest\<close>

lemma length_sha_round: "length h = 8 \<Longrightarrow> length (sha_round h kw) = 8"
  by (cases "(h, kw)" rule: sha_round.cases) (auto simp: Let_def)

lemma length_sha_rounds: "length h = 8 \<Longrightarrow> length (foldl sha_round h kws) = 8"
  by (induction kws arbitrary: h) (auto simp: length_sha_round)

lemma length_sha_block: "length h = 8 \<Longrightarrow> length (sha_block h ws) = 8"
  by (simp add: sha_block_def length_sha_rounds)

lemma length_sha_blocks: "length h = 8 \<Longrightarrow> length (sha_blocks h ws) = 8"
proof (induction h ws rule: sha_blocks.induct)
  case (1 h ws)
  then show ?case
    by (cases "ws = []")
      (simp_all add: sha_blocks.simps [of h ws] sha_blocks.simps [of h "[]"] length_sha_block)
qed

lemma length_be_bytes [simp]: "length (be_bytes n v) = n"
  by (simp add: be_bytes_def)

lemma length_sha256 [simp]: "length (sha256 m) = 32"
proof -
  have "length (sha_blocks sha_h0 (be_words (sha_pad m))) = 8"
    by (rule length_sha_blocks) (simp add: sha_h0_def)
  then show ?thesis
    by (simp add: sha256_def length_concat comp_def sum_list_triv)
qed

lemma sha256_bytes: "b \<in> set (sha256 m) \<Longrightarrow> 0 \<le> b \<and> b < 256"
  by (auto simp: sha256_def be_bytes_def)

lemma hex_encode_simps [simp]:
  "hex_encode [] = []"
  "hex_encode (b # bs) = hex_digit (b div 16) # hex_digit b # hex_encode bs"
  by (simp_all add: hex_encode_def)

lemma hex_digits_facts: "length hex_digits = 16" "distinct hex_digits"
  by (simp_all add: hex_digits_def)

lemma hex_digit_set: "hex_digit n \<in> set hex_digits"
  unfolding hex_digit_def by (rule nth_mem) (simp add: hex_digits_facts)

lemma length_hex_encode [simp]: "length (hex_encode bs) = 2 * length bs"
  by (induction bs) simp_all

lemma set_hex_encode: "set (hex_encode bs) \<subseteq> set hex_digits"
  by (induction bs) (simp_all add: hex_digit_set)

lemma length_sha256_hex [simp]: "length (sha256_hex m) = 64"
  by (simp add: sha256_hex_def)

lemma hex_digit_inj:
  assumes "hex_digit a = hex_digit b" "0 \<le> a" "a < 16" "0 \<le> b" "b < 16"
  shows "a = b"
proof -
  have "hex_digits ! nat a = hex_digits ! nat b"
    using assms by (simp add: hex_digit_def)
  then have "nat a = nat b"
    using assms hex_digits_facts by (simp add: nth_eq_iff_index_eq)
  with assms show ?thesis by simp
qed

lemma hex_digit_mod [simp]: "hex_digit (n mod 16) = hex_digit n"
  by (simp add: hex_digit_def)

text \<open>Hexadecimal text determines the bytes.\<close>

lemma hex_encode_inj:
  assumes "hex_encode xs = hex_encode ys" "\<forall>b \<in> set xs. 0 \<le> b \<and> b < 256" "\<forall>b \<in> set ys. 0 \<le> b \<and> b < 256"
  shows "xs = ys"
  using assms
proof (induction xs arbitrary: ys)
  case Nil
  then show ?case by (cases ys) simp_all
next
  case (Cons x xs)
  show ?case
  proof (cases ys)
    case Nil
    with Cons.prems(1) show ?thesis by simp
  next
    case ys: (Cons y zs)
    have x: "0 \<le> x" "x < 256" and y: "0 \<le> y" "y < 256"
      using Cons.prems(2,3) by (simp_all add: ys)
    have heads: "hex_digit (x div 16) = hex_digit (y div 16)" "hex_digit x = hex_digit y"
      and tails: "hex_encode xs = hex_encode zs"
      using Cons.prems(1) by (simp_all add: ys)
    have "x div 16 = y div 16"
      using heads(1) x y by (intro hex_digit_inj) simp_all
    moreover have "x mod 16 = y mod 16"
      using heads(2) by (intro hex_digit_inj) simp_all
    ultimately have "x = y" by (metis div_mult_mod_eq)
    moreover have "xs = zs"
      using Cons.IH [OF tails] Cons.prems(2,3) by (simp add: ys)
    ultimately show ?thesis by (simp add: ys)
  qed
qed

end
