(* ===== verification/Bytes.thy ===== *)
theory Bytes
  imports Sha256 "HOL-Library.Char_ord" "HOL-Library.List_Lexorder"
begin

text \<open>
  What the contract code uses of Go's standard library on byte strings: decimal and JSON text
  (\<open>strconv\<close>, \<open>encoding/json\<close>), \<open>strings.Split\<close>, \<open>strings.TrimSpace\<close>, \<open>net.ParseIP\<close> as a validity
  test, and the anchored regular expressions of the node contract.
\<close>

section \<open>Characters\<close>

definition byte_le :: "char \<Rightarrow> char \<Rightarrow> bool" where
  "byte_le a b \<longleftrightarrow> byte_of a \<le> byte_of b"

definition is_digit :: "char \<Rightarrow> bool" where
  "is_digit c \<longleftrightarrow> c \<in> set ''0123456789''"

definition is_lower_hex :: "char \<Rightarrow> bool" where
  "is_lower_hex c \<longleftrightarrow> c \<in> set hex_digits"

definition asciiAlnum :: "char \<Rightarrow> bool" where
  "asciiAlnum b \<longleftrightarrow>
     byte_le (CHR ''a'') b \<and> byte_le b (CHR ''z'') \<or>
     byte_le (CHR ''A'') b \<and> byte_le b (CHR ''Z'') \<or>
     byte_le (CHR ''0'') b \<and> byte_le b (CHR ''9'')"

definition is_token_char :: "char \<Rightarrow> bool" where
  "is_token_char c \<longleftrightarrow> asciiAlnum c \<or> c \<in> set ''._-''"

section \<open>Decimal and JSON text\<close>

fun dec_nat :: "nat \<Rightarrow> string" where
  "dec_nat n = (if n < 10 then [''0123456789'' ! n] else dec_nat (n div 10) @ [''0123456789'' ! (n mod 10)])"

declare dec_nat.simps [simp del]

definition dec :: "int \<Rightarrow> string" where
  "dec i = (if i < 0 then CHR ''-'' # dec_nat (nat (- i)) else dec_nat (nat i))"

text \<open>
  \<open>utf8_len s\<close> is the length of the well-formed UTF-8 sequence at the head of a string that starts
  with a byte of at least 128, and 0 when there is none (a decoding error of width one).
\<close>

definition in_range :: "int \<Rightarrow> int \<Rightarrow> char \<Rightarrow> bool" where
  "in_range lo hi c \<longleftrightarrow> lo \<le> byte_of c \<and> byte_of c \<le> hi"

definition utf8_len :: "string \<Rightarrow> nat" where
  "utf8_len s = (case s of
      c0 # c1 # r \<Rightarrow>
        if in_range 194 223 c0 then (if in_range 128 191 c1 then 2 else 0)
        else (case r of
            [] \<Rightarrow> 0
          | c2 # r2 \<Rightarrow>
              if in_range 224 239 c0 then
                (if in_range (if byte_of c0 = 224 then 160 else 128) (if byte_of c0 = 237 then 159 else 191) c1
                    \<and> in_range 128 191 c2 then 3 else 0)
              else (case r2 of
                  [] \<Rightarrow> 0
                | c3 # _ \<Rightarrow>
                    if in_range 240 244 c0
                       \<and> in_range (if byte_of c0 = 240 then 144 else 128) (if byte_of c0 = 244 then 143 else 191) c1
                       \<and> in_range 128 191 c2 \<and> in_range 128 191 c3
                    then 4 else 0))
    | _ \<Rightarrow> 0)"

definition json_escape_byte :: "char \<Rightarrow> string" where
  "json_escape_byte c =
     (let b = byte_of c in
      if b = 92 \<or> b = 34 then [CHR 92, c]
      else if b = 8 then [CHR 92, CHR ''b'']
      else if b = 12 then [CHR 92, CHR ''f'']
      else if b = 10 then [CHR 92, CHR ''n'']
      else if b = 13 then [CHR 92, CHR ''r'']
      else if b = 9 then [CHR 92, CHR ''t'']
      else if b < 32 \<or> b = 60 \<or> b = 62 \<or> b = 38
        then [CHR 92, CHR ''u'', CHR ''0'', CHR ''0'', hex_digit (b div 16), hex_digit b]
      else [c])"

function json_body :: "string \<Rightarrow> string" where
  "json_body [] = []"
| "json_body (c # cs) =
     (if byte_of c < 128 then json_escape_byte c @ json_body cs
      else if utf8_len (c # cs) = 0 then CHR 92 # ''ufffd'' @ json_body cs
      else if take 2 (c # cs) = [CHR 0xE2, CHR 0x80] \<and> 2 < length (c # cs)
              \<and> (byte_of ((c # cs) ! 2) = 168 \<or> byte_of ((c # cs) ! 2) = 169)
        then CHR 92 # ''u202'' @ [hex_digit (byte_of ((c # cs) ! 2) - 160)] @ json_body (drop 2 cs)
      else take (utf8_len (c # cs)) (c # cs) @ json_body (drop (utf8_len (c # cs) - 1) cs))"
  by pat_completeness auto
termination
  by (relation "measure length") auto

definition json_string :: "string \<Rightarrow> string" where
  "json_string s = [CHR 34] @ json_body s @ [CHR 34]"

definition json_bool :: "bool \<Rightarrow> string" where
  "json_bool b = (if b then ''true'' else ''false'')"

text \<open>A struct is the list of its fields, each already encoded.\<close>

fun json_commas :: "string list \<Rightarrow> string" where
  "json_commas [] = []"
| "json_commas [x] = x"
| "json_commas (x # xs) = x @ '','' @ json_commas xs"

definition json_object :: "(string \<times> string) list \<Rightarrow> string" where
  "json_object kvs = ''{'' @ json_commas (map (\<lambda>(k, v). json_string k @ '':'' @ v) kvs) @ ''}''"

text \<open>A nil slice encodes as \<open>null\<close>; the code only encodes slices that are nil when empty.\<close>

definition json_array :: "string list \<Rightarrow> string" where
  "json_array xs = (if xs = [] then ''null'' else ''['' @ json_commas xs @ '']'')"

section \<open>Splitting, trimming, membership\<close>

fun split_on :: "char \<Rightarrow> string \<Rightarrow> string list" where
  "split_on d [] = [[]]"
| "split_on d (c # cs) =
     (if c = d then [] # split_on d cs
      else (case split_on d cs of [] \<Rightarrow> [[c]] | w # ws \<Rightarrow> (c # w) # ws))"

text \<open>\<open>strings.TrimSpace(s) == ""\<close>: only Unicode white space, in UTF-8.\<close>

fun all_space :: "string \<Rightarrow> bool" where
  "all_space [] = True"
| "all_space (c # cs) =
     (if byte_of c \<in> {9, 10, 11, 12, 13, 32} then all_space cs
      else (case cs of
          [] \<Rightarrow> False
        | c1 # cs1 \<Rightarrow>
            if byte_of c = 194 \<and> byte_of c1 \<in> {133, 160} then all_space cs1
            else (case cs1 of
                [] \<Rightarrow> False
              | c2 # cs2 \<Rightarrow>
                  (byte_of c = 225 \<and> byte_of c1 = 154 \<and> byte_of c2 = 128
                   \<or> byte_of c = 226 \<and> byte_of c1 = 128
                      \<and> (in_range 128 138 c2 \<or> byte_of c2 \<in> {168, 169, 175})
                   \<or> byte_of c = 226 \<and> byte_of c1 = 129 \<and> byte_of c2 = 159
                   \<or> byte_of c = 227 \<and> byte_of c1 = 128 \<and> byte_of c2 = 128)
                  \<and> all_space cs2)))"

definition contains_any :: "string \<Rightarrow> string \<Rightarrow> bool" where
  "contains_any s cs \<longleftrightarrow> list_ex (\<lambda>c. c \<in> set cs) s"

section \<open>\<open>net.ParseIP\<close>\<close>

text \<open>Four decimal fields of at most 255, each non-empty and without a leading zero.\<close>

definition ipv4_field :: "string \<Rightarrow> bool" where
  "ipv4_field w \<longleftrightarrow> w \<noteq> [] \<and> list_all is_digit w \<and> length w \<le> 3 \<and>
     (1 < length w \<longrightarrow> hd w \<noteq> CHR ''0'') \<and>
     foldl (\<lambda>a c. a * 10 + (byte_of c - 48)) 0 w \<le> 255"

definition parse_ipv4 :: "string \<Rightarrow> bool" where
  "parse_ipv4 s \<longleftrightarrow> (let ws = split_on (CHR ''.'') s in length ws = 4 \<and> list_all ipv4_field ws)"

definition is_hex :: "char \<Rightarrow> bool" where
  "is_hex c \<longleftrightarrow> c \<in> set ''0123456789abcdefABCDEF''"

text \<open>
  The group loop of \<open>netip.parseIPv6\<close>: \<open>i\<close> bytes are filled, \<open>ell\<close> says whether an ellipsis was
  seen.  The result says whether the whole text is one address.
\<close>

function ipv6_groups :: "nat \<Rightarrow> bool \<Rightarrow> string \<Rightarrow> bool" where
  "ipv6_groups i ell s =
     (if 16 \<le> i then s = [] \<and> \<not> ell
      else
       (let g = takeWhile is_hex s; r = dropWhile is_hex s in
        if g = [] \<or> 4 < length g then False
        else (case r of
            [] \<Rightarrow> (if i + 2 < 16 then ell else \<not> ell)
          | c # r1 \<Rightarrow>
              if c = CHR ''.'' then
                (ell \<or> i = 12) \<and> i + 4 \<le> 16 \<and> parse_ipv4 s \<and> (if i + 4 < 16 then ell else \<not> ell)
              else if c \<noteq> CHR '':'' \<or> r1 = [] then False
              else if hd r1 = CHR '':'' then
                (if ell then False
                 else if tl r1 = [] then i + 2 < 16
                 else ipv6_groups (i + 2) True (tl r1))
              else ipv6_groups (i + 2) ell r1)))"
  by pat_completeness auto
termination
  by (relation "measure (\<lambda>(i, ell, s). 16 - i)") auto

declare ipv6_groups.simps [simp del]

definition parse_ipv6 :: "string \<Rightarrow> bool" where
  "parse_ipv6 s =
     (if take 2 s = ''::'' then drop 2 s = [] \<or> ipv6_groups 0 True (drop 2 s)
      else ipv6_groups 0 False s)"

text \<open>
  \<open>netip.ParseAddr\<close> decides by the first of \<open>.\<close>, \<open>:\<close> and \<open>%\<close>; \<open>net.ParseIP\<close> rejects addresses with
  a zone, so a \<open>%\<close> anywhere is rejected.
\<close>

definition ParseIP :: "string \<Rightarrow> bool" where
  "ParseIP s =
     (CHR ''%'' \<notin> set s \<and>
      (case find (\<lambda>c. c \<in> set ''.:'') s of
         None \<Rightarrow> False
       | Some c \<Rightarrow> if c = CHR ''.'' then parse_ipv4 s else parse_ipv6 s))"

end
