(* ===== verification/NodeV1.thy ===== *)
theory NodeV1
  imports Bytes
begin

text \<open>
  The versioned contract between Platform Server and Node Controller
  (\<open>internal/contracts/nodev1/types.go\<close>, \<open>internal/contracts/contentid/id.go\<close>): its messages as
  records, the validation of every message as a fallible check with the code's order of tests, the
  frozen-create digest and the entry-configuration fingerprint.  A string the code compares with a
  fixed set of names is a datatype with one constructor per name and one for any other text.  Go's
  64-bit integers are \<open>int\<close>: every comparison here bounds a value before arithmetic is done on it.
\<close>

section \<open>Network facts\<close>

record PortMapping =
  pm_local :: int
  pm_public :: int

datatype mapping_mode = MIdentity | MExplicit | MOther string

fun mapping_mode_text :: "mapping_mode \<Rightarrow> string" where
  "mapping_mode_text MIdentity = ''identity''"
| "mapping_mode_text MExplicit = ''explicit''"
| "mapping_mode_text (MOther s) = s"

record NetworkFacts =
  nf_ConnectHost :: string
  nf_ProtocolIP :: string
  nf_LocalPortMin :: int
  nf_LocalPortMax :: int
  nf_MappingMode :: mapping_mode
  nf_Mappings :: "PortMapping list"
  nf_A2SEnabled :: bool

section \<open>Text shapes\<close>

definition coreTokenPattern :: "string \<Rightarrow> bool" where
  "coreTokenPattern s \<longleftrightarrow> s \<noteq> [] \<and> length s \<le> 128 \<and> list_all is_token_char s"

definition revisionPattern :: "string \<Rightarrow> bool" where
  "revisionPattern s \<longleftrightarrow> length s = 64 \<and> list_all is_lower_hex s"

definition ValidWorkshop :: "string \<Rightarrow> bool" where
  "ValidWorkshop s \<longleftrightarrow> s \<noteq> [] \<and> length s \<le> 20 \<and> list_all is_digit s"

definition ascii_lower :: "char \<Rightarrow> char" where
  "ascii_lower c = (if in_range 65 90 c then char_of (byte_of c + 32) else c)"

text \<open>\<open>strings.EqualFold\<close> on the ASCII text that the version pattern admits.\<close>

definition ValidVersion :: "string \<Rightarrow> bool" where
  "ValidVersion s \<longleftrightarrow> s \<noteq> [] \<and> length s \<le> 128 \<and> asciiAlnum (hd s) \<and> list_all is_token_char s \<and>
     map ascii_lower s \<notin> {''current'', ''previous'', ''pending''}"

definition valid_label :: "string \<Rightarrow> bool" where
  "valid_label w \<longleftrightarrow> w \<noteq> [] \<and> length w \<le> 63 \<and> asciiAlnum (hd w) \<and> asciiAlnum (last w) \<and>
     list_all (\<lambda>c. asciiAlnum c \<or> c = CHR ''-'') (butlast (tl w))"

definition validConnectHost :: "string \<Rightarrow> bool" where
  "validConnectHost host =
     (if ParseIP host then True
      else if host = [] \<or> 253 < length host then False
      else list_all valid_label (split_on (CHR ''.'') host))"

section \<open>Validation of network facts\<close>

fun mappings_loop :: "int \<Rightarrow> int \<Rightarrow> int list \<Rightarrow> int list \<Rightarrow> PortMapping list \<Rightarrow> unit res" where
  "mappings_loop lo hi localSeen publicSeen [] = Inr ()"
| "mappings_loop lo hi localSeen publicSeen (m # ms) =
     rejectE (pm_local m < lo \<or> hi < pm_local m \<or> pm_public m < 1 \<or> 65535 < pm_public m
              \<or> pm_local m \<in> set localSeen \<or> pm_public m \<in> set publicSeen)
       (Invalid ''invalid or duplicate mapping'')
       (mappings_loop lo hi (pm_local m # localSeen) (pm_public m # publicSeen) ms)"

definition NetworkFacts_Validate :: "NetworkFacts \<Rightarrow> int \<Rightarrow> unit res" where
  "NetworkFacts_Validate n hardMax =
     rejectE (hardMax < 0) (Invalid ''invalid hard max'') (
     rejectE (\<not> validConnectHost (nf_ConnectHost n)) (Invalid ''invalid connect host'') (
     rejectE (nf_ProtocolIP n \<noteq> [] \<and> \<not> ParseIP (nf_ProtocolIP n)) (Invalid ''invalid protocol IP'') (
     rejectE (nf_LocalPortMin n < 1 \<or> 65535 < nf_LocalPortMax n \<or> nf_LocalPortMax n < nf_LocalPortMin n)
       (Invalid ''invalid local port range'') (
     let count = nf_LocalPortMax n - nf_LocalPortMin n + 1 in
     rejectE (4096 < count \<or> count < hardMax) (Invalid ''hard max exceeds port pool'') (
     rejectE (nf_MappingMode n \<noteq> MIdentity \<and> nf_MappingMode n \<noteq> MExplicit)
       (Invalid ''invalid mapping mode'') (
     if nf_MappingMode n = MIdentity then
       rejectE (nf_Mappings n \<noteq> [])
         (Invalid ''identity mapping must not supply explicit mappings'') (Inr ())
     else
       rejectE (int (length (nf_Mappings n)) \<noteq> count) (Invalid ''incomplete explicit mapping'')
         (mappings_loop (nf_LocalPortMin n) (nf_LocalPortMax n) [] [] (nf_Mappings n))))))))"

definition PublicPorts :: "NetworkFacts \<Rightarrow> int list" where
  "PublicPorts n = sort
     (if nf_MappingMode n = MIdentity then [nf_LocalPortMin n .. min (nf_LocalPortMax n) 65535]
      else map pm_public (nf_Mappings n))"

definition mapping_json :: "PortMapping \<Rightarrow> string" where
  "mapping_json m = json_object [(''local'', dec (pm_local m)), (''public'', dec (pm_public m))]"

definition EntryConfigRevision :: "NetworkFacts \<Rightarrow> string" where
  "EntryConfigRevision n =
     (let mappings = sort_key pm_local (nf_Mappings n) in
      sha256_hex (json_object
        [(''connectHost'', json_string (nf_ConnectHost n)),
         (''protocolIp'', json_string (nf_ProtocolIP n)),
         (''localPortMin'', dec (nf_LocalPortMin n)),
         (''localPortMax'', dec (nf_LocalPortMax n)),
         (''mappingMode'', json_string (mapping_mode_text (nf_MappingMode n))),
         (''mappings'', json_array (map mapping_json mappings)),
         (''a2sEnabled'', json_bool (nf_A2SEnabled n))]))"

section \<open>Join information\<close>

record JoinInfo =
  ji_LocalPort :: int
  ji_PublicPort :: int
  ji_ConnectHost :: string
  ji_ProtocolIP :: string
  ji_EntryConfigRevision :: string

definition JoinInfo_Validate :: "JoinInfo \<Rightarrow> unit res" where
  "JoinInfo_Validate j =
     rejectE (ji_LocalPort j < 1 \<or> 65535 < ji_LocalPort j \<or> ji_PublicPort j < 1 \<or> 65535 < ji_PublicPort j
              \<or> \<not> validConnectHost (ji_ConnectHost j)
              \<or> ji_ProtocolIP j \<noteq> [] \<and> \<not> ParseIP (ji_ProtocolIP j)
              \<or> \<not> revisionPattern (ji_EntryConfigRevision j))
       (Invalid ''invalid JoinInfo'') (Inr ())"

section \<open>Jobs, frozen creates and operation starts\<close>

datatype job_kind = KCreate | KStop | KOther string

datatype job_state =
    JPending | JClaimed | JAccepted | JUnknown | JSucceeded | JRejectedNoEffect | JFailedWithEffect
  | JOther string

definition RequiredContentValidationV102 :: string where
  "RequiredContentValidationV102 = ''content_validation_v102''"

definition TemplateManifestAlgorithmV1 :: string where
  "TemplateManifestAlgorithmV1 = ''template-manifest-sha256-v1''"

record FrozenCreate =
  fc_IdempotencyKey :: string
  fc_Template :: string
  fc_Port :: int
  fc_FingerprintSHA256 :: string
  fc_RequiredCapability :: string
  fc_TemplateManifestAlgorithm :: string
  fc_TemplateFingerprintSHA256 :: string

record Job =
  j_ID :: string
  j_Kind :: job_kind
  j_State :: job_state
  j_IntegrationOnly :: bool
  j_TemplateBindingKey :: string
  j_RequestedPort :: int
  j_InstanceID :: string
  j_OperationID :: string
  j_FrozenCreate :: "FrozenCreate option"
  j_PreparedAtUnix :: int
  j_RequiredCapability :: string
  j_ExpectedTemplateFingerprintSHA256 :: string
  j_TemplateBindingGeneration :: int
  j_ExpectedWorkshopID :: string
  j_ExpectedContentVersionID :: string
  j_ExpectedVPKSHA256 :: string

text \<open>The digest of the frozen request, in the hexadecimal text in which it is compared.\<close>

definition create_request_json :: "string \<Rightarrow> string \<Rightarrow> int \<Rightarrow> string" where
  "create_request_json key template port = json_object
     [(''idempotencyKey'', json_string key), (''template'', json_string template), (''port'', dec port)]"

definition CreateFingerprint :: "string \<Rightarrow> string \<Rightarrow> int \<Rightarrow> string" where
  "CreateFingerprint key template port = sha256_hex (create_request_json key template port)"

record OperationStartRequest =
  os_Kind :: job_kind
  os_FrozenCreate :: "FrozenCreate option"
  os_InstanceID :: string

definition OperationStartRequest_Validate :: "OperationStartRequest \<Rightarrow> unit res" where
  "OperationStartRequest_Validate r = (case os_Kind r of
      KCreate \<Rightarrow> rejectE (os_FrozenCreate r = None \<or> os_InstanceID r \<noteq> [])
                   (Invalid ''invalid create operation start'') (Inr ())
    | KStop \<Rightarrow> rejectE (os_FrozenCreate r \<noteq> None \<or> \<not> coreTokenPattern (os_InstanceID r))
                   (Invalid ''invalid stop operation start'') (Inr ())
    | KOther _ \<Rightarrow> Inl (Invalid ''invalid operation kind''))"

record ReportRequest =
  rp_State :: job_state
  rp_InstanceID :: string
  rp_OperationID :: string
  rp_ErrorCode :: string
  rp_ErrorStage :: string
  rp_JoinInfo :: "JoinInfo option"
  rp_JoinInfoErrorCode :: string

definition reportable :: "job_state \<Rightarrow> bool" where
  "reportable s \<longleftrightarrow> s \<in> {JAccepted, JUnknown, JSucceeded, JRejectedNoEffect, JFailedWithEffect}"

definition ReportRequest_Validate :: "ReportRequest \<Rightarrow> unit res" where
  "ReportRequest_Validate r =
     rejectE (\<not> reportable (rp_State r)) (Invalid ''invalid NodeJob report state'') (
     rejectE (list_ex (\<lambda>v. v \<noteq> [] \<and> \<not> coreTokenPattern v)
                [rp_InstanceID r, rp_OperationID r, rp_ErrorCode r, rp_ErrorStage r])
       (Invalid ''invalid NodeJob report field'') (
     rejectE (rp_JoinInfoErrorCode r \<noteq> [] \<and> \<not> coreTokenPattern (rp_JoinInfoErrorCode r))
       (Invalid ''invalid JoinInfo error'') (
     bindE (case rp_JoinInfo r of
              None \<Rightarrow> Inr ()
            | Some j \<Rightarrow> rejectE (rp_State r \<noteq> JSucceeded \<or> rp_JoinInfoErrorCode r \<noteq> [])
                          (Invalid ''unexpected JoinInfo'') (JoinInfo_Validate j)) (\<lambda>_.
     rejectE (rp_JoinInfoErrorCode r \<noteq> [] \<and> rp_State r \<noteq> JSucceeded)
       (Invalid ''unexpected JoinInfo error'') (Inr ())))))"

end
