(* ===== verification/Heartbeat.thy ===== *)
theory Heartbeat
  imports NodeV1
begin

text \<open>
  The Controller's periodic heartbeat and inventory reports (\<open>internal/contracts/nodev1/types.go\<close>):
  their records, their validation and the exact-version compatibility test.  The validation loops
  carry the code's \<open>seen\<close> maps as lists.
\<close>

section \<open>RFC 3339 time stamps\<close>

text \<open>
  \<open>time.Parse(time.RFC3339Nano, s)\<close> as the offset in nanoseconds from the zero time (year 1), \<open>None\<close> on a
  parse error.  As in Go, the hour may have one digit and a comma may start the fraction.
\<close>

definition digit_val :: "char \<Rightarrow> int" where
  "digit_val c = byte_of c - 48"

fun digits_val :: "int \<Rightarrow> string \<Rightarrow> int" where
  "digits_val a [] = a"
| "digits_val a (c # cs) = digits_val (10 * a + digit_val c) cs"

definition fixed_num :: "nat \<Rightarrow> string \<Rightarrow> (int \<times> string) option" where
  "fixed_num n s = (if n \<le> length s \<and> list_all is_digit (take n s)
                    then Some (digits_val 0 (take n s), drop n s) else None)"

definition lit_char :: "char \<Rightarrow> string \<Rightarrow> string option" where
  "lit_char c s = (case s of [] \<Rightarrow> None | d # r \<Rightarrow> if d = c then Some r else None)"

definition hour_num :: "string \<Rightarrow> (int \<times> string) option" where
  "hour_num s = (case fixed_num 2 s of Some p \<Rightarrow> Some p | None \<Rightarrow> fixed_num 1 s)"

definition fraction :: "string \<Rightarrow> int \<times> string" where
  "fraction s = (case s of
      c # d # r \<Rightarrow>
        if c \<in> set ''.,'' \<and> is_digit d then
          (let ds = takeWhile is_digit (d # r); n = take 9 ds in
           (digits_val 0 (n @ replicate (9 - length n) (CHR ''0'')), dropWhile is_digit (d # r)))
        else (0, s)
    | _ \<Rightarrow> (0, s))"

definition zone_seconds :: "string \<Rightarrow> int option" where
  "zone_seconds s =
     (if s = ''Z'' then Some 0
      else if length s = 6 \<and> s ! 3 = CHR '':'' \<and> hd s \<in> set ''+-''
              \<and> list_all is_digit (take 2 (drop 1 s)) \<and> list_all is_digit (drop 4 s) then
        (let hr = digits_val 0 (take 2 (drop 1 s)); mm = digits_val 0 (drop 4 s);
             off = (hr * 60 + mm) * 60 in
         if 24 < hr \<or> 60 < mm then None else Some (if hd s = CHR ''-'' then - off else off))
      else None)"

definition leap_year :: "int \<Rightarrow> bool" where
  "leap_year y \<longleftrightarrow> y mod 4 = 0 \<and> (y mod 100 \<noteq> 0 \<or> y mod 400 = 0)"

definition days_in :: "int \<Rightarrow> int \<Rightarrow> int" where
  "days_in m y = (if m = 2 then (if leap_year y then 29 else 28)
                  else if m \<in> {4, 6, 9, 11} then 30 else 31)"

definition days_before_year :: "int \<Rightarrow> int" where
  "days_before_year y = (let z = y - 1 in 365 * z + z div 4 - z div 100 + z div 400)"

definition civil_days :: "int \<Rightarrow> int \<Rightarrow> int \<Rightarrow> int" where
  "civil_days y m d = days_before_year y + sum_list (map (\<lambda>k. days_in k y) [1 .. m - 1]) + (d - 1)"

definition parse_rfc3339 :: "string \<Rightarrow> int option" where
  "parse_rfc3339 s =
     Option.bind (fixed_num 4 s) (\<lambda>(y, s).
     Option.bind (lit_char (CHR ''-'') s) (\<lambda>s.
     Option.bind (fixed_num 2 s) (\<lambda>(mo, s).
     Option.bind (lit_char (CHR ''-'') s) (\<lambda>s.
     Option.bind (fixed_num 2 s) (\<lambda>(d, s).
     Option.bind (lit_char (CHR ''T'') s) (\<lambda>s.
     Option.bind (hour_num s) (\<lambda>(h, s).
     Option.bind (lit_char (CHR '':'') s) (\<lambda>s.
     Option.bind (fixed_num 2 s) (\<lambda>(mi, s).
     Option.bind (lit_char (CHR '':'') s) (\<lambda>s.
     Option.bind (fixed_num 2 s) (\<lambda>(sec, s).
     (let (ns, s) = fraction s in
     Option.bind (zone_seconds s) (\<lambda>off.
     if mo < 1 \<or> 12 < mo \<or> d < 1 \<or> days_in mo y < d \<or> 24 \<le> h \<or> 60 \<le> mi \<or> 60 \<le> sec then None
     else Some ((((civil_days y mo d * 24 + h) * 60 + mi) * 60 + sec - off) * 1000000000 + ns))))))))))))))"

section \<open>Messages\<close>

datatype fact_state = FConfirmed | FUnknown | FOther string

record ContentFact =
  cf_WorkshopID :: string
  cf_ContentVersionID :: string
  cf_VPKSHA256 :: string
  cf_State :: fact_state

record TemplateFact =
  tfa_BindingKey :: string
  tfa_State :: fact_state
  tfa_ManifestAlgorithm :: string
  tfa_FingerprintSHA256 :: string

record A2SDiagnostic =
  ad_InstanceID :: string
  ad_LocalPort :: int
  ad_Status :: string
  ad_CheckedAt :: string

record Heartbeat =
  hb_OS :: string
  hb_ControllerVersion :: string
  hb_NodeAPIVersion :: int
  hb_D2CoreVersion :: string
  hb_D2CoreCommit :: string
  hb_D2CoreProtocolVersion :: int
  hb_HardMaxInstances :: int
  hb_Network :: NetworkFacts
  hb_A2SQueryOK :: bool
  hb_A2SDiagnostics :: "A2SDiagnostic list"
  hb_Content :: "ContentFact list"
  hb_Capabilities :: "string list"
  hb_InventoryScanID :: string
  hb_InventoryState :: string
  hb_TemplateFacts :: "TemplateFact list"

record InventoryInstance =
  ii_InstanceID :: string
  ii_Lifecycle :: string
  ii_Process :: string
  ii_Cleanup :: string
  ii_CurrentOperationID :: string

record InventoryReport =
  ir_ScanID :: string
  ir_Complete :: bool
  ir_Instances :: "InventoryInstance list"
  ir_ErrorCode :: string

section \<open>Capabilities\<close>

definition known_capabilities :: "string list" where
  "known_capabilities = [''contentValidationV102'', ''templateManifestSha256V1'', ''coreInventoryV1'']"

fun capabilities_loop :: "string list \<Rightarrow> string list \<Rightarrow> unit res" where
  "capabilities_loop seen [] = Inr ()"
| "capabilities_loop seen (c # cs) =
     rejectE (c \<in> set seen) (Invalid ''duplicate capability'') (
     rejectE (c \<notin> set known_capabilities) (Invalid ''unknown capability'')
       (capabilities_loop (c # seen) cs))"

definition ValidateCapabilities :: "string list \<Rightarrow> unit res" where
  "ValidateCapabilities cs =
     rejectE (16 < length cs) (Invalid ''too many capabilities'') (capabilities_loop [] cs)"

section \<open>Heartbeat validation\<close>

fun templates_loop :: "string list \<Rightarrow> TemplateFact list \<Rightarrow> unit res" where
  "templates_loop seen [] = Inr ()"
| "templates_loop seen (f # fs) =
     rejectE (tfa_BindingKey f = [] \<or> 128 < length (tfa_BindingKey f) \<or> tfa_BindingKey f \<in> set seen
              \<or> contains_any (tfa_BindingKey f) [CHR 13, CHR 10, CHR 0x00])
       (Invalid ''invalid or duplicate template binding key'') (
     rejectE (if tfa_State f = FConfirmed
              then tfa_ManifestAlgorithm f \<noteq> TemplateManifestAlgorithmV1
                   \<or> \<not> revisionPattern (tfa_FingerprintSHA256 f)
              else tfa_State f \<noteq> FUnknown \<or> tfa_ManifestAlgorithm f \<noteq> [] \<or> tfa_FingerprintSHA256 f \<noteq> [])
       (Invalid ''invalid template identity'')
       (templates_loop (tfa_BindingKey f # seen) fs))"

fun diagnostics_loop :: "int \<Rightarrow> int \<Rightarrow> string list \<Rightarrow> int list \<Rightarrow> A2SDiagnostic list \<Rightarrow> unit res" where
  "diagnostics_loop lo hi seenInstances seenPorts [] = Inr ()"
| "diagnostics_loop lo hi seenInstances seenPorts (d # ds) =
     rejectE (\<not> coreTokenPattern (ad_InstanceID d) \<or> ad_InstanceID d \<in> set seenInstances
              \<or> ad_LocalPort d \<in> set seenPorts \<or> ad_LocalPort d < lo \<or> hi < ad_LocalPort d
              \<or> ad_Status d \<noteq> ''ok'' \<and> ad_Status d \<noteq> ''failed''
              \<or> parse_rfc3339 (ad_CheckedAt d) \<in> {None, Some 0})
       (Invalid ''invalid A2S instance diagnostic'')
       (diagnostics_loop lo hi (ad_InstanceID d # seenInstances) (ad_LocalPort d # seenPorts) ds)"

fun content_loop :: "string list \<Rightarrow> ContentFact list \<Rightarrow> unit res" where
  "content_loop seen [] = Inr ()"
| "content_loop seen (c # cs) =
     rejectE (\<not> ValidWorkshop (cf_WorkshopID c) \<or> cf_WorkshopID c \<in> set seen)
       (Invalid ''invalid or duplicate workshop ID'') (
     rejectE (cf_State c \<noteq> FConfirmed \<and> cf_State c \<noteq> FUnknown) (Invalid ''invalid content state'') (
     rejectE (cf_State c = FConfirmed \<and> cf_ContentVersionID c = []) (Invalid ''confirmed content has no version'') (
     rejectE (128 < length (cf_ContentVersionID c) \<or> contains_any (cf_ContentVersionID c) [CHR 13, CHR 10, CHR 0x00])
       (Invalid ''invalid content version'') (
     rejectE (cf_VPKSHA256 c \<noteq> [] \<and> (cf_State c \<noteq> FConfirmed \<or> \<not> revisionPattern (cf_VPKSHA256 c)))
       (Invalid ''invalid content digest fact'')
       (content_loop (cf_WorkshopID c # seen) cs)))))"

definition Heartbeat_Validate :: "Heartbeat \<Rightarrow> unit res" where
  "Heartbeat_Validate h =
     rejectE (hb_OS h \<noteq> ''windows'' \<and> hb_OS h \<noteq> ''linux'') (Invalid ''invalid OS'') (
     rejectE (all_space (hb_ControllerVersion h) \<or> 128 < length (hb_ControllerVersion h))
       (Invalid ''invalid controller version'') (
     rejectE (hb_NodeAPIVersion h < 0) (Invalid ''invalid node API version'') (
     rejectE (128 < length (hb_D2CoreVersion h) \<or> 128 < length (hb_D2CoreCommit h))
       (Invalid ''invalid core version'') (
     rejectE (hb_HardMaxInstances h < 0) (Invalid ''invalid hard max'') (
     bindE (ValidateCapabilities (hb_Capabilities h)) (\<lambda>_.
     rejectE (hb_InventoryState h \<notin> {[], ''confirmed'', ''unknown''}) (Invalid ''invalid inventory state'') (
     rejectE ((hb_InventoryState h = []) \<noteq> (hb_InventoryScanID h = []) \<or> 128 < length (hb_InventoryScanID h))
       (Invalid ''invalid inventory scan identity'') (
     rejectE (256 < length (hb_TemplateFacts h)) (Invalid ''too many template facts'') (
     bindE (templates_loop [] (hb_TemplateFacts h)) (\<lambda>_.
     bindE (NetworkFacts_Validate (hb_Network h) (hb_HardMaxInstances h)) (\<lambda>_.
     rejectE (hb_A2SQueryOK h \<and> \<not> nf_A2SEnabled (hb_Network h))
       (Invalid ''A2S query cannot be OK when disabled'') (
     rejectE (4096 < length (hb_A2SDiagnostics h)
              \<or> hb_A2SDiagnostics h \<noteq> [] \<and> \<not> nf_A2SEnabled (hb_Network h))
       (Invalid ''invalid A2S diagnostic count'') (
     bindE (diagnostics_loop (nf_LocalPortMin (hb_Network h)) (nf_LocalPortMax (hb_Network h)) [] []
              (hb_A2SDiagnostics h)) (\<lambda>_.
     rejectE (128 < length (hb_Content h)) (Invalid ''too many content facts'') (
     content_loop [] (hb_Content h))))))))))))))))"

definition Compatible :: "Heartbeat \<Rightarrow> bool" where
  "Compatible h \<longleftrightarrow> hb_NodeAPIVersion h = 1
     \<and> (hb_D2CoreVersion h = ''0.1.2'' \<or> hb_D2CoreVersion h = ''v0.1.2'')
     \<and> hb_D2CoreCommit h = ''6dddb5892f962e70beb32fc30df4a78bce595528''
     \<and> hb_D2CoreProtocolVersion h = 1"

section \<open>Inventory validation\<close>

definition oneOf :: "string \<Rightarrow> string list \<Rightarrow> bool" where
  "oneOf v choices \<longleftrightarrow> v \<in> set choices"

fun instances_loop :: "string list \<Rightarrow> InventoryInstance list \<Rightarrow> unit res" where
  "instances_loop seen [] = Inr ()"
| "instances_loop seen (i # is) =
     rejectE (\<not> coreTokenPattern (ii_InstanceID i) \<or> ii_InstanceID i \<in> set seen
              \<or> \<not> oneOf (ii_Lifecycle i) [''active'', ''failed'', ''reclaimed'']
              \<or> \<not> oneOf (ii_Process i) [''running'', ''stopped'', ''unknown'']
              \<or> \<not> oneOf (ii_Cleanup i) [''pending'', ''failed'', ''complete'']
              \<or> ii_CurrentOperationID i \<noteq> [] \<and> \<not> coreTokenPattern (ii_CurrentOperationID i))
       (Invalid ''invalid inventory instance'') (
     rejectE (ii_Lifecycle i = ''reclaimed'' \<and> ii_Process i = ''stopped'' \<and> ii_Cleanup i = ''complete'')
       (Invalid ''terminal instance in active inventory'')
       (instances_loop (ii_InstanceID i # seen) is))"

definition InventoryReport_Validate :: "InventoryReport \<Rightarrow> unit res" where
  "InventoryReport_Validate r =
     rejectE (ir_ScanID r = [] \<or> 128 < length (ir_ScanID r) \<or> \<not> coreTokenPattern (ir_ScanID r)
              \<or> 4096 < length (ir_Instances r)) (Invalid ''invalid inventory scan'') (
     rejectE (ir_Complete r = (ir_ErrorCode r \<noteq> []) \<or> \<not> ir_Complete r \<and> ir_Instances r \<noteq> [])
       (Invalid ''invalid inventory completeness'') (
     rejectE (ir_ErrorCode r \<noteq> [] \<and> \<not> coreTokenPattern (ir_ErrorCode r)) (Invalid ''invalid inventory error'')
       (instances_loop [] (ir_Instances r))))"

end
