(* ===== verification/NetJoin.thy ===== *)
theory NetJoin
  imports Heartbeat
begin

text \<open>
  How the Controller turns the port of a running instance into join information
  (\<open>internal/controller/network/join.go\<close>), and what validated contract messages guarantee.  The
  validation loops of the contract all refuse repeated keys in the same way; the locale
  \<open>seen_loop\<close> states that contract once and its instances characterise every loop.
\<close>

section \<open>Loops that refuse repeated keys\<close>

locale seen_loop =
  fixes key :: "'x \<Rightarrow> 'k"
    and ok :: "'x \<Rightarrow> bool"
    and loop :: "'k list \<Rightarrow> 'x list \<Rightarrow> unit res"
  assumes loop_Nil: "loop seen [] = Inr ()"
    and loop_Cons: "loop seen (x # xs) = Inr () \<longleftrightarrow> ok x \<and> key x \<notin> set seen \<and> loop (key x # seen) xs = Inr ()"
begin

lemma loop_iff:
  "loop seen xs = Inr () \<longleftrightarrow>
     (\<forall>x \<in> set xs. ok x) \<and> distinct (map key xs) \<and> set seen \<inter> key ` set xs = {}"
proof (induction xs arbitrary: seen)
  case Nil
  then show ?case by (simp add: loop_Nil)
next
  case (Cons x xs)
  then show ?case by (simp add: loop_Cons) blast
qed

lemma loop_start_iff: "loop [] xs = Inr () \<longleftrightarrow> (\<forall>x \<in> set xs. ok x) \<and> distinct (map key xs)"
  by (simp add: loop_iff)

end

definition template_ok :: "TemplateFact \<Rightarrow> bool" where
  "template_ok f \<longleftrightarrow> tfa_BindingKey f \<noteq> [] \<and> length (tfa_BindingKey f) \<le> 128
     \<and> \<not> contains_any (tfa_BindingKey f) [CHR 13, CHR 10, CHR 0x00]
     \<and> (if tfa_State f = FConfirmed
        then tfa_ManifestAlgorithm f = TemplateManifestAlgorithmV1 \<and> revisionPattern (tfa_FingerprintSHA256 f)
        else tfa_State f = FUnknown \<and> tfa_ManifestAlgorithm f = [] \<and> tfa_FingerprintSHA256 f = [])"

definition content_ok :: "ContentFact \<Rightarrow> bool" where
  "content_ok c \<longleftrightarrow> ValidWorkshop (cf_WorkshopID c)
     \<and> (cf_State c = FConfirmed \<and> cf_ContentVersionID c \<noteq> [] \<or> cf_State c = FUnknown)
     \<and> length (cf_ContentVersionID c) \<le> 128
     \<and> \<not> contains_any (cf_ContentVersionID c) [CHR 13, CHR 10, CHR 0x00]
     \<and> (cf_VPKSHA256 c \<noteq> [] \<longrightarrow> cf_State c = FConfirmed \<and> revisionPattern (cf_VPKSHA256 c))"

definition instance_ok :: "InventoryInstance \<Rightarrow> bool" where
  "instance_ok i \<longleftrightarrow> coreTokenPattern (ii_InstanceID i)
     \<and> ii_Lifecycle i \<in> {''active'', ''failed'', ''reclaimed''}
     \<and> ii_Process i \<in> {''running'', ''stopped'', ''unknown''}
     \<and> ii_Cleanup i \<in> {''pending'', ''failed'', ''complete''}
     \<and> (ii_CurrentOperationID i \<noteq> [] \<longrightarrow> coreTokenPattern (ii_CurrentOperationID i))
     \<and> \<not> (ii_Lifecycle i = ''reclaimed'' \<and> ii_Process i = ''stopped'' \<and> ii_Cleanup i = ''complete'')"

definition mapping_ok :: "int \<Rightarrow> int \<Rightarrow> PortMapping \<Rightarrow> bool" where
  "mapping_ok lo hi m \<longleftrightarrow> lo \<le> pm_local m \<and> pm_local m \<le> hi \<and> 1 \<le> pm_public m \<and> pm_public m \<le> 65535"

interpretation caps: seen_loop "\<lambda>c. c" "\<lambda>c. c \<in> set known_capabilities" capabilities_loop
  by unfold_locales (auto simp: rejectE_Inr)

interpretation tmpl: seen_loop tfa_BindingKey template_ok templates_loop
  by unfold_locales (auto simp: rejectE_Inr template_ok_def)

interpretation content: seen_loop cf_WorkshopID content_ok content_loop
  by unfold_locales (auto simp: rejectE_Inr content_ok_def)

interpretation inventory: seen_loop ii_InstanceID instance_ok instances_loop
  by unfold_locales (auto simp: rejectE_Inr instance_ok_def oneOf_def)

text \<open>The mapping loop refuses repeated local and repeated public ports.\<close>

lemma mappings_loop_iff:
  "mappings_loop lo hi ls ps ms = Inr () \<longleftrightarrow>
     (\<forall>m \<in> set ms. mapping_ok lo hi m) \<and> distinct (map pm_local ms) \<and> distinct (map pm_public ms)
     \<and> set ls \<inter> pm_local ` set ms = {} \<and> set ps \<inter> pm_public ` set ms = {}"
  by (induction ms arbitrary: ls ps) (auto simp: rejectE_Inr mapping_ok_def)

section \<open>Validated network facts\<close>

lemma validate_network:
  "NetworkFacts_Validate n hm = Inr () \<longleftrightarrow>
     0 \<le> hm \<and> validConnectHost (nf_ConnectHost n)
     \<and> (nf_ProtocolIP n = [] \<or> ParseIP (nf_ProtocolIP n))
     \<and> 1 \<le> nf_LocalPortMin n \<and> nf_LocalPortMin n \<le> nf_LocalPortMax n \<and> nf_LocalPortMax n \<le> 65535
     \<and> nf_LocalPortMax n - nf_LocalPortMin n + 1 \<le> 4096
     \<and> hm \<le> nf_LocalPortMax n - nf_LocalPortMin n + 1
     \<and> (nf_MappingMode n = MIdentity \<and> nf_Mappings n = []
        \<or> nf_MappingMode n = MExplicit
          \<and> int (length (nf_Mappings n)) = nf_LocalPortMax n - nf_LocalPortMin n + 1
          \<and> mappings_loop (nf_LocalPortMin n) (nf_LocalPortMax n) [] [] (nf_Mappings n) = Inr ())"
  by (auto simp: NetworkFacts_Validate_def rejectE_Inr Let_def split: if_splits)

text \<open>
  As many distinct local ports as the range has, all inside it, are the whole range: a complete
  explicit mapping.
\<close>

lemma distinct_fills_range:
  assumes "distinct (map f xs)" "\<forall>x \<in> set xs. lo \<le> f x \<and> f x \<le> (hi::int)"
    and "int (length xs) = hi - lo + 1"
  shows "f ` set xs = {lo..hi}"
proof (rule card_subset_eq)
  show "f ` set xs \<subseteq> {lo..hi}" using assms(2) by auto
  have "card (f ` set xs) = length xs"
    using assms(1) by (metis distinct_card length_map list.set_map)
  then show "card (f ` set xs) = card {lo..hi}" using assms(3) by simp
qed simp

lemma validated_locals:
  assumes "NetworkFacts_Validate n hm = Inr ()" "nf_MappingMode n = MExplicit"
  shows "pm_local ` set (nf_Mappings n) = {nf_LocalPortMin n .. nf_LocalPortMax n}"
    and "distinct (map pm_local (nf_Mappings n))" and "distinct (map pm_public (nf_Mappings n))"
    and "\<forall>m \<in> set (nf_Mappings n). 1 \<le> pm_public m \<and> pm_public m \<le> 65535"
proof -
  have all: "\<forall>m \<in> set (nf_Mappings n). mapping_ok (nf_LocalPortMin n) (nf_LocalPortMax n) m"
    and dist: "distinct (map pm_local (nf_Mappings n))" "distinct (map pm_public (nf_Mappings n))"
    and len: "int (length (nf_Mappings n)) = nf_LocalPortMax n - nf_LocalPortMin n + 1"
    using assms by (auto simp: validate_network mappings_loop_iff)
  show "pm_local ` set (nf_Mappings n) = {nf_LocalPortMin n .. nf_LocalPortMax n}"
    using distinct_fills_range [OF dist(1) _ len] all by (simp add: mapping_ok_def)
  show "distinct (map pm_local (nf_Mappings n))" "distinct (map pm_public (nf_Mappings n))"
    by (fact dist)+
  show "\<forall>m \<in> set (nf_Mappings n). 1 \<le> pm_public m \<and> pm_public m \<le> 65535"
    using all by (simp add: mapping_ok_def)
qed

section \<open>Join information for an instance port\<close>

definition public_port :: "NetworkFacts \<Rightarrow> int \<Rightarrow> int" where
  "public_port facts p = (case nf_MappingMode facts of
      MIdentity \<Rightarrow> p
    | MExplicit \<Rightarrow> (case find (\<lambda>m. pm_local m = p) (nf_Mappings facts) of
                     Some m \<Rightarrow> pm_public m | None \<Rightarrow> 0)
    | MOther _ \<Rightarrow> 0)"

definition network_JoinInfo :: "NetworkFacts \<Rightarrow> int \<Rightarrow> JoinInfo option \<times> string" where
  "network_JoinInfo facts p =
     (if p < nf_LocalPortMin facts \<or> nf_LocalPortMax facts < p then (None, ''PORT_MAPPING_UNAVAILABLE'')
      else if public_port facts p < 1 \<or> 65535 < public_port facts p then (None, ''PORT_MAPPING_UNAVAILABLE'')
      else (let join = \<lparr>ji_LocalPort = p, ji_PublicPort = public_port facts p,
                 ji_ConnectHost = nf_ConnectHost facts, ji_ProtocolIP = nf_ProtocolIP facts,
                 ji_EntryConfigRevision = EntryConfigRevision facts\<rparr>
            in if \<not> okE (JoinInfo_Validate join) then (None, ''NETWORK_CONFIG_INVALID'') else (Some join, [])))"

lemma revision_of_digest: "revisionPattern (sha256_hex m)"
proof -
  have "set (sha256_hex m) \<subseteq> set hex_digits"
    unfolding sha256_hex_def by (rule set_hex_encode)
  then show ?thesis by (auto simp: revisionPattern_def is_lower_hex_def list_all_iff)
qed

lemma revision_of_config: "revisionPattern (EntryConfigRevision n)"
  unfolding EntryConfigRevision_def Let_def by (rule revision_of_digest)

lemma public_port_explicit:
  assumes "NetworkFacts_Validate n hm = Inr ()" "nf_MappingMode n = MExplicit"
    and "nf_LocalPortMin n \<le> p" "p \<le> nf_LocalPortMax n"
  obtains m where "m \<in> set (nf_Mappings n)" "pm_local m = p" "public_port n p = pm_public m"
proof -
  have "p \<in> pm_local ` set (nf_Mappings n)"
    using validated_locals(1) [OF assms(1,2)] assms(3,4) by simp
  then obtain m where "find (\<lambda>m. pm_local m = p) (nf_Mappings n) = Some m"
    by (cases "find (\<lambda>m. pm_local m = p) (nf_Mappings n)") (auto simp: find_None_iff)
  with that assms(2) find_SomeD [OF this] show thesis by (auto simp: public_port_def)
qed

lemma public_port_range:
  assumes "NetworkFacts_Validate n hm = Inr ()" "nf_LocalPortMin n \<le> p" "p \<le> nf_LocalPortMax n"
  shows "1 \<le> public_port n p" "public_port n p \<le> 65535" "public_port n p \<in> set (PublicPorts n)"
proof -
  consider "nf_MappingMode n = MIdentity" | "nf_MappingMode n = MExplicit"
    using assms(1) by (auto simp: validate_network)
  then have "1 \<le> public_port n p \<and> public_port n p \<le> 65535 \<and> public_port n p \<in> set (PublicPorts n)"
  proof cases
    case 1
    with assms show ?thesis by (auto simp: validate_network public_port_def PublicPorts_def)
  next
    case 2
    then obtain m where "m \<in> set (nf_Mappings n)" "public_port n p = pm_public m"
      using public_port_explicit assms by metis
    with validated_locals(4) [OF assms(1) 2] 2 show ?thesis by (auto simp: PublicPorts_def)
  qed
  then show "1 \<le> public_port n p" "public_port n p \<le> 65535" "public_port n p \<in> set (PublicPorts n)"
    by auto
qed

lemma network_join_ok:
  assumes "NetworkFacts_Validate n hm = Inr ()" "nf_LocalPortMin n \<le> p" "p \<le> nf_LocalPortMax n"
  shows "network_JoinInfo n p =
    (Some \<lparr>ji_LocalPort = p, ji_PublicPort = public_port n p, ji_ConnectHost = nf_ConnectHost n,
           ji_ProtocolIP = nf_ProtocolIP n, ji_EntryConfigRevision = EntryConfigRevision n\<rparr>, [])"
  using assms public_port_range [OF assms] revision_of_config [of n]
  by (auto simp: network_JoinInfo_def Let_def okE_iff JoinInfo_Validate_def rejectE_Inr validate_network)

lemma network_join_valid:
  "network_JoinInfo n p = (Some j, e) \<Longrightarrow> JoinInfo_Validate j = Inr () \<and> ji_LocalPort j = p \<and> e = []"
  by (auto simp: network_JoinInfo_def Let_def okE_iff split: if_splits)

end
