(* ===== verification/Schema.thy ===== *)
theory Schema
  imports NetJoin
begin

text \<open>
  The PostgreSQL state of the platform (\<open>internal/platform/store/migrations\<close>): one record per
  table row, one list of rows per table, and the row and index constraints that a statement must
  satisfy.  A nullable column is an \<open>option\<close>, a column restricted by CHECK to fixed names is a
  datatype, a \<open>uuid\<close> is its 128-bit value (PostgreSQL orders uuids by it) and a time stamp is a number of
  nanoseconds.  Only the columns that an operation reads or that record an outcome are kept.
\<close>

type_synonym uuid = nat
type_synonym time = int

definition second :: time where "second = 1000000000"
definition minute :: time where "minute = 60 * second"
definition hour :: time where "hour = 60 * minute"

section \<open>Catalogue, nodes and their reported facts\<close>

record settings_row =
  st_accepting :: bool
  st_message :: string
  st_max_party_size :: "int option"
  st_quarantine_after :: time

record game_row =
  gm_id :: uuid
  gm_workshop :: string
  gm_enabled :: bool
  gm_accepting :: bool
  gm_message :: string
  gm_content :: "string option"

record content_row =
  cv_id :: string
  cv_game :: uuid
  cv_sha256 :: string

datatype contract = LegacyContract | V102Contract

record preset_row =
  ps_id :: uuid
  ps_game :: uuid
  ps_enabled :: bool
  ps_accepting :: bool
  ps_message :: string
  ps_max_players :: int
  ps_revision :: string
  ps_contract :: contract

record node_row =
  nd_id :: uuid
  nd_display_name :: string
  nd_enabled :: bool
  nd_accepting :: bool
  nd_draining :: bool
  nd_heartbeat :: "time option"
  nd_desired :: int
  nd_priority :: int
  nd_os :: string
  nd_secret :: "int list"

record report_row =
  nr_node :: uuid
  nr_hard_max :: int
  nr_compatible :: bool
  nr_capabilities :: "string list"
  nr_inventory_scan :: "string option"
  nr_inventory_confirmed :: bool
  nr_controller_version :: string
  nr_api_version :: int
  nr_core_version :: string
  nr_core_commit :: string
  nr_core_protocol :: int
  nr_network :: NetworkFacts
  nr_content :: "ContentFact list"
  nr_reported :: time

record template_binding_row =
  tb_node :: uuid
  tb_revision :: string
  tb_key :: string
  tb_fingerprint :: "string option"
  tb_generation :: int

record template_fact_row =
  tf_node :: uuid
  tf_revision :: string
  tf_key :: "string option"
  tf_algorithm :: "string option"
  tf_confirmed :: bool
  tf_fingerprint :: "string option"
  tf_fact_revision :: int
  tf_received :: "time option"

record content_binding_row =
  cb_node :: uuid
  cb_game :: uuid
  cb_version :: "string option"
  cb_confirmed :: bool
  cb_sha256 :: "string option"
  cb_reported_at :: "time option"
  cb_accepting :: bool
  cb_epoch :: int
  cb_fact_revision :: int

record entry_row =
  en_node :: uuid
  en_revision :: string
  en_steam_verified :: bool
  en_steam_enabled :: bool
  en_china_verified :: bool
  en_china_enabled :: bool
  en_a2s_enabled :: bool
  en_a2s_ok :: bool
  en_steam_at :: "time option"
  en_steam_by :: "uuid option"
  en_china_at :: "time option"
  en_china_by :: "uuid option"
  en_reported :: time

record diagnostic_row =
  dg_node :: uuid
  dg_instance :: string
  dg_port :: int
  dg_status :: string
  dg_checked :: time
  dg_reported :: time

record reconcile_row =
  rc_node :: uuid
  rc_requested :: int
  rc_completed :: int
  rc_requested_at :: "time option"
  rc_completed_at :: "time option"

record snapshot_row =
  sn_node :: uuid
  sn_scan :: string
  sn_complete :: bool
  sn_confirmed :: bool
  sn_received :: time
  sn_instances :: int
  sn_unaccounted :: "string list"

section \<open>Users and parties\<close>

record party_row =
  pa_id :: uuid
  pa_leader :: "uuid option"
  pa_created :: time
  pa_dissolved :: "time option"

record member_row =
  mb_party :: uuid
  mb_user :: uuid
  mb_leader :: bool
  mb_joined :: time

record invite_row =
  iv_id :: uuid
  iv_party :: uuid
  iv_hash :: "int list"
  iv_token :: string
  iv_revoked :: "time option"

section \<open>Requests, allocations and node jobs\<close>

datatype req_state =
    RWaiting | RAllocating | RCreating | RRunning | RStopping | REnded | RCancelled | RUnavailable
  | RFailedUnreclaimed | RQuarantined | RAbandoned

datatype sel_mode = SelAuto | SelManual | SelOther string

record request_row =
  rq_id :: uuid
  rq_user :: "uuid option"
  rq_party :: "uuid option"
  rq_game :: uuid
  rq_preset :: uuid
  rq_state :: req_state
  rq_requested :: time
  rq_updated :: time
  rq_mode :: sel_mode
  rq_manual :: "uuid option"
  rq_abandoned :: "time option"

datatype alloc_state =
    AReserved | ACreateUnknown | ACreating | ARunning | AStopping | AFailedUnreclaimed | AQuarantined
  | AReclaimed | AReleasedNoEffect

record alloc_row =
  al_id :: uuid
  al_request :: "uuid option"
  al_run :: "uuid option"
  al_game :: uuid
  al_sequence :: int
  al_node :: uuid
  al_content :: string
  al_revision :: string
  al_state :: alloc_state
  al_assigned :: time
  al_create_started :: "time option"
  al_ready :: "time option"
  al_join_at :: "time option"
  al_reclaimed :: "time option"
  al_quarantined :: "time option"
  al_error :: "string option"
  al_local_port :: "int option"
  al_public_port :: "int option"
  al_host :: "string option"
  al_protocol_ip :: "string option"
  al_join_revision :: "string option"
  al_join_error :: "string option"

datatype capability = LegacyV1 | ContentValidationV102

fun capability_text :: "capability \<Rightarrow> string" where
  "capability_text LegacyV1 = ''legacy_v1''"
| "capability_text ContentValidationV102 = ''content_validation_v102''"

record job_row =
  jb_id :: uuid
  jb_node :: uuid
  jb_kind :: job_kind
  jb_state :: job_state
  jb_integration :: bool
  jb_alloc :: "uuid option"
  jb_instance :: "string option"
  jb_operation :: "string option"
  jb_error :: "string option"
  jb_stage :: "string option"
  jb_created :: time
  jb_claimed :: "time option"
  jb_binding_key :: "string option"
  jb_port :: int
  jb_capability :: capability
  jb_fingerprint :: "string option"
  jb_generation :: "int option"
  jb_workshop :: "string option"
  jb_content :: "string option"
  jb_vpk_sha256 :: "string option"

record execution_row =
  ex_job :: uuid
  ex_key :: string
  ex_template :: string
  ex_port :: int
  ex_fingerprint :: string
  ex_prepared :: time
  ex_capability :: capability
  ex_algorithm :: "string option"
  ex_manifest :: "string option"

record job_report_row =
  jr_job :: uuid
  jr_state :: job_state
  jr_instance :: "string option"
  jr_operation :: "string option"
  jr_error :: "string option"
  jr_stage :: "string option"

datatype intent_state = IPending | IPaused | IConsumed

record intent_row =
  ni_source :: uuid
  ni_alloc :: uuid
  ni_state :: intent_state
  ni_new :: "uuid option"
  ni_consumed :: "time option"
  ni_failure :: "string option"

record fact_row =
  fa_alloc :: uuid
  fa_instance :: string
  fa_outcome :: string
  fa_lifecycle :: string
  fa_process :: string
  fa_cleanup :: string
  fa_port :: int

section \<open>Validation runs\<close>

datatype run_state =
    VCreatePending | VCreateObserving | VCreateUnknown | VReadyNoJoin | VAwaitingHuman
  | VCleanupRequired | VStopPending | VReclaimObserving | VStopUnknown | VQuarantined | VPassed | VFailed

datatype human_result = HPending | HPass | HFail

record run_row =
  vr_id :: uuid
  vr_admin :: uuid
  vr_node :: uuid
  vr_game :: uuid
  vr_preset :: uuid
  vr_content :: string
  vr_sha256 :: string
  vr_revision :: string
  vr_key :: string
  vr_fingerprint :: string
  vr_generation :: int
  vr_epoch :: int
  vr_content_fact :: int
  vr_template_fact :: int
  vr_state :: run_state
  vr_failure :: "string option"
  vr_result :: "string option"
  vr_human :: human_result
  vr_human_by :: "uuid option"
  vr_human_at :: "time option"
  vr_ready :: "time option"
  vr_join_at :: "time option"
  vr_passed :: "time option"
  vr_created :: time

section \<open>Administrators and their idempotency records\<close>

record admin_row =
  ad_id :: uuid
  ad_enabled :: bool
  ad_username :: string
  ad_password :: string
  ad_version :: int

record session_row =
  se_id :: uuid
  se_owner :: uuid
  se_hash :: "int list"
  se_version :: int
  se_expires :: time
  se_revoked :: "time option"

record maint_row =
  mq_request :: string
  mq_node :: uuid
  mq_game :: uuid
  mq_epoch :: int
  mq_admin :: uuid
  mq_reason :: string

record i3_row =
  iq_action :: string
  iq_request :: string
  iq_hash :: string
  iq_result :: uuid
  iq_admin :: uuid

section \<open>Content validation by hand and releases\<close>

record content_validation_row =
  cl_node :: uuid
  cl_game :: uuid
  cl_content :: string
  cl_by :: uuid
  cl_at :: time

record release_row =
  rl_id :: uuid
  rl_game :: uuid
  rl_old :: "string option"
  rl_new :: string
  rl_by :: uuid
  rl_rollback :: "uuid option"

record release_preset_row =
  lp_release :: uuid
  lp_game :: uuid
  lp_preset :: uuid
  lp_old_revision :: string
  lp_new_revision :: string
  lp_old_accepting :: bool
  lp_new_accepting :: bool
  lp_run :: "uuid option"
  lp_node :: "uuid option"

section \<open>The database\<close>

text \<open>\<open>se_version\<close> is the \<open>credential_version\<close> of an administrator's session; a player's session has
  none and keeps 0.  \<open>audit\<close> keeps the actor kind, the action and the identifiers of the target;
  \<open>revisions\<close> the pairs of a template revision and its game.\<close>

record db =
  settings :: settings_row
  users :: "uuid list"
  games :: "game_row list"
  contents :: "content_row list"
  presets :: "preset_row list"
  nodes :: "node_row list"
  reports :: "report_row list"
  template_bindings :: "template_binding_row list"
  template_facts :: "template_fact_row list"
  content_bindings :: "content_binding_row list"
  entries :: "entry_row list"
  snapshots :: "snapshot_row list"
  parties :: "party_row list"
  members :: "member_row list"
  invites :: "invite_row list"
  requests :: "request_row list"
  allocs :: "alloc_row list"
  jobs :: "job_row list"
  executions :: "execution_row list"
  job_reports :: "job_report_row list"
  intents :: "intent_row list"
  facts :: "fact_row list"
  runs :: "run_row list"
  audit :: "(string \<times> string \<times> uuid list) list"
  admins :: "admin_row list"
  revisions :: "(string \<times> uuid) list"
  maint_requests :: "maint_row list"
  i3_requests :: "i3_row list"
  announcement :: string
  diagnostics :: "diagnostic_row list"
  reconciles :: "reconcile_row list"
  content_validations :: "content_validation_row list"
  releases :: "release_row list"
  release_presets :: "release_preset_row list"
  user_sessions :: "session_row list"
  admin_sessions :: "session_row list"

section \<open>State classes used by the queries\<close>

definition blocking :: "req_state \<Rightarrow> bool" where
  "blocking s \<longleftrightarrow> s \<in> {RWaiting, RAllocating, RCreating, RRunning, RStopping, RFailedUnreclaimed, RQuarantined}"

definition terminal_alloc :: "alloc_state \<Rightarrow> bool" where
  "terminal_alloc s \<longleftrightarrow> s \<in> {AReclaimed, AReleasedNoEffect}"

definition open_job :: "job_state \<Rightarrow> bool" where
  "open_job s \<longleftrightarrow> s \<in> {JPending, JClaimed, JAccepted, JUnknown}"

definition unresolved_job :: "job_state \<Rightarrow> bool" where
  "unresolved_job s \<longleftrightarrow> s \<in> {JClaimed, JAccepted, JUnknown}"

definition terminal_job :: "job_state \<Rightarrow> bool" where
  "terminal_job s \<longleftrightarrow> s \<in> {JSucceeded, JRejectedNoEffect, JFailedWithEffect}"

section \<open>Constraints\<close>

definition request_check :: "request_row \<Rightarrow> bool" where
  "request_check r \<longleftrightarrow>
     (rq_user r = None) \<noteq> (rq_party r = None)
     \<and> (rq_mode r = SelAuto \<and> rq_manual r = None \<or> rq_mode r = SelManual \<and> rq_manual r \<noteq> None)
     \<and> ((rq_state r = RAbandoned) = (rq_abandoned r \<noteq> None))"

definition blocking_user :: "request_row \<Rightarrow> uuid option" where
  "blocking_user r = (if blocking (rq_state r) then rq_user r else None)"

definition blocking_party :: "request_row \<Rightarrow> uuid option" where
  "blocking_party r = (if blocking (rq_state r) then rq_party r else None)"

definition requests_ok :: "request_row list \<Rightarrow> bool" where
  "requests_ok rs \<longleftrightarrow> distinct (map rq_id rs) \<and> list_all request_check rs
     \<and> unique_on blocking_user rs \<and> unique_on blocking_party rs"

definition alloc_check :: "alloc_row \<Rightarrow> bool" where
  "alloc_check a \<longleftrightarrow>
     (al_request a = None) \<noteq> (al_run a = None)
     \<and> (al_run a \<noteq> None \<longrightarrow> al_sequence a = 1) \<and> 0 < al_sequence a
     \<and> (al_join_at a \<noteq> None \<longrightarrow> al_ready a \<noteq> None \<and> al_local_port a \<noteq> None \<and> al_public_port a \<noteq> None
          \<and> al_host a \<noteq> None \<and> al_join_revision a \<noteq> None \<and> al_join_error a = None)"

definition attempt_key :: "alloc_row \<Rightarrow> (uuid \<times> int) option" where
  "attempt_key a = map_option (\<lambda>r. (r, al_sequence a)) (al_request a)"

definition active_request :: "alloc_row \<Rightarrow> uuid option" where
  "active_request a = (if terminal_alloc (al_state a) then None else al_request a)"

definition allocs_ok :: "alloc_row list \<Rightarrow> bool" where
  "allocs_ok as \<longleftrightarrow> distinct (map al_id as) \<and> list_all alloc_check as
     \<and> unique_on attempt_key as \<and> unique_on active_request as \<and> unique_on al_run as"

definition job_check :: "job_row \<Rightarrow> bool" where
  "job_check j \<longleftrightarrow> jb_kind j \<in> {KCreate, KStop}
     \<and> (open_job (jb_state j) \<or> terminal_job (jb_state j))
     \<and> (jb_integration j = (jb_alloc j = None))
     \<and> (jb_kind j = KStop \<longrightarrow> jb_binding_key j = None)
     \<and> 0 \<le> jb_port j \<and> jb_port j \<le> 65535
     \<and> (jb_kind j = KCreate \<and> jb_capability j = ContentValidationV102 \<longrightarrow>
          some_and revisionPattern (jb_fingerprint j) \<and> some_and (\<lambda>g. 0 < g) (jb_generation j)
          \<and> some_and (\<lambda>w. w \<noteq> []) (jb_workshop j) \<and> some_and (\<lambda>c. c \<noteq> []) (jb_content j)
          \<and> some_and revisionPattern (jb_vpk_sha256 j))"

definition create_slot :: "job_row \<Rightarrow> uuid option" where
  "create_slot j = (if jb_kind j = KCreate then jb_alloc j else None)"

definition open_stop_slot :: "job_row \<Rightarrow> uuid option" where
  "open_stop_slot j = (if jb_kind j = KStop \<and> open_job (jb_state j) then jb_alloc j else None)"

definition jobs_ok :: "job_row list \<Rightarrow> bool" where
  "jobs_ok js \<longleftrightarrow> distinct (map jb_id js) \<and> list_all job_check js
     \<and> unique_on create_slot js \<and> unique_on open_stop_slot js"

definition intent_check :: "intent_row \<Rightarrow> bool" where
  "intent_check i \<longleftrightarrow> ((ni_state i = IConsumed) = (ni_new i \<noteq> None)) \<and> ((ni_state i = IConsumed) = (ni_consumed i \<noteq> None))"

definition intents_ok :: "intent_row list \<Rightarrow> bool" where
  "intents_ok is \<longleftrightarrow> distinct (map ni_source is) \<and> distinct (map ni_alloc is)
     \<and> list_all intent_check is \<and> unique_on ni_new is"

definition run_check :: "run_row \<Rightarrow> bool" where
  "run_check v \<longleftrightarrow> ((vr_human v = HPending) = (vr_human_by v = None)) \<and> ((vr_human v = HPending) = (vr_human_at v = None))
     \<and> ((vr_state v = VPassed) = (vr_passed v \<noteq> None)) \<and> (vr_state v = VPassed \<longrightarrow> vr_human v = HPass)
     \<and> 0 < vr_epoch v \<and> 0 < vr_generation v \<and> 0 < vr_content_fact v \<and> 0 < vr_template_fact v"

definition runs_ok :: "run_row list \<Rightarrow> bool" where
  "runs_ok vs \<longleftrightarrow> distinct (map vr_id vs) \<and> list_all run_check vs"

definition executions_ok :: "execution_row list \<Rightarrow> bool" where
  "executions_ok es \<longleftrightarrow> distinct (map ex_job es) \<and> distinct (map ex_key es)
     \<and> list_all (\<lambda>e. ex_template e \<noteq> [] \<and> 0 \<le> ex_port e \<and> ex_port e \<le> 65535
          \<and> (ex_algorithm e = None) = (ex_manifest e = None)
          \<and> (ex_capability e = LegacyV1
             \<or> ex_algorithm e = Some TemplateManifestAlgorithmV1 \<and> ex_manifest e \<noteq> None)) es"

definition members_ok :: "member_row list \<Rightarrow> bool" where
  "members_ok ms \<longleftrightarrow> distinct (map mb_user ms)
     \<and> unique_on (\<lambda>m. if mb_leader m then Some (mb_party m) else None) ms"

definition parties_ok :: "party_row list \<Rightarrow> bool" where
  "parties_ok ps \<longleftrightarrow> distinct (map pa_id ps)
     \<and> list_all (\<lambda>p. (pa_dissolved p = None) = (pa_leader p \<noteq> None)) ps"

definition current_invite :: "invite_row \<Rightarrow> uuid option" where
  "current_invite i = (if iv_revoked i = None then Some (iv_party i) else None)"

definition invites_ok :: "invite_row list \<Rightarrow> bool" where
  "invites_ok is \<longleftrightarrow> distinct (map iv_id is) \<and> distinct (map iv_hash is)
     \<and> list_all (\<lambda>i. length (iv_hash i) = 32 \<and> length (iv_token i) = 43) is \<and> unique_on current_invite is"

section \<open>Statements that write a constrained table\<close>

definition put_requests :: "request_row list \<Rightarrow> db \<Rightarrow> db res" where
  "put_requests rs d = rejectE (\<not> requests_ok rs) (Constraint ''server_requests'') (Inr (d\<lparr>requests := rs\<rparr>))"

definition put_allocs :: "alloc_row list \<Rightarrow> db \<Rightarrow> db res" where
  "put_allocs as d = rejectE (\<not> allocs_ok as) (Constraint ''allocations'') (Inr (d\<lparr>allocs := as\<rparr>))"

definition put_jobs :: "job_row list \<Rightarrow> db \<Rightarrow> db res" where
  "put_jobs js d = rejectE (\<not> jobs_ok js) (Constraint ''node_jobs'') (Inr (d\<lparr>jobs := js\<rparr>))"

definition put_intents :: "intent_row list \<Rightarrow> db \<Rightarrow> db res" where
  "put_intents is d = rejectE (\<not> intents_ok is) (Constraint ''next_game_intents'') (Inr (d\<lparr>intents := is\<rparr>))"

definition put_runs :: "run_row list \<Rightarrow> db \<Rightarrow> db res" where
  "put_runs vs d = rejectE (\<not> runs_ok vs) (Constraint ''validation_runs'') (Inr (d\<lparr>runs := vs\<rparr>))"

definition put_executions :: "execution_row list \<Rightarrow> db \<Rightarrow> db res" where
  "put_executions es d = rejectE (\<not> executions_ok es) (Constraint ''node_job_executions'') (Inr (d\<lparr>executions := es\<rparr>))"

definition put_members :: "member_row list \<Rightarrow> db \<Rightarrow> db res" where
  "put_members ms d = rejectE (\<not> members_ok ms) (Constraint ''party_members'') (Inr (d\<lparr>members := ms\<rparr>))"

definition put_parties :: "party_row list \<Rightarrow> db \<Rightarrow> db res" where
  "put_parties ps d = rejectE (\<not> parties_ok ps) (Constraint ''parties'') (Inr (d\<lparr>parties := ps\<rparr>))"

definition put_invites :: "invite_row list \<Rightarrow> db \<Rightarrow> db res" where
  "put_invites is d = rejectE (\<not> invites_ok is) (Constraint ''party_invites'') (Inr (d\<lparr>invites := is\<rparr>))"

text \<open>The deferred foreign key of \<open>parties\<close>, checked when the transaction commits.\<close>

definition party_leader_fk :: "db \<Rightarrow> bool" where
  "party_leader_fk d \<longleftrightarrow> (\<forall>p \<in> set (parties d). case pa_leader p of
       None \<Rightarrow> True
     | Some u \<Rightarrow> exists_where (\<lambda>m. mb_party m = pa_id p \<and> mb_user m = u \<and> mb_leader m) (members d))"

definition commit_parties :: "db \<Rightarrow> db res" where
  "commit_parties d = rejectE (\<not> party_leader_fk d) (Constraint ''party_leader'') (Inr d)"

lemmas put_defs =
  put_requests_def put_allocs_def put_jobs_def put_intents_def put_runs_def put_executions_def
  put_members_def put_parties_def put_invites_def

lemma put_Inr [result_simps]:
  "put_requests rs d = Inr d' \<longleftrightarrow> requests_ok rs \<and> d' = d\<lparr>requests := rs\<rparr>"
  "put_allocs as d = Inr d' \<longleftrightarrow> allocs_ok as \<and> d' = d\<lparr>allocs := as\<rparr>"
  "put_jobs js d = Inr d' \<longleftrightarrow> jobs_ok js \<and> d' = d\<lparr>jobs := js\<rparr>"
  "put_intents is d = Inr d' \<longleftrightarrow> intents_ok is \<and> d' = d\<lparr>intents := is\<rparr>"
  "put_runs vs d = Inr d' \<longleftrightarrow> runs_ok vs \<and> d' = d\<lparr>runs := vs\<rparr>"
  "put_executions es d = Inr d' \<longleftrightarrow> executions_ok es \<and> d' = d\<lparr>executions := es\<rparr>"
  "put_members ms d = Inr d' \<longleftrightarrow> members_ok ms \<and> d' = d\<lparr>members := ms\<rparr>"
  "put_parties ps d = Inr d' \<longleftrightarrow> parties_ok ps \<and> d' = d\<lparr>parties := ps\<rparr>"
  "put_invites iv d = Inr d' \<longleftrightarrow> invites_ok iv \<and> d' = d\<lparr>invites := iv\<rparr>"
  "commit_parties d = Inr d' \<longleftrightarrow> party_leader_fk d \<and> d' = d"
  by (auto simp: put_defs commit_parties_def rejectE_Inr)

end
