(* ===== verification/Eligibility.thy ===== *)
theory Eligibility
  imports Schema
begin

text \<open>
  The one predicate that scheduling and player reads share
  (\<open>internal/platform/store/node_eligibility.go\<close>) and the node capacity counters
  (\<open>internal/platform/store/capacity.go\<close>).
\<close>

section \<open>Connectivity\<close>

datatype connectivity = Online | Stale | Offline

definition nodeOnlineWindow :: time where "nodeOnlineWindow = 2 * minute"
definition nodeOfflineWindow :: time where "nodeOfflineWindow = 5 * minute"

definition NodeConnectivity :: "time option \<Rightarrow> time \<Rightarrow> connectivity" where
  "NodeConnectivity hb now = (case hb of
      None \<Rightarrow> Offline
    | Some l \<Rightarrow>
        if nodeOfflineWindow \<le> now - l then Offline
        else if nodeOnlineWindow \<le> now - l then Stale
        else Online)"

section \<open>The eligibility row\<close>

record NodeEligibility =
  ne_ID :: uuid
  ne_DisplayName :: string
  ne_BindingKey :: string
  ne_Priority :: int
  ne_Hard :: int
  ne_Desired :: int
  ne_Occupied :: int
  ne_Enabled :: bool
  ne_Accepting :: bool
  ne_Draining :: bool
  ne_ContentAccept :: bool
  ne_LastHeartbeat :: "time option"
  ne_Compatibility :: string
  ne_ContentConfirmed :: bool
  ne_ReportedVersion :: string

definition compatibility_text :: "bool \<Rightarrow> string" where
  "compatibility_text b = (if b then ''compatible'' else ''incompatible'')"

definition node_of :: "db \<Rightarrow> uuid \<Rightarrow> node_row option" where
  "node_of d n = find (\<lambda>r. nd_id r = n) (nodes d)"

definition report_of :: "db \<Rightarrow> uuid \<Rightarrow> report_row option" where
  "report_of d n = find (\<lambda>r. nr_node r = n) (reports d)"

definition template_binding_of :: "db \<Rightarrow> uuid \<Rightarrow> string \<Rightarrow> template_binding_row option" where
  "template_binding_of d n tr = find (\<lambda>b. tb_node b = n \<and> tb_revision b = tr) (template_bindings d)"

definition content_binding_of :: "db \<Rightarrow> uuid \<Rightarrow> uuid \<Rightarrow> content_binding_row option" where
  "content_binding_of d n g = find (\<lambda>b. cb_node b = n \<and> cb_game b = g) (content_bindings d)"

text \<open>Every attempt that is not proved resource-terminal occupies its node.\<close>

definition occupies :: "uuid \<Rightarrow> alloc_row \<Rightarrow> bool" where
  "occupies n a \<longleftrightarrow> al_node a = n \<and> \<not> terminal_alloc (al_state a)"

definition occupied :: "db \<Rightarrow> uuid \<Rightarrow> int" where
  "occupied d n = count_where (occupies n) (allocs d)"

definition node_eligibility :: "db \<Rightarrow> uuid \<Rightarrow> string \<Rightarrow> uuid \<Rightarrow> NodeEligibility res" where
  "node_eligibility d nodeID revisionID gameID =
     bindE (fetch (\<lambda>r. nd_id r = nodeID) (nodes d)) (\<lambda>n.
     let r = report_of d nodeID;
         b = template_binding_of d nodeID revisionID;
         c = content_binding_of d nodeID gameID
     in Inr \<lparr>
       ne_ID = nd_id n, ne_DisplayName = nd_display_name n,
       ne_BindingKey = (case b of None \<Rightarrow> [] | Some b \<Rightarrow> tb_key b),
       ne_Priority = nd_priority n,
       ne_Hard = (case r of None \<Rightarrow> 0 | Some r \<Rightarrow> nr_hard_max r),
       ne_Desired = nd_desired n, ne_Occupied = occupied d nodeID,
       ne_Enabled = nd_enabled n, ne_Accepting = nd_accepting n, ne_Draining = nd_draining n,
       ne_ContentAccept = (case c of None \<Rightarrow> False | Some c \<Rightarrow> cb_accepting c),
       ne_LastHeartbeat = nd_heartbeat n,
       ne_Compatibility = (case r of None \<Rightarrow> [] | Some r \<Rightarrow> compatibility_text (nr_compatible r)),
       ne_ContentConfirmed = (case c of None \<Rightarrow> False | Some c \<Rightarrow> cb_confirmed c),
       ne_ReportedVersion = (case c of None \<Rightarrow> [] | Some c \<Rightarrow> coalesce (cb_version c) [])\<rparr>)"

datatype reason =
    Available | UnderMaintenance | Unreachable | Incompatible | TemplateUnready | ContentUnready | Full

definition Reason :: "NodeEligibility \<Rightarrow> string \<Rightarrow> time \<Rightarrow> reason" where
  "Reason n contentID now =
     (if \<not> ne_Enabled n \<or> \<not> ne_Accepting n \<or> ne_Draining n then UnderMaintenance
      else if NodeConnectivity (ne_LastHeartbeat n) now \<noteq> Online then Unreachable
      else if ne_Compatibility n \<noteq> ''compatible'' then Incompatible
      else if ne_BindingKey n = [] then TemplateUnready
      else if \<not> ne_ContentConfirmed n \<or> ne_ReportedVersion n \<noteq> contentID \<or> \<not> ne_ContentAccept n
        then ContentUnready
      else if min (ne_Hard n) (ne_Desired n) \<le> ne_Occupied n then Full
      else Available)"

datatype choice_status = SAvailable | SMaintenance | SUnavailable | SFull

record NodeChoice =
  nc_ID :: uuid
  nc_DisplayName :: string
  nc_Status :: choice_status
  nc_Connectivity :: connectivity
  nc_Reason :: reason
  nc_AvailableSlots :: int
  nc_Selectable :: bool

definition Choice :: "NodeEligibility \<Rightarrow> string \<Rightarrow> time \<Rightarrow> NodeChoice" where
  "Choice n contentID now =
     (let reason = Reason n contentID now;
          status = (if reason = UnderMaintenance then SMaintenance
                    else if reason \<noteq> Available \<and> reason \<noteq> Full then SUnavailable
                    else if reason = Full then SFull
                    else SAvailable)
      in \<lparr>nc_ID = ne_ID n, nc_DisplayName = ne_DisplayName n, nc_Status = status,
          nc_Connectivity = NodeConnectivity (ne_LastHeartbeat n) now, nc_Reason = reason,
          nc_AvailableSlots = max 0 (min (ne_Hard n) (ne_Desired n) - ne_Occupied n),
          nc_Selectable = ne_Enabled n\<rparr>)"

fun choices_loop :: "db \<Rightarrow> string \<Rightarrow> string \<Rightarrow> uuid \<Rightarrow> time \<Rightarrow> uuid list \<Rightarrow> NodeChoice list res" where
  "choices_loop d contentID revisionID gameID now [] = Inr []"
| "choices_loop d contentID revisionID gameID now (i # is) =
     bindE (node_eligibility d i revisionID gameID) (\<lambda>n.
     bindE (choices_loop d contentID revisionID gameID now is) (\<lambda>cs.
     Inr (Choice n contentID now # cs)))"

text \<open>The order of display names is the database's collation, a parameter here.\<close>

definition PlayerNodeChoices ::
    "(string \<Rightarrow> 'k::linorder) \<Rightarrow> uuid \<Rightarrow> uuid \<Rightarrow> time \<Rightarrow> db \<Rightarrow> NodeChoice list res" where
  "PlayerNodeChoices collate gameID presetID now d =
     (case (find (\<lambda>g. gm_id g = gameID) (games d),
            find (\<lambda>p. ps_id p = presetID \<and> ps_game p = gameID) (presets d)) of
        (Some g, Some p) \<Rightarrow>
          choices_loop d (coalesce (gm_content g) []) (ps_revision p) gameID now
            (map nd_id (order_by (\<lambda>n. (collate (nd_display_name n), nd_id n)) (nodes d)))
      | _ \<Rightarrow> Inl ErrInvalidSelection)"

section \<open>Capacity\<close>

record NodeCapacity =
  cap_Hard :: int
  cap_Desired :: int
  cap_Occupied :: int

definition Capacity :: "uuid \<Rightarrow> db \<Rightarrow> NodeCapacity res" where
  "Capacity nodeID d =
     bindE (fetch (\<lambda>n. nd_id n = nodeID) (nodes d)) (\<lambda>n.
     bindE (fetch (\<lambda>r. nr_node r = nodeID) (reports d)) (\<lambda>r.
     Inr \<lparr>cap_Hard = nr_hard_max r, cap_Desired = nd_desired n, cap_Occupied = occupied d nodeID\<rparr>))"

definition SetDesiredCapacity :: "uuid \<Rightarrow> int \<Rightarrow> db \<Rightarrow> db res" where
  "SetDesiredCapacity nodeID desired d =
     rejectE (desired < 0) ErrInvalidDesiredCapacity (
     bindE (fetch (\<lambda>n. nd_id n = nodeID) (nodes d)) (\<lambda>n.
     bindE (fetch (\<lambda>r. nr_node r = nodeID) (reports d)) (\<lambda>r.
     rejectE (nr_hard_max r < desired) ErrInvalidDesiredCapacity (
     Inr (d\<lparr>nodes := upd_where (\<lambda>n. nd_id n = nodeID) (nd_desired_update (\<lambda>_. desired)) (nodes d),
            audit := audit d @ [(''operator_cli'', ''node.capacity'', [nodeID])]\<rparr>)))))"

definition limit :: "db \<Rightarrow> uuid \<Rightarrow> int" where
  "limit d n = min (case report_of d n of None \<Rightarrow> 0 | Some r \<Rightarrow> nr_hard_max r)
                   (case node_of d n of None \<Rightarrow> 0 | Some r \<Rightarrow> nd_desired r)"

section \<open>Lemmas\<close>

lemma reason_available_iff:
  "Reason n c now = Available \<longleftrightarrow>
     ne_Enabled n \<and> ne_Accepting n \<and> \<not> ne_Draining n
     \<and> NodeConnectivity (ne_LastHeartbeat n) now = Online
     \<and> ne_Compatibility n = ''compatible'' \<and> ne_BindingKey n \<noteq> []
     \<and> ne_ContentConfirmed n \<and> ne_ReportedVersion n = c \<and> ne_ContentAccept n
     \<and> ne_Occupied n < min (ne_Hard n) (ne_Desired n)"
  by (auto simp: Reason_def)

lemma connectivity_online_iff:
  "NodeConnectivity hb now = Online \<longleftrightarrow> (\<exists>l. hb = Some l \<and> now - l < nodeOnlineWindow)"
  by (cases hb) (auto simp: NodeConnectivity_def nodeOnlineWindow_def nodeOfflineWindow_def
      minute_def second_def)

lemma eligibility_fields:
  assumes "node_eligibility d n tr g = Inr e"
  shows "ne_ID e = n" "ne_Occupied e = occupied d n" "min (ne_Hard e) (ne_Desired e) = limit d n"
    "\<exists>r \<in> set (nodes d). nd_id r = n"
  using assms find_SomeD [of "\<lambda>r. nd_id r = n" "nodes d"]
  by (auto simp: node_eligibility_def result_simps Let_def limit_def node_of_def)

text \<open>Only an allocation row of the node changes its occupancy.\<close>

lemma occupied_append:
  "occupied (d\<lparr>allocs := allocs d @ [a]\<rparr>) n = occupied d n + (if occupies n a then 1 else 0)"
  by (simp add: occupied_def count_where_Cons)

lemma occupied_update_le:
  assumes "\<And>a. P a \<Longrightarrow> occupies n (f a) \<Longrightarrow> occupies n a"
  shows "occupied (d\<lparr>allocs := upd_where P f (allocs d)\<rparr>) n \<le> occupied d n"
  using assms by (simp add: occupied_def count_upd_where_le)

end
