(* ===== verification/Requests.thy ===== *)
theory Requests
  imports Eligibility
begin

text \<open>
  Server requests of players: submission, the shared check for a fresh request, cancellation
  (\<open>player_requests.go\<close>, \<open>cancel.go\<close>), who owns a request (\<open>lock_order.go\<close>), and the
  next-game intent that turns a proved reclaim into one new request (\<open>next_game.go\<close>).  A fresh
  identifier of \<open>NewID\<close> and the clock are arguments; \<open>""\<close> for an absent party or node is \<open>None\<close>.
\<close>

section \<open>Ownership\<close>

datatype owner = OwnerUser uuid | OwnerParty uuid

fun owned_by :: "owner \<Rightarrow> request_row \<Rightarrow> bool" where
  "owned_by (OwnerUser u) r = (rq_user r = Some u)"
| "owned_by (OwnerParty p) r = (rq_party r = Some p)"

definition member_party :: "db \<Rightarrow> uuid \<Rightarrow> uuid option" where
  "member_party d u = map_option mb_party (find (\<lambda>m. mb_user m = u) (members d))"

definition live_party :: "uuid \<Rightarrow> party_row \<Rightarrow> bool" where
  "live_party p r \<longleftrightarrow> pa_id r = p \<and> pa_dissolved r = None"

definition request_owner :: "uuid \<Rightarrow> db \<Rightarrow> owner res" where
  "request_owner userID d = (case member_party d userID of
      None \<Rightarrow> Inr (OwnerUser userID)
    | Some p \<Rightarrow> bindE (fetch (live_party p) (parties d)) (\<lambda>r.
        rejectE (pa_leader r \<noteq> Some userID) ErrPartyForbidden (Inr (OwnerParty p))))"

definition requireCurrentRequestOwner :: "uuid \<Rightarrow> uuid \<Rightarrow> db \<Rightarrow> unit res" where
  "requireCurrentRequestOwner requestID userID d =
     bindE (fetch (\<lambda>r. rq_id r = requestID) (requests d)) (\<lambda>r.
     rejectE (\<not> (rq_user r = Some userID \<and> \<not> exists_where (\<lambda>m. mb_user m = userID) (members d)
               \<or> exists_where (\<lambda>m. mb_user m = userID \<and> rq_party r = Some (mb_party m)
                    \<and> exists_where (\<lambda>p. live_party (mb_party m) p \<and> pa_leader p = Some userID) (parties d))
                   (members d)))
       ErrPartyForbidden (Inr ()))"

definition current_request :: "owner \<Rightarrow> db \<Rightarrow> request_row option" where
  "current_request ow d = find (\<lambda>r. owned_by ow r \<and> blocking (rq_state r)) (requests d)"

definition CurrentUserRequest :: "uuid \<Rightarrow> db \<Rightarrow> request_row option" where
  "CurrentUserRequest userID d =
     current_request (case member_party d userID of None \<Rightarrow> OwnerUser userID | Some p \<Rightarrow> OwnerParty p) d"

definition UserRequest :: "uuid \<Rightarrow> uuid \<Rightarrow> db \<Rightarrow> request_row res" where
  "UserRequest userID requestID d =
     fetch (\<lambda>r. rq_id r = requestID \<and>
        (rq_user r = Some userID \<and> \<not> exists_where (\<lambda>m. mb_user m = userID) (members d)
         \<or> exists_where (\<lambda>m. mb_user m = userID \<and> rq_party r = Some (mb_party m)) (members d)))
       (requests d)"

section \<open>Fresh requests\<close>

definition member_count :: "db \<Rightarrow> uuid \<Rightarrow> int" where
  "member_count d p = count_where (\<lambda>m. mb_party m = p) (members d)"

definition validateFreshRequest ::
    "uuid \<Rightarrow> uuid \<Rightarrow> uuid option \<Rightarrow> sel_mode \<Rightarrow> uuid option \<Rightarrow> db \<Rightarrow> unit res" where
  "validateFreshRequest gameID presetID party mode manualNode d =
     bindE (case party of None \<Rightarrow> Inr () | Some p \<Rightarrow> bindE (fetch (live_party p) (parties d)) (\<lambda>_. Inr ())) (\<lambda>_.
     (case (find (\<lambda>g. gm_id g = gameID) (games d),
            find (\<lambda>p. ps_id p = presetID \<and> ps_game p = gameID) (presets d)) of
        (Some g, Some p) \<Rightarrow>
          rejectE (\<not> st_accepting (settings d)) (MaintenanceError ''global'' (st_message (settings d))) (
          rejectE (\<not> gm_enabled g \<or> \<not> gm_accepting g) (MaintenanceError ''arcadeGame'' (gm_message g)) (
          rejectE (\<not> ps_enabled p \<or> \<not> ps_accepting p) (MaintenanceError ''gamePreset'' (ps_message p)) (
          rejectE (case party of None \<Rightarrow> False | Some q \<Rightarrow> ps_max_players p < member_count d q)
            ErrPresetPartyTooLarge (
          if mode = SelManual then
            (case manualNode of
               None \<Rightarrow> Inl ErrInvalidNodeSelection
             | Some n \<Rightarrow> (case node_of d n of
                 None \<Rightarrow> Inl ErrInvalidNodeSelection
               | Some r \<Rightarrow> rejectE (\<not> nd_enabled r) ErrInvalidNodeSelection (Inr ())))
          else Inr ()))))
      | _ \<Rightarrow> Inl ErrInvalidSelection))"

definition CreateUserRequestSelected ::
    "uuid \<Rightarrow> uuid \<Rightarrow> uuid \<Rightarrow> sel_mode \<Rightarrow> uuid option \<Rightarrow> uuid \<Rightarrow> time \<Rightarrow> db \<Rightarrow> (request_row \<times> bool \<times> db) res" where
  "CreateUserRequestSelected userID gameID presetID mode manualNode newID now d =
     rejectE (mode \<noteq> SelAuto \<and> mode \<noteq> SelManual \<or> mode = SelAuto \<and> manualNode \<noteq> None
              \<or> mode = SelManual \<and> manualNode = None) ErrInvalidNodeSelection (
     bindE (fetch (\<lambda>u. u = userID) (users d)) (\<lambda>_.
     bindE (request_owner userID d) (\<lambda>ow.
     case current_request ow d of
       Some r \<Rightarrow> Inr (r, False, d)
     | None \<Rightarrow>
         bindE (validateFreshRequest gameID presetID (case ow of OwnerUser _ \<Rightarrow> None | OwnerParty p \<Rightarrow> Some p)
                  mode manualNode d) (\<lambda>_.
         let r = \<lparr>rq_id = newID, rq_user = (case ow of OwnerUser u \<Rightarrow> Some u | OwnerParty _ \<Rightarrow> None),
                  rq_party = (case ow of OwnerUser _ \<Rightarrow> None | OwnerParty p \<Rightarrow> Some p),
                  rq_game = gameID, rq_preset = presetID, rq_state = RWaiting, rq_requested = now, rq_updated = now,
                  rq_mode = mode, rq_manual = (if mode = SelManual then manualNode else None),
                  rq_abandoned = None\<rparr>
         in bindE (put_requests (requests d @ [r]) d) (\<lambda>d'. Inr (r, True, d'))))))"

definition CreateUserRequest ::
    "uuid \<Rightarrow> uuid \<Rightarrow> uuid \<Rightarrow> uuid \<Rightarrow> time \<Rightarrow> db \<Rightarrow> (request_row \<times> bool \<times> db) res" where
  "CreateUserRequest userID gameID presetID newID now d =
     CreateUserRequestSelected userID gameID presetID SelAuto None newID now d"

text \<open>\<open>UPDATE server_requests SET state=..., updated_at=... WHERE id=...\<close>.\<close>

definition set_request_state :: "uuid \<Rightarrow> req_state \<Rightarrow> time \<Rightarrow> db \<Rightarrow> db res" where
  "set_request_state requestID s now d =
     put_requests (upd_where (\<lambda>r. rq_id r = requestID) (\<lambda>r. r\<lparr>rq_state := s, rq_updated := now\<rparr>) (requests d)) d"

text \<open>The same with \<open>AND state <> 'abandoned'\<close>.\<close>

definition set_live_request_state :: "uuid \<Rightarrow> req_state \<Rightarrow> time \<Rightarrow> db \<Rightarrow> db res" where
  "set_live_request_state requestID s now d =
     put_requests (upd_where (\<lambda>r. rq_id r = requestID \<and> rq_state r \<noteq> RAbandoned)
       (\<lambda>r. r\<lparr>rq_state := s, rq_updated := now\<rparr>) (requests d)) d"

definition CancelUserRequest :: "uuid \<Rightarrow> uuid \<Rightarrow> time \<Rightarrow> db \<Rightarrow> db res" where
  "CancelUserRequest userID requestID now d =
     bindE (fetch (\<lambda>u. u = userID) (users d)) (\<lambda>_.
     bindE (request_owner userID d) (\<lambda>ow.
     bindE (fetch (\<lambda>r. rq_id r = requestID \<and> owned_by ow r) (requests d)) (\<lambda>r.
     rejectE (rq_state r \<noteq> RWaiting
              \<or> count_where (\<lambda>a. al_request a = Some requestID) (allocs d) \<noteq> 0)
       (ErrJobConflict ''request is no longer safely waiting'')
       (set_request_state requestID RCancelled now d))))"

section \<open>Next-game intents\<close>

definition business_rejection :: "err \<Rightarrow> bool" where
  "business_rejection e = (case e of
      MaintenanceError _ _ \<Rightarrow> True | ErrInvalidSelection \<Rightarrow> True | ErrInvalidNodeSelection \<Rightarrow> True
    | ErrPresetPartyTooLarge \<Rightarrow> True | _ \<Rightarrow> False)"

definition rejection_text :: "err \<Rightarrow> string" where
  "rejection_text e = (case e of
      MaintenanceError scope _ \<Rightarrow> scope @ '' is not accepting requests''
    | ErrInvalidSelection \<Rightarrow> ''invalid game or preset selection''
    | ErrInvalidNodeSelection \<Rightarrow> ''invalid node selection''
    | ErrPresetPartyTooLarge \<Rightarrow> ''party exceeds game preset max_players''
    | _ \<Rightarrow> [])"

definition intent_of :: "uuid \<Rightarrow> db \<Rightarrow> intent_row option" where
  "intent_of source d = find (\<lambda>i. ni_source i = source) (intents d)"

definition paused_intent :: "uuid \<Rightarrow> db \<Rightarrow> bool" where
  "paused_intent source d \<longleftrightarrow> exists_where (\<lambda>i. ni_source i = source \<and> ni_state i = IPaused) (intents d)"

text \<open>A fresh request like the source, or a pause with the reason when business rules refuse it.\<close>

definition consume_pending :: "uuid \<Rightarrow> uuid \<Rightarrow> time \<Rightarrow> request_row \<Rightarrow> db \<Rightarrow> db res" where
  "consume_pending source newID now src d =
     (case validateFreshRequest (rq_game src) (rq_preset src) (rq_party src) (rq_mode src) (rq_manual src) d of
        Inl e \<Rightarrow>
          if \<not> business_rejection e then Inl e
          else put_intents (upd_where (\<lambda>i. ni_source i = source)
                 (\<lambda>i. i\<lparr>ni_state := IPaused, ni_failure := Some (rejection_text e)\<rparr>) (intents d)) d
      | Inr _ \<Rightarrow>
          bindE (put_requests (requests d @
              [\<lparr>rq_id = newID, rq_user = rq_user src, rq_party = rq_party src, rq_game = rq_game src,
                rq_preset = rq_preset src, rq_state = RWaiting, rq_requested = now, rq_updated = now,
                rq_mode = rq_mode src, rq_manual = rq_manual src, rq_abandoned = None\<rparr>]) d) (\<lambda>d.
          put_intents (upd_where (\<lambda>i. ni_source i = source)
              (\<lambda>i. i\<lparr>ni_state := IConsumed, ni_new := Some newID, ni_consumed := Some now\<rparr>) (intents d)) d))"

definition consumable :: "bool \<Rightarrow> intent_row \<Rightarrow> bool" where
  "consumable afterAbandon i \<longleftrightarrow> \<not> (coalesce (ni_failure i) [] \<noteq> [] \<or> ni_state i = IConsumed
     \<or> ni_state i = IPaused \<and> \<not> afterAbandon)"

definition consumeNextGameIntent :: "uuid \<Rightarrow> bool \<Rightarrow> uuid \<Rightarrow> time \<Rightarrow> db \<Rightarrow> db res" where
  "consumeNextGameIntent source afterAbandon newID now d =
     (case intent_of source d of
        None \<Rightarrow> Inr d
      | Some i \<Rightarrow>
          if \<not> consumable afterAbandon i then Inr d
          else bindE (fetch (\<lambda>r. rq_id r = source) (requests d)) (\<lambda>src. consume_pending source newID now src d))"

lemma consume_cases:
  assumes "consumeNextGameIntent source after newID now d = Inr d'"
  shows "d' = d \<or> (\<exists>i src. i \<in> set (intents d) \<and> ni_source i = source \<and> consumable after i
     \<and> src \<in> set (requests d) \<and> rq_id src = source \<and> consume_pending source newID now src d = Inr d')"
proof (cases "intent_of source d")
  case (Some i)
  then have i: "i \<in> set (intents d)" "ni_source i = source"
    using find_SomeD [of "\<lambda>i. ni_source i = source" "intents d"] by (auto simp: intent_of_def)
  show ?thesis
  proof (cases "consumable after i")
    case True
    with assms Some obtain src where "fetch (\<lambda>r. rq_id r = source) (requests d) = Inr src"
      and "consume_pending source newID now src d = Inr d'"
      by (auto simp: consumeNextGameIntent_def bindE_Inr)
    with i True fetch_InrD [of _ "requests d" src] show ?thesis by blast
  qed (use assms Some in \<open>simp add: consumeNextGameIntent_def\<close>)
qed (use assms in \<open>simp add: consumeNextGameIntent_def\<close>)

definition pauseNextGameIntent :: "uuid \<Rightarrow> db \<Rightarrow> db res" where
  "pauseNextGameIntent source d =
     put_intents (upd_where (\<lambda>i. ni_source i = source \<and> ni_state i = IPending) (ni_state_update (\<lambda>_. IPaused))
       (intents d)) d"

definition UserNextGameIntent :: "uuid \<Rightarrow> uuid \<Rightarrow> db \<Rightarrow> intent_row option res" where
  "UserNextGameIntent userID requestID d =
     bindE (UserRequest userID requestID d) (\<lambda>_. Inr (intent_of requestID d))"

end
