(* ===== verification/ValidationSteps.thy ===== *)
theory ValidationSteps
  imports Requests
begin

text \<open>
  How job reports and observed instance facts advance a validation run
  (\<open>advanceValidationFromJob\<close>, \<open>advanceValidationFromFact\<close> of \<open>validation_ledger.go\<close>).  Both look the
  run up, compute its next state and write it; a passed or failed run is never written again.
\<close>

definition next_from_job :: "run_state \<Rightarrow> human_result \<Rightarrow> job_kind \<Rightarrow> job_state \<Rightarrow> alloc_state \<Rightarrow> bool \<Rightarrow> run_state option" where
  "next_from_job current human kind s allocState hasJoin =
     (case kind of
        KCreate \<Rightarrow> (case s of
            JAccepted \<Rightarrow> if current = VCreatePending then Some VCreateObserving else None
          | JUnknown \<Rightarrow> if current = VCreatePending \<or> current = VCreateObserving then Some VCreateUnknown else None
          | JSucceeded \<Rightarrow> Some (if hasJoin then VAwaitingHuman else VReadyNoJoin)
          | JRejectedNoEffect \<Rightarrow> Some VFailed
          | JFailedWithEffect \<Rightarrow> Some (if allocState = AQuarantined then VQuarantined else VCleanupRequired)
          | _ \<Rightarrow> None)
      | KStop \<Rightarrow> (case s of
            JAccepted \<Rightarrow> Some VReclaimObserving
          | JUnknown \<Rightarrow> Some VStopUnknown
          | JSucceeded \<Rightarrow> Some (if human = HFail then VFailed else VReclaimObserving)
          | JFailedWithEffect \<Rightarrow> Some VQuarantined
          | _ \<Rightarrow> None)
      | KOther _ \<Rightarrow> None)"

definition write_run_from_job :: "run_state \<Rightarrow> string \<Rightarrow> time \<Rightarrow> run_row \<Rightarrow> run_row" where
  "write_run_from_job s errorCode now v = v\<lparr>
     vr_state := s,
     vr_failure := (if s = VFailed \<and> vr_human v = HFail then Some ''HUMAN_FAILED''
                    else if s \<in> {VFailed, VQuarantined, VCleanupRequired}
                      then (if errorCode = [] then vr_failure v else Some errorCode)
                    else vr_failure v),
     vr_result := (if s = VFailed then Some ''FAIL'' else vr_result v),
     vr_ready := (if s \<in> {VReadyNoJoin, VAwaitingHuman}
                  then Some (coalesce (vr_ready v) now) else vr_ready v),
     vr_join_at := (if s = VAwaitingHuman then Some (coalesce (vr_join_at v) now) else vr_join_at v)\<rparr>"

definition advanceValidationFromJob ::
    "uuid \<Rightarrow> job_kind \<Rightarrow> job_state \<Rightarrow> alloc_state \<Rightarrow> string \<Rightarrow> bool \<Rightarrow> time \<Rightarrow> db \<Rightarrow> db res" where
  "advanceValidationFromJob runID kind s allocState errorCode hasJoin now d =
     bindE (fetch (\<lambda>v. vr_id v = runID) (runs d)) (\<lambda>v.
     if vr_state v = VPassed \<or> vr_state v = VFailed then Inr d
     else (case next_from_job (vr_state v) (vr_human v) kind s allocState hasJoin of
         None \<Rightarrow> Inr d
       | Some n \<Rightarrow>
           if n = vr_state v then Inr d
           else put_runs (upd_where (\<lambda>v. vr_id v = runID) (write_run_from_job n errorCode now) (runs d)) d))"

datatype run_fact = FactReady | FactReclaimed | FactQuarantined

definition next_from_fact :: "run_state \<Rightarrow> run_fact \<Rightarrow> bool \<Rightarrow> run_state option" where
  "next_from_fact s outcome hasJoin = (case outcome of
      FactReady \<Rightarrow>
        if s \<in> {VCreatePending, VCreateObserving, VCreateUnknown, VReadyNoJoin}
        then Some (if hasJoin then VAwaitingHuman else VReadyNoJoin) else None
    | FactReclaimed \<Rightarrow> None
    | FactQuarantined \<Rightarrow> Some VQuarantined)"

definition write_run_from_fact :: "run_state \<Rightarrow> time \<Rightarrow> run_row \<Rightarrow> run_row" where
  "write_run_from_fact s now v = v\<lparr>
     vr_state := s,
     vr_ready := (if s \<in> {VReadyNoJoin, VAwaitingHuman}
                  then Some (coalesce (vr_ready v) now) else vr_ready v),
     vr_join_at := (if s = VAwaitingHuman then Some (coalesce (vr_join_at v) now) else vr_join_at v)\<rparr>"

definition advanceValidationFromFact :: "uuid \<Rightarrow> run_fact \<Rightarrow> bool \<Rightarrow> time \<Rightarrow> db \<Rightarrow> db res" where
  "advanceValidationFromFact runID outcome hasJoin now d =
     bindE (fetch (\<lambda>v. vr_id v = runID) (runs d)) (\<lambda>v.
     if vr_state v = VPassed \<or> vr_state v = VFailed then Inr d
     else (case next_from_fact (vr_state v) outcome hasJoin of
         None \<Rightarrow> Inr d
       | Some n \<Rightarrow>
           if n = vr_state v then Inr d
           else put_runs (upd_where (\<lambda>v. vr_id v = runID) (write_run_from_fact n now) (runs d)) d))"

text \<open>Neither step writes another table.\<close>

lemma advanceValidationFromJob_frame:
  assumes "advanceValidationFromJob r k s a e h now d = Inr d'"
  shows "d' = d\<lparr>runs := runs d'\<rparr> \<and> (runs_ok (runs d) \<longrightarrow> runs_ok (runs d'))"
  using assms by (cases "find (\<lambda>v. vr_id v = r) (runs d)")
    (auto simp: advanceValidationFromJob_def fetch_def result_simps split: option.splits if_splits)

lemma advanceValidationFromFact_frame:
  assumes "advanceValidationFromFact r f h now d = Inr d'"
  shows "d' = d\<lparr>runs := runs d'\<rparr> \<and> (runs_ok (runs d) \<longrightarrow> runs_ok (runs d'))"
  using assms by (cases "find (\<lambda>v. vr_id v = r) (runs d)")
    (auto simp: advanceValidationFromFact_def fetch_def result_simps split: option.splits if_splits)

end
