(* ===== verification/Jobs.thy ===== *)
theory Jobs
  imports ValidationSteps
begin

text \<open>
  Durable node jobs (\<open>internal/platform/store/jobs.go\<close>, \<open>node_jobs_api.go\<close>): freezing a create
  request before the first core call, claiming, the durable start of an operation, and the report of
  a job with its effect on allocation, request, intent and validation run.
\<close>

section \<open>Identity of a job\<close>

definition hex_nibbles :: "nat \<Rightarrow> nat \<Rightarrow> string" where
  "hex_nibbles n v = map (\<lambda>i. hex_digit (int v div 16 ^ i mod 16)) (rev [0..<n])"

text \<open>The textual form \<open>xxxxxxxx-xxxx-xxxx-xxxx-xxxxxxxxxxxx\<close> of a uuid.\<close>

definition uuid_text :: "uuid \<Rightarrow> string" where
  "uuid_text u = (let h = hex_nibbles 32 u in
     take 8 h @ ''-'' @ take 4 (drop 8 h) @ ''-'' @ take 4 (drop 12 h) @ ''-'' @ take 4 (drop 16 h) @ ''-'' @ drop 20 h)"

definition core_key :: "string \<Rightarrow> string" where
  "core_key jobID = ''nodejob-'' @ filter (\<lambda>c. c \<noteq> CHR ''-'') jobID"

definition CoreIdempotencyKey :: "uuid \<Rightarrow> string" where
  "CoreIdempotencyKey nodeJobID = core_key (uuid_text nodeJobID)"

text \<open>The frozen request as the contract shows it (\<open>scanJob\<close>, \<open>FrozenCreate.Contract\<close>).\<close>

definition contract_capability :: "capability \<Rightarrow> string" where
  "contract_capability c = (if c = LegacyV1 then [] else capability_text c)"

definition frozen_of :: "execution_row \<Rightarrow> FrozenCreate" where
  "frozen_of e = \<lparr>fc_IdempotencyKey = ex_key e, fc_Template = ex_template e, fc_Port = ex_port e,
     fc_FingerprintSHA256 = ex_fingerprint e, fc_RequiredCapability = contract_capability (ex_capability e),
     fc_TemplateManifestAlgorithm = coalesce (ex_algorithm e) [],
     fc_TemplateFingerprintSHA256 = coalesce (ex_manifest e) []\<rparr>"

definition execution_of :: "db \<Rightarrow> uuid \<Rightarrow> execution_row option" where
  "execution_of d j = find (\<lambda>e. ex_job e = j) (executions d)"

definition scanJob :: "db \<Rightarrow> job_row \<Rightarrow> Job" where
  "scanJob d j = (let e = execution_of d (jb_id j) in
     \<lparr>j_ID = uuid_text (jb_id j), j_Kind = jb_kind j, j_State = jb_state j, j_IntegrationOnly = jb_integration j,
      j_TemplateBindingKey = coalesce (jb_binding_key j) [], j_RequestedPort = jb_port j,
      j_InstanceID = coalesce (jb_instance j) [], j_OperationID = coalesce (jb_operation j) [],
      j_FrozenCreate = (case e of None \<Rightarrow> None | Some e \<Rightarrow> Some (frozen_of e\<lparr>fc_RequiredCapability := contract_capability (jb_capability j)\<rparr>)),
      j_PreparedAtUnix = (case e of None \<Rightarrow> 0 | Some e \<Rightarrow> (ex_prepared e + second div 2) div second),
      j_RequiredCapability = contract_capability (jb_capability j),
      j_ExpectedTemplateFingerprintSHA256 = coalesce (jb_fingerprint j) [],
      j_TemplateBindingGeneration = coalesce (jb_generation j) 0,
      j_ExpectedWorkshopID = coalesce (jb_workshop j) [], j_ExpectedContentVersionID = coalesce (jb_content j) [],
      j_ExpectedVPKSHA256 = coalesce (jb_vpk_sha256 j) []\<rparr>)"

text \<open>The capability filter \<open>required_capability IN ('legacy_v1', $)\<close>.\<close>

definition admits :: "string \<Rightarrow> job_row \<Rightarrow> bool" where
  "admits cap j \<longleftrightarrow> capability_text (jb_capability j) \<in> {''legacy_v1'', cap}"

definition JobForNodeWithCapability :: "uuid \<Rightarrow> uuid \<Rightarrow> string \<Rightarrow> db \<Rightarrow> Job res" where
  "JobForNodeWithCapability nodeID jobID cap d =
     bindE (fetch (\<lambda>j. jb_node j = nodeID \<and> jb_id j = jobID \<and> admits cap j) (jobs d)) (\<lambda>j. Inr (scanJob d j))"

definition OpenJobsForNodeWithCapability :: "uuid \<Rightarrow> string \<Rightarrow> db \<Rightarrow> Job list" where
  "OpenJobsForNodeWithCapability nodeID cap d =
     map (scanJob d) (order_by (\<lambda>j. (jb_created j, jb_id j))
       (filter (\<lambda>j. jb_node j = nodeID \<and> admits cap j \<and> open_job (jb_state j)) (jobs d)))"

section \<open>Integration jobs\<close>

definition new_job :: "uuid \<Rightarrow> uuid \<Rightarrow> job_kind \<Rightarrow> bool \<Rightarrow> uuid option \<Rightarrow> string option \<Rightarrow> capability \<Rightarrow> time \<Rightarrow> job_row" where
  "new_job newID nodeID kind integ alloc inst cap now =
     \<lparr>jb_id = newID, jb_node = nodeID, jb_kind = kind, jb_state = JPending, jb_integration = integ,
      jb_alloc = alloc, jb_instance = inst, jb_operation = None, jb_error = None, jb_stage = None,
      jb_created = now, jb_claimed = None, jb_binding_key = None, jb_port = 0, jb_capability = cap,
      jb_fingerprint = None, jb_generation = None, jb_workshop = None, jb_content = None, jb_vpk_sha256 = None\<rparr>"

definition CreateIntegrationJob :: "uuid \<Rightarrow> job_kind \<Rightarrow> string \<Rightarrow> uuid \<Rightarrow> time \<Rightarrow> db \<Rightarrow> db res" where
  "CreateIntegrationJob nodeID kind instanceID newID now d =
     rejectE (kind \<noteq> KCreate \<and> kind \<noteq> KStop) (Invalid ''unsupported job kind'') (
     rejectE (kind = KCreate \<and> instanceID \<noteq> [] \<or> kind = KStop \<and> instanceID = [])
       (Invalid ''invalid instance ID'')
       (put_jobs (jobs d @ [new_job newID nodeID kind True None (nullif instanceID []) LegacyV1 now]) d))"

definition CreateIntegrationCreateJob :: "uuid \<Rightarrow> string \<Rightarrow> int \<Rightarrow> uuid \<Rightarrow> time \<Rightarrow> db \<Rightarrow> db res" where
  "CreateIntegrationCreateJob nodeID bindingKey port newID now d =
     rejectE (length bindingKey < 1 \<or> 128 < length bindingKey \<or> port < 0 \<or> 65535 < port)
       (Invalid ''invalid integration create target'')
       (put_jobs (jobs d @ [(new_job newID nodeID KCreate True None None LegacyV1 now)
          \<lparr>jb_binding_key := Some bindingKey, jb_port := port\<rparr>]) d)"

section \<open>Locking the rows of a job\<close>

text \<open>
  \<open>lockBusinessAllocation\<close> and \<open>lockJobBusinessRows\<close>: in a serial execution the rechecks after
  locking read the rows found before it, so what is left is that the rows exist.
\<close>

definition lockBusinessAllocation :: "uuid \<Rightarrow> uuid \<Rightarrow> db \<Rightarrow> alloc_row res" where
  "lockBusinessAllocation allocationID nodeID d =
     bindE (fetch (\<lambda>a. al_id a = allocationID \<and> al_node a = nodeID) (allocs d)) (\<lambda>a.
     bindE (case al_request a of None \<Rightarrow> Inr ()
            | Some r \<Rightarrow> bindE (fetch (\<lambda>q. rq_id q = r) (requests d)) (\<lambda>_. Inr ())) (\<lambda>_. Inr a))"

definition lockJobBusinessRows :: "uuid \<Rightarrow> uuid \<Rightarrow> db \<Rightarrow> alloc_row option res" where
  "lockJobBusinessRows nodeID jobID d =
     bindE (fetch (\<lambda>j. jb_id j = jobID \<and> jb_node j = nodeID) (jobs d)) (\<lambda>j.
     case jb_alloc j of
       None \<Rightarrow> Inr None
     | Some a \<Rightarrow> bindE (lockBusinessAllocation a nodeID d) (\<lambda>a. Inr (Some a)))"

section \<open>Freezing a create request\<close>

definition preparing_alloc :: "alloc_row \<Rightarrow> bool" where
  "preparing_alloc a \<longleftrightarrow> al_state a \<in> {AReserved, ACreateUnknown, ACreating}"

definition prepare_writes :: "uuid \<Rightarrow> time \<Rightarrow> db \<Rightarrow> db res" where
  "prepare_writes allocationID now d =
     bindE (put_allocs (upd_where (\<lambda>a. al_id a = allocationID \<and> preparing_alloc a)
        (\<lambda>a. a\<lparr>al_state := ACreating, al_create_started := Some (coalesce (al_create_started a) now)\<rparr>) (allocs d)) d) (\<lambda>d1.
     bindE (put_requests (upd_where (\<lambda>r. rq_state r = RAllocating
              \<and> exists_where (\<lambda>a. al_id a = allocationID \<and> al_request a = Some (rq_id r)) (allocs d1))
        (\<lambda>r. r\<lparr>rq_state := RCreating, rq_updated := now\<rparr>) (requests d1)) d1) (\<lambda>d2.
     put_runs (upd_where (\<lambda>v. vr_state v = VCreatePending
              \<and> exists_where (\<lambda>a. al_id a = allocationID \<and> al_run a = Some (vr_id v)) (allocs d2))
        (vr_state_update (\<lambda>_. VCreateObserving)) (runs d2)) d2))"

definition frozen_row :: "job_row \<Rightarrow> string \<Rightarrow> int \<Rightarrow> string \<Rightarrow> string \<Rightarrow> time \<Rightarrow> execution_row" where
  "frozen_row j template port algorithm manifestSHA now =
     \<lparr>ex_job = jb_id j, ex_key = CoreIdempotencyKey (jb_id j), ex_template = template, ex_port = port,
      ex_fingerprint = CreateFingerprint (CoreIdempotencyKey (jb_id j)) template port,
      ex_prepared = now, ex_capability = jb_capability j, ex_algorithm = nullif algorithm [],
      ex_manifest = nullif manifestSHA []\<rparr>"

text \<open>The stored request is the one asked for, whenever it was frozen.\<close>

definition frozen_matches :: "execution_row \<Rightarrow> job_row \<Rightarrow> string \<Rightarrow> int \<Rightarrow> string \<Rightarrow> string \<Rightarrow> bool" where
  "frozen_matches e j template port algorithm manifestSHA \<longleftrightarrow>
     ex_key e = CoreIdempotencyKey (jb_id j) \<and> ex_template e = template \<and> ex_port e = port
     \<and> ex_capability e = jb_capability j \<and> coalesce (ex_algorithm e) [] = algorithm
     \<and> coalesce (ex_manifest e) [] = manifestSHA
     \<and> ex_fingerprint e = CreateFingerprint (CoreIdempotencyKey (jb_id j)) template port"

definition freeze_create ::
    "job_row \<Rightarrow> string \<Rightarrow> int \<Rightarrow> string \<Rightarrow> string \<Rightarrow> time \<Rightarrow> db \<Rightarrow> (execution_row \<times> db) res" where
  "freeze_create j template port algorithm manifestSHA now d =
     bindE (case execution_of d (jb_id j) of
              Some e \<Rightarrow> Inr d
            | None \<Rightarrow> put_executions (executions d @ [frozen_row j template port algorithm manifestSHA now]) d) (\<lambda>d1.
     bindE (fetch (\<lambda>e. ex_job e = jb_id j) (executions d1)) (\<lambda>e.
     rejectE (\<not> frozen_matches e j template port algorithm manifestSHA) (ErrJobConflict ''frozen create request changed'') (
     bindE (case jb_alloc j of None \<Rightarrow> Inr d1 | Some a \<Rightarrow> prepare_writes a now d1) (\<lambda>d2.
     Inr (e, d2)))))"

definition prepareCreate ::
    "uuid \<Rightarrow> uuid \<Rightarrow> string \<Rightarrow> int \<Rightarrow> string \<Rightarrow> string \<Rightarrow> time \<Rightarrow> db \<Rightarrow> (execution_row \<times> db) res" where
  "prepareCreate nodeID jobID template port algorithm manifestSHA now d =
     rejectE (template = [] \<or> port < 0 \<or> 65535 < port) (ErrJobConflict ''invalid create request'') (
     bindE (lockJobBusinessRows nodeID jobID d) (\<lambda>_.
     bindE (fetch (\<lambda>j. jb_id j = jobID \<and> jb_node j = nodeID) (jobs d)) (\<lambda>j.
     rejectE (jb_kind j \<noteq> KCreate \<or> jb_state j = JPending \<or> terminal_job (jb_state j))
       (ErrJobConflict ''job cannot be prepared'') (
     rejectE (if jb_capability j = ContentValidationV102
              then algorithm \<noteq> TemplateManifestAlgorithmV1 \<or> Some manifestSHA \<noteq> jb_fingerprint j
              else algorithm \<noteq> [] \<or> manifestSHA \<noteq> [])
       (ErrJobConflict ''manifest identity mismatch'')
       (freeze_create j template port algorithm manifestSHA now d)))))"

lemma prepareCreate_cases:
  assumes "prepareCreate n i t p alg sha now d = Inr (e, d')"
  shows "\<exists>j. j \<in> set (jobs d) \<and> jb_id j = i \<and> jb_node j = n \<and> jb_kind j = KCreate \<and> jb_state j \<noteq> JPending
     \<and> \<not> terminal_job (jb_state j) \<and> freeze_create j t p alg sha now d = Inr (e, d')"
proof -
  from assms obtain j where f: "fetch (\<lambda>j. jb_id j = i \<and> jb_node j = n) (jobs d) = Inr j"
    and "jb_kind j = KCreate" "jb_state j \<noteq> JPending" "\<not> terminal_job (jb_state j)"
    and "freeze_create j t p alg sha now d = Inr (e, d')"
    by (auto simp: prepareCreate_def bindE_Inr rejectE_Inr)
  with fetch_InrD [OF f] show ?thesis by blast
qed

lemma freeze_create_cases:
  assumes "freeze_create j t p alg sha now d = Inr (e, d')"
  shows "\<exists>d1. (execution_of d (jb_id j) \<noteq> None \<and> d1 = d
       \<or> execution_of d (jb_id j) = None \<and> put_executions (executions d @ [frozen_row j t p alg sha now]) d = Inr d1)
     \<and> e \<in> set (executions d1) \<and> ex_job e = jb_id j \<and> frozen_matches e j t p alg sha
     \<and> (jb_alloc j = None \<and> d' = d1 \<or> (\<exists>a. jb_alloc j = Some a \<and> prepare_writes a now d1 = Inr d'))"
proof -
  from assms obtain d1 where d1: "(case execution_of d (jb_id j) of Some e \<Rightarrow> Inr d
            | None \<Rightarrow> put_executions (executions d @ [frozen_row j t p alg sha now]) d) = Inr d1"
    and f: "fetch (\<lambda>e. ex_job e = jb_id j) (executions d1) = Inr e" and m: "frozen_matches e j t p alg sha"
    and w: "(case jb_alloc j of None \<Rightarrow> Inr d1 | Some a \<Rightarrow> prepare_writes a now d1) = Inr d'"
    by (auto simp: freeze_create_def bindE_Inr rejectE_Inr)
  have "execution_of d (jb_id j) \<noteq> None \<and> d1 = d
       \<or> execution_of d (jb_id j) = None \<and> put_executions (executions d @ [frozen_row j t p alg sha now]) d = Inr d1"
    using d1 by (cases "execution_of d (jb_id j)") simp_all
  moreover have "jb_alloc j = None \<and> d' = d1 \<or> (\<exists>a. jb_alloc j = Some a \<and> prepare_writes a now d1 = Inr d')"
    using w by (cases "jb_alloc j") simp_all
  ultimately show ?thesis using m fetch_InrD [OF f] by blast
qed

definition PrepareCreate :: "uuid \<Rightarrow> uuid \<Rightarrow> string \<Rightarrow> int \<Rightarrow> time \<Rightarrow> db \<Rightarrow> (execution_row \<times> db) res" where
  "PrepareCreate nodeID jobID template port now d = prepareCreate nodeID jobID template port [] [] now d"

section \<open>Claiming\<close>

text \<open>Another unresolved job of the node that shares the allocation or the instance.\<close>

definition conflicting :: "job_row \<Rightarrow> job_row \<Rightarrow> bool" where
  "conflicting j other \<longleftrightarrow> jb_node other = jb_node j \<and> jb_id other \<noteq> jb_id j \<and> unresolved_job (jb_state other)
     \<and> (jb_alloc j \<noteq> None \<and> jb_alloc other = jb_alloc j
        \<or> jb_instance j \<noteq> None \<and> jb_instance other = jb_instance j)"

definition independent_stop :: "db \<Rightarrow> job_row \<Rightarrow> bool" where
  "independent_stop d j \<longleftrightarrow> jb_kind j = KStop \<and> jb_instance j \<noteq> None
     \<and> exists_where (\<lambda>c. jb_alloc c \<noteq> None \<and> jb_alloc c = jb_alloc j \<and> jb_kind c = KCreate \<and> jb_node c = jb_node j
          \<and> jb_instance c = jb_instance j \<and> jb_state c \<in> {JSucceeded, JFailedWithEffect}
          \<and> coalesce (jb_error c) [] \<noteq> ''IDENTITY_UNVERIFIED''
          \<and> exists_where (\<lambda>a. Some (al_id a) = jb_alloc c \<and> \<not> terminal_alloc (al_state a)) (allocs d)) (jobs d)
     \<and> \<not> exists_where (conflicting j) (jobs d)"

definition claimable :: "uuid \<Rightarrow> bool \<Rightarrow> string \<Rightarrow> time \<Rightarrow> db \<Rightarrow> job_row \<Rightarrow> bool" where
  "claimable nodeID independentStop cap now d j \<longleftrightarrow> jb_node j = nodeID \<and> jb_state j = JPending
     \<and> some_and (\<lambda>n. nd_enabled n \<and> some_and (\<lambda>h. now - nodeOnlineWindow < h) (nd_heartbeat n)) (node_of d nodeID)
     \<and> some_and nr_compatible (report_of d nodeID)
     \<and> admits cap j
     \<and> \<not> exists_where (conflicting j) (jobs d)
     \<and> (independentStop \<longrightarrow> independent_stop d j)"

definition claimNextJob :: "uuid \<Rightarrow> bool \<Rightarrow> string \<Rightarrow> time \<Rightarrow> db \<Rightarrow> (Job option \<times> db) res" where
  "claimNextJob nodeID independentStop cap now d =
     bindE (fetch (\<lambda>n. nd_id n = nodeID) (nodes d)) (\<lambda>_.
     case oldest (\<lambda>j. (jb_created j, jb_id j)) (claimable nodeID independentStop cap now d) (jobs d) of
       None \<Rightarrow> Inr (None, d)
     | Some j \<Rightarrow>
         bindE (put_jobs (upd_where (\<lambda>i. jb_id i = jb_id j)
                  (\<lambda>i. i\<lparr>jb_state := JClaimed, jb_claimed := Some now\<rparr>) (jobs d)) d) (\<lambda>d'.
         bindE (JobForNodeWithCapability nodeID (jb_id j) cap d') (\<lambda>job. Inr (Some job, d'))))"

definition ClaimNextJob :: "uuid \<Rightarrow> time \<Rightarrow> db \<Rightarrow> (Job option \<times> db) res" where
  "ClaimNextJob nodeID now d = claimNextJob nodeID False RequiredContentValidationV102 now d"

definition ClaimIndependentStop :: "uuid \<Rightarrow> time \<Rightarrow> db \<Rightarrow> (Job option \<times> db) res" where
  "ClaimIndependentStop nodeID now d = claimNextJob nodeID True RequiredContentValidationV102 now d"

end
