(* ===== verification/Reports.thy ===== *)
theory Reports
  imports Jobs
begin

text \<open>
  The report of a node job (\<open>reportJob\<close>, \<open>ReportJob\<close>, \<open>BeginOperation\<close> and
  \<open>applyAllocationJobReport\<close> of \<open>node_jobs_api.go\<close>, \<open>node_capability.go\<close>): which reports a job in a given state accepts,
  and what an accepted report does to the allocation, its request, the next-game intent and the
  validation run.  The identifiers \<open>NewID\<close> would draw are arguments: \<open>newReq\<close> for a next-game
  request and \<open>newJob\<close> for a stop job.
\<close>

section \<open>Effect on the allocation\<close>

definition report_effect ::
    "job_kind \<Rightarrow> job_state \<Rightarrow> string \<Rightarrow> bool \<Rightarrow> bool \<Rightarrow> (alloc_state \<times> req_state) option" where
  "report_effect kind s errorCode auto pausedIntent = (case kind of
      KCreate \<Rightarrow> (case s of
          JAccepted \<Rightarrow> Some (ACreating, RCreating)
        | JUnknown \<Rightarrow> Some (ACreateUnknown, RCreating)
        | JSucceeded \<Rightarrow> Some (ARunning, RRunning)
        | JRejectedNoEffect \<Rightarrow> Some (AReleasedNoEffect, if auto then RWaiting else RUnavailable)
        | JFailedWithEffect \<Rightarrow>
            Some (if errorCode = ''IDENTITY_UNVERIFIED'' then (AQuarantined, RQuarantined)
                  else (AFailedUnreclaimed, RFailedUnreclaimed))
        | _ \<Rightarrow> None)
    | KStop \<Rightarrow> (case s of
          JAccepted \<Rightarrow> Some (AStopping, RStopping)
        | JUnknown \<Rightarrow> Some (AStopping, RStopping)
        | JSucceeded \<Rightarrow> Some (AReclaimed, if pausedIntent then RQuarantined else REnded)
        | JFailedWithEffect \<Rightarrow> Some (AQuarantined, RQuarantined)
        | _ \<Rightarrow> None)
    | KOther _ \<Rightarrow> None)"

text \<open>A report that proves what became of the resource: only such a one resolves quarantine.\<close>

definition releasing :: "job_kind \<Rightarrow> job_state \<Rightarrow> bool" where
  "releasing kind s \<longleftrightarrow> kind = KStop \<and> s = JSucceeded \<or> kind = KCreate \<and> s = JRejectedNoEffect"

definition write_alloc_state :: "alloc_state \<Rightarrow> string \<Rightarrow> time \<Rightarrow> alloc_row \<Rightarrow> alloc_row" where
  "write_alloc_state s errorCode now a = a\<lparr>
     al_state := s,
     al_error := nullif errorCode [],
     al_ready := (if s = ARunning then Some (coalesce (al_ready a) now) else al_ready a),
     al_reclaimed := (if s = AReclaimed then Some (coalesce (al_reclaimed a) now) else al_reclaimed a),
     al_quarantined := (if s = AQuarantined then Some (coalesce (al_quarantined a) now) else al_quarantined a)\<rparr>"

definition set_alloc :: "uuid \<Rightarrow> (alloc_row \<Rightarrow> alloc_row) \<Rightarrow> db \<Rightarrow> db res" where
  "set_alloc allocationID f d = put_allocs (upd_where (\<lambda>a. al_id a = allocationID) f (allocs d)) d"

definition write_join :: "JoinInfo \<Rightarrow> time \<Rightarrow> alloc_row \<Rightarrow> alloc_row" where
  "write_join j now a = a\<lparr>
     al_local_port := Some (ji_LocalPort j), al_public_port := Some (ji_PublicPort j),
     al_host := Some (ji_ConnectHost j), al_protocol_ip := nullif (ji_ProtocolIP j) [],
     al_join_revision := Some (ji_EntryConfigRevision j), al_join_error := None,
     al_join_at := Some (coalesce (al_join_at a) now)\<rparr>"

text \<open>
  Join information counts only under the entry revision the node publishes now; otherwise it is
  replaced by the error \<open>NETWORK_CONFIG_CHANGED\<close>.
\<close>

definition current_join :: "uuid \<Rightarrow> JoinInfo option \<Rightarrow> string \<Rightarrow> db \<Rightarrow> (JoinInfo option \<times> string) res" where
  "current_join nodeID join joinError d = (case join of
      None \<Rightarrow> Inr (None, joinError)
    | Some j \<Rightarrow> bindE (fetch (\<lambda>e. en_node e = nodeID) (entries d)) (\<lambda>e.
        Inr (if ji_EntryConfigRevision j \<noteq> en_revision e then (None, ''NETWORK_CONFIG_CHANGED'')
             else (Some j, joinError))))"

definition record_join ::
    "uuid \<Rightarrow> uuid \<Rightarrow> job_kind \<Rightarrow> job_state \<Rightarrow> JoinInfo option \<Rightarrow> string \<Rightarrow> time \<Rightarrow> db \<Rightarrow> (bool \<times> db) res" where
  "record_join allocationID nodeID kind s join joinError now d =
     (if kind = KCreate \<and> s = JSucceeded then
        bindE (current_join nodeID join joinError d) (\<lambda>(join, joinError).
        bindE (set_alloc allocationID (case join of
                   Some j \<Rightarrow> write_join j now
                 | None \<Rightarrow> al_join_error_update (\<lambda>_. Some joinError)) d) (\<lambda>d'.
        Inr (join \<noteq> None, d')))
      else Inr (join \<noteq> None, d))"

text \<open>
  The stop job of an allocation, \<open>INSERT ... ON CONFLICT DO NOTHING\<close>: nothing is inserted when the
  identifier or the allocation's open stop already exists.
\<close>

definition insert_stop :: "uuid \<Rightarrow> uuid \<Rightarrow> uuid \<Rightarrow> string \<Rightarrow> time \<Rightarrow> db \<Rightarrow> db res" where
  "insert_stop newJob nodeID allocationID instanceID now d =
     (case find (\<lambda>j. jb_alloc j = Some allocationID \<and> jb_kind j = KCreate) (jobs d) of
        None \<Rightarrow> Inl (Constraint ''node_jobs'')
      | Some c \<Rightarrow>
          if exists_where (\<lambda>j. jb_id j = newJob \<or> open_stop_slot j = Some allocationID) (jobs d) then Inr d
          else put_jobs (jobs d @ [new_job newJob nodeID KStop False (Some allocationID) (Some instanceID)
                 (jb_capability c) now]) d)"

definition effectful_create_stop ::
    "uuid \<Rightarrow> uuid \<Rightarrow> uuid option \<Rightarrow> job_kind \<Rightarrow> job_state \<Rightarrow> string \<Rightarrow> string \<Rightarrow> uuid \<Rightarrow> time \<Rightarrow> db \<Rightarrow> db res" where
  "effectful_create_stop allocationID nodeID requestID kind s instanceID errorCode newJob now d =
     (if kind = KCreate \<and> s = JFailedWithEffect \<and> instanceID \<noteq> [] \<and> errorCode \<noteq> ''IDENTITY_UNVERIFIED'' then
        bindE (insert_stop newJob nodeID allocationID instanceID now d) (\<lambda>d.
        bindE (set_alloc allocationID (al_state_update (\<lambda>_. AStopping)) d) (\<lambda>d.
        case requestID of None \<Rightarrow> Inr d | Some r \<Rightarrow> set_live_request_state r RStopping now d))
      else Inr d)"

definition report_owner ::
    "alloc_row \<Rightarrow> job_kind \<Rightarrow> job_state \<Rightarrow> string \<Rightarrow> bool \<Rightarrow> alloc_state \<Rightarrow> req_state \<Rightarrow> uuid \<Rightarrow> time \<Rightarrow> db \<Rightarrow> db res" where
  "report_owner a kind s errorCode joined allocState requestState newReq now d =
     bindE (case al_request a of None \<Rightarrow> Inr d
            | Some r \<Rightarrow> set_live_request_state r requestState now d) (\<lambda>d.
     bindE (case al_run a of None \<Rightarrow> Inr d
            | Some v \<Rightarrow> advanceValidationFromJob v kind s allocState errorCode joined now d) (\<lambda>d.
     case al_request a of
       None \<Rightarrow> Inr d
     | Some r \<Rightarrow>
         bindE (if allocState = AQuarantined then pauseNextGameIntent r d else Inr d) (\<lambda>d.
         if kind = KStop \<and> s = JSucceeded \<and> al_state a \<noteq> AQuarantined
         then consumeNextGameIntent r False newReq now d else Inr d)))"

definition apply_effect ::
    "alloc_row \<Rightarrow> uuid \<Rightarrow> job_kind \<Rightarrow> job_state \<Rightarrow> string \<Rightarrow> string \<Rightarrow> JoinInfo option \<Rightarrow> string
     \<Rightarrow> alloc_state \<Rightarrow> req_state \<Rightarrow> uuid \<Rightarrow> uuid \<Rightarrow> time \<Rightarrow> db \<Rightarrow> db res" where
  "apply_effect a nodeID kind s instanceID errorCode join joinError allocState requestState newReq newJob now d =
     bindE (set_alloc (al_id a) (write_alloc_state allocState errorCode now) d) (\<lambda>d.
     bindE (record_join (al_id a) nodeID kind s join joinError now d) (\<lambda>(joined, d).
     bindE (report_owner a kind s errorCode joined allocState requestState newReq now d) (\<lambda>d.
     effectful_create_stop (al_id a) nodeID (al_request a) kind s instanceID errorCode newJob now d)))"

text \<open>A late report of a terminal attempt, and one that proves nothing about a quarantined attempt,
  close the job only.\<close>

definition report_ignored :: "alloc_row \<Rightarrow> job_kind \<Rightarrow> job_state \<Rightarrow> bool" where
  "report_ignored a kind s \<longleftrightarrow> terminal_alloc (al_state a) \<or> al_state a = AQuarantined \<and> \<not> releasing kind s"

definition auto_request :: "alloc_row \<Rightarrow> db \<Rightarrow> bool" where
  "auto_request a d \<longleftrightarrow> (case al_request a of None \<Rightarrow> False
     | Some r \<Rightarrow> exists_where (\<lambda>q. rq_id q = r \<and> rq_mode q = SelAuto) (requests d))"

definition owner_paused :: "alloc_row \<Rightarrow> db \<Rightarrow> bool" where
  "owner_paused a d \<longleftrightarrow> (case al_request a of None \<Rightarrow> False | Some r \<Rightarrow> paused_intent r d)"

definition applyAllocationJobReport ::
    "uuid \<Rightarrow> uuid \<Rightarrow> job_kind \<Rightarrow> job_state \<Rightarrow> string \<Rightarrow> string \<Rightarrow> JoinInfo option \<Rightarrow> string
     \<Rightarrow> uuid \<Rightarrow> uuid \<Rightarrow> time \<Rightarrow> db \<Rightarrow> db res" where
  "applyAllocationJobReport allocationID nodeID kind s instanceID errorCode join joinError newReq newJob now d =
     bindE (fetch (\<lambda>a. al_id a = allocationID) (allocs d)) (\<lambda>a.
     if report_ignored a kind s then Inr d
     else (case report_effect kind s errorCode (auto_request a d) (owner_paused a d) of
         None \<Rightarrow> Inl (ErrJobConflict ''unsupported business job report'')
       | Some (allocState, requestState) \<Rightarrow>
           apply_effect a nodeID kind s instanceID errorCode join joinError allocState requestState newReq newJob now d))"

lemma applyAllocationJobReport_cases:
  assumes "applyAllocationJobReport i n k s inst e j je newReq newJob now d = Inr d'"
  shows "\<exists>a. a \<in> set (allocs d) \<and> al_id a = i \<and>
    (report_ignored a k s \<and> d' = d
     \<or> \<not> report_ignored a k s \<and> (\<exists>x rs. report_effect k s e (auto_request a d) (owner_paused a d) = Some (x, rs)
         \<and> apply_effect a n k s inst e j je x rs newReq newJob now d = Inr d'))"
proof -
  from assms obtain a where a: "find (\<lambda>a. al_id a = i) (allocs d) = Some a"
    by (auto simp: applyAllocationJobReport_def result_simps)
  then have "a \<in> set (allocs d)" "al_id a = i" using find_SomeD [OF a] by simp_all
  with a assms show ?thesis
    by (intro exI [of _ a])
      (simp add: applyAllocationJobReport_def fetch_def split: option.splits if_splits prod.splits)
qed

section \<open>Which reports a job accepts\<close>

definition permittedTransition :: "job_state \<Rightarrow> job_state \<Rightarrow> bool" where
  "permittedTransition old next \<longleftrightarrow> old = next \<or> (case old of
      JClaimed \<Rightarrow> next \<in> {JAccepted, JUnknown, JRejectedNoEffect, JFailedWithEffect}
    | JAccepted \<Rightarrow> next \<in> {JUnknown, JSucceeded, JFailedWithEffect}
    | JUnknown \<Rightarrow> next \<in> {JAccepted, JSucceeded, JRejectedNoEffect, JFailedWithEffect}
    | _ \<Rightarrow> False)"

text \<open>An identifier that is set stays; an absent one is filled by the report.\<close>

definition merge_id :: "string \<Rightarrow> string \<Rightarrow> string" where
  "merge_id old new = (if new \<noteq> [] then new else old)"

definition raw_frozen :: "execution_row \<Rightarrow> FrozenCreate" where
  "raw_frozen e = (frozen_of e)\<lparr>fc_RequiredCapability := capability_text (ex_capability e)\<rparr>"

definition start_check :: "job_row \<Rightarrow> OperationStartRequest \<Rightarrow> db \<Rightarrow> unit res" where
  "start_check j start d =
     rejectE (jb_capability j \<noteq> ContentValidationV102 \<or> jb_kind j \<noteq> os_Kind start
              \<or> (jb_state j \<noteq> JClaimed \<and> jb_state j \<noteq> JUnknown) \<or> coalesce (jb_operation j) [] \<noteq> [])
       (ErrJobConflict ''operation cannot start'') (
     if jb_kind j = KStop then
       rejectE (coalesce (jb_instance j) [] = [] \<or> coalesce (jb_instance j) [] \<noteq> os_InstanceID start)
         (ErrJobConflict ''stop instance changed'') (Inr ())
     else rejectE (map_option raw_frozen (execution_of d (jb_id j)) = None
              \<or> map_option raw_frozen (execution_of d (jb_id j)) \<noteq> os_FrozenCreate start
              \<or> coalesce (jb_instance j) [] \<noteq> [])
         (ErrJobConflict ''frozen create changed'') (Inr ()))"

definition report_check :: "job_row \<Rightarrow> ReportRequest \<Rightarrow> db \<Rightarrow> unit res" where
  "report_check j r d =
     (let inst = coalesce (jb_instance j) []; oper = coalesce (jb_operation j) [];
          inst' = merge_id inst (rp_InstanceID r); oper' = merge_id oper (rp_OperationID r) in
     rejectE (jb_capability j = ContentValidationV102 \<and> jb_state j = JClaimed \<and> rp_State r \<in> {JAccepted, JSucceeded})
       (ErrJobConflict ''missing durable operation start'') (
     rejectE (\<not> permittedTransition (jb_state j) (rp_State r)) (ErrJobConflict ''invalid transition'') (
     rejectE (rp_InstanceID r \<noteq> [] \<and> inst \<noteq> [] \<and> rp_InstanceID r \<noteq> inst) (ErrJobConflict ''instance ID changed'') (
     rejectE (rp_OperationID r \<noteq> [] \<and> oper \<noteq> [] \<and> rp_OperationID r \<noteq> oper) (ErrJobConflict ''operation ID changed'') (
     rejectE (jb_kind j = KCreate \<and> execution_of d (jb_id j) = None \<and> rp_State r \<noteq> JRejectedNoEffect)
       (ErrJobConflict ''create job has no frozen execution'') (
     rejectE (rp_State r \<in> {JAccepted, JSucceeded} \<and> (inst' = [] \<or> oper' = []))
       (ErrJobConflict ''accepted job lacks core IDs'') (
     rejectE (rp_State r = JRejectedNoEffect \<and> (jb_kind j \<noteq> KCreate \<or> inst' \<noteq> [] \<or> oper' \<noteq> [] \<or> rp_ErrorCode r = []))
       (ErrJobConflict ''no-effect rejection lacks proof'') (
     rejectE (rp_State r = JRejectedNoEffect \<and> (jb_state j = JUnknown \<or> rp_ErrorCode r = ''RECONCILED_NO_EFFECT''))
       (ErrJobConflict ''ambiguous create cannot be released by rejection'') (
     rejectE (rp_State r = JFailedWithEffect \<and> inst' = [] \<and> oper' = [])
       (ErrJobConflict ''effectful failure lacks core IDs'') (
     rejectE (jb_alloc j \<noteq> None \<and> jb_kind j = KCreate \<and> rp_State r = JSucceeded
              \<and> (rp_JoinInfo r = None) = (rp_JoinInfoErrorCode r = []))
       (ErrJobConflict ''business Ready requires JoinInfo or structured error'') (Inr ())))))))))))"

text \<open>The report repeats what the job already records: it is acknowledged and changes nothing.\<close>

definition repeats :: "job_row \<Rightarrow> ReportRequest \<Rightarrow> bool" where
  "repeats j r \<longleftrightarrow> jb_state j = rp_State r
     \<and> merge_id (coalesce (jb_instance j) []) (rp_InstanceID r) = coalesce (jb_instance j) []
     \<and> merge_id (coalesce (jb_operation j) []) (rp_OperationID r) = coalesce (jb_operation j) []
     \<and> coalesce (jb_error j) [] = rp_ErrorCode r \<and> coalesce (jb_stage j) [] = rp_ErrorStage r"

definition write_job :: "ReportRequest \<Rightarrow> string \<Rightarrow> string \<Rightarrow> job_row \<Rightarrow> job_row" where
  "write_job r inst oper j = j\<lparr>jb_state := rp_State r, jb_instance := nullif inst [],
     jb_operation := nullif oper [], jb_error := nullif (rp_ErrorCode r) [], jb_stage := nullif (rp_ErrorStage r) []\<rparr>"

definition conflict :: "'a res \<Rightarrow> 'a res" where
  "conflict m = (case m of Inl (Invalid s) \<Rightarrow> Inl (ErrJobConflict s) | _ \<Rightarrow> m)"

section \<open>Recording a report\<close>

definition apply_report :: "job_row \<Rightarrow> ReportRequest \<Rightarrow> uuid \<Rightarrow> uuid \<Rightarrow> uuid \<Rightarrow> time \<Rightarrow> db \<Rightarrow> db res" where
  "apply_report j r nodeID newReq newJob now d =
     (let inst = merge_id (coalesce (jb_instance j) []) (rp_InstanceID r);
          oper = merge_id (coalesce (jb_operation j) []) (rp_OperationID r) in
     bindE (put_jobs (upd_where (\<lambda>i. jb_id i = jb_id j \<and> jb_node i = nodeID) (write_job r inst oper) (jobs d)) d) (\<lambda>d.
     bindE (case jb_alloc j of
              None \<Rightarrow> Inr d
            | Some a \<Rightarrow> applyAllocationJobReport a nodeID (jb_kind j) (rp_State r) inst (rp_ErrorCode r)
                (rp_JoinInfo r) (rp_JoinInfoErrorCode r) newReq newJob now d) (\<lambda>d.
     Inr (d\<lparr>job_reports := job_reports d @ [\<lparr>jr_job = jb_id j, jr_state = rp_State r, jr_instance = nullif inst [],
       jr_operation = nullif oper [], jr_error = nullif (rp_ErrorCode r) [],
       jr_stage = nullif (rp_ErrorStage r) []\<rparr>]\<rparr>))))"

text \<open>What happens under the locks: the checks of a start, then those of the report.\<close>

definition report_locked ::
    "job_row \<Rightarrow> uuid \<Rightarrow> ReportRequest \<Rightarrow> OperationStartRequest option \<Rightarrow> uuid \<Rightarrow> uuid \<Rightarrow> time \<Rightarrow> db \<Rightarrow> db res" where
  "report_locked j nodeID r start newReq newJob now d =
     bindE (case start of None \<Rightarrow> Inr () | Some st \<Rightarrow> start_check j st d) (\<lambda>_.
     if start \<noteq> None \<and> jb_state j = JUnknown then Inr d
     else bindE (report_check j r d) (\<lambda>_.
       if repeats j r then Inr d
       else rejectE (terminal_job (jb_state j)) (ErrJobConflict ''terminal report cannot change'')
              (apply_report j r nodeID newReq newJob now d)))"

definition reportJob_commit ::
    "uuid \<Rightarrow> uuid \<Rightarrow> ReportRequest \<Rightarrow> OperationStartRequest option \<Rightarrow> uuid \<Rightarrow> uuid \<Rightarrow> time \<Rightarrow> db \<Rightarrow> db res" where
  "reportJob_commit nodeID jobID r start newReq newJob now d =
     bindE (conflict (ReportRequest_Validate r)) (\<lambda>_.
     bindE (fetch (\<lambda>j. jb_id j = jobID \<and> jb_node j = nodeID) (jobs d)) (\<lambda>j.
     bindE (fetch (\<lambda>n. nd_id n = nodeID) (nodes d)) (\<lambda>_.
     bindE (lockJobBusinessRows nodeID jobID d) (\<lambda>_.
     report_locked j nodeID r start newReq newJob now d))))"

lemma report_locked_cases:
  assumes "report_locked j n r st newReq newJob now d = Inr d'"
  shows "d' = d \<or> report_check j r d = Inr () \<and> \<not> repeats j r \<and> \<not> terminal_job (jb_state j)
     \<and> apply_report j r n newReq newJob now d = Inr d'"
proof (cases "st \<noteq> None \<and> jb_state j = JUnknown \<or> repeats j r")
  case True
  then show ?thesis using assms by (auto simp: report_locked_def bindE_Inr split: if_splits)
next
  case False
  then show ?thesis using assms by (auto simp: report_locked_def bindE_Inr rejectE_Inr split: if_splits)
qed

lemma conflict_Inr [result_simps]: "conflict m = Inr x \<longleftrightarrow> m = Inr x"
  by (auto simp: conflict_def split: sum.splits err.splits)

lemma reportJob_commit_cases:
  assumes "reportJob_commit n i r st newReq newJob now d = Inr d'"
  shows "\<exists>j. j \<in> set (jobs d) \<and> jb_id j = i \<and> jb_node j = n \<and> ReportRequest_Validate r = Inr ()
     \<and> report_locked j n r st newReq newJob now d = Inr d'"
proof -
  from assms obtain j where f: "fetch (\<lambda>j. jb_id j = i \<and> jb_node j = n) (jobs d) = Inr j"
    and "ReportRequest_Validate r = Inr ()" "report_locked j n r st newReq newJob now d = Inr d'"
    by (auto simp: reportJob_commit_def bindE_Inr conflict_Inr)
  with fetch_InrD [OF f] show ?thesis by blast
qed

definition reportJob ::
    "uuid \<Rightarrow> uuid \<Rightarrow> ReportRequest \<Rightarrow> OperationStartRequest option \<Rightarrow> uuid \<Rightarrow> uuid \<Rightarrow> time \<Rightarrow> db \<Rightarrow> (Job \<times> db) res" where
  "reportJob nodeID jobID r start newReq newJob now d =
     bindE (reportJob_commit nodeID jobID r start newReq newJob now d) (\<lambda>d'.
     bindE (JobForNodeWithCapability nodeID jobID RequiredContentValidationV102 d') (\<lambda>job. Inr (job, d')))"

definition ReportJob :: "uuid \<Rightarrow> uuid \<Rightarrow> ReportRequest \<Rightarrow> uuid \<Rightarrow> uuid \<Rightarrow> time \<Rightarrow> db \<Rightarrow> (Job \<times> db) res" where
  "ReportJob nodeID jobID r newReq newJob now d = reportJob nodeID jobID r None newReq newJob now d"

definition begin_report :: ReportRequest where
  "begin_report = \<lparr>rp_State = JUnknown, rp_InstanceID = [], rp_OperationID = [], rp_ErrorCode = [],
     rp_ErrorStage = [], rp_JoinInfo = None, rp_JoinInfoErrorCode = []\<rparr>"

definition BeginOperation :: "uuid \<Rightarrow> uuid \<Rightarrow> OperationStartRequest \<Rightarrow> uuid \<Rightarrow> uuid \<Rightarrow> time \<Rightarrow> db \<Rightarrow> (Job \<times> db) res" where
  "BeginOperation nodeID jobID input newReq newJob now d =
     bindE (conflict (OperationStartRequest_Validate input)) (\<lambda>_.
     reportJob nodeID jobID begin_report (Some input) newReq newJob now d)"

definition RequiredCapabilityForJob :: "uuid \<Rightarrow> uuid \<Rightarrow> db \<Rightarrow> string res" where
  "RequiredCapabilityForJob nodeID jobID d =
     bindE (fetch (\<lambda>j. jb_node j = nodeID \<and> jb_id j = jobID) (jobs d)) (\<lambda>j. Inr (capability_text (jb_capability j)))"

definition RequiredCapabilityForAllocation :: "uuid \<Rightarrow> uuid \<Rightarrow> db \<Rightarrow> string res" where
  "RequiredCapabilityForAllocation nodeID allocationID d =
     bindE (fetch (\<lambda>a. al_node a = nodeID \<and> al_id a = allocationID) (allocs d)) (\<lambda>a.
     bindE (fetch (\<lambda>j. jb_alloc j = Some (al_id a) \<and> jb_kind j = KCreate) (jobs d)) (\<lambda>j.
     Inr (capability_text (jb_capability j))))"

end
