(* ===== verification/MachineProof.thy ===== *)
theory MachineProof
  imports Eligibility "HOL-Library.Char_ord" "HOL-Library.List_Lexorder"
begin

text \<open>
  The persisted Node-and-Preset proof (\<open>internal/platform/store/proof.go\<close>): a validation run counts
  only while every fact it was bound to (content, template, node, report, inventory) is still current
  and fresh.  The five joined rows are looked up one by one.  Scan identifiers, which only break ties
  between snapshots of the same instant, are compared bytewise.
\<close>

definition fresh :: "time \<Rightarrow> time option \<Rightarrow> bool" where
  "fresh now t \<longleftrightarrow> some_and (\<lambda>t. now - 2 * minute < t) t"

definition contentValidationV102 :: string where
  "contentValidationV102 = ''contentValidationV102''"

definition latest_snapshot :: "db \<Rightarrow> uuid \<Rightarrow> snapshot_row option" where
  "latest_snapshot d n = newest (\<lambda>s. (sn_received s, sn_scan s)) (\<lambda>s. sn_node s = n) (snapshots d)"

definition content_current :: "db \<Rightarrow> time \<Rightarrow> run_row \<Rightarrow> bool" where
  "content_current d now v \<longleftrightarrow>
     some_and (\<lambda>cb. cb_epoch cb = vr_epoch v \<and> cb_fact_revision cb = vr_content_fact v \<and> cb_confirmed cb
        \<and> cb_version cb = Some (vr_content v) \<and> cb_sha256 cb = Some (vr_sha256 v) \<and> fresh now (cb_reported_at cb))
       (content_binding_of d (vr_node v) (vr_game v))
     \<and> exists_where (\<lambda>cv. cv_game cv = vr_game v \<and> cv_id cv = vr_content v \<and> cv_sha256 cv = vr_sha256 v) (contents d)"

definition template_fact_of :: "db \<Rightarrow> uuid \<Rightarrow> string \<Rightarrow> template_fact_row option" where
  "template_fact_of d n tr = find (\<lambda>f. tf_node f = n \<and> tf_revision f = tr) (template_facts d)"

definition template_current :: "db \<Rightarrow> time \<Rightarrow> run_row \<Rightarrow> bool" where
  "template_current d now v \<longleftrightarrow>
     some_and (\<lambda>tb. tb_key tb = vr_key v \<and> tb_generation tb = vr_generation v \<and> tb_fingerprint tb = Some (vr_fingerprint v))
       (template_binding_of d (vr_node v) (vr_revision v))
     \<and> some_and (\<lambda>tf. tf_key tf = Some (vr_key v) \<and> tf_confirmed tf
          \<and> tf_algorithm tf = Some TemplateManifestAlgorithmV1 \<and> tf_fingerprint tf = Some (vr_fingerprint v)
          \<and> tf_fact_revision tf = vr_template_fact v \<and> fresh now (tf_received tf))
       (template_fact_of d (vr_node v) (vr_revision v))"

definition node_current :: "db \<Rightarrow> time \<Rightarrow> uuid \<Rightarrow> bool" where
  "node_current d now n \<longleftrightarrow>
     some_and (\<lambda>n. nd_enabled n \<and> nd_accepting n \<and> \<not> nd_draining n \<and> fresh now (nd_heartbeat n)) (node_of d n)
     \<and> some_and (\<lambda>r. nr_compatible r \<and> contentValidationV102 \<in> set (nr_capabilities r) \<and> nr_inventory_confirmed r
          \<and> some_and (\<lambda>s. nr_inventory_scan r = Some (sn_scan s) \<and> sn_complete s \<and> sn_confirmed s
               \<and> sn_unaccounted s = [] \<and> now - 2 * minute < sn_received s) (latest_snapshot d n))
       (report_of d n)"

definition run_accepted :: "run_row \<Rightarrow> bool" where
  "run_accepted v \<longleftrightarrow> vr_state v = VPassed \<and> vr_result v = Some ''PASS'' \<and> vr_human v = HPass
     \<and> vr_ready v \<noteq> None \<and> vr_join_at v \<noteq> None"

definition proves ::
    "db \<Rightarrow> uuid \<Rightarrow> uuid \<Rightarrow> uuid \<Rightarrow> string \<Rightarrow> string \<Rightarrow> uuid option \<Rightarrow> time \<Rightarrow> run_row \<Rightarrow> bool" where
  "proves d nodeID gameID presetID contentID revisionID runID now v \<longleftrightarrow>
     vr_node v = nodeID \<and> vr_game v = gameID \<and> vr_preset v = presetID
     \<and> vr_content v = contentID \<and> vr_revision v = revisionID
     \<and> (runID = None \<or> runID = Some (vr_id v))
     \<and> exists_where (\<lambda>a. al_run a = Some (vr_id v) \<and> al_state a = AReclaimed) (allocs d)
     \<and> run_accepted v \<and> content_current d now v \<and> template_current d now v \<and> node_current d now nodeID"

definition effectiveValidationProof ::
    "uuid \<Rightarrow> uuid \<Rightarrow> uuid \<Rightarrow> string \<Rightarrow> string \<Rightarrow> uuid option \<Rightarrow> time \<Rightarrow> db \<Rightarrow> uuid option" where
  "effectiveValidationProof nodeID gameID presetID contentID revisionID runID now d =
     map_option vr_id (newest (\<lambda>v. (coalesce (vr_passed v) 0, vr_id v))
       (proves d nodeID gameID presetID contentID revisionID runID now) (runs d))"

lemma effectiveValidationProof_iff:
  "effectiveValidationProof n g p c tr r now d = None \<longleftrightarrow> (\<forall>v \<in> set (runs d). \<not> proves d n g p c tr r now v)"
  by (simp add: effectiveValidationProof_def newest_None)

lemma effectiveValidationProof_SomeD:
  assumes "effectiveValidationProof n g p c tr r now d = Some i"
  shows "\<exists>v \<in> set (runs d). vr_id v = i \<and> proves d n g p c tr r now v"
proof -
  from assms obtain v where "newest (\<lambda>v. (coalesce (vr_passed v) 0, vr_id v)) (proves d n g p c tr r now) (runs d) = Some v"
    and "vr_id v = i" by (auto simp: effectiveValidationProof_def)
  with newest_SomeD [OF this(1)] show ?thesis by metis
qed

end
