(* ===== verification/Scheduler.thy ===== *)
theory Scheduler
  imports Reports MachineProof
begin

text \<open>
  The scheduler's transactional reservation and the owner's reads and stops of an allocation
  (\<open>internal/platform/store/allocation.go\<close>).  The advisory lock and the row locks serialise the
  transactions; each operation here is one serial transaction.
\<close>

section \<open>Choosing a node\<close>

definition released_on :: "db \<Rightarrow> uuid \<Rightarrow> uuid \<Rightarrow> bool" where
  "released_on d requestID n \<longleftrightarrow>
     exists_where (\<lambda>a. al_request a = Some requestID \<and> al_node a = n \<and> al_state a = AReleasedNoEffect) (allocs d)"

text \<open>A manual choice is the node itself; otherwise nodes by descending priority, without those
  that already released an attempt of this request with no effect.\<close>

definition candidate_nodes :: "request_row \<Rightarrow> db \<Rightarrow> uuid list" where
  "candidate_nodes r d =
     (if rq_mode r = SelManual then
        map nd_id (filter (\<lambda>n. Some (nd_id n) = rq_manual r) (nodes d))
      else map nd_id (order_by (\<lambda>n. (- nd_priority n, nd_id n))
             (filter (\<lambda>n. \<not> released_on d (rq_id r) (nd_id n)) (nodes d))))"

record selection =
  se_node :: NodeEligibility
  se_fingerprint :: string
  se_generation :: int

text \<open>The extra requirements of the validated contract on an available node: an accepting content
  binding, a template binding, and the current proof.\<close>

definition validated_binding ::
    "uuid \<Rightarrow> uuid \<Rightarrow> uuid \<Rightarrow> string \<Rightarrow> string \<Rightarrow> string \<Rightarrow> time \<Rightarrow> db \<Rightarrow> (string \<times> int) option" where
  "validated_binding nodeID gameID presetID contentID revisionID contentSHA now d =
     (case find (\<lambda>b. cb_node b = nodeID \<and> cb_game b = gameID \<and> cb_accepting b) (content_bindings d) of
        None \<Rightarrow> None
      | Some _ \<Rightarrow> (case template_binding_of d nodeID revisionID of
          None \<Rightarrow> None
        | Some b \<Rightarrow>
            let fingerprint = coalesce (tb_fingerprint b) []; generation = tb_generation b in
            if effectiveValidationProof nodeID gameID presetID contentID revisionID None now d = None
               \<or> contentSHA = [] \<or> fingerprint = [] \<or> generation = 0
            then None else Some (fingerprint, generation)))"

fun select_node ::
    "contract \<Rightarrow> uuid \<Rightarrow> uuid \<Rightarrow> string \<Rightarrow> string \<Rightarrow> string \<Rightarrow> time \<Rightarrow> db \<Rightarrow> uuid list \<Rightarrow> selection option res" where
  "select_node c gameID presetID contentID revisionID contentSHA now d [] = Inr None"
| "select_node c gameID presetID contentID revisionID contentSHA now d (i # is) =
     bindE (node_eligibility d i revisionID gameID) (\<lambda>n.
     if Reason n contentID now \<noteq> Available
     then select_node c gameID presetID contentID revisionID contentSHA now d is
     else if c = V102Contract then
       (case validated_binding i gameID presetID contentID revisionID contentSHA now d of
          None \<Rightarrow> select_node c gameID presetID contentID revisionID contentSHA now d is
        | Some (fingerprint, generation) \<Rightarrow>
            Inr (Some \<lparr>se_node = n, se_fingerprint = fingerprint, se_generation = generation\<rparr>))
     else Inr (Some \<lparr>se_node = n, se_fingerprint = [], se_generation = 0\<rparr>))"

section \<open>Reserving\<close>

definition next_sequence :: "db \<Rightarrow> uuid \<Rightarrow> int" where
  "next_sequence d requestID =
     fold max (map al_sequence (filter (\<lambda>a. al_request a = Some requestID) (allocs d))) 0 + 1"

definition new_alloc :: "uuid \<Rightarrow> uuid option \<Rightarrow> uuid option \<Rightarrow> uuid \<Rightarrow> int \<Rightarrow> uuid \<Rightarrow> string \<Rightarrow> string \<Rightarrow> time \<Rightarrow> alloc_row" where
  "new_alloc newID requestID runID gameID sequence nodeID contentID revisionID now =
     \<lparr>al_id = newID, al_request = requestID, al_run = runID, al_game = gameID, al_sequence = sequence,
      al_node = nodeID, al_content = contentID, al_revision = revisionID, al_state = AReserved,
      al_assigned = now, al_create_started = None, al_ready = None, al_join_at = None, al_reclaimed = None,
      al_quarantined = None, al_error = None, al_local_port = None, al_public_port = None, al_host = None,
      al_protocol_ip = None, al_join_revision = None, al_join_error = None\<rparr>"

definition create_job ::
    "uuid \<Rightarrow> uuid \<Rightarrow> uuid \<Rightarrow> string \<Rightarrow> contract \<Rightarrow> string \<Rightarrow> int \<Rightarrow> string \<Rightarrow> string \<Rightarrow> string \<Rightarrow> time \<Rightarrow> job_row" where
  "create_job newJob nodeID allocationID key c fingerprint generation workshop contentID contentSHA now =
     (new_job newJob nodeID KCreate False (Some allocationID) None
        (if c = V102Contract then ContentValidationV102 else LegacyV1) now)
     \<lparr>jb_binding_key := Some key,
      jb_fingerprint := nullif fingerprint [],
      jb_generation := nullif generation 0,
      jb_workshop := (if c = V102Contract then nullif workshop [] else None),
      jb_content := (if c = V102Contract then nullif contentID [] else None),
      jb_vpk_sha256 := (if c = V102Contract then nullif contentSHA [] else None)\<rparr>"

definition reserve ::
    "request_row \<Rightarrow> game_row \<Rightarrow> preset_row \<Rightarrow> string \<Rightarrow> string \<Rightarrow> selection \<Rightarrow> uuid \<Rightarrow> uuid \<Rightarrow> time \<Rightarrow> db \<Rightarrow> db res" where
  "reserve r g p contentID contentSHA sel newAlloc newJob now d =
     (let n = ne_ID (se_node sel) in
     bindE (put_allocs (allocs d @ [new_alloc newAlloc (Some (rq_id r)) None (gm_id g) (next_sequence d (rq_id r)) n
              contentID (ps_revision p) now]) d) (\<lambda>d.
     bindE (put_jobs (jobs d @ [create_job newJob n newAlloc (ne_BindingKey (se_node sel)) (ps_contract p)
              (se_fingerprint sel) (se_generation sel) (gm_workshop g) contentID contentSHA now]) d) (\<lambda>d.
     set_request_state (rq_id r) RAllocating now d)))"

section \<open>One scheduling cycle\<close>

text \<open>\<open>None\<close> is \<open>continue\<close>: the request stays waiting and the next one is tried.\<close>

definition allocate_request :: "uuid \<Rightarrow> uuid \<Rightarrow> time \<Rightarrow> db \<Rightarrow> request_row \<Rightarrow> db option res" where
  "allocate_request newAlloc newJob now d r =
     bindE (fetch (\<lambda>g. gm_id g = rq_game r) (games d)) (\<lambda>g.
     bindE (fetch (\<lambda>p. ps_id p = rq_preset r) (presets d)) (\<lambda>p.
     let contentID = coalesce (gm_content g) [];
         contentSHA = (case find (\<lambda>c. cv_game c = gm_id g \<and> Some (cv_id c) = gm_content g) (contents d) of
                         None \<Rightarrow> [] | Some c \<Rightarrow> cv_sha256 c) in
     if \<not> gm_enabled g \<or> \<not> ps_enabled p then
       bindE (set_request_state (rq_id r) RUnavailable now d) (\<lambda>d'. Inr (Some d'))
     else if \<not> st_accepting (settings d) \<or> \<not> gm_accepting g \<or> \<not> ps_accepting p \<or> contentID = [] then Inr None
     else
       let ids = candidate_nodes r d in
       if rq_mode r = SelAuto \<and> ids = []
          \<and> exists_where (\<lambda>a. al_request a = Some (rq_id r) \<and> al_state a = AReleasedNoEffect) (allocs d)
       then bindE (set_request_state (rq_id r) RUnavailable now d) (\<lambda>d'. Inr (Some d'))
       else bindE (select_node (ps_contract p) (gm_id g) (rq_preset r) contentID (ps_revision p) contentSHA now d ids) (\<lambda>sel.
         case sel of
           None \<Rightarrow> Inr None
         | Some s \<Rightarrow> bindE (reserve r g p contentID contentSHA s newAlloc newJob now d) (\<lambda>d'. Inr (Some d')))))"

fun allocate_loop :: "uuid \<Rightarrow> uuid \<Rightarrow> time \<Rightarrow> db \<Rightarrow> request_row list \<Rightarrow> (bool \<times> db) res" where
  "allocate_loop newAlloc newJob now d [] = Inr (False, d)"
| "allocate_loop newAlloc newJob now d (r # rs) =
     bindE (allocate_request newAlloc newJob now d r) (\<lambda>out.
     case out of
       Some d' \<Rightarrow> Inr (True, d')
     | None \<Rightarrow> allocate_loop newAlloc newJob now d rs)"

definition waiting_requests :: "db \<Rightarrow> request_row list" where
  "waiting_requests d = order_by (\<lambda>r. (rq_requested r, rq_id r)) (filter (\<lambda>r. rq_state r = RWaiting) (requests d))"

definition TryAllocateOne :: "uuid \<Rightarrow> uuid \<Rightarrow> time \<Rightarrow> db \<Rightarrow> (bool \<times> db) res" where
  "TryAllocateOne newAlloc newJob now d = allocate_loop newAlloc newJob now d (waiting_requests d)"

section \<open>What a player sees of an allocation\<close>

record PlayerJoinInfo =
  pj_ConnectCommand :: string
  pj_ConnectHost :: string
  pj_PublicPort :: int
  pj_SteamURI :: string
  pj_SteamChinaURI :: string

text \<open>\<open>net.JoinHostPort\<close> brackets a host that contains a colon.\<close>

definition JoinHostPort :: "string \<Rightarrow> int \<Rightarrow> string" where
  "JoinHostPort host port =
     (if CHR '':'' \<in> set host then ''['' @ host @ '']:'' else host @ '':'') @ dec port"

record PlayerAllocation =
  pl_row :: alloc_row
  pl_node_name :: string
  pl_join :: "PlayerJoinInfo option"
  pl_join_error :: string

definition player_join :: "entry_row option \<Rightarrow> alloc_row \<Rightarrow> PlayerJoinInfo option" where
  "player_join c a =
     (let current = (case c of None \<Rightarrow> [] | Some c \<Rightarrow> en_revision c);
          steam = (case c of None \<Rightarrow> False | Some c \<Rightarrow> en_steam_verified c \<and> en_steam_enabled c);
          china = (case c of None \<Rightarrow> False | Some c \<Rightarrow> en_china_verified c \<and> en_china_enabled c);
          host = coalesce (al_host a) []; ip = coalesce (al_protocol_ip a) [] in
     if al_state a = ARunning \<and> al_join_at a \<noteq> None \<and> al_ready a \<noteq> None \<and> al_local_port a \<noteq> None
        \<and> host \<noteq> [] \<and> coalesce (al_join_revision a) [] = current
     then (case al_public_port a of
         None \<Rightarrow> None
       | Some port \<Rightarrow> Some \<lparr>pj_ConnectCommand = ''connect '' @ JoinHostPort host port, pj_ConnectHost = host,
           pj_PublicPort = port,
           pj_SteamURI = (if ip \<noteq> [] \<and> steam then ''steam://connect/'' @ JoinHostPort ip port else []),
           pj_SteamChinaURI = (if ip \<noteq> [] \<and> china then ''steamchina://connect/'' @ JoinHostPort ip port else [])\<rparr>)
     else None)"

definition player_join_error :: "entry_row option \<Rightarrow> alloc_row \<Rightarrow> string" where
  "player_join_error c a =
     (let current = (case c of None \<Rightarrow> [] | Some c \<Rightarrow> en_revision c) in
     if player_join c a = None \<and> al_state a = ARunning \<and> al_join_at a \<noteq> None
        \<and> coalesce (al_join_revision a) [] \<noteq> current
     then ''NETWORK_CONFIG_CHANGED'' else coalesce (al_join_error a) [])"

text \<open>The latest attempt of a request, by descending sequence.\<close>

definition latest_attempt :: "(alloc_row \<Rightarrow> bool) \<Rightarrow> uuid \<Rightarrow> db \<Rightarrow> alloc_row option" where
  "latest_attempt P requestID d =
     newest al_sequence (\<lambda>a. al_request a = Some requestID \<and> P a) (allocs d)"

definition UserRequestAllocation :: "uuid \<Rightarrow> uuid \<Rightarrow> db \<Rightarrow> PlayerAllocation option" where
  "UserRequestAllocation userID requestID d =
     (case UserRequest userID requestID d of
        Inl _ \<Rightarrow> None
      | Inr _ \<Rightarrow> (case latest_attempt (\<lambda>a. node_of d (al_node a) \<noteq> None) requestID d of
          None \<Rightarrow> None
        | Some a \<Rightarrow>
            let c = find (\<lambda>e. en_node e = al_node a) (entries d) in
            Some \<lparr>pl_row = a,
                  pl_node_name = (case node_of d (al_node a) of None \<Rightarrow> [] | Some n \<Rightarrow> nd_display_name n),
                  pl_join = player_join c a, pl_join_error = player_join_error c a\<rparr>))"

section \<open>Stopping and next game\<close>

text \<open>The running attempt with the succeeded create job that names its instance.\<close>

definition running_create :: "db \<Rightarrow> uuid \<Rightarrow> job_row option" where
  "running_create d allocationID =
     find (\<lambda>j. jb_alloc j = Some allocationID \<and> jb_kind j = KCreate \<and> jb_state j = JSucceeded) (jobs d)"

definition insert_owner_stop :: "uuid \<Rightarrow> uuid \<Rightarrow> uuid \<Rightarrow> string \<Rightarrow> time \<Rightarrow> db \<Rightarrow> db res" where
  "insert_owner_stop newJob nodeID allocationID instanceID now d =
     (case find (\<lambda>j. jb_alloc j = Some allocationID \<and> jb_kind j = KCreate) (jobs d) of
        None \<Rightarrow> Inl (Constraint ''node_jobs'')
      | Some c \<Rightarrow> put_jobs (jobs d @ [new_job newJob nodeID KStop False (Some allocationID) (Some instanceID)
                   (jb_capability c) now]) d)"

definition stop_running :: "request_row \<Rightarrow> bool \<Rightarrow> uuid \<Rightarrow> time \<Rightarrow> db \<Rightarrow> (request_row \<times> db) res" where
  "stop_running r nextGame newJob now d =
     (case latest_attempt (\<lambda>a. al_state a = ARunning \<and> running_create d (al_id a) \<noteq> None) (rq_id r) d of
        None \<Rightarrow> Inl NoRows
      | Some a \<Rightarrow> (case running_create d (al_id a) of
          None \<Rightarrow> Inl NoRows
        | Some c \<Rightarrow>
            bindE (lockBusinessAllocation (al_id a) (al_node a) d) (\<lambda>_.
            rejectE (coalesce (jb_instance c) [] = []) (ErrJobConflict ''missing instance identity'') (
            bindE (insert_owner_stop newJob (al_node a) (al_id a) (coalesce (jb_instance c) []) now d) (\<lambda>d.
            bindE (set_alloc (al_id a) (al_state_update (\<lambda>_. AStopping)) d) (\<lambda>d.
            bindE (set_request_state (rq_id r) RStopping now d) (\<lambda>d.
            bindE (if nextGame then put_intents (intents d @ [\<lparr>ni_source = rq_id r, ni_alloc = al_id a,
                     ni_state = IPending, ni_new = None, ni_consumed = None, ni_failure = None\<rparr>]) d
                   else Inr d) (\<lambda>d.
            Inr (r\<lparr>rq_state := RStopping, rq_updated := now\<rparr>, d)))))))))"

definition stopUserRequest :: "uuid \<Rightarrow> uuid \<Rightarrow> bool \<Rightarrow> uuid \<Rightarrow> time \<Rightarrow> db \<Rightarrow> (request_row \<times> db) res" where
  "stopUserRequest userID requestID nextGame newJob now d =
     bindE (request_owner userID d) (\<lambda>ow.
     bindE (fetch (\<lambda>r. rq_id r = requestID \<and> owned_by ow r) (requests d)) (\<lambda>r.
     bindE (requireCurrentRequestOwner requestID userID d) (\<lambda>_.
     if rq_state r = RStopping \<or> rq_state r = REnded then
       rejectE (nextGame \<and> intent_of requestID d = None) (ErrJobConflict ''ordinary stop already in progress'')
         (Inr (r, d))
     else rejectE (rq_state r \<noteq> RRunning) (ErrJobConflict ''request is not running'')
         (stop_running r nextGame newJob now d))))"

definition StopUserRequest :: "uuid \<Rightarrow> uuid \<Rightarrow> uuid \<Rightarrow> time \<Rightarrow> db \<Rightarrow> (request_row \<times> db) res" where
  "StopUserRequest userID requestID newJob now d = stopUserRequest userID requestID False newJob now d"

definition NextGameUserRequest :: "uuid \<Rightarrow> uuid \<Rightarrow> uuid \<Rightarrow> time \<Rightarrow> db \<Rightarrow> (request_row \<times> db) res" where
  "NextGameUserRequest userID requestID newJob now d = stopUserRequest userID requestID True newJob now d"

section \<open>Lemmas about the choice of a node\<close>

text \<open>A node admits the request now: available, and under the validated contract proved as well.\<close>

definition admissible ::
    "contract \<Rightarrow> uuid \<Rightarrow> uuid \<Rightarrow> string \<Rightarrow> string \<Rightarrow> string \<Rightarrow> time \<Rightarrow> db \<Rightarrow> uuid \<Rightarrow> bool" where
  "admissible c gameID presetID contentID revisionID contentSHA now d i \<longleftrightarrow>
     (case node_eligibility d i revisionID gameID of
        Inl _ \<Rightarrow> False
      | Inr n \<Rightarrow> Reason n contentID now = Available
          \<and> (c = V102Contract \<longrightarrow> validated_binding i gameID presetID contentID revisionID contentSHA now d \<noteq> None))"

lemma select_node_Some:
  assumes "select_node c g p cid tr sha now d ids = Inr (Some s)"
  shows "\<exists>pre i post. ids = pre @ i # post \<and> node_eligibility d i tr g = Inr (se_node s)
     \<and> admissible c g p cid tr sha now d i
     \<and> (c = V102Contract \<longrightarrow> validated_binding i g p cid tr sha now d = Some (se_fingerprint s, se_generation s))
     \<and> (c \<noteq> V102Contract \<longrightarrow> se_fingerprint s = [] \<and> se_generation s = 0)
     \<and> (\<forall>k \<in> set pre. \<not> admissible c g p cid tr sha now d k)"
  using assms
proof (induction ids)
  case (Cons i js)
  then obtain n where n: "node_eligibility d i tr g = Inr n" by (auto simp: result_simps)
  show ?case
  proof (cases "admissible c g p cid tr sha now d i")
    case True
    with Cons.prems n show ?thesis
      by (intro exI [of _ "[]"] exI [of _ i] exI [of _ js])
        (auto simp: admissible_def split: if_splits option.splits prod.splits)
  next
    case False
    with Cons.prems n have "select_node c g p cid tr sha now d js = Inr (Some s)"
      by (auto simp: admissible_def split: if_splits option.splits)
    from Cons.IH [OF this] False show ?thesis
      by (metis append_Cons set_ConsD)
  qed
qed simp

lemma select_node_None:
  assumes "select_node c g p cid tr sha now d ids = Inr None"
  shows "\<forall>i \<in> set ids. \<not> admissible c g p cid tr sha now d i"
  using assms
  by (induction ids) (auto simp: result_simps admissible_def split: if_splits option.splits prod.splits)

lemma admissible_available:
  assumes "admissible c g p cid tr sha now d i"
  shows "occupied d i < limit d i"
proof -
  from assms obtain n where n: "node_eligibility d i tr g = Inr n" and "Reason n cid now = Available"
    by (auto simp: admissible_def split: sum.splits)
  then have "ne_Occupied n < min (ne_Hard n) (ne_Desired n)" by (simp add: reason_available_iff)
  with eligibility_fields(2,3) [OF n] show ?thesis by simp
qed

section \<open>What one scheduling cycle does\<close>

text \<open>The two outcomes of a request that ends the cycle.\<close>

definition reserves :: "uuid \<Rightarrow> uuid \<Rightarrow> time \<Rightarrow> db \<Rightarrow> request_row \<Rightarrow> db \<Rightarrow> bool" where
  "reserves newAlloc newJob now d r d' \<longleftrightarrow> (\<exists>g p sha sel.
     find (\<lambda>g. gm_id g = rq_game r) (games d) = Some g
     \<and> find (\<lambda>p. ps_id p = rq_preset r) (presets d) = Some p
     \<and> gm_enabled g \<and> ps_enabled p \<and> st_accepting (settings d) \<and> gm_accepting g \<and> ps_accepting p
     \<and> coalesce (gm_content g) [] \<noteq> []
     \<and> sha = (case find (\<lambda>c. cv_game c = gm_id g \<and> Some (cv_id c) = gm_content g) (contents d) of
                None \<Rightarrow> [] | Some c \<Rightarrow> cv_sha256 c)
     \<and> select_node (ps_contract p) (gm_id g) (rq_preset r) (coalesce (gm_content g) []) (ps_revision p) sha now d
         (candidate_nodes r d) = Inr (Some sel)
     \<and> reserve r g p (coalesce (gm_content g) []) sha sel newAlloc newJob now d = Inr d')"

lemma allocate_request_Some:
  assumes "allocate_request newAlloc newJob now d r = Inr (Some d')"
  shows "set_request_state (rq_id r) RUnavailable now d = Inr d' \<or> reserves newAlloc newJob now d r d'"
proof -
  from assms obtain g p where g: "find (\<lambda>g. gm_id g = rq_game r) (games d) = Some g"
    and p: "find (\<lambda>p. ps_id p = rq_preset r) (presets d) = Some p"
    by (auto simp: allocate_request_def result_simps)
  let ?cid = "coalesce (gm_content g) []"
  let ?sha = "case find (\<lambda>c. cv_game c = gm_id g \<and> Some (cv_id c) = gm_content g) (contents d) of
                None \<Rightarrow> [] | Some c \<Rightarrow> cv_sha256 c"
  let ?sel = "select_node (ps_contract p) (gm_id g) (rq_preset r) ?cid (ps_revision p) ?sha now d (candidate_nodes r d)"
  show ?thesis
  proof (cases "set_request_state (rq_id r) RUnavailable now d = Inr d'")
    case False
    then have on: "gm_enabled g" "ps_enabled p" "st_accepting (settings d)" "gm_accepting g" "ps_accepting p" "?cid \<noteq> []"
      and sel: "bindE ?sel (\<lambda>sel. case sel of None \<Rightarrow> Inr None
         | Some s \<Rightarrow> bindE (reserve r g p ?cid ?sha s newAlloc newJob now d) (\<lambda>d'. Inr (Some d'))) = Inr (Some d')"
      using assms g p
      by (simp_all add: allocate_request_def fetch_def Let_def bindE_Inr del: coalesce_neq split: if_splits)
    from sel obtain s where "?sel = Inr (Some s)" "reserve r g p ?cid ?sha s newAlloc newJob now d = Inr d'"
      by (auto simp: bindE_Inr split: option.splits)
    with g p on show ?thesis unfolding reserves_def by blast
  qed simp
qed

lemma allocate_loop_True:
  assumes "allocate_loop newAlloc newJob now d rs = Inr (True, d')"
  shows "\<exists>pre r post. rs = pre @ r # post \<and> allocate_request newAlloc newJob now d r = Inr (Some d')
     \<and> (\<forall>q \<in> set pre. allocate_request newAlloc newJob now d q = Inr None)"
  using assms
proof (induction rs)
  case (Cons r rs)
  then show ?case
    by (cases "allocate_request newAlloc newJob now d r")
      (auto split: option.splits intro: exI [of _ "[]"], metis append_Cons set_ConsD)
qed simp

lemma allocate_loop_False:
  assumes "allocate_loop newAlloc newJob now d rs = Inr (False, d')"
  shows "d' = d \<and> (\<forall>q \<in> set rs. allocate_request newAlloc newJob now d q = Inr None)"
  using assms by (induction rs) (auto simp: bindE_Inr split: option.splits)

lemma set_waiting_requests: "set (waiting_requests d) = {r \<in> set (requests d). rq_state r = RWaiting}"
  by (auto simp: waiting_requests_def)

lemma reserve_frame:
  assumes "reserve r g p cid sha sel newAlloc newJob now d = Inr d'"
  shows "d' = d\<lparr>allocs := allocs d @ [new_alloc newAlloc (Some (rq_id r)) None (gm_id g) (next_sequence d (rq_id r))
                   (ne_ID (se_node sel)) cid (ps_revision p) now],
               jobs := jobs d @ [create_job newJob (ne_ID (se_node sel)) newAlloc (ne_BindingKey (se_node sel))
                   (ps_contract p) (se_fingerprint sel) (se_generation sel) (gm_workshop g) cid sha now],
               requests := upd_where (\<lambda>q. rq_id q = rq_id r) (\<lambda>q. q\<lparr>rq_state := RAllocating, rq_updated := now\<rparr>) (requests d)\<rparr>
     \<and> allocs_ok (allocs d') \<and> jobs_ok (jobs d') \<and> requests_ok (requests d')"
  using assms by (auto simp: reserve_def Let_def set_request_state_def result_simps)

lemma set_request_state_frame:
  assumes "set_request_state i s now d = Inr d'"
  shows "d' = d\<lparr>requests := upd_where (\<lambda>q. rq_id q = i) (\<lambda>q. q\<lparr>rq_state := s, rq_updated := now\<rparr>) (requests d)\<rparr>
     \<and> requests_ok (requests d')"
  using assms by (simp add: set_request_state_def result_simps)

lemma new_row_simps [simp]:
  "al_id (new_alloc i q v g n nd c tr now) = i" "al_request (new_alloc i q v g n nd c tr now) = q"
  "al_run (new_alloc i q v g n nd c tr now) = v" "al_node (new_alloc i q v g n nd c tr now) = nd"
  "al_state (new_alloc i q v g n nd c tr now) = AReserved" "al_sequence (new_alloc i q v g n nd c tr now) = n"
  "jb_id (new_job j nd k ig a inst cap now) = j" "jb_node (new_job j nd k ig a inst cap now) = nd"
  "jb_kind (new_job j nd k ig a inst cap now) = k" "jb_state (new_job j nd k ig a inst cap now) = JPending"
  "jb_alloc (new_job j nd k ig a inst cap now) = a" "jb_instance (new_job j nd k ig a inst cap now) = inst"
  "jb_operation (new_job j nd k ig a inst cap now) = None" "jb_capability (new_job j nd k ig a inst cap now) = cap"
  "jb_id (create_job j nd b key co fp gen w cid sha now) = j" "jb_node (create_job j nd b key co fp gen w cid sha now) = nd"
  "jb_kind (create_job j nd b key co fp gen w cid sha now) = KCreate"
  "jb_state (create_job j nd b key co fp gen w cid sha now) = JPending"
  "jb_alloc (create_job j nd b key co fp gen w cid sha now) = Some b"
  "jb_instance (create_job j nd b key co fp gen w cid sha now) = None"
  "jb_operation (create_job j nd b key co fp gen w cid sha now) = None"
  by (simp_all add: new_alloc_def new_job_def create_job_def)

lemma reserves_frame:
  assumes "reserves newAlloc newJob now d r d'"
  shows "\<exists>a j i. d' = d\<lparr>allocs := allocs d @ [a], jobs := jobs d @ [j],
        requests := upd_where (\<lambda>q. rq_id q = rq_id r) (\<lambda>q. q\<lparr>rq_state := RAllocating, rq_updated := now\<rparr>) (requests d)\<rparr>
     \<and> al_id a = newAlloc \<and> al_request a = Some (rq_id r) \<and> al_run a = None \<and> al_node a = i \<and> al_state a = AReserved
     \<and> jb_id j = newJob \<and> jb_alloc j = Some newAlloc \<and> jb_node j = i \<and> jb_kind j = KCreate \<and> jb_state j = JPending
     \<and> i \<in> set (candidate_nodes r d) \<and> occupied d i < limit d i
     \<and> allocs_ok (allocs d') \<and> jobs_ok (jobs d') \<and> requests_ok (requests d')"
proof -
  from assms obtain g p sha sel
    where sel: "select_node (ps_contract p) (gm_id g) (rq_preset r) (coalesce (gm_content g) []) (ps_revision p) sha now d
         (candidate_nodes r d) = Inr (Some sel)"
      and res: "reserve r g p (coalesce (gm_content g) []) sha sel newAlloc newJob now d = Inr d'"
    unfolding reserves_def by blast
  from select_node_Some [OF sel] obtain i where i: "i \<in> set (candidate_nodes r d)"
    and el: "node_eligibility d i (ps_revision p) (gm_id g) = Inr (se_node sel)"
    and ad: "admissible (ps_contract p) (gm_id g) (rq_preset r) (coalesce (gm_content g) []) (ps_revision p) sha now d i"
    by (metis in_set_conv_decomp)
  have "ne_ID (se_node sel) = i" by (rule eligibility_fields(1) [OF el])
  with reserve_frame [OF res] i admissible_available [OF ad] show ?thesis
    by (elim conjE, intro exI [of _ "new_alloc newAlloc (Some (rq_id r)) None (gm_id g) (next_sequence d (rq_id r)) i
          (coalesce (gm_content g) []) (ps_revision p) now"]
        exI [of _ "create_job newJob i newAlloc (ne_BindingKey (se_node sel)) (ps_contract p) (se_fingerprint sel)
          (se_generation sel) (gm_workshop g) (coalesce (gm_content g) []) sha now"] exI [of _ i]) simp_all
qed

end
