(* ===== verification/Quarantine.thy ===== *)
theory Quarantine
  imports Scheduler
begin

text \<open>
  Isolation of attempts whose effect is in doubt and the owner's way out of it
  (\<open>internal/platform/store/quarantine.go\<close>), and the facts a controller observes about the instance of
  an allocation (\<open>reconcile.go\<close>).  Neither quarantine nor abandoning releases capacity.
\<close>

section \<open>Quarantine\<close>

definition ConfigureQuarantineThreshold :: "time \<Rightarrow> db \<Rightarrow> db res" where
  "ConfigureQuarantineThreshold threshold d =
     rejectE (threshold \<le> 0 \<or> 30 * 24 * hour < threshold) (Invalid ''invalid quarantine threshold'')
       (Inr (d\<lparr>settings := (settings d)\<lparr>st_quarantine_after := threshold\<rparr>\<rparr>))"

definition possibly_effectful :: "db \<Rightarrow> alloc_row \<Rightarrow> bool" where
  "possibly_effectful d a \<longleftrightarrow>
     al_state a \<in> {ACreateUnknown, ACreating, ARunning, AStopping, AFailedUnreclaimed}
     \<or> al_state a = AReserved \<and> exists_where (\<lambda>j. jb_alloc j = Some (al_id a) \<and> jb_kind j = KCreate
          \<and> jb_state j \<in> {JClaimed, JAccepted, JUnknown, JFailedWithEffect}) (jobs d)"

definition unreachable :: "time \<Rightarrow> db \<Rightarrow> alloc_row \<Rightarrow> bool" where
  "unreachable now d a \<longleftrightarrow> possibly_effectful d a
     \<and> some_and (\<lambda>n. some_and (\<lambda>h. h \<le> now - st_quarantine_after (settings d)) (nd_heartbeat n))
         (node_of d (al_node a))"

definition heartbeat_at :: "db \<Rightarrow> uuid \<Rightarrow> time" where
  "heartbeat_at d n = (case node_of d n of None \<Rightarrow> 0 | Some r \<Rightarrow> coalesce (nd_heartbeat r) 0)"

text \<open>What quarantining an allocation does besides its own row: the owner's request is quarantined
  and its next game paused, or the validation run is quarantined.\<close>

definition quarantine_owner :: "alloc_row \<Rightarrow> time \<Rightarrow> db \<Rightarrow> db res" where
  "quarantine_owner a now d = (case al_request a of
      Some r \<Rightarrow> bindE (set_live_request_state r RQuarantined now d) (pauseNextGameIntent r)
    | None \<Rightarrow> (case al_run a of
        None \<Rightarrow> Inr d
      | Some v \<Rightarrow> advanceValidationFromFact v FactQuarantined False now d))"

definition write_audit :: "string \<Rightarrow> string \<Rightarrow> uuid \<Rightarrow> db \<Rightarrow> db" where
  "write_audit kind action target d = d\<lparr>audit := audit d @ [(kind, action, [target])]\<rparr>"

definition QuarantineOneUnreachable :: "time \<Rightarrow> db \<Rightarrow> (bool \<times> db) res" where
  "QuarantineOneUnreachable now d =
     (case oldest (\<lambda>a. (heartbeat_at d (al_node a), al_assigned a, al_id a)) (unreachable now d) (allocs d) of
        None \<Rightarrow> Inr (False, d)
      | Some a \<Rightarrow>
          bindE (lockBusinessAllocation (al_id a) (al_node a) d) (\<lambda>_.
          bindE (set_alloc (al_id a) (\<lambda>a. a\<lparr>al_state := AQuarantined, al_error := Some ''NODE_UNREACHABLE'',
                   al_quarantined := Some now\<rparr>) d) (\<lambda>d.
          rejectE (al_request a = None \<and> al_run a = None) (Invalid ''cannot scan NULL'') (
          bindE (quarantine_owner a now d) (\<lambda>d.
          Inr (True, write_audit ''system'' ''allocation.quarantine.unreachable'' (al_id a) d))))))"

definition MarkAllocationQuarantined :: "uuid \<Rightarrow> time \<Rightarrow> db \<Rightarrow> db res" where
  "MarkAllocationQuarantined allocationID now d =
     bindE (fetch (\<lambda>a. al_id a = allocationID) (allocs d)) (\<lambda>a.
     bindE (lockBusinessAllocation allocationID (al_node a) d) (\<lambda>_.
     if al_state a = AQuarantined then Inr d
     else rejectE (terminal_alloc (al_state a)) (ErrJobConflict ''resource is already terminal'') (
     rejectE (al_state a = AReserved \<and> \<not> exists_where (\<lambda>j. jb_alloc j = Some allocationID \<and> jb_kind j = KCreate
                \<and> jb_state j \<noteq> JPending) (jobs d)) (ErrJobConflict ''create has not been claimed'') (
     bindE (set_alloc allocationID (\<lambda>a. a\<lparr>al_state := AQuarantined, al_error := Some ''MANUAL_QUARANTINE'',
              al_quarantined := Some (coalesce (al_quarantined a) now)\<rparr>) d) (\<lambda>d.
     bindE (quarantine_owner a now d) (\<lambda>d.
     Inr (write_audit ''operator_cli'' ''allocation.quarantine'' allocationID d)))))))"

definition abandon_writes :: "uuid \<Rightarrow> time \<Rightarrow> db \<Rightarrow> db res" where
  "abandon_writes requestID now d =
     put_requests (upd_where (\<lambda>r. rq_id r = requestID)
       (\<lambda>r. r\<lparr>rq_state := RAbandoned, rq_abandoned := Some now, rq_updated := now\<rparr>) (requests d)) d"

definition abandon_quarantined :: "request_row \<Rightarrow> uuid \<Rightarrow> time \<Rightarrow> db \<Rightarrow> (request_row \<times> db) res" where
  "abandon_quarantined r newReq now d =
     (case latest_attempt (\<lambda>_. True) (rq_id r) d of
        None \<Rightarrow> Inl NoRows
      | Some a \<Rightarrow>
          bindE (lockBusinessAllocation (al_id a) (al_node a) d) (\<lambda>_.
          rejectE (al_state a \<noteq> AQuarantined \<and> \<not> (al_state a = AReclaimed \<and> paused_intent (rq_id r) d))
            (ErrJobConflict ''Allocation is not quarantined'') (
          bindE (abandon_writes (rq_id r) now d) (\<lambda>d.
          bindE (consumeNextGameIntent (rq_id r) True newReq now d) (\<lambda>d.
          Inr (r\<lparr>rq_state := RAbandoned, rq_updated := now\<rparr>, d))))))"

definition AbandonQuarantinedUserRequest ::
    "uuid \<Rightarrow> uuid \<Rightarrow> uuid \<Rightarrow> time \<Rightarrow> db \<Rightarrow> (request_row \<times> db) res" where
  "AbandonQuarantinedUserRequest userID requestID newReq now d =
     bindE (request_owner userID d) (\<lambda>ow.
     bindE (fetch (\<lambda>r. rq_id r = requestID \<and> owned_by ow r) (requests d)) (\<lambda>r.
     bindE (requireCurrentRequestOwner requestID userID d) (\<lambda>_.
     if rq_state r = RAbandoned then Inr (r, d)
     else rejectE (rq_state r \<noteq> RQuarantined) (ErrJobConflict ''request is not quarantined'')
            (abandon_quarantined r newReq now d))))"

section \<open>Allocations a controller must watch\<close>

record ActiveAllocation =
  aa_ID :: uuid
  aa_InstanceID :: string
  aa_State :: alloc_state
  aa_HasOpenJob :: bool

definition watched :: "uuid \<Rightarrow> string \<Rightarrow> db \<Rightarrow> alloc_row \<Rightarrow> string option" where
  "watched nodeID cap d a =
     (if al_node a = nodeID \<and> \<not> terminal_alloc (al_state a) then
        (case find (\<lambda>j. jb_alloc j = Some (al_id a) \<and> jb_kind j = KCreate \<and> jb_instance j \<noteq> None \<and> admits cap j) (jobs d) of
           None \<Rightarrow> None
         | Some j \<Rightarrow> jb_instance j)
      else None)"

definition active_allocation :: "uuid \<Rightarrow> string \<Rightarrow> db \<Rightarrow> alloc_row \<Rightarrow> ActiveAllocation" where
  "active_allocation nodeID cap d a =
     \<lparr>aa_ID = al_id a, aa_InstanceID = coalesce (watched nodeID cap d a) [], aa_State = al_state a,
      aa_HasOpenJob = exists_where (\<lambda>j. jb_alloc j = Some (al_id a) \<and> open_job (jb_state j)) (jobs d)\<rparr>"

definition ActiveAllocationsForNodeWithCapability :: "uuid \<Rightarrow> string \<Rightarrow> db \<Rightarrow> ActiveAllocation list" where
  "ActiveAllocationsForNodeWithCapability nodeID cap d =
     map (active_allocation nodeID cap d) (order_by (\<lambda>a. (al_assigned a, al_id a))
       (filter (\<lambda>a. watched nodeID cap d a \<noteq> None) (allocs d)))"

section \<open>Observed instance facts\<close>

datatype fact_outcome = OActive | OReclaimed | OIdentityUnverified | OUncertain | OOther string

fun outcome_text :: "fact_outcome \<Rightarrow> string" where
  "outcome_text OActive = ''active''"
| "outcome_text OReclaimed = ''reclaimed''"
| "outcome_text OIdentityUnverified = ''identity_unverified''"
| "outcome_text OUncertain = ''uncertain''"
| "outcome_text (OOther s) = s"

record InstanceFact =
  if_Room :: string
  if_JoinInfo :: "JoinInfo option"
  if_JoinInfoErrorCode :: string
  if_InstanceID :: string
  if_Outcome :: fact_outcome
  if_Lifecycle :: string
  if_Process :: string
  if_Cleanup :: string
  if_Port :: int

definition fact_check :: "InstanceFact \<Rightarrow> unit res" where
  "fact_check f =
     (let bad = ErrJobConflict [] in
     rejectE (if_InstanceID f = [] \<or> if_Port f < 0 \<or> 65535 < if_Port f
              \<or> if_Outcome f \<notin> {OActive, OReclaimed, OIdentityUnverified, OUncertain}) bad (
     rejectE (if_Outcome f = OReclaimed \<and> (if_Lifecycle f \<noteq> ''reclaimed'' \<or> if_Process f \<noteq> ''stopped''
              \<or> if_Cleanup f \<noteq> ''complete'')) bad (
     rejectE (if_Outcome f = OActive \<and> (if_Lifecycle f \<noteq> ''active'' \<or> if_Process f \<noteq> ''running'')) bad (
     if if_JoinInfo f \<noteq> None \<or> if_JoinInfoErrorCode f \<noteq> [] then
       rejectE (if_Outcome f \<noteq> OActive \<or> if_Room f \<noteq> ''ready'') bad (
       rejectE (\<not> okE (ReportRequest_Validate \<lparr>rp_State = JSucceeded, rp_InstanceID = [], rp_OperationID = [],
                  rp_ErrorCode = [], rp_ErrorStage = [], rp_JoinInfo = if_JoinInfo f,
                  rp_JoinInfoErrorCode = if_JoinInfoErrorCode f\<rparr>)) bad (
       rejectE (some_and (\<lambda>j. ji_LocalPort j \<noteq> if_Port f) (if_JoinInfo f)) bad (Inr ())))
     else Inr ()))))"

definition fact_of :: "uuid \<Rightarrow> InstanceFact \<Rightarrow> fact_row" where
  "fact_of allocationID f = \<lparr>fa_alloc = allocationID, fa_instance = if_InstanceID f, fa_outcome = outcome_text (if_Outcome f),
     fa_lifecycle = if_Lifecycle f, fa_process = if_Process f, fa_cleanup = if_Cleanup f, fa_port = if_Port f\<rparr>"

definition upsert_fact :: "uuid \<Rightarrow> InstanceFact \<Rightarrow> db \<Rightarrow> db" where
  "upsert_fact allocationID f d = d\<lparr>facts :=
     (if exists_where (\<lambda>x. fa_alloc x = allocationID) (facts d)
      then upd_where (\<lambda>x. fa_alloc x = allocationID) (\<lambda>_. fact_of allocationID f) (facts d)
      else facts d @ [fact_of allocationID f])\<rparr>"

definition fact_join :: "alloc_row \<Rightarrow> InstanceFact \<Rightarrow> string \<Rightarrow> time \<Rightarrow> db \<Rightarrow> db res" where
  "fact_join a f entryRevision now d =
     (let joinPort = coalesce (al_local_port a) 0 in
     if if_JoinInfo f \<noteq> None \<or> if_JoinInfoErrorCode f \<noteq> [] then
       rejectE (al_state a \<noteq> ARunning) (ErrJobConflict []) (
       case if_JoinInfo f of
         Some j \<Rightarrow>
           rejectE (ji_EntryConfigRevision j \<noteq> entryRevision) (ErrJobConflict []) (
           if joinPort = 0 \<or> joinPort = if_Port f then set_alloc (al_id a) (write_join j now) d else Inr d)
       | None \<Rightarrow> set_alloc (al_id a) (al_join_error_update (\<lambda>_. Some (if_JoinInfoErrorCode f))) d)
     else Inr d)"

definition fact_reclaimed :: "alloc_row \<Rightarrow> InstanceFact \<Rightarrow> uuid \<Rightarrow> time \<Rightarrow> db \<Rightarrow> db res" where
  "fact_reclaimed a f newReq now d =
     bindE (set_alloc (al_id a) (\<lambda>a. a\<lparr>al_state := AReclaimed, al_reclaimed := Some (coalesce (al_reclaimed a) now)\<rparr>) d) (\<lambda>d.
     bindE (case al_request a of
              Some r \<Rightarrow> if paused_intent r d then Inr d
                        else bindE (set_live_request_state r REnded now d) (consumeNextGameIntent r False newReq now)
            | None \<Rightarrow> Inr d) (\<lambda>d.
     case al_run a of None \<Rightarrow> Inr d | Some v \<Rightarrow> advanceValidationFromFact v FactReclaimed (if_JoinInfo f \<noteq> None) now d))"

definition fact_identity :: "alloc_row \<Rightarrow> InstanceFact \<Rightarrow> time \<Rightarrow> db \<Rightarrow> db res" where
  "fact_identity a f now d =
     bindE (set_alloc (al_id a) (\<lambda>a. a\<lparr>al_state := AQuarantined,
              al_error := Some (if if_Outcome f = OActive then ''PORT_IDENTITY_CHANGED'' else ''IDENTITY_UNVERIFIED''),
              al_quarantined := Some (coalesce (al_quarantined a) now)\<rparr>) d) (\<lambda>d.
     bindE (case al_request a of
              Some r \<Rightarrow> bindE (set_live_request_state r RQuarantined now d) (pauseNextGameIntent r)
            | None \<Rightarrow> Inr d) (\<lambda>d.
     case al_run a of None \<Rightarrow> Inr d | Some v \<Rightarrow> advanceValidationFromFact v FactQuarantined False now d))"

definition fact_effect ::
    "alloc_row \<Rightarrow> InstanceFact \<Rightarrow> string \<Rightarrow> uuid \<Rightarrow> uuid \<Rightarrow> time \<Rightarrow> db \<Rightarrow> db res" where
  "fact_effect a f expectedID newReq newJob now d =
     (let joinPort = coalesce (al_local_port a) 0 in
     if if_Outcome f = OReclaimed then fact_reclaimed a f newReq now d
     else if if_Outcome f = OUncertain \<and> if_Lifecycle f = ''failed'' \<and> if_Process f \<in> {''stopped'', ''running''}
             \<and> al_state a \<noteq> AQuarantined \<and> al_state a \<noteq> AStopping
     then applyAllocationJobReport (al_id a) (al_node a) KCreate JFailedWithEffect expectedID ''INSTANCE_FAILED''
            None [] newReq newJob now d
     else if if_Outcome f = OIdentityUnverified \<or> if_Outcome f = OActive \<and> joinPort \<noteq> 0 \<and> if_Port f \<noteq> joinPort
     then fact_identity a f now d
     else Inr d)"

text \<open>What a recorded fact does to a live attempt; a terminal one keeps it as history only.\<close>

definition fact_apply ::
    "alloc_row \<Rightarrow> InstanceFact \<Rightarrow> string \<Rightarrow> string \<Rightarrow> uuid \<Rightarrow> uuid \<Rightarrow> time \<Rightarrow> db \<Rightarrow> db res" where
  "fact_apply a f entryRevision expectedID newReq newJob now d =
     (if terminal_alloc (al_state a) then Inr d
      else
        bindE (fact_join a f entryRevision now d) (\<lambda>d.
        bindE (fact_effect a f expectedID newReq newJob now d) (\<lambda>d.
        case al_run a of
          Some v \<Rightarrow> if if_Outcome f = OActive \<and> if_Room f = ''ready''
                    then advanceValidationFromFact v FactReady (if_JoinInfo f \<noteq> None) now d else Inr d
        | None \<Rightarrow> Inr d)))"

definition ReportInstanceFact :: "uuid \<Rightarrow> uuid \<Rightarrow> InstanceFact \<Rightarrow> uuid \<Rightarrow> uuid \<Rightarrow> time \<Rightarrow> db \<Rightarrow> db res" where
  "ReportInstanceFact nodeID allocationID f newReq newJob now d =
     bindE (fact_check f) (\<lambda>_.
     bindE (fetch (\<lambda>a. al_id a = allocationID \<and> al_node a = nodeID) (allocs d)) (\<lambda>a.
     bindE (fetch (\<lambda>n. nd_id n = nodeID) (nodes d)) (\<lambda>_.
     bindE (case if_JoinInfo f of
              None \<Rightarrow> Inr []
            | Some _ \<Rightarrow> bindE (fetch (\<lambda>e. en_node e = nodeID) (entries d)) (\<lambda>e. Inr (en_revision e))) (\<lambda>entryRevision.
     bindE (lockBusinessAllocation allocationID nodeID d) (\<lambda>_.
     bindE (fetch (\<lambda>j. jb_alloc j = Some allocationID \<and> jb_kind j = KCreate) (jobs d)) (\<lambda>j.
     case jb_instance j of
       None \<Rightarrow> Inl (Invalid ''cannot scan NULL'')
     | Some expectedID \<Rightarrow>
         rejectE (expectedID \<noteq> if_InstanceID f) (ErrJobConflict ''instance identity changed'')
           (fact_apply a f entryRevision expectedID newReq newJob now (upsert_fact allocationID f d))))))))"

lemma ReportInstanceFact_cases:
  assumes "ReportInstanceFact n i f newReq newJob now d = Inr d'"
  shows "\<exists>a j er. a \<in> set (allocs d) \<and> al_id a = i \<and> al_node a = n \<and> fact_check f = Inr ()
     \<and> j \<in> set (jobs d) \<and> jb_alloc j = Some i \<and> jb_kind j = KCreate \<and> jb_instance j = Some (if_InstanceID f)
     \<and> fact_apply a f er (if_InstanceID f) newReq newJob now (upsert_fact i f d) = Inr d'"
  using assms unfolding ReportInstanceFact_def bindE_Inr
proof (elim exE conjE)
  fix u a nd er l j
  assume c: "fact_check f = Inr u" and fa: "fetch (\<lambda>a. al_id a = i \<and> al_node a = n) (allocs d) = Inr a"
    and fj: "fetch (\<lambda>j. jb_alloc j = Some i \<and> jb_kind j = KCreate) (jobs d) = Inr j"
    and b: "(case jb_instance j of None \<Rightarrow> Inl (Invalid ''cannot scan NULL'')
     | Some e \<Rightarrow> rejectE (e \<noteq> if_InstanceID f) (ErrJobConflict ''instance identity changed'')
           (fact_apply a f er e newReq newJob now (upsert_fact i f d))) = Inr d'"
  have "jb_instance j = Some (if_InstanceID f)
      \<and> fact_apply a f er (if_InstanceID f) newReq newJob now (upsert_fact i f d) = Inr d'"
    using b by (cases "jb_instance j") (auto simp: rejectE_Inr)
  moreover have "u = ()" by simp
  ultimately show ?thesis using fetch_InrD [OF fa] fetch_InrD [OF fj] c by blast
qed

lemma fact_apply_cases:
  assumes "fact_apply a f er e newReq newJob now d = Inr d'" "\<not> terminal_alloc (al_state a)"
  shows "\<exists>d1 d2. fact_join a f er now d = Inr d1 \<and> fact_effect a f e newReq newJob now d1 = Inr d2
     \<and> (d' = d2 \<or> (\<exists>v h. al_run a = Some v \<and> advanceValidationFromFact v FactReady h now d2 = Inr d'))"
proof -
  from assms obtain d1 d2 where s: "fact_join a f er now d = Inr d1" "fact_effect a f e newReq newJob now d1 = Inr d2"
    and l: "(case al_run a of
             Some v \<Rightarrow> if if_Outcome f = OActive \<and> if_Room f = ''ready''
                       then advanceValidationFromFact v FactReady (if_JoinInfo f \<noteq> None) now d2 else Inr d2
           | None \<Rightarrow> Inr d2) = Inr d'"
    by (auto simp: fact_apply_def bindE_Inr)
  have "d' = d2 \<or> (\<exists>v h. al_run a = Some v \<and> advanceValidationFromFact v FactReady h now d2 = Inr d')"
    using l by (auto split: option.splits if_splits)
  with s show ?thesis by blast
qed

end
