(* ===== verification/Validation.thy ===== *)
theory Validation
  imports Quarantine
begin

text \<open>
  The validation ledger (\<open>internal/platform/store/validation_ledger.go\<close>): scoped maintenance of a game
  on a node, the identities a run is bound to, the reservation of a run with its allocation and
  create job, the human verdict, the formal stop, and the two ways a run ends.  \<open>PASS\<close> is written by
  \<open>FinalizeValidationRun\<close> alone.
\<close>

section \<open>Administrators\<close>

definition auditAdmin :: "uuid \<Rightarrow> string \<Rightarrow> uuid list \<Rightarrow> db \<Rightarrow> db res" where
  "auditAdmin adminID action target d =
     rejectE (\<not> exists_where (\<lambda>a. ad_id a = adminID \<and> ad_enabled a) (admins d)) ErrInvalidCredentials
       (Inr (d\<lparr>audit := audit d @ [(''admin'', action, target)]\<rparr>))"

definition priorI3Request :: "string \<Rightarrow> string \<Rightarrow> string \<Rightarrow> uuid \<Rightarrow> db \<Rightarrow> uuid option res" where
  "priorI3Request action requestID h adminID d =
     (case find (\<lambda>q. iq_action q = action \<and> iq_request q = requestID) (i3_requests d) of
        None \<Rightarrow> Inr None
      | Some q \<Rightarrow> rejectE (iq_hash q \<noteq> h \<or> iq_admin q \<noteq> adminID) ErrCASConflict (Inr (Some (iq_result q))))"

section \<open>Scoped maintenance\<close>

definition scoped :: "uuid \<Rightarrow> uuid \<Rightarrow> alloc_row \<Rightarrow> bool" where
  "scoped nodeID gameID a \<longleftrightarrow> al_node a = nodeID \<and> al_game a = gameID"

definition scoped_occupied :: "db \<Rightarrow> uuid \<Rightarrow> uuid \<Rightarrow> int" where
  "scoped_occupied d nodeID gameID =
     count_where (\<lambda>a. scoped nodeID gameID a \<and> \<not> terminal_alloc (al_state a)) (allocs d)"

definition scoped_jobs :: "db \<Rightarrow> uuid \<Rightarrow> uuid \<Rightarrow> int" where
  "scoped_jobs d nodeID gameID =
     count_where (\<lambda>j. open_job (jb_state j)
       \<and> exists_where (\<lambda>a. jb_alloc j = Some (al_id a) \<and> scoped nodeID gameID a) (allocs d)) (jobs d)"

record MaintenanceStatus =
  ms_Epoch :: int
  ms_Closed :: bool
  ms_TargetOccupied :: int
  ms_TargetUnresolvedJobs :: int
  ms_NodeOccupied :: int

definition ScopedMaintenanceStatus :: "uuid \<Rightarrow> uuid \<Rightarrow> db \<Rightarrow> MaintenanceStatus res" where
  "ScopedMaintenanceStatus nodeID gameID d =
     bindE (fetch (\<lambda>b. cb_node b = nodeID \<and> cb_game b = gameID) (content_bindings d)) (\<lambda>b.
     Inr \<lparr>ms_Epoch = cb_epoch b, ms_Closed = (\<not> cb_accepting b), ms_TargetOccupied = scoped_occupied d nodeID gameID,
          ms_TargetUnresolvedJobs = scoped_jobs d nodeID gameID, ms_NodeOccupied = occupied d nodeID\<rparr>)"

definition BeginScopedMaintenance ::
    "uuid \<Rightarrow> uuid \<Rightarrow> uuid \<Rightarrow> string \<Rightarrow> string \<Rightarrow> int \<Rightarrow> db \<Rightarrow> (int \<times> db) res" where
  "BeginScopedMaintenance nodeID gameID adminID requestID reason expectedEpoch d =
     rejectE (requestID = [] \<or> 128 < length requestID) ErrInvalidAdminAction (
     rejectE (reason = [] \<or> expectedEpoch < 0) (ErrJobConflict []) (
     case find (\<lambda>q. mq_request q = requestID) (maint_requests d) of
       Some q \<Rightarrow>
         rejectE (mq_node q \<noteq> nodeID \<or> mq_game q \<noteq> gameID \<or> mq_admin q \<noteq> adminID \<or> mq_reason q \<noteq> reason
                  \<or> mq_epoch q \<noteq> expectedEpoch + 1) (ErrJobConflict []) (Inr (mq_epoch q, d))
     | None \<Rightarrow>
         bindE (fetch (\<lambda>n. nd_id n = nodeID) (nodes d)) (\<lambda>_.
         case find (\<lambda>b. cb_node b = nodeID \<and> cb_game b = gameID \<and> cb_epoch b = expectedEpoch) (content_bindings d) of
           None \<Rightarrow> Inl (ErrJobConflict [])
         | Some b \<Rightarrow>
             let epoch = cb_epoch b + 1;
                 d = d\<lparr>content_bindings := upd_where
                        (\<lambda>b. cb_node b = nodeID \<and> cb_game b = gameID \<and> cb_epoch b = expectedEpoch)
                        (\<lambda>b. b\<lparr>cb_accepting := False, cb_epoch := cb_epoch b + 1\<rparr>) (content_bindings d),
                       maint_requests := maint_requests d @ [\<lparr>mq_request = requestID, mq_node = nodeID, mq_game = gameID,
                         mq_epoch = epoch, mq_admin = adminID, mq_reason = reason\<rparr>]\<rparr>
             in bindE (auditAdmin adminID ''maintenance.begin'' [nodeID, gameID] d) (\<lambda>d. Inr (epoch, d)))))"

section \<open>Template bindings and facts\<close>

definition UpsertTemplateBinding ::
    "uuid \<Rightarrow> string \<Rightarrow> string \<Rightarrow> string \<Rightarrow> int \<Rightarrow> db \<Rightarrow> (int \<times> db) res" where
  "UpsertTemplateBinding nodeID revisionID key fingerprint expectedGeneration d =
     rejectE (key = [] \<or> 128 < length key \<or> \<not> revisionPattern fingerprint \<or> expectedGeneration < 0) (ErrJobConflict []) (
     bindE (fetch (\<lambda>n. nd_id n = nodeID) (nodes d)) (\<lambda>_.
     case template_binding_of d nodeID revisionID of
       None \<Rightarrow>
         rejectE (expectedGeneration \<noteq> 0) (ErrJobConflict []) (
         rejectE (\<not> exists_where (\<lambda>r. fst r = revisionID) (revisions d)) (Constraint ''node_template_bindings'')
           (Inr (1, d\<lparr>template_bindings := template_bindings d @ [\<lparr>tb_node = nodeID, tb_revision = revisionID, tb_key = key,
              tb_fingerprint = Some fingerprint, tb_generation = 1\<rparr>]\<rparr>)))
     | Some b \<Rightarrow>
         rejectE (tb_generation b \<noteq> expectedGeneration) (ErrJobConflict []) (
         if tb_key b \<noteq> key \<or> tb_fingerprint b \<noteq> Some fingerprint then
           Inr (tb_generation b + 1, d\<lparr>template_bindings := upd_where (\<lambda>b. tb_node b = nodeID \<and> tb_revision b = revisionID)
             (\<lambda>b. b\<lparr>tb_key := key, tb_fingerprint := Some fingerprint, tb_generation := tb_generation b + 1\<rparr>)
             (template_bindings d)\<rparr>)
         else Inr (tb_generation b, d))))"

text \<open>A fact row after a report; its revision advances exactly when the reported identity changes.\<close>

definition report_fact ::
    "string option \<Rightarrow> bool \<Rightarrow> string option \<Rightarrow> string option \<Rightarrow> time \<Rightarrow> template_fact_row \<Rightarrow> template_fact_row" where
  "report_fact key confirmed algorithm fingerprint now f = f\<lparr>
     tf_fact_revision := tf_fact_revision f + (if (tf_key f, tf_confirmed f, tf_algorithm f, tf_fingerprint f)
        \<noteq> (key, confirmed, algorithm, fingerprint) then 1 else 0),
     tf_key := key, tf_confirmed := confirmed, tf_algorithm := algorithm, tf_fingerprint := fingerprint,
     tf_received := Some now\<rparr>"

definition upsert_template_fact ::
    "uuid \<Rightarrow> string \<Rightarrow> string option \<Rightarrow> bool \<Rightarrow> string option \<Rightarrow> string option \<Rightarrow> time \<Rightarrow> db \<Rightarrow> db" where
  "upsert_template_fact nodeID revisionID key confirmed algorithm fingerprint now d = d\<lparr>template_facts :=
     (if template_fact_of d nodeID revisionID = None
      then template_facts d @ [\<lparr>tf_node = nodeID, tf_revision = revisionID, tf_key = key, tf_algorithm = algorithm,
        tf_confirmed = confirmed, tf_fingerprint = fingerprint, tf_fact_revision = (if confirmed then 1 else 0),
        tf_received = Some now\<rparr>]
      else upd_where (\<lambda>f. tf_node f = nodeID \<and> tf_revision f = revisionID)
        (report_fact key confirmed algorithm fingerprint now) (template_facts d))\<rparr>"

definition RecordTemplateFact ::
    "uuid \<Rightarrow> string \<Rightarrow> string \<Rightarrow> string \<Rightarrow> string \<Rightarrow> string \<Rightarrow> time \<Rightarrow> db \<Rightarrow> (int \<times> db) res" where
  "RecordTemplateFact nodeID revisionID key s algorithm fingerprint now d =
     rejectE (s \<noteq> ''unknown'' \<and> s \<noteq> ''confirmed'') (ErrJobConflict []) (
     rejectE (s = ''confirmed'' \<and> (key = [] \<or> algorithm \<noteq> TemplateManifestAlgorithmV1 \<or> \<not> revisionPattern fingerprint))
       (ErrJobConflict []) (
     bindE (fetch (\<lambda>n. nd_id n = nodeID) (nodes d)) (\<lambda>_.
     rejectE (template_fact_of d nodeID revisionID = None \<and> template_binding_of d nodeID revisionID = None)
       (Constraint ''node_template_facts'') (
     let confirmed = (s = ''confirmed'');
         d = upsert_template_fact nodeID revisionID (if confirmed then Some key else None) confirmed
               (if confirmed then Some algorithm else None) (if confirmed then Some fingerprint else None) now d
     in bindE (fetch (\<lambda>f. tf_node f = nodeID \<and> tf_revision f = revisionID) (template_facts d)) (\<lambda>f.
        Inr (tf_fact_revision f, d))))))"

section \<open>Inventory\<close>

fun inventory_shape :: "string list \<Rightarrow> InventoryInstance list \<Rightarrow> bool" where
  "inventory_shape seen [] = True"
| "inventory_shape seen (x # xs) =
     (if ii_InstanceID x = [] \<or> ii_InstanceID x \<in> set seen \<or> ii_Lifecycle x = [] \<or> ii_Process x = [] \<or> ii_Cleanup x = []
      then False else inventory_shape (ii_InstanceID x # seen) xs)"

definition accounted :: "db \<Rightarrow> uuid \<Rightarrow> string \<Rightarrow> bool" where
  "accounted d nodeID inst \<longleftrightarrow> exists_where (\<lambda>j. jb_node j = nodeID \<and> jb_kind j = KCreate \<and> jb_instance j = Some inst
     \<and> exists_where (\<lambda>a. jb_alloc j = Some (al_id a) \<and> al_node a = nodeID \<and> \<not> terminal_alloc (al_state a)) (allocs d))
     (jobs d)"

definition certain_instance :: "InventoryInstance \<Rightarrow> bool" where
  "certain_instance x \<longleftrightarrow> ii_Lifecycle x \<noteq> ''unknown'' \<and> ii_Process x \<noteq> ''unknown'' \<and> ii_Cleanup x \<noteq> ''unknown''"

definition RecordInventory ::
    "uuid \<Rightarrow> string \<Rightarrow> bool \<Rightarrow> string \<Rightarrow> InventoryInstance list \<Rightarrow> time \<Rightarrow> db \<Rightarrow> (snapshot_row \<times> db) res" where
  "RecordInventory nodeID scanID complete errorCode instances now d =
     rejectE (scanID = [] \<or> 128 < length scanID \<or> complete \<and> errorCode \<noteq> [] \<or> \<not> complete \<and> errorCode = [])
       (ErrJobConflict []) (
     rejectE (\<not> complete \<and> instances \<noteq> []) (ErrJobConflict []) (
     rejectE (\<not> inventory_shape [] instances) (ErrJobConflict []) (
     bindE (fetch (\<lambda>n. nd_id n = nodeID) (nodes d)) (\<lambda>_.
     rejectE (exists_where (\<lambda>s. sn_node s = nodeID \<and> sn_scan s = scanID) (snapshots d)) (ErrJobConflict []) (
     let s = \<lparr>sn_node = nodeID, sn_scan = scanID, sn_complete = complete,
              sn_confirmed = (complete \<and> list_all certain_instance instances), sn_received = now,
              sn_instances = int (length instances),
              sn_unaccounted = sort (map ii_InstanceID
                (filter (\<lambda>x. \<not> (complete \<and> accounted d nodeID (ii_InstanceID x))) instances))\<rparr>
     in Inr (s, d\<lparr>snapshots := snapshots d @ [s]\<rparr>))))))"

section \<open>Reserving a run\<close>

record ValidationCandidate =
  vc_NodeID :: uuid
  vc_GameID :: uuid
  vc_PresetID :: uuid
  vc_ContentVersionID :: string
  vc_TemplateRevisionID :: string
  vc_AdminID :: uuid
  vc_ExpectedMaintenanceEpoch :: int
  vc_ExpectedFingerprint :: string
  vc_RequestID :: string

definition candidate_hash :: "ValidationCandidate \<Rightarrow> string" where
  "candidate_hash c = sha256_hex (json_object
     [(''NodeID'', json_string (uuid_text (vc_NodeID c))), (''GameID'', json_string (uuid_text (vc_GameID c))),
      (''PresetID'', json_string (uuid_text (vc_PresetID c))), (''ContentVersionID'', json_string (vc_ContentVersionID c)),
      (''TemplateRevisionID'', json_string (vc_TemplateRevisionID c)), (''AdminID'', json_string (uuid_text (vc_AdminID c))),
      (''ExpectedMaintenanceEpoch'', dec (vc_ExpectedMaintenanceEpoch c)),
      (''ExpectedTemplateFingerprintSHA256'', json_string (vc_ExpectedFingerprint c)),
      (''RequestID'', json_string (vc_RequestID c))])"

definition candidate_sha :: "ValidationCandidate \<Rightarrow> db \<Rightarrow> (string \<times> game_row) res" where
  "candidate_sha c d =
     bindE (fetch (\<lambda>g. gm_id g = vc_GameID c) (games d)) (\<lambda>g.
     bindE (fetch (\<lambda>p. ps_game p = vc_GameID c \<and> ps_id p = vc_PresetID c) (presets d)) (\<lambda>_.
     bindE (fetch (\<lambda>v. cv_game v = vc_GameID c \<and> cv_id v = vc_ContentVersionID c) (contents d)) (\<lambda>v.
     bindE (fetch (\<lambda>t. t = (vc_TemplateRevisionID c, vc_GameID c)) (revisions d)) (\<lambda>_. Inr (cv_sha256 v, g)))))"

definition node_ready :: "uuid \<Rightarrow> time \<Rightarrow> db \<Rightarrow> unit res" where
  "node_ready nodeID now d =
     bindE (fetch (\<lambda>n. nd_id n = nodeID) (nodes d)) (\<lambda>n.
     rejectE (\<not> nd_enabled n \<or> NodeConnectivity (nd_heartbeat n) now \<noteq> Online
              \<or> \<not> some_and (\<lambda>r. nr_compatible r \<and> contentValidationV102 \<in> set (nr_capabilities r)) (report_of d nodeID))
       (ErrJobConflict ''node proof unavailable'') (Inr ()))"

definition content_ready :: "ValidationCandidate \<Rightarrow> string \<Rightarrow> db \<Rightarrow> content_binding_row res" where
  "content_ready c sha d =
     bindE (fetch (\<lambda>b. cb_node b = vc_NodeID c \<and> cb_game b = vc_GameID c) (content_bindings d)) (\<lambda>b.
     rejectE (cb_accepting b \<or> cb_epoch b \<noteq> vc_ExpectedMaintenanceEpoch c \<or> cb_fact_revision b = 0 \<or> \<not> cb_confirmed b
              \<or> coalesce (cb_version b) [] \<noteq> vc_ContentVersionID c \<or> coalesce (cb_sha256 b) [] \<noteq> sha)
       ErrContentFactMismatch (Inr b))"

definition recent :: "time \<Rightarrow> time \<Rightarrow> bool" where
  "recent now t \<longleftrightarrow> now - t < nodeOnlineWindow"

definition template_ready :: "ValidationCandidate \<Rightarrow> time \<Rightarrow> db \<Rightarrow> (template_binding_row \<times> template_fact_row) res" where
  "template_ready c now d =
     bindE (fetch (\<lambda>b. tb_node b = vc_NodeID c \<and> tb_revision b = vc_TemplateRevisionID c) (template_bindings d)) (\<lambda>b.
     bindE (fetch (\<lambda>f. tf_node f = vc_NodeID c \<and> tf_revision f = vc_TemplateRevisionID c) (template_facts d)) (\<lambda>f.
     rejectE (tb_generation b = 0 \<or> coalesce (tb_fingerprint b) [] \<noteq> vc_ExpectedFingerprint c \<or> \<not> tf_confirmed f
              \<or> tf_algorithm f \<noteq> Some TemplateManifestAlgorithmV1 \<or> coalesce (tf_key f) [] \<noteq> tb_key b
              \<or> coalesce (tf_fingerprint f) [] \<noteq> coalesce (tb_fingerprint b) [] \<or> tf_fact_revision f = 0
              \<or> \<not> some_and (recent now) (tf_received f))
       ErrTemplateFactMismatch (Inr (b, f))))"

text \<open>The newest snapshot that the node's report names as its confirmed inventory.\<close>

definition reported_snapshot :: "db \<Rightarrow> uuid \<Rightarrow> snapshot_row option" where
  "reported_snapshot d nodeID = newest (\<lambda>s. (sn_received s, sn_scan s))
     (\<lambda>s. sn_node s = nodeID \<and> some_and (\<lambda>r. nr_inventory_confirmed r \<and> nr_inventory_scan r = Some (sn_scan s))
        (report_of d nodeID)) (snapshots d)"

definition inventory_ready :: "uuid \<Rightarrow> time \<Rightarrow> db \<Rightarrow> unit res" where
  "inventory_ready nodeID now d = (case reported_snapshot d nodeID of
      None \<Rightarrow> Inl ErrInventoryUnknown
    | Some s \<Rightarrow>
        rejectE (\<not> sn_complete s \<or> \<not> sn_confirmed s \<or> \<not> recent now (sn_received s)) ErrInventoryUnknown (
        rejectE (sn_unaccounted s \<noteq> []) ErrUnaccountedInstance (Inr ())))"

definition integration_jobs :: "db \<Rightarrow> uuid \<Rightarrow> int" where
  "integration_jobs d nodeID = count_where (\<lambda>j. jb_node j = nodeID \<and> jb_integration j \<and> open_job (jb_state j)) (jobs d)"

definition new_run ::
    "uuid \<Rightarrow> ValidationCandidate \<Rightarrow> string \<Rightarrow> content_binding_row \<Rightarrow> template_binding_row \<Rightarrow> template_fact_row \<Rightarrow> time \<Rightarrow> run_row" where
  "new_run runID c sha b tb tf now = \<lparr>vr_id = runID, vr_admin = vc_AdminID c, vr_node = vc_NodeID c, vr_game = vc_GameID c,
     vr_preset = vc_PresetID c, vr_content = vc_ContentVersionID c, vr_sha256 = sha, vr_revision = vc_TemplateRevisionID c,
     vr_key = tb_key tb, vr_fingerprint = coalesce (tb_fingerprint tb) [], vr_generation = tb_generation tb,
     vr_epoch = cb_epoch b, vr_content_fact = cb_fact_revision b, vr_template_fact = tf_fact_revision tf,
     vr_state = VCreatePending, vr_failure = None, vr_result = None, vr_human = HPending, vr_human_by = None,
     vr_human_at = None, vr_ready = None, vr_join_at = None, vr_passed = None, vr_created = now\<rparr>"

definition reserve_run ::
    "ValidationCandidate \<Rightarrow> run_row \<Rightarrow> game_row \<Rightarrow> uuid \<Rightarrow> uuid \<Rightarrow> time \<Rightarrow> db \<Rightarrow> db res" where
  "reserve_run c v g newAlloc newJob now d =
     bindE (put_runs (runs d @ [v]) d) (\<lambda>d.
     bindE (put_allocs (allocs d @ [new_alloc newAlloc None (Some (vr_id v)) (vc_GameID c) 1 (vc_NodeID c)
              (vc_ContentVersionID c) (vc_TemplateRevisionID c) now]) d) (\<lambda>d.
     bindE (put_jobs (jobs d @ [create_job newJob (vc_NodeID c) newAlloc (vr_key v) V102Contract (vr_fingerprint v)
              (vr_generation v) (gm_workshop g) (vc_ContentVersionID c) (vr_sha256 v) now]) d) (\<lambda>d.
     let d = d\<lparr>i3_requests := i3_requests d @ [\<lparr>iq_action = ''validation.start'', iq_request = vc_RequestID c,
               iq_hash = candidate_hash c, iq_result = vr_id v, iq_admin = vc_AdminID c\<rparr>]\<rparr>
     in auditAdmin (vc_AdminID c) ''validation.start'' [vr_id v] d)))"

definition ReserveValidation :: "ValidationCandidate \<Rightarrow> uuid \<Rightarrow> uuid \<Rightarrow> uuid \<Rightarrow> time \<Rightarrow> db \<Rightarrow> (uuid \<times> db) res" where
  "ReserveValidation c runID newAlloc newJob now d =
     rejectE (vc_RequestID c = [] \<or> 128 < length (vc_RequestID c)) ErrInvalidAdminAction (
     rejectE (vc_ExpectedMaintenanceEpoch c \<le> 0 \<or> \<not> revisionPattern (vc_ExpectedFingerprint c)) (ErrJobConflict []) (
     bindE (priorI3Request ''validation.start'' (vc_RequestID c) (candidate_hash c) (vc_AdminID c) d) (\<lambda>prior.
     case prior of
       Some i \<Rightarrow> Inr (i, d)
     | None \<Rightarrow>
         bindE (candidate_sha c d) (\<lambda>(sha, g).
         bindE (node_ready (vc_NodeID c) now d) (\<lambda>_.
         bindE (content_ready c sha d) (\<lambda>b.
         bindE (template_ready c now d) (\<lambda>(tb, tf).
         bindE (inventory_ready (vc_NodeID c) now d) (\<lambda>_.
         rejectE (scoped_occupied d (vc_NodeID c) (vc_GameID c) \<noteq> 0 \<or> scoped_jobs d (vc_NodeID c) (vc_GameID c) \<noteq> 0)
           ErrScopedResourcesActive (
         rejectE (limit d (vc_NodeID c) \<le> occupied d (vc_NodeID c)) ErrCapacityFull (
         rejectE (integration_jobs d (vc_NodeID c) \<noteq> 0) (ErrJobConflict ''integration job unresolved'') (
         bindE (reserve_run c (new_run runID c sha b tb tf now) g newAlloc newJob now d) (\<lambda>d.
         Inr (runID, d)))))))))))))"

section \<open>Reading a run\<close>

definition run_alloc :: "db \<Rightarrow> uuid \<Rightarrow> alloc_row res" where
  "run_alloc d runID = fetch (\<lambda>a. al_run a = Some runID) (allocs d)"

definition create_of :: "db \<Rightarrow> uuid \<Rightarrow> job_row res" where
  "create_of d allocationID = fetch (\<lambda>j. jb_alloc j = Some allocationID \<and> jb_kind j = KCreate) (jobs d)"

definition latest_stop :: "db \<Rightarrow> uuid \<Rightarrow> job_row option" where
  "latest_stop d allocationID = newest (\<lambda>j. (jb_created j, jb_id j))
     (\<lambda>j. jb_alloc j = Some allocationID \<and> jb_kind j = KStop) (jobs d)"

definition ValidationRun :: "uuid \<Rightarrow> db \<Rightarrow> (run_row \<times> alloc_row option \<times> job_row option \<times> job_row option) res" where
  "ValidationRun runID d =
     bindE (fetch (\<lambda>v. vr_id v = runID) (runs d)) (\<lambda>v.
     let a = find (\<lambda>a. al_run a = Some runID) (allocs d) in
     Inr (v, a, (case a of None \<Rightarrow> None
                 | Some a \<Rightarrow> find (\<lambda>j. jb_alloc j = Some (al_id a) \<and> jb_kind j = KCreate) (jobs d)),
          (case a of None \<Rightarrow> None | Some a \<Rightarrow> latest_stop d (al_id a))))"

record ValidationDetail =
  vd_run :: run_row
  vd_alloc_state :: alloc_state
  vd_create_state :: job_state
  vd_stop_state :: "job_state option"
  vd_instance :: string
  vd_connect :: string
  vd_effective :: bool
  vd_formal :: bool
  vd_invalid :: string

definition ValidationDetail :: "uuid \<Rightarrow> time \<Rightarrow> db \<Rightarrow> ValidationDetail res" where
  "ValidationDetail runID now d =
     bindE (fetch (\<lambda>v. vr_id v = runID) (runs d)) (\<lambda>v.
     bindE (run_alloc d runID) (\<lambda>a.
     bindE (create_of d (al_id a)) (\<lambda>c.
     let host = coalesce (al_host a) [];
         out = \<lparr>vd_run = v, vd_alloc_state = al_state a, vd_create_state = jb_state c,
           vd_stop_state = map_option jb_state (latest_stop d (al_id a)), vd_instance = coalesce (jb_instance c) [],
           vd_connect = (case al_public_port a of
               Some port \<Rightarrow> if vr_ready v \<noteq> None \<and> vr_join_at v \<noteq> None \<and> host \<noteq> []
                            then ''connect '' @ JoinHostPort host port else []
             | None \<Rightarrow> []),
           vd_effective = False, vd_formal = False, vd_invalid = []\<rparr>
     in if vr_state v \<noteq> VPassed then Inr (out\<lparr>vd_invalid := ''VALIDATION_INCOMPLETE''\<rparr>)
     else
       bindE (fetch (\<lambda>g. gm_id g = vr_game v) (games d)) (\<lambda>g.
       bindE (fetch (\<lambda>p. ps_game p = gm_id g \<and> ps_id p = vr_preset v) (presets d)) (\<lambda>p.
       let formal = (ps_contract p = V102Contract \<and> coalesce (gm_content g) [] = vr_content v \<and> ps_revision p = vr_revision v);
           effective = (effectiveValidationProof (vr_node v) (vr_game v) (vr_preset v) (vr_content v) (vr_revision v)
                          (Some (vr_id v)) now d \<noteq> None)
       in Inr (out\<lparr>vd_formal := formal, vd_effective := effective,
            vd_invalid := (if effective then [] else ''MACHINE_PROOF_STALE'')\<rparr>))))))"

end
