(* ===== verification/ValidationEnd.thy ===== *)
theory ValidationEnd
  imports Validation
begin

text \<open>
  How a validation run ends (\<open>validation_ledger.go\<close>): the human verdict and the formal stop, closing a
  failed attempt, the PASS with its proof in one transaction, and the convergence loop of the server
  over all resource-terminal runs in pages of 100.
\<close>

section \<open>Verdict and stop\<close>

definition insert_validation_stop :: "uuid \<Rightarrow> uuid \<Rightarrow> uuid \<Rightarrow> string \<Rightarrow> time \<Rightarrow> db \<Rightarrow> db res" where
  "insert_validation_stop stopID nodeID allocationID instanceID now d =
     put_jobs (jobs d @ [new_job stopID nodeID KStop False (Some allocationID) (Some instanceID)
       ContentValidationV102 now]) d"

definition set_run :: "uuid \<Rightarrow> (run_row \<Rightarrow> run_row) \<Rightarrow> db \<Rightarrow> db res" where
  "set_run runID f d = put_runs (upd_where (\<lambda>v. vr_id v = runID) f (runs d)) d"

definition join_shown :: "db \<Rightarrow> alloc_row \<Rightarrow> bool" where
  "join_shown d a \<longleftrightarrow> coalesce (al_host a) [] \<noteq> [] \<and> al_local_port a \<noteq> None \<and> al_public_port a \<noteq> None
     \<and> coalesce (al_join_revision a) [] \<noteq> []
     \<and> coalesce (al_join_revision a) [] =
         (case find (\<lambda>e. en_node e = al_node a) (entries d) of None \<Rightarrow> [] | Some e \<Rightarrow> en_revision e)"

definition ConfirmValidationHuman ::
    "uuid \<Rightarrow> uuid \<Rightarrow> human_result \<Rightarrow> run_state option \<Rightarrow> uuid \<Rightarrow> time \<Rightarrow> db \<Rightarrow> db res" where
  "ConfirmValidationHuman runID adminID result expectedState stopID now d =
     rejectE (result \<noteq> HPass \<and> result \<noteq> HFail) (ErrJobConflict []) (
     bindE (run_alloc d runID) (\<lambda>a.
     bindE (lockBusinessAllocation (al_id a) (al_node a) d) (\<lambda>_.
     bindE (fetch (\<lambda>v. vr_id v = runID) (runs d)) (\<lambda>v.
     bindE (create_of d (al_id a)) (\<lambda>c.
     rejectE (expectedState \<noteq> None \<and> expectedState \<noteq> Some (vr_state v)) ErrCASConflict (
     rejectE (vr_human v \<noteq> HPending \<or> coalesce (jb_instance c) [] = [] \<or> jb_state c \<noteq> JSucceeded \<or> al_state a \<noteq> ARunning
              \<or> result = HPass \<and> (vr_state v \<noteq> VAwaitingHuman \<or> vr_ready v = None \<or> vr_join_at v = None \<or> \<not> join_shown d a))
       (ErrJobConflict []) (
     bindE (set_run runID (\<lambda>v. v\<lparr>vr_human := result, vr_human_by := Some adminID, vr_human_at := Some now,
              vr_state := VStopPending\<rparr>) d) (\<lambda>d.
     bindE (insert_validation_stop stopID (al_node a) (al_id a) (coalesce (jb_instance c) []) now d) (\<lambda>d.
     bindE (set_alloc (al_id a) (al_state_update (\<lambda>_. AStopping)) d) (\<lambda>d.
     auditAdmin adminID ''validation.confirm'' [runID] d))))))))))"

definition StopValidation :: "uuid \<Rightarrow> uuid \<Rightarrow> run_state option \<Rightarrow> uuid \<Rightarrow> time \<Rightarrow> db \<Rightarrow> db res" where
  "StopValidation runID adminID expectedState stopID now d =
     rejectE (expectedState = None) ErrInvalidAdminAction (
     bindE (run_alloc d runID) (\<lambda>a.
     bindE (lockBusinessAllocation (al_id a) (al_node a) d) (\<lambda>_.
     bindE (fetch (\<lambda>v. vr_id v = runID) (runs d)) (\<lambda>v.
     bindE (create_of d (al_id a)) (\<lambda>c.
     rejectE (Some (vr_state v) \<noteq> expectedState \<or> vr_state v = VPassed \<or> vr_state v = VFailed
              \<or> coalesce (jb_instance c) [] = [] \<or> terminal_alloc (al_state a)) ErrCASConflict (
     rejectE (exists_where (\<lambda>j. jb_alloc j = Some (al_id a) \<and> jb_kind j = KStop) (jobs d)) ErrCASConflict (
     bindE (insert_validation_stop stopID (al_node a) (al_id a) (coalesce (jb_instance c) []) now d) (\<lambda>d.
     bindE (set_alloc (al_id a) (al_state_update (\<lambda>_. AStopping)) d) (\<lambda>d.
     bindE (set_run runID (vr_state_update (\<lambda>_. VStopPending)) d) (\<lambda>d.
     auditAdmin adminID ''validation.stop'' [runID] d))))))))))"

section \<open>Ending a run\<close>

definition alloc_open_jobs :: "db \<Rightarrow> uuid \<Rightarrow> int" where
  "alloc_open_jobs d allocationID = count_where (\<lambda>j. jb_alloc j = Some allocationID \<and> open_job (jb_state j)) (jobs d)"

definition FinalizeValidationFailure :: "uuid \<Rightarrow> string \<Rightarrow> db \<Rightarrow> db res" where
  "FinalizeValidationFailure runID reason d =
     rejectE (reason = [] \<or> 128 < length reason) (ErrJobConflict []) (
     bindE (run_alloc d runID) (\<lambda>a.
     bindE (lockBusinessAllocation (al_id a) (al_node a) d) (\<lambda>_.
     bindE (fetch (\<lambda>v. vr_id v = runID) (runs d)) (\<lambda>v.
     rejectE (vr_state v = VPassed) (ErrJobConflict []) (
     if vr_state v = VFailed then Inr d
     else rejectE (\<not> terminal_alloc (al_state a)) (ErrJobConflict []) (
          rejectE (alloc_open_jobs d (al_id a) \<noteq> 0) (ErrJobConflict []) (
          set_run runID (\<lambda>v. v\<lparr>vr_state := VFailed, vr_result := Some ''FAIL'', vr_failure := Some reason\<rparr>) d)))))))"

text \<open>The run's own evidence: human pass, full reclaim, and both jobs of the same instance.\<close>

definition run_evidence :: "run_row \<Rightarrow> alloc_row \<Rightarrow> job_row \<Rightarrow> job_row option \<Rightarrow> bool" where
  "run_evidence v a c st \<longleftrightarrow> vr_human v = HPass \<and> vr_state v = VReclaimObserving \<and> al_state a = AReclaimed
     \<and> jb_state c = JSucceeded \<and> some_and (\<lambda>s. jb_state s = JSucceeded) st
     \<and> coalesce (jb_instance c) [] \<noteq> []
     \<and> (case st of None \<Rightarrow> [] | Some s \<Rightarrow> coalesce (jb_instance s) []) = coalesce (jb_instance c) []
     \<and> vr_ready v \<noteq> None \<and> vr_join_at v \<noteq> None"

text \<open>The bound identities are still the current ones.\<close>

definition binding_evidence :: "run_row \<Rightarrow> content_binding_row \<Rightarrow> template_binding_row \<Rightarrow> template_fact_row option \<Rightarrow> bool" where
  "binding_evidence v b tb tf \<longleftrightarrow> \<not> cb_accepting b \<and> cb_epoch b = vr_epoch v \<and> cb_fact_revision b = vr_content_fact v
     \<and> (case tf of None \<Rightarrow> 0 | Some f \<Rightarrow> tf_fact_revision f) = vr_template_fact v \<and> tb_generation tb = vr_generation v
     \<and> cb_confirmed b \<and> coalesce (cb_version b) [] = vr_content v \<and> coalesce (cb_sha256 b) [] = vr_sha256 v
     \<and> some_and (\<lambda>f. tf_confirmed f \<and> coalesce (tf_key f) [] = vr_key v \<and> tf_algorithm f = Some TemplateManifestAlgorithmV1
          \<and> coalesce (tf_fingerprint f) [] = vr_fingerprint v) tf
     \<and> coalesce (tb_fingerprint tb) [] = vr_fingerprint v"

definition finalize_unresolved :: "db \<Rightarrow> uuid \<Rightarrow> uuid \<Rightarrow> int" where
  "finalize_unresolved d nodeID gameID = count_where (\<lambda>j. jb_node j = nodeID \<and> open_job (jb_state j)
     \<and> (jb_integration j \<or> (jb_kind j = KCreate \<or> jb_kind j = KStop)
          \<and> exists_where (\<lambda>a. jb_alloc j = Some (al_id a) \<and> al_game a = gameID) (allocs d))) (jobs d)"

definition other_resources :: "db \<Rightarrow> alloc_row \<Rightarrow> int" where
  "other_resources d a = count_where (\<lambda>x. scoped (al_node a) (al_game a) x \<and> al_id x \<noteq> al_id a
     \<and> \<not> terminal_alloc (al_state x)) (allocs d)"

definition facts_current :: "uuid \<Rightarrow> uuid \<Rightarrow> run_row \<Rightarrow> time \<Rightarrow> db \<Rightarrow> unit res" where
  "facts_current nodeID gameID v now d =
     bindE (fetch (\<lambda>n. nd_id n = nodeID) (nodes d)) (\<lambda>n.
     bindE (fetch (\<lambda>b. cb_node b = nodeID \<and> cb_game b = gameID) (content_bindings d)) (\<lambda>b.
     bindE (fetch (\<lambda>f. tf_node f = nodeID \<and> tf_revision f = vr_revision v) (template_facts d)) (\<lambda>f.
     rejectE (\<not> nd_enabled n \<or> \<not> some_and nr_compatible (report_of d nodeID)
              \<or> NodeConnectivity (nd_heartbeat n) now \<noteq> Online
              \<or> \<not> some_and (recent now) (cb_reported_at b) \<or> \<not> some_and (recent now) (tf_received f))
       (ErrJobConflict []) (
     case reported_snapshot d nodeID of
       None \<Rightarrow> Inl NoRows
     | Some s \<Rightarrow> rejectE (\<not> sn_complete s \<or> \<not> sn_confirmed s \<or> \<not> recent now (sn_received s) \<or> sn_unaccounted s \<noteq> [])
                  (ErrJobConflict []) (Inr ())))))"

definition FinalizeValidationRun :: "uuid \<Rightarrow> time \<Rightarrow> db \<Rightarrow> db res" where
  "FinalizeValidationRun runID now d =
     bindE (run_alloc d runID) (\<lambda>a.
     bindE (fetch (\<lambda>n. nd_id n = al_node a) (nodes d)) (\<lambda>_.
     bindE (lockBusinessAllocation (al_id a) (al_node a) d) (\<lambda>_.
     bindE (fetch (\<lambda>v. vr_id v = runID) (runs d)) (\<lambda>v.
     bindE (create_of d (al_id a)) (\<lambda>c.
     bindE (fetch (\<lambda>b. cb_node b = vr_node v \<and> cb_game b = vr_game v) (content_bindings d)) (\<lambda>b.
     bindE (fetch (\<lambda>t. tb_node t = vr_node v \<and> tb_revision t = vr_revision v) (template_bindings d)) (\<lambda>tb.
     if vr_state v = VPassed then Inr d
     else rejectE (\<not> run_evidence v a c (latest_stop d (al_id a))
                   \<or> \<not> binding_evidence v b tb (template_fact_of d (vr_node v) (vr_revision v))) (ErrJobConflict []) (
     rejectE (finalize_unresolved d (al_node a) (al_game a) \<noteq> 0 \<or> other_resources d a \<noteq> 0) (ErrJobConflict []) (
     bindE (facts_current (al_node a) (al_game a) v now d) (\<lambda>_.
     set_run runID (\<lambda>v. v\<lparr>vr_state := VPassed, vr_result := Some ''PASS'', vr_passed := Some now\<rparr>) d))))))))))"

section \<open>Convergence of all runs\<close>

definition is_job_conflict :: "err \<Rightarrow> bool" where
  "is_job_conflict e = (case e of
      ErrJobConflict _ \<Rightarrow> True | ErrScopedResourcesActive \<Rightarrow> True | ErrCapacityFull \<Rightarrow> True
    | ErrContentFactMismatch \<Rightarrow> True | ErrTemplateFactMismatch \<Rightarrow> True | ErrInventoryUnknown \<Rightarrow> True
    | ErrUnaccountedInstance \<Rightarrow> True | _ \<Rightarrow> False)"

text \<open>One row of a page, in its own transaction: the new state, and the error that stops the loop.\<close>

definition finalize_one :: "time \<Rightarrow> run_row \<Rightarrow> db \<Rightarrow> db \<times> err option" where
  "finalize_one now r d =
     (let out = (if vr_human r = HPass \<and> vr_state r = VReclaimObserving then FinalizeValidationRun (vr_id r) now d
                 else if vr_human r \<noteq> HPass \<or> vr_state r = VQuarantined
                   then FinalizeValidationFailure (vr_id r) ''VALIDATION_NOT_PASSED'' d
                 else Inr d)
      in case out of
           Inr d' \<Rightarrow> (d', None)
         | Inl e \<Rightarrow> (d, if is_job_conflict e then None else Some e))"

fun finalize_rows :: "time \<Rightarrow> run_row list \<Rightarrow> db \<Rightarrow> db \<times> err option" where
  "finalize_rows now [] d = (d, None)"
| "finalize_rows now (r # rs) d = (case finalize_one now r d of
      (d', None) \<Rightarrow> finalize_rows now rs d'
    | (d', Some e) \<Rightarrow> (d', Some e))"

definition run_key :: "run_row \<Rightarrow> time \<times> uuid" where
  "run_key v = (vr_created v, vr_id v)"

definition after_cursor :: "(time \<times> uuid) option \<Rightarrow> run_row \<Rightarrow> bool" where
  "after_cursor cursor v = (case cursor of None \<Rightarrow> True | Some k \<Rightarrow> k < run_key v)"

definition ready_to_finalize :: "db \<Rightarrow> run_row \<Rightarrow> bool" where
  "ready_to_finalize d v \<longleftrightarrow> vr_state v \<noteq> VPassed \<and> vr_state v \<noteq> VFailed
     \<and> exists_where (\<lambda>a. al_run a = Some (vr_id v) \<and> terminal_alloc (al_state a)) (allocs d)"

definition ready_page :: "(time \<times> uuid) option \<Rightarrow> db \<Rightarrow> run_row list" where
  "ready_page cursor d =
     take 100 (order_by run_key (filter (\<lambda>v. ready_to_finalize d v \<and> after_cursor cursor v) (runs d)))"

text \<open>The loop over pages; \<open>None\<close> is running out of the fuel that bounds the number of pages.\<close>

fun finalize_pages :: "nat \<Rightarrow> (time \<times> uuid) option \<Rightarrow> time \<Rightarrow> db \<Rightarrow> (db \<times> err option) option" where
  "finalize_pages 0 cursor now d = None"
| "finalize_pages (Suc fuel) cursor now d =
     (let page = ready_page cursor d in
      case finalize_rows now page d of
        (d', Some e) \<Rightarrow> Some (d', Some e)
      | (d', None) \<Rightarrow>
          if length page < 100 then Some (d', None)
          else finalize_pages fuel (Some (run_key (last page))) now d')"

definition FinalizeReadyValidations :: "time \<Rightarrow> db \<Rightarrow> (db \<times> err option) option" where
  "FinalizeReadyValidations now d = finalize_pages (Suc (length (runs d))) None now d"

end
