(* ===== verification/Evolution.thy ===== *)
theory Evolution
  imports ValidationEnd
begin

text \<open>
  What may happen to a row of a business table over its life.  A table evolves when old rows stay in
  their place, each related to its successor by the row relation of the table, and new rows are
  appended.  The row relations state the monotonic facts of the design: identities are frozen,
  resource-terminal attempts, settled jobs, consumed intents and ended runs never change again.
\<close>

section \<open>Tables that evolve\<close>

definition tbl :: "('r \<Rightarrow> 'r \<Rightarrow> bool) \<Rightarrow> 'r list \<Rightarrow> 'r list \<Rightarrow> bool" where
  "tbl R xs ys \<longleftrightarrow> length xs \<le> length ys \<and> (\<forall>i < length xs. R (xs ! i) (ys ! i))"

locale row_evolution =
  fixes R :: "'r \<Rightarrow> 'r \<Rightarrow> bool"
  assumes row_refl: "R x x"
    and row_trans: "R x y \<Longrightarrow> R y z \<Longrightarrow> R x z"
begin

lemma tbl_refl: "tbl R xs xs"
  by (simp add: tbl_def row_refl)

lemma tbl_trans: "tbl R xs ys \<Longrightarrow> tbl R ys zs \<Longrightarrow> tbl R xs zs"
  unfolding tbl_def by (meson le_trans less_le_trans row_trans)

lemma tbl_append: "tbl R xs (xs @ ws)"
  by (simp add: tbl_def nth_append row_refl)

lemma tbl_upd:
  assumes "\<And>r. r \<in> set xs \<Longrightarrow> P r \<Longrightarrow> R r (f r)"
  shows "tbl R xs (upd_where P f xs)"
  using assms by (simp add: tbl_def upd_where_def row_refl)

lemma tbl_member: "tbl R xs ys \<Longrightarrow> x \<in> set xs \<Longrightarrow> \<exists>y \<in> set ys. R x y"
  unfolding tbl_def by (metis in_set_conv_nth less_le_trans)

text \<open>A property of rows that no step can break for an old row counts no more rows than before.\<close>

lemma tbl_count:
  assumes "tbl R xs ys" "length ys = length xs" "\<And>x y. R x y \<Longrightarrow> Q y \<Longrightarrow> Q x"
  shows "count_where Q ys \<le> count_where Q xs"
proof -
  have "list_all2 R xs ys" using assms(1,2) by (simp add: tbl_def list_all2_conv_all_nth)
  then show ?thesis
    by (induction rule: list_all2_induct) (use assms(3) in \<open>auto simp: count_where_Cons\<close>)
qed

end

section \<open>Row relations\<close>

definition alloc_identity :: "alloc_row \<Rightarrow> uuid \<times> uuid option \<times> uuid option \<times> uuid \<times> int \<times> uuid \<times> string \<times> string \<times> time" where
  "alloc_identity a = (al_id a, al_request a, al_run a, al_game a, al_sequence a, al_node a, al_content a, al_revision a, al_assigned a)"

definition leaves_quarantine_to :: "alloc_row \<Rightarrow> alloc_state \<Rightarrow> bool" where
  "leaves_quarantine_to a s \<longleftrightarrow> (al_run a = None \<and> al_state a = AQuarantined \<longrightarrow> s = AQuarantined \<or> terminal_alloc s)"

definition alloc_evolves :: "alloc_row \<Rightarrow> alloc_row \<Rightarrow> bool" where
  "alloc_evolves x y \<longleftrightarrow> alloc_identity y = alloc_identity x \<and> (terminal_alloc (al_state x) \<longrightarrow> y = x)
     \<and> leaves_quarantine_to x (al_state y)"

definition job_identity where
  "job_identity j = ((jb_id j, jb_node j, jb_kind j, jb_integration j, jb_alloc j, jb_created j, jb_binding_key j, jb_port j),
     (jb_capability j, jb_fingerprint j, jb_generation j, jb_workshop j, jb_content j, jb_vpk_sha256 j))"

definition write_once :: "string option \<Rightarrow> string option \<Rightarrow> bool" where
  "write_once old new \<longleftrightarrow> (coalesce old [] \<noteq> [] \<longrightarrow> new = old)"

definition job_state_evolves :: "job_state \<Rightarrow> job_state \<Rightarrow> bool" where
  "job_state_evolves s t \<longleftrightarrow> (s \<noteq> JPending \<longrightarrow> t \<noteq> JPending)
     \<and> (s \<in> {JAccepted, JUnknown} \<longrightarrow> t \<in> {JAccepted, JUnknown, JSucceeded, JFailedWithEffect})"

definition job_evolves :: "job_row \<Rightarrow> job_row \<Rightarrow> bool" where
  "job_evolves x y \<longleftrightarrow> job_identity y = job_identity x \<and> (terminal_job (jb_state x) \<longrightarrow> y = x)
     \<and> write_once (jb_instance x) (jb_instance y) \<and> write_once (jb_operation x) (jb_operation y)
     \<and> job_state_evolves (jb_state x) (jb_state y)"

definition request_identity where
  "request_identity r = (rq_id r, rq_user r, rq_party r, rq_game r, rq_preset r, rq_requested r, rq_mode r, rq_manual r)"

definition request_evolves :: "request_row \<Rightarrow> request_row \<Rightarrow> bool" where
  "request_evolves x y \<longleftrightarrow> request_identity y = request_identity x \<and> (rq_state x = RAbandoned \<longrightarrow> y = x)"

definition intent_evolves :: "intent_row \<Rightarrow> intent_row \<Rightarrow> bool" where
  "intent_evolves x y \<longleftrightarrow> ni_source y = ni_source x \<and> ni_alloc y = ni_alloc x \<and> (ni_state x = IConsumed \<longrightarrow> y = x)"

definition run_ended :: "run_row \<Rightarrow> bool" where
  "run_ended v \<longleftrightarrow> vr_state v = VPassed \<or> vr_state v = VFailed"

definition run_identity where
  "run_identity v = ((vr_id v, vr_admin v, vr_node v, vr_game v, vr_preset v, vr_content v, vr_sha256 v, vr_revision v),
     (vr_key v, vr_fingerprint v, vr_generation v, vr_epoch v, vr_content_fact v, vr_template_fact v, vr_created v))"

definition run_evolves :: "run_row \<Rightarrow> run_row \<Rightarrow> bool" where
  "run_evolves x y \<longleftrightarrow> run_identity y = run_identity x \<and> (run_ended x \<longrightarrow> y = x)
     \<and> (vr_human x \<noteq> HPending \<longrightarrow> vr_human y = vr_human x \<and> vr_human_by y = vr_human_by x \<and> vr_human_at y = vr_human_at x)"

lemmas identity_defs = alloc_identity_def job_identity_def request_identity_def run_identity_def

lemma alloc_evolves_refl: "alloc_evolves x x"
  by (simp add: alloc_evolves_def leaves_quarantine_to_def)

lemma alloc_evolves_trans:
  assumes "alloc_evolves x y" "alloc_evolves y z"
  shows "alloc_evolves x z"
proof (cases "terminal_alloc (al_state y)")
  case True
  then have "z = y" using assms(2) by (simp add: alloc_evolves_def)
  with assms(1) show ?thesis by simp
next
  case False
  then have "\<not> terminal_alloc (al_state x)" using assms(1) unfolding alloc_evolves_def by metis
  moreover have "al_run y = al_run x" using assms(1) by (simp add: alloc_evolves_def alloc_identity_def)
  ultimately show ?thesis using assms False unfolding alloc_evolves_def leaves_quarantine_to_def by metis
qed

lemma job_evolves_refl: "job_evolves x x"
  by (simp add: job_evolves_def write_once_def job_state_evolves_def)

lemma write_once_trans: "write_once a b \<Longrightarrow> write_once b c \<Longrightarrow> write_once a c"
  by (auto simp: write_once_def)

lemma job_state_evolves_trans:
  assumes "job_state_evolves s t" "job_state_evolves t u" "terminal_job t \<Longrightarrow> u = t"
  shows "job_state_evolves s u"
  using assms unfolding job_state_evolves_def terminal_job_def by auto

lemma job_evolves_trans:
  assumes "job_evolves x y" "job_evolves y z"
  shows "job_evolves x z"
proof -
  have "terminal_job (jb_state x) \<Longrightarrow> z = x" using assms unfolding job_evolves_def by metis
  moreover have "job_state_evolves (jb_state x) (jb_state z)"
    by (rule job_state_evolves_trans [of _ "jb_state y"]) (use assms in \<open>simp_all add: job_evolves_def\<close>)
  moreover have "write_once (jb_instance x) (jb_instance z)" "write_once (jb_operation x) (jb_operation z)"
    using assms write_once_trans unfolding job_evolves_def by blast+
  ultimately show ?thesis using assms by (simp add: job_evolves_def)
qed

lemma request_evolves_refl: "request_evolves x x"
  by (simp add: request_evolves_def)

lemma request_evolves_trans: "request_evolves x y \<Longrightarrow> request_evolves y z \<Longrightarrow> request_evolves x z"
  unfolding request_evolves_def by metis

lemma intent_evolves_refl: "intent_evolves x x"
  by (simp add: intent_evolves_def)

lemma intent_evolves_trans: "intent_evolves x y \<Longrightarrow> intent_evolves y z \<Longrightarrow> intent_evolves x z"
  unfolding intent_evolves_def by metis

lemma run_evolves_refl: "run_evolves x x"
  by (simp add: run_evolves_def)

lemma run_evolves_trans: "run_evolves x y \<Longrightarrow> run_evolves y z \<Longrightarrow> run_evolves x z"
  unfolding run_evolves_def by metis

interpretation alloc_ev: row_evolution alloc_evolves
  by unfold_locales (rule alloc_evolves_refl, rule alloc_evolves_trans)

interpretation job_ev: row_evolution job_evolves
  by unfold_locales (rule job_evolves_refl, rule job_evolves_trans)

interpretation request_ev: row_evolution request_evolves
  by unfold_locales (rule request_evolves_refl, rule request_evolves_trans)

interpretation intent_ev: row_evolution intent_evolves
  by unfold_locales (rule intent_evolves_refl, rule intent_evolves_trans)

interpretation run_ev: row_evolution run_evolves
  by unfold_locales (rule run_evolves_refl, rule run_evolves_trans)

interpretation execution_ev: row_evolution "(=) :: execution_row \<Rightarrow> execution_row \<Rightarrow> bool"
  by unfold_locales simp_all

section \<open>The business state\<close>

text \<open>The constraints of the schema, and that an ended run has no live allocation.\<close>

definition runs_settled :: "db \<Rightarrow> bool" where
  "runs_settled d \<longleftrightarrow> (\<forall>v \<in> set (runs d). \<forall>a \<in> set (allocs d).
     run_ended v \<and> al_run a = Some (vr_id v) \<longrightarrow> terminal_alloc (al_state a))"

definition schema_ok :: "db \<Rightarrow> bool" where
  "schema_ok d \<longleftrightarrow> requests_ok (requests d) \<and> allocs_ok (allocs d) \<and> jobs_ok (jobs d)
     \<and> executions_ok (executions d) \<and> intents_ok (intents d) \<and> runs_ok (runs d)"

definition evolves :: "db \<Rightarrow> db \<Rightarrow> bool" where
  "evolves d d' \<longleftrightarrow> tbl request_evolves (requests d) (requests d') \<and> tbl alloc_evolves (allocs d) (allocs d')
     \<and> tbl job_evolves (jobs d) (jobs d') \<and> tbl (=) (executions d) (executions d')
     \<and> tbl intent_evolves (intents d) (intents d') \<and> tbl run_evolves (runs d) (runs d')"

definition inv :: "db \<Rightarrow> bool" where
  "inv d \<longleftrightarrow> schema_ok d \<and> runs_settled d"

text \<open>A step from a well-formed state: it keeps the state well-formed and every table evolves.\<close>

definition sound_step :: "db \<Rightarrow> db \<Rightarrow> bool" where
  "sound_step d d' \<longleftrightarrow> (inv d \<longrightarrow> inv d' \<and> evolves d d')"

lemma evolves_refl: "evolves d d"
  by (simp add: evolves_def alloc_ev.tbl_refl job_ev.tbl_refl request_ev.tbl_refl intent_ev.tbl_refl
      run_ev.tbl_refl execution_ev.tbl_refl)

lemma evolves_trans: "evolves d e \<Longrightarrow> evolves e f \<Longrightarrow> evolves d f"
  unfolding evolves_def
  by (meson alloc_ev.tbl_trans job_ev.tbl_trans request_ev.tbl_trans intent_ev.tbl_trans run_ev.tbl_trans
      execution_ev.tbl_trans)

lemma sound_refl [simp]: "sound_step d d"
  by (simp add: sound_step_def evolves_refl)

lemma sound_trans: "sound_step d e \<Longrightarrow> sound_step e f \<Longrightarrow> sound_step d f"
  unfolding sound_step_def using evolves_trans by blast

text \<open>A step that leaves the business tables alone.\<close>

definition business where
  "business d = (requests d, allocs d, jobs d, executions d, intents d, runs d)"

lemma sound_business: "business d' = business d \<Longrightarrow> sound_step d d'"
  using evolves_refl [of d] by (simp add: sound_step_def inv_def runs_settled_def business_def schema_ok_def evolves_def)

end
