(* ===== verification/Soundness.thy ===== *)
theory Soundness
  imports Evolution
begin

text \<open>
  Every operation of the job ledger is a sound step: one lemma per statement that writes a business
  table, then one per operation, composed the way the operation composes its statements.
\<close>

section \<open>Statements\<close>

lemmas evolves_refls = alloc_ev.tbl_refl job_ev.tbl_refl request_ev.tbl_refl intent_ev.tbl_refl run_ev.tbl_refl
  execution_ev.tbl_refl

lemma sound_upd_requests:
  assumes "put_requests (upd_where P f (requests d)) d = Inr d'"
    and "\<And>r. inv d \<Longrightarrow> r \<in> set (requests d) \<Longrightarrow> P r \<Longrightarrow> request_evolves r (f r)"
  shows "sound_step d d'"
  using assms request_ev.tbl_upd [of "requests d" P f]
  by (simp add: sound_step_def inv_def schema_ok_def runs_settled_def evolves_def evolves_refls put_Inr)

lemma sound_append_requests:
  assumes "put_requests (requests d @ rs) d = Inr d'"
  shows "sound_step d d'"
  using assms
  by (simp add: sound_step_def inv_def schema_ok_def runs_settled_def evolves_def evolves_refls put_Inr request_ev.tbl_append)

lemma runs_settled_allocs:
  assumes "runs_settled d" "\<And>x. x \<in> set (allocs d) \<Longrightarrow> P x \<Longrightarrow> alloc_evolves x (f x)"
  shows "runs_settled (d\<lparr>allocs := upd_where P f (allocs d)\<rparr>)"
  unfolding runs_settled_def
proof (intro ballI impI)
  fix v a assume "v \<in> set (runs (d\<lparr>allocs := upd_where P f (allocs d)\<rparr>))"
    and a: "a \<in> set (allocs (d\<lparr>allocs := upd_where P f (allocs d)\<rparr>))"
    and e: "run_ended v \<and> al_run a = Some (vr_id v)"
  then have v: "v \<in> set (runs d)" by simp
  have "a \<in> set (upd_where P f (allocs d))" using a by simp
  then show "terminal_alloc (al_state a)"
  proof (cases rule: in_upd_whereE)
    case (1 x)
    then have ev: "alloc_evolves x a" using assms(2) by simp
    then have "al_run x = Some (vr_id v)" using e by (simp add: alloc_evolves_def alloc_identity_def)
    then have "terminal_alloc (al_state x)" using assms(1) v e 1(1) unfolding runs_settled_def by blast
    with ev show ?thesis unfolding alloc_evolves_def by metis
  next
    case 2
    then show ?thesis using assms(1) v e unfolding runs_settled_def by blast
  qed
qed

lemma sound_upd_allocs:
  assumes "put_allocs (upd_where P f (allocs d)) d = Inr d'"
    and "\<And>x. inv d \<Longrightarrow> x \<in> set (allocs d) \<Longrightarrow> P x \<Longrightarrow> alloc_evolves x (f x)"
  shows "sound_step d d'"
  unfolding sound_step_def
proof
  assume i: "inv d"
  have d': "d' = d\<lparr>allocs := upd_where P f (allocs d)\<rparr>" "allocs_ok (upd_where P f (allocs d))"
    using assms(1) by (simp_all add: put_Inr)
  have "tbl alloc_evolves (allocs d) (upd_where P f (allocs d))"
    by (rule alloc_ev.tbl_upd) (rule assms(2) [OF i])
  moreover have "runs_settled d'"
    unfolding d' by (rule runs_settled_allocs) (use i assms(2) in \<open>auto simp: inv_def\<close>)
  ultimately show "inv d' \<and> evolves d d'"
    using i d' by (simp add: inv_def schema_ok_def evolves_def evolves_refls)
qed

lemma sound_append_alloc:
  assumes "put_allocs (allocs d @ [a]) d = Inr d'"
    and "\<And>v. inv d \<Longrightarrow> v \<in> set (runs d) \<Longrightarrow> al_run a = Some (vr_id v) \<Longrightarrow> \<not> run_ended v"
  shows "sound_step d d'"
  using assms
  by (auto simp: sound_step_def inv_def schema_ok_def runs_settled_def evolves_def evolves_refls put_Inr alloc_ev.tbl_append)

lemma sound_upd_jobs:
  assumes "put_jobs (upd_where P f (jobs d)) d = Inr d'"
    and "\<And>x. inv d \<Longrightarrow> x \<in> set (jobs d) \<Longrightarrow> P x \<Longrightarrow> job_evolves x (f x)"
  shows "sound_step d d'"
  using assms job_ev.tbl_upd [of "jobs d" P f]
  by (simp add: sound_step_def inv_def schema_ok_def runs_settled_def evolves_def evolves_refls put_Inr)

lemma sound_append_jobs:
  assumes "put_jobs (jobs d @ js) d = Inr d'"
  shows "sound_step d d'"
  using assms
  by (simp add: sound_step_def inv_def schema_ok_def runs_settled_def evolves_def evolves_refls put_Inr job_ev.tbl_append)

lemma sound_append_executions:
  assumes "put_executions (executions d @ es) d = Inr d'"
  shows "sound_step d d'"
  using assms
  by (simp add: sound_step_def inv_def schema_ok_def runs_settled_def evolves_def evolves_refls put_Inr execution_ev.tbl_append)

lemma sound_upd_intents:
  assumes "put_intents (upd_where P f (intents d)) d = Inr d'"
    and "\<And>x. inv d \<Longrightarrow> x \<in> set (intents d) \<Longrightarrow> P x \<Longrightarrow> intent_evolves x (f x)"
  shows "sound_step d d'"
  using assms intent_ev.tbl_upd [of "intents d" P f]
  by (simp add: sound_step_def inv_def schema_ok_def runs_settled_def evolves_def evolves_refls put_Inr)

lemma sound_append_intents:
  assumes "put_intents (intents d @ xs) d = Inr d'"
  shows "sound_step d d'"
  using assms
  by (simp add: sound_step_def inv_def schema_ok_def runs_settled_def evolves_def evolves_refls put_Inr intent_ev.tbl_append)

lemma sound_append_run:
  assumes "put_runs (runs d @ [v]) d = Inr d'" "\<not> run_ended v"
  shows "sound_step d d'"
  using assms
  by (auto simp: sound_step_def inv_def schema_ok_def runs_settled_def evolves_def evolves_refls put_Inr run_ev.tbl_append)

text \<open>A run may be ended only when its allocation is terminal.\<close>

lemma sound_upd_runs:
  assumes "put_runs (upd_where P f (runs d)) d = Inr d'"
    and ev: "\<And>x. inv d \<Longrightarrow> x \<in> set (runs d) \<Longrightarrow> P x \<Longrightarrow> run_evolves x (f x)"
    and ends: "\<And>x a. inv d \<Longrightarrow> x \<in> set (runs d) \<Longrightarrow> P x \<Longrightarrow> run_ended (f x) \<Longrightarrow> a \<in> set (allocs d)
                \<Longrightarrow> al_run a = Some (vr_id x) \<Longrightarrow> terminal_alloc (al_state a)"
  shows "sound_step d d'"
  unfolding sound_step_def
proof
  assume i: "inv d"
  have d': "d' = d\<lparr>runs := upd_where P f (runs d)\<rparr>" "runs_ok (upd_where P f (runs d))"
    using assms(1) by (simp_all add: put_Inr)
  have "tbl run_evolves (runs d) (upd_where P f (runs d))"
    by (rule run_ev.tbl_upd) (rule ev [OF i])
  moreover have "terminal_alloc (al_state a)"
    if v: "v \<in> set (upd_where P f (runs d))" and a: "a \<in> set (allocs d)" and e: "run_ended v" "al_run a = Some (vr_id v)" for v a
    using v
  proof (cases rule: in_upd_whereE)
    case (1 x)
    then have "vr_id v = vr_id x" using ev [OF i, of x] by (simp add: run_evolves_def run_identity_def)
    then show ?thesis using ends [OF i 1(1,2) _ a] 1(3) e by simp
  next
    case 2
    then show ?thesis using i a e unfolding inv_def runs_settled_def by blast
  qed
  ultimately show "inv d' \<and> evolves d d'"
    using i d' by (simp add: inv_def schema_ok_def runs_settled_def evolves_def evolves_refls)
qed

section \<open>Rows are found by their key\<close>

lemma alloc_key:
  "inv d \<Longrightarrow> a \<in> set (allocs d) \<Longrightarrow> x \<in> set (allocs d) \<Longrightarrow> al_id x = al_id a \<Longrightarrow> x = a"
  unfolding inv_def schema_ok_def allocs_ok_def distinct_map by (meson inj_onD)

lemma job_key:
  "inv d \<Longrightarrow> a \<in> set (jobs d) \<Longrightarrow> x \<in> set (jobs d) \<Longrightarrow> jb_id x = jb_id a \<Longrightarrow> x = a"
  unfolding inv_def schema_ok_def jobs_ok_def distinct_map by (meson inj_onD)

lemma request_key:
  "inv d \<Longrightarrow> a \<in> set (requests d) \<Longrightarrow> x \<in> set (requests d) \<Longrightarrow> rq_id x = rq_id a \<Longrightarrow> x = a"
  unfolding inv_def schema_ok_def requests_ok_def distinct_map by (meson inj_onD)

lemma intent_key:
  "inv d \<Longrightarrow> a \<in> set (intents d) \<Longrightarrow> x \<in> set (intents d) \<Longrightarrow> ni_source x = ni_source a \<Longrightarrow> x = a"
  unfolding inv_def schema_ok_def intents_ok_def distinct_map by (meson inj_onD)

lemma run_key_unique:
  "inv d \<Longrightarrow> a \<in> set (runs d) \<Longrightarrow> x \<in> set (runs d) \<Longrightarrow> vr_id x = vr_id a \<Longrightarrow> x = a"
  unfolding inv_def schema_ok_def runs_ok_def distinct_map by (meson inj_onD)

lemma alloc_of_run:
  "inv d \<Longrightarrow> a \<in> set (allocs d) \<Longrightarrow> x \<in> set (allocs d) \<Longrightarrow> al_run a = Some v \<Longrightarrow> al_run x = Some v \<Longrightarrow> x = a"
  unfolding inv_def schema_ok_def allocs_ok_def by (meson unique_onD)

section \<open>Shared steps\<close>

lemma sound_set_alloc:
  assumes "set_alloc a f d = Inr d'"
    and "\<And>x. inv d \<Longrightarrow> x \<in> set (allocs d) \<Longrightarrow> al_id x = a \<Longrightarrow> alloc_evolves x (f x)"
  shows "sound_step d d'"
  using assms unfolding set_alloc_def by (rule sound_upd_allocs)

lemma sound_set_live_request:
  assumes "set_live_request_state r s now d = Inr d'"
  shows "sound_step d d'"
  by (rule sound_upd_requests [OF assms [unfolded set_live_request_state_def]])
    (simp add: request_evolves_def request_identity_def)

lemma sound_set_request:
  assumes "set_request_state r s now d = Inr d'"
    and "\<And>x. inv d \<Longrightarrow> x \<in> set (requests d) \<Longrightarrow> rq_id x = r \<Longrightarrow> rq_state x \<noteq> RAbandoned"
  shows "sound_step d d'"
  by (rule sound_upd_requests [OF assms(1) [unfolded set_request_state_def]])
    (use assms(2) in \<open>simp add: request_evolves_def request_identity_def\<close>)

lemma sound_pause:
  assumes "pauseNextGameIntent r d = Inr d'"
  shows "sound_step d d'"
  by (rule sound_upd_intents [OF assms [unfolded pauseNextGameIntent_def]])
    (simp add: intent_evolves_def)

text \<open>The second of two statements may rely on the state before the first.\<close>

lemma sound_then:
  assumes "sound_step d e" "inv d \<Longrightarrow> sound_step e f"
  shows "sound_step d f"
  using assms evolves_trans unfolding sound_step_def by blast

lemma sound_consume_pending:
  assumes "consume_pending r newID now src d = Inr d'"
    and live: "\<And>x. inv d \<Longrightarrow> x \<in> set (intents d) \<Longrightarrow> ni_source x = r \<Longrightarrow> ni_state x \<noteq> IConsumed"
  shows "sound_step d d'"
proof (cases "validateFreshRequest (rq_game src) (rq_preset src) (rq_party src) (rq_mode src) (rq_manual src) d")
  case (Inl e)
  then have "put_intents (upd_where (\<lambda>i. ni_source i = r)
      (\<lambda>i. i\<lparr>ni_state := IPaused, ni_failure := Some (rejection_text e)\<rparr>) (intents d)) d = Inr d'"
    using assms(1) by (simp add: consume_pending_def split: if_splits)
  then show ?thesis by (rule sound_upd_intents) (use live in \<open>simp add: intent_evolves_def\<close>)
next
  case (Inr u)
  with assms(1) obtain e rs where e: "put_requests (requests d @ rs) d = Inr e"
    and w: "put_intents (upd_where (\<lambda>i. ni_source i = r)
        (\<lambda>i. i\<lparr>ni_state := IConsumed, ni_new := Some newID, ni_consumed := Some now\<rparr>) (intents e)) e = Inr d'"
    by (auto simp: consume_pending_def bindE_Inr)
  have same: "intents e = intents d" using e by (simp add: put_Inr)
  show ?thesis
  proof (rule sound_then [OF sound_append_requests [OF e]])
    assume "inv d"
    show "sound_step e d'"
      by (rule sound_upd_intents [OF w]) (use live [OF \<open>inv d\<close>] same in \<open>simp add: intent_evolves_def\<close>)
  qed
qed

lemma sound_consume:
  assumes "consumeNextGameIntent r after newID now d = Inr d'"
  shows "sound_step d d'"
  using consume_cases [OF assms]
proof (elim disjE exE conjE)
  fix i src assume i: "i \<in> set (intents d)" "ni_source i = r" "consumable after i"
    and c: "consume_pending r newID now src d = Inr d'"
  show ?thesis
  proof (rule sound_consume_pending [OF c])
    fix x assume "inv d" "x \<in> set (intents d)" "ni_source x = r"
    then have "x = i" using intent_key i(1,2) by metis
    then show "ni_state x \<noteq> IConsumed" using i(3) by (simp add: consumable_def)
  qed
qed simp

text \<open>A job report ends a run only together with the terminal state of its allocation.\<close>

lemma next_from_job_ends:
  assumes "next_from_job s h k js as j = Some n" "n = VFailed \<or> n = VPassed"
  shows "n = VFailed \<and> releasing k js"
  using assms by (auto simp: next_from_job_def releasing_def split: job_kind.splits job_state.splits if_splits)

lemma sound_advance_job:
  assumes "advanceValidationFromJob r k js as e j now d = Inr d'"
    and "\<And>a. releasing k js \<Longrightarrow> a \<in> set (allocs d) \<Longrightarrow> al_run a = Some r \<Longrightarrow> terminal_alloc (al_state a)"
  shows "sound_step d d'"
proof -
  from assms(1) obtain v where v: "find (\<lambda>v. vr_id v = r) (runs d) = Some v"
    by (auto simp: advanceValidationFromJob_def result_simps)
  show ?thesis
  proof (cases "\<exists>n. next_from_job (vr_state v) (vr_human v) k js as j = Some n \<and> n \<noteq> vr_state v \<and> \<not> run_ended v")
    case True
    then obtain n where n: "next_from_job (vr_state v) (vr_human v) k js as j = Some n" "\<not> run_ended v" by blast
    then have w: "put_runs (upd_where (\<lambda>v. vr_id v = r) (write_run_from_job n e now) (runs d)) d = Inr d'"
      using assms(1) v True by (auto simp: advanceValidationFromJob_def fetch_def run_ended_def)
    have live: "\<not> run_ended x" if "inv d" "x \<in> set (runs d)" "vr_id x = r" for x
      using run_key_unique [OF that(1) _ that(2), of v] that(3) find_SomeD [OF v] n(2) by simp
    show ?thesis
    proof (rule sound_upd_runs [OF w])
      show "run_evolves x (write_run_from_job n e now x)" if "inv d" "x \<in> set (runs d)" "vr_id x = r" for x
        using live [OF that] by (simp add: run_evolves_def write_run_from_job_def run_identity_def)
      show "terminal_alloc (al_state a)"
        if "x \<in> set (runs d)" "vr_id x = r" "run_ended (write_run_from_job n e now x)"
          "a \<in> set (allocs d)" "al_run a = Some (vr_id x)" for x a
        using assms(2) [of a] next_from_job_ends [OF n(1)] that
        by (simp add: run_ended_def write_run_from_job_def) blast
    qed
  next
    case False
    then have "d' = d" using assms(1) v
      by (auto simp: advanceValidationFromJob_def fetch_def run_ended_def split: option.splits if_splits)
    then show ?thesis by simp
  qed
qed

lemma sound_advance_fact:
  assumes "advanceValidationFromFact r f h now d = Inr d'"
  shows "sound_step d d'"
proof -
  from assms(1) obtain v where v: "find (\<lambda>v. vr_id v = r) (runs d) = Some v"
    by (auto simp: advanceValidationFromFact_def result_simps)
  show ?thesis
  proof (cases "\<exists>n. next_from_fact (vr_state v) f h = Some n \<and> n \<noteq> vr_state v \<and> \<not> run_ended v")
    case True
    then obtain n where n: "next_from_fact (vr_state v) f h = Some n" "\<not> run_ended v" by blast
    then have w: "put_runs (upd_where (\<lambda>v. vr_id v = r) (write_run_from_fact n now) (runs d)) d = Inr d'"
      using assms(1) v True by (auto simp: advanceValidationFromFact_def fetch_def run_ended_def)
    have live: "\<not> run_ended x" if "inv d" "x \<in> set (runs d)" "vr_id x = r" for x
      using run_key_unique [OF that(1) _ that(2), of v] that(3) find_SomeD [OF v] n(2) by simp
    have "n \<noteq> VPassed \<and> n \<noteq> VFailed"
      using n(1) by (auto simp: next_from_fact_def split: run_fact.splits if_splits)
    with live show ?thesis
      by (intro sound_upd_runs [OF w])
        (simp_all add: run_evolves_def write_run_from_fact_def run_identity_def run_ended_def)
  next
    case False
    then have "d' = d" using assms(1) v
      by (auto simp: advanceValidationFromFact_def fetch_def run_ended_def split: option.splits if_splits)
    then show ?thesis by simp
  qed
qed

section \<open>Job reports\<close>

definition alloc_is :: "uuid \<Rightarrow> alloc_state \<Rightarrow> db \<Rightarrow> bool" where
  "alloc_is a s d \<longleftrightarrow> (\<forall>x \<in> set (allocs d). al_id x = a \<longrightarrow> al_state x = s)"

lemma alloc_is_found: "inv d \<Longrightarrow> a \<in> set (allocs d) \<Longrightarrow> alloc_is (al_id a) (al_state a) d"
  unfolding alloc_is_def using alloc_key by blast

lemma alloc_is_set:
  assumes "set_alloc a f d = Inr d'" "\<And>x. al_id (f x) = al_id x" "\<And>x. al_id x = a \<Longrightarrow> al_state (f x) = s"
  shows "alloc_is a s d'"
  using assms unfolding alloc_is_def set_alloc_def put_Inr
  by (auto elim!: in_upd_whereE)

lemma report_effect_releasing:
  "report_effect k js e auto p = Some (s, rs) \<Longrightarrow> terminal_alloc s \<longleftrightarrow> releasing k js"
  by (auto simp: report_effect_def releasing_def terminal_alloc_def split: job_kind.splits job_state.splits if_splits)

lemma report_effect_success:
  "report_effect KCreate JSucceeded e auto p = Some (s, rs) \<longleftrightarrow> s = ARunning \<and> rs = RRunning"
  by (auto simp: report_effect_def)

lemma report_effect_failure:
  "report_effect KCreate JFailedWithEffect e auto p = Some (s, rs) \<Longrightarrow> e \<noteq> ''IDENTITY_UNVERIFIED'' \<Longrightarrow> s = AFailedUnreclaimed"
  by (simp add: report_effect_def)

text \<open>Statements that do not write the allocations.\<close>

lemma keeps_allocs:
  "set_live_request_state r s now d = Inr d' \<Longrightarrow> allocs d' = allocs d"
  "set_request_state r s now d = Inr d' \<Longrightarrow> allocs d' = allocs d"
  "pauseNextGameIntent r d = Inr d' \<Longrightarrow> allocs d' = allocs d"
  "insert_stop newJob n a i now d = Inr d' \<Longrightarrow> allocs d' = allocs d"
  by (auto simp: set_live_request_state_def set_request_state_def pauseNextGameIntent_def insert_stop_def put_Inr
      split: option.splits if_splits)

lemma consume_keeps_allocs:
  assumes "consumeNextGameIntent r after newID now d = Inr d'"
  shows "allocs d' = allocs d"
proof -
  have "consume_pending r newID now src d = Inr d' \<Longrightarrow> allocs d' = allocs d" for src
    by (cases "validateFreshRequest (rq_game src) (rq_preset src) (rq_party src) (rq_mode src) (rq_manual src) d")
      (auto simp: consume_pending_def put_Inr bindE_Inr split: if_splits)
  with consume_cases [OF assms] show ?thesis by blast
qed

lemma advance_keeps_allocs:
  "advanceValidationFromJob v k js s e h now d = Inr d' \<Longrightarrow> allocs d' = allocs d"
  "advanceValidationFromFact v f h now d = Inr d' \<Longrightarrow> allocs d' = allocs d"
  using advanceValidationFromJob_frame [of v k js s e h now d d'] advanceValidationFromFact_frame [of v f h now d d']
  by (metis db.select_convs(17) db.surjective db.update_convs(23))+

lemma alloc_evolves_state:
  assumes "alloc_identity y = alloc_identity x" "\<not> terminal_alloc (al_state x)" "al_state x \<noteq> AQuarantined \<or> terminal_alloc (al_state y)"
  shows "alloc_evolves x y"
  using assms by (auto simp: alloc_evolves_def leaves_quarantine_to_def)

definition join_write :: "JoinInfo option \<Rightarrow> string \<Rightarrow> time \<Rightarrow> alloc_row \<Rightarrow> alloc_row" where
  "join_write j je now x = (case j of Some j \<Rightarrow> write_join j now x | None \<Rightarrow> x\<lparr>al_join_error := Some je\<rparr>)"

lemma join_write_keeps [simp]:
  "al_id (join_write j je now x) = al_id x" "al_state (join_write j je now x) = al_state x"
  "alloc_identity (join_write j je now x) = alloc_identity x"
  by (cases j; simp add: join_write_def write_join_def alloc_identity_def)+

lemma record_join_cases:
  assumes "record_join a n k js j je now d = Inr (jd, d')"
  shows "\<not> (k = KCreate \<and> js = JSucceeded) \<and> d' = d
     \<or> k = KCreate \<and> js = JSucceeded \<and> (\<exists>j je. set_alloc a (join_write j je now) d = Inr d')"
proof (cases "k = KCreate \<and> js = JSucceeded")
  case True
  with assms obtain j' je' where w: "set_alloc a (case j' of Some j \<Rightarrow> write_join j now
       | None \<Rightarrow> al_join_error_update (\<lambda>_. Some je')) d = Inr d'"
    by (auto simp: record_join_def bindE_Inr)
  have "(case j' of Some j \<Rightarrow> write_join j now | None \<Rightarrow> al_join_error_update (\<lambda>_. Some je')) = join_write j' je' now"
    by (rule ext) (simp add: join_write_def split: option.splits)
  with w True show ?thesis by auto
qed (use assms in \<open>auto simp: record_join_def\<close>)

lemma record_join_alloc_is:
  assumes "record_join a n k js j je now d = Inr (jd, d')" "alloc_is a s d"
  shows "alloc_is a s d'"
  using record_join_cases [OF assms(1)]
proof (elim disjE conjE exE)
  fix j je assume "set_alloc a (join_write j je now) d = Inr d'"
  then have w: "allocs d' = upd_where (\<lambda>x. al_id x = a) (join_write j je now) (allocs d)"
    by (simp add: set_alloc_def put_Inr)
  show ?thesis
    unfolding alloc_is_def w
  proof (intro ballI impI)
    fix x assume "x \<in> set (upd_where (\<lambda>x. al_id x = a) (join_write j je now) (allocs d))" and "al_id x = a"
    then show "al_state x = s"
      by (cases rule: in_upd_whereE) (use assms(2) in \<open>simp_all add: alloc_is_def\<close>)
  qed
qed (use assms in simp)

lemma sound_record_join:
  assumes "record_join a n k js j je now d = Inr (jd, d')" "k = KCreate \<and> js = JSucceeded \<longrightarrow> alloc_is a ARunning d"
  shows "sound_step d d'"
  using record_join_cases [OF assms(1)]
proof (elim disjE conjE exE)
  fix j je assume w: "set_alloc a (join_write j je now) d = Inr d'" and "k = KCreate" "js = JSucceeded"
  show ?thesis
  proof (rule sound_set_alloc [OF w])
    fix x assume "x \<in> set (allocs d)" "al_id x = a"
    then have "al_state x = ARunning"
      using assms(2) \<open>k = KCreate\<close> \<open>js = JSucceeded\<close> by (simp add: alloc_is_def)
    then show "alloc_evolves x (join_write j je now x)"
      by (intro alloc_evolves_state) (simp_all add: terminal_alloc_def)
  qed
qed simp

lemma sound_insert_stop:
  assumes "insert_stop newJob n a i now d = Inr d'"
  shows "sound_step d d'"
  using assms by (auto simp: insert_stop_def intro: sound_append_jobs split: option.splits if_splits)

lemma sound_effectful_stop:
  assumes "effectful_create_stop a n rq k js i e newJob now d = Inr d'"
    and "k = KCreate \<and> js = JFailedWithEffect \<and> e \<noteq> ''IDENTITY_UNVERIFIED'' \<longrightarrow> alloc_is a AFailedUnreclaimed d"
  shows "sound_step d d'"
proof (cases "k = KCreate \<and> js = JFailedWithEffect \<and> i \<noteq> [] \<and> e \<noteq> ''IDENTITY_UNVERIFIED''")
  case True
  with assms(1) obtain d1 d2 where s1: "insert_stop newJob n a i now d = Inr d1"
    and s2: "set_alloc a (al_state_update (\<lambda>_. AStopping)) d1 = Inr d2"
    and s3: "(case rq of None \<Rightarrow> Inr d2 | Some r \<Rightarrow> set_live_request_state r RStopping now d2) = Inr d'"
    by (auto simp: effectful_create_stop_def bindE_Inr)
  have d1: "alloc_is a AFailedUnreclaimed d1"
    using assms(2) True keeps_allocs(4) [OF s1] by (simp add: alloc_is_def)
  have "sound_step d1 d2"
  proof (rule sound_set_alloc [OF s2])
    fix x assume "x \<in> set (allocs d1)" "al_id x = a"
    then have "al_state x = AFailedUnreclaimed" using d1 by (simp add: alloc_is_def)
    then show "alloc_evolves x (x\<lparr>al_state := AStopping\<rparr>)"
      by (intro alloc_evolves_state) (simp_all add: terminal_alloc_def alloc_identity_def)
  qed
  moreover have "sound_step d2 d'" using s3 sound_set_live_request by (auto split: option.splits)
  ultimately show ?thesis using sound_insert_stop [OF s1] sound_trans by blast
qed (use assms in \<open>auto simp: effectful_create_stop_def\<close>)

lemma sound_report_owner:
  assumes "report_owner a k js e joined s rs newReq now d = Inr d'"
    and "\<And>x v. releasing k js \<Longrightarrow> x \<in> set (allocs d) \<Longrightarrow> al_run a = Some v \<Longrightarrow> al_run x = Some v \<Longrightarrow> terminal_alloc (al_state x)"
  shows "sound_step d d' \<and> allocs d' = allocs d"
proof -
  from assms(1) obtain d1 d2 where
    s1: "(case al_request a of None \<Rightarrow> Inr d | Some r \<Rightarrow> set_live_request_state r rs now d) = Inr d1"
    and s2: "(case al_run a of None \<Rightarrow> Inr d1 | Some v \<Rightarrow> advanceValidationFromJob v k js s e joined now d1) = Inr d2"
    and s3: "(case al_request a of None \<Rightarrow> Inr d2 | Some r \<Rightarrow>
         bindE (if s = AQuarantined then pauseNextGameIntent r d2 else Inr d2) (\<lambda>d.
         if k = KStop \<and> js = JSucceeded \<and> al_state a \<noteq> AQuarantined
         then consumeNextGameIntent r False newReq now d else Inr d)) = Inr d'"
    by (auto simp: report_owner_def bindE_Inr)
  have 1: "sound_step d d1 \<and> allocs d1 = allocs d"
    using s1 sound_set_live_request keeps_allocs(1) by (auto split: option.splits)
  have 2: "sound_step d1 d2 \<and> allocs d2 = allocs d1"
  proof (cases "al_run a")
    case (Some v)
    then have w: "advanceValidationFromJob v k js s e joined now d1 = Inr d2" using s2 by simp
    have "sound_step d1 d2"
      by (rule sound_advance_job [OF w]) (use assms(2) Some 1 in auto)
    with advance_keeps_allocs(1) [OF w] show ?thesis by simp
  qed (use s2 in simp)
  have 3: "sound_step d2 d' \<and> allocs d' = allocs d2"
  proof (cases "al_request a")
    case (Some r)
    with s3 obtain d3 where p: "(if s = AQuarantined then pauseNextGameIntent r d2 else Inr d2) = Inr d3"
      and c: "(if k = KStop \<and> js = JSucceeded \<and> al_state a \<noteq> AQuarantined
         then consumeNextGameIntent r False newReq now d3 else Inr d3) = Inr d'"
      by (auto simp: bindE_Inr)
    have "sound_step d2 d3 \<and> allocs d3 = allocs d2"
      using p sound_pause keeps_allocs(3) by (auto split: if_splits)
    moreover have "sound_step d3 d' \<and> allocs d' = allocs d3"
      using c sound_consume consume_keeps_allocs by (auto split: if_splits)
    ultimately show ?thesis using sound_trans by auto
  qed (use s3 in simp)
  show ?thesis using 1 2 3 sound_trans by metis
qed

lemma write_alloc_state_simps [simp]:
  "al_id (write_alloc_state s e now x) = al_id x" "al_state (write_alloc_state s e now x) = s"
  "al_run (write_alloc_state s e now x) = al_run x" "al_node (write_alloc_state s e now x) = al_node x"
  "alloc_identity (write_alloc_state s e now x) = alloc_identity x"
  by (simp_all add: write_alloc_state_def alloc_identity_def)

lemma sound_apply_effect:
  assumes "apply_effect a n k js inst e j je s rs newReq newJob now d = Inr d'"
    and eff: "report_effect k js e au p = Some (s, rs)"
    and a: "a \<in> set (allocs d)" "\<not> report_ignored a k js"
  shows "sound_step d d'"
proof -
  from assms(1) obtain d1 jd d2 d3 where s1: "set_alloc (al_id a) (write_alloc_state s e now) d = Inr d1"
    and s2: "record_join (al_id a) n k js j je now d1 = Inr (jd, d2)"
    and s3: "report_owner a k js e jd s rs newReq now d2 = Inr d3"
    and s4: "effectful_create_stop (al_id a) n (al_request a) k js inst e newJob now d3 = Inr d'"
    by (auto simp: apply_effect_def bindE_Inr)
  have rel: "terminal_alloc s \<longleftrightarrow> releasing k js" by (rule report_effect_releasing [OF eff])
  have is1: "alloc_is (al_id a) s d1" by (rule alloc_is_set [OF s1]) simp_all
  have is2: "alloc_is (al_id a) s d2" by (rule record_join_alloc_is [OF s2 is1])
  have 1: "sound_step d d1"
  proof (rule sound_set_alloc [OF s1])
    fix x assume "inv d" "x \<in> set (allocs d)" "al_id x = al_id a"
    then have "x = a" using alloc_key a(1) by blast
    then show "alloc_evolves x (write_alloc_state s e now x)"
      using a(2) rel by (intro alloc_evolves_state) (auto simp: report_ignored_def)
  qed
  have 2: "sound_step d1 d2"
    by (rule sound_record_join [OF s2]) (use is1 eff report_effect_success in auto)
  show ?thesis
  proof (rule sound_then [OF sound_trans [OF 1 2]])
    assume "inv d"
    then have "inv d2" "evolves d d2" using sound_trans [OF 1 2] by (simp_all add: sound_step_def)
    have gone: "terminal_alloc (al_state x)"
      if "releasing k js" "x \<in> set (allocs d2)" "al_run a = Some v" "al_run x = Some v" for x v
    proof -
      obtain y where y: "y \<in> set (allocs d2)" "alloc_evolves a y"
        using \<open>evolves d d2\<close> a(1) alloc_ev.tbl_member unfolding evolves_def by blast
      then have id: "al_id y = al_id a" and "al_run y = Some v"
        using that(3) by (simp_all add: alloc_evolves_def alloc_identity_def)
      then have "x = y" using alloc_of_run [OF \<open>inv d2\<close> y(1) that(2)] that(4) by simp
      then have "al_state x = s" using is2 y(1) id by (simp add: alloc_is_def)
      then show ?thesis using rel that(1) by simp
    qed
    have 3: "sound_step d2 d3 \<and> allocs d3 = allocs d2"
      by (rule sound_report_owner [OF s3]) (use gone in blast)
    then have is3: "alloc_is (al_id a) s d3" using is2 by (simp add: alloc_is_def)
    have "sound_step d3 d'"
    proof (rule sound_effectful_stop [OF s4], rule impI)
      assume k: "k = KCreate \<and> js = JFailedWithEffect \<and> e \<noteq> ''IDENTITY_UNVERIFIED''"
      then have "s = AFailedUnreclaimed" using eff report_effect_failure by blast
      then show "alloc_is (al_id a) AFailedUnreclaimed d3" using is3 by simp
    qed
    with 3 show "sound_step d2 d'" using sound_trans by blast
  qed
qed

lemma sound_applyReport:
  assumes "applyAllocationJobReport i n k js inst e j je newReq newJob now d = Inr d'"
  shows "sound_step d d'"
  using applyAllocationJobReport_cases [OF assms] sound_apply_effect by fastforce

lemma permitted_evolves:
  assumes "permittedTransition s t" "\<not> (s = JUnknown \<and> t = JRejectedNoEffect)" "reportable t"
  shows "job_state_evolves s t"
  using assms by (cases s; cases t) (auto simp: permittedTransition_def job_state_evolves_def reportable_def)

lemma merge_id_write_once: "\<not> (new \<noteq> [] \<and> coalesce old [] \<noteq> [] \<and> new \<noteq> coalesce old [])
    \<Longrightarrow> write_once old (nullif (merge_id (coalesce old []) new) [])"
  by (cases old) (auto simp: write_once_def merge_id_def nullif_def)

lemma report_check_evolves:
  assumes "report_check j r d = Inr u" "\<not> terminal_job (jb_state j)" "reportable (rp_State r)"
  shows "job_evolves j (write_job r (merge_id (coalesce (jb_instance j) []) (rp_InstanceID r))
           (merge_id (coalesce (jb_operation j) []) (rp_OperationID r)) j)"
proof -
  have c: "permittedTransition (jb_state j) (rp_State r)" "\<not> (jb_state j = JUnknown \<and> rp_State r = JRejectedNoEffect)"
    "\<not> (rp_InstanceID r \<noteq> [] \<and> coalesce (jb_instance j) [] \<noteq> [] \<and> rp_InstanceID r \<noteq> coalesce (jb_instance j) [])"
    "\<not> (rp_OperationID r \<noteq> [] \<and> coalesce (jb_operation j) [] \<noteq> [] \<and> rp_OperationID r \<noteq> coalesce (jb_operation j) [])"
    using assms(1) by (auto simp: report_check_def Let_def rejectE_Inr)
  show ?thesis
    using assms(2) permitted_evolves [OF c(1,2) assms(3)] merge_id_write_once [OF c(3)] merge_id_write_once [OF c(4)]
    by (simp add: job_evolves_def write_job_def job_identity_def)
qed

end
