(* ===== verification/Auth.thy ===== *)
theory Auth
  imports Bytes
begin

text \<open>
  Credentials (\<open>internal/platform/auth/credentials.go\<close>): session and invite tokens with their digest,
  and the bounded password hash format.  Base64 without padding is Go's \<open>encoding/base64\<close>, which
  skips carriage returns and line feeds when decoding and does not check trailing bits; random bytes
  are arguments, and \<open>argon2.IDKey\<close> of the third-party package is a parameter of the functions that
  call it (password, salt, time, memory, threads, key length).
\<close>

section \<open>Base64 without padding\<close>

definition b64_common :: string where
  "b64_common = ''ABCDEFGHIJKLMNOPQRSTUVWXYZabcdefghijklmnopqrstuvwxyz0123456789''"

definition b64_url :: string where "b64_url = b64_common @ ''-_''"
definition b64_std :: string where "b64_std = b64_common @ ''+/''"

fun b64_digits :: "int list \<Rightarrow> int list" where
  "b64_digits (a # b # c # r) =
     [a div 4, a mod 4 * 16 + b div 16, b mod 16 * 4 + c div 64, c mod 64] @ b64_digits r"
| "b64_digits [a, b] = [a div 4, a mod 4 * 16 + b div 16, b mod 16 * 4]"
| "b64_digits [a] = [a div 4, a mod 4 * 16]"
| "b64_digits [] = []"

definition b64_encode :: "string \<Rightarrow> int list \<Rightarrow> string" where
  "b64_encode alphabet bytes = map (\<lambda>v. alphabet ! nat v) (b64_digits bytes)"

fun index_of :: "char \<Rightarrow> string \<Rightarrow> int option" where
  "index_of c [] = None"
| "index_of c (x # xs) = (if c = x then Some 0 else map_option (\<lambda>i. i + 1) (index_of c xs))"

fun b64_values :: "string \<Rightarrow> string \<Rightarrow> int list option" where
  "b64_values alphabet [] = Some []"
| "b64_values alphabet (c # cs) = (case index_of c alphabet of
      None \<Rightarrow> None
    | Some v \<Rightarrow> map_option ((#) v) (b64_values alphabet cs))"

fun b64_bytes :: "int list \<Rightarrow> int list option" where
  "b64_bytes (a # b # c # e # r) = map_option (\<lambda>bs.
     [a * 4 + b div 16, b mod 16 * 16 + c div 4, c mod 4 * 64 + e] @ bs) (b64_bytes r)"
| "b64_bytes [a, b, c] = Some [a * 4 + b div 16, b mod 16 * 16 + c div 4]"
| "b64_bytes [a, b] = Some [a * 4 + b div 16]"
| "b64_bytes [a] = None"
| "b64_bytes [] = Some []"

definition b64_decode :: "string \<Rightarrow> string \<Rightarrow> int list option" where
  "b64_decode alphabet s =
     (case b64_values alphabet (filter (\<lambda>c. c \<noteq> CHR 0x0A \<and> c \<noteq> CHR 0x0D) s) of
        None \<Rightarrow> None
      | Some vs \<Rightarrow> b64_bytes vs)"

section \<open>Tokens\<close>

definition TokenBytes :: nat where "TokenBytes = 32"

definition NewToken :: "int list \<Rightarrow> string \<times> int list" where
  "NewToken raw = (let token = b64_encode b64_url raw in (token, sha256 token))"

definition TokenHash :: "string \<Rightarrow> int list option" where
  "TokenHash token = (case b64_decode b64_url token of
      None \<Rightarrow> None
    | Some raw \<Rightarrow> if length raw \<noteq> TokenBytes \<or> b64_encode b64_url raw \<noteq> token then None
                  else Some (sha256 token))"

section \<open>Passwords\<close>

definition saltBytes :: nat where "saltBytes = 16"
definition argonTime :: int where "argonTime = 3"
definition argonMemory :: int where "argonMemory = 64 * 1024"
definition argonThreads :: int where "argonThreads = 4"
definition argonKeyBytes :: nat where "argonKeyBytes = 32"

type_synonym id_key = "string \<Rightarrow> int list \<Rightarrow> int \<Rightarrow> int \<Rightarrow> int \<Rightarrow> nat \<Rightarrow> int list"

definition HashPassword :: "id_key \<Rightarrow> int list \<Rightarrow> string \<Rightarrow> string option" where
  "HashPassword IDKey salt password =
     (if length password < 12 \<or> 1024 < length password then None
      else let key = IDKey password salt argonTime argonMemory argonThreads argonKeyBytes in
        Some (''$argon2id$v=19$m='' @ dec argonMemory @ '',t='' @ dec argonTime @ '',p='' @ dec argonThreads @ ''$''
          @ b64_encode b64_std salt @ ''$'' @ b64_encode b64_std key))"

text \<open>\<open>strconv.ParseUint(s, 10, bits)\<close>: digits only, at least one, in range.\<close>

fun digits_value :: "int \<Rightarrow> string \<Rightarrow> int" where
  "digits_value acc [] = acc"
| "digits_value acc (c # cs) = digits_value (acc * 10 + (byte_of c - 48)) cs"

definition ParseUint :: "string \<Rightarrow> nat \<Rightarrow> int option" where
  "ParseUint s bits =
     (if s = [] \<or> \<not> list_all is_digit s then None
      else let v = digits_value 0 s in if 2 ^ bits \<le> v then None else Some v)"

definition param :: "string \<Rightarrow> string \<Rightarrow> nat \<Rightarrow> int option" where
  "param prefix s bits =
     (if take (length prefix) s = prefix then ParseUint (drop (length prefix) s) bits else None)"

definition VerifyPassword :: "id_key \<Rightarrow> string \<Rightarrow> string \<Rightarrow> bool" where
  "VerifyPassword IDKey encoded password =
     (case split_on (CHR ''$'') encoded of
        [e, algorithm, version, params, salt64, key64] \<Rightarrow>
          e = [] \<and> algorithm = ''argon2id'' \<and> version = ''v=19'' \<and>
          (case split_on (CHR '','') params of
             [m, t, p] \<Rightarrow>
               param ''m='' m 32 = Some argonMemory \<and> param ''t='' t 32 = Some argonTime
               \<and> param ''p='' p 8 = Some argonThreads
               \<and> (case (b64_decode b64_std salt64, b64_decode b64_std key64) of
                    (Some salt, Some want) \<Rightarrow> length salt = saltBytes \<and> length want = argonKeyBytes
                      \<and> IDKey password salt argonTime argonMemory argonThreads (length want) = want
                  | _ \<Rightarrow> False)
           | _ \<Rightarrow> False)
      | _ \<Rightarrow> False)"

section \<open>Round trips\<close>

definition is_byte :: "int \<Rightarrow> bool" where
  "is_byte b \<longleftrightarrow> 0 \<le> b \<and> b < 256"

text \<open>A number in base \<open>k\<close> gives back its digits.\<close>

lemma base_split:
  fixes x y k :: int
  assumes "0 \<le> y" "y < k"
  shows "(x * k + y) div k = x" "(x * k + y) mod k = y"
  using assms by simp_all

lemma byte_parts:
  assumes "is_byte b"
  shows "0 \<le> b div 4 \<and> b div 4 < 64 \<and> 0 \<le> b div 16 \<and> b div 16 < 16 \<and> 0 \<le> b div 64 \<and> b div 64 < 4"
    and "0 \<le> b mod 4 \<and> b mod 4 < 4 \<and> 0 \<le> b mod 16 \<and> b mod 16 < 16 \<and> 0 \<le> b mod 64 \<and> b mod 64 < 64"
proof -
  have "0 \<le> b" "b < 256" using assms by (simp_all add: is_byte_def)
  then show "0 \<le> b div 4 \<and> b div 4 < 64 \<and> 0 \<le> b div 16 \<and> b div 16 < 16 \<and> 0 \<le> b div 64 \<and> b div 64 < 4"
    by (intro conjI) linarith+
  show "0 \<le> b mod 4 \<and> b mod 4 < 4 \<and> 0 \<le> b mod 16 \<and> b mod 16 < 16 \<and> 0 \<le> b mod 64 \<and> b mod 64 < 64" by simp
qed

definition is_sextet :: "int \<Rightarrow> bool" where
  "is_sextet v \<longleftrightarrow> 0 \<le> v \<and> v < 64"

lemma sextet_join:
  "0 \<le> x \<Longrightarrow> x < 4 \<Longrightarrow> 0 \<le> y \<Longrightarrow> y < 16 \<Longrightarrow> is_sextet (x * 16 + y)"
  "0 \<le> x \<Longrightarrow> x < 16 \<Longrightarrow> 0 \<le> y \<Longrightarrow> y < 4 \<Longrightarrow> is_sextet (x * 4 + y)"
  by (simp_all add: is_sextet_def)

lemma sextets:
  assumes "is_byte a" "is_byte b" "is_byte c"
  shows "is_sextet (a div 4) \<and> is_sextet (a mod 4 * 16 + b div 16) \<and> is_sextet (b mod 16 * 4 + c div 64)
    \<and> is_sextet (c mod 64) \<and> is_sextet (a mod 4 * 16) \<and> is_sextet (b mod 16 * 4)"
proof -
  note a = byte_parts [OF assms(1)] and b = byte_parts [OF assms(2)] and c = byte_parts [OF assms(3)]
  have "is_sextet (a mod 4 * 16 + b div 16)" by (rule sextet_join(1)) (use a b in blast)+
  moreover have "is_sextet (b mod 16 * 4 + c div 64)" by (rule sextet_join(2)) (use b c in blast)+
  moreover have "is_sextet (a mod 4 * 16 + 0)" by (rule sextet_join(1)) (use a in simp_all)
  moreover have "is_sextet (b mod 16 * 4 + 0)" by (rule sextet_join(2)) (use b in simp_all)
  moreover have "is_sextet (a div 4)" "is_sextet (c mod 64)" unfolding is_sextet_def using a c by blast+
  ultimately show ?thesis by (simp only: add_0_right simp_thms)
qed

lemma b64_digits_range: "list_all is_byte bs \<Longrightarrow> list_all is_sextet (b64_digits bs)"
proof (induction bs rule: b64_digits.induct)
  case (1 a b c r)
  then show ?case using sextets [of a b c] by simp
next
  case (2 a b)
  then show ?case using sextets [of a b b] by simp
next
  case (3 a)
  then show ?case using sextets [of a a a] by simp
qed simp

lemma group_bytes:
  assumes "is_byte b" "is_byte c"
  shows "a div 4 * 4 + (a mod 4 * 16 + b div 16) div 16 = a
    \<and> (a mod 4 * 16 + b div 16) mod 16 * 16 + (b mod 16 * 4 + c div 64) div 4 = b
    \<and> (b mod 16 * 4 + c div 64) mod 4 * 64 + c mod 64 = c
    \<and> (a mod 4 * 16 + b div 16) mod 16 * 16 + (b mod 16 * 4) div 4 = b
    \<and> a div 4 * 4 + (a mod 4 * 16) div 16 = a"
proof -
  have ab: "(a mod 4 * 16 + b div 16) div 16 = a mod 4" "(a mod 4 * 16 + b div 16) mod 16 = b div 16"
    using byte_parts(1) [OF assms(1)] by (intro base_split; blast)+
  have bc: "(b mod 16 * 4 + c div 64) div 4 = b mod 16" "(b mod 16 * 4 + c div 64) mod 4 = c div 64"
    using byte_parts(1) [OF assms(2)] by (intro base_split; blast)+
  have z: "(b mod 16 * 4) div 4 = b mod 16" "(a mod 4 * 16) div 16 = a mod 4" by simp_all
  show ?thesis unfolding ab bc z by (simp only: div_mult_mod_eq simp_thms)
qed

lemma b64_bytes_digits: "list_all is_byte bs \<Longrightarrow> b64_bytes (b64_digits bs) = Some bs"
proof (induction bs rule: b64_digits.induct)
  case (1 a b c r)
  then show ?case using group_bytes [of b c a]
    by (simp only: b64_digits.simps b64_bytes.simps append.simps list.pred_inject option.map simp_thms list.inject)
next
  case (2 a b)
  then show ?case using group_bytes [of b b a]
    by (simp only: b64_digits.simps b64_bytes.simps list.pred_inject simp_thms)
next
  case (3 a)
  then show ?case using group_bytes [of a a a]
    by (simp only: b64_digits.simps b64_bytes.simps list.pred_inject simp_thms)
qed simp

lemma index_of_nth: "distinct xs \<Longrightarrow> i < length xs \<Longrightarrow> index_of (xs ! i) xs = Some (int i)"
proof (induction xs arbitrary: i)
  case (Cons x xs)
  then show ?case by (cases i) auto
qed simp

lemma b64_values_encode:
  assumes "distinct alphabet" "length alphabet = 64" "list_all is_sextet vs"
  shows "b64_values alphabet (map (\<lambda>v. alphabet ! nat v) vs) = Some vs"
  using assms(3)
proof (induction vs)
  case (Cons v vs)
  then have "index_of (alphabet ! nat v) alphabet = Some (int (nat v))"
    using assms(1,2) by (intro index_of_nth) (simp_all add: is_sextet_def nat_less_iff)
  with Cons show ?case by (simp add: is_sextet_def)
qed simp

lemma alphabets:
  "distinct b64_url" "length b64_url = 64" "CHR 0x0A \<notin> set b64_url" "CHR 0x0D \<notin> set b64_url"
  "distinct b64_std" "length b64_std = 64" "CHR 0x0A \<notin> set b64_std" "CHR 0x0D \<notin> set b64_std"
  "CHR ''$'' \<notin> set b64_std"
  by (simp_all add: b64_url_def b64_std_def b64_common_def)

lemma set_b64_encode:
  assumes "length alphabet = 64" "list_all is_byte bs"
  shows "set (b64_encode alphabet bs) \<subseteq> set alphabet"
  using b64_digits_range [OF assms(2)] assms(1)
  by (auto simp: b64_encode_def list_all_iff is_sextet_def nat_less_iff intro!: nth_mem)

lemma b64_decode_encode:
  assumes "distinct alphabet" "length alphabet = 64" "CHR 0x0A \<notin> set alphabet" "CHR 0x0D \<notin> set alphabet"
    and "list_all is_byte bs"
  shows "b64_decode alphabet (b64_encode alphabet bs) = Some bs"
proof -
  have "\<forall>c \<in> set (b64_encode alphabet bs). c \<noteq> CHR 0x0A \<and> c \<noteq> CHR 0x0D"
    using set_b64_encode [OF assms(2,5)] assms(3,4) by blast
  then have keep: "filter (\<lambda>c. c \<noteq> CHR 0x0A \<and> c \<noteq> CHR 0x0D) (b64_encode alphabet bs) = b64_encode alphabet bs"
    by (simp add: filter_id_conv)
  have "b64_values alphabet (b64_encode alphabet bs) = Some (b64_digits bs)"
    unfolding b64_encode_def by (rule b64_values_encode [OF assms(1,2) b64_digits_range [OF assms(5)]])
  then show ?thesis by (simp add: b64_decode_def keep b64_bytes_digits [OF assms(5)])
qed

end
