(* ===== verification/Party.thy ===== *)
theory Party
  imports Requests Auth
begin

text \<open>
  Parties, invites and membership (\<open>internal/platform/store/party.go\<close>).  A fresh identifier and the raw
  bytes of a fresh token are arguments; \<open>size\<close> of the deployment is a column of the settings row.
\<close>

section \<open>Reads\<close>

definition ConfigurePartySize :: "int \<Rightarrow> db \<Rightarrow> db res" where
  "ConfigurePartySize sz d =
     rejectE (sz \<le> 0) (Invalid ''PLATFORM_MAX_PARTY_SIZE must be a positive integer'') (
     rejectE (list_ex (\<lambda>m. sz < member_count d (mb_party m)) (members d))
       (Invalid ''max_party_size cannot be less than a current Party's membership'')
       (Inr (d\<lparr>settings := (settings d)\<lparr>st_max_party_size := Some sz\<rparr>\<rparr>)))"

definition partySize :: "db \<Rightarrow> int res" where
  "partySize d = (case st_max_party_size (settings d) of None \<Rightarrow> Inl ErrPartySizeUnset | Some n \<Rightarrow> Inr n)"

definition lockUser :: "uuid \<Rightarrow> db \<Rightarrow> unit res" where
  "lockUser userID d = bindE (fetch (\<lambda>u. u = userID) (users d)) (\<lambda>_. Inr ())"

definition blockingSolo :: "uuid \<Rightarrow> db \<Rightarrow> bool" where
  "blockingSolo userID d \<longleftrightarrow> exists_where (\<lambda>r. rq_user r = Some userID \<and> blocking (rq_state r)) (requests d)"

record PartyView =
  pv_ID :: uuid
  pv_Leader :: uuid
  pv_CurrentIsLeader :: bool
  pv_MaxSize :: int
  pv_Members :: "member_row list"
  pv_Created :: time

definition CurrentParty :: "uuid \<Rightarrow> db \<Rightarrow> PartyView option res" where
  "CurrentParty userID d =
     (case find (\<lambda>m. mb_user m = userID \<and> exists_where (live_party (mb_party m)) (parties d)) (members d) of
        None \<Rightarrow> Inr None
      | Some m \<Rightarrow> bindE (fetch (live_party (mb_party m)) (parties d)) (\<lambda>p.
          case (pa_leader p, st_max_party_size (settings d)) of
            (Some leader, Some sz) \<Rightarrow> Inr (Some \<lparr>pv_ID = pa_id p, pv_Leader = leader, pv_CurrentIsLeader = mb_leader m,
              pv_MaxSize = sz,
              pv_Members = order_by (\<lambda>m. (mb_joined m, mb_user m))
                (filter (\<lambda>k. mb_party k = pa_id p \<and> mb_user k \<in> set (users d)) (members d)),
              pv_Created = pa_created p\<rparr>)
          | _ \<Rightarrow> Inl (Invalid ''cannot scan NULL'')))"

text \<open>The live party that a user leads as a member of it.\<close>

definition led_party :: "uuid \<Rightarrow> db \<Rightarrow> party_row option" where
  "led_party userID d = find (\<lambda>p. pa_leader p = Some userID \<and> pa_dissolved p = None
     \<and> exists_where (\<lambda>m. mb_party m = pa_id p \<and> mb_user m = userID) (members d)) (parties d)"

definition CurrentInvite :: "uuid \<Rightarrow> db \<Rightarrow> (uuid \<times> string) res" where
  "CurrentInvite userID d = (case led_party userID d of
      None \<Rightarrow> Inl NoRows
    | Some p \<Rightarrow> bindE (fetch (\<lambda>i. current_invite i = Some (pa_id p)) (invites d)) (\<lambda>i. Inr (iv_party i, iv_token i)))"

section \<open>Invites\<close>

definition new_invite :: "uuid \<Rightarrow> uuid \<Rightarrow> int list \<Rightarrow> invite_row" where
  "new_invite inviteID partyID raw = (let (token, h) = NewToken raw in
     \<lparr>iv_id = inviteID, iv_party = partyID, iv_hash = h, iv_token = token, iv_revoked = None\<rparr>)"

definition revoke_invites :: "uuid \<Rightarrow> time \<Rightarrow> db \<Rightarrow> db res" where
  "revoke_invites partyID now d =
     put_invites (upd_where (\<lambda>i. iv_party i = partyID \<and> iv_revoked i = None)
       (iv_revoked_update (\<lambda>_. Some now)) (invites d)) d"

definition ResetInvite :: "uuid \<Rightarrow> uuid \<Rightarrow> int list \<Rightarrow> time \<Rightarrow> db \<Rightarrow> ((uuid \<times> string) \<times> db) res" where
  "ResetInvite userID inviteID raw now d = (case led_party userID d of
      None \<Rightarrow> Inl ErrPartyForbidden
    | Some p \<Rightarrow>
        bindE (revoke_invites (pa_id p) now d) (\<lambda>d.
        bindE (put_invites (invites d @ [new_invite inviteID (pa_id p) raw]) d) (\<lambda>d.
        Inr ((pa_id p, fst (NewToken raw)), d))))"

section \<open>Membership\<close>

definition CreateParty :: "uuid \<Rightarrow> uuid \<Rightarrow> uuid \<Rightarrow> int list \<Rightarrow> time \<Rightarrow> db \<Rightarrow> (uuid \<times> db) res" where
  "CreateParty userID partyID inviteID raw now d =
     bindE (lockUser userID d) (\<lambda>_.
     bindE (partySize d) (\<lambda>_.
     rejectE (member_party d userID \<noteq> None) ErrAlreadyInParty (
     rejectE (blockingSolo userID d) ErrUserBusy (
     bindE (put_parties (parties d @ [\<lparr>pa_id = partyID, pa_leader = Some userID, pa_created = now, pa_dissolved = None\<rparr>]) d) (\<lambda>d.
     bindE (put_members (members d @ [\<lparr>mb_party = partyID, mb_user = userID, mb_leader = True, mb_joined = now\<rparr>]) d) (\<lambda>d.
     bindE (put_invites (invites d @ [new_invite inviteID partyID raw]) d) (\<lambda>d.
     bindE (commit_parties d) (\<lambda>d.
     Inr (partyID, d)))))))))"

definition JoinParty :: "uuid \<Rightarrow> string \<Rightarrow> time \<Rightarrow> db \<Rightarrow> (uuid \<times> db) res" where
  "JoinParty userID token now d = (case TokenHash token of
      None \<Rightarrow> Inl ErrInvalidInvite
    | Some h \<Rightarrow>
        bindE (lockUser userID d) (\<lambda>_.
        rejectE (member_party d userID \<noteq> None) ErrAlreadyInParty (
        rejectE (blockingSolo userID d) ErrUserBusy (
        case find (\<lambda>i. iv_hash i = h) (invites d) of
          None \<Rightarrow> Inl ErrInvalidInvite
        | Some i \<Rightarrow>
            bindE (fetch (\<lambda>p. pa_id p = iv_party i) (parties d)) (\<lambda>p.
            rejectE (pa_dissolved p \<noteq> None) ErrInvalidInvite (
            rejectE (iv_revoked i \<noteq> None) ErrInvalidInvite (
            bindE (partySize d) (\<lambda>sz.
            rejectE (sz \<le> member_count d (pa_id p)) ErrPartyFull (
            bindE (put_members (members d @ [\<lparr>mb_party = pa_id p, mb_user = userID, mb_leader = False, mb_joined = now\<rparr>]) d) (\<lambda>d.
            bindE (commit_parties d) (\<lambda>d.
            Inr (pa_id p, d))))))))))))"

definition partyBusy :: "uuid \<Rightarrow> db \<Rightarrow> bool" where
  "partyBusy partyID d \<longleftrightarrow> exists_where (\<lambda>r. rq_party r = Some partyID \<and> (blocking (rq_state r)
     \<or> exists_where (\<lambda>a. al_request a = Some (rq_id r) \<and> \<not> terminal_alloc (al_state a)) (allocs d))) (requests d)"

definition remove_member :: "uuid \<Rightarrow> uuid \<Rightarrow> db \<Rightarrow> db res" where
  "remove_member partyID userID d =
     bindE (put_members (filter (\<lambda>m. \<not> (mb_party m = partyID \<and> mb_user m = userID)) (members d)) d) commit_parties"

definition LeaveParty :: "uuid \<Rightarrow> db \<Rightarrow> db res" where
  "LeaveParty userID d =
     bindE (lockUser userID d) (\<lambda>_.
     case member_party d userID of
       None \<Rightarrow> Inl ErrPartyForbidden
     | Some partyID \<Rightarrow>
         bindE (fetch (live_party partyID) (parties d)) (\<lambda>p.
         rejectE (pa_leader p = Some userID) ErrPartyForbidden (remove_member partyID userID d)))"

definition RemovePartyMember :: "uuid \<Rightarrow> uuid \<Rightarrow> db \<Rightarrow> db res" where
  "RemovePartyMember leaderID targetID d =
     rejectE (leaderID = targetID) ErrCannotRemoveLeader (
     bindE (lockUser targetID d) (\<lambda>_.
     case led_party leaderID d of
       None \<Rightarrow> Inl ErrPartyForbidden
     | Some p \<Rightarrow>
         rejectE (\<not> exists_where (\<lambda>m. mb_party m = pa_id p \<and> mb_user m = targetID) (members d)) ErrPartyForbidden
           (remove_member (pa_id p) targetID d)))"

definition DisbandParty :: "uuid \<Rightarrow> time \<Rightarrow> db \<Rightarrow> db res" where
  "DisbandParty userID now d =
     bindE (lockUser userID d) (\<lambda>_.
     case led_party userID d of
       None \<Rightarrow> Inl ErrPartyForbidden
     | Some p \<Rightarrow>
         rejectE (partyBusy (pa_id p) d) ErrPartyBusy (
         bindE (revoke_invites (pa_id p) now d) (\<lambda>d.
         bindE (put_parties (upd_where (\<lambda>q. pa_id q = pa_id p)
                  (\<lambda>q. q\<lparr>pa_leader := None, pa_dissolved := Some now\<rparr>) (parties d)) d) (\<lambda>d.
         bindE (put_members (filter (\<lambda>m. mb_party m \<noteq> pa_id p) (members d)) d) commit_parties))))"

end
