(* ===== verification/Operations.thy ===== *)
theory Operations
  imports Soundness Party
begin

text \<open>
  One lemma per operation of the store: it is a sound step, so it keeps the schema's constraints and
  no row of a business table changes against its row relation.
\<close>

section \<open>Jobs\<close>

lemma sound_apply_report:
  assumes "apply_report j r n newReq newJob now d = Inr d'"
    and j: "j \<in> set (jobs d)" and chk: "report_check j r d = Inr u"
    and live: "\<not> terminal_job (jb_state j)" and rep: "reportable (rp_State r)"
  shows "sound_step d d'"
proof -
  let ?i = "merge_id (coalesce (jb_instance j) []) (rp_InstanceID r)"
  let ?o = "merge_id (coalesce (jb_operation j) []) (rp_OperationID r)"
  from assms(1) obtain d1 d2 rs where
    s1: "put_jobs (upd_where (\<lambda>i. jb_id i = jb_id j \<and> jb_node i = n) (write_job r ?i ?o) (jobs d)) d = Inr d1"
    and s2: "(case jb_alloc j of None \<Rightarrow> Inr d1
            | Some a \<Rightarrow> applyAllocationJobReport a n (jb_kind j) (rp_State r) ?i (rp_ErrorCode r)
                (rp_JoinInfo r) (rp_JoinInfoErrorCode r) newReq newJob now d1) = Inr d2"
    and s3: "d' = d2\<lparr>job_reports := rs\<rparr>"
    by (auto simp: apply_report_def Let_def bindE_Inr)
  have "sound_step d d1"
  proof (rule sound_upd_jobs [OF s1])
    fix x assume "inv d" "x \<in> set (jobs d)" "jb_id x = jb_id j \<and> jb_node x = n"
    then have "x = j" using job_key j by blast
    then show "job_evolves x (write_job r ?i ?o x)" using report_check_evolves [OF chk live rep] by simp
  qed
  moreover have "sound_step d1 d2" using s2 sound_applyReport by (auto split: option.splits)
  moreover have "sound_step d2 d'" by (rule sound_business) (simp add: s3 business_def)
  ultimately show ?thesis using sound_trans by blast
qed

lemma validate_reportable: "ReportRequest_Validate r = Inr u \<Longrightarrow> reportable (rp_State r)"
  by (simp add: ReportRequest_Validate_def rejectE_Inr)

lemma sound_reportJob_commit:
  assumes "reportJob_commit n i r st newReq newJob now d = Inr d'"
  shows "sound_step d d'"
proof -
  from reportJob_commit_cases [OF assms] obtain j where j: "j \<in> set (jobs d)"
    and v: "ReportRequest_Validate r = Inr ()" and l: "report_locked j n r st newReq newJob now d = Inr d'" by blast
  from report_locked_cases [OF l] show ?thesis
    by (auto intro: sound_apply_report [OF _ j _ _ validate_reportable [OF v]])
qed

lemma sound_reportJob: "reportJob n i r st newReq newJob now d = Inr (job, d') \<Longrightarrow> sound_step d d'"
  using sound_reportJob_commit by (auto simp: reportJob_def bindE_Inr)

lemma sound_ReportJob: "ReportJob n i r newReq newJob now d = Inr (job, d') \<Longrightarrow> sound_step d d'"
  using sound_reportJob by (simp add: ReportJob_def)

lemma sound_BeginOperation: "BeginOperation n i input newReq newJob now d = Inr (job, d') \<Longrightarrow> sound_step d d'"
  using sound_reportJob by (auto simp: BeginOperation_def bindE_Inr)

lemma sound_prepare_writes:
  assumes "prepare_writes a now d = Inr d'"
  shows "sound_step d d'"
proof -
  from assms obtain d1 d2 where
    s1: "put_allocs (upd_where (\<lambda>x. al_id x = a \<and> preparing_alloc x)
        (\<lambda>x. x\<lparr>al_state := ACreating, al_create_started := Some (coalesce (al_create_started x) now)\<rparr>) (allocs d)) d = Inr d1"
    and s2: "put_requests (upd_where (\<lambda>r. rq_state r = RAllocating
              \<and> exists_where (\<lambda>x. al_id x = a \<and> al_request x = Some (rq_id r)) (allocs d1))
        (\<lambda>r. r\<lparr>rq_state := RCreating, rq_updated := now\<rparr>) (requests d1)) d1 = Inr d2"
    and s3: "put_runs (upd_where (\<lambda>v. vr_state v = VCreatePending
              \<and> exists_where (\<lambda>x. al_id x = a \<and> al_run x = Some (vr_id v)) (allocs d2))
        (vr_state_update (\<lambda>_. VCreateObserving)) (runs d2)) d2 = Inr d'"
    unfolding prepare_writes_def bindE_Inr by blast
  have "sound_step d d1"
    by (rule sound_upd_allocs [OF s1], rule alloc_evolves_state)
      (auto simp: alloc_identity_def preparing_alloc_def terminal_alloc_def)
  moreover have "sound_step d1 d2"
    by (rule sound_upd_requests [OF s2]) (simp add: request_evolves_def request_identity_def)
  moreover have "sound_step d2 d'"
    by (rule sound_upd_runs [OF s3]) (simp_all add: run_evolves_def run_identity_def run_ended_def)
  ultimately show ?thesis using sound_trans by blast
qed

lemma sound_prepareCreate:
  assumes "prepareCreate n i t p alg sha now d = Inr (e, d')"
  shows "sound_step d d'"
proof -
  from prepareCreate_cases [OF assms] obtain j where "freeze_create j t p alg sha now d = Inr (e, d')" by blast
  from freeze_create_cases [OF this] obtain d1 where
    "execution_of d (jb_id j) \<noteq> None \<and> d1 = d
     \<or> execution_of d (jb_id j) = None \<and> put_executions (executions d @ [frozen_row j t p alg sha now]) d = Inr d1"
    and "jb_alloc j = None \<and> d' = d1 \<or> (\<exists>a. jb_alloc j = Some a \<and> prepare_writes a now d1 = Inr d')" by blast
  then have "sound_step d d1" "sound_step d1 d'"
    using sound_append_executions sound_prepare_writes by auto
  then show ?thesis by (rule sound_trans)
qed

lemma claim_cases:
  assumes "claimNextJob n ind cap now d = Inr (out, d')"
  shows "d' = d \<or> (\<exists>j. j \<in> set (jobs d) \<and> claimable n ind cap now d j
     \<and> (\<forall>k \<in> set (jobs d). claimable n ind cap now d k \<longrightarrow> (jb_created j, jb_id j) \<le> (jb_created k, jb_id k))
     \<and> put_jobs (upd_where (\<lambda>i. jb_id i = jb_id j) (\<lambda>i. i\<lparr>jb_state := JClaimed, jb_claimed := Some now\<rparr>) (jobs d)) d = Inr d')"
proof (cases "oldest (\<lambda>j. (jb_created j, jb_id j)) (claimable n ind cap now d) (jobs d)")
  case (Some j)
  with assms have "put_jobs (upd_where (\<lambda>i. jb_id i = jb_id j) (\<lambda>i. i\<lparr>jb_state := JClaimed, jb_claimed := Some now\<rparr>) (jobs d)) d = Inr d'"
    by (auto simp: claimNextJob_def bindE_Inr)
  with oldest_SomeD [OF Some] show ?thesis by blast
qed (use assms in \<open>auto simp: claimNextJob_def bindE_Inr\<close>)

lemma sound_claimNextJob:
  assumes "claimNextJob n ind cap now d = Inr (out, d')"
  shows "sound_step d d'"
  using claim_cases [OF assms]
proof (elim disjE exE conjE)
  fix j assume j: "j \<in> set (jobs d)" "claimable n ind cap now d j"
    and w: "put_jobs (upd_where (\<lambda>i. jb_id i = jb_id j) (\<lambda>i. i\<lparr>jb_state := JClaimed, jb_claimed := Some now\<rparr>) (jobs d)) d = Inr d'"
  show ?thesis
  proof (rule sound_upd_jobs [OF w])
    fix x assume "inv d" "x \<in> set (jobs d)" "jb_id x = jb_id j"
    then have "x = j" using job_key j(1) by blast
    then have "jb_state x = JPending" using j(2) by (simp add: claimable_def)
    then show "job_evolves x (x\<lparr>jb_state := JClaimed, jb_claimed := Some now\<rparr>)"
      by (simp add: job_evolves_def job_identity_def write_once_def job_state_evolves_def terminal_job_def)
  qed
qed simp

lemma sound_CreateIntegrationJob: "CreateIntegrationJob n k inst newID now d = Inr d' \<Longrightarrow> sound_step d d'"
  by (auto simp: CreateIntegrationJob_def rejectE_Inr intro: sound_append_jobs)

lemma sound_CreateIntegrationCreateJob: "CreateIntegrationCreateJob n key p newID now d = Inr d' \<Longrightarrow> sound_step d d'"
  by (auto simp: CreateIntegrationCreateJob_def rejectE_Inr intro: sound_append_jobs)

section \<open>Requests and scheduling\<close>

lemma sound_CreateUserRequestSelected:
  assumes "CreateUserRequestSelected u g p m mn newID now d = Inr (r, created, d')"
  shows "sound_step d d'"
proof -
  from assms have "d' = d \<or> (\<exists>rs. put_requests (requests d @ rs) d = Inr d')"
    by (auto simp: CreateUserRequestSelected_def Let_def bindE_Inr rejectE_Inr split: option.splits)
  then show ?thesis using sound_append_requests by auto
qed

lemma sound_CancelUserRequest:
  assumes "CancelUserRequest u i now d = Inr d'"
  shows "sound_step d d'"
proof -
  from assms obtain ow r where r: "find (\<lambda>r. rq_id r = i \<and> owned_by ow r) (requests d) = Some r"
    and s: "rq_state r = RWaiting" and w: "set_request_state i RCancelled now d = Inr d'"
    by (auto simp: CancelUserRequest_def result_simps)
  show ?thesis
    by (rule sound_set_request [OF w]) (use request_key find_SomeD [OF r] s in fastforce)
qed

lemma sound_TryAllocateOne:
  assumes "TryAllocateOne newAlloc newJob now d = Inr (b, d')"
  shows "sound_step d d'"
proof (cases b)
  case True
  then have "allocate_loop newAlloc newJob now d (waiting_requests d) = Inr (True, d')"
    using assms by (simp add: TryAllocateOne_def)
  from allocate_loop_True [OF this] obtain r where r: "r \<in> set (waiting_requests d)"
    and a: "allocate_request newAlloc newJob now d r = Inr (Some d')"
    by (metis in_set_conv_decomp)
  then have w: "r \<in> set (requests d)" "rq_state r = RWaiting" by (simp_all add: set_waiting_requests)
  have live: "rq_state x \<noteq> RAbandoned" if "inv d" "x \<in> set (requests d)" "rq_id x = rq_id r" for x
    using request_key [OF that(1) w(1) that(2,3)] w(2) by simp
  from allocate_request_Some [OF a] show ?thesis
  proof
    assume "set_request_state (rq_id r) RUnavailable now d = Inr d'"
    then show ?thesis by (rule sound_set_request) (rule live)
  next
    assume "reserves newAlloc newJob now d r d'"
    then obtain g p sha sel where "reserve r g p (coalesce (gm_content g) []) sha sel newAlloc newJob now d = Inr d'"
      unfolding reserves_def by blast
    then obtain al j d1 d2 where s1: "put_allocs (allocs d @ [al]) d = Inr d1" and al: "al_run al = None"
      and s2: "put_jobs (jobs d1 @ [j]) d1 = Inr d2" and s3: "set_request_state (rq_id r) RAllocating now d2 = Inr d'"
      unfolding reserve_def Let_def bindE_Inr by (metis new_row_simps(3))
    have same: "requests d2 = requests d" using s1 s2 by (simp add: put_Inr)
    show ?thesis
    proof (rule sound_then)
      show "sound_step d d2"
        by (rule sound_trans [OF sound_append_alloc [OF s1] sound_append_jobs [OF s2]]) (simp add: al)
      show "sound_step d2 d'" if "inv d"
        by (rule sound_set_request [OF s3]) (use live [OF that] same in simp)
    qed
  qed
next
  case False
  then have "d' = d" using assms allocate_loop_False by (auto simp: TryAllocateOne_def)
  then show ?thesis by simp
qed

section \<open>Stops, quarantine and observed facts\<close>

lemma latest_attempt_SomeD:
  assumes "latest_attempt P r d = Some a"
  shows "a \<in> set (allocs d) \<and> al_request a = Some r \<and> P a"
  using newest_SomeD [OF assms [unfolded latest_attempt_def]] by simp

lemma stop_running_cases:
  assumes "stop_running r ng newJob now d = Inr (r', d')"
  shows "\<exists>a c d1 d2 d3. a \<in> set (allocs d) \<and> al_request a = Some (rq_id r) \<and> al_state a = ARunning
     \<and> running_create d (al_id a) = Some c \<and> jb_instance c \<noteq> None \<and> jb_instance c \<noteq> Some []
     \<and> insert_owner_stop newJob (al_node a) (al_id a) (coalesce (jb_instance c) []) now d = Inr d1
     \<and> set_alloc (al_id a) (al_state_update (\<lambda>_. AStopping)) d1 = Inr d2
     \<and> set_request_state (rq_id r) RStopping now d2 = Inr d3
     \<and> (if ng then put_intents (intents d3 @ [\<lparr>ni_source = rq_id r, ni_alloc = al_id a, ni_state = IPending,
            ni_new = None, ni_consumed = None, ni_failure = None\<rparr>]) d3 else Inr d3) = Inr d'"
proof -
  from assms obtain a c where a: "latest_attempt (\<lambda>a. al_state a = ARunning \<and> running_create d (al_id a) \<noteq> None) (rq_id r) d = Some a"
    and c: "running_create d (al_id a) = Some c"
    by (auto simp: stop_running_def split: option.splits)
  with assms obtain d1 d2 d3 where "coalesce (jb_instance c) [] \<noteq> []"
    and "insert_owner_stop newJob (al_node a) (al_id a) (coalesce (jb_instance c) []) now d = Inr d1"
    and "set_alloc (al_id a) (al_state_update (\<lambda>_. AStopping)) d1 = Inr d2"
    and "set_request_state (rq_id r) RStopping now d2 = Inr d3"
    and "(if ng then put_intents (intents d3 @ [\<lparr>ni_source = rq_id r, ni_alloc = al_id a, ni_state = IPending,
            ni_new = None, ni_consumed = None, ni_failure = None\<rparr>]) d3 else Inr d3) = Inr d'"
    by (auto simp: stop_running_def bindE_Inr rejectE_Inr)
  with latest_attempt_SomeD [OF a] c show ?thesis
    by (intro exI [of _ a] exI [of _ c] exI [of _ d1] exI [of _ d2] exI [of _ d3]) auto
qed

lemma sound_alloc_to:
  assumes "set_alloc a (al_state_update (\<lambda>_. s)) d = Inr d'"
    and "\<And>x. inv d \<Longrightarrow> x \<in> set (allocs d) \<Longrightarrow> al_id x = a \<Longrightarrow> \<not> terminal_alloc (al_state x)
           \<and> (al_run x \<noteq> None \<or> al_state x \<noteq> AQuarantined)"
  shows "sound_step d d'"
proof (rule sound_set_alloc [OF assms(1)])
  fix x assume "inv d" "x \<in> set (allocs d)" "al_id x = a"
  from assms(2) [OF this] show "alloc_evolves x (x\<lparr>al_state := s\<rparr>)"
    by (auto simp: alloc_evolves_def leaves_quarantine_to_def alloc_identity_def)
qed

lemma stopUserRequest_cases:
  assumes "stopUserRequest u i ng newJob now d = Inr (r', d')"
  shows "d' = d \<or> (\<exists>r. r \<in> set (requests d) \<and> rq_id r = i \<and> rq_state r = RRunning
     \<and> stop_running r ng newJob now d = Inr (r', d'))"
proof -
  from assms obtain ow r where f: "fetch (\<lambda>r. rq_id r = i \<and> owned_by ow r) (requests d) = Inr r"
    and b: "(if rq_state r = RStopping \<or> rq_state r = REnded then
       rejectE (ng \<and> intent_of i d = None) (ErrJobConflict ''ordinary stop already in progress'') (Inr (r, d))
     else rejectE (rq_state r \<noteq> RRunning) (ErrJobConflict ''request is not running'')
         (stop_running r ng newJob now d)) = Inr (r', d')"
    by (auto simp: stopUserRequest_def bindE_Inr)
  have "r \<in> set (requests d) \<and> rq_id r = i" using fetch_InrD [OF f] by simp
  with b show ?thesis by (auto simp: rejectE_Inr split: if_splits)
qed

lemma owner_stop_frame:
  "insert_owner_stop newJob n a i now d = Inr d' \<Longrightarrow> sound_step d d' \<and> allocs d' = allocs d \<and> requests d' = requests d"
  by (auto simp: insert_owner_stop_def put_Inr intro: sound_append_jobs split: option.splits)

lemma sound_stopUserRequest:
  assumes "stopUserRequest u i ng newJob now d = Inr (r', d')"
  shows "sound_step d d'"
  using stopUserRequest_cases [OF assms]
proof (elim disjE exE conjE)
  fix r assume r: "r \<in> set (requests d)" "rq_id r = i" "rq_state r = RRunning" and s: "stop_running r ng newJob now d = Inr (r', d')"
  from stop_running_cases [OF s] show ?thesis
  proof (elim exE conjE)
    fix a c d1 d2 d3
    assume a: "a \<in> set (allocs d)" "al_state a = ARunning"
      and s1: "insert_owner_stop newJob (al_node a) (al_id a) (coalesce (jb_instance c) []) now d = Inr d1"
      and s2: "set_alloc (al_id a) (al_state_update (\<lambda>_. AStopping)) d1 = Inr d2"
      and s3: "set_request_state (rq_id r) RStopping now d2 = Inr d3"
      and s4: "(if ng then put_intents (intents d3 @ [\<lparr>ni_source = rq_id r, ni_alloc = al_id a, ni_state = IPending,
            ni_new = None, ni_consumed = None, ni_failure = None\<rparr>]) d3 else Inr d3) = Inr d'"
    show ?thesis
    proof (rule sound_then)
      show "sound_step d d1" using owner_stop_frame [OF s1] by simp
      assume i: "inv d"
      have run: "al_state x = ARunning" if "x \<in> set (allocs d1)" "al_id x = al_id a" for x
        using alloc_key [OF i a(1), of x] that a(2) owner_stop_frame [OF s1] by auto
      have "sound_step d1 d2"
        by (rule sound_alloc_to [OF s2]) (use run in \<open>simp add: terminal_alloc_def\<close>)
      moreover have "sound_step d2 d3"
      proof (rule sound_set_request [OF s3])
        fix x assume "x \<in> set (requests d2)" "rq_id x = rq_id r"
        moreover have "requests d2 = requests d" using s2 owner_stop_frame [OF s1] by (simp add: set_alloc_def put_Inr)
        ultimately have "x = r" using request_key [OF i r(1)] by simp
        then show "rq_state x \<noteq> RAbandoned" using r(3) by simp
      qed
      moreover have "sound_step d3 d'" using s4 sound_append_intents by (auto split: if_splits)
      ultimately show "sound_step d1 d'" using sound_trans by blast
    qed
  qed
qed simp

lemma sound_quarantine_owner:
  assumes "quarantine_owner a now d = Inr d'"
  shows "sound_step d d' \<and> allocs d' = allocs d"
proof (cases "al_request a")
  case (Some r)
  with assms obtain e where "set_live_request_state r RQuarantined now d = Inr e" "pauseNextGameIntent r e = Inr d'"
    by (auto simp: quarantine_owner_def bindE_Inr)
  then show ?thesis using sound_set_live_request sound_pause sound_trans keeps_allocs(1,3) by metis
next
  case None
  then show ?thesis using assms sound_advance_fact advance_keeps_allocs(2)
    by (auto simp: quarantine_owner_def split: option.splits)
qed

lemma sound_audit: "sound_step d (write_audit k ac t d)"
  by (rule sound_business) (simp add: write_audit_def business_def)

lemma sound_quarantine_write:
  assumes "set_alloc a f d = Inr d'" "\<And>x. alloc_identity (f x) = alloc_identity x" "\<And>x. al_state (f x) = AQuarantined"
    and "\<And>x. inv d \<Longrightarrow> x \<in> set (allocs d) \<Longrightarrow> al_id x = a \<Longrightarrow> \<not> terminal_alloc (al_state x)"
  shows "sound_step d d'"
  by (rule sound_set_alloc [OF assms(1)])
    (use assms(2-) in \<open>auto simp: alloc_evolves_def leaves_quarantine_to_def\<close>)

lemma unreachable_live: "unreachable now d a \<Longrightarrow> \<not> terminal_alloc (al_state a)"
  by (auto simp: unreachable_def possibly_effectful_def terminal_alloc_def)

lemma quarantine_one_cases:
  assumes "QuarantineOneUnreachable now d = Inr (b, d')"
  shows "d' = d \<or> (\<exists>a d1 d2. a \<in> set (allocs d) \<and> unreachable now d a
     \<and> set_alloc (al_id a) (\<lambda>a. a\<lparr>al_state := AQuarantined, al_error := Some ''NODE_UNREACHABLE'',
                   al_quarantined := Some now\<rparr>) d = Inr d1
     \<and> quarantine_owner a now d1 = Inr d2
     \<and> d' = write_audit ''system'' ''allocation.quarantine.unreachable'' (al_id a) d2)"
proof (cases "oldest (\<lambda>a. (heartbeat_at d (al_node a), al_assigned a, al_id a)) (unreachable now d) (allocs d)")
  case (Some a)
  then show ?thesis using assms oldest_SomeD [OF Some]
    by (auto simp: QuarantineOneUnreachable_def bindE_Inr rejectE_Inr)
qed (use assms in \<open>simp add: QuarantineOneUnreachable_def\<close>)

lemma sound_QuarantineOneUnreachable:
  assumes "QuarantineOneUnreachable now d = Inr (b, d')"
  shows "sound_step d d'"
  using quarantine_one_cases [OF assms]
proof (elim disjE exE conjE)
  fix a d1 d2 assume a: "a \<in> set (allocs d)" "unreachable now d a"
    and s1: "set_alloc (al_id a) (\<lambda>a. a\<lparr>al_state := AQuarantined, al_error := Some ''NODE_UNREACHABLE'',
                   al_quarantined := Some now\<rparr>) d = Inr d1"
    and s2: "quarantine_owner a now d1 = Inr d2"
    and d': "d' = write_audit ''system'' ''allocation.quarantine.unreachable'' (al_id a) d2"
  have live: "\<not> terminal_alloc (al_state x)" if "inv d" "x \<in> set (allocs d)" "al_id x = al_id a" for x
    using alloc_key [OF that(1) a(1) that(2,3)] unreachable_live [OF a(2)] by simp
  have "sound_step d d1"
    by (rule sound_quarantine_write [OF s1]) (use live in \<open>simp_all add: alloc_identity_def\<close>)
  then show ?thesis using sound_quarantine_owner [OF s2] sound_audit d' sound_trans by blast
qed simp

lemma mark_cases:
  assumes "MarkAllocationQuarantined i now d = Inr d'"
  shows "d' = d \<or> (\<exists>a d1 d2. a \<in> set (allocs d) \<and> al_id a = i \<and> \<not> terminal_alloc (al_state a)
     \<and> set_alloc i (\<lambda>a. a\<lparr>al_state := AQuarantined, al_error := Some ''MANUAL_QUARANTINE'',
              al_quarantined := Some (coalesce (al_quarantined a) now)\<rparr>) d = Inr d1
     \<and> quarantine_owner a now d1 = Inr d2 \<and> d' = write_audit ''operator_cli'' ''allocation.quarantine'' i d2)"
proof -
  from assms obtain a where f: "fetch (\<lambda>a. al_id a = i) (allocs d) = Inr a"
    by (auto simp: MarkAllocationQuarantined_def bindE_Inr)
  show ?thesis
  proof (cases "al_state a = AQuarantined")
    case True
    then show ?thesis using assms f by (auto simp: MarkAllocationQuarantined_def bindE_Inr)
  next
    case False
    then show ?thesis using assms f fetch_InrD [OF f]
      by (auto simp: MarkAllocationQuarantined_def bindE_Inr rejectE_Inr)
  qed
qed

lemma sound_MarkAllocationQuarantined:
  assumes "MarkAllocationQuarantined i now d = Inr d'"
  shows "sound_step d d'"
  using mark_cases [OF assms]
proof (elim disjE exE conjE)
  fix a d1 d2 assume a: "a \<in> set (allocs d)" "al_id a = i" "\<not> terminal_alloc (al_state a)"
    and s1: "set_alloc i (\<lambda>a. a\<lparr>al_state := AQuarantined, al_error := Some ''MANUAL_QUARANTINE'',
              al_quarantined := Some (coalesce (al_quarantined a) now)\<rparr>) d = Inr d1"
    and s2: "quarantine_owner a now d1 = Inr d2" and d': "d' = write_audit ''operator_cli'' ''allocation.quarantine'' i d2"
  have live: "\<not> terminal_alloc (al_state x)" if "inv d" "x \<in> set (allocs d)" "al_id x = i" for x
    using alloc_key [OF that(1) a(1) that(2)] that(3) a(2,3) by simp
  have "sound_step d d1"
    by (rule sound_quarantine_write [OF s1]) (use live in \<open>simp_all add: alloc_identity_def\<close>)
  then show ?thesis using sound_quarantine_owner [OF s2] sound_audit d' sound_trans by blast
qed simp

lemma abandon_cases:
  assumes "AbandonQuarantinedUserRequest u i newReq now d = Inr (r', d')"
  shows "d' = d \<and> (\<exists>r. r \<in> set (requests d) \<and> rq_id r = i \<and> rq_state r = RAbandoned)
     \<or> (\<exists>r a d1. r \<in> set (requests d) \<and> rq_id r = i \<and> rq_state r = RQuarantined
     \<and> a \<in> set (allocs d) \<and> al_request a = Some i \<and> (al_state a = AQuarantined \<or> al_state a = AReclaimed \<and> paused_intent i d)
     \<and> abandon_writes i now d = Inr d1 \<and> consumeNextGameIntent i True newReq now d1 = Inr d')"
proof -
  from assms obtain ow r where f: "fetch (\<lambda>r. rq_id r = i \<and> owned_by ow r) (requests d) = Inr r"
    and b: "(if rq_state r = RAbandoned then Inr (r, d)
     else rejectE (rq_state r \<noteq> RQuarantined) (ErrJobConflict ''request is not quarantined'')
            (abandon_quarantined r newReq now d)) = Inr (r', d')"
    by (auto simp: AbandonQuarantinedUserRequest_def bindE_Inr)
  have r: "r \<in> set (requests d)" "rq_id r = i" using fetch_InrD [OF f] by simp_all
  show ?thesis
  proof (cases "rq_state r = RAbandoned")
    case False
    then have q: "rq_state r = RQuarantined" and b: "abandon_quarantined r newReq now d = Inr (r', d')"
      using b by (simp_all add: rejectE_Inr)
    then obtain a where a: "latest_attempt (\<lambda>_. True) i d = Some a"
      using r(2) by (auto simp: abandon_quarantined_def split: option.splits)
    with b r(2) have "al_state a = AQuarantined \<or> al_state a = AReclaimed \<and> paused_intent i d"
      and "\<exists>d1. abandon_writes i now d = Inr d1 \<and> consumeNextGameIntent i True newReq now d1 = Inr d'"
      by (auto simp: abandon_quarantined_def bindE_Inr rejectE_Inr)
    with r q latest_attempt_SomeD [OF a] show ?thesis by blast
  qed (use b r in auto)
qed

lemma sound_abandon_writes:
  assumes "abandon_writes i now d = Inr d'" "r \<in> set (requests d)" "rq_id r = i" "rq_state r = RQuarantined"
  shows "sound_step d d'"
proof (rule sound_upd_requests [OF assms(1) [unfolded abandon_writes_def]])
  fix x assume "inv d" "x \<in> set (requests d)" "rq_id x = i"
  then have "x = r" using request_key assms(2,3) by blast
  then show "request_evolves x (x\<lparr>rq_state := RAbandoned, rq_abandoned := Some now, rq_updated := now\<rparr>)"
    using assms(4) by (simp add: request_evolves_def request_identity_def)
qed

lemma sound_Abandon:
  assumes "AbandonQuarantinedUserRequest u i newReq now d = Inr (r', d')"
  shows "sound_step d d'"
  using abandon_cases [OF assms]
proof
  assume "\<exists>r a d1. r \<in> set (requests d) \<and> rq_id r = i \<and> rq_state r = RQuarantined
     \<and> a \<in> set (allocs d) \<and> al_request a = Some i \<and> (al_state a = AQuarantined \<or> al_state a = AReclaimed \<and> paused_intent i d)
     \<and> abandon_writes i now d = Inr d1 \<and> consumeNextGameIntent i True newReq now d1 = Inr d'"
  then obtain r d1 where "r \<in> set (requests d)" "rq_id r = i" "rq_state r = RQuarantined"
    and s1: "abandon_writes i now d = Inr d1" and s2: "consumeNextGameIntent i True newReq now d1 = Inr d'" by blast
  then show ?thesis using sound_trans [OF sound_abandon_writes [OF s1] sound_consume [OF s2]] by blast
qed simp

section \<open>Observed facts\<close>

lemma fact_join_cases:
  assumes "fact_join a f er now d = Inr d'"
  shows "d' = d \<or> al_state a = ARunning \<and> (\<exists>j je. set_alloc (al_id a) (join_write j je now) d = Inr d')"
proof -
  have w1: "write_join j now = join_write (Some j) [] now" for j by (rule ext) (simp add: join_write_def)
  have w2: "al_join_error_update (\<lambda>_. Some e) = join_write None e now" for e by (rule ext) (simp add: join_write_def)
  show ?thesis using assms unfolding fact_join_def w1 w2
    by (auto simp: Let_def rejectE_Inr split: if_splits option.splits)
qed

lemma sound_fact_join:
  assumes "fact_join a f er now d = Inr d'" "a \<in> set (allocs d)"
  shows "sound_step d d'"
  using fact_join_cases [OF assms(1)]
proof (elim disjE exE conjE)
  fix j je assume run: "al_state a = ARunning" and w: "set_alloc (al_id a) (join_write j je now) d = Inr d'"
  show ?thesis
  proof (rule sound_set_alloc [OF w])
    fix x assume "inv d" "x \<in> set (allocs d)" "al_id x = al_id a"
    then have "x = a" using alloc_key assms(2) by blast
    then show "alloc_evolves x (join_write j je now x)"
      using run by (intro alloc_evolves_state) (simp_all add: terminal_alloc_def)
  qed
qed simp

lemma sound_fact_reclaimed:
  assumes "fact_reclaimed a f newReq now d = Inr d'" "alloc_is (al_id a) (al_state a) d" "\<not> terminal_alloc (al_state a)"
  shows "sound_step d d'"
proof -
  from assms(1) obtain d1 d2 where
    s1: "set_alloc (al_id a) (\<lambda>a. a\<lparr>al_state := AReclaimed, al_reclaimed := Some (coalesce (al_reclaimed a) now)\<rparr>) d = Inr d1"
    and s2: "(case al_request a of
              Some r \<Rightarrow> if paused_intent r d1 then Inr d1
                        else bindE (set_live_request_state r REnded now d1) (consumeNextGameIntent r False newReq now)
            | None \<Rightarrow> Inr d1) = Inr d2"
    and s3: "(case al_run a of None \<Rightarrow> Inr d2 | Some v \<Rightarrow> advanceValidationFromFact v FactReclaimed (if_JoinInfo f \<noteq> None) now d2) = Inr d'"
    by (auto simp: fact_reclaimed_def bindE_Inr)
  have "sound_step d d1"
  proof (rule sound_set_alloc [OF s1])
    fix x assume "x \<in> set (allocs d)" "al_id x = al_id a"
    then have "\<not> terminal_alloc (al_state x)" using assms(2,3) by (simp add: alloc_is_def)
    then show "alloc_evolves x (x\<lparr>al_state := AReclaimed, al_reclaimed := Some (coalesce (al_reclaimed x) now)\<rparr>)"
      by (intro alloc_evolves_state) (simp_all add: terminal_alloc_def alloc_identity_def)
  qed
  moreover have "sound_step d1 d2"
  proof (cases "al_request a")
    case (Some r)
    then show ?thesis using s2
      by (auto simp: bindE_Inr split: if_splits intro: sound_trans [OF sound_set_live_request sound_consume])
  qed (use s2 in simp)
  moreover have "sound_step d2 d'" using s3 sound_advance_fact by (auto split: option.splits)
  ultimately show ?thesis using sound_trans by blast
qed

lemma sound_fact_identity:
  assumes "fact_identity a f now d = Inr d'" "alloc_is (al_id a) (al_state a) d" "\<not> terminal_alloc (al_state a)"
  shows "sound_step d d'"
proof -
  from assms(1) obtain d1 d2 where
    s1: "set_alloc (al_id a) (\<lambda>a. a\<lparr>al_state := AQuarantined,
              al_error := Some (if if_Outcome f = OActive then ''PORT_IDENTITY_CHANGED'' else ''IDENTITY_UNVERIFIED''),
              al_quarantined := Some (coalesce (al_quarantined a) now)\<rparr>) d = Inr d1"
    and s2: "(case al_request a of
              Some r \<Rightarrow> bindE (set_live_request_state r RQuarantined now d1) (pauseNextGameIntent r)
            | None \<Rightarrow> Inr d1) = Inr d2"
    and s3: "(case al_run a of None \<Rightarrow> Inr d2 | Some v \<Rightarrow> advanceValidationFromFact v FactQuarantined False now d2) = Inr d'"
    by (auto simp: fact_identity_def bindE_Inr)
  have "sound_step d d1"
    by (rule sound_quarantine_write [OF s1]) (use assms(2,3) in \<open>simp_all add: alloc_identity_def alloc_is_def\<close>)
  moreover have "sound_step d1 d2"
  proof (cases "al_request a")
    case (Some r)
    then show ?thesis using s2 by (auto simp: bindE_Inr intro: sound_trans [OF sound_set_live_request sound_pause])
  qed (use s2 in simp)
  moreover have "sound_step d2 d'" using s3 sound_advance_fact by (auto split: option.splits)
  ultimately show ?thesis using sound_trans by blast
qed

lemma sound_fact_effect:
  assumes "fact_effect a f i newReq newJob now d = Inr d'" "alloc_is (al_id a) (al_state a) d" "\<not> terminal_alloc (al_state a)"
  shows "sound_step d d'"
  using assms sound_fact_reclaimed sound_fact_identity sound_applyReport
  by (auto simp: fact_effect_def Let_def split: if_splits)

lemma fact_join_alloc_is:
  assumes "fact_join a f er now d = Inr d'" "alloc_is i s d"
  shows "alloc_is i s d'"
  using fact_join_cases [OF assms(1)]
proof (elim disjE exE conjE)
  fix j je assume "set_alloc (al_id a) (join_write j je now) d = Inr d'"
  then have w: "allocs d' = upd_where (\<lambda>x. al_id x = al_id a) (join_write j je now) (allocs d)"
    by (simp add: set_alloc_def put_Inr)
  show ?thesis
    unfolding alloc_is_def w
  proof (intro ballI impI)
    fix x assume "x \<in> set (upd_where (\<lambda>x. al_id x = al_id a) (join_write j je now) (allocs d))" and "al_id x = i"
    then show "al_state x = s"
      by (cases rule: in_upd_whereE) (use assms(2) in \<open>simp_all add: alloc_is_def\<close>)
  qed
qed (use assms in simp)

lemma upsert_business: "business (upsert_fact i f d) = business d"
  by (simp add: upsert_fact_def business_def)

lemma sound_fact_apply:
  assumes "fact_apply a f er e newReq newJob now d = Inr d'" "a \<in> set (allocs d)"
  shows "sound_step d d'"
proof (cases "terminal_alloc (al_state a)")
  case False
  from fact_apply_cases [OF assms(1) False] obtain d1 d2 where
    s1: "fact_join a f er now d = Inr d1" and s2: "fact_effect a f e newReq newJob now d1 = Inr d2"
    and s3: "d' = d2 \<or> (\<exists>v h. al_run a = Some v \<and> advanceValidationFromFact v FactReady h now d2 = Inr d')"
    by blast
  have 3: "sound_step d2 d'" using s3 sound_advance_fact by (elim disjE exE conjE) auto
  show ?thesis
  proof (rule sound_then)
    show "sound_step d d" by simp
    assume i: "inv d"
    have "alloc_is (al_id a) (al_state a) d1" by (rule fact_join_alloc_is [OF s1 alloc_is_found [OF i assms(2)]])
    then have "sound_step d1 d2" using sound_fact_effect [OF s2] False by blast
    then show "sound_step d d'" using sound_fact_join [OF s1 assms(2)] 3 sound_trans by blast
  qed
qed (use assms in \<open>simp add: fact_apply_def\<close>)

lemma sound_ReportInstanceFact:
  assumes "ReportInstanceFact n i f newReq newJob now d = Inr d'"
  shows "sound_step d d'"
proof -
  from ReportInstanceFact_cases [OF assms] obtain a er where a: "a \<in> set (allocs d)"
    and s: "fact_apply a f er (if_InstanceID f) newReq newJob now (upsert_fact i f d) = Inr d'" by blast
  have "sound_step (upsert_fact i f d) d'"
    by (rule sound_fact_apply [OF s]) (use a in \<open>simp add: upsert_fact_def\<close>)
  with sound_business [OF upsert_business] show ?thesis by (rule sound_trans)
qed

section \<open>The validation ledger\<close>

lemma sound_auditAdmin: "auditAdmin ad ac t d = Inr d' \<Longrightarrow> sound_step d d'"
  by (rule sound_business) (auto simp: auditAdmin_def rejectE_Inr business_def)

lemma run_alloc_D: "run_alloc d v = Inr a \<Longrightarrow> a \<in> set (allocs d) \<and> al_run a = Some v"
  unfolding run_alloc_def by (rule fetch_InrD)

lemma ReserveValidation_cases:
  assumes "ReserveValidation c runID newAlloc newJob now d = Inr (i, d')"
  shows "d' = d \<or> (\<exists>sha g b tb tf. limit d (vc_NodeID c) > occupied d (vc_NodeID c)
     \<and> content_ready c sha d = Inr b \<and> template_ready c now d = Inr (tb, tf) \<and> inventory_ready (vc_NodeID c) now d = Inr ()
     \<and> node_ready (vc_NodeID c) now d = Inr () \<and> scoped_occupied d (vc_NodeID c) (vc_GameID c) = 0
     \<and> reserve_run c (new_run runID c sha b tb tf now) g newAlloc newJob now d = Inr d')"
  using assms unfolding ReserveValidation_def bindE_Inr rejectE_Inr
proof (elim exE conjE)
  fix prior
  assume b: "(case prior of Some i \<Rightarrow> Inr (i, d)
     | None \<Rightarrow>
         bindE (candidate_sha c d) (\<lambda>(sha, g).
         bindE (node_ready (vc_NodeID c) now d) (\<lambda>_.
         bindE (content_ready c sha d) (\<lambda>b.
         bindE (template_ready c now d) (\<lambda>(tb, tf).
         bindE (inventory_ready (vc_NodeID c) now d) (\<lambda>_.
         rejectE (scoped_occupied d (vc_NodeID c) (vc_GameID c) \<noteq> 0 \<or> scoped_jobs d (vc_NodeID c) (vc_GameID c) \<noteq> 0)
           ErrScopedResourcesActive (
         rejectE (limit d (vc_NodeID c) \<le> occupied d (vc_NodeID c)) ErrCapacityFull (
         rejectE (integration_jobs d (vc_NodeID c) \<noteq> 0) (ErrJobConflict ''integration job unresolved'') (
         bindE (reserve_run c (new_run runID c sha b tb tf now) g newAlloc newJob now d) (\<lambda>d.
         Inr (runID, d))))))))))) = Inr (i, d')"
  show ?thesis
  proof (cases prior)
    case (Some x)
    then show ?thesis using b by simp
  next
    case None
    from b None obtain sha g b' tb tf where r: "node_ready (vc_NodeID c) now d = Inr ()" "content_ready c sha d = Inr b'"
      "template_ready c now d = Inr (tb, tf)" "inventory_ready (vc_NodeID c) now d = Inr ()"
      "scoped_occupied d (vc_NodeID c) (vc_GameID c) = 0" "\<not> limit d (vc_NodeID c) \<le> occupied d (vc_NodeID c)"
      "reserve_run c (new_run runID c sha b' tb tf now) g newAlloc newJob now d = Inr d'"
      by (auto simp: bindE_Inr rejectE_Inr)
    show ?thesis
      by (rule disjI2, rule exI [of _ sha], rule exI [of _ g], rule exI [of _ b'], rule exI [of _ tb], rule exI [of _ tf])
        (use r in simp)
  qed
qed

lemma reserve_run_cases:
  assumes "reserve_run c v g newAlloc newJob now d = Inr d'"
  shows "\<exists>d1 d2 d3 a j. put_runs (runs d @ [v]) d = Inr d1 \<and> put_allocs (allocs d1 @ [a]) d1 = Inr d2
     \<and> put_jobs (jobs d2 @ [j]) d2 = Inr d3 \<and> business d' = business d3
     \<and> a = new_alloc newAlloc None (Some (vr_id v)) (vc_GameID c) 1 (vc_NodeID c) (vc_ContentVersionID c) (vc_TemplateRevisionID c) now
     \<and> jb_id j = newJob \<and> jb_alloc j = Some newAlloc \<and> jb_node j = vc_NodeID c \<and> jb_kind j = KCreate \<and> jb_state j = JPending"
proof -
  from assms obtain d1 d2 d3 where "put_runs (runs d @ [v]) d = Inr d1"
    "put_allocs (allocs d1 @ [new_alloc newAlloc None (Some (vr_id v)) (vc_GameID c) 1 (vc_NodeID c)
              (vc_ContentVersionID c) (vc_TemplateRevisionID c) now]) d1 = Inr d2"
    "put_jobs (jobs d2 @ [create_job newJob (vc_NodeID c) newAlloc (vr_key v) V102Contract (vr_fingerprint v)
              (vr_generation v) (gm_workshop g) (vc_ContentVersionID c) (vr_sha256 v) now]) d2 = Inr d3"
    "business d' = business d3"
    by (auto simp: reserve_run_def Let_def bindE_Inr auditAdmin_def rejectE_Inr business_def)
  then show ?thesis
    by (intro exI [of _ d1] exI [of _ d2] exI [of _ d3] exI conjI) (assumption | rule refl new_row_simps)+
qed

lemma sound_ReserveValidation:
  assumes "ReserveValidation c runID newAlloc newJob now d = Inr (i, d')"
  shows "sound_step d d'"
  using ReserveValidation_cases [OF assms]
proof
  assume "\<exists>sha g b tb tf. limit d (vc_NodeID c) > occupied d (vc_NodeID c)
     \<and> content_ready c sha d = Inr b \<and> template_ready c now d = Inr (tb, tf) \<and> inventory_ready (vc_NodeID c) now d = Inr ()
     \<and> node_ready (vc_NodeID c) now d = Inr () \<and> scoped_occupied d (vc_NodeID c) (vc_GameID c) = 0
     \<and> reserve_run c (new_run runID c sha b tb tf now) g newAlloc newJob now d = Inr d'"
  then obtain sha g b tb tf where r: "reserve_run c (new_run runID c sha b tb tf now) g newAlloc newJob now d = Inr d'"
    by blast
  let ?v = "new_run runID c sha b tb tf now"
  from reserve_run_cases [OF r] obtain d1 d2 d3 a j where s1: "put_runs (runs d @ [?v]) d = Inr d1"
    and s2: "put_allocs (allocs d1 @ [a]) d1 = Inr d2" and s3: "put_jobs (jobs d2 @ [j]) d2 = Inr d3"
    and s4: "business d' = business d3" and a: "al_run a = Some (vr_id ?v)"
    by auto
  have "sound_step d d1" by (rule sound_append_run [OF s1]) (simp add: new_run_def run_ended_def)
  moreover have "sound_step d1 d2"
  proof (rule sound_append_alloc [OF s2])
    fix v assume i: "inv d1" and v: "v \<in> set (runs d1)" "al_run a = Some (vr_id v)"
    have "?v \<in> set (runs d1)" using s1 by (simp add: put_Inr)
    then have "v = ?v" using run_key_unique [OF i _ v(1)] a v(2) by simp
    then show "\<not> run_ended v" by (simp add: new_run_def run_ended_def)
  qed
  ultimately show ?thesis using sound_append_jobs [OF s3] sound_business [OF s4] sound_trans by blast
qed simp

lemma create_of_D: "create_of d i = Inr c \<Longrightarrow> c \<in> set (jobs d) \<and> jb_alloc c = Some i \<and> jb_kind c = KCreate"
  unfolding create_of_def by (rule fetch_InrD)

lemma Confirm_cases:
  assumes "ConfirmValidationHuman i ad res ex stopID now d = Inr d'"
  shows "\<exists>a v c d1 d2 d3. a \<in> set (allocs d) \<and> al_run a = Some i \<and> al_state a = ARunning
     \<and> v \<in> set (runs d) \<and> vr_id v = i \<and> vr_human v = HPending \<and> (res = HPass \<or> res = HFail)
     \<and> (res = HPass \<longrightarrow> vr_state v = VAwaitingHuman \<and> join_shown d a)
     \<and> c \<in> set (jobs d) \<and> jb_alloc c = Some (al_id a) \<and> jb_kind c = KCreate \<and> jb_state c = JSucceeded
     \<and> set_run i (\<lambda>v. v\<lparr>vr_human := res, vr_human_by := Some ad, vr_human_at := Some now, vr_state := VStopPending\<rparr>) d = Inr d1
     \<and> insert_validation_stop stopID (al_node a) (al_id a) (coalesce (jb_instance c) []) now d1 = Inr d2
     \<and> set_alloc (al_id a) (al_state_update (\<lambda>_. AStopping)) d2 = Inr d3 \<and> auditAdmin ad ''validation.confirm'' [i] d3 = Inr d'"
  using assms unfolding ConfirmValidationHuman_def bindE_Inr rejectE_Inr
proof (elim exE conjE)
  fix a l v c d1 d2 d3
  assume a: "run_alloc d i = Inr a" and v: "fetch (\<lambda>v. vr_id v = i) (runs d) = Inr v" and c: "create_of d (al_id a) = Inr c"
    and g: "\<not> (res \<noteq> HPass \<and> res \<noteq> HFail)"
      "\<not> (vr_human v \<noteq> HPending \<or> coalesce (jb_instance c) [] = [] \<or> jb_state c \<noteq> JSucceeded \<or> al_state a \<noteq> ARunning
          \<or> res = HPass \<and> (vr_state v \<noteq> VAwaitingHuman \<or> vr_ready v = None \<or> vr_join_at v = None \<or> \<not> join_shown d a))"
    and s: "set_run i (\<lambda>v. v\<lparr>vr_human := res, vr_human_by := Some ad, vr_human_at := Some now, vr_state := VStopPending\<rparr>) d = Inr d1"
      "insert_validation_stop stopID (al_node a) (al_id a) (coalesce (jb_instance c) []) now d1 = Inr d2"
      "set_alloc (al_id a) (al_state_update (\<lambda>_. AStopping)) d2 = Inr d3" "auditAdmin ad ''validation.confirm'' [i] d3 = Inr d'"
  from run_alloc_D [OF a] fetch_InrD [OF v] create_of_D [OF c] g s show ?thesis by blast
qed

lemma insert_validation_stop_frame:
  "insert_validation_stop j n a i now d = Inr d' \<Longrightarrow> sound_step d d' \<and> allocs d' = allocs d \<and> runs d' = runs d"
  unfolding insert_validation_stop_def by (auto simp: put_Inr intro: sound_append_jobs [of d])

lemma set_run_keeps: "set_run i f d = Inr d' \<Longrightarrow> allocs d' = allocs d \<and> jobs d' = jobs d"
  by (auto simp: set_run_def put_Inr)

lemma sound_Confirm:
  assumes "ConfirmValidationHuman i ad res ex stopID now d = Inr d'"
  shows "sound_step d d'"
  using Confirm_cases [OF assms]
proof (elim exE conjE)
  fix a v c d1 d2 d3
  assume a: "a \<in> set (allocs d)" "al_run a = Some i" "al_state a = ARunning"
    and v: "v \<in> set (runs d)" "vr_id v = i" "vr_human v = HPending"
    and s1: "set_run i (\<lambda>v. v\<lparr>vr_human := res, vr_human_by := Some ad, vr_human_at := Some now, vr_state := VStopPending\<rparr>) d = Inr d1"
    and s2: "insert_validation_stop stopID (al_node a) (al_id a) (coalesce (jb_instance c) []) now d1 = Inr d2"
    and s3: "set_alloc (al_id a) (al_state_update (\<lambda>_. AStopping)) d2 = Inr d3" and s4: "auditAdmin ad ''validation.confirm'' [i] d3 = Inr d'"
  have "sound_step d d1"
  proof (rule sound_upd_runs [OF s1 [unfolded set_run_def]])
    fix x assume i: "inv d" "x \<in> set (runs d)" "vr_id x = i"
    then have "x = v" using run_key_unique v by blast
    moreover have "\<not> run_ended v"
      using i(1) v(1,2) a unfolding inv_def runs_settled_def terminal_alloc_def by fastforce
    ultimately show "run_evolves x (x\<lparr>vr_human := res, vr_human_by := Some ad, vr_human_at := Some now, vr_state := VStopPending\<rparr>)"
      using v(3) by (simp add: run_evolves_def run_identity_def)
  qed (simp add: run_ended_def)
  moreover have "sound_step d1 d2" using insert_validation_stop_frame [OF s2] by simp
  ultimately have 1: "sound_step d d2" by (rule sound_trans)
  show ?thesis
  proof (rule sound_then [OF 1])
    assume i: "inv d"
    have same: "allocs d2 = allocs d" using insert_validation_stop_frame [OF s2] set_run_keeps [OF s1] by simp
    have run: "al_state x = ARunning" if "x \<in> set (allocs d2)" "al_id x = al_id a" for x
      using alloc_key [OF i a(1), of x] that a(3) same by auto
    have "sound_step d2 d3" by (rule sound_alloc_to [OF s3]) (use run in \<open>simp add: terminal_alloc_def\<close>)
    then show "sound_step d2 d'" using sound_auditAdmin [OF s4] sound_trans by blast
  qed
qed

lemma StopValidation_cases:
  assumes "StopValidation i ad ex stopID now d = Inr d'"
  shows "\<exists>a v c d1 d2 d3. a \<in> set (allocs d) \<and> al_run a = Some i \<and> \<not> terminal_alloc (al_state a)
     \<and> v \<in> set (runs d) \<and> vr_id v = i \<and> \<not> run_ended v
     \<and> c \<in> set (jobs d) \<and> jb_alloc c = Some (al_id a) \<and> jb_kind c = KCreate
     \<and> insert_validation_stop stopID (al_node a) (al_id a) (coalesce (jb_instance c) []) now d = Inr d1
     \<and> set_alloc (al_id a) (al_state_update (\<lambda>_. AStopping)) d1 = Inr d2
     \<and> set_run i (vr_state_update (\<lambda>_. VStopPending)) d2 = Inr d3 \<and> auditAdmin ad ''validation.stop'' [i] d3 = Inr d'"
  using assms unfolding StopValidation_def bindE_Inr rejectE_Inr
proof (elim exE conjE)
  fix a l v c d1 d2 d3
  assume a: "run_alloc d i = Inr a" and v: "fetch (\<lambda>v. vr_id v = i) (runs d) = Inr v" and c: "create_of d (al_id a) = Inr c"
    and g: "\<not> (Some (vr_state v) \<noteq> ex \<or> vr_state v = VPassed \<or> vr_state v = VFailed
              \<or> coalesce (jb_instance c) [] = [] \<or> terminal_alloc (al_state a))"
    and s: "insert_validation_stop stopID (al_node a) (al_id a) (coalesce (jb_instance c) []) now d = Inr d1"
      "set_alloc (al_id a) (al_state_update (\<lambda>_. AStopping)) d1 = Inr d2"
      "set_run i (vr_state_update (\<lambda>_. VStopPending)) d2 = Inr d3" "auditAdmin ad ''validation.stop'' [i] d3 = Inr d'"
  from g have "\<not> run_ended v \<and> \<not> terminal_alloc (al_state a)" by (simp add: run_ended_def)
  with run_alloc_D [OF a] fetch_InrD [OF v] create_of_D [OF c] s show ?thesis by blast
qed

lemma sound_StopValidation:
  assumes "StopValidation i ad ex stopID now d = Inr d'"
  shows "sound_step d d'"
  using StopValidation_cases [OF assms]
proof (elim exE conjE)
  fix a v c d1 d2 d3
  assume a: "a \<in> set (allocs d)" "al_run a = Some i" "\<not> terminal_alloc (al_state a)"
    and v: "v \<in> set (runs d)" "vr_id v = i" "\<not> run_ended v"
    and s1: "insert_validation_stop stopID (al_node a) (al_id a) (coalesce (jb_instance c) []) now d = Inr d1"
    and s2: "set_alloc (al_id a) (al_state_update (\<lambda>_. AStopping)) d1 = Inr d2"
    and s3: "set_run i (vr_state_update (\<lambda>_. VStopPending)) d2 = Inr d3" and s4: "auditAdmin ad ''validation.stop'' [i] d3 = Inr d'"
  note f1 = insert_validation_stop_frame [OF s1]
  show ?thesis
  proof (rule sound_then)
    show "sound_step d d1" using f1 by simp
    assume i: "inv d"
    have live: "\<not> terminal_alloc (al_state x) \<and> al_run x = Some i" if "x \<in> set (allocs d1)" "al_id x = al_id a" for x
      using alloc_key [OF i a(1), of x] that a(2,3) f1 by auto
    have "sound_step d1 d2" by (rule sound_alloc_to [OF s2]) (use live in simp)
    moreover have "sound_step d2 d3"
    proof (rule sound_upd_runs [OF s3 [unfolded set_run_def]])
      fix x assume "x \<in> set (runs d2)" "vr_id x = i"
      moreover have "runs d2 = runs d" using s2 f1 by (simp add: set_alloc_def put_Inr)
      ultimately have "x = v" using run_key_unique [OF i v(1)] v(2) by simp
      then show "run_evolves x (x\<lparr>vr_state := VStopPending\<rparr>)" using v(3) by (simp add: run_evolves_def run_identity_def)
    qed (simp add: run_ended_def)
    ultimately show "sound_step d1 d'" using sound_auditAdmin [OF s4] sound_trans by blast
  qed
qed

text \<open>Both ends of a run are written only over a live run whose allocation is terminal.\<close>

lemma FinalizeFailure_cases:
  assumes "FinalizeValidationFailure i why d = Inr d'"
  shows "d' = d \<or> (\<exists>a v. a \<in> set (allocs d) \<and> al_run a = Some i \<and> terminal_alloc (al_state a)
     \<and> v \<in> set (runs d) \<and> vr_id v = i \<and> \<not> run_ended v \<and> alloc_open_jobs d (al_id a) = 0
     \<and> set_run i (\<lambda>v. v\<lparr>vr_state := VFailed, vr_result := Some ''FAIL'', vr_failure := Some why\<rparr>) d = Inr d')"
  using assms unfolding FinalizeValidationFailure_def bindE_Inr rejectE_Inr
proof (elim exE conjE)
  fix a l v
  assume a: "run_alloc d i = Inr a" and v: "fetch (\<lambda>v. vr_id v = i) (runs d) = Inr v" and p: "vr_state v \<noteq> VPassed"
    and b: "(if vr_state v = VFailed then Inr d
     else rejectE (\<not> terminal_alloc (al_state a)) (ErrJobConflict []) (
          rejectE (alloc_open_jobs d (al_id a) \<noteq> 0) (ErrJobConflict []) (
          set_run i (\<lambda>v. v\<lparr>vr_state := VFailed, vr_result := Some ''FAIL'', vr_failure := Some why\<rparr>) d))) = Inr d'"
  show ?thesis
  proof (cases "vr_state v = VFailed")
    case False
    with p b have "\<not> run_ended v" "terminal_alloc (al_state a)" "alloc_open_jobs d (al_id a) = 0"
      "set_run i (\<lambda>v. v\<lparr>vr_state := VFailed, vr_result := Some ''FAIL'', vr_failure := Some why\<rparr>) d = Inr d'"
      by (simp_all add: run_ended_def rejectE_Inr)
    with run_alloc_D [OF a] fetch_InrD [OF v] show ?thesis by blast
  qed (use b in simp)
qed

lemma sound_end_run:
  assumes "set_run i f d = Inr d'" "\<And>x. run_identity (f x) = run_identity x"
    and "\<And>x. vr_human (f x) = vr_human x \<and> vr_human_by (f x) = vr_human_by x \<and> vr_human_at (f x) = vr_human_at x"
    and a: "a \<in> set (allocs d)" "al_run a = Some i" "terminal_alloc (al_state a)"
    and v: "v \<in> set (runs d)" "vr_id v = i" "\<not> run_ended v"
  shows "sound_step d d'"
proof (rule sound_upd_runs [OF assms(1) [unfolded set_run_def]])
  fix x assume x: "inv d" "x \<in> set (runs d)" "vr_id x = i"
  then have "x = v" using run_key_unique v by blast
  then show "run_evolves x (f x)" using v(3) assms(2,3) by (simp add: run_evolves_def)
next
  fix x b assume x: "inv d" "vr_id x = i" and b: "b \<in> set (allocs d)" "al_run b = Some (vr_id x)"
  then have "b = a" using alloc_of_run [OF x(1) a(1) b(1)] a(2) by simp
  then show "terminal_alloc (al_state b)" using a(3) by simp
qed

lemma sound_FinalizeFailure:
  assumes "FinalizeValidationFailure i why d = Inr d'"
  shows "sound_step d d'"
  using FinalizeFailure_cases [OF assms]
proof (elim disjE exE conjE)
  fix a v
  assume a: "a \<in> set (allocs d)" "al_run a = Some i" "terminal_alloc (al_state a)"
    and v: "v \<in> set (runs d)" "vr_id v = i" "\<not> run_ended v"
    and s: "set_run i (\<lambda>v. v\<lparr>vr_state := VFailed, vr_result := Some ''FAIL'', vr_failure := Some why\<rparr>) d = Inr d'"
  show ?thesis by (rule sound_end_run [OF s _ _ a v]) (simp_all add: run_identity_def)
qed simp

lemma FinalizeRun_cases:
  assumes "FinalizeValidationRun i now d = Inr d'"
  shows "d' = d \<or> (\<exists>a v c b tb. a \<in> set (allocs d) \<and> al_run a = Some i
     \<and> v \<in> set (runs d) \<and> vr_id v = i \<and> \<not> vr_state v = VPassed
     \<and> run_evidence v a c (latest_stop d (al_id a)) \<and> binding_evidence v b tb (template_fact_of d (vr_node v) (vr_revision v))
     \<and> c \<in> set (jobs d) \<and> jb_alloc c = Some (al_id a) \<and> jb_kind c = KCreate
     \<and> content_binding_of d (vr_node v) (vr_game v) = Some b \<and> template_binding_of d (vr_node v) (vr_revision v) = Some tb
     \<and> facts_current (al_node a) (al_game a) v now d = Inr ()
     \<and> set_run i (\<lambda>v. v\<lparr>vr_state := VPassed, vr_result := Some ''PASS'', vr_passed := Some now\<rparr>) d = Inr d')"
  using assms unfolding FinalizeValidationRun_def bindE_Inr
proof (elim exE conjE)
  fix a n l v c b tb
  assume a: "run_alloc d i = Inr a" and v: "fetch (\<lambda>v. vr_id v = i) (runs d) = Inr v" and c: "create_of d (al_id a) = Inr c"
    and fb: "fetch (\<lambda>b. cb_node b = vr_node v \<and> cb_game b = vr_game v) (content_bindings d) = Inr b"
    and ft: "fetch (\<lambda>t. tb_node t = vr_node v \<and> tb_revision t = vr_revision v) (template_bindings d) = Inr tb"
    and s: "(if vr_state v = VPassed then Inr d
     else rejectE (\<not> run_evidence v a c (latest_stop d (al_id a))
                   \<or> \<not> binding_evidence v b tb (template_fact_of d (vr_node v) (vr_revision v))) (ErrJobConflict []) (
     rejectE (finalize_unresolved d (al_node a) (al_game a) \<noteq> 0 \<or> other_resources d a \<noteq> 0) (ErrJobConflict []) (
     bindE (facts_current (al_node a) (al_game a) v now d) (\<lambda>_.
     set_run i (\<lambda>v. v\<lparr>vr_state := VPassed, vr_result := Some ''PASS'', vr_passed := Some now\<rparr>) d)))) = Inr d'"
  show ?thesis
  proof (cases "vr_state v = VPassed")
    case False
    with s have "run_evidence v a c (latest_stop d (al_id a))" "binding_evidence v b tb (template_fact_of d (vr_node v) (vr_revision v))"
      "facts_current (al_node a) (al_game a) v now d = Inr ()"
      "set_run i (\<lambda>v. v\<lparr>vr_state := VPassed, vr_result := Some ''PASS'', vr_passed := Some now\<rparr>) d = Inr d'"
      by (simp_all add: rejectE_Inr bindE_Inr)
    moreover have "content_binding_of d (vr_node v) (vr_game v) = Some b" "template_binding_of d (vr_node v) (vr_revision v) = Some tb"
      using fb ft by (simp_all add: content_binding_of_def template_binding_of_def fetch_Inr)
    ultimately show ?thesis using False run_alloc_D [OF a] fetch_InrD [OF v] create_of_D [OF c] by blast
  qed (use s in simp)
qed

lemma sound_FinalizeRun:
  assumes "FinalizeValidationRun i now d = Inr d'"
  shows "sound_step d d'"
  using FinalizeRun_cases [OF assms]
proof (elim disjE exE conjE)
  fix a v c b tb
  assume a: "a \<in> set (allocs d)" "al_run a = Some i" and v: "v \<in> set (runs d)" "vr_id v = i"
    and e: "run_evidence v a c (latest_stop d (al_id a))"
    and s: "set_run i (\<lambda>v. v\<lparr>vr_state := VPassed, vr_result := Some ''PASS'', vr_passed := Some now\<rparr>) d = Inr d'"
  have "terminal_alloc (al_state a)" "\<not> run_ended v"
    using e by (simp_all add: run_evidence_def terminal_alloc_def run_ended_def)
  then show ?thesis by (intro sound_end_run [OF s _ _ a _ v]) (simp_all add: run_identity_def)
qed simp

end
