(* ===== verification/AdminRequests.thy ===== *)
theory AdminRequests
  imports Operations
begin

text \<open>
  The administrator actions that write requests, allocations and jobs (\<open>request.cancel\<close>,
  \<open>request.stop\<close>, \<open>allocation.terminate_pending\<close> and \<open>allocation.quarantine\<close> of \<open>ApplyAdminAction\<close>,
  \<open>internal/platform/store/admin_actions.go\<close>), without the audit record that \<open>ApplyAdminAction\<close> appends.
\<close>

section \<open>Requests\<close>

definition admin_cancel :: "uuid \<Rightarrow> time \<Rightarrow> db \<Rightarrow> db res" where
  "admin_cancel requestID now d =
     bindE (fetch (\<lambda>r. rq_id r = requestID) (requests d)) (\<lambda>r.
     rejectE (rq_state r \<noteq> RWaiting \<or> count_where (\<lambda>a. al_request a = Some requestID) (allocs d) \<noteq> 0)
       (ErrJobConflict ''request is not pure waiting'')
       (set_request_state requestID RCancelled now d))"

definition create_job_of :: "db \<Rightarrow> uuid \<Rightarrow> job_row res" where
  "create_job_of d allocationID = fetch (\<lambda>j. jb_alloc j = Some allocationID \<and> jb_kind j = KCreate) (jobs d)"

text \<open>An attempt whose create has an instance.\<close>

definition identified :: "db \<Rightarrow> uuid \<Rightarrow> bool" where
  "identified d allocationID \<longleftrightarrow>
     exists_where (\<lambda>j. jb_alloc j = Some allocationID \<and> jb_kind j = KCreate \<and> jb_instance j \<noteq> None) (jobs d)"

definition admin_stop_attempt :: "request_row \<Rightarrow> alloc_row \<Rightarrow> uuid \<Rightarrow> time \<Rightarrow> db \<Rightarrow> db res" where
  "admin_stop_attempt r a newJob now d =
     bindE (lockBusinessAllocation (al_id a) (al_node a) d) (\<lambda>_.
     bindE (create_job_of d (al_id a)) (\<lambda>c.
     rejectE (al_state a \<noteq> ARunning \<and> al_state a \<noteq> AQuarantined) (ErrJobConflict []) (
     rejectE (rq_state r = RAbandoned \<and> al_state a \<noteq> AQuarantined)
       (ErrJobConflict ''abandoned resource is not quarantined'') (
     rejectE (coalesce (jb_instance c) [] = [] \<or> coalesce (jb_error c) [] = ''IDENTITY_UNVERIFIED'')
       (ErrJobConflict ''untrusted instance identity'') (
     rejectE (exists_where (\<lambda>j. open_stop_slot j = Some (al_id a)) (jobs d))
       (ErrJobConflict ''stop already in progress'') (
     bindE (put_jobs (jobs d @ [new_job newJob (al_node a) KStop False (Some (al_id a))
              (Some (coalesce (jb_instance c) [])) (jb_capability c) now]) d) (\<lambda>d.
     if rq_state r = RRunning then
       bindE (set_alloc (al_id a) (al_state_update (\<lambda>_. AStopping)) d) (set_request_state (rq_id r) RStopping now)
     else Inr d)))))))"

definition admin_stop :: "uuid \<Rightarrow> uuid \<Rightarrow> time \<Rightarrow> db \<Rightarrow> db res" where
  "admin_stop requestID newJob now d =
     bindE (fetch (\<lambda>r. rq_id r = requestID) (requests d)) (\<lambda>r.
     rejectE (rq_state r \<notin> {RRunning, RQuarantined, RAbandoned}) (ErrJobConflict ''request cannot be stopped'') (
     case latest_attempt (\<lambda>a. al_state a \<in> {ARunning, AQuarantined} \<and> identified d (al_id a)) requestID d of
       None \<Rightarrow> Inl (if rq_state r = RAbandoned then ErrJobConflict ''abandoned resource is not quarantined'' else NoRows)
     | Some a \<Rightarrow> admin_stop_attempt r a newJob now d))"

section \<open>Allocations\<close>

text \<open>No trace of an effect: the job was never claimed and nothing is recorded for it.\<close>

definition untouched :: "db \<Rightarrow> job_row \<Rightarrow> bool" where
  "untouched d j \<longleftrightarrow> jb_claimed j = None \<and> jb_instance j = None \<and> jb_operation j = None
     \<and> \<not> exists_where (\<lambda>e. ex_job e = jb_id j) (executions d)
     \<and> \<not> exists_where (\<lambda>r. jr_job r = jb_id j) (job_reports d)"

definition pending_terminated :: string where
  "pending_terminated = ''PENDING_TERMINATED''"

definition terminate_writes :: "alloc_row \<Rightarrow> job_row \<Rightarrow> time \<Rightarrow> db \<Rightarrow> db res" where
  "terminate_writes a j now d =
     bindE (put_jobs (upd_where (\<lambda>i. jb_id i = jb_id j) (\<lambda>i. i\<lparr>jb_state := JRejectedNoEffect,
              jb_error := Some pending_terminated, jb_stage := Some ''dispatch''\<rparr>) (jobs d)) d) (\<lambda>d.
     let d = d\<lparr>job_reports := job_reports d @ [\<lparr>jr_job = jb_id j, jr_state = JRejectedNoEffect, jr_instance = None,
               jr_operation = None, jr_error = Some pending_terminated, jr_stage = Some ''dispatch''\<rparr>]\<rparr> in
     bindE (set_alloc (al_id a) (\<lambda>a. a\<lparr>al_state := AReleasedNoEffect, al_error := Some pending_terminated\<rparr>) d) (\<lambda>d.
     bindE (case al_request a of None \<Rightarrow> Inr d | Some r \<Rightarrow> set_request_state r RUnavailable now d) (\<lambda>d.
     case al_run a of
       None \<Rightarrow> Inr d
     | Some v \<Rightarrow> advanceValidationFromJob v KCreate JRejectedNoEffect AReleasedNoEffect pending_terminated False now d)))"

definition terminate_pending :: "uuid \<Rightarrow> time \<Rightarrow> db \<Rightarrow> db res" where
  "terminate_pending allocationID now d =
     bindE (fetch (\<lambda>a. al_id a = allocationID) (allocs d)) (\<lambda>a.
     bindE (lockBusinessAllocation allocationID (al_node a) d) (\<lambda>_.
     bindE (create_job_of d allocationID) (\<lambda>j.
     if jb_state j = JRejectedNoEffect \<and> al_state a = AReleasedNoEffect then
       rejectE (coalesce (jb_error j) [] \<noteq> pending_terminated) (ErrJobConflict []) (Inr d)
     else rejectE (jb_state j \<noteq> JPending \<or> al_state a \<noteq> AReserved \<or> \<not> untouched d j) (ErrJobConflict [])
       (terminate_writes a j now d))))"

definition admin_quarantine :: "uuid \<Rightarrow> time \<Rightarrow> db \<Rightarrow> db res" where
  "admin_quarantine allocationID now d =
     bindE (fetch (\<lambda>a. al_id a = allocationID) (allocs d)) (\<lambda>a.
     bindE (lockBusinessAllocation allocationID (al_node a) d) (\<lambda>_.
     rejectE (terminal_alloc (al_state a)) (ErrJobConflict ''resource already terminal'') (
     rejectE (al_state a = AReserved \<and> \<not> exists_where (\<lambda>j. jb_alloc j = Some allocationID \<and> jb_kind j = KCreate
                \<and> jb_state j \<noteq> JPending) (jobs d)) (ErrJobConflict ''pure reservation cannot be quarantined'') (
     if al_state a = AQuarantined then Inr d
     else bindE (set_alloc allocationID (\<lambda>a. a\<lparr>al_state := AQuarantined, al_error := Some ''MANUAL_QUARANTINE'',
                   al_quarantined := Some (coalesce (al_quarantined a) now)\<rparr>) d)
            (quarantine_owner a now)))))"

section \<open>What a committed action did\<close>

lemma admin_cancel_cases:
  assumes "admin_cancel i now d = Inr d'"
  shows "\<exists>r. r \<in> set (requests d) \<and> rq_id r = i \<and> rq_state r = RWaiting
     \<and> (\<forall>a \<in> set (allocs d). al_request a \<noteq> Some i) \<and> set_request_state i RCancelled now d = Inr d'"
proof -
  from assms obtain r where r: "fetch (\<lambda>r. rq_id r = i) (requests d) = Inr r"
    and g: "\<not> (rq_state r \<noteq> RWaiting \<or> count_where (\<lambda>a. al_request a = Some i) (allocs d) \<noteq> 0)"
    and w: "set_request_state i RCancelled now d = Inr d'"
    unfolding admin_cancel_def bindE_Inr rejectE_Inr by blast
  have "\<forall>a \<in> set (allocs d). al_request a \<noteq> Some i"
    using g count_where_zero [of "\<lambda>a. al_request a = Some i" "allocs d"] by blast
  with fetch_InrD [OF r] g w show ?thesis by blast
qed

lemma create_job_of_D: "create_job_of d i = Inr c \<Longrightarrow> c \<in> set (jobs d) \<and> jb_alloc c = Some i \<and> jb_kind c = KCreate"
  unfolding create_job_of_def by (rule fetch_InrD)

lemma admin_stop_cases:
  assumes "admin_stop i newJob now d = Inr d'"
  shows "\<exists>r a c d1. r \<in> set (requests d) \<and> rq_id r = i \<and> rq_state r \<in> {RRunning, RQuarantined, RAbandoned}
     \<and> a \<in> set (allocs d) \<and> al_request a = Some i \<and> al_state a \<in> {ARunning, AQuarantined}
     \<and> (rq_state r = RAbandoned \<longrightarrow> al_state a = AQuarantined)
     \<and> c \<in> set (jobs d) \<and> jb_alloc c = Some (al_id a) \<and> jb_kind c = KCreate \<and> coalesce (jb_instance c) [] \<noteq> []
     \<and> put_jobs (jobs d @ [new_job newJob (al_node a) KStop False (Some (al_id a))
              (Some (coalesce (jb_instance c) [])) (jb_capability c) now]) d = Inr d1
     \<and> (if rq_state r = RRunning
        then bindE (set_alloc (al_id a) (al_state_update (\<lambda>_. AStopping)) d1) (set_request_state i RStopping now)
        else Inr d1) = Inr d'"
proof -
  from assms obtain r where r: "fetch (\<lambda>r. rq_id r = i) (requests d) = Inr r"
    and s: "rq_state r \<in> {RRunning, RQuarantined, RAbandoned}"
    and c: "(case latest_attempt (\<lambda>a. al_state a \<in> {ARunning, AQuarantined} \<and> identified d (al_id a)) i d of
       None \<Rightarrow> Inl (if rq_state r = RAbandoned then ErrJobConflict ''abandoned resource is not quarantined'' else NoRows)
     | Some a \<Rightarrow> admin_stop_attempt r a newJob now d) = Inr d'"
    unfolding admin_stop_def bindE_Inr rejectE_Inr by blast
  obtain a where a: "latest_attempt (\<lambda>a. al_state a \<in> {ARunning, AQuarantined} \<and> identified d (al_id a)) i d = Some a"
    and w: "admin_stop_attempt r a newJob now d = Inr d'"
    using c by (auto split: option.splits)
  note rD = fetch_InrD [OF r] and aD = latest_attempt_SomeD [OF a]
  from w obtain cj d1 where cj: "create_job_of d (al_id a) = Inr cj"
    and g: "\<not> (rq_state r = RAbandoned \<and> al_state a \<noteq> AQuarantined)" "\<not> (coalesce (jb_instance cj) [] = []
        \<or> coalesce (jb_error cj) [] = ''IDENTITY_UNVERIFIED'')"
    and p: "put_jobs (jobs d @ [new_job newJob (al_node a) KStop False (Some (al_id a))
              (Some (coalesce (jb_instance cj) [])) (jb_capability cj) now]) d = Inr d1"
    and l: "(if rq_state r = RRunning
        then bindE (set_alloc (al_id a) (al_state_update (\<lambda>_. AStopping)) d1) (set_request_state (rq_id r) RStopping now)
        else Inr d1) = Inr d'"
    unfolding admin_stop_attempt_def bindE_Inr rejectE_Inr by blast
  have l': "(if rq_state r = RRunning
        then bindE (set_alloc (al_id a) (al_state_update (\<lambda>_. AStopping)) d1) (set_request_state i RStopping now)
        else Inr d1) = Inr d'" using l by (simp only: conjunct2 [OF rD])
  show ?thesis
    by (rule exI [of _ r], rule exI [of _ a], rule exI [of _ cj], rule exI [of _ d1])
      (use rD aD create_job_of_D [OF cj] s g p l' in blast)
qed

lemma find_and: "find P xs = Some x \<Longrightarrow> Q x \<Longrightarrow> find (\<lambda>y. P y \<and> Q y) xs = Some x"
  by (induction xs) (auto split: if_splits)

lemma terminate_cases:
  assumes "terminate_pending i now d = Inr d'"
  shows "d' = d \<or> (\<exists>a j. a \<in> set (allocs d) \<and> al_id a = i \<and> al_state a = AReserved
     \<and> j \<in> set (jobs d) \<and> jb_alloc j = Some i \<and> jb_kind j = KCreate \<and> jb_state j = JPending \<and> untouched d j
     \<and> (al_request a \<noteq> None \<longrightarrow> (\<exists>q \<in> set (requests d). Some (rq_id q) = al_request a))
     \<and> terminate_writes a j now d = Inr d')"
proof -
  from assms obtain a l j where a: "fetch (\<lambda>a. al_id a = i) (allocs d) = Inr a"
    and lk: "lockBusinessAllocation i (al_node a) d = Inr l" and j: "create_job_of d i = Inr j"
    and b: "(if jb_state j = JRejectedNoEffect \<and> al_state a = AReleasedNoEffect then
       rejectE (coalesce (jb_error j) [] \<noteq> pending_terminated) (ErrJobConflict []) (Inr d)
     else rejectE (jb_state j \<noteq> JPending \<or> al_state a \<noteq> AReserved \<or> \<not> untouched d j) (ErrJobConflict [])
       (terminate_writes a j now d)) = Inr d'"
    unfolding terminate_pending_def bindE_Inr by blast
  show ?thesis
  proof (cases "jb_state j = JRejectedNoEffect \<and> al_state a = AReleasedNoEffect")
    case False
    with b have s: "jb_state j = JPending" "al_state a = AReserved" "untouched d j" "terminate_writes a j now d = Inr d'"
      by (auto simp: rejectE_Inr split: if_splits)
    from lk obtain x where x: "fetch (\<lambda>x. al_id x = i \<and> al_node x = al_node a) (allocs d) = Inr x"
      and q: "(case al_request x of None \<Rightarrow> Inr () | Some r \<Rightarrow> bindE (fetch (\<lambda>q. rq_id q = r) (requests d)) (\<lambda>_. Inr ())) = Inr ()"
      unfolding lockBusinessAllocation_def bindE_Inr by auto
    have "find (\<lambda>x. al_id x = i \<and> al_node x = al_node a) (allocs d) = Some a"
      by (rule find_and) (use a in \<open>simp_all add: fetch_Inr\<close>)
    then have "x = a" using x by (simp add: fetch_Inr)
    then have "al_request a \<noteq> None \<longrightarrow> (\<exists>q \<in> set (requests d). Some (rq_id q) = al_request a)"
      using q by (auto simp: bindE_Inr split: option.splits dest!: fetch_InrD)
    with fetch_InrD [OF a] create_job_of_D [OF j] s show ?thesis by blast
  qed (use b in \<open>simp add: rejectE_Inr\<close>)
qed

lemma admin_quarantine_cases:
  assumes "admin_quarantine i now d = Inr d'"
  shows "d' = d \<or> (\<exists>a d1. a \<in> set (allocs d) \<and> al_id a = i \<and> \<not> terminal_alloc (al_state a)
     \<and> set_alloc i (\<lambda>a. a\<lparr>al_state := AQuarantined, al_error := Some ''MANUAL_QUARANTINE'',
              al_quarantined := Some (coalesce (al_quarantined a) now)\<rparr>) d = Inr d1
     \<and> quarantine_owner a now d1 = Inr d')"
proof -
  from assms obtain a where a: "fetch (\<lambda>a. al_id a = i) (allocs d) = Inr a" "\<not> terminal_alloc (al_state a)"
    and b: "(if al_state a = AQuarantined then Inr d
     else bindE (set_alloc i (\<lambda>a. a\<lparr>al_state := AQuarantined, al_error := Some ''MANUAL_QUARANTINE'',
                   al_quarantined := Some (coalesce (al_quarantined a) now)\<rparr>) d)
            (quarantine_owner a now)) = Inr d'"
    unfolding admin_quarantine_def bindE_Inr rejectE_Inr by blast
  show ?thesis
  proof (cases "al_state a = AQuarantined")
    case False
    with b obtain d1 where "set_alloc i (\<lambda>a. a\<lparr>al_state := AQuarantined, al_error := Some ''MANUAL_QUARANTINE'',
              al_quarantined := Some (coalesce (al_quarantined a) now)\<rparr>) d = Inr d1" "quarantine_owner a now d1 = Inr d'"
      by (auto simp: bindE_Inr)
    with fetch_InrD [OF a(1)] a(2) show ?thesis by blast
  qed (use b in simp)
qed

end
