(* ===== verification/Agreement.thy ===== *)
theory Agreement
  imports AdminRequests
begin

text \<open>
  The state of a request and the state of its live attempt agree, in every operation of the store.  A
  write of one of the two is repaired by a write of the other: \<open>linked (Some q)\<close> is the agreement of
  all requests but \<open>q\<close>.
\<close>

section \<open>Agreement\<close>

fun agree :: "req_state \<Rightarrow> alloc_state \<Rightarrow> bool" where
  "agree r AReserved = (r = RAllocating \<or> r = RCreating)"
| "agree r ACreateUnknown = (r = RCreating)"
| "agree r ACreating = (r = RCreating)"
| "agree r ARunning = (r = RRunning)"
| "agree r AStopping = (r = RStopping)"
| "agree r AFailedUnreclaimed = (r = RFailedUnreclaimed)"
| "agree r AQuarantined = (r = RQuarantined \<or> r = RAbandoned)"
| "agree r AReclaimed = True"
| "agree r AReleasedNoEffect = True"

definition linked :: "uuid option \<Rightarrow> db \<Rightarrow> bool" where
  "linked x d \<longleftrightarrow> (\<forall>a \<in> set (allocs d). \<forall>q. al_request a = Some q \<longrightarrow>
     (\<exists>r \<in> set (requests d). rq_id r = q \<and> (Some q = x \<or> agree (rq_state r) (al_state a))))"

text \<open>Every attempt of request \<open>q\<close> is terminal, except that \<open>i\<close> may be in state \<open>s\<close>.\<close>

definition settled :: "uuid \<Rightarrow> uuid \<Rightarrow> alloc_state \<Rightarrow> db \<Rightarrow> bool" where
  "settled q i s d \<longleftrightarrow> (\<forall>a \<in> set (allocs d). al_request a = Some q \<longrightarrow>
     terminal_alloc (al_state a) \<or> al_id a = i \<and> al_state a = s)"

lemma agree_terminal: "terminal_alloc s \<Longrightarrow> agree r s"
  by (cases s) (simp_all add: terminal_alloc_def)

lemma agree_settled_states:
  "r \<in> {RWaiting, REnded, RCancelled, RUnavailable} \<Longrightarrow> agree r s \<longleftrightarrow> terminal_alloc s"
  by (cases s) (auto simp: terminal_alloc_def)

lemma linkedD:
  assumes "linked x d" "a \<in> set (allocs d)" "al_request a = Some q"
  obtains r where "r \<in> set (requests d)" "rq_id r = q" "Some q = x \<or> agree (rq_state r) (al_state a)"
  using assms unfolding linked_def by blast

lemma linked_weaken: "linked None d \<Longrightarrow> linked x d"
  unfolding linked_def by blast

lemma linked_same: "allocs d' = allocs d \<Longrightarrow> requests d' = requests d \<Longrightarrow> linked x d' = linked x d"
  by (simp add: linked_def)

lemma linked_business: "business d' = business d \<Longrightarrow> linked x d' = linked x d"
  by (rule linked_same) (simp_all add: business_def)

text \<open>A request in agreement with a live attempt.\<close>

lemma linked_live:
  assumes "inv d" "linked None d" "a \<in> set (allocs d)" "al_request a = Some (rq_id r)" "r \<in> set (requests d)"
  shows "agree (rq_state r) (al_state a)"
proof -
  obtain r' where "r' \<in> set (requests d)" "rq_id r' = rq_id r" "agree (rq_state r') (al_state a)"
    using linkedD [OF assms(2-4)] by auto
  with request_key [OF assms(1,5)] show ?thesis by metis
qed

section \<open>Single writes\<close>

lemma linked_append_requests:
  assumes "linked x d" "put_requests (requests d @ rs) d = Inr d'"
  shows "linked x d'"
proof -
  have "allocs d' = allocs d" "requests d' = requests d @ rs" using assms(2) by (simp_all add: put_Inr)
  then show ?thesis using assms(1) unfolding linked_def by (metis UnCI set_append)
qed

lemma linked_upd_requests:
  assumes "linked x d" "allocs d' = allocs d" "requests d' = upd_where P f (requests d)"
    and id: "\<And>r. rq_id (f r) = rq_id r"
    and ok: "\<And>r a. r \<in> set (requests d) \<Longrightarrow> P r \<Longrightarrow> a \<in> set (allocs d) \<Longrightarrow> al_request a = Some (rq_id r)
        \<Longrightarrow> Some (rq_id r) = x \<or> agree (rq_state r) (al_state a) \<Longrightarrow> Some (rq_id r) = y \<or> agree (rq_state (f r)) (al_state a)"
    and keep: "\<And>r a. r \<in> set (requests d) \<Longrightarrow> \<not> P r \<Longrightarrow> a \<in> set (allocs d) \<Longrightarrow> al_request a = Some (rq_id r)
        \<Longrightarrow> Some (rq_id r) = x \<or> agree (rq_state r) (al_state a) \<Longrightarrow> Some (rq_id r) = y \<or> agree (rq_state r) (al_state a)"
  shows "linked y d'"
  unfolding linked_def
proof (intro ballI allI impI)
  fix a q assume a: "a \<in> set (allocs d')" "al_request a = Some q"
  then have m: "a \<in> set (allocs d)" using assms(2) by simp
  obtain r where r: "r \<in> set (requests d)" "rq_id r = q" "Some q = x \<or> agree (rq_state r) (al_state a)"
    by (rule linkedD [OF assms(1) m a(2)])
  let ?r = "if P r then f r else r"
  have "?r \<in> set (requests d')" unfolding assms(3) upd_where_def using r(1) by auto
  moreover have "rq_id ?r = q" using id r(2) by simp
  moreover have "Some q = y \<or> agree (rq_state ?r) (al_state a)" using ok [of r a] keep [of r a] r m a(2) by auto
  ultimately show "\<exists>r \<in> set (requests d'). rq_id r = q \<and> (Some q = y \<or> agree (rq_state r) (al_state a))" by blast
qed

lemma linked_upd_allocs:
  assumes "linked x d" "requests d' = requests d" "allocs d' = upd_where P f (allocs d)"
    and id: "\<And>a. al_request (f a) = al_request a"
    and ok: "\<And>a. a \<in> set (allocs d) \<Longrightarrow> P a \<Longrightarrow>
        al_request a = None \<or> al_request a = x \<or> (\<forall>s. agree s (al_state a) \<longrightarrow> agree s (al_state (f a)))"
  shows "linked x d'"
  unfolding linked_def
proof (intro ballI allI impI)
  fix a q assume "a \<in> set (allocs d')" and q: "al_request a = Some q"
  then have "a \<in> set (upd_where P f (allocs d))" using assms(3) by simp
  then show "\<exists>r \<in> set (requests d'). rq_id r = q \<and> (Some q = x \<or> agree (rq_state r) (al_state a))"
  proof (cases rule: in_upd_whereE)
    case (1 b)
    then have b: "al_request b = Some q" using q id by simp
    obtain r where "r \<in> set (requests d)" "rq_id r = q" "Some q = x \<or> agree (rq_state r) (al_state b)"
      by (rule linkedD [OF assms(1) 1(1) b])
    then show ?thesis using ok [OF 1(1,2)] b 1(3) assms(2) by auto
  next
    case 2
    then show ?thesis using assms(1,2) q unfolding linked_def by metis
  qed
qed

lemma linked_set_alloc:
  assumes "linked x d" "set_alloc i f d = Inr d'" "\<And>a. al_request (f a) = al_request a"
    and "\<And>a. a \<in> set (allocs d) \<Longrightarrow> al_id a = i \<Longrightarrow>
        al_request a = None \<or> al_request a = x \<or> (\<forall>s. agree s (al_state a) \<longrightarrow> agree s (al_state (f a)))"
  shows "linked x d'"
  by (rule linked_upd_allocs [OF assms(1) _ _ assms(3,4)]) (use assms(2) in \<open>simp_all add: set_alloc_def put_Inr\<close>)

lemma linked_append_alloc:
  assumes "linked x d" "put_allocs (allocs d @ [a]) d = Inr d'"
    and "\<And>q. al_request a = Some q \<Longrightarrow> \<exists>r \<in> set (requests d). rq_id r = q \<and> Some q = x"
  shows "linked x d'"
  using assms by (auto simp: linked_def put_Inr)

lemma settled_found:
  assumes "inv d" "a \<in> set (allocs d)" "\<not> terminal_alloc (al_state a)" "al_request a = Some q"
  shows "settled q (al_id a) (al_state a) d"
  unfolding settled_def
proof (intro ballI impI)
  fix b assume b: "b \<in> set (allocs d)" "al_request b = Some q"
  have "unique_on active_request (allocs d)" using assms(1) by (simp add: inv_def schema_ok_def allocs_ok_def)
  then have "b = a" if "\<not> terminal_alloc (al_state b)"
    using unique_onD [of active_request "allocs d" b a q] assms(2-4) b that by (simp add: active_request_def)
  then show "terminal_alloc (al_state b) \<or> al_id b = al_id a \<and> al_state b = al_state a" by blast
qed

lemma settled_same: "allocs d' = allocs d \<Longrightarrow> settled q i s d' = settled q i s d"
  by (simp add: settled_def)

lemma settled_set:
  assumes "settled q i s d" "set_alloc i f d = Inr d'" "\<And>a. al_request (f a) = al_request a" "\<And>a. al_id (f a) = al_id a"
    and "\<And>a. a \<in> set (allocs d) \<Longrightarrow> al_id a = i \<Longrightarrow> al_state (f a) = s'"
  shows "settled q i s' d'"
  unfolding settled_def
proof (intro ballI impI)
  fix a assume "a \<in> set (allocs d')" and q: "al_request a = Some q"
  then have "a \<in> set (upd_where (\<lambda>a. al_id a = i) f (allocs d))" using assms(2) by (simp add: set_alloc_def put_Inr)
  then show "terminal_alloc (al_state a) \<or> al_id a = i \<and> al_state a = s'"
  proof (cases rule: in_upd_whereE)
    case (1 b)
    then show ?thesis using assms(4,5) by simp
  next
    case 2
    then show ?thesis using assms(1) q unfolding settled_def by blast
  qed
qed

text \<open>The request of the attempt is written last and agreement holds again.\<close>

lemma repair:
  assumes "linked x d" "settled q i s d" "agree rs s" "set_request_state q rs now d = Inr d'" "x = None \<or> x = Some q"
  shows "linked None d'"
proof (rule linked_upd_requests [OF assms(1)])
  show "allocs d' = allocs d" "requests d' = upd_where (\<lambda>r. rq_id r = q) (\<lambda>r. r\<lparr>rq_state := rs, rq_updated := now\<rparr>) (requests d)"
    using assms(4) by (simp_all add: set_request_state_def put_Inr)
  show "Some (rq_id r) = None \<or> agree (rq_state (r\<lparr>rq_state := rs, rq_updated := now\<rparr>)) (al_state a)"
    if "rq_id r = q" "a \<in> set (allocs d)" "al_request a = Some (rq_id r)" for r a
    using assms(2,3) that agree_terminal unfolding settled_def by auto
qed (use assms(5) in auto)

lemma repair_live:
  assumes "linked x d" "settled q i s d" "agree rs s" "set_live_request_state q rs now d = Inr d'" "x = None \<or> x = Some q"
    and "\<And>r. r \<in> set (requests d) \<Longrightarrow> rq_id r = q \<Longrightarrow> rq_state r = RAbandoned \<Longrightarrow> agree RAbandoned s"
  shows "linked None d'"
proof (rule linked_upd_requests [OF assms(1)])
  show "allocs d' = allocs d" "requests d' = upd_where (\<lambda>r. rq_id r = q \<and> rq_state r \<noteq> RAbandoned)
      (\<lambda>r. r\<lparr>rq_state := rs, rq_updated := now\<rparr>) (requests d)"
    using assms(4) by (simp_all add: set_live_request_state_def put_Inr)
  show "Some (rq_id r) = None \<or> agree (rq_state (r\<lparr>rq_state := rs, rq_updated := now\<rparr>)) (al_state a)"
    if "rq_id r = q \<and> rq_state r \<noteq> RAbandoned" "a \<in> set (allocs d)" "al_request a = Some (rq_id r)" for r a
    using assms(2,3) that agree_terminal unfolding settled_def by auto
  show "Some (rq_id r) = None \<or> agree (rq_state r) (al_state a)"
    if "r \<in> set (requests d)" "\<not> (rq_id r = q \<and> rq_state r \<noteq> RAbandoned)" "a \<in> set (allocs d)" "al_request a = Some (rq_id r)"
      "Some (rq_id r) = x \<or> agree (rq_state r) (al_state a)" for r a
    using assms(2,5,6) that agree_terminal unfolding settled_def by (cases "rq_id r = q") auto
qed simp

lemma abandoned_at:
  assumes "inv d" "linked None d" "a \<in> set (allocs d)" "\<not> terminal_alloc (al_state a)" "al_request a = Some q"
    and "r \<in> set (requests d)" "rq_id r = q" "rq_state r = RAbandoned"
  shows "al_state a = AQuarantined"
proof -
  have "agree RAbandoned (al_state a)" using linked_live [OF assms(1-3), of r] assms(5-8) by simp
  then show ?thesis using assms(4) by (cases "al_state a") (simp_all add: terminal_alloc_def)
qed

section \<open>Statements that leave agreement alone\<close>

lemma linked_puts:
  "put_jobs js d = Inr d' \<Longrightarrow> linked x d' = linked x d"
  "put_executions es d = Inr d' \<Longrightarrow> linked x d' = linked x d"
  "put_intents ns d = Inr d' \<Longrightarrow> linked x d' = linked x d"
  "put_runs vs d = Inr d' \<Longrightarrow> linked x d' = linked x d"
  by (auto simp: put_Inr linked_def)

lemma linked_pause: "pauseNextGameIntent r d = Inr d' \<Longrightarrow> linked x d' = linked x d"
  unfolding pauseNextGameIntent_def by (rule linked_puts)

lemma linked_advance_job:
  assumes "advanceValidationFromJob v k js s e h now d = Inr d'"
  shows "linked x d' = linked x d \<and> requests d' = requests d \<and> allocs d' = allocs d"
proof -
  have "\<exists>vs. d' = d\<lparr>runs := vs\<rparr>" using advanceValidationFromJob_frame [OF assms] by blast
  then show ?thesis by (auto simp: linked_def)
qed

lemma linked_advance_fact:
  assumes "advanceValidationFromFact v f h now d = Inr d'"
  shows "linked x d' = linked x d \<and> requests d' = requests d \<and> allocs d' = allocs d"
proof -
  have "\<exists>vs. d' = d\<lparr>runs := vs\<rparr>" using advanceValidationFromFact_frame [OF assms] by blast
  then show ?thesis by (auto simp: linked_def)
qed

lemma linked_consume:
  assumes "consumeNextGameIntent r after newID now d = Inr d'" "linked x d"
  shows "linked x d'"
  using consume_cases [OF assms(1)]
proof (elim disjE exE conjE)
  fix i src assume c: "consume_pending r newID now src d = Inr d'"
  show ?thesis
  proof (cases "validateFreshRequest (rq_game src) (rq_preset src) (rq_party src) (rq_mode src) (rq_manual src) d")
    case (Inl e)
    then show ?thesis using c assms(2) linked_puts(3) by (auto simp: consume_pending_def split: if_splits)
  next
    case (Inr u)
    with c obtain e rs where "put_requests (requests d @ rs) d = Inr e" and "\<exists>ns. put_intents ns e = Inr d'"
      by (auto simp: consume_pending_def bindE_Inr)
    then show ?thesis using linked_append_requests [OF assms(2)] linked_puts(3) by blast
  qed
qed (use assms(2) in simp)

text \<open>The requests of a state keep their rows or get new waiting ones.\<close>

lemma consume_rows:
  assumes "consumeNextGameIntent q after newID now d = Inr d'"
  shows "\<exists>rs. requests d' = requests d @ rs \<and> (\<forall>r \<in> set rs. rq_state r = RWaiting)"
  using consume_cases [OF assms]
proof (elim disjE exE conjE)
  fix i src assume c: "consume_pending q newID now src d = Inr d'"
  then show ?thesis
    by (cases "validateFreshRequest (rq_game src) (rq_preset src) (rq_party src) (rq_mode src) (rq_manual src) d")
      (auto simp: consume_pending_def put_Inr bindE_Inr split: if_splits)
qed simp

lemma live_request_rows:
  assumes "set_live_request_state q s now d = Inr d'" "r \<in> set (requests d')" "rq_state r = RAbandoned" "s \<noteq> RAbandoned"
  shows "r \<in> set (requests d)"
  using assms by (auto simp: set_live_request_state_def put_Inr elim!: in_upd_whereE)

lemma insert_stop_requests:
  "insert_stop j n a i now d = Inr d' \<Longrightarrow> requests d' = requests d"
  "set_alloc a f d = Inr d' \<Longrightarrow> requests d' = requests d"
  "pauseNextGameIntent q d = Inr d' \<Longrightarrow> requests d' = requests d"
  by (auto simp: insert_stop_def set_alloc_def pauseNextGameIntent_def put_Inr split: option.splits if_splits)

section \<open>Job reports\<close>

lemma report_effect_agrees: "report_effect k js e au p = Some (s, rs) \<Longrightarrow> agree rs s"
  by (auto simp: report_effect_def split: job_kind.splits job_state.splits if_splits)

lemma report_effect_live: "report_effect k js e au p = Some (s, rs) \<Longrightarrow> rs \<noteq> RAbandoned"
  by (auto simp: report_effect_def split: job_kind.splits job_state.splits if_splits)

text \<open>Who requested attempt \<open>i\<close>.\<close>

definition requested :: "uuid \<Rightarrow> uuid option \<Rightarrow> db \<Rightarrow> bool" where
  "requested i q d \<longleftrightarrow> (\<forall>a \<in> set (allocs d). al_id a = i \<longrightarrow> al_request a = q)"

lemma requested_found: "inv d \<Longrightarrow> a \<in> set (allocs d) \<Longrightarrow> requested (al_id a) (al_request a) d"
  unfolding requested_def using alloc_key by blast

lemma requested_same: "allocs d' = allocs d \<Longrightarrow> requested i q d' = requested i q d"
  by (simp add: requested_def)

lemma requested_set:
  assumes "requested i q d" "set_alloc a f d = Inr d'" "\<And>x. al_request (f x) = al_request x" "\<And>x. al_id (f x) = al_id x"
  shows "requested i q d'"
  unfolding requested_def
proof (intro ballI impI)
  fix x assume "x \<in> set (allocs d')" and i: "al_id x = i"
  then have "x \<in> set (upd_where (\<lambda>y. al_id y = a) f (allocs d))" using assms(2) by (simp add: set_alloc_def put_Inr)
  then show "al_request x = q"
    by (cases rule: in_upd_whereE) (use assms(1,3,4) i in \<open>auto simp: requested_def\<close>)
qed

lemma join_write_request [simp]: "al_request (join_write j je now y) = al_request y"
  using join_write_keeps(3) [of j je now y] by (simp add: alloc_identity_def)

lemma join_keeps:
  assumes "record_join a n k js j je now d = Inr (b, d')"
  shows "(linked x d \<longrightarrow> linked x d') \<and> (requested i q d \<longrightarrow> requested i q d') \<and> requests d' = requests d"
  using record_join_cases [OF assms(1)]
proof (elim disjE conjE exE)
  fix j je assume w: "set_alloc a (join_write j je now) d = Inr d'"
  have "linked x d'" if "linked x d" by (rule linked_set_alloc [OF that w join_write_request]) simp
  moreover have "requested i q d'" if "requested i q d"
    by (rule requested_set [OF that w join_write_request join_write_keeps(1)])
  ultimately show ?thesis using insert_stop_requests(2) [OF w] by simp
qed simp

lemma linked_record_join:
  assumes "record_join a n k js j je now d = Inr (b, d')" "settled q a s d"
  shows "settled q a s d'"
  using record_join_cases [OF assms(1)]
proof (elim disjE conjE exE)
  fix j je assume w: "set_alloc a (join_write j je now) d = Inr d'"
  show ?thesis
    unfolding settled_def
  proof (intro ballI impI)
    fix y assume "y \<in> set (allocs d')" and q: "al_request y = Some q"
    then have "y \<in> set (upd_where (\<lambda>y. al_id y = a) (join_write j je now) (allocs d))"
      using w by (simp add: set_alloc_def put_Inr)
    then show "terminal_alloc (al_state y) \<or> al_id y = a \<and> al_state y = s"
      by (cases rule: in_upd_whereE) (use assms(2) q in \<open>auto simp: settled_def\<close>)
  qed
qed (use assms in simp)

text \<open>The writes of a report on the rows of its owner, for an attempt of a request.\<close>

lemma linked_report_owner:
  assumes "report_owner a k js e jd s rs newReq now d = Inr d'" "al_request a = Some q"
    and l: "linked (Some q) d" and st: "settled q (al_id a) s d" and ag: "agree rs s" "rs \<noteq> RAbandoned"
    and ab: "\<And>r. r \<in> set (requests d) \<Longrightarrow> rq_id r = q \<Longrightarrow> rq_state r = RAbandoned \<Longrightarrow> agree RAbandoned s"
  shows "linked None d' \<and> allocs d' = allocs d
    \<and> (\<forall>r \<in> set (requests d'). rq_state r = RAbandoned \<longrightarrow> r \<in> set (requests d))"
proof -
  from assms(1) obtain d1 d2 d3 where s1: "set_live_request_state q rs now d = Inr d1"
    and s2: "(case al_run a of None \<Rightarrow> Inr d1 | Some v \<Rightarrow> advanceValidationFromJob v k js s e jd now d1) = Inr d2"
    and s3: "(if s = AQuarantined then pauseNextGameIntent q d2 else Inr d2) = Inr d3"
    and s4: "(if k = KStop \<and> js = JSucceeded \<and> al_state a \<noteq> AQuarantined
         then consumeNextGameIntent q False newReq now d3 else Inr d3) = Inr d'"
    unfolding report_owner_def assms(2) option.case bindE_Inr by blast
  have 1: "linked None d1" "allocs d1 = allocs d"
    using repair_live [OF l st ag(1) s1 _ ab] keeps_allocs(1) [OF s1] by simp_all
  have 2: "linked None d2" "allocs d2 = allocs d1" "requests d2 = requests d1"
    using s2 1(1) linked_advance_job by (auto split: option.splits)
  have 3: "linked None d3" "allocs d3 = allocs d2" "requests d3 = requests d2"
    using s3 2(1) linked_pause keeps_allocs(3) insert_stop_requests(3) by (auto split: if_splits)
  have 4: "linked None d'" "allocs d' = allocs d3" "\<forall>r \<in> set (requests d'). rq_state r = RAbandoned \<longrightarrow> r \<in> set (requests d3)"
    using s4 3(1) linked_consume consume_keeps_allocs consume_rows by (fastforce split: if_splits)+
  show ?thesis using 1 2 3 4 live_request_rows [OF s1 _ _ ag(2)] by auto
qed

lemma linked_effectful_stop:
  assumes "effectful_create_stop i n (Some q) k js inst e newJob now d = Inr d'"
    and l: "linked None d" and st: "settled q i s d"
    and ab: "k = KCreate \<and> js = JFailedWithEffect \<and> e \<noteq> ''IDENTITY_UNVERIFIED'' \<Longrightarrow>
      \<forall>r \<in> set (requests d). rq_id r = q \<longrightarrow> rq_state r \<noteq> RAbandoned"
    and own: "requested i (Some q) d"
  shows "linked None d'"
proof (cases "k = KCreate \<and> js = JFailedWithEffect \<and> inst \<noteq> [] \<and> e \<noteq> ''IDENTITY_UNVERIFIED''")
  case True
  with assms(1) obtain d1 d2 where s1: "insert_stop newJob n i inst now d = Inr d1"
    and s2: "set_alloc i (al_state_update (\<lambda>_. AStopping)) d1 = Inr d2"
    and s3: "set_live_request_state q RStopping now d2 = Inr d'"
    by (auto simp: effectful_create_stop_def bindE_Inr)
  have same: "allocs d1 = allocs d" "requests d1 = requests d"
    using keeps_allocs(4) [OF s1] insert_stop_requests(1) [OF s1] by simp_all
  have "linked (Some q) d1" using linked_weaken [OF l] linked_same [OF same] by simp
  then have "linked (Some q) d2" by (rule linked_set_alloc [OF _ s2]) (use own same in \<open>simp_all add: requested_def\<close>)
  moreover have "settled q i AStopping d2"
    by (rule settled_set [OF _ s2]) (use st settled_same [OF same(1)] in simp_all)
  moreover have "requests d2 = requests d" using insert_stop_requests(2) [OF s2] same by simp
  ultimately show ?thesis using repair_live [OF _ _ _ s3, of "Some q" i AStopping] ab True by simp
next
  case False
  then have "d' = d" using assms(1) unfolding effectful_create_stop_def by (simp split: if_splits)
  with l show ?thesis by simp
qed

lemma linked_apply_effect:
  assumes "apply_effect a n k js inst e j je s rs newReq newJob now d = Inr d'"
    and eff: "report_effect k js e au p = Some (s, rs)"
    and a: "a \<in> set (allocs d)" "\<not> report_ignored a k js" and i: "inv d" and l: "linked None d"
  shows "linked None d'"
proof -
  from assms(1) obtain d1 jd d2 d3 where s1: "set_alloc (al_id a) (write_alloc_state s e now) d = Inr d1"
    and s2: "record_join (al_id a) n k js j je now d1 = Inr (jd, d2)"
    and s3: "report_owner a k js e jd s rs newReq now d2 = Inr d3"
    and s4: "effectful_create_stop (al_id a) n (al_request a) k js inst e newJob now d3 = Inr d'"
    by (auto simp: apply_effect_def bindE_Inr)
  have rq: "al_request (write_alloc_state s e now x) = al_request x" for x by (simp add: write_alloc_state_def)
  have own: "requested (al_id a) (al_request a) d" by (rule requested_found [OF i a(1)])
  have own2: "requested (al_id a) (al_request a) d2"
    using join_keeps [OF s2] requested_set [OF own s1 rq] by simp
  have l1: "linked (al_request a) d1"
    by (rule linked_set_alloc [OF linked_weaken [OF l] s1 rq]) (use own in \<open>auto simp: requested_def\<close>)
  then have l2: "linked (al_request a) d2" using join_keeps [OF s2] by blast
  show ?thesis
  proof (cases "al_request a")
    case None
    have l3: "linked None d3 \<and> allocs d3 = allocs d2"
      using s3 l2 None linked_advance_job by (auto simp: report_owner_def bindE_Inr split: option.splits)
    show ?thesis
    proof (cases "k = KCreate \<and> js = JFailedWithEffect \<and> inst \<noteq> [] \<and> e \<noteq> ''IDENTITY_UNVERIFIED''")
      case True
      with s4 None obtain d4 where s5: "insert_stop newJob n (al_id a) inst now d3 = Inr d4"
        and s6: "set_alloc (al_id a) (al_state_update (\<lambda>_. AStopping)) d4 = Inr d'"
        by (auto simp: effectful_create_stop_def bindE_Inr)
      have same: "allocs d4 = allocs d3" "requests d4 = requests d3"
        using keeps_allocs(4) [OF s5] insert_stop_requests(1) [OF s5] by simp_all
      have "linked None d4" using l3 linked_same [OF same, of None] by blast
      moreover have "requested (al_id a) None d4"
        using own2 requested_same [of d4 d3] requested_same [of d3 d2] same(1) l3 None by metis
      ultimately show ?thesis
        by (intro linked_set_alloc [OF _ s6]) (simp_all add: requested_def)
    next
      case False
      then have "d' = d3" using s4 unfolding effectful_create_stop_def by (simp split: if_splits)
      then show ?thesis using l3 by simp
    qed
  next
    case (Some q)
    have live: "\<not> terminal_alloc (al_state a)" using a(2) by (simp add: report_ignored_def)
    have rel: "terminal_alloc s \<longleftrightarrow> releasing k js" by (rule report_effect_releasing [OF eff])
    have r2: "requests d2 = requests d" using join_keeps [OF s2] insert_stop_requests(2) [OF s1] by simp
    have ab: "terminal_alloc s" if "r \<in> set (requests d2)" "rq_id r = q" "rq_state r = RAbandoned" for r
      using abandoned_at [OF i l a(1) live Some] that r2 a(2) rel by (simp add: report_ignored_def)
    have "settled q (al_id a) s d1"
      by (rule settled_set [OF settled_found [OF i a(1) live Some] s1 rq]) simp_all
    then have st: "settled q (al_id a) s d2" by (rule linked_record_join [OF s2])
    have o: "linked None d3 \<and> allocs d3 = allocs d2
        \<and> (\<forall>r \<in> set (requests d3). rq_state r = RAbandoned \<longrightarrow> r \<in> set (requests d2))"
      by (rule linked_report_owner [OF s3 Some l2 [unfolded Some] st report_effect_agrees [OF eff] report_effect_live [OF eff]])
        (use ab agree_terminal in blast)
    have "allocs d3 = allocs d2" using o by blast
    then have "settled q (al_id a) s d3" "requested (al_id a) (Some q) d3"
      using settled_same [of d3 d2 q "al_id a" s] requested_same [of d3 d2] st own2 Some by simp_all
    moreover have "\<forall>r \<in> set (requests d3). rq_id r = q \<longrightarrow> rq_state r \<noteq> RAbandoned"
      if "k = KCreate \<and> js = JFailedWithEffect \<and> e \<noteq> ''IDENTITY_UNVERIFIED''"
      using o ab rel that by (auto simp: releasing_def)
    ultimately show ?thesis using linked_effectful_stop [OF s4 [unfolded Some]] o by blast
  qed
qed

lemma linked_applyReport:
  assumes "applyAllocationJobReport i n k js inst e j je newReq newJob now d = Inr d'" "inv d" "linked None d"
  shows "linked None d'"
  using applyAllocationJobReport_cases [OF assms(1)]
proof (elim exE conjE disjE)
  fix a s rs assume "a \<in> set (allocs d)" "\<not> report_ignored a k js"
    and "report_effect k js e (auto_request a d) (owner_paused a d) = Some (s, rs)"
    and "apply_effect a n k js inst e j je s rs newReq newJob now d = Inr d'"
  then show ?thesis using linked_apply_effect assms(2,3) by blast
qed (use assms(3) in simp)

end
