(* ===== verification/AgreementOps.thy ===== *)
theory AgreementOps
  imports Agreement
begin

text \<open>One lemma per operation of the store: from a well-formed state it keeps the agreement of requests
  and attempts.\<close>

section \<open>Jobs\<close>

lemma linked_apply_report:
  assumes "apply_report j r n newReq newJob now d = Inr d'" "inv d" "linked None d"
    and j: "j \<in> set (jobs d)" and chk: "report_check j r d = Inr u"
    and live: "\<not> terminal_job (jb_state j)" and rep: "reportable (rp_State r)"
  shows "linked None d'"
proof -
  let ?i = "merge_id (coalesce (jb_instance j) []) (rp_InstanceID r)"
  let ?o = "merge_id (coalesce (jb_operation j) []) (rp_OperationID r)"
  from assms(1) obtain d1 d2 rs where
    s1: "put_jobs (upd_where (\<lambda>i. jb_id i = jb_id j \<and> jb_node i = n) (write_job r ?i ?o) (jobs d)) d = Inr d1"
    and s2: "(case jb_alloc j of None \<Rightarrow> Inr d1
            | Some a \<Rightarrow> applyAllocationJobReport a n (jb_kind j) (rp_State r) ?i (rp_ErrorCode r)
                (rp_JoinInfo r) (rp_JoinInfoErrorCode r) newReq newJob now d1) = Inr d2"
    and s3: "d' = d2\<lparr>job_reports := rs\<rparr>"
    by (auto simp: apply_report_def Let_def bindE_Inr)
  have "jobs_ok (upd_where (\<lambda>i. jb_id i = jb_id j \<and> jb_node i = n) (write_job r ?i ?o) (jobs d))"
    using s1 by (simp add: put_Inr)
  then have "inv d1" using s1 assms(2) by (simp add: put_Inr inv_def schema_ok_def runs_settled_def)
  moreover have "linked None d1" using linked_puts(1) [OF s1] assms(3) by simp
  ultimately have "linked None d2" using s2 linked_applyReport by (auto split: option.splits)
  then show ?thesis using s3 by (simp add: linked_def)
qed

lemma linked_commit:
  assumes "reportJob_commit n i r st newReq newJob now d = Inr d'" "inv d" "linked None d"
  shows "linked None d'"
proof -
  from reportJob_commit_cases [OF assms(1)] obtain j where j: "j \<in> set (jobs d)"
    and v: "ReportRequest_Validate r = Inr ()" and l: "report_locked j n r st newReq newJob now d = Inr d'" by blast
  from report_locked_cases [OF l] show ?thesis
  proof (elim disjE conjE)
    assume "report_check j r d = Inr ()" "\<not> terminal_job (jb_state j)" "apply_report j r n newReq newJob now d = Inr d'"
    then show ?thesis
      using linked_apply_report [OF _ assms(2,3) j _ _ validate_reportable [OF v]] by blast
  qed (use assms(3) in simp)
qed

lemma linked_ReportJob: "ReportJob n i r newReq newJob now d = Inr (job, d') \<Longrightarrow> inv d \<Longrightarrow> linked None d \<Longrightarrow> linked None d'"
  using linked_commit by (auto simp: ReportJob_def reportJob_def bindE_Inr)

lemma linked_BeginOperation:
  "BeginOperation n i input newReq newJob now d = Inr (job, d') \<Longrightarrow> inv d \<Longrightarrow> linked None d \<Longrightarrow> linked None d'"
  using linked_commit by (auto simp: BeginOperation_def reportJob_def bindE_Inr)

text \<open>Freezing moves the attempt and its request from reserved to creating.\<close>

lemma linked_prepare_writes:
  assumes "prepare_writes i now d = Inr d'" "linked None d"
  shows "linked None d'"
proof -
  let ?f = "\<lambda>x. x\<lparr>al_state := ACreating, al_create_started := Some (coalesce (al_create_started x) now)\<rparr>"
  from assms(1) obtain d1 d2 where
    s1: "put_allocs (upd_where (\<lambda>x. al_id x = i \<and> preparing_alloc x) ?f (allocs d)) d = Inr d1"
    and s2: "put_requests (upd_where (\<lambda>r. rq_state r = RAllocating
              \<and> exists_where (\<lambda>x. al_id x = i \<and> al_request x = Some (rq_id r)) (allocs d1))
        (\<lambda>r. r\<lparr>rq_state := RCreating, rq_updated := now\<rparr>) (requests d1)) d1 = Inr d2"
    and s3: "put_runs (upd_where (\<lambda>v. vr_state v = VCreatePending
              \<and> exists_where (\<lambda>x. al_id x = i \<and> al_run x = Some (vr_id v)) (allocs d2))
        (vr_state_update (\<lambda>_. VCreateObserving)) (runs d2)) d2 = Inr d'"
    unfolding prepare_writes_def bindE_Inr by blast
  have a1: "allocs d1 = upd_where (\<lambda>x. al_id x = i \<and> preparing_alloc x) ?f (allocs d)" "requests d1 = requests d"
    using s1 by (simp_all add: put_Inr)
  have a2: "allocs d2 = allocs d1" "requests d2 = upd_where (\<lambda>r. rq_state r = RAllocating
      \<and> exists_where (\<lambda>x. al_id x = i \<and> al_request x = Some (rq_id r)) (allocs d1))
      (\<lambda>r. r\<lparr>rq_state := RCreating, rq_updated := now\<rparr>) (requests d1)"
    using s2 by (simp_all add: put_Inr)
  have "linked None d2"
    unfolding linked_def
  proof (intro ballI allI impI)
    fix a q assume "a \<in> set (allocs d2)" and q: "al_request a = Some q"
    then have m: "a \<in> set (upd_where (\<lambda>x. al_id x = i \<and> preparing_alloc x) ?f (allocs d))" using a1 a2 by simp
    from m obtain b where b: "b \<in> set (allocs d)" "al_request b = Some q"
      and w: "a = b \<and> \<not> (al_id b = i \<and> preparing_alloc b) \<or> a = ?f b \<and> al_id b = i \<and> preparing_alloc b"
      by (cases rule: in_upd_whereE) (use q in auto)
    obtain r where r: "r \<in> set (requests d)" "rq_id r = q" "agree (rq_state r) (al_state b)"
      using linkedD [OF assms(2) b] by auto
    let ?P = "\<lambda>r. rq_state r = RAllocating \<and> exists_where (\<lambda>x. al_id x = i \<and> al_request x = Some (rq_id r)) (allocs d1)"
    let ?r = "if ?P r then r\<lparr>rq_state := RCreating, rq_updated := now\<rparr> else r"
    have in2: "?r \<in> set (requests d2)" unfolding a2 upd_where_def using r(1) a1 by auto
    have "agree (rq_state ?r) (al_state a)"
    proof (cases "a = ?f b \<and> al_id b = i \<and> preparing_alloc b")
      case True
      have "a \<in> set (allocs d1)" using m a1 by simp
      moreover have "al_id a = i \<and> al_request a = Some (rq_id r)" using True q r(2) by simp
      ultimately have "exists_where (\<lambda>x. al_id x = i \<and> al_request x = Some (rq_id r)) (allocs d1)"
        unfolding exists_where_iff by blast
      moreover have "rq_state r = RAllocating \<or> rq_state r = RCreating"
        using True r(3) by (cases "al_state b") (auto simp: preparing_alloc_def)
      ultimately show ?thesis using True by auto
    next
      case False
      then have "a = b" using w by blast
      then show ?thesis using r(3) by (cases "al_state b") auto
    qed
    moreover have "rq_id ?r = q" using r(2) by simp
    ultimately show "\<exists>r \<in> set (requests d2). rq_id r = q \<and> (Some q = None \<or> agree (rq_state r) (al_state a))"
      using in2 by blast
  qed
  then show ?thesis using linked_puts(4) [OF s3] by simp
qed

lemma linked_prepareCreate:
  assumes "prepareCreate n i t p alg sha now d = Inr (e, d')" "linked None d"
  shows "linked None d'"
proof -
  from prepareCreate_cases [OF assms(1)] obtain j where "freeze_create j t p alg sha now d = Inr (e, d')" by blast
  from freeze_create_cases [OF this] obtain d1 where
    "execution_of d (jb_id j) \<noteq> None \<and> d1 = d
     \<or> execution_of d (jb_id j) = None \<and> put_executions (executions d @ [frozen_row j t p alg sha now]) d = Inr d1"
    and "jb_alloc j = None \<and> d' = d1 \<or> (\<exists>a. jb_alloc j = Some a \<and> prepare_writes a now d1 = Inr d')" by blast
  then show ?thesis using assms(2) linked_puts(2) linked_prepare_writes by metis
qed

lemma linked_claimNextJob: "claimNextJob n ind cap now d = Inr (out, d') \<Longrightarrow> linked x d' = linked x d"
  using claim_cases linked_puts(1) by metis

lemma linked_integration:
  "CreateIntegrationJob n k inst newID now d = Inr d' \<Longrightarrow> linked x d' = linked x d"
  "CreateIntegrationCreateJob n key p newID now d = Inr d' \<Longrightarrow> linked x d' = linked x d"
  using linked_puts(1) by (auto simp: CreateIntegrationJob_def CreateIntegrationCreateJob_def rejectE_Inr)

section \<open>Requests and scheduling\<close>

text \<open>Attempts of a request in a state without a live attempt are all terminal.\<close>

lemma all_terminal:
  assumes "inv d" "linked None d" "r \<in> set (requests d)" "rq_state r \<in> {RWaiting, REnded, RCancelled, RUnavailable}"
  shows "settled (rq_id r) i s d"
  unfolding settled_def
proof (intro ballI impI)
  fix a assume "a \<in> set (allocs d)" "al_request a = Some (rq_id r)"
  then show "terminal_alloc (al_state a) \<or> al_id a = i \<and> al_state a = s"
    using linked_live [OF assms(1,2) _ _ assms(3)] agree_settled_states [OF assms(4)] by blast
qed

lemma linked_waiting_to:
  assumes "set_request_state (rq_id r) s now d = Inr d'" "inv d" "linked None d" "r \<in> set (requests d)" "rq_state r = RWaiting"
  shows "linked None d'"
  by (rule repair [OF assms(3) all_terminal [OF assms(2-4), of undefined AReclaimed] _ assms(1)]) (use assms(5) in simp_all)

lemma linked_CreateUserRequestSelected:
  assumes "CreateUserRequestSelected u g p m mn newID now d = Inr (r, created, d')" "linked x d"
  shows "linked x d'"
proof -
  from assms(1) have "d' = d \<or> (\<exists>rs. put_requests (requests d @ rs) d = Inr d')"
    by (auto simp: CreateUserRequestSelected_def Let_def bindE_Inr rejectE_Inr split: option.splits)
  then show ?thesis using linked_append_requests [OF assms(2)] assms(2) by blast
qed

lemma linked_CancelUserRequest:
  assumes "CancelUserRequest u i now d = Inr d'" "inv d" "linked None d"
  shows "linked None d'"
proof -
  from assms(1) obtain ow r where r: "find (\<lambda>r. rq_id r = i \<and> owned_by ow r) (requests d) = Some r"
    and s: "rq_state r = RWaiting" and w: "set_request_state i RCancelled now d = Inr d'"
    by (auto simp: CancelUserRequest_def result_simps)
  have "rq_id r = i" "r \<in> set (requests d)" using find_SomeD [OF r] by simp_all
  then show ?thesis using linked_waiting_to [OF _ assms(2,3)] w s by blast
qed

lemma linked_admin_cancel:
  assumes "admin_cancel i now d = Inr d'" "inv d" "linked None d"
  shows "linked None d'"
  using admin_cancel_cases [OF assms(1)] linked_waiting_to [OF _ assms(2,3)] by blast

lemma linked_TryAllocateOne:
  assumes "TryAllocateOne newAlloc newJob now d = Inr (b, d')" "inv d" "linked None d"
  shows "linked None d'"
proof (cases b)
  case True
  then have "allocate_loop newAlloc newJob now d (waiting_requests d) = Inr (True, d')"
    using assms by (simp add: TryAllocateOne_def)
  from allocate_loop_True [OF this] obtain r where r: "r \<in> set (waiting_requests d)"
    and a: "allocate_request newAlloc newJob now d r = Inr (Some d')"
    by (metis in_set_conv_decomp)
  then have w: "r \<in> set (requests d)" "rq_state r = RWaiting" by (simp_all add: set_waiting_requests)
  from allocate_request_Some [OF a] show ?thesis
  proof
    assume "set_request_state (rq_id r) RUnavailable now d = Inr d'"
    then show ?thesis by (rule linked_waiting_to [OF _ assms(2,3) w])
  next
    assume "reserves newAlloc newJob now d r d'"
    from reserves_frame [OF this] obtain a j where d': "d' = d\<lparr>allocs := allocs d @ [a], jobs := jobs d @ [j],
        requests := upd_where (\<lambda>q. rq_id q = rq_id r) (\<lambda>q. q\<lparr>rq_state := RAllocating, rq_updated := now\<rparr>) (requests d)\<rparr>"
      and a: "al_request a = Some (rq_id r)" "al_state a = AReserved" by blast
    let ?e = "d\<lparr>allocs := allocs d @ [a]\<rparr>"
    have "settled (rq_id r) (al_id a) AReserved d" by (rule all_terminal [OF assms(2,3) w(1)]) (simp add: w(2))
    then have st: "settled (rq_id r) (al_id a) AReserved ?e" using a by (auto simp: settled_def)
    have l: "linked (Some (rq_id r)) ?e" using linked_weaken [OF assms(3), of "Some (rq_id r)"] a w(1) by (auto simp: linked_def)
    show ?thesis
    proof (rule linked_upd_requests [OF l])
      show "Some (rq_id q) = None \<or> agree (rq_state (q\<lparr>rq_state := RAllocating, rq_updated := now\<rparr>)) (al_state x)"
        if "rq_id q = rq_id r" "x \<in> set (allocs ?e)" "al_request x = Some (rq_id q)" for q x
        using st that agree_terminal unfolding settled_def by auto
    qed (use d' in auto)
  qed
next
  case False
  then have "d' = d" using assms(1) allocate_loop_False by (auto simp: TryAllocateOne_def)
  then show ?thesis using assms(3) by simp
qed

section \<open>Stops\<close>

text \<open>The attempt and then its request are written to states that agree.\<close>

lemma linked_pair:
  assumes "set_alloc (al_id a) f d = Inr d1" "\<And>x. al_request (f x) = al_request x" "\<And>x. al_id (f x) = al_id x" "\<And>x. al_state (f x) = s"
    and "set_request_state q rs now d1 = Inr d'" "agree rs s"
    and "inv d" "linked None d" "a \<in> set (allocs d)" "\<not> terminal_alloc (al_state a)" "al_request a = Some q"
  shows "linked None d'"
proof -
  have "linked (Some q) d1"
    by (rule linked_set_alloc [OF linked_weaken [OF assms(8)] assms(1,2)])
      (use requested_found [OF assms(7,9)] assms(11) in \<open>auto simp: requested_def\<close>)
  moreover have "settled q (al_id a) s d1"
    by (rule settled_set [OF settled_found [OF assms(7,9,10,11)] assms(1-3)]) (rule assms(4))
  ultimately show ?thesis using repair [OF _ _ assms(6,5)] by blast
qed

lemma linked_live_pair:
  assumes "set_alloc (al_id a) f d = Inr d1" "\<And>x. al_request (f x) = al_request x" "\<And>x. al_id (f x) = al_id x" "\<And>x. al_state (f x) = s"
    and "set_live_request_state q rs now d1 = Inr d'" "agree rs s" "agree RAbandoned s"
    and "inv d" "linked None d" "a \<in> set (allocs d)" "\<not> terminal_alloc (al_state a)" "al_request a = Some q"
  shows "linked None d'"
proof -
  have "linked (Some q) d1"
    by (rule linked_set_alloc [OF linked_weaken [OF assms(9)] assms(1,2)])
      (use requested_found [OF assms(8,10)] assms(12) in \<open>auto simp: requested_def\<close>)
  moreover have "settled q (al_id a) s d1"
    by (rule settled_set [OF settled_found [OF assms(8,10,11,12)] assms(1-3)]) (rule assms(4))
  ultimately show ?thesis using repair_live [OF _ _ assms(6,5)] assms(7) by blast
qed

text \<open>An attempt of a validation run has no request, so its state is free.\<close>

lemma linked_run_alloc:
  assumes "set_alloc (al_id a) f d = Inr d'" "\<And>x. al_request (f x) = al_request x"
    and "inv d" "linked None d" "a \<in> set (allocs d)" "al_request a = None"
  shows "linked None d'"
  by (rule linked_set_alloc [OF assms(4,1,2)])
    (use requested_found [OF assms(3,5)] assms(6) in \<open>auto simp: requested_def\<close>)

lemma inv_same:
  assumes "requests d' = requests d" "allocs d' = allocs d" "executions d' = executions d" "intents d' = intents d"
    "runs d' = runs d" "jobs_ok (jobs d')" "inv d"
  shows "inv d'"
  using assms by (simp add: inv_def schema_ok_def runs_settled_def)

lemma inv_put_jobs: "put_jobs js d = Inr d' \<Longrightarrow> inv d \<Longrightarrow> inv d'"
  using inv_same [of d' d] by (simp add: put_Inr)

lemma linked_stopUserRequest:
  assumes "stopUserRequest u i ng newJob now d = Inr (r', d')" "inv d" "linked None d"
  shows "linked None d'"
  using stopUserRequest_cases [OF assms(1)]
proof (elim disjE exE conjE)
  fix r assume s: "stop_running r ng newJob now d = Inr (r', d')"
  from stop_running_cases [OF s] show ?thesis
  proof (elim exE conjE)
    fix a c d1 d2 d3
    assume a: "a \<in> set (allocs d)" "al_request a = Some (rq_id r)" "al_state a = ARunning"
      and s1: "insert_owner_stop newJob (al_node a) (al_id a) (coalesce (jb_instance c) []) now d = Inr d1"
      and s2: "set_alloc (al_id a) (al_state_update (\<lambda>_. AStopping)) d1 = Inr d2"
      and s3: "set_request_state (rq_id r) RStopping now d2 = Inr d3"
      and s4: "(if ng then put_intents (intents d3 @ [\<lparr>ni_source = rq_id r, ni_alloc = al_id a, ni_state = IPending,
            ni_new = None, ni_consumed = None, ni_failure = None\<rparr>]) d3 else Inr d3) = Inr d'"
    have p: "\<exists>js. put_jobs js d = Inr d1" using s1 by (auto simp: insert_owner_stop_def split: option.splits)
    have "inv d1" "linked None d1" using p inv_put_jobs assms(2,3) linked_puts(1) by blast+
    moreover have "a \<in> set (allocs d1)" using p a(1) by (auto simp: put_Inr)
    ultimately have "linked None d3" using linked_pair [OF s2 _ _ _ s3, of AStopping] a by (simp add: terminal_alloc_def)
    then show ?thesis using s4 linked_puts(3) by (auto split: if_splits)
  qed
qed (use assms(3) in simp)

lemma linked_admin_stop:
  assumes "admin_stop i newJob now d = Inr d'" "inv d" "linked None d"
  shows "linked None d'"
  using admin_stop_cases [OF assms(1)]
proof (elim exE conjE)
  fix r a c d1
  assume r: "r \<in> set (requests d)" "rq_id r = i" and a: "a \<in> set (allocs d)" "al_request a = Some i"
    "al_state a \<in> {ARunning, AQuarantined}"
    and p: "put_jobs (jobs d @ [new_job newJob (al_node a) KStop False (Some (al_id a))
              (Some (coalesce (jb_instance c) [])) (jb_capability c) now]) d = Inr d1"
    and w: "(if rq_state r = RRunning
        then bindE (set_alloc (al_id a) (al_state_update (\<lambda>_. AStopping)) d1) (set_request_state i RStopping now)
        else Inr d1) = Inr d'"
  have 1: "inv d1" "linked None d1" "a \<in> set (allocs d1)"
    using inv_put_jobs [OF p assms(2)] linked_puts(1) [OF p] assms(3) a(1) p by (simp_all add: put_Inr)
  show ?thesis
  proof (cases "rq_state r = RRunning")
    case True
    with w obtain d2 where "set_alloc (al_id a) (al_state_update (\<lambda>_. AStopping)) d1 = Inr d2"
      "set_request_state i RStopping now d2 = Inr d'" by (auto simp: bindE_Inr)
    from linked_pair [OF this(1) _ _ _ this(2), of AStopping] show ?thesis
      using 1 a(2,3) by (auto simp: terminal_alloc_def)
  qed (use w 1 in simp)
qed

section \<open>Quarantine and its ways out\<close>

lemma linked_quarantine:
  assumes "set_alloc (al_id a) f d = Inr d1" "\<And>x. al_request (f x) = al_request x" "\<And>x. al_id (f x) = al_id x"
    "\<And>x. al_state (f x) = AQuarantined" "quarantine_owner a now d1 = Inr d'"
    and i: "inv d" and l: "linked None d" and a: "a \<in> set (allocs d)" "\<not> terminal_alloc (al_state a)"
  shows "linked None d'"
proof (cases "al_request a")
  case (Some q)
  with assms(5) obtain d2 where s: "set_live_request_state q RQuarantined now d1 = Inr d2" "pauseNextGameIntent q d2 = Inr d'"
    by (auto simp: quarantine_owner_def bindE_Inr)
  have "linked None d2" by (rule linked_live_pair [OF assms(1-4) s(1) _ _ i l a Some]) simp_all
  then show ?thesis using linked_pause [OF s(2)] by simp
next
  case None
  have "linked None d1" by (rule linked_run_alloc [OF assms(1,2) i l a(1) None])
  then show ?thesis using assms(5) None linked_advance_fact by (auto simp: quarantine_owner_def split: option.splits)
qed

lemma linked_audit: "linked x (write_audit k ac t d) = linked x d"
  by (simp add: write_audit_def linked_def)

lemma linked_QuarantineOneUnreachable:
  assumes "QuarantineOneUnreachable now d = Inr (b, d')" "inv d" "linked None d"
  shows "linked None d'"
  using quarantine_one_cases [OF assms(1)]
proof (elim disjE exE conjE)
  fix a d1 d2 assume a: "a \<in> set (allocs d)" "unreachable now d a"
    and s1: "set_alloc (al_id a) (\<lambda>a. a\<lparr>al_state := AQuarantined, al_error := Some ''NODE_UNREACHABLE'',
                   al_quarantined := Some now\<rparr>) d = Inr d1"
    and s2: "quarantine_owner a now d1 = Inr d2"
    and d': "d' = write_audit ''system'' ''allocation.quarantine.unreachable'' (al_id a) d2"
  have "linked None d2"
    by (rule linked_quarantine [OF s1 _ _ _ s2 assms(2,3) a(1) unreachable_live [OF a(2)]]) simp_all
  then show ?thesis by (simp add: d' linked_audit)
qed (use assms(3) in simp)

lemma linked_MarkAllocationQuarantined:
  assumes "MarkAllocationQuarantined i now d = Inr d'" "inv d" "linked None d"
  shows "linked None d'"
  using mark_cases [OF assms(1)]
proof (elim disjE exE conjE)
  fix a d1 d2 assume a: "a \<in> set (allocs d)" "al_id a = i" "\<not> terminal_alloc (al_state a)"
    and s1: "set_alloc i (\<lambda>a. a\<lparr>al_state := AQuarantined, al_error := Some ''MANUAL_QUARANTINE'',
              al_quarantined := Some (coalesce (al_quarantined a) now)\<rparr>) d = Inr d1"
    and s2: "quarantine_owner a now d1 = Inr d2" and d': "d' = write_audit ''operator_cli'' ''allocation.quarantine'' i d2"
  have "linked None d2"
    by (rule linked_quarantine [OF s1 [folded a(2)] _ _ _ s2 assms(2,3) a(1,3)]) simp_all
  then show ?thesis by (simp add: d' linked_audit)
qed (use assms(3) in simp)

lemma linked_admin_quarantine:
  assumes "admin_quarantine i now d = Inr d'" "inv d" "linked None d"
  shows "linked None d'"
  using admin_quarantine_cases [OF assms(1)]
proof (elim disjE exE conjE)
  fix a d1 assume a: "a \<in> set (allocs d)" "al_id a = i" "\<not> terminal_alloc (al_state a)"
    and s1: "set_alloc i (\<lambda>a. a\<lparr>al_state := AQuarantined, al_error := Some ''MANUAL_QUARANTINE'',
              al_quarantined := Some (coalesce (al_quarantined a) now)\<rparr>) d = Inr d1"
    and s2: "quarantine_owner a now d1 = Inr d'"
  show ?thesis
    by (rule linked_quarantine [OF s1 [folded a(2)] _ _ _ s2 assms(2,3) a(1,3)]) simp_all
qed (use assms(3) in simp)

lemma linked_Abandon:
  assumes "AbandonQuarantinedUserRequest u i newReq now d = Inr (r', d')" "inv d" "linked None d"
  shows "linked None d'"
proof (cases "d' = d")
  case False
  with abandon_cases [OF assms(1)] obtain r d1 where r: "r \<in> set (requests d)" "rq_id r = i" "rq_state r = RQuarantined"
    and s1: "abandon_writes i now d = Inr d1" and s2: "consumeNextGameIntent i True newReq now d1 = Inr d'" by blast
  have "linked None d1"
  proof (rule linked_upd_requests [OF assms(3)])
    show "allocs d1 = allocs d" "requests d1 = upd_where (\<lambda>r. rq_id r = i)
       (\<lambda>r. r\<lparr>rq_state := RAbandoned, rq_abandoned := Some now, rq_updated := now\<rparr>) (requests d)"
      using s1 by (simp_all add: abandon_writes_def put_Inr)
    fix x a assume x: "x \<in> set (requests d)" "rq_id x = i" and g: "Some (rq_id x) = None \<or> agree (rq_state x) (al_state a)"
    have "x = r" using request_key [OF assms(2) r(1) x(1)] x(2) r(2) by simp
    then have "agree RQuarantined (al_state a)" using g r(3) by simp
    then have "agree RAbandoned (al_state a)" by (cases "al_state a") simp_all
    then show "Some (rq_id x) = None
        \<or> agree (rq_state (x\<lparr>rq_state := RAbandoned, rq_abandoned := Some now, rq_updated := now\<rparr>)) (al_state a)" by simp
  qed simp_all
  then show ?thesis by (rule linked_consume [OF s2])
qed (use assms(3) in simp)

lemma linked_terminate:
  assumes "terminate_pending i now d = Inr d'" "inv d" "linked None d"
  shows "linked None d'"
  using terminate_cases [OF assms(1)]
proof (elim disjE exE conjE)
  fix a j assume a: "a \<in> set (allocs d)" "al_state a = AReserved" and w: "terminate_writes a j now d = Inr d'"
  obtain js rp d1 d2 d3 where s1: "put_jobs js d = Inr d1"
    and s2: "set_alloc (al_id a) (\<lambda>a. a\<lparr>al_state := AReleasedNoEffect, al_error := Some pending_terminated\<rparr>)
        (d1\<lparr>job_reports := rp\<rparr>) = Inr d2"
    and s3: "(case al_request a of None \<Rightarrow> Inr d2 | Some r \<Rightarrow> set_request_state r RUnavailable now d2) = Inr d3"
    and s4: "(case al_run a of None \<Rightarrow> Inr d3 | Some v \<Rightarrow>
        advanceValidationFromJob v KCreate JRejectedNoEffect AReleasedNoEffect pending_terminated False now d3) = Inr d'"
    using w unfolding terminate_writes_def bindE_Inr Let_def by blast
  let ?e = "d1\<lparr>job_reports := rp\<rparr>"
  have e: "inv ?e" "linked None ?e" "a \<in> set (allocs ?e)" "\<not> terminal_alloc (al_state a)"
    using inv_put_jobs [OF s1 assms(2)] linked_puts(1) [OF s1] assms(3) a s1
    by (simp_all add: inv_def schema_ok_def runs_settled_def linked_def put_Inr terminal_alloc_def)
  have "linked None d3"
  proof (cases "al_request a")
    case None
    then show ?thesis using s3 linked_run_alloc [OF s2 _ e(1-3)] by simp
  next
    case (Some q)
    then have "set_request_state q RUnavailable now d2 = Inr d3" using s3 by simp
    from linked_pair [OF s2 _ _ _ this _ e Some, of AReleasedNoEffect] show ?thesis by simp
  qed
  then show ?thesis using s4 linked_advance_job by (auto split: option.splits)
qed (use assms(3) in simp)

section \<open>Observed facts\<close>

lemma linked_fact_reclaimed:
  assumes "fact_reclaimed a f newReq now d = Inr d'" and i: "inv d" and l: "linked None d"
    and a: "b \<in> set (allocs d)" "al_id b = al_id a" "al_request b = al_request a" "\<not> terminal_alloc (al_state b)"
  shows "linked None d'"
proof -
  from assms(1) obtain d1 d2 where
    s1: "set_alloc (al_id a) (\<lambda>a. a\<lparr>al_state := AReclaimed, al_reclaimed := Some (coalesce (al_reclaimed a) now)\<rparr>) d = Inr d1"
    and s2: "(case al_request a of
              Some r \<Rightarrow> if paused_intent r d1 then Inr d1
                        else bindE (set_live_request_state r REnded now d1) (consumeNextGameIntent r False newReq now)
            | None \<Rightarrow> Inr d1) = Inr d2"
    and s3: "(case al_run a of None \<Rightarrow> Inr d2 | Some v \<Rightarrow> advanceValidationFromFact v FactReclaimed (if_JoinInfo f \<noteq> None) now d2) = Inr d'"
    by (auto simp: fact_reclaimed_def bindE_Inr)
  have 1: "linked None d1" by (rule linked_set_alloc [OF l s1]) simp_all
  have "linked None d2"
  proof (cases "\<exists>q d3. al_request a = Some q \<and> set_live_request_state q REnded now d1 = Inr d3
      \<and> consumeNextGameIntent q False newReq now d3 = Inr d2")
    case True
    then obtain q d3 where q: "al_request a = Some q" and w: "set_live_request_state q REnded now d1 = Inr d3"
      and c: "consumeNextGameIntent q False newReq now d3 = Inr d2" by blast
    have "linked None d3"
      by (rule linked_live_pair [OF s1 [folded a(2)] _ _ _ w, where s = AReclaimed])
        (use i l a q in simp_all)
    then show ?thesis by (rule linked_consume [OF c])
  next
    case False
    then have "d2 = d1" using s2 by (auto simp: bindE_Inr split: option.splits if_splits)
    then show ?thesis using 1 by simp
  qed
  then show ?thesis using s3 linked_advance_fact by (auto split: option.splits)
qed

lemma linked_fact_identity:
  assumes "fact_identity a f now d = Inr d'" and i: "inv d" and l: "linked None d"
    and a: "b \<in> set (allocs d)" "al_id b = al_id a" "al_request b = al_request a" "\<not> terminal_alloc (al_state b)"
  shows "linked None d'"
proof -
  from assms(1) obtain d1 d2 where
    s1: "set_alloc (al_id a) (\<lambda>a. a\<lparr>al_state := AQuarantined,
              al_error := Some (if if_Outcome f = OActive then ''PORT_IDENTITY_CHANGED'' else ''IDENTITY_UNVERIFIED''),
              al_quarantined := Some (coalesce (al_quarantined a) now)\<rparr>) d = Inr d1"
    and s2: "(case al_request a of
              Some r \<Rightarrow> bindE (set_live_request_state r RQuarantined now d1) (pauseNextGameIntent r)
            | None \<Rightarrow> Inr d1) = Inr d2"
    and s3: "(case al_run a of None \<Rightarrow> Inr d2 | Some v \<Rightarrow> advanceValidationFromFact v FactQuarantined False now d2) = Inr d'"
    by (auto simp: fact_identity_def bindE_Inr)
  have "linked None d2"
  proof (cases "al_request a")
    case None
    then show ?thesis using s2 linked_run_alloc [OF s1 [folded a(2)] _ i l a(1)] a(3) by simp
  next
    case (Some q)
    with s2 obtain d3 where w: "set_live_request_state q RQuarantined now d1 = Inr d3" and p: "pauseNextGameIntent q d3 = Inr d2"
      by (auto simp: bindE_Inr)
    have "linked None d3"
      by (rule linked_live_pair [OF s1 [folded a(2)] _ _ _ w, where s = AQuarantined]) (use i l a Some in simp_all)
    then show ?thesis using linked_pause [OF p] by simp
  qed
  then show ?thesis using s3 linked_advance_fact by (auto split: option.splits)
qed

lemma inv_set_join:
  assumes "set_alloc (al_id a) (join_write j je now) d = Inr d'" "al_state a = ARunning" "a \<in> set (allocs d)" "inv d"
  shows "inv d'"
proof -
  have "sound_step d d'"
  proof (rule sound_set_alloc [OF assms(1)])
    fix x assume "inv d" "x \<in> set (allocs d)" "al_id x = al_id a"
    then have "x = a" using alloc_key assms(3) by blast
    then show "alloc_evolves x (join_write j je now x)"
      using assms(2) by (intro alloc_evolves_state) (simp_all add: terminal_alloc_def)
  qed
  then show ?thesis using assms(4) by (simp add: sound_step_def)
qed

text \<open>Recording where players connect keeps the attempt's identity and state.\<close>

lemma fact_join_keeps:
  assumes "fact_join a f er now d = Inr d1" "a \<in> set (allocs d)" "inv d" "linked None d"
  shows "inv d1 \<and> linked None d1 \<and> (\<exists>b \<in> set (allocs d1). al_id b = al_id a \<and> al_request b = al_request a \<and> al_state b = al_state a)"
  using fact_join_cases [OF assms(1)]
proof (elim disjE exE conjE)
  fix j je assume run: "al_state a = ARunning" and w: "set_alloc (al_id a) (join_write j je now) d = Inr d1"
  have "linked None d1" by (rule linked_set_alloc [OF assms(4) w]) simp_all
  moreover have "join_write j je now a \<in> set (allocs d1)"
    using w assms(2) by (auto simp: set_alloc_def put_Inr upd_where_def)
  ultimately show ?thesis using inv_set_join [OF w run assms(2,3)]
    by (intro conjI bexI [of _ "join_write j je now a"]) simp_all
qed (use assms in auto)

lemma linked_ReportInstanceFact:
  assumes "ReportInstanceFact n i f newReq newJob now d = Inr d'" "inv d" "linked None d"
  shows "linked None d'"
proof -
  let ?e = "upsert_fact i f d"
  from ReportInstanceFact_cases [OF assms(1)] obtain a er where a: "a \<in> set (allocs d)"
    and p: "fact_apply a f er (if_InstanceID f) newReq newJob now ?e = Inr d'" by blast
  have e: "inv ?e" "linked None ?e" "a \<in> set (allocs ?e)"
    using assms(2,3) a by (simp_all add: upsert_fact_def inv_def schema_ok_def runs_settled_def linked_def)
  show ?thesis
  proof (cases "terminal_alloc (al_state a)")
    case True
    then show ?thesis using p e by (simp add: fact_apply_def)
  next
    case False
    from fact_apply_cases [OF p False] obtain d1 d2 where j: "fact_join a f er now ?e = Inr d1"
      and w: "fact_effect a f (if_InstanceID f) newReq newJob now d1 = Inr d2"
      and l: "d' = d2 \<or> (\<exists>v h. al_run a = Some v \<and> advanceValidationFromFact v FactReady h now d2 = Inr d')" by blast
    from fact_join_keeps [OF j e(3,1,2)] obtain b where i1: "inv d1" "linked None d1"
      and b: "b \<in> set (allocs d1)" "al_id b = al_id a" "al_request b = al_request a" "\<not> terminal_alloc (al_state b)"
      using False by auto
    have "linked None d2"
      using w linked_fact_reclaimed [OF _ i1 b] linked_fact_identity [OF _ i1 b] linked_applyReport [OF _ i1] i1(2)
      by (auto simp: fact_effect_def Let_def split: if_splits)
    then show ?thesis using l linked_advance_fact by blast
  qed
qed

section \<open>Validation runs\<close>

lemma linked_auditAdmin: "auditAdmin ad ac t d = Inr d' \<Longrightarrow> linked x d' = linked x d"
  by (auto simp: auditAdmin_def rejectE_Inr linked_def)

lemma linked_ReserveValidation:
  assumes "ReserveValidation c runID newAlloc newJob now d = Inr (i, d')" "linked x d"
  shows "linked x d'"
  using ReserveValidation_cases [OF assms(1)]
proof (elim disjE exE conjE)
  fix sha g b tb tf assume "reserve_run c (new_run runID c sha b tb tf now) g newAlloc newJob now d = Inr d'"
  from reserve_run_cases [OF this] obtain d1 d2 d3 a j v where s: "put_runs (runs d @ [v]) d = Inr d1"
    "put_allocs (allocs d1 @ [a]) d1 = Inr d2" "put_jobs (jobs d2 @ [j]) d2 = Inr d3" "business d' = business d3"
    and a: "a = new_alloc newAlloc None (Some (vr_id v)) (vc_GameID c) 1 (vc_NodeID c) (vc_ContentVersionID c) (vc_TemplateRevisionID c) now"
    by blast
  have "linked x d1" using linked_puts(4) [OF s(1)] assms(2) by simp
  then have "linked x d2" by (rule linked_append_alloc [OF _ s(2)]) (simp add: a new_alloc_def)
  then show ?thesis using linked_puts(1) [OF s(3)] linked_business [OF s(4)] by simp
qed (use assms(2) in simp)

lemma run_alloc_unrequested: "inv d \<Longrightarrow> a \<in> set (allocs d) \<Longrightarrow> al_run a = Some v \<Longrightarrow> al_request a = None"
  by (auto simp: inv_def schema_ok_def allocs_ok_def list_all_iff alloc_check_def)

lemma linked_insert_validation_stop: "insert_validation_stop j n a i now d = Inr d' \<Longrightarrow> linked x d' = linked x d \<and> (inv d \<longrightarrow> inv d')"
  using linked_puts(1) inv_put_jobs
  by (auto simp: insert_validation_stop_def split: option.splits if_splits)

lemma linked_set_run: "set_run i g d = Inr d' \<Longrightarrow> linked x d' = linked x d"
  unfolding set_run_def by (rule linked_puts)

text \<open>Stopping the attempt of a run, from a state with the same attempts.\<close>

lemma linked_stop_run_alloc:
  assumes "linked None e" "set_alloc (al_id a) f e = Inr d'" "\<And>x. al_request (f x) = al_request x" "allocs e = allocs d"
    and "inv d" "a \<in> set (allocs d)" "al_run a = Some v"
  shows "linked None d'"
proof (rule linked_set_alloc [OF assms(1-3)])
  fix x assume "x \<in> set (allocs e)" "al_id x = al_id a"
  then have "x = a" using alloc_key [OF assms(5,6)] assms(4) by simp
  then show "al_request x = None \<or> al_request x = None \<or> (\<forall>s. agree s (al_state x) \<longrightarrow> agree s (al_state (f x)))"
    using run_alloc_unrequested [OF assms(5-7)] by simp
qed

lemma linked_Confirm:
  assumes "ConfirmValidationHuman i ad res ex stopID now d = Inr d'" "inv d" "linked None d"
  shows "linked None d'"
  using Confirm_cases [OF assms(1)]
proof (elim exE conjE)
  fix a v c d1 d2 d3
  assume a: "a \<in> set (allocs d)" "al_run a = Some i"
    and s1: "set_run i (\<lambda>v. v\<lparr>vr_human := res, vr_human_by := Some ad, vr_human_at := Some now, vr_state := VStopPending\<rparr>) d = Inr d1"
    and s2: "insert_validation_stop stopID (al_node a) (al_id a) (coalesce (jb_instance c) []) now d1 = Inr d2"
    and s3: "set_alloc (al_id a) (al_state_update (\<lambda>_. AStopping)) d2 = Inr d3" and s4: "auditAdmin ad ''validation.confirm'' [i] d3 = Inr d'"
  have "linked None d2" using linked_set_run [OF s1] linked_insert_validation_stop [OF s2] assms(3) by simp
  then have "linked None d3"
    by (rule linked_stop_run_alloc [OF _ s3 _ _ assms(2) a])
      (use insert_validation_stop_frame [OF s2] set_run_keeps [OF s1] in simp_all)
  then show ?thesis using linked_auditAdmin [OF s4] by simp
qed

lemma linked_StopValidation:
  assumes "StopValidation i ad ex stopID now d = Inr d'" "inv d" "linked None d"
  shows "linked None d'"
  using StopValidation_cases [OF assms(1)]
proof (elim exE conjE)
  fix a v c d1 d2 d3
  assume a: "a \<in> set (allocs d)" "al_run a = Some i"
    and s1: "insert_validation_stop stopID (al_node a) (al_id a) (coalesce (jb_instance c) []) now d = Inr d1"
    and s2: "set_alloc (al_id a) (al_state_update (\<lambda>_. AStopping)) d1 = Inr d2"
    and s3: "set_run i (vr_state_update (\<lambda>_. VStopPending)) d2 = Inr d3" and s4: "auditAdmin ad ''validation.stop'' [i] d3 = Inr d'"
  have "linked None d1" using linked_insert_validation_stop [OF s1] assms(3) by simp
  then have "linked None d2"
    by (rule linked_stop_run_alloc [OF _ s2 _ _ assms(2) a]) (use insert_validation_stop_frame [OF s1] in simp_all)
  then show ?thesis using linked_set_run [OF s3] linked_auditAdmin [OF s4] by simp
qed

lemma linked_FinalizeFailure: "FinalizeValidationFailure i why d = Inr d' \<Longrightarrow> linked x d' = linked x d"
  by (drule FinalizeFailure_cases) (elim disjE exE conjE, simp, erule linked_set_run)

lemma linked_FinalizeRun: "FinalizeValidationRun i now d = Inr d' \<Longrightarrow> linked x d' = linked x d"
  by (drule FinalizeRun_cases) (elim disjE exE conjE, simp, erule linked_set_run)

end
