(* ===== verification/Text.thy ===== *)
theory Text
  imports Bytes
begin

text \<open>\<open>strings.TrimSpace\<close> on byte strings: Unicode white space, in UTF-8, is cut from both ends.\<close>

definition space_rune :: "char \<Rightarrow> char \<Rightarrow> char \<Rightarrow> bool" where
  "space_rune c c1 c2 \<longleftrightarrow>
     byte_of c = 225 \<and> byte_of c1 = 154 \<and> byte_of c2 = 128
     \<or> byte_of c = 226 \<and> byte_of c1 = 128 \<and> (in_range 128 138 c2 \<or> byte_of c2 \<in> {168, 169, 175})
     \<or> byte_of c = 226 \<and> byte_of c1 = 129 \<and> byte_of c2 = 159
     \<or> byte_of c = 227 \<and> byte_of c1 = 128 \<and> byte_of c2 = 128"

text \<open>The number of bytes of the white space a string starts with.\<close>

definition space_width :: "string \<Rightarrow> nat" where
  "space_width s = (case s of
      [] \<Rightarrow> 0
    | c # cs \<Rightarrow>
        if byte_of c \<in> {9, 10, 11, 12, 13, 32} then 1
        else (case cs of
            [] \<Rightarrow> 0
          | c1 # cs1 \<Rightarrow>
              if byte_of c = 194 \<and> byte_of c1 \<in> {133, 160} then 2
              else (case cs1 of [] \<Rightarrow> 0 | c2 # _ \<Rightarrow> if space_rune c c1 c2 then 3 else 0)))"

function trim_left :: "string \<Rightarrow> string" where
  "trim_left s = (if space_width s = 0 then s else trim_left (drop (space_width s) s))"
  by auto
termination
proof (relation "measure length")
  fix s assume w: "space_width s \<noteq> 0"
  then have "s \<noteq> []" by (auto simp: space_width_def)
  with w show "(drop (space_width s) s, s) \<in> measure length" by simp
qed simp

declare trim_left.simps [simp del]

fun trim_right :: "string \<Rightarrow> string" where
  "trim_right [] = []"
| "trim_right (c # cs) = (if all_space (c # cs) then [] else c # trim_right cs)"

definition TrimSpace :: "string \<Rightarrow> string" where
  "TrimSpace s = trim_right (trim_left s)"

lemma all_space_width: "all_space s \<longleftrightarrow> s = [] \<or> space_width s \<noteq> 0 \<and> all_space (drop (space_width s) s)"
  by (cases s rule: all_space.cases) (auto simp: space_width_def space_rune_def split: list.splits)

lemma all_space_trim_left: "all_space (trim_left s) = all_space s"
proof (induction s rule: trim_left.induct)
  case (1 s)
  show ?case
  proof (cases "space_width s = 0")
    case False
    then have "s \<noteq> []" by (auto simp: space_width_def)
    then show ?thesis using 1 False all_space_width [of s] by (simp add: trim_left.simps [of s])
  qed (simp add: trim_left.simps [of s])
qed

lemma trim_right_Nil: "trim_right s = [] \<longleftrightarrow> all_space s"
  by (cases s) simp_all

text \<open>The code's test \<open>strings.TrimSpace(s) == ""\<close> is \<open>all_space\<close>.\<close>

lemma TrimSpace_Nil [simp]: "TrimSpace s = [] \<longleftrightarrow> all_space s"
  by (simp add: TrimSpace_def trim_right_Nil all_space_trim_left)

lemma length_trim_left: "length (trim_left s) \<le> length s"
proof (induction s rule: trim_left.induct)
  case (1 s)
  then show ?case by (cases "space_width s = 0") (simp_all add: trim_left.simps [of s])
qed

lemma length_trim_right: "length (trim_right s) \<le> length s"
  by (induction s) simp_all

lemma length_TrimSpace: "length (TrimSpace s) \<le> length s"
  using length_trim_right [of "trim_left s"] length_trim_left [of s] by (simp add: TrimSpace_def)

end
