(* ===== verification/AdminCatalogue.thy ===== *)
theory AdminCatalogue
  imports AgreementOps Text
begin

text \<open>
  The administrator actions on the catalogue, the nodes and the entries (\<open>ApplyAdminAction\<close>,
  \<open>internal/platform/store/admin_actions.go\<close>), one definition per action.  A target or game
  identifier \<open>""\<close> is \<open>None\<close>; a rejected insert (unique index or foreign key) is \<open>Constraint\<close>.
  Descriptions and display names are checked but not kept.  \<open>core\<close> is what none of them touches.
\<close>

definition core where
  "core d = (business d, parties d, members d, invites d, st_max_party_size (settings d))"

record AdminAction =
  act_Action :: string
  act_TargetID :: "uuid option"
  act_GameID :: "uuid option"
  act_Accepting :: "bool option"
  act_Enabled :: "bool option"
  act_Draining :: "bool option"
  act_Priority :: "int option"
  act_Desired :: "int option"
  act_Message :: "string option"
  act_Entry :: string
  act_EntryRevision :: string
  act_Verified :: "bool option"
  act_Confirmed :: bool
  act_WorkshopID :: string
  act_DisplayName :: string
  act_ContentVersionID :: string
  act_ContentSHA256 :: string
  act_TemplateRevisionID :: string
  act_BindingKey :: string
  act_Fingerprint :: string
  act_Generation :: "int option"
  act_Description :: string
  act_MaxPlayers :: int

text \<open>The identifier an action requires: \<open>""\<close> is invalid where the code tests it.\<close>

definition required :: "uuid option \<Rightarrow> (uuid \<Rightarrow> 'a res) \<Rightarrow> 'a res" where
  "required i k = (case i of None \<Rightarrow> Inl ErrInvalidAdminAction | Some i \<Rightarrow> k i)"

lemma required_Inr [result_simps]: "required i k = Inr x \<longleftrightarrow> (\<exists>j. i = Some j \<and> k j = Inr x)"
  by (cases i) (simp_all add: required_def)

section \<open>Creating catalogue entries\<close>

definition admin_game_create :: "AdminAction \<Rightarrow> uuid \<Rightarrow> db \<Rightarrow> db res" where
  "admin_game_create a newID d =
     rejectE (act_TargetID a \<noteq> None \<or> \<not> ValidWorkshop (act_WorkshopID a) \<or> TrimSpace (act_DisplayName a) = [])
       ErrInvalidAdminAction (
     rejectE (exists_where (\<lambda>g. gm_id g = newID \<or> gm_workshop g = act_WorkshopID a) (games d)) (Constraint ''arcade_games'')
       (Inr (d\<lparr>games := games d @ [\<lparr>gm_id = newID, gm_workshop = act_WorkshopID a, gm_enabled = False,
          gm_accepting = False, gm_message = [], gm_content = None\<rparr>]\<rparr>)))"

definition game_exists :: "db \<Rightarrow> uuid \<Rightarrow> bool" where
  "game_exists d i \<longleftrightarrow> exists_where (\<lambda>g. gm_id g = i) (games d)"

definition admin_template_create :: "AdminAction \<Rightarrow> db \<Rightarrow> db res" where
  "admin_template_create a d =
     required (act_TargetID a) (\<lambda>game.
     rejectE (TrimSpace (act_TemplateRevisionID a) = []) ErrInvalidAdminAction (
     rejectE (exists_where (\<lambda>r. fst r = act_TemplateRevisionID a) (revisions d) \<or> \<not> game_exists d game)
       (Constraint ''template_revisions'')
       (Inr (d\<lparr>revisions := revisions d @ [(act_TemplateRevisionID a, game)]\<rparr>))))"

definition admin_content_create :: "AdminAction \<Rightarrow> db \<Rightarrow> db res" where
  "admin_content_create a d =
     required (act_TargetID a) (\<lambda>game.
     rejectE (\<not> ValidVersion (act_ContentVersionID a) \<or> \<not> revisionPattern (act_ContentSHA256 a)) ErrInvalidAdminAction (
     rejectE (exists_where (\<lambda>c. cv_id c = act_ContentVersionID a) (contents d) \<or> \<not> game_exists d game)
       (Constraint ''content_versions'')
       (Inr (d\<lparr>contents := contents d @ [\<lparr>cv_id = act_ContentVersionID a, cv_game = game,
          cv_sha256 = act_ContentSHA256 a\<rparr>]\<rparr>))))"

text \<open>\<open>max_players\<close> is a 32-bit column; a new preset is under the validated contract.\<close>

definition admin_preset_create :: "AdminAction \<Rightarrow> uuid \<Rightarrow> db \<Rightarrow> db res" where
  "admin_preset_create a newID d =
     required (act_TargetID a) (\<lambda>game.
     rejectE (TrimSpace (act_DisplayName a) = [] \<or> act_TemplateRevisionID a = [] \<or> act_MaxPlayers a \<le> 0)
       ErrInvalidAdminAction (
     rejectE (exists_where (\<lambda>p. ps_id p = newID) (presets d) \<or> 2 ^ 31 \<le> act_MaxPlayers a
              \<or> \<not> game_exists d game \<or> (act_TemplateRevisionID a, game) \<notin> set (revisions d)) (Constraint ''game_presets'')
       (Inr (d\<lparr>presets := presets d @ [\<lparr>ps_id = newID, ps_game = game, ps_enabled = False, ps_accepting = False,
          ps_message = [], ps_max_players = act_MaxPlayers a, ps_revision = act_TemplateRevisionID a,
          ps_contract = V102Contract\<rparr>]\<rparr>))))"

section \<open>Template bindings\<close>

definition guarded_upsert :: "AdminAction \<Rightarrow> bool" where
  "guarded_upsert a \<longleftrightarrow> act_Fingerprint a \<noteq> [] \<or> act_Generation a \<noteq> None"

text \<open>Without an expected generation (the older form of the action) the key alone is set, and a changed
  key drops the fingerprint that was proved for the old one.\<close>

definition admin_template_binding :: "AdminAction \<Rightarrow> db \<Rightarrow> db res" where
  "admin_template_binding a d =
     required (act_TargetID a) (\<lambda>node.
     let key = TrimSpace (act_BindingKey a); revision = act_TemplateRevisionID a in
     rejectE (revision = [] \<or> key = []) ErrInvalidAdminAction (
     rejectE (guarded_upsert a \<and> (act_Generation a = None \<or> \<not> revisionPattern (act_Fingerprint a)))
       ErrInvalidAdminAction (
     bindE (fetch (\<lambda>n. nd_id n = node) (nodes d)) (\<lambda>_.
     let old = template_binding_of d node revision;
         oldKey = (case old of None \<Rightarrow> [] | Some b \<Rightarrow> tb_key b);
         oldFingerprint = (case old of None \<Rightarrow> None | Some b \<Rightarrow> tb_fingerprint b);
         oldGeneration = (case old of None \<Rightarrow> 0 | Some b \<Rightarrow> tb_generation b);
         newFingerprint = (if act_Generation a \<noteq> None then act_Fingerprint a
                           else if oldKey = key then coalesce oldFingerprint [] else []) in
     rejectE (act_Generation a \<noteq> None \<and> act_Generation a \<noteq> Some oldGeneration) ErrCASConflict (
     case old of
       None \<Rightarrow> rejectE (\<not> exists_where (\<lambda>r. fst r = revision) (revisions d)) (Constraint ''node_template_bindings'')
         (Inr (d\<lparr>template_bindings := template_bindings d @ [\<lparr>tb_node = node, tb_revision = revision, tb_key = key,
            tb_fingerprint = nullif newFingerprint [], tb_generation = 1\<rparr>]\<rparr>))
     | Some b \<Rightarrow>
         if oldKey \<noteq> key \<or> oldFingerprint = None \<and> newFingerprint \<noteq> [] \<or> oldFingerprint \<noteq> None \<and> oldFingerprint \<noteq> Some newFingerprint
         then Inr (d\<lparr>template_bindings := upd_where (\<lambda>b. tb_node b = node \<and> tb_revision b = revision)
            (\<lambda>b. b\<lparr>tb_key := key, tb_fingerprint := nullif newFingerprint [], tb_generation := tb_generation b + 1\<rparr>)
            (template_bindings d)\<rparr>)
         else Inr d)))))"

section \<open>Content validated by hand\<close>

definition guardLegacyContentAction :: "uuid \<Rightarrow> db \<Rightarrow> unit res" where
  "guardLegacyContentAction game d =
     bindE (fetch (\<lambda>g. gm_id g = game) (games d)) (\<lambda>_.
     rejectE (exists_where (\<lambda>p. ps_game p = game \<and> ps_contract p = V102Contract) (presets d)
              \<or> exists_where (\<lambda>r. rl_game r = game) (releases d))
       (ErrJobConflict ''legacy content action closed for upgraded game'') (Inr ()))"

definition admin_content_validate :: "uuid \<Rightarrow> AdminAction \<Rightarrow> time \<Rightarrow> db \<Rightarrow> db res" where
  "admin_content_validate adminID a now d =
     required (act_TargetID a) (\<lambda>node. required (act_GameID a) (\<lambda>game.
     let version = act_ContentVersionID a in
     rejectE (version = [] \<or> \<not> act_Confirmed a) ErrInvalidAdminAction (
     bindE (guardLegacyContentAction game d) (\<lambda>_.
     bindE (fetch (\<lambda>n. nd_id n = node) (nodes d)) (\<lambda>n.
     bindE (fetch (\<lambda>b. cb_node b = node \<and> cb_game b = game) (content_bindings d)) (\<lambda>b.
     bindE (fetch (\<lambda>r. nr_node r = node) (reports d)) (\<lambda>r.
     bindE (fetch (\<lambda>c. cv_game c = game \<and> cv_id c = version) (contents d)) (\<lambda>c.
     rejectE (\<not> nd_draining n \<or> \<not> (fresh now (nd_heartbeat n) \<and> nr_compatible r) \<or> \<not> cb_confirmed b
              \<or> coalesce (cb_version b) [] \<noteq> version \<or> coalesce (cb_sha256 b) [] \<noteq> cv_sha256 c
              \<or> occupied d node \<noteq> 0)
       (ErrJobConflict ''validation requires drained, empty node and confirmed version'')
       (Inr (d\<lparr>content_validations :=
          (if exists_where (\<lambda>v. cl_node v = node \<and> cl_game v = game \<and> cl_content v = version) (content_validations d)
           then upd_where (\<lambda>v. cl_node v = node \<and> cl_game v = game \<and> cl_content v = version)
                  (\<lambda>v. v\<lparr>cl_by := adminID, cl_at := now\<rparr>) (content_validations d)
           else content_validations d @ [\<lparr>cl_node = node, cl_game = game, cl_content = version, cl_by = adminID, cl_at = now\<rparr>])\<rparr>))))))))))"

text \<open>A node that was validated by hand for the version and can take players with it now.\<close>

definition ready_target :: "uuid \<Rightarrow> string \<Rightarrow> time \<Rightarrow> db \<Rightarrow> content_validation_row \<Rightarrow> bool" where
  "ready_target game version now d v \<longleftrightarrow> cl_game v = game \<and> cl_content v = version
     \<and> some_and (\<lambda>b. cb_confirmed b \<and> cb_version b = Some version
          \<and> exists_where (\<lambda>c. cv_game c = game \<and> cv_id c = version \<and> cb_sha256 b = Some (cv_sha256 c)) (contents d))
         (content_binding_of d (cl_node v) game)
     \<and> some_and (\<lambda>n. nd_enabled n \<and> nd_accepting n \<and> \<not> nd_draining n \<and> fresh now (nd_heartbeat n)) (node_of d (cl_node v))
     \<and> some_and nr_compatible (report_of d (cl_node v))"

definition admin_content_publish :: "AdminAction \<Rightarrow> time \<Rightarrow> db \<Rightarrow> db res" where
  "admin_content_publish a now d =
     required (act_TargetID a) (\<lambda>game.
     rejectE (act_ContentVersionID a = [] \<or> \<not> act_Confirmed a) ErrInvalidAdminAction (
     bindE (fetch (\<lambda>g. gm_id g = game) (games d)) (\<lambda>_.
     bindE (guardLegacyContentAction game d) (\<lambda>_.
     rejectE (\<not> exists_where (ready_target game (act_ContentVersionID a) now d) (content_validations d))
       (ErrJobConflict ''no validated, currently eligible target node'')
       (Inr (d\<lparr>games := upd_where (\<lambda>g. gm_id g = game) (\<lambda>g. g\<lparr>gm_content := Some (act_ContentVersionID a)\<rparr>) (games d)\<rparr>))))))"

section \<open>Settings\<close>

definition trimmed :: "string option \<Rightarrow> string \<Rightarrow> string" where
  "trimmed m old = (case m of None \<Rightarrow> old | Some m \<Rightarrow> TrimSpace m)"

definition admin_global_update :: "AdminAction \<Rightarrow> db \<Rightarrow> db res" where
  "admin_global_update a d =
     rejectE (act_Accepting a = None \<and> act_Message a = None) ErrInvalidAdminAction
       (Inr (d\<lparr>settings := (settings d)\<lparr>st_accepting := coalesce (act_Accepting a) (st_accepting (settings d)),
          st_message := trimmed (act_Message a) (st_message (settings d))\<rparr>\<rparr>))"

definition admin_announcement :: "AdminAction \<Rightarrow> db \<Rightarrow> db res" where
  "admin_announcement a d = (case act_Message a of
      None \<Rightarrow> Inl ErrInvalidAdminAction
    | Some m \<Rightarrow> Inr (d\<lparr>announcement := TrimSpace m\<rparr>))"

definition admin_game_update :: "AdminAction \<Rightarrow> db \<Rightarrow> db res" where
  "admin_game_update a d =
     required (act_TargetID a) (\<lambda>game.
     rejectE (act_Accepting a = None \<and> act_Enabled a = None \<and> act_Message a = None) ErrInvalidAdminAction (
     bindE (fetch (\<lambda>g. gm_id g = game) (games d)) (\<lambda>g.
     Inr (d\<lparr>games := upd_where (\<lambda>g. gm_id g = game)
        (\<lambda>x. x\<lparr>gm_enabled := coalesce (act_Enabled a) (gm_enabled g), gm_accepting := coalesce (act_Accepting a) (gm_accepting g),
             gm_message := trimmed (act_Message a) (gm_message g)\<rparr>) (games d)\<rparr>))))"

text \<open>A preset under the validated contract opens only while a node whose binding is open proves it.\<close>

definition open_nodes :: "uuid \<Rightarrow> db \<Rightarrow> uuid list" where
  "open_nodes game d = order_by id (map nd_id (filter (\<lambda>n. exists_where
      (\<lambda>b. cb_node b = nd_id n \<and> cb_game b = game \<and> cb_accepting b) (content_bindings d)) (nodes d)))"

definition preset_proved :: "preset_row \<Rightarrow> game_row \<Rightarrow> time \<Rightarrow> db \<Rightarrow> bool" where
  "preset_proved p g now d \<longleftrightarrow> list_ex (\<lambda>n. effectiveValidationProof n (ps_game p) (ps_id p)
      (coalesce (gm_content g) []) (ps_revision p) None now d \<noteq> None) (open_nodes (ps_game p) d)"

definition admin_preset_update :: "AdminAction \<Rightarrow> time \<Rightarrow> db \<Rightarrow> db res" where
  "admin_preset_update a now d =
     required (act_TargetID a) (\<lambda>preset.
     rejectE (act_Accepting a = None \<and> act_Enabled a = None \<and> act_Message a = None) ErrInvalidAdminAction (
     rejectE (act_TemplateRevisionID a \<noteq> []) ErrInvalidAdminAction (
     bindE (fetch (\<lambda>p. ps_id p = preset) (presets d)) (\<lambda>p.
     bindE (fetch (\<lambda>g. gm_id g = ps_game p) (games d)) (\<lambda>g.
     rejectE (act_Accepting a = Some True \<and> ps_contract p = V102Contract \<and> \<not> preset_proved p g now d)
       ErrValidationIncomplete
       (Inr (d\<lparr>presets := upd_where (\<lambda>p. ps_id p = preset)
          (\<lambda>x. x\<lparr>ps_enabled := coalesce (act_Enabled a) (ps_enabled p), ps_accepting := coalesce (act_Accepting a) (ps_accepting p),
               ps_message := trimmed (act_Message a) (ps_message p)\<rparr>) (presets d)\<rparr>)))))))"

section \<open>Nodes\<close>

text \<open>\<open>priority\<close> and \<open>desired_max_instances\<close> are 32-bit columns.\<close>

definition int4 :: "int \<Rightarrow> bool" where
  "int4 i \<longleftrightarrow> - (2 ^ 31) \<le> i \<and> i < 2 ^ 31"

definition admin_node_update :: "AdminAction \<Rightarrow> db \<Rightarrow> db res" where
  "admin_node_update a d =
     required (act_TargetID a) (\<lambda>node.
     rejectE (act_Draining a = None \<and> act_Priority a = None \<and> act_Desired a = None) ErrInvalidAdminAction (
     bindE (fetch (\<lambda>n. nd_id n = node) (nodes d)) (\<lambda>n.
     let hard = (case report_of d node of None \<Rightarrow> 0 | Some r \<Rightarrow> nr_hard_max r);
         desired = coalesce (act_Desired a) (nd_desired n); priority = coalesce (act_Priority a) (nd_priority n) in
     rejectE (desired < 0 \<or> hard < desired) ErrInvalidDesiredCapacity (
     rejectE (\<not> int4 priority) (Constraint ''nodes'')
       (Inr (d\<lparr>nodes := upd_where (\<lambda>n. nd_id n = node)
          (\<lambda>x. x\<lparr>nd_draining := coalesce (act_Draining a) (nd_draining n), nd_priority := priority, nd_desired := desired\<rparr>)
          (nodes d)\<rparr>))))))"

definition admin_node_reconcile :: "AdminAction \<Rightarrow> time \<Rightarrow> db \<Rightarrow> db res" where
  "admin_node_reconcile a now d = (case act_TargetID a of
      None \<Rightarrow> Inl (Invalid ''invalid input syntax for type uuid'')
    | Some node \<Rightarrow>
        rejectE (\<not> exists_where (\<lambda>n. nd_id n = node) (nodes d)) NoRows
          (Inr (d\<lparr>reconciles :=
             (if exists_where (\<lambda>r. rc_node r = node) (reconciles d)
              then upd_where (\<lambda>r. rc_node r = node)
                     (\<lambda>r. r\<lparr>rc_requested := rc_requested r + 1, rc_requested_at := Some now\<rparr>) (reconciles d)
              else reconciles d @ [\<lparr>rc_node = node, rc_requested = 1, rc_completed = 0, rc_requested_at = Some now,
                     rc_completed_at = None\<rparr>])\<rparr>)))"

section \<open>Opening a game's binding on a node\<close>

definition formal_presets :: "uuid \<Rightarrow> db \<Rightarrow> preset_row list" where
  "formal_presets game d = order_by ps_id (filter (\<lambda>p. ps_game p = game) (presets d))"

definition binding_proved :: "uuid \<Rightarrow> uuid \<Rightarrow> string \<Rightarrow> time \<Rightarrow> db \<Rightarrow> bool" where
  "binding_proved node game content now d \<longleftrightarrow> list_ex (\<lambda>p. ps_contract p = V102Contract \<and> ps_accepting p
      \<and> effectiveValidationProof node game (ps_id p) content (ps_revision p) None now d \<noteq> None) (formal_presets game d)"

definition upgraded_game :: "uuid \<Rightarrow> db \<Rightarrow> bool" where
  "upgraded_game game d \<longleftrightarrow> list_ex (\<lambda>p. ps_contract p = V102Contract) (formal_presets game d)"

definition admin_binding_update :: "AdminAction \<Rightarrow> time \<Rightarrow> db \<Rightarrow> db res" where
  "admin_binding_update a now d =
     required (act_TargetID a) (\<lambda>node. required (act_GameID a) (\<lambda>game.
     (case act_Accepting a of
        None \<Rightarrow> Inl ErrInvalidAdminAction
      | Some accepting \<Rightarrow>
          bindE (if accepting then bindE (fetch (\<lambda>g. gm_id g = game) (games d)) (\<lambda>g. Inr (coalesce (gm_content g) []))
                 else Inr []) (\<lambda>content.
          bindE (fetch (\<lambda>n. nd_id n = node) (nodes d)) (\<lambda>_.
          bindE (fetch (\<lambda>b. cb_node b = node \<and> cb_game b = game) (content_bindings d)) (\<lambda>_.
          rejectE (accepting \<and> upgraded_game game d \<and> \<not> binding_proved node game content now d) ErrValidationIncomplete
            (Inr (d\<lparr>content_bindings := upd_where (\<lambda>b. cb_node b = node \<and> cb_game b = game)
               (\<lambda>b. b\<lparr>cb_accepting := accepting\<rparr>) (content_bindings d)\<rparr>))))))))"

end
