(* ===== verification/AdminActions.thy ===== *)
theory AdminActions
  imports AdminCatalogue
begin

text \<open>
  Attestation of a player entry (\<open>entry.update\<close>), the dispatch of \<open>ApplyAdminAction\<close> with its audit
  record, and what every action does to the business tables: it leaves them alone, or it is one of the
  four actions on requests and attempts, each a sound step that keeps requests and attempts in agreement.
\<close>

section \<open>Entries\<close>

definition entry_flags :: "string \<Rightarrow> entry_row \<Rightarrow> bool \<times> bool" where
  "entry_flags entry e = (if entry = ''steamchina'' then (en_china_verified e, en_china_enabled e)
                          else (en_steam_verified e, en_steam_enabled e))"

text \<open>A new attestation records its time and administrator; enabling or disabling keeps them.\<close>

definition write_entry :: "string \<Rightarrow> bool \<Rightarrow> bool \<Rightarrow> (time \<times> uuid) option \<Rightarrow> entry_row \<Rightarrow> entry_row" where
  "write_entry entry verified enabled attested e =
     (if entry = ''steamchina'' then e\<lparr>en_china_verified := verified, en_china_enabled := enabled,
        en_china_at := (case attested of None \<Rightarrow> en_china_at e | Some (t, _) \<Rightarrow> if verified then Some t else None),
        en_china_by := (case attested of None \<Rightarrow> en_china_by e | Some (_, i) \<Rightarrow> if verified then Some i else None)\<rparr>
      else e\<lparr>en_steam_verified := verified, en_steam_enabled := enabled,
        en_steam_at := (case attested of None \<Rightarrow> en_steam_at e | Some (t, _) \<Rightarrow> if verified then Some t else None),
        en_steam_by := (case attested of None \<Rightarrow> en_steam_by e | Some (_, i) \<Rightarrow> if verified then Some i else None)\<rparr>)"

definition attestable :: "entry_row \<Rightarrow> NetworkFacts \<Rightarrow> bool" where
  "attestable e network \<longleftrightarrow> en_revision e \<noteq> [] \<and> en_revision e = EntryConfigRevision network
     \<and> nf_ProtocolIP network \<noteq> [] \<and> PublicPorts network \<noteq> []"

definition admin_entry_update :: "uuid \<Rightarrow> AdminAction \<Rightarrow> time \<Rightarrow> db \<Rightarrow> db res" where
  "admin_entry_update adminID a now d =
     required (act_TargetID a) (\<lambda>node.
     rejectE (act_Entry a \<notin> {''steam'', ''steamchina''} \<or> act_Verified a = None \<and> act_Enabled a = None)
       ErrInvalidAdminAction (
     rejectE (act_Verified a = Some False) ErrInvalidAdminAction (
     rejectE (act_Verified a = Some True \<and> \<not> act_Confirmed a) ErrInvalidAdminAction (
     rejectE (act_Verified a \<noteq> None \<and> act_Enabled a \<noteq> None) ErrInvalidAdminAction (
     bindE (fetch (\<lambda>e. en_node e = node) (entries d)) (\<lambda>e.
     rejectE ((act_Verified a \<noteq> None \<or> act_Enabled a = Some True)
              \<and> (act_EntryRevision a = [] \<or> act_EntryRevision a \<noteq> en_revision e))
       (ErrJobConflict ''entry configuration changed; refresh before confirming'') (
     rejectE (act_Verified a \<noteq> None \<and> fst (entry_flags (act_Entry a) e))
       (ErrJobConflict ''entry already verified for this revision'') (
     let verified = (act_Verified a \<noteq> None \<or> fst (entry_flags (act_Entry a) e));
         enabled = coalesce (act_Enabled a) (snd (entry_flags (act_Entry a) e)) in
     rejectE (enabled \<and> \<not> verified) ErrInvalidAdminAction (
     bindE (if act_Verified a = Some True then
              bindE (fetch (\<lambda>r. nr_node r = node) (reports d)) (\<lambda>r.
              rejectE (\<not> attestable e (nr_network r))
                (ErrJobConflict ''current protocol entry configuration is unavailable'') (Inr ()))
            else Inr ()) (\<lambda>_.
     Inr (d\<lparr>entries := upd_where (\<lambda>e. en_node e = node)
        (write_entry (act_Entry a) verified enabled (if act_Verified a \<noteq> None then Some (now, adminID) else None))
        (entries d)\<rparr>)))))))))))"

section \<open>Dispatch\<close>

datatype admin_op =
    GameCreate | TemplateCreate | ContentCreate | PresetCreate | TemplateBindingUpsert
  | ContentValidate | ContentPublish | GlobalUpdate | AnnouncementUpdate | GameUpdate | PresetUpdate
  | NodeUpdate | NodeReconcile | BindingUpdate | EntryUpdate
  | RequestCancel | RequestStop | TerminatePending | AllocationQuarantine

definition admin_ops :: "(string \<times> admin_op) list" where
  "admin_ops = [
     (''game.create'', GameCreate), (''template.create'', TemplateCreate), (''content.create'', ContentCreate),
     (''preset.create'', PresetCreate), (''template_binding.upsert'', TemplateBindingUpsert),
     (''content.validate'', ContentValidate), (''content.publish'', ContentPublish),
     (''global.update'', GlobalUpdate), (''announcement.update'', AnnouncementUpdate),
     (''game.update'', GameUpdate), (''preset.update'', PresetUpdate), (''node.update'', NodeUpdate),
     (''node.reconcile'', NodeReconcile), (''binding.update'', BindingUpdate), (''entry.update'', EntryUpdate),
     (''request.cancel'', RequestCancel), (''request.stop'', RequestStop),
     (''allocation.terminate_pending'', TerminatePending), (''allocation.quarantine'', AllocationQuarantine)]"

definition named :: "uuid option \<Rightarrow> (uuid \<Rightarrow> 'a res) \<Rightarrow> 'a res" where
  "named i k = (case i of None \<Rightarrow> Inl (Invalid ''invalid input syntax for type uuid'') | Some i \<Rightarrow> k i)"

lemma named_Inr [result_simps]: "named i k = Inr x \<longleftrightarrow> (\<exists>j. i = Some j \<and> k j = Inr x)"
  by (cases i) (simp_all add: named_def)

text \<open>\<open>newID\<close> is the identifier \<open>NewID\<close> draws for a new game, preset or stop job.\<close>

fun admin_run :: "admin_op \<Rightarrow> uuid \<Rightarrow> AdminAction \<Rightarrow> uuid \<Rightarrow> time \<Rightarrow> db \<Rightarrow> db res" where
  "admin_run GameCreate adminID a newID now d = admin_game_create a newID d"
| "admin_run TemplateCreate adminID a newID now d = admin_template_create a d"
| "admin_run ContentCreate adminID a newID now d = admin_content_create a d"
| "admin_run PresetCreate adminID a newID now d = admin_preset_create a newID d"
| "admin_run TemplateBindingUpsert adminID a newID now d = admin_template_binding a d"
| "admin_run ContentValidate adminID a newID now d = admin_content_validate adminID a now d"
| "admin_run ContentPublish adminID a newID now d = admin_content_publish a now d"
| "admin_run GlobalUpdate adminID a newID now d = admin_global_update a d"
| "admin_run AnnouncementUpdate adminID a newID now d = admin_announcement a d"
| "admin_run GameUpdate adminID a newID now d = admin_game_update a d"
| "admin_run PresetUpdate adminID a newID now d = admin_preset_update a now d"
| "admin_run NodeUpdate adminID a newID now d = admin_node_update a d"
| "admin_run NodeReconcile adminID a newID now d = admin_node_reconcile a now d"
| "admin_run BindingUpdate adminID a newID now d = admin_binding_update a now d"
| "admin_run EntryUpdate adminID a newID now d = admin_entry_update adminID a now d"
| "admin_run RequestCancel adminID a newID now d = named (act_TargetID a) (\<lambda>i. admin_cancel i now d)"
| "admin_run RequestStop adminID a newID now d = named (act_TargetID a) (\<lambda>i. admin_stop i newID now d)"
| "admin_run TerminatePending adminID a newID now d = named (act_TargetID a) (\<lambda>i. terminate_pending i now d)"
| "admin_run AllocationQuarantine adminID a newID now d = named (act_TargetID a) (\<lambda>i. admin_quarantine i now d)"

definition uuids :: "uuid option \<Rightarrow> uuid list" where
  "uuids i = (case i of None \<Rightarrow> [] | Some i \<Rightarrow> [i])"

definition audit_target :: "admin_op \<Rightarrow> AdminAction \<Rightarrow> uuid \<Rightarrow> uuid list" where
  "audit_target p a newID = (if p = GameCreate \<or> p = PresetCreate then [newID]
     else if p = BindingUpdate then uuids (act_TargetID a) @ uuids (act_GameID a) else uuids (act_TargetID a))"

definition too_long :: "AdminAction \<Rightarrow> bool" where
  "too_long a \<longleftrightarrow> some_and (\<lambda>m. 1000 < length m) (act_Message a) \<or> 128 < length (act_DisplayName a)
     \<or> 128 < length (act_ContentVersionID a) \<or> 128 < length (act_TemplateRevisionID a)
     \<or> 128 < length (act_BindingKey a) \<or> 1000 < length (act_Description a)"

definition ApplyAdminAction :: "uuid \<Rightarrow> AdminAction \<Rightarrow> uuid \<Rightarrow> time \<Rightarrow> db \<Rightarrow> db res" where
  "ApplyAdminAction adminID a newID now d =
     rejectE (too_long a) ErrInvalidAdminAction (
     case map_of admin_ops (act_Action a) of
       None \<Rightarrow> Inl ErrInvalidAdminAction
     | Some p \<Rightarrow> bindE (admin_run p adminID a newID now d) (auditAdmin adminID (act_Action a) (audit_target p a newID)))"

section \<open>Catalogue actions leave the core alone\<close>

definition business_op :: "admin_op \<Rightarrow> bool" where
  "business_op p \<longleftrightarrow> p \<in> {RequestCancel, RequestStop, TerminatePending, AllocationQuarantine}"

lemma core_simps [simp]:
  "core (d\<lparr>games := gs\<rparr>) = core d" "core (d\<lparr>contents := cs\<rparr>) = core d" "core (d\<lparr>presets := ps\<rparr>) = core d"
  "core (d\<lparr>nodes := ns\<rparr>) = core d" "core (d\<lparr>revisions := rs\<rparr>) = core d" "core (d\<lparr>template_bindings := tb\<rparr>) = core d"
  "core (d\<lparr>content_bindings := cb\<rparr>) = core d" "core (d\<lparr>entries := en\<rparr>) = core d" "core (d\<lparr>reconciles := rc\<rparr>) = core d"
  "core (d\<lparr>content_validations := cl\<rparr>) = core d" "core (d\<lparr>announcement := m\<rparr>) = core d" "core (d\<lparr>audit := au\<rparr>) = core d"
  "core (d\<lparr>template_facts := tf\<rparr>) = core d" "core (d\<lparr>reports := rp\<rparr>) = core d" "core (d\<lparr>diagnostics := dg\<rparr>) = core d"
  "core (d\<lparr>releases := rl\<rparr>) = core d" "core (d\<lparr>release_presets := lp\<rparr>) = core d" "core (d\<lparr>i3_requests := iq\<rparr>) = core d"
  "core (d\<lparr>users := us\<rparr>) = core d" "core (d\<lparr>admins := ad\<rparr>) = core d" "core (d\<lparr>user_sessions := se\<rparr>) = core d"
  "core (d\<lparr>admin_sessions := se\<rparr>) = core d"
  by (simp_all add: core_def business_def)

lemmas creation_defs = admin_game_create_def admin_template_create_def admin_content_create_def admin_preset_create_def

lemma creations_core:
  "admin_game_create a newID d = Inr d' \<Longrightarrow> core d' = core d"
  "admin_template_create a d = Inr d' \<Longrightarrow> core d' = core d"
  "admin_content_create a d = Inr d' \<Longrightarrow> core d' = core d"
  "admin_preset_create a newID d = Inr d' \<Longrightarrow> core d' = core d"
  by (auto simp: creation_defs required_Inr rejectE_Inr)

lemma template_binding_core: "admin_template_binding a d = Inr d' \<Longrightarrow> core d' = core d"
  by (auto simp: admin_template_binding_def Let_def required_Inr rejectE_Inr bindE_Inr split: option.splits if_splits)

lemma content_core:
  "admin_content_validate ad a now d = Inr d' \<Longrightarrow> core d' = core d"
  "admin_content_publish a now d = Inr d' \<Longrightarrow> core d' = core d"
  by (auto simp: admin_content_validate_def admin_content_publish_def Let_def required_Inr rejectE_Inr bindE_Inr)

lemma settings_core:
  "admin_global_update a d = Inr d' \<Longrightarrow> core d' = core d"
  "admin_announcement a d = Inr d' \<Longrightarrow> core d' = core d"
  "admin_game_update a d = Inr d' \<Longrightarrow> core d' = core d"
  "admin_preset_update a now d = Inr d' \<Longrightarrow> core d' = core d"
  by (auto simp: admin_global_update_def admin_announcement_def admin_game_update_def admin_preset_update_def core_def
      business_def required_Inr rejectE_Inr bindE_Inr split: option.splits)

lemma node_core:
  "admin_node_update a d = Inr d' \<Longrightarrow> core d' = core d"
  "admin_node_reconcile a now d = Inr d' \<Longrightarrow> core d' = core d"
  "admin_binding_update a now d = Inr d' \<Longrightarrow> core d' = core d"
  "admin_entry_update ad a now d = Inr d' \<Longrightarrow> core d' = core d"
  by (auto simp: admin_node_update_def admin_node_reconcile_def admin_binding_update_def admin_entry_update_def Let_def
      required_Inr rejectE_Inr bindE_Inr split: option.splits)

lemmas action_cores = creations_core template_binding_core content_core settings_core node_core

lemma admin_run_core:
  assumes "admin_run p adminID a newID now d = Inr d'" "\<not> business_op p"
  shows "core d' = core d"
  using assms by (cases p) (simp_all add: business_op_def action_cores)

section \<open>Actions on requests and attempts are sound\<close>

lemma sound_admin_cancel:
  assumes "admin_cancel i now d = Inr d'"
  shows "sound_step d d'"
  using admin_cancel_cases [OF assms]
proof (elim exE conjE)
  fix r assume r: "r \<in> set (requests d)" "rq_id r = i" "rq_state r = RWaiting" and w: "set_request_state i RCancelled now d = Inr d'"
  show ?thesis
  proof (rule sound_set_request [OF w])
    fix x assume "inv d" "x \<in> set (requests d)" "rq_id x = i"
    then show "rq_state x \<noteq> RAbandoned" using request_key [of d r x] r by simp
  qed
qed

lemma sound_admin_stop:
  assumes "admin_stop i newJob now d = Inr d'" "linked None d"
  shows "sound_step d d'"
  using admin_stop_cases [OF assms(1)]
proof (elim exE conjE)
  fix r a c d1
  assume r: "r \<in> set (requests d)" "rq_id r = i" and a: "a \<in> set (allocs d)" "al_request a = Some i"
    "al_state a \<in> {ARunning, AQuarantined}"
    and p: "put_jobs (jobs d @ [new_job newJob (al_node a) KStop False (Some (al_id a))
              (Some (coalesce (jb_instance c) [])) (jb_capability c) now]) d = Inr d1"
    and w: "(if rq_state r = RRunning
        then bindE (set_alloc (al_id a) (al_state_update (\<lambda>_. AStopping)) d1) (set_request_state i RStopping now)
        else Inr d1) = Inr d'"
  have same: "allocs d1 = allocs d" "requests d1 = requests d" using p by (simp_all add: put_Inr)
  show ?thesis
  proof (rule sound_then [OF sound_append_jobs [OF p]])
    assume i: "inv d"
    show "sound_step d1 d'"
    proof (cases "rq_state r = RRunning")
      case True
      with w obtain d2 where s1: "set_alloc (al_id a) (al_state_update (\<lambda>_. AStopping)) d1 = Inr d2"
        and s2: "set_request_state i RStopping now d2 = Inr d'" by (auto simp: bindE_Inr)
      have "agree RRunning (al_state a)" using linked_live [OF i assms(2) a(1) _ r(1)] a(2) r(2) True by simp
      then have run: "al_state a = ARunning" using a(3) by auto
      have "sound_step d1 d2"
      proof (rule sound_alloc_to [OF s1])
        fix x assume "x \<in> set (allocs d1)" "al_id x = al_id a"
        then have "x = a" using alloc_key [OF i a(1)] same by simp
        then show "\<not> terminal_alloc (al_state x) \<and> (al_run x \<noteq> None \<or> al_state x \<noteq> AQuarantined)"
          using run by (simp add: terminal_alloc_def)
      qed
      moreover have "sound_step d2 d'"
      proof (rule sound_set_request [OF s2])
        fix x assume "x \<in> set (requests d2)" "rq_id x = i"
        then have "x = r" using request_key [OF i r(1)] r(2) same insert_stop_requests(2) [OF s1] by simp
        then show "rq_state x \<noteq> RAbandoned" using True by simp
      qed
      ultimately show ?thesis by (rule sound_trans)
    qed (use w in simp)
  qed
qed

lemma sound_terminate:
  assumes "terminate_pending i now d = Inr d'" "linked None d"
  shows "sound_step d d'"
  using terminate_cases [OF assms(1)]
proof (elim disjE exE conjE)
  fix a j assume a: "a \<in> set (allocs d)" "al_state a = AReserved" and j: "j \<in> set (jobs d)" "jb_state j = JPending"
    and w: "terminate_writes a j now d = Inr d'"
  let ?f = "\<lambda>a. a\<lparr>al_state := AReleasedNoEffect, al_error := Some pending_terminated\<rparr>"
  obtain rp d1 d2 d3 where
    s1: "put_jobs (upd_where (\<lambda>i. jb_id i = jb_id j) (\<lambda>i. i\<lparr>jb_state := JRejectedNoEffect,
              jb_error := Some pending_terminated, jb_stage := Some ''dispatch''\<rparr>) (jobs d)) d = Inr d1"
    and s2: "set_alloc (al_id a) ?f (d1\<lparr>job_reports := rp\<rparr>) = Inr d2"
    and s3: "(case al_request a of None \<Rightarrow> Inr d2 | Some r \<Rightarrow> set_request_state r RUnavailable now d2) = Inr d3"
    and s4: "(case al_run a of None \<Rightarrow> Inr d3 | Some v \<Rightarrow>
        advanceValidationFromJob v KCreate JRejectedNoEffect AReleasedNoEffect pending_terminated False now d3) = Inr d'"
    using w unfolding terminate_writes_def bindE_Inr Let_def by blast
  have same: "allocs d1 = allocs d" "requests d1 = requests d" using s1 by (simp_all add: put_Inr)
  have 1: "sound_step d d1"
  proof (rule sound_upd_jobs [OF s1])
    fix x assume "inv d" "x \<in> set (jobs d)" "jb_id x = jb_id j"
    then have "x = j" using job_key j(1) by blast
    then show "job_evolves x (x\<lparr>jb_state := JRejectedNoEffect, jb_error := Some pending_terminated, jb_stage := Some ''dispatch''\<rparr>)"
      using j(2) by (simp add: job_evolves_def job_identity_def write_once_def job_state_evolves_def terminal_job_def)
  qed
  have 2: "sound_step d1 (d1\<lparr>job_reports := rp\<rparr>)" by (rule sound_business) (simp add: business_def)
  show ?thesis
  proof (rule sound_then [OF sound_trans [OF 1 2]])
    assume i: "inv d"
    have at: "x = a" if "x \<in> set (allocs d)" "al_id x = al_id a" for x using alloc_key [OF i a(1) that] .
    have 3: "sound_step (d1\<lparr>job_reports := rp\<rparr>) d2"
    proof (rule sound_set_alloc [OF s2])
      fix x assume "x \<in> set (allocs (d1\<lparr>job_reports := rp\<rparr>))" "al_id x = al_id a"
      then have "x = a" using at same by simp
      then show "alloc_evolves x (?f x)"
        using a(2) by (intro alloc_evolves_state) (simp_all add: alloc_identity_def terminal_alloc_def)
    qed
    have 4: "sound_step d2 d3 \<and> allocs d3 = allocs d2"
    proof (cases "al_request a")
      case (Some q)
      then have s: "set_request_state q RUnavailable now d2 = Inr d3" using s3 by simp
      have "sound_step d2 d3"
      proof (rule sound_set_request [OF s])
        fix x assume "x \<in> set (requests d2)" "rq_id x = q"
        then have "x \<in> set (requests d)" "al_request a = Some (rq_id x)"
          using same insert_stop_requests(2) [OF s2] Some by simp_all
        then show "rq_state x \<noteq> RAbandoned" using linked_live [OF i assms(2) a(1)] a(2) by fastforce
      qed
      then show ?thesis using keeps_allocs(2) [OF s] by simp
    qed (use s3 in simp)
    have 5: "sound_step d3 d'"
    proof (cases "al_run a")
      case (Some v)
      then have s: "advanceValidationFromJob v KCreate JRejectedNoEffect AReleasedNoEffect pending_terminated False now d3 = Inr d'"
        using s4 by simp
      show ?thesis
      proof (rule sound_advance_job [OF s])
        fix b assume "b \<in> set (allocs d3)" and rb: "al_run b = Some v"
        then have "b \<in> set (upd_where (\<lambda>x. al_id x = al_id a) ?f (allocs d))"
          using 4 s2 same by (simp add: set_alloc_def put_Inr)
        then show "terminal_alloc (al_state b)"
        proof (cases rule: in_upd_whereE)
          case 2
          then have "b = a" using alloc_of_run [OF i a(1) _ Some rb] by blast
          then show ?thesis using 2 by simp
        qed (simp add: terminal_alloc_def)
      qed
    qed (use s4 in simp)
    show "sound_step (d1\<lparr>job_reports := rp\<rparr>) d'" using 3 4 5 sound_trans by blast
  qed
qed simp

lemma sound_admin_quarantine:
  assumes "admin_quarantine i now d = Inr d'"
  shows "sound_step d d'"
  using admin_quarantine_cases [OF assms]
proof (elim disjE exE conjE)
  fix a d1 assume a: "a \<in> set (allocs d)" "al_id a = i" "\<not> terminal_alloc (al_state a)"
    and s1: "set_alloc i (\<lambda>a. a\<lparr>al_state := AQuarantined, al_error := Some ''MANUAL_QUARANTINE'',
              al_quarantined := Some (coalesce (al_quarantined a) now)\<rparr>) d = Inr d1"
    and s2: "quarantine_owner a now d1 = Inr d'"
  have live: "\<not> terminal_alloc (al_state x)" if "inv d" "x \<in> set (allocs d)" "al_id x = i" for x
    using alloc_key [OF that(1) a(1) that(2)] that(3) a(2,3) by simp
  have "sound_step d d1"
    by (rule sound_quarantine_write [OF s1]) (use live in \<open>simp_all add: alloc_identity_def\<close>)
  then show ?thesis using sound_quarantine_owner [OF s2] sound_trans by blast
qed simp

section \<open>Every administrator action\<close>

lemma core_business: "core d' = core d \<Longrightarrow> business d' = business d"
  by (simp add: core_def)

lemma auditAdmin_core: "auditAdmin ad ac t d = Inr d' \<Longrightarrow> core d' = core d"
  by (auto simp: auditAdmin_def rejectE_Inr)

text \<open>A committed action: a catalogue action, or one of the four, and then its audit record.\<close>

lemma admin_action_cases:
  assumes "ApplyAdminAction adminID a newID now d = Inr d'"
  obtains (catalogue) "core d' = core d"
    | (cancel) i t e where "admin_cancel i now d = Inr e" "auditAdmin adminID (act_Action a) t e = Inr d'"
    | (stop) i t e where "admin_stop i newID now d = Inr e" "auditAdmin adminID (act_Action a) t e = Inr d'"
    | (terminate) i t e where "terminate_pending i now d = Inr e" "auditAdmin adminID (act_Action a) t e = Inr d'"
    | (quarantine) i t e where "admin_quarantine i now d = Inr e" "auditAdmin adminID (act_Action a) t e = Inr d'"
proof -
  from assms obtain p e where r: "admin_run p adminID a newID now d = Inr e"
    and au: "auditAdmin adminID (act_Action a) (audit_target p a newID) e = Inr d'"
    by (auto simp: ApplyAdminAction_def rejectE_Inr bindE_Inr split: option.splits)
  show ?thesis
  proof (cases "business_op p")
    case False
    then show ?thesis using admin_run_core [OF r] auditAdmin_core [OF au] catalogue by simp
  next
    case True
    then consider "p = RequestCancel" | "p = RequestStop" | "p = TerminatePending" | "p = AllocationQuarantine"
      by (auto simp: business_op_def)
    then show ?thesis by cases (use r au that in \<open>auto simp: named_Inr\<close>)
  qed
qed

lemma sound_audited: "sound_step d e \<Longrightarrow> auditAdmin ad ac t e = Inr d' \<Longrightarrow> sound_step d d'"
  using sound_trans sound_auditAdmin by blast

lemma sound_admin_action:
  assumes "ApplyAdminAction adminID a newID now d = Inr d'" "linked None d"
  shows "sound_step d d'"
  using assms(1)
proof (cases rule: admin_action_cases)
  case catalogue
  then show ?thesis by (intro sound_business core_business)
qed (use assms(2) in \<open>blast intro: sound_audited sound_admin_cancel sound_admin_stop sound_terminate sound_admin_quarantine\<close>)+

lemma linked_admin_action:
  assumes "ApplyAdminAction adminID a newID now d = Inr d'" "inv d" "linked None d"
  shows "linked None d'"
  using assms(1)
proof (cases rule: admin_action_cases)
  case catalogue
  then show ?thesis using linked_business [OF core_business] assms(3) by blast
qed (use assms(2,3) in \<open>blast dest: linked_admin_cancel linked_admin_stop linked_terminate linked_admin_quarantine
      linked_auditAdmin [THEN iffD2]\<close>)+

end
