(* ===== verification/System.thy ===== *)
theory System
  imports AdminActions
begin

text \<open>
  The server as a transition system: one rule per store operation that commits, and the rule
  \<open>catalogue\<close> for everything else that writes (accounts, releases, nodes and the facts that nodes
  report), which leaves requests, allocations, jobs, frozen creates, intents, runs, parties, members and
  invites alone.  An operation that returns an error rolls back and is no step.
\<close>

section \<open>Steps\<close>

inductive store_step :: "db \<Rightarrow> db \<Rightarrow> bool" where
  catalogue: "core d' = core d \<Longrightarrow> store_step d d'"
| create_request: "CreateUserRequestSelected u g p m mn newID now d = Inr (r, created, d') \<Longrightarrow> store_step d d'"
| cancel_request: "CancelUserRequest u i now d = Inr d' \<Longrightarrow> store_step d d'"
| schedule: "TryAllocateOne newAlloc newJob now d = Inr (b, d') \<Longrightarrow> store_step d d'"
| stop_request: "stopUserRequest u i nextGame newJob now d = Inr (r, d') \<Longrightarrow> store_step d d'"
| abandon: "AbandonQuarantinedUserRequest u i newReq now d = Inr (r, d') \<Longrightarrow> store_step d d'"
| quarantine: "QuarantineOneUnreachable now d = Inr (b, d') \<Longrightarrow> store_step d d'"
| mark: "MarkAllocationQuarantined i now d = Inr d' \<Longrightarrow> store_step d d'"
| integration: "CreateIntegrationJob n k inst newID now d = Inr d' \<Longrightarrow> store_step d d'"
| integration_create: "CreateIntegrationCreateJob n key port newID now d = Inr d' \<Longrightarrow> store_step d d'"
| claim: "claimNextJob n independent cap now d = Inr (job, d') \<Longrightarrow> store_step d d'"
| prepare: "prepareCreate n i t port alg sha now d = Inr (e, d') \<Longrightarrow> store_step d d'"
| begin_operation: "BeginOperation n i input newReq newJob now d = Inr (job', d') \<Longrightarrow> store_step d d'"
| report: "ReportJob n i rep newReq newJob now d = Inr (job', d') \<Longrightarrow> store_step d d'"
| observe: "ReportInstanceFact n i f newReq newJob now d = Inr d' \<Longrightarrow> store_step d d'"
| reserve_validation: "ReserveValidation c runID newAlloc newJob now d = Inr (i, d') \<Longrightarrow> store_step d d'"
| confirm: "ConfirmValidationHuman i ad res ex stopID now d = Inr d' \<Longrightarrow> store_step d d'"
| stop_validation: "StopValidation i ad ex stopID now d = Inr d' \<Longrightarrow> store_step d d'"
| finalize_failure: "FinalizeValidationFailure i why d = Inr d' \<Longrightarrow> store_step d d'"
| finalize_run: "FinalizeValidationRun i now d = Inr d' \<Longrightarrow> store_step d d'"
| admin: "ApplyAdminAction adminID a newID now d = Inr d' \<Longrightarrow> store_step d d'"
| party_size: "ConfigurePartySize sz d = Inr d' \<Longrightarrow> store_step d d'"
| create_party: "CreateParty u p iv raw now d = Inr (p', d') \<Longrightarrow> store_step d d'"
| join_party: "JoinParty u token now d = Inr (p, d') \<Longrightarrow> store_step d d'"
| reset_invite: "ResetInvite u iv raw now d = Inr (pt, d') \<Longrightarrow> store_step d d'"
| leave_party: "LeaveParty u d = Inr d' \<Longrightarrow> store_step d d'"
| remove_party_member: "RemovePartyMember l u d = Inr d' \<Longrightarrow> store_step d d'"
| disband: "DisbandParty u now d = Inr d' \<Longrightarrow> store_step d d'"

text \<open>Operations that only touch catalogue tables are instances of the rule \<open>catalogue\<close>.\<close>

lemma BeginScopedMaintenance_core:
  assumes "BeginScopedMaintenance n g ad q why e d = Inr (ep, d')"
  shows "core d' = core d"
proof -
  have "core d' = core (d\<lparr>content_bindings := cb, maint_requests := mq\<rparr>)"
    if "auditAdmin ad ac t (d\<lparr>content_bindings := cb, maint_requests := mq\<rparr>) = Inr d'" for ac t cb mq
    using auditAdmin_core [OF that] .
  then show ?thesis using assms
    by (fastforce simp: BeginScopedMaintenance_def Let_def bindE_Inr rejectE_Inr core_def business_def split: option.splits)
qed

lemma UpsertTemplateBinding_core: "UpsertTemplateBinding n tr key fp gen d = Inr (g', d') \<Longrightarrow> core d' = core d"
  by (auto simp: UpsertTemplateBinding_def bindE_Inr rejectE_Inr core_def business_def split: option.splits if_splits)

lemma upsert_template_fact_core: "core (upsert_template_fact n tr key conf alg fp now d) = core d"
  by (simp add: upsert_template_fact_def core_def business_def)

lemma RecordTemplateFact_core:
  assumes "RecordTemplateFact n tr key s alg fp now d = Inr (g', d')"
  shows "core d' = core d"
proof -
  from assms have "\<exists>conf. d' = upsert_template_fact n tr (if conf then Some key else None) conf
      (if conf then Some alg else None) (if conf then Some fp else None) now d"
    unfolding RecordTemplateFact_def Let_def bindE_Inr rejectE_Inr by blast
  then show ?thesis using upsert_template_fact_core by blast
qed

lemma RecordInventory_core: "RecordInventory n sc c e xs now d = Inr (s, d') \<Longrightarrow> core d' = core d"
  by (auto simp: RecordInventory_def Let_def bindE_Inr rejectE_Inr core_def business_def)

lemma ConfigureQuarantineThreshold_core: "ConfigureQuarantineThreshold t d = Inr d' \<Longrightarrow> core d' = core d"
  by (auto simp: ConfigureQuarantineThreshold_def rejectE_Inr core_def business_def)

section \<open>Party operations leave the business tables alone\<close>

lemma party_business:
  "ConfigurePartySize sz d = Inr d' \<Longrightarrow> business d' = business d"
  "remove_member p u d = Inr d' \<Longrightarrow> business d' = business d"
  "revoke_invites p now d = Inr d' \<Longrightarrow> business d' = business d"
  by (auto simp: ConfigurePartySize_def remove_member_def revoke_invites_def result_simps business_def)

lemma CreateParty_business: "CreateParty u p iv raw now d = Inr (p', d') \<Longrightarrow> business d' = business d"
  by (auto simp: CreateParty_def result_simps business_def)

lemma JoinParty_business: "JoinParty u token now d = Inr (p, d') \<Longrightarrow> business d' = business d"
  by (auto simp: JoinParty_def result_simps business_def split: option.splits)

lemma ResetInvite_business: "ResetInvite u iv raw now d = Inr (pt, d') \<Longrightarrow> business d' = business d"
  by (auto simp: ResetInvite_def revoke_invites_def result_simps business_def split: option.splits)

lemma LeaveParty_business: "LeaveParty u d = Inr d' \<Longrightarrow> business d' = business d"
  by (auto simp: LeaveParty_def bindE_Inr rejectE_Inr intro: party_business(2) split: option.splits)

lemma RemovePartyMember_business: "RemovePartyMember l u d = Inr d' \<Longrightarrow> business d' = business d"
  by (auto simp: RemovePartyMember_def bindE_Inr rejectE_Inr intro: party_business(2) split: option.splits)

lemma DisbandParty_business: "DisbandParty u now d = Inr d' \<Longrightarrow> business d' = business d"
  by (auto simp: DisbandParty_def revoke_invites_def result_simps business_def split: option.splits)

lemmas business_steps = party_business(1) CreateParty_business JoinParty_business ResetInvite_business
  LeaveParty_business RemovePartyMember_business DisbandParty_business core_business

lemmas sound_operations = sound_CreateUserRequestSelected sound_CancelUserRequest sound_TryAllocateOne
  sound_stopUserRequest sound_Abandon sound_QuarantineOneUnreachable sound_MarkAllocationQuarantined
  sound_CreateIntegrationJob sound_CreateIntegrationCreateJob sound_claimNextJob sound_prepareCreate
  sound_BeginOperation sound_ReportJob sound_ReportInstanceFact sound_ReserveValidation sound_Confirm
  sound_StopValidation sound_FinalizeFailure sound_FinalizeRun

lemmas linked_operations = linked_CreateUserRequestSelected linked_CancelUserRequest linked_TryAllocateOne
  linked_stopUserRequest linked_Abandon linked_QuarantineOneUnreachable linked_MarkAllocationQuarantined
  linked_integration [THEN iffD2] linked_claimNextJob [THEN iffD2] linked_prepareCreate linked_BeginOperation
  linked_ReportJob linked_ReportInstanceFact linked_ReserveValidation linked_Confirm linked_StopValidation
  linked_FinalizeFailure [THEN iffD2] linked_FinalizeRun [THEN iffD2] linked_admin_action

section \<open>Every step is sound and keeps requests and attempts in agreement\<close>

lemma sound_store_step:
  assumes "store_step d d'" "linked None d"
  shows "sound_step d d'"
  using assms(1)
proof (cases rule: store_step.cases)
  case admin
  then show ?thesis using sound_admin_action assms(2) by blast
qed (erule sound_operations | rule sound_business, erule business_steps)+

lemma linked_store_step:
  assumes "store_step d d'" "inv d" "linked None d"
  shows "linked None d'"
  using assms(1)
  by (cases rule: store_step.cases)
    (erule linked_operations | rule linked_business [THEN iffD2, OF _ assms(3)], erule business_steps | rule assms)+

lemma store_steps_keep:
  assumes "store_step\<^sup>*\<^sup>* d d'" "inv d" "linked None d"
  shows "inv d' \<and> evolves d d' \<and> linked None d'"
  using assms(1)
proof (induction rule: rtranclp_induct)
  case base
  then show ?case using assms(2,3) evolves_refl by blast
next
  case (step y z)
  then show ?case using sound_store_step [OF step.hyps(2)] linked_store_step [OF step.hyps(2)] evolves_trans
    unfolding sound_step_def by blast
qed

definition empty_business :: "db \<Rightarrow> bool" where
  "empty_business d \<longleftrightarrow> business d = ([], [], [], [], [], []) \<and> parties d = [] \<and> members d = [] \<and> invites d = []"

definition reachable :: "db \<Rightarrow> bool" where
  "reachable d \<longleftrightarrow> (\<exists>d0. empty_business d0 \<and> store_step\<^sup>*\<^sup>* d0 d)"

lemma empty_inv: "empty_business d \<Longrightarrow> inv d"
  by (simp add: empty_business_def business_def inv_def schema_ok_def runs_settled_def requests_ok_def allocs_ok_def
      jobs_ok_def executions_ok_def intents_ok_def runs_ok_def)

lemma empty_linked: "empty_business d \<Longrightarrow> linked None d"
  by (simp add: empty_business_def business_def linked_def)

lemma reachable_inv: "reachable d \<Longrightarrow> inv d"
  unfolding reachable_def using store_steps_keep empty_inv empty_linked by blast

lemma reachable_linked: "reachable d \<Longrightarrow> linked None d"
  unfolding reachable_def using store_steps_keep empty_inv empty_linked by blast

lemma reachable_step: "reachable d \<Longrightarrow> store_step d d' \<Longrightarrow> reachable d'"
  unfolding reachable_def by (meson rtranclp.rtrancl_into_rtrancl)

lemma reachable_steps: "reachable d \<Longrightarrow> store_step\<^sup>*\<^sup>* d d' \<Longrightarrow> reachable d'"
  unfolding reachable_def by (meson rtranclp_trans)

lemma reachable_evolves: "reachable d \<Longrightarrow> store_step\<^sup>*\<^sup>* d d' \<Longrightarrow> evolves d d'"
  using store_steps_keep reachable_inv reachable_linked by blast

end
