(* ===== verification/Frames.thy ===== *)
theory Frames
  imports System
begin

text \<open>
  What every operation except a reservation and a PASS leaves alone, proved once for any relation that
  the single writes respect (locale \<open>writes\<close>), and instantiated twice: no attempt is added and no run
  becomes passed; the catalogue tables are unchanged.
\<close>

section \<open>Writes\<close>

locale writes =
  fixes W :: "db \<Rightarrow> db \<Rightarrow> bool"
  assumes W_refl: "W d d"
    and W_trans: "W d d1 \<Longrightarrow> W d1 d2 \<Longrightarrow> W d d2"
    and W_requests: "W d (d\<lparr>requests := rs\<rparr>)"
    and W_jobs: "W d (d\<lparr>jobs := js\<rparr>)"
    and W_executions: "W d (d\<lparr>executions := es\<rparr>)"
    and W_intents: "W d (d\<lparr>intents := ns\<rparr>)"
    and W_facts: "W d (d\<lparr>facts := fs\<rparr>)"
    and W_job_reports: "W d (d\<lparr>job_reports := rps\<rparr>)"
    and W_audit: "W d (d\<lparr>audit := au\<rparr>)"
    and W_allocs: "W d (d\<lparr>allocs := upd_where P f (allocs d)\<rparr>)"
    and W_runs: "(\<And>v. vr_state (g v) \<noteq> VPassed) \<Longrightarrow> W d (d\<lparr>runs := upd_where Q g (runs d)\<rparr>)"
begin

lemma W_trans3: "W d e \<Longrightarrow> W e f \<Longrightarrow> W f g \<Longrightarrow> W d g"
  using W_trans by blast

lemma W_trans4: "W d e \<Longrightarrow> W e f \<Longrightarrow> W f g \<Longrightarrow> W g h \<Longrightarrow> W d h"
  using W_trans by blast

subsection \<open>Statements\<close>

lemma W_put:
  "put_requests rs d = Inr d' \<Longrightarrow> W d d'"
  "put_jobs js d = Inr d' \<Longrightarrow> W d d'"
  "put_executions es d = Inr d' \<Longrightarrow> W d d'"
  "put_intents ns d = Inr d' \<Longrightarrow> W d d'"
  "put_allocs (upd_where P f (allocs d)) d = Inr d' \<Longrightarrow> W d d'"
  by (auto simp: put_Inr intro: W_requests W_jobs W_executions W_intents W_allocs)

lemma W_put_runs:
  assumes "put_runs (upd_where Q g (runs d)) d = Inr d'" "\<And>v. vr_state (g v) \<noteq> VPassed"
  shows "W d d'"
  using assms by (simp add: put_Inr W_runs)

lemma W_set:
  "set_alloc i f d = Inr d' \<Longrightarrow> W d d'"
  "set_request_state r s now d = Inr d' \<Longrightarrow> W d d'"
  "set_live_request_state r s now d = Inr d' \<Longrightarrow> W d d'"
  "pauseNextGameIntent r d = Inr d' \<Longrightarrow> W d d'"
  "abandon_writes r now d = Inr d' \<Longrightarrow> W d d'"
  unfolding set_alloc_def set_request_state_def set_live_request_state_def pauseNextGameIntent_def abandon_writes_def
  by (erule W_put)+

lemma W_consume_pending:
  assumes "consume_pending src newID now r d = Inr d'"
  shows "W d d'"
  using assms W_put(1,4) W_trans
  by (auto simp: consume_pending_def bindE_Inr split: sum.splits if_splits) blast+

lemma W_consume: "consumeNextGameIntent src after newID now d = Inr d' \<Longrightarrow> W d d'"
  using consume_cases W_consume_pending W_refl by blast

lemma W_advance_job:
  assumes "advanceValidationFromJob r k s a e h now d = Inr d'"
  shows "W d d'"
proof -
  have n: "next_from_job c hu k s a h \<noteq> Some VPassed" for c hu
    by (simp add: next_from_job_def split: job_kind.splits job_state.splits)
  have "d' = d \<or> (\<exists>m. m \<noteq> VPassed \<and> put_runs (upd_where (\<lambda>v. vr_id v = r) (write_run_from_job m e now) (runs d)) d = Inr d')"
    using assms n by (auto simp: advanceValidationFromJob_def bindE_Inr split: if_splits option.splits) metis
  then show ?thesis using W_put_runs W_refl by (auto simp: write_run_from_job_def)
qed

lemma W_advance_fact:
  assumes "advanceValidationFromFact r f h now d = Inr d'"
  shows "W d d'"
proof -
  have n: "next_from_fact c f h \<noteq> Some VPassed" for c by (simp add: next_from_fact_def split: run_fact.splits)
  have "d' = d \<or> (\<exists>m. m \<noteq> VPassed \<and> put_runs (upd_where (\<lambda>v. vr_id v = r) (write_run_from_fact m now) (runs d)) d = Inr d')"
    using assms n by (auto simp: advanceValidationFromFact_def bindE_Inr split: if_splits option.splits) metis
  then show ?thesis using W_put_runs W_refl by (auto simp: write_run_from_fact_def)
qed

lemma W_stops:
  "insert_stop j n a i now d = Inr d' \<Longrightarrow> W d d'"
  "insert_owner_stop j n a i now d = Inr d' \<Longrightarrow> W d d'"
  "insert_validation_stop j n a i now d = Inr d' \<Longrightarrow> W d d'"
  using W_put(2) W_refl
  by (auto simp: insert_stop_def insert_owner_stop_def insert_validation_stop_def split: option.splits if_splits)

lemma W_audits: "auditAdmin ad ac t d = Inr d' \<Longrightarrow> W d d'" "W d (write_audit k ac i d)"
  by (auto simp: auditAdmin_def rejectE_Inr write_audit_def intro: W_audit)

lemma W_set_run:
  assumes "set_run i g d = Inr d'" "\<And>v. vr_state (g v) \<noteq> VPassed"
  shows "W d d'"
  using assms unfolding set_run_def by (rule W_put_runs)

end

section \<open>Operations\<close>

context writes
begin

subsection \<open>Reports and observed facts\<close>

lemma W_record_join: "record_join a n k s j je now d = Inr (b, d') \<Longrightarrow> W d d'"
  using record_join_cases W_set(1) W_refl by blast

lemma W_effectful_stop:
  assumes "effectful_create_stop a n q k s i e newJob now d = Inr d'"
  shows "W d d'"
proof (cases "k = KCreate \<and> s = JFailedWithEffect \<and> i \<noteq> [] \<and> e \<noteq> ''IDENTITY_UNVERIFIED''")
  case True
  with assms obtain d1 d2 where "insert_stop newJob n a i now d = Inr d1"
    and "set_alloc a (al_state_update (\<lambda>_. AStopping)) d1 = Inr d2"
    and l: "(case q of None \<Rightarrow> Inr d2 | Some r \<Rightarrow> set_live_request_state r RStopping now d2) = Inr d'"
    by (auto simp: effectful_create_stop_def bindE_Inr)
  then have "W d d1" "W d1 d2" using W_stops(1) W_set(1) by blast+
  moreover have "W d2 d'" using l W_set(3) W_refl by (auto split: option.splits)
  ultimately show ?thesis by (rule W_trans3)
next
  case False
  then have "d' = d" using assms unfolding effectful_create_stop_def by (simp split: if_splits)
  then show ?thesis by (simp add: W_refl)
qed

lemma W_report_owner:
  assumes "report_owner a k s e jd x rs newReq now d = Inr d'"
  shows "W d d'"
proof -
  from assms obtain d1 d2 where
    s1: "(case al_request a of None \<Rightarrow> Inr d | Some r \<Rightarrow> set_live_request_state r rs now d) = Inr d1"
    and s2: "(case al_run a of None \<Rightarrow> Inr d1 | Some v \<Rightarrow> advanceValidationFromJob v k s x e jd now d1) = Inr d2"
    and s3: "(case al_request a of None \<Rightarrow> Inr d2 | Some r \<Rightarrow>
         bindE (if x = AQuarantined then pauseNextGameIntent r d2 else Inr d2) (\<lambda>d.
         if k = KStop \<and> s = JSucceeded \<and> al_state a \<noteq> AQuarantined
         then consumeNextGameIntent r False newReq now d else Inr d)) = Inr d'"
    unfolding report_owner_def bindE_Inr by blast
  have "W d d1" using s1 W_set(3) W_refl by (auto split: option.splits)
  moreover have "W d1 d2" using s2 W_advance_job W_refl by (auto split: option.splits)
  moreover have "W d2 d'"
  proof (cases "al_request a")
    case (Some r)
    with s3 obtain d3 where p: "(if x = AQuarantined then pauseNextGameIntent r d2 else Inr d2) = Inr d3"
      and c: "(if k = KStop \<and> s = JSucceeded \<and> al_state a \<noteq> AQuarantined
         then consumeNextGameIntent r False newReq now d3 else Inr d3) = Inr d'"
      by (auto simp: bindE_Inr)
    have "W d2 d3" using p W_set(4) W_refl by (auto split: if_splits)
    moreover have "W d3 d'" using c W_consume W_refl by (auto split: if_splits)
    ultimately show ?thesis by (rule W_trans)
  qed (use s3 W_refl in simp)
  ultimately show ?thesis by (rule W_trans3)
qed

lemma W_applyReport:
  assumes "applyAllocationJobReport i n k s inst e j je newReq newJob now d = Inr d'"
  shows "W d d'"
proof -
  have "d' = d \<or> (\<exists>a x rs. apply_effect a n k s inst e j je x rs newReq newJob now d = Inr d')"
    using applyAllocationJobReport_cases [OF assms] by blast
  then show ?thesis
  proof (elim disjE exE)
    fix a x rs assume "apply_effect a n k s inst e j je x rs newReq newJob now d = Inr d'"
    then obtain d1 jd d2 d3 where "set_alloc (al_id a) (write_alloc_state x e now) d = Inr d1"
      and "record_join (al_id a) n k s j je now d1 = Inr (jd, d2)"
      and "report_owner a k s e jd x rs newReq now d2 = Inr d3"
      and "effectful_create_stop (al_id a) n (al_request a) k s inst e newJob now d3 = Inr d'"
      by (auto simp: apply_effect_def bindE_Inr)
    then show ?thesis
      by (rule W_trans4 [OF W_set(1) W_record_join W_report_owner W_effectful_stop])
  qed (simp add: W_refl)
qed

lemma W_apply_report:
  assumes "apply_report j r n newReq newJob now d = Inr d'"
  shows "W d d'"
proof -
  let ?i = "merge_id (coalesce (jb_instance j) []) (rp_InstanceID r)"
  from assms obtain js d1 d2 rs where s1: "put_jobs js d = Inr d1"
    and s2: "(case jb_alloc j of None \<Rightarrow> Inr d1
            | Some a \<Rightarrow> applyAllocationJobReport a n (jb_kind j) (rp_State r) ?i (rp_ErrorCode r)
                (rp_JoinInfo r) (rp_JoinInfoErrorCode r) newReq newJob now d1) = Inr d2"
    and s3: "d' = d2\<lparr>job_reports := rs\<rparr>"
    by (auto simp: apply_report_def Let_def bindE_Inr)
  have "W d d1" by (rule W_put(2) [OF s1])
  moreover have "W d1 d2" using s2 W_applyReport W_refl by (auto split: option.splits)
  moreover have "W d2 d'" by (simp add: s3 W_job_reports)
  ultimately show ?thesis by (rule W_trans3)
qed

lemma W_commit: "reportJob_commit n i r st newReq newJob now d = Inr d' \<Longrightarrow> W d d'"
  using reportJob_commit_cases report_locked_cases W_apply_report W_refl by metis

lemma W_ReportJob: "ReportJob n i r newReq newJob now d = Inr (job, d') \<Longrightarrow> W d d'"
  by (auto simp: ReportJob_def reportJob_def bindE_Inr intro: W_commit)

lemma W_BeginOperation: "BeginOperation n i input newReq newJob now d = Inr (job, d') \<Longrightarrow> W d d'"
  by (auto simp: BeginOperation_def reportJob_def bindE_Inr intro: W_commit)

lemma W_fact_reclaimed:
  assumes "fact_reclaimed a f newReq now d = Inr d'"
  shows "W d d'"
proof -
  from assms obtain g d1 d2 where s1: "set_alloc (al_id a) g d = Inr d1"
    and s2: "(case al_request a of Some r \<Rightarrow> if paused_intent r d1 then Inr d1
        else bindE (set_live_request_state r REnded now d1) (consumeNextGameIntent r False newReq now) | None \<Rightarrow> Inr d1) = Inr d2"
    and s3: "(case al_run a of None \<Rightarrow> Inr d2
        | Some v \<Rightarrow> advanceValidationFromFact v FactReclaimed (if_JoinInfo f \<noteq> None) now d2) = Inr d'"
    unfolding fact_reclaimed_def bindE_Inr by blast
  have "W d d1" by (rule W_set(1) [OF s1])
  moreover have "W d1 d2" using s2 W_set(3) W_consume W_refl W_trans
    by (auto simp: bindE_Inr split: option.splits if_splits) blast
  moreover have "W d2 d'" using s3 W_advance_fact W_refl by (auto split: option.splits)
  ultimately show ?thesis by (rule W_trans3)
qed

lemma W_fact_identity:
  assumes "fact_identity a f now d = Inr d'"
  shows "W d d'"
proof -
  from assms obtain g d1 d2 where s1: "set_alloc (al_id a) g d = Inr d1"
    and s2: "(case al_request a of Some r \<Rightarrow> bindE (set_live_request_state r RQuarantined now d1) (pauseNextGameIntent r)
        | None \<Rightarrow> Inr d1) = Inr d2"
    and s3: "(case al_run a of None \<Rightarrow> Inr d2 | Some v \<Rightarrow> advanceValidationFromFact v FactQuarantined False now d2) = Inr d'"
    unfolding fact_identity_def bindE_Inr by blast
  have "W d d1" by (rule W_set(1) [OF s1])
  moreover have "W d1 d2" using s2 W_set(3,4) W_refl W_trans by (auto simp: bindE_Inr split: option.splits) blast
  moreover have "W d2 d'" using s3 W_advance_fact W_refl by (auto split: option.splits)
  ultimately show ?thesis by (rule W_trans3)
qed

lemma W_fact_effect: "fact_effect a f e newReq newJob now d = Inr d' \<Longrightarrow> W d d'"
  using W_fact_reclaimed W_fact_identity W_applyReport W_refl
  by (auto simp: fact_effect_def Let_def split: if_splits)

lemma W_ReportInstanceFact:
  assumes "ReportInstanceFact n i f newReq newJob now d = Inr d'"
  shows "W d d'"
proof -
  have u: "W d (upsert_fact i f d)" by (simp add: upsert_fact_def W_facts)
  from ReportInstanceFact_cases [OF assms] obtain a er
    where p: "fact_apply a f er (if_InstanceID f) newReq newJob now (upsert_fact i f d) = Inr d'" by blast
  show ?thesis
  proof (cases "terminal_alloc (al_state a)")
    case True
    then show ?thesis using p u by (simp add: fact_apply_def)
  next
    case False
    from fact_apply_cases [OF p False] obtain d1 d2 where j: "fact_join a f er now (upsert_fact i f d) = Inr d1"
      and e: "fact_effect a f (if_InstanceID f) newReq newJob now d1 = Inr d2"
      and l: "d' = d2 \<or> (\<exists>v h. al_run a = Some v \<and> advanceValidationFromFact v FactReady h now d2 = Inr d')" by blast
    have "W (upsert_fact i f d) d1" using fact_join_cases [OF j] W_set(1) W_refl by blast
    moreover have "W d2 d'" using l W_advance_fact W_refl by blast
    ultimately show ?thesis using W_trans4 [OF u] W_fact_effect [OF e] by blast
  qed
qed

subsection \<open>Jobs\<close>

lemma W_prepare_writes:
  assumes "prepare_writes a now d = Inr d'"
  shows "W d d'"
proof -
  from assms obtain P f d1 rs d2 Q where s1: "put_allocs (upd_where P f (allocs d)) d = Inr d1"
    and s2: "put_requests rs d1 = Inr d2"
    and s3: "put_runs (upd_where Q (vr_state_update (\<lambda>_. VCreateObserving)) (runs d2)) d2 = Inr d'"
    unfolding prepare_writes_def bindE_Inr by blast
  show ?thesis
    by (rule W_trans3 [OF W_put(5) [OF s1] W_put(1) [OF s2] W_put_runs [OF s3]]) simp
qed

lemma W_prepareCreate:
  assumes "prepareCreate n i t p alg sha now d = Inr (e, d')"
  shows "W d d'"
proof -
  from prepareCreate_cases [OF assms] obtain j where "freeze_create j t p alg sha now d = Inr (e, d')" by blast
  from freeze_create_cases [OF this] show ?thesis
    using W_put(3) W_prepare_writes W_refl W_trans by (elim exE conjE disjE) blast+
qed

lemma W_claim: "claimNextJob n ind cap now d = Inr (out, d') \<Longrightarrow> W d d'"
  using claim_cases W_put(2) W_refl by blast

lemma W_integration:
  "CreateIntegrationJob n k inst newID now d = Inr d' \<Longrightarrow> W d d'"
  "CreateIntegrationCreateJob n key port newID now d = Inr d' \<Longrightarrow> W d d'"
  by (auto simp: CreateIntegrationJob_def CreateIntegrationCreateJob_def rejectE_Inr intro: W_put(2))

subsection \<open>Requests\<close>

lemma W_CreateUserRequest:
  assumes "CreateUserRequestSelected u g p m mn newID now d = Inr (r, created, d')"
  shows "W d d'"
proof -
  from assms have "d' = d \<or> (\<exists>rs. put_requests rs d = Inr d')"
    by (auto simp: CreateUserRequestSelected_def Let_def bindE_Inr rejectE_Inr split: option.splits)
  then show ?thesis using W_put(1) W_refl by blast
qed

lemma W_CancelUserRequest: "CancelUserRequest u i now d = Inr d' \<Longrightarrow> W d d'"
  by (auto simp: CancelUserRequest_def bindE_Inr rejectE_Inr intro: W_set(2))

lemma W_stopUserRequest:
  assumes "stopUserRequest u i ng newJob now d = Inr (r', d')"
  shows "W d d'"
  using stopUserRequest_cases [OF assms]
proof (elim disjE exE conjE)
  fix r assume "stop_running r ng newJob now d = Inr (r', d')"
  from stop_running_cases [OF this] obtain n a h d1 d2 d3 ns
    where s: "insert_owner_stop newJob n a h now d = Inr d1" "set_alloc a (al_state_update (\<lambda>_. AStopping)) d1 = Inr d2"
      "set_request_state (rq_id r) RStopping now d2 = Inr d3" and l: "(if ng then put_intents ns d3 else Inr d3) = Inr d'"
    by blast
  have "W d3 d'" using l W_put(4) W_refl by (auto split: if_splits)
  with W_trans4 [OF W_stops(2) [OF s(1)] W_set(1) [OF s(2)] W_set(2) [OF s(3)]] show ?thesis .
qed (simp add: W_refl)

lemma W_quarantine_owner:
  assumes "quarantine_owner a now d = Inr d'"
  shows "W d d'"
proof (cases "al_request a")
  case (Some r)
  with assms obtain d1 where "set_live_request_state r RQuarantined now d = Inr d1" "pauseNextGameIntent r d1 = Inr d'"
    by (auto simp: quarantine_owner_def bindE_Inr)
  then show ?thesis using W_trans W_set(3,4) by blast
next
  case None
  then show ?thesis using assms W_advance_fact W_refl by (auto simp: quarantine_owner_def split: option.splits)
qed

lemma W_QuarantineOneUnreachable:
  assumes "QuarantineOneUnreachable now d = Inr (b, d')"
  shows "W d d'"
  using quarantine_one_cases [OF assms] W_trans3 [OF W_set(1) W_quarantine_owner W_audits(2)] W_refl by blast

lemma W_Mark:
  assumes "MarkAllocationQuarantined i now d = Inr d'"
  shows "W d d'"
  using mark_cases [OF assms] W_trans3 [OF W_set(1) W_quarantine_owner W_audits(2)] W_refl by blast

lemma W_Abandon:
  assumes "AbandonQuarantinedUserRequest u i newReq now d = Inr (r', d')"
  shows "W d d'"
  using abandon_cases [OF assms] W_trans [OF W_set(5) W_consume] W_refl by blast

subsection \<open>Validation\<close>

lemma W_Confirm:
  assumes "ConfirmValidationHuman i ad res ex stopID now d = Inr d'"
  shows "W d d'"
  using Confirm_cases [OF assms]
proof (elim exE conjE)
  fix a v c d1 d2 d3
  assume s: "set_run i (\<lambda>v. v\<lparr>vr_human := res, vr_human_by := Some ad, vr_human_at := Some now, vr_state := VStopPending\<rparr>) d = Inr d1"
    "insert_validation_stop stopID (al_node a) (al_id a) (coalesce (jb_instance c) []) now d1 = Inr d2"
    "set_alloc (al_id a) (al_state_update (\<lambda>_. AStopping)) d2 = Inr d3" "auditAdmin ad ''validation.confirm'' [i] d3 = Inr d'"
  show ?thesis
    by (rule W_trans4 [OF W_set_run [OF s(1)] W_stops(3) [OF s(2)] W_set(1) [OF s(3)] W_audits(1) [OF s(4)]]) simp
qed

lemma W_StopValidation:
  assumes "StopValidation i ad ex stopID now d = Inr d'"
  shows "W d d'"
  using StopValidation_cases [OF assms]
proof (elim exE conjE)
  fix a v c d1 d2 d3
  assume s: "insert_validation_stop stopID (al_node a) (al_id a) (coalesce (jb_instance c) []) now d = Inr d1"
    "set_alloc (al_id a) (al_state_update (\<lambda>_. AStopping)) d1 = Inr d2" "set_run i (vr_state_update (\<lambda>_. VStopPending)) d2 = Inr d3"
    "auditAdmin ad ''validation.stop'' [i] d3 = Inr d'"
  show ?thesis
    by (rule W_trans4 [OF W_stops(3) [OF s(1)] W_set(1) [OF s(2)] W_set_run [OF s(3)] W_audits(1) [OF s(4)]]) simp
qed

lemma W_FinalizeFailure:
  assumes "FinalizeValidationFailure i why d = Inr d'"
  shows "W d d'"
proof -
  have "W d d'" if "set_run i (\<lambda>v. v\<lparr>vr_state := VFailed, vr_result := Some ''FAIL'', vr_failure := Some why\<rparr>) d = Inr d'"
    by (rule W_set_run [OF that]) simp
  then show ?thesis using FinalizeFailure_cases [OF assms] W_refl by blast
qed

lemmas W_operations = W_CreateUserRequest W_CancelUserRequest W_stopUserRequest W_Abandon W_QuarantineOneUnreachable W_Mark
  W_integration W_claim W_prepareCreate W_BeginOperation W_ReportJob W_ReportInstanceFact W_Confirm W_StopValidation
  W_FinalizeFailure

subsection \<open>Administrator actions\<close>

lemma W_admin_cancel: "admin_cancel i now d = Inr d' \<Longrightarrow> W d d'"
  using admin_cancel_cases W_set(2) by blast

lemma W_admin_stop:
  assumes "admin_stop i newJob now d = Inr d'"
  shows "W d d'"
  using admin_stop_cases [OF assms]
proof (elim exE conjE)
  fix r a c d1 assume p: "put_jobs (jobs d @ [new_job newJob (al_node a) KStop False (Some (al_id a))
              (Some (coalesce (jb_instance c) [])) (jb_capability c) now]) d = Inr d1"
    and w: "(if rq_state r = RRunning
        then bindE (set_alloc (al_id a) (al_state_update (\<lambda>_. AStopping)) d1) (set_request_state i RStopping now)
        else Inr d1) = Inr d'"
  have "W d1 d'" using w W_trans [OF W_set(1) W_set(2)] W_refl by (auto simp: bindE_Inr split: if_splits)
  with W_put(2) [OF p] show ?thesis by (rule W_trans)
qed

lemma W_terminate:
  assumes "terminate_pending i now d = Inr d'"
  shows "W d d'"
  using terminate_cases [OF assms]
proof (elim disjE exE conjE)
  fix a j assume w: "terminate_writes a j now d = Inr d'"
  obtain js rp f d1 d2 d3 where s: "put_jobs js d = Inr d1" "set_alloc (al_id a) f (d1\<lparr>job_reports := rp\<rparr>) = Inr d2"
    and s3: "(case al_request a of None \<Rightarrow> Inr d2 | Some r \<Rightarrow> set_request_state r RUnavailable now d2) = Inr d3"
    and s4: "(case al_run a of None \<Rightarrow> Inr d3 | Some v \<Rightarrow>
        advanceValidationFromJob v KCreate JRejectedNoEffect AReleasedNoEffect pending_terminated False now d3) = Inr d'"
    using w unfolding terminate_writes_def bindE_Inr Let_def by blast
  have "W d2 d3" using s3 W_set(2) W_refl by (auto split: option.splits)
  moreover have "W d3 d'" using s4 W_advance_job W_refl by (auto split: option.splits)
  ultimately show ?thesis
    using W_trans [OF W_put(2) [OF s(1)] W_trans [OF W_job_reports W_set(1) [OF s(2)]]] W_trans by blast
qed (simp add: W_refl)

lemma W_admin_quarantine:
  assumes "admin_quarantine i now d = Inr d'"
  shows "W d d'"
  using admin_quarantine_cases [OF assms] W_trans [OF W_set(1) W_quarantine_owner] W_refl by blast

lemma W_admin_action:
  assumes "ApplyAdminAction adminID a newID now d = Inr d'"
  shows "W d d' \<or> core d' = core d"
  using assms
proof (cases rule: admin_action_cases)
  case catalogue
  then show ?thesis by blast
qed (blast intro: W_trans W_audits(1) W_admin_cancel W_admin_stop W_terminate W_admin_quarantine)+

text \<open>So a step is a reservation, a PASS, a write outside the business tables, or it respects the relation.\<close>

lemma W_store_step:
  assumes "store_step d d'"
  shows "W d d' \<or> business d' = business d \<or> (\<exists>a j now b. TryAllocateOne a j now d = Inr (b, d'))
     \<or> (\<exists>c v a j now i. ReserveValidation c v a j now d = Inr (i, d')) \<or> (\<exists>i now. FinalizeValidationRun i now d = Inr d')"
  using assms
proof (cases rule: store_step.cases)
  case admin
  then show ?thesis using W_admin_action core_business by blast
qed (blast dest: W_operations business_steps)+

end

end
