(* ===== verification/Ledger.thy ===== *)
theory Ledger
  imports Frames
begin

text \<open>
  Two instances of the frame lemmas, and the capacity contract they give: the concrete store refines a
  ledger that maps each node to the identifiers of its live attempts and knows two steps, releasing
  any of them and reserving one fresh identifier below the node's limit.
\<close>

section \<open>No attempt is added and no run becomes passed\<close>

definition quiet :: "db \<Rightarrow> db \<Rightarrow> bool" where
  "quiet d d' \<longleftrightarrow> length (allocs d') = length (allocs d)
     \<and> (\<forall>v \<in> set (runs d'). vr_state v = VPassed \<longrightarrow> v \<in> set (runs d))"

interpretation quiet: writes quiet
proof unfold_locales
  fix g :: "run_row \<Rightarrow> run_row" and d Q
  assume "\<And>v. vr_state (g v) \<noteq> VPassed"
  then show "quiet d (d\<lparr>runs := upd_where Q g (runs d)\<rparr>)" by (auto simp: quiet_def set_upd_where)
qed (auto simp: quiet_def)

section \<open>The catalogue is unchanged\<close>

definition catalogue where
  "catalogue d = ((settings d, users d, games d, contents d, presets d, revisions d, admins d),
     (nodes d, reports d, template_bindings d, template_facts d, content_bindings d, entries d, snapshots d),
     (parties d, members d, invites d, maint_requests d, i3_requests d))"

interpretation fixed: writes "\<lambda>d d'. catalogue d' = catalogue d"
  by unfold_locales (simp_all add: catalogue_def)

section \<open>The abstract ledger\<close>

type_synonym ledger = "uuid \<Rightarrow> uuid set"

inductive ledger_step :: "(uuid \<Rightarrow> int) \<Rightarrow> ledger \<Rightarrow> ledger \<Rightarrow> bool" where
  release: "(\<And>n. L' n \<subseteq> L n) \<Longrightarrow> ledger_step lim L L'"
| take_slot: "i \<notin> L n \<Longrightarrow> int (card (L n)) < lim n \<Longrightarrow> ledger_step lim L (L(n := insert i (L n)))"

definition live_ids :: "db \<Rightarrow> ledger" where
  "live_ids d n = al_id ` {a \<in> set (allocs d). occupies n a}"

lemma card_live_ids:
  assumes "inv d"
  shows "int (card (live_ids d n)) = occupied d n"
proof -
  have ids: "distinct (map al_id (allocs d))" using assms by (simp add: inv_def schema_ok_def allocs_ok_def)
  have "live_ids d n = set (map al_id (filter (occupies n) (allocs d)))" by (auto simp: live_ids_def)
  moreover have "distinct (map al_id (filter (occupies n) (allocs d)))" using ids by (simp add: distinct_map_filter)
  ultimately have "card (live_ids d n) = length (filter (occupies n) (allocs d))"
    by (metis distinct_card length_map)
  then show ?thesis by (simp add: occupied_def count_where_def)
qed

lemma finite_live_ids [simp]: "finite (live_ids d n)"
  by (simp add: live_ids_def)

lemma live_ids_evolve:
  assumes "evolves d d'" "length (allocs d') = length (allocs d)"
  shows "live_ids d' n \<subseteq> live_ids d n"
proof
  fix i assume "i \<in> live_ids d' n"
  then obtain b where b: "b \<in> set (allocs d')" "occupies n b" "al_id b = i" by (auto simp: live_ids_def)
  then obtain k where k: "k < length (allocs d')" "b = allocs d' ! k" by (metis in_set_conv_nth)
  with assms have ev: "alloc_evolves (allocs d ! k) b" and m: "allocs d ! k \<in> set (allocs d)"
    by (simp_all add: evolves_def tbl_def)
  then have "occupies n (allocs d ! k)" "al_id (allocs d ! k) = i"
    using b(2,3) by (auto simp: alloc_evolves_def alloc_identity_def occupies_def)
  then show "i \<in> live_ids d n" using m by (auto simp: live_ids_def)
qed

lemma live_ids_same: "allocs d' = allocs d \<Longrightarrow> live_ids d' = live_ids d"
  by (simp add: live_ids_def fun_eq_iff)

lemma live_ids_append:
  assumes "allocs d' = allocs d @ [a]" "\<not> terminal_alloc (al_state a)"
  shows "live_ids d' = (live_ids d)(al_node a := insert (al_id a) (live_ids d (al_node a)))"
  using assms by (auto simp: live_ids_def occupies_def fun_eq_iff)

lemma ledger_append:
  assumes "inv d" "inv d'" "allocs d' = allocs d @ [a]" "al_state a = AReserved" "occupied d (al_node a) < limit d (al_node a)"
  shows "ledger_step (limit d) (live_ids d) (live_ids d')"
proof -
  have "distinct (map al_id (allocs d'))" using assms(2) by (simp add: inv_def schema_ok_def allocs_ok_def)
  then have "al_id a \<notin> live_ids d (al_node a)" using assms(3) by (auto simp: live_ids_def)
  moreover have "int (card (live_ids d (al_node a))) < limit d (al_node a)"
    using assms(5) card_live_ids [OF assms(1)] by simp
  moreover have "live_ids d' = (live_ids d)(al_node a := insert (al_id a) (live_ids d (al_node a)))"
    by (rule live_ids_append [OF assms(3)]) (simp add: assms(4) terminal_alloc_def)
  ultimately show ?thesis using ledger_step.take_slot by metis
qed

lemma schedule_allocs:
  assumes "TryAllocateOne newAlloc newJob now d = Inr (b, d')"
  shows "allocs d' = allocs d \<and> runs d' = runs d
    \<or> (\<exists>a. allocs d' = allocs d @ [a] \<and> runs d' = runs d \<and> al_state a = AReserved \<and> occupied d (al_node a) < limit d (al_node a))"
proof (cases b)
  case True
  then have "allocate_loop newAlloc newJob now d (waiting_requests d) = Inr (True, d')"
    using assms by (simp add: TryAllocateOne_def)
  from allocate_loop_True [OF this] obtain r where a: "allocate_request newAlloc newJob now d r = Inr (Some d')" by blast
  from allocate_request_Some [OF a] show ?thesis
  proof
    assume "reserves newAlloc newJob now d r d'"
    from reserves_frame [OF this] show ?thesis
    proof (elim exE conjE)
      fix a j i assume "d' = d\<lparr>allocs := allocs d @ [a], jobs := jobs d @ [j],
        requests := upd_where (\<lambda>q. rq_id q = rq_id r) (\<lambda>q. q\<lparr>rq_state := RAllocating, rq_updated := now\<rparr>) (requests d)\<rparr>"
        and "al_node a = i" "al_state a = AReserved" "occupied d i < limit d i"
      then show ?thesis by auto
    qed
  qed (simp add: set_request_state_def put_Inr)
next
  case False
  then have "d' = d" using assms allocate_loop_False [of newAlloc newJob now d] by (simp add: TryAllocateOne_def)
  then show ?thesis by simp
qed

lemma reserve_validation_allocs:
  assumes "ReserveValidation c runID newAlloc newJob now d = Inr (i, d')"
  shows "d' = d \<or> (\<exists>a v. allocs d' = allocs d @ [a] \<and> runs d' = runs d @ [v] \<and> vr_state v = VCreatePending
    \<and> al_state a = AReserved \<and> occupied d (al_node a) < limit d (al_node a))"
  using ReserveValidation_cases [OF assms]
proof (elim disjE exE conjE)
  fix sha g b tb tf
  assume l: "limit d (vc_NodeID c) > occupied d (vc_NodeID c)"
    and "reserve_run c (new_run runID c sha b tb tf now) g newAlloc newJob now d = Inr d'"
  from reserve_run_cases [OF this(2)] obtain d1 d2 d3 a j where "put_runs (runs d @ [new_run runID c sha b tb tf now]) d = Inr d1"
    "put_allocs (allocs d1 @ [a]) d1 = Inr d2" "put_jobs (jobs d2 @ [j]) d2 = Inr d3" "business d' = business d3"
    and a: "al_node a = vc_NodeID c" "al_state a = AReserved" by auto
  then have "allocs d' = allocs d @ [a]" "runs d' = runs d @ [new_run runID c sha b tb tf now]"
    by (auto simp: put_Inr business_def)
  moreover have "vr_state (new_run runID c sha b tb tf now) = VCreatePending" by (simp add: new_run_def)
  ultimately show ?thesis using a l by metis
qed simp

lemma finalize_run_allocs:
  assumes "FinalizeValidationRun i now d = Inr d'"
  shows "allocs d' = allocs d"
  using FinalizeRun_cases [OF assms] set_run_keeps by blast

lemma ledger_refines:
  assumes "inv d" "store_step d d'" "linked None d"
  shows "ledger_step (limit d) (live_ids d) (live_ids d')"
proof -
  have i: "inv d'" and ev: "evolves d d'" using sound_store_step [OF assms(2,3)] assms(1) by (simp_all add: sound_step_def)
  have same: ?thesis if "allocs d' = allocs d"
    using live_ids_same [OF that] by (simp add: ledger_step.release)
  from quiet.W_store_step [OF assms(2)] show ?thesis
  proof (elim disjE exE)
    assume "quiet d d'"
    then show ?thesis using live_ids_evolve [OF ev] by (simp add: quiet_def ledger_step.release)
  next
    assume "business d' = business d" then show ?thesis by (intro same) (simp add: business_def)
  next
    fix a j now b assume "TryAllocateOne a j now d = Inr (b, d')"
    then show ?thesis using schedule_allocs same ledger_append [OF assms(1) i] by metis
  next
    fix c v a j now i' assume "ReserveValidation c v a j now d = Inr (i', d')"
    then show ?thesis using reserve_validation_allocs same ledger_append [OF assms(1) i] by metis
  next
    fix i now assume "FinalizeValidationRun i now d = Inr d'"
    then show ?thesis using finalize_run_allocs same by blast
  qed
qed

lemma ledger_step_card:
  assumes "ledger_step lim L L'" "\<And>n. finite (L n)"
  shows "int (card (L' n)) \<le> max (int (card (L n))) (lim n)"
  using assms(1)
proof (cases rule: ledger_step.cases)
  case release
  then have "card (L' n) \<le> card (L n)" using assms(2) card_mono by blast
  then show ?thesis by simp
next
  case (take_slot i m)
  then show ?thesis using assms(2) by (cases "n = m") auto
qed

end
