(* ===== verification/Sample.thy ===== *)
theory Sample
  imports Quarantine Party
begin

text \<open>
  A small concrete platform on which the theorems are applied: one user with a waiting request, one
  game with a preset under the unvalidated contract, and one node with two slots.  The states after
  one scheduling cycle and after the first steps of the job are written out as the operations compute
  them.
\<close>

definition sample_node :: node_row where
  "sample_node = \<lparr>nd_id = 5, nd_display_name = ''n'', nd_enabled = True, nd_accepting = True, nd_draining = False,
     nd_heartbeat = Some 1000, nd_desired = 2, nd_priority = 0, nd_os = ''linux'', nd_secret = []\<rparr>"

definition sample_network :: NetworkFacts where
  "sample_network = \<lparr>nf_ConnectHost = ''h'', nf_ProtocolIP = [], nf_LocalPortMin = 1, nf_LocalPortMax = 2,
     nf_MappingMode = MIdentity, nf_Mappings = [], nf_A2SEnabled = False\<rparr>"

text \<open>The report of the node: its capabilities and its last confirmed inventory scan.\<close>

definition sample_report :: "string list \<Rightarrow> string option \<Rightarrow> report_row" where
  "sample_report caps scan = \<lparr>nr_node = 5, nr_hard_max = 2, nr_compatible = True, nr_capabilities = caps,
     nr_inventory_scan = scan, nr_inventory_confirmed = (scan \<noteq> None), nr_controller_version = ''c'', nr_api_version = 1,
     nr_core_version = ''0.1.2'', nr_core_commit = ''6dddb5892f962e70beb32fc30df4a78bce595528'', nr_core_protocol = 1,
     nr_network = sample_network, nr_content = [], nr_reported = 1000\<rparr>"

definition sample_request :: request_row where
  "sample_request = \<lparr>rq_id = 20, rq_user = Some 7, rq_party = None, rq_game = 1, rq_preset = 2, rq_state = RWaiting,
     rq_requested = 10, rq_updated = 10, rq_mode = SelAuto, rq_manual = None, rq_abandoned = None\<rparr>"

definition sample_db :: db where
  "sample_db = \<lparr>
     settings = \<lparr>st_accepting = True, st_message = [], st_max_party_size = Some 4, st_quarantine_after = 15 * minute\<rparr>,
     users = [7, 8],
     games = [\<lparr>gm_id = 1, gm_workshop = ''123'', gm_enabled = True, gm_accepting = True, gm_message = [],
               gm_content = Some ''v1''\<rparr>],
     contents = [\<lparr>cv_id = ''v1'', cv_game = 1, cv_sha256 = []\<rparr>],
     presets = [\<lparr>ps_id = 2, ps_game = 1, ps_enabled = True, ps_accepting = True, ps_message = [],
                 ps_max_players = 4, ps_revision = ''t1'', ps_contract = LegacyContract\<rparr>],
     nodes = [sample_node],
     reports = [sample_report [] None],
     template_bindings = [\<lparr>tb_node = 5, tb_revision = ''t1'', tb_key = ''key'', tb_fingerprint = None, tb_generation = 1\<rparr>],
     template_facts = [],
     content_bindings = [\<lparr>cb_node = 5, cb_game = 1, cb_version = Some ''v1'', cb_confirmed = True, cb_sha256 = None,
                          cb_reported_at = None, cb_accepting = True, cb_epoch = 1, cb_fact_revision = 1\<rparr>],
     entries = [], snapshots = [], parties = [], members = [], invites = [],
     requests = [sample_request], allocs = [], jobs = [], executions = [], job_reports = [], intents = [],
     facts = [], runs = [], audit = [], admins = [], revisions = [], maint_requests = [], i3_requests = [],
     announcement = [], diagnostics = [], reconciles = [], content_validations = [], releases = [], release_presets = [],
     user_sessions = [], admin_sessions = []\<rparr>"

definition sample_alloc :: alloc_row where
  "sample_alloc = new_alloc 30 (Some 20) None 1 1 5 ''v1'' ''t1'' 1000"

definition sample_job :: job_row where
  "sample_job = create_job 40 5 30 ''key'' LegacyContract [] 0 ''123'' ''v1'' [] 1000"

text \<open>After one cycle: attempt 30 is reserved with the pending create job 40.\<close>

definition reserved_db :: db where
  "reserved_db = sample_db\<lparr>allocs := [sample_alloc], jobs := [sample_job],
     requests := [sample_request\<lparr>rq_state := RAllocating, rq_updated := 1000\<rparr>]\<rparr>"

lemmas sample_defs = sample_node_def sample_report_def sample_network_def sample_request_def sample_db_def sample_alloc_def sample_job_def
  reserved_db_def minute_def second_def

lemma sample_allocates: "TryAllocateOne 30 40 1000 sample_db = Inr (True, reserved_db)"
  by code_simp

end
