(* ===== verification/Trace.thy ===== *)
theory Trace
  imports System Sample
begin

text \<open>
  Two concrete histories of the sample platform, from the empty business tables, as steps of the
  server.  In one the create job is refused with no effect; in the other the instance runs, its owner
  asks for a next game, the stop is proved and a fresh request is submitted.  The frozen create keeps
  its key and digest symbolic.
\<close>

lemma committed: "map_sum id snd m = Inr d \<Longrightarrow> \<exists>x. m = Inr (x, d)"
  by (cases m) (auto simp: prod_eq_iff)

section \<open>Request, reservation, claim\<close>

definition start_db :: db where
  "start_db = sample_db\<lparr>requests := []\<rparr>"

lemma start_empty: "empty_business start_db"
  by (simp add: empty_business_def start_db_def sample_db_def business_def)

lemma trace_request: "CreateUserRequestSelected 7 1 2 SelAuto None 20 10 start_db = Inr (sample_request, True, sample_db)"
  by code_simp

definition claimed_job :: job_row where
  "claimed_job = sample_job\<lparr>jb_state := JClaimed, jb_claimed := Some 1000\<rparr>"

definition claimed_db :: db where
  "claimed_db = reserved_db\<lparr>jobs := [claimed_job]\<rparr>"

lemma trace_claim: "map_sum id snd (claimNextJob 5 False RequiredContentValidationV102 1000 reserved_db) = Inr claimed_db"
  by code_simp

lemma reachable_start: "reachable start_db"
  unfolding reachable_def using start_empty by blast

lemma reachable_sample: "reachable sample_db"
  by (rule reachable_step [OF reachable_start create_request [OF trace_request]])

lemma reachable_reserved: "reachable reserved_db"
  by (rule reachable_step [OF reachable_sample schedule [OF sample_allocates]])

lemma reachable_claimed: "reachable claimed_db"
  using committed [OF trace_claim] reachable_step [OF reachable_reserved] claim by blast

section \<open>The create is refused\<close>

definition plain_report :: "job_state \<Rightarrow> ReportRequest" where
  "plain_report s = \<lparr>rp_State = s, rp_InstanceID = [], rp_OperationID = [], rp_ErrorCode = [],
     rp_ErrorStage = [], rp_JoinInfo = None, rp_JoinInfoErrorCode = []\<rparr>"

definition reject_report :: ReportRequest where
  "reject_report = (plain_report JRejectedNoEffect)\<lparr>rp_ErrorCode := ''PORT_EXHAUSTED''\<rparr>"

definition released_alloc :: alloc_row where
  "released_alloc = sample_alloc\<lparr>al_state := AReleasedNoEffect, al_error := Some ''PORT_EXHAUSTED''\<rparr>"

definition rejected_job :: job_row where
  "rejected_job = claimed_job\<lparr>jb_state := JRejectedNoEffect, jb_error := Some ''PORT_EXHAUSTED''\<rparr>"

definition released_db :: db where
  "released_db = claimed_db\<lparr>allocs := [released_alloc], jobs := [rejected_job],
     requests := [sample_request\<lparr>rq_updated := 2000\<rparr>],
     job_reports := [\<lparr>jr_job = 40, jr_state = JRejectedNoEffect, jr_instance = None, jr_operation = None,
       jr_error = Some ''PORT_EXHAUSTED'', jr_stage = None\<rparr>]\<rparr>"

lemma trace_reject: "map_sum id snd (ReportJob 5 40 reject_report 21 41 2000 claimed_db) = Inr released_db"
  by code_simp

lemma reachable_released: "reachable released_db"
  using committed [OF trace_reject] reachable_step [OF reachable_claimed] report by blast

text \<open>The only node has released an attempt, so the request becomes unavailable.\<close>

definition unavailable_db :: db where
  "unavailable_db = released_db\<lparr>requests := [sample_request\<lparr>rq_state := RUnavailable, rq_updated := 3000\<rparr>]\<rparr>"

lemma trace_unavailable: "TryAllocateOne 31 42 3000 released_db = Inr (True, unavailable_db)"
  by code_simp

lemma step_unavailable: "store_step\<^sup>*\<^sup>* released_db unavailable_db"
  using schedule [OF trace_unavailable] by blast

section \<open>The create runs\<close>

definition frozen_with :: "string \<Rightarrow> string \<Rightarrow> execution_row" where
  "frozen_with k fp = \<lparr>ex_job = 40, ex_key = k, ex_template = ''t'', ex_port = 0, ex_fingerprint = fp, ex_prepared = 1500,
     ex_capability = LegacyV1, ex_algorithm = None, ex_manifest = None\<rparr>"

abbreviation frozen40 :: execution_row where
  "frozen40 \<equiv> frozen_with (CoreIdempotencyKey 40) (CreateFingerprint (CoreIdempotencyKey 40) ''t'' 0)"

definition prepared_db :: "string \<Rightarrow> string \<Rightarrow> db" where
  "prepared_db k fp = claimed_db\<lparr>executions := [frozen_with k fp],
     allocs := [sample_alloc\<lparr>al_state := ACreating, al_create_started := Some 1500\<rparr>],
     requests := [sample_request\<lparr>rq_state := RCreating, rq_updated := 1500\<rparr>]\<rparr>"

lemma frozen40_row: "frozen_row claimed_job ''t'' 0 [] [] 1500 = frozen40"
  by (simp add: frozen_row_def frozen_with_def claimed_job_def sample_defs create_job_def new_job_def)

definition accept_report :: ReportRequest where
  "accept_report = (plain_report JAccepted)\<lparr>rp_InstanceID := ''i1'', rp_OperationID := ''o1''\<rparr>"

definition accepted_job :: job_row where
  "accepted_job = claimed_job\<lparr>jb_state := JAccepted, jb_instance := Some ''i1'', jb_operation := Some ''o1''\<rparr>"

definition recorded :: "uuid \<Rightarrow> job_state \<Rightarrow> string \<Rightarrow> job_report_row" where
  "recorded j s oper = \<lparr>jr_job = j, jr_state = s, jr_instance = Some ''i1'', jr_operation = Some oper,
     jr_error = None, jr_stage = None\<rparr>"

definition accepted_db :: "string \<Rightarrow> string \<Rightarrow> db" where
  "accepted_db k fp = (prepared_db k fp)\<lparr>jobs := [accepted_job],
     requests := [sample_request\<lparr>rq_state := RCreating, rq_updated := 2000\<rparr>],
     job_reports := [recorded 40 JAccepted ''o1'']\<rparr>"

definition succeed_report :: ReportRequest where
  "succeed_report = (plain_report JSucceeded)\<lparr>rp_InstanceID := ''i1'', rp_OperationID := ''o1'',
     rp_JoinInfoErrorCode := ''NO_MAPPING''\<rparr>"

definition running_alloc :: alloc_row where
  "running_alloc = sample_alloc\<lparr>al_state := ARunning, al_create_started := Some 1500, al_ready := Some 3000,
     al_join_error := Some ''NO_MAPPING''\<rparr>"

definition running_db :: "string \<Rightarrow> string \<Rightarrow> db" where
  "running_db k fp = (accepted_db k fp)\<lparr>allocs := [running_alloc], jobs := [accepted_job\<lparr>jb_state := JSucceeded\<rparr>],
     requests := [sample_request\<lparr>rq_state := RRunning, rq_updated := 3000\<rparr>],
     job_reports := [recorded 40 JAccepted ''o1'', recorded 40 JSucceeded ''o1'']\<rparr>"

definition stop_job :: job_row where
  "stop_job = new_job 43 5 KStop False (Some 30) (Some ''i1'') LegacyV1 4000"

definition stopping_db :: "string \<Rightarrow> string \<Rightarrow> db" where
  "stopping_db k fp = (running_db k fp)\<lparr>allocs := [running_alloc\<lparr>al_state := AStopping\<rparr>],
     jobs := [accepted_job\<lparr>jb_state := JSucceeded\<rparr>, stop_job],
     requests := [sample_request\<lparr>rq_state := RStopping, rq_updated := 4000\<rparr>],
     intents := [\<lparr>ni_source = 20, ni_alloc = 30, ni_state = IPending, ni_new = None, ni_consumed = None, ni_failure = None\<rparr>]\<rparr>"

definition stop_claimed_db :: "string \<Rightarrow> string \<Rightarrow> db" where
  "stop_claimed_db k fp = (stopping_db k fp)\<lparr>
     jobs := [accepted_job\<lparr>jb_state := JSucceeded\<rparr>, stop_job\<lparr>jb_state := JClaimed, jb_claimed := Some 4000\<rparr>]\<rparr>"

definition stop_report :: "job_state \<Rightarrow> ReportRequest" where
  "stop_report s = (plain_report s)\<lparr>rp_InstanceID := ''i1'', rp_OperationID := ''o2''\<rparr>"

definition reported_stop :: "job_state \<Rightarrow> job_row" where
  "reported_stop s = stop_job\<lparr>jb_state := s, jb_claimed := Some 4000, jb_operation := Some ''o2''\<rparr>"

definition stop_accepted_db :: "string \<Rightarrow> string \<Rightarrow> db" where
  "stop_accepted_db k fp = (stop_claimed_db k fp)\<lparr>
     jobs := [accepted_job\<lparr>jb_state := JSucceeded\<rparr>, reported_stop JAccepted],
     requests := [sample_request\<lparr>rq_state := RStopping, rq_updated := 5000\<rparr>],
     job_reports := [recorded 40 JAccepted ''o1'', recorded 40 JSucceeded ''o1'', recorded 43 JAccepted ''o2'']\<rparr>"

definition ended_db :: "string \<Rightarrow> string \<Rightarrow> db" where
  "ended_db k fp = (stop_accepted_db k fp)\<lparr>
     allocs := [running_alloc\<lparr>al_state := AReclaimed, al_reclaimed := Some 6000\<rparr>],
     jobs := [accepted_job\<lparr>jb_state := JSucceeded\<rparr>, reported_stop JSucceeded],
     requests := [sample_request\<lparr>rq_state := REnded, rq_updated := 6000\<rparr>,
       sample_request\<lparr>rq_id := 23, rq_requested := 6000, rq_updated := 6000\<rparr>],
     intents := [\<lparr>ni_source = 20, ni_alloc = 30, ni_state = IConsumed, ni_new = Some 23, ni_consumed = Some 6000,
       ni_failure = None\<rparr>],
     job_reports := [recorded 40 JAccepted ''o1'', recorded 40 JSucceeded ''o1'', recorded 43 JAccepted ''o2'',
       recorded 43 JSucceeded ''o2'']\<rparr>"

lemma trace_prepare:
  "put_executions [frozen_with k fp] claimed_db = Inr (claimed_db\<lparr>executions := [frozen_with k fp]\<rparr>)"
  "prepare_writes 30 1500 (claimed_db\<lparr>executions := [frozen_with k fp]\<rparr>) = Inr (prepared_db k fp)"
  by code_simp+

lemma trace_prepared: "prepareCreate 5 40 ''t'' 0 [] [] 1500 claimed_db = Inr (frozen40, prepared_db
    (CoreIdempotencyKey 40) (CreateFingerprint (CoreIdempotencyKey 40) ''t'' 0))"
proof -
  let ?d = "claimed_db\<lparr>executions := [frozen40]\<rparr>"
  have "execution_of claimed_db (jb_id claimed_job) = None" "executions claimed_db = []" by code_simp+
  then have "(case execution_of claimed_db (jb_id claimed_job) of Some e \<Rightarrow> Inr claimed_db
      | None \<Rightarrow> put_executions (executions claimed_db @ [frozen_row claimed_job ''t'' 0 [] [] 1500]) claimed_db) = Inr ?d"
    using trace_prepare(1) by (simp add: frozen40_row)
  moreover have "fetch (\<lambda>e. ex_job e = jb_id claimed_job) (executions ?d) = Inr frozen40"
    by (simp add: fetch_def frozen_with_def claimed_job_def sample_defs)
  moreover have "frozen_matches frozen40 claimed_job ''t'' 0 [] []"
    by (simp add: frozen_matches_def frozen_with_def claimed_job_def sample_defs create_job_def new_job_def)
  moreover have "jb_alloc claimed_job = Some 30" by code_simp
  ultimately have "freeze_create claimed_job ''t'' 0 [] [] 1500 claimed_db = Inr (frozen40, prepared_db
      (CoreIdempotencyKey 40) (CreateFingerprint (CoreIdempotencyKey 40) ''t'' 0))"
    using trace_prepare(2) by (simp add: freeze_create_def)
  moreover have "map_sum id (\<lambda>_. ()) (lockJobBusinessRows 5 40 claimed_db) = Inr ()"
    "fetch (\<lambda>j. jb_id j = 40 \<and> jb_node j = 5) (jobs claimed_db) = Inr claimed_job"
    "jb_kind claimed_job = KCreate" "jb_state claimed_job = JClaimed" "jb_capability claimed_job = LegacyV1" by code_simp+
  ultimately show ?thesis
    by (cases "lockJobBusinessRows 5 40 claimed_db") (simp_all add: prepareCreate_def terminal_job_def)
qed

lemma trace_runs:
  "reportJob_commit 5 40 accept_report None 21 41 2000 (prepared_db k fp) = Inr (accepted_db k fp)"
  "reportJob_commit 5 40 succeed_report None 21 41 3000 (accepted_db k fp) = Inr (running_db k fp)"
  by code_simp+

lemma trace_next_game:
  "map_sum id snd (NextGameUserRequest 7 20 43 4000 (running_db k fp)) = Inr (stopping_db k fp)"
  "map_sum id snd (claimNextJob 5 False RequiredContentValidationV102 4000 (stopping_db k fp)) = Inr (stop_claimed_db k fp)"
  by code_simp+

lemma trace_stops:
  "reportJob_commit 5 43 (stop_report JAccepted) None 22 44 5000 (stop_claimed_db k fp) = Inr (stop_accepted_db k fp)"
  "reportJob_commit 5 43 (stop_report JSucceeded) None 23 44 6000 (stop_accepted_db k fp) = Inr (ended_db k fp)"
  by code_simp+

text \<open>A committed report is acknowledged with the job it reads back.\<close>

lemma report_step:
  assumes "reportJob_commit n i r None newReq newJob now d = Inr d'"
    "exists_where (\<lambda>j. jb_node j = n \<and> jb_id j = i \<and> admits RequiredContentValidationV102 j) (jobs d')"
  shows "store_step d d'"
proof -
  obtain j where "find (\<lambda>j. jb_node j = n \<and> jb_id j = i \<and> admits RequiredContentValidationV102 j) (jobs d') = Some j"
    using assms(2) by (cases "find (\<lambda>j. jb_node j = n \<and> jb_id j = i \<and> admits RequiredContentValidationV102 j) (jobs d')")
      (auto simp: find_None_iff)
  then have "ReportJob n i r newReq newJob now d = Inr (scanJob d' j, d')"
    using assms(1) by (simp add: ReportJob_def reportJob_def JobForNodeWithCapability_def fetch_def)
  then show ?thesis by (rule report)
qed

text \<open>The states of the second history, with the key and digest of job 40.\<close>

abbreviation run_of :: "(string \<Rightarrow> string \<Rightarrow> db) \<Rightarrow> db" where
  "run_of f \<equiv> f (CoreIdempotencyKey 40) (CreateFingerprint (CoreIdempotencyKey 40) ''t'' 0)"

lemma steps_run:
  "store_step claimed_db (run_of prepared_db)" "store_step (prepared_db k fp) (accepted_db k fp)"
  "store_step (accepted_db k fp) (running_db k fp)"
  "store_step (running_db k fp) (stopping_db k fp)" "store_step (stopping_db k fp) (stop_claimed_db k fp)"
  "store_step (stop_claimed_db k fp) (stop_accepted_db k fp)" "store_step (stop_accepted_db k fp) (ended_db k fp)"
proof -
  show "store_step claimed_db (run_of prepared_db)" by (rule prepare [OF trace_prepared])
  show "store_step (prepared_db k fp) (accepted_db k fp)" by (rule report_step [OF trace_runs(1)]) code_simp
  show "store_step (accepted_db k fp) (running_db k fp)" by (rule report_step [OF trace_runs(2)]) code_simp
  show "store_step (running_db k fp) (stopping_db k fp)"
    using committed [OF trace_next_game(1) [of k fp]] stop_request unfolding NextGameUserRequest_def by blast
  show "store_step (stopping_db k fp) (stop_claimed_db k fp)"
    using committed [OF trace_next_game(2) [of k fp]] claim by blast
  show "store_step (stop_claimed_db k fp) (stop_accepted_db k fp)" by (rule report_step [OF trace_stops(1)]) code_simp
  show "store_step (stop_accepted_db k fp) (ended_db k fp)" by (rule report_step [OF trace_stops(2)]) code_simp
qed

lemma reachable_run:
  "reachable (run_of prepared_db)" "reachable (run_of accepted_db)" "reachable (run_of running_db)"
  "reachable (run_of stopping_db)" "reachable (run_of stop_claimed_db)" "reachable (run_of stop_accepted_db)"
  "reachable (run_of ended_db)"
proof -
  show 1: "reachable (run_of prepared_db)" by (rule reachable_step [OF reachable_claimed steps_run(1)])
  show 2: "reachable (run_of accepted_db)" by (rule reachable_step [OF 1 steps_run(2)])
  show 3: "reachable (run_of running_db)" by (rule reachable_step [OF 2 steps_run(3)])
  show 4: "reachable (run_of stopping_db)" by (rule reachable_step [OF 3 steps_run(4)])
  show 5: "reachable (run_of stop_claimed_db)" by (rule reachable_step [OF 4 steps_run(5)])
  show 6: "reachable (run_of stop_accepted_db)" by (rule reachable_step [OF 5 steps_run(6)])
  show "reachable (run_of ended_db)" by (rule reachable_step [OF 6 steps_run(7)])
qed

section \<open>Quarantine and abandonment\<close>

definition quarantined_db :: "string \<Rightarrow> string \<Rightarrow> db" where
  "quarantined_db k fp = projr (MarkAllocationQuarantined 30 4000 (running_db k fp))"

definition abandoned_db :: "string \<Rightarrow> string \<Rightarrow> db" where
  "abandoned_db k fp = snd (projr (AbandonQuarantinedUserRequest 7 20 24 5000 (quarantined_db k fp)))"

lemma trace_quarantine: "MarkAllocationQuarantined 30 4000 (running_db k fp) = Inr (quarantined_db k fp)"
  by code_simp

lemma trace_abandon: "map_sum id snd (AbandonQuarantinedUserRequest 7 20 24 5000 (quarantined_db k fp)) = Inr (abandoned_db k fp)"
  by code_simp

lemma steps_quarantine:
  "store_step (running_db k fp) (quarantined_db k fp)" "store_step (quarantined_db k fp) (abandoned_db k fp)"
  using mark [OF trace_quarantine [of k fp]] committed [OF trace_abandon [of k fp]] abandon by blast+

lemma reachable_quarantined: "reachable (run_of quarantined_db)"
  by (rule reachable_step [OF reachable_run(3) steps_quarantine(1)])

definition quarantined_alloc :: alloc_row where
  "quarantined_alloc = running_alloc\<lparr>al_state := AQuarantined, al_error := Some ''MANUAL_QUARANTINE'', al_quarantined := Some 4000\<rparr>"

lemma quarantined_rows:
  "allocs (quarantined_db k fp) = [quarantined_alloc]" "allocs (abandoned_db k fp) = [quarantined_alloc]"
  by code_simp+

lemma steps_abandoned: "store_step\<^sup>*\<^sup>* (quarantined_db k fp) (abandoned_db k fp)"
  using steps_quarantine(2) by (rule r_into_rtranclp)

section \<open>A validation run that fails\<close>

definition digest64 :: string where
  "digest64 = replicate 64 (CHR ''a'')"

text \<open>The sample node with the validated contract: confirmed content, template and inventory, and the
  game's binding on the node closed for maintenance at epoch 2.\<close>

definition validation_start :: db where
  "validation_start = start_db\<lparr>
     contents := [\<lparr>cv_id = ''v1'', cv_game = 1, cv_sha256 = digest64\<rparr>],
     reports := [sample_report [contentValidationV102] (Some ''s1'')],
     template_bindings := [\<lparr>tb_node = 5, tb_revision = ''t1'', tb_key = ''key'', tb_fingerprint = Some digest64, tb_generation = 1\<rparr>],
     template_facts := [\<lparr>tf_node = 5, tf_revision = ''t1'', tf_key = Some ''key'',
       tf_algorithm = Some TemplateManifestAlgorithmV1, tf_confirmed = True, tf_fingerprint = Some digest64,
       tf_fact_revision = 1, tf_received = Some 1000\<rparr>],
     content_bindings := [\<lparr>cb_node = 5, cb_game = 1, cb_version = Some ''v1'', cb_confirmed = True,
       cb_sha256 = Some digest64, cb_reported_at = Some 1000, cb_accepting = False, cb_epoch = 2, cb_fact_revision = 1\<rparr>],
     snapshots := [\<lparr>sn_node = 5, sn_scan = ''s1'', sn_complete = True, sn_confirmed = True, sn_received = 1000,
       sn_instances = 0, sn_unaccounted = []\<rparr>],
     admins := [\<lparr>ad_id = 9, ad_enabled = True, ad_username = ''a'', ad_password = [], ad_version = 1\<rparr>], revisions := [(''t1'', 1)]\<rparr>"

definition candidate :: ValidationCandidate where
  "candidate = \<lparr>vc_NodeID = 5, vc_GameID = 1, vc_PresetID = 2, vc_ContentVersionID = ''v1'',
     vc_TemplateRevisionID = ''t1'', vc_AdminID = 9, vc_ExpectedMaintenanceEpoch = 2,
     vc_ExpectedFingerprint = digest64, vc_RequestID = ''r1''\<rparr>"

text \<open>The digest of the candidate stays symbolic in the i3 request row.\<close>

definition validation_db :: "string \<Rightarrow> db" where
  "validation_db h = validation_start\<lparr>
     runs := [new_run 50 candidate digest64 (hd (content_bindings validation_start)) (hd (template_bindings validation_start))
       (hd (template_facts validation_start)) 1000],
     allocs := [new_alloc 60 None (Some 50) 1 1 5 ''v1'' ''t1'' 1000],
     jobs := [create_job 70 5 60 ''key'' V102Contract digest64 1 ''123'' ''v1'' digest64 1000],
     i3_requests := [\<lparr>iq_action = ''validation.start'', iq_request = ''r1'', iq_hash = h, iq_result = 50, iq_admin = 9\<rparr>],
     audit := [(''admin'', ''validation.start'', [50])]\<rparr>"

lemma trace_reserve_parts:
  "priorI3Request ''validation.start'' ''r1'' h 9 validation_start = Inr None"
  "candidate_sha candidate validation_start = Inr (digest64, hd (games validation_start))"
  "node_ready 5 1000 validation_start = Inr ()"
  "content_ready candidate digest64 validation_start = Inr (hd (content_bindings validation_start))"
  "template_ready candidate 1000 validation_start
     = Inr (hd (template_bindings validation_start), hd (template_facts validation_start))"
  "inventory_ready 5 1000 validation_start = Inr ()"
  "scoped_occupied validation_start 5 1 = 0" "scoped_jobs validation_start 5 1 = 0"
  "limit validation_start 5 = 2" "occupied validation_start 5 = 0" "integration_jobs validation_start 5 = 0"
  by code_simp+

lemma trace_reserve_validation: "ReserveValidation candidate 50 60 70 1000 validation_start
    = Inr (50, validation_db (candidate_hash candidate))"
proof -
  let ?v = "new_run 50 candidate digest64 (hd (content_bindings validation_start)) (hd (template_bindings validation_start))
       (hd (template_facts validation_start)) 1000"
  let ?d1 = "validation_start\<lparr>runs := [?v]\<rparr>" and ?a = "new_alloc 60 None (Some 50) 1 1 5 ''v1'' ''t1'' 1000"
    and ?j = "create_job 70 5 60 ''key'' V102Contract digest64 1 ''123'' ''v1'' digest64 1000"
  have puts: "put_runs (runs validation_start @ [?v]) validation_start = Inr ?d1"
    "put_allocs (allocs ?d1 @ [?a]) ?d1 = Inr (?d1\<lparr>allocs := [?a]\<rparr>)"
    "put_jobs (jobs (?d1\<lparr>allocs := [?a]\<rparr>) @ [?j]) (?d1\<lparr>allocs := [?a]\<rparr>) = Inr (?d1\<lparr>allocs := [?a], jobs := [?j]\<rparr>)"
    by code_simp+
  have fields: "vr_id ?v = 50" "vr_key ?v = ''key''" "vr_fingerprint ?v = digest64" "vr_generation ?v = 1"
    "vr_sha256 ?v = digest64" "gm_workshop (hd (games validation_start)) = ''123''" "vc_GameID candidate = 1"
    "vc_NodeID candidate = 5" "vc_ContentVersionID candidate = ''v1''" "vc_TemplateRevisionID candidate = ''t1''"
    "vc_RequestID candidate = ''r1''" "vc_AdminID candidate = 9" by code_simp+
  have audited: "auditAdmin 9 ''validation.start'' [50] (?d1\<lparr>allocs := [?a], jobs := [?j],
      i3_requests := [\<lparr>iq_action = ''validation.start'', iq_request = ''r1'', iq_hash = h, iq_result = 50, iq_admin = 9\<rparr>]\<rparr>)
    = Inr (validation_db h)" for h by code_simp
  have none: "i3_requests (?d1\<lparr>allocs := [?a], jobs := [?j]\<rparr>) = []" by code_simp
  have "reserve_run candidate ?v (hd (games validation_start)) 60 70 1000 validation_start
    = Inr (validation_db (candidate_hash candidate))"
    by (simp only: reserve_run_def Let_def fields puts bindE_simps none append_Nil audited)
  moreover have "vc_RequestID candidate = ''r1''" "vc_ExpectedMaintenanceEpoch candidate = 2"
    "revisionPattern (vc_ExpectedFingerprint candidate)" "vc_NodeID candidate = 5" "vc_GameID candidate = 1"
    "vc_AdminID candidate = 9" by code_simp+
  ultimately show ?thesis using trace_reserve_parts by (simp add: ReserveValidation_def)
qed

definition validation_claimed :: "string \<Rightarrow> db" where
  "validation_claimed h = snd (projr (claimNextJob 5 False RequiredContentValidationV102 1000 (validation_db h)))"

definition validation_failed :: "string \<Rightarrow> db" where
  "validation_failed h = projr (reportJob_commit 5 70 reject_report None 80 81 2000 (validation_claimed h))"

lemma trace_validation:
  "map_sum id snd (claimNextJob 5 False RequiredContentValidationV102 1000 (validation_db h)) = Inr (validation_claimed h)"
  "reportJob_commit 5 70 reject_report None 80 81 2000 (validation_claimed h) = Inr (validation_failed h)"
  by code_simp+

lemma validation_failed_row: "map vr_id (runs (validation_failed h)) = [50]" "map vr_state (runs (validation_failed h)) = [VFailed]"
  by code_simp+

lemma steps_validation:
  "store_step validation_start (validation_db (candidate_hash candidate))"
  "store_step (validation_db h) (validation_claimed h)" "store_step (validation_claimed h) (validation_failed h)"
proof -
  show "store_step validation_start (validation_db (candidate_hash candidate))"
    by (rule reserve_validation [OF trace_reserve_validation])
  show "store_step (validation_db h) (validation_claimed h)"
    using committed [OF trace_validation(1) [of h]] claim by blast
  show "store_step (validation_claimed h) (validation_failed h)" by (rule report_step [OF trace_validation(2)]) code_simp
qed

lemma reachable_validation: "reachable (validation_failed (candidate_hash candidate))"
proof -
  have "empty_business validation_start"
    by (simp add: empty_business_def validation_start_def start_db_def sample_db_def business_def)
  then have "reachable validation_start" unfolding reachable_def by blast
  then show ?thesis using steps_validation reachable_step by blast
qed

end
