(* ===== verification/Retries.thy ===== *)
theory Retries
  imports Ledger Trace
begin

text \<open>
  What reports of jobs promise: a retried report is acknowledged, a late one is history only, an
  accepted one moves attempt and request together; and how quarantine and
  abandoning treat capacity.
\<close>

section \<open>What a report writes besides its job\<close>

lemma merge_again [simp]: "merge_id (merge_id a b) b = merge_id a b"
  by (simp add: merge_id_def)

lemma set_alloc_tables: "set_alloc i f d = Inr d' \<Longrightarrow> jobs d' = jobs d \<and> executions d' = executions d"
  by (auto simp: set_alloc_def put_Inr)

lemma record_join_tables: "record_join a n k s j je now d = Inr (b, d') \<Longrightarrow> jobs d' = jobs d \<and> executions d' = executions d"
  using record_join_cases set_alloc_tables by metis

lemma advance_job_tables: "advanceValidationFromJob v k s x e h now d = Inr d'
    \<Longrightarrow> jobs d' = jobs d \<and> executions d' = executions d \<and> requests d' = requests d"
  by (auto simp: advanceValidationFromJob_def result_simps split: if_splits option.splits)

lemma consume_tables:
  assumes "consumeNextGameIntent src after newID now d = Inr d'"
  shows "jobs d' = jobs d \<and> executions d' = executions d"
proof -
  have "jobs d' = jobs d \<and> executions d' = executions d" if "consume_pending src newID now r d = Inr d'" for r
    using that by (auto simp: consume_pending_def result_simps split: sum.splits if_splits)
  then show ?thesis using consume_cases [OF assms] by blast
qed

lemma report_owner_tables:
  assumes "report_owner a k s e jd x rs newReq now d = Inr d'"
  shows "jobs d' = jobs d \<and> executions d' = executions d"
proof -
  from assms obtain d1 d2 where
    s1: "(case al_request a of None \<Rightarrow> Inr d | Some r \<Rightarrow> set_live_request_state r rs now d) = Inr d1"
    and s2: "(case al_run a of None \<Rightarrow> Inr d1 | Some v \<Rightarrow> advanceValidationFromJob v k s x e jd now d1) = Inr d2"
    and s3: "(case al_request a of None \<Rightarrow> Inr d2 | Some r \<Rightarrow>
         bindE (if x = AQuarantined then pauseNextGameIntent r d2 else Inr d2) (\<lambda>d.
         if k = KStop \<and> s = JSucceeded \<and> al_state a \<noteq> AQuarantined
         then consumeNextGameIntent r False newReq now d else Inr d)) = Inr d'"
    unfolding report_owner_def bindE_Inr by blast
  have "jobs d1 = jobs d \<and> executions d1 = executions d"
    using s1 by (auto simp: set_live_request_state_def put_Inr split: option.splits)
  moreover have "jobs d2 = jobs d1 \<and> executions d2 = executions d1"
    using s2 advance_job_tables by (auto split: option.splits)
  moreover have "jobs d' = jobs d2 \<and> executions d' = executions d2"
  proof (cases "al_request a")
    case (Some r)
    with s3 obtain d3 where p: "(if x = AQuarantined then pauseNextGameIntent r d2 else Inr d2) = Inr d3"
      and c: "(if k = KStop \<and> s = JSucceeded \<and> al_state a \<noteq> AQuarantined
         then consumeNextGameIntent r False newReq now d3 else Inr d3) = Inr d'"
      by (auto simp: bindE_Inr)
    have "jobs d3 = jobs d2 \<and> executions d3 = executions d2"
      using p by (auto simp: pauseNextGameIntent_def put_Inr split: if_splits)
    moreover have "jobs d' = jobs d3 \<and> executions d' = executions d3" using c consume_tables by (auto split: if_splits)
    ultimately show ?thesis by simp
  qed (use s3 in simp)
  ultimately show ?thesis by simp
qed

lemma effectful_stop_tables:
  assumes "effectful_create_stop a n q k s i e newJob now d = Inr d'"
  shows "(\<exists>js. jobs d' = jobs d @ js) \<and> executions d' = executions d"
proof (cases "k = KCreate \<and> s = JFailedWithEffect \<and> i \<noteq> [] \<and> e \<noteq> ''IDENTITY_UNVERIFIED''")
  case True
  with assms obtain d1 d2 where s1: "insert_stop newJob n a i now d = Inr d1"
    and s2: "set_alloc a (al_state_update (\<lambda>_. AStopping)) d1 = Inr d2"
    and s3: "(case q of None \<Rightarrow> Inr d2 | Some r \<Rightarrow> set_live_request_state r RStopping now d2) = Inr d'"
    by (auto simp: effectful_create_stop_def bindE_Inr)
  have "(\<exists>js. jobs d1 = jobs d @ js) \<and> executions d1 = executions d"
    using s1 by (auto simp: insert_stop_def put_Inr split: option.splits if_splits)
  moreover have "jobs d' = jobs d2 \<and> executions d' = executions d2"
    using s3 by (auto simp: set_live_request_state_def put_Inr split: option.splits)
  ultimately show ?thesis using set_alloc_tables [OF s2] by simp
next
  case False
  then have "d' = d" using assms unfolding effectful_create_stop_def by (simp split: if_splits)
  then show ?thesis by simp
qed

lemma apply_effect_steps:
  assumes "apply_effect a n k s inst e j je x rs newReq newJob now d = Inr d'"
  shows "\<exists>d1 jd d2 d3. set_alloc (al_id a) (write_alloc_state x e now) d = Inr d1
    \<and> record_join (al_id a) n k s j je now d1 = Inr (jd, d2) \<and> report_owner a k s e jd x rs newReq now d2 = Inr d3
    \<and> effectful_create_stop (al_id a) n (al_request a) k s inst e newJob now d3 = Inr d'"
  using assms by (auto simp: apply_effect_def bindE_Inr)

lemma applyReport_tables:
  assumes "applyAllocationJobReport i n k s inst e j je newReq newJob now d = Inr d'"
  shows "(\<exists>js. jobs d' = jobs d @ js) \<and> executions d' = executions d"
proof -
  have "(\<exists>js. jobs d' = jobs d @ js) \<and> executions d' = executions d"
    if f: "apply_effect a n k s inst e j je x rs newReq newJob now d = Inr d'" for a x rs
  proof -
    from apply_effect_steps [OF f] obtain d1 jd d2 d3 where s1: "set_alloc (al_id a) (write_alloc_state x e now) d = Inr d1"
      and s2: "record_join (al_id a) n k s j je now d1 = Inr (jd, d2)" and s3: "report_owner a k s e jd x rs newReq now d2 = Inr d3"
      and s4: "effectful_create_stop (al_id a) n (al_request a) k s inst e newJob now d3 = Inr d'" by blast
    show ?thesis
      using set_alloc_tables [OF s1] record_join_tables [OF s2] report_owner_tables [OF s3] effectful_stop_tables [OF s4]
      by simp
  qed
  then show ?thesis using applyAllocationJobReport_cases [OF assms] by auto
qed

text \<open>The job row and what else an accepted report leaves behind.\<close>

definition reported_job :: "job_row \<Rightarrow> ReportRequest \<Rightarrow> job_row" where
  "reported_job j r = write_job r (merge_id (coalesce (jb_instance j) []) (rp_InstanceID r))
     (merge_id (coalesce (jb_operation j) []) (rp_OperationID r)) j"

lemma apply_report_tables:
  assumes "apply_report j r n newReq newJob now d = Inr d'" "inv d" "j \<in> set (jobs d)" "jb_node j = n"
  shows "reported_job j r \<in> set (jobs d') \<and> executions d' = executions d"
proof -
  let ?i = "merge_id (coalesce (jb_instance j) []) (rp_InstanceID r)"
  let ?o = "merge_id (coalesce (jb_operation j) []) (rp_OperationID r)"
  from assms(1) obtain d1 d2 rs where
    s1: "put_jobs (upd_where (\<lambda>i. jb_id i = jb_id j \<and> jb_node i = n) (write_job r ?i ?o) (jobs d)) d = Inr d1"
    and s2: "(case jb_alloc j of None \<Rightarrow> Inr d1
            | Some a \<Rightarrow> applyAllocationJobReport a n (jb_kind j) (rp_State r) ?i (rp_ErrorCode r)
                (rp_JoinInfo r) (rp_JoinInfoErrorCode r) newReq newJob now d1) = Inr d2"
    and s3: "d' = d2\<lparr>job_reports := rs\<rparr>"
    by (auto simp: apply_report_def Let_def bindE_Inr)
  have "reported_job j r \<in> set (jobs d1)" "executions d1 = executions d"
    using s1 assms(3,4) by (auto simp: put_Inr set_upd_where reported_job_def)
  moreover have "(\<exists>js. jobs d2 = jobs d1 @ js) \<and> executions d2 = executions d1"
    using s2 applyReport_tables by (auto split: option.splits)
  ultimately show ?thesis using s3 by auto
qed

section \<open>Retried reports\<close>

lemma reported_job_simps [simp]:
  "jb_id (reported_job j r) = jb_id j" "jb_node (reported_job j r) = jb_node j" "jb_kind (reported_job j r) = jb_kind j"
  "jb_alloc (reported_job j r) = jb_alloc j" "jb_capability (reported_job j r) = jb_capability j"
  "jb_state (reported_job j r) = rp_State r"
  "coalesce (jb_instance (reported_job j r)) [] = merge_id (coalesce (jb_instance j) []) (rp_InstanceID r)"
  "coalesce (jb_operation (reported_job j r)) [] = merge_id (coalesce (jb_operation j) []) (rp_OperationID r)"
  "coalesce (jb_error (reported_job j r)) [] = rp_ErrorCode r" "coalesce (jb_stage (reported_job j r)) [] = rp_ErrorStage r"
  by (simp_all add: reported_job_def write_job_def)

lemma merge_wins: "b \<noteq> [] \<Longrightarrow> merge_id a b = b"
  by (simp add: merge_id_def)

lemma report_check_again:
  assumes "report_check j r d = Inr ()" "executions d' = executions d" "reportable (rp_State r)"
  shows "report_check (reported_job j r) r d' = Inr ()"
proof -
  note c = assms(1) [unfolded report_check_def Let_def rejectE_Inr]
  have st: "rp_State r \<noteq> JClaimed" using assms(3) by (auto simp: reportable_def)
  have ex: "execution_of d' = execution_of d" by (simp add: execution_of_def assms(2) fun_eq_iff)
  have p: "permittedTransition (rp_State r) (rp_State r)" by (simp add: permittedTransition_def)
  have m: "\<not> (b \<noteq> [] \<and> merge_id a b \<noteq> [] \<and> b \<noteq> merge_id a b)" for a b :: string by (simp add: merge_id_def)
  have e: "\<not> (rp_State r = JRejectedNoEffect \<and> (rp_State r = JUnknown \<or> rp_ErrorCode r = ''RECONCILED_NO_EFFECT''))"
    using c by (elim conjE) fastforce
  show ?thesis
    unfolding report_check_def Let_def rejectE_Inr reported_job_simps merge_again ex not_not
    using c by (elim conjE, intro conjI) (rule m p e refl | assumption | (use st in simp; fail))+
qed

lemma repeats_again: "repeats (reported_job j r) r"
  by (simp add: repeats_def)

lemma find_only:
  assumes "x \<in> set xs" "P x" "\<And>y. y \<in> set xs \<Longrightarrow> P y \<Longrightarrow> y = x"
  shows "find P xs = Some x"
proof (cases "find P xs")
  case None
  then show ?thesis using find_NoneD [OF None assms(1)] assms(2) by blast
next
  case (Some y)
  then show ?thesis using find_SomeD [OF Some] assms(3) by blast
qed

lemma locked_rows_persist:
  assumes "inv d'" "evolves d d'" "lockBusinessAllocation a n d = Inr x"
  shows "\<exists>y. lockBusinessAllocation a n d' = Inr y"
proof -
  from assms(3) obtain u where fx: "fetch (\<lambda>a'. al_id a' = a \<and> al_node a' = n) (allocs d) = Inr x"
    and fq: "(case al_request x of None \<Rightarrow> Inr () | Some r \<Rightarrow> bindE (fetch (\<lambda>q. rq_id q = r) (requests d)) (\<lambda>_. Inr ())) = Inr u"
    unfolding lockBusinessAllocation_def bindE_Inr by blast
  have x: "x \<in> set (allocs d)" "al_id x = a" "al_node x = n" using fetch_InrD [OF fx] by simp_all
  from assms(2) x(1) obtain y where y: "y \<in> set (allocs d')" "alloc_evolves x y"
    using alloc_ev.tbl_member unfolding evolves_def by blast
  then have id: "al_id y = a" "al_node y = n" "al_request y = al_request x"
    using x by (auto simp: alloc_evolves_def alloc_identity_def)
  have "find (\<lambda>z. al_id z = a \<and> al_node z = n) (allocs d') = Some y"
  proof (rule find_only [OF y(1)])
    fix z assume z: "z \<in> set (allocs d')" "al_id z = a \<and> al_node z = n"
    show "z = y" by (rule alloc_key [OF assms(1) y(1) z(1)]) (simp add: z(2) id(1))
  qed (simp add: id)
  moreover have "case al_request y of None \<Rightarrow> True | Some r \<Rightarrow> find (\<lambda>q. rq_id q = r) (requests d') \<noteq> None"
  proof (cases "al_request x")
    case (Some r)
    with fq obtain q0 where "fetch (\<lambda>q. rq_id q = r) (requests d) = Inr q0" by (auto simp: bindE_Inr)
    from fetch_InrD [OF this] have "q0 \<in> set (requests d)" "rq_id q0 = r" by simp_all
    moreover have "tbl request_evolves (requests d) (requests d')" using assms(2) by (simp add: evolves_def)
    ultimately obtain q1 where q1: "q1 \<in> set (requests d')" "request_evolves q0 q1"
      using request_ev.tbl_member by blast
    then have "rq_id q1 = r" using \<open>rq_id q0 = r\<close> by (simp add: request_evolves_def request_identity_def)
    with find_NoneD [of "\<lambda>q. rq_id q = r" "requests d'" q1] q1(1)
    have "find (\<lambda>q. rq_id q = r) (requests d') \<noteq> None" by blast
    then show ?thesis by (simp add: id(3) Some)
  qed (simp add: id(3))
  ultimately show ?thesis by (auto simp: lockBusinessAllocation_def fetch_def split: option.splits)
qed

lemma find_job:
  assumes "inv d" "j \<in> set (jobs d)"
  shows "fetch (\<lambda>k. jb_id k = jb_id j \<and> jb_node k = jb_node j) (jobs d) = Inr j"
proof -
  have "find (\<lambda>k. jb_id k = jb_id j \<and> jb_node k = jb_node j) (jobs d) = Some j"
    using job_key [OF assms] by (intro find_only [OF assms(2)]) blast+
  then show ?thesis by (simp add: fetch_def)
qed

lemma commit_parts:
  assumes "reportJob_commit n i r st newReq newJob now d = Inr d'"
  shows "\<exists>j x l. fetch (\<lambda>j. jb_id j = i \<and> jb_node j = n) (jobs d) = Inr j \<and> ReportRequest_Validate r = Inr ()
     \<and> fetch (\<lambda>x. nd_id x = n) (nodes d) = Inr x \<and> lockJobBusinessRows n i d = Inr l
     \<and> report_locked j n r st newReq newJob now d = Inr d'"
  using assms by (auto simp: reportJob_commit_def bindE_Inr conflict_Inr)

text \<open>
  C8: A retried report is acknowledged and changes nothing.  When a report has been committed, sending
  it again, at any later moment and with any fresh identifiers drawn for it, succeeds and leaves the
  database as it is.
\<close>

theorem retried_report_changes_nothing:
  assumes "reachable d" "reportJob_commit n i r None newReq newJob now d = Inr d'"
  shows "reportJob_commit n i r None newReq' newJob' now' d' = Inr d'"
proof -
  have sd: "sound_step d d'" by (rule sound_reportJob_commit [OF assms(2)])
  have iv: "inv d" "inv d'" "evolves d d'"
    using reachable_inv [OF assms(1)] sd by (simp_all add: sound_step_def)
  from commit_parts [OF assms(2)] obtain j x l where fj: "fetch (\<lambda>j. jb_id j = i \<and> jb_node j = n) (jobs d) = Inr j"
    and val: "ReportRequest_Validate r = Inr ()" and fn: "fetch (\<lambda>x. nd_id x = n) (nodes d) = Inr x"
    and lk: "lockJobBusinessRows n i d = Inr l" and rl: "report_locked j n r None newReq newJob now d = Inr d'" by blast
  have j: "j \<in> set (jobs d)" "jb_id j = i" "jb_node j = n" using fetch_InrD [OF fj] by simp_all
  have nodes: "nodes d' = nodes d" using fixed.W_commit [OF assms(2)] by (simp add: catalogue_def)
  have chk: "report_check j r d = Inr ()" using rl by (auto simp: report_locked_def bindE_Inr)
  show ?thesis
  proof (cases "repeats j r")
    case True
    then have "d' = d" using rl chk by (simp add: report_locked_def)
    then show ?thesis using fj val fn lk chk True
      by (simp add: reportJob_commit_def report_locked_def conflict_def)
  next
    case False
    then have ap: "apply_report j r n newReq newJob now d = Inr d'"
      using rl chk by (auto simp: report_locked_def rejectE_Inr)
    let ?j = "reported_job j r"
    note t = apply_report_tables [OF ap iv(1) j(1,3)]
    have idj: "jb_id ?j = i" "jb_node ?j = n" "jb_alloc ?j = jb_alloc j"
      using j by simp_all
    have f': "fetch (\<lambda>k. jb_id k = i \<and> jb_node k = n) (jobs d') = Inr ?j"
      using find_job [OF iv(2)] t idj by metis
    have "\<exists>y. lockJobBusinessRows n i d' = Inr y"
    proof (cases "jb_alloc j")
      case None
      then show ?thesis using f' idj by (simp add: lockJobBusinessRows_def)
    next
      case (Some a)
      with lk fj obtain y where "lockBusinessAllocation a n d = Inr y"
        by (auto simp: lockJobBusinessRows_def bindE_Inr)
      from locked_rows_persist [OF iv(2,3) this] show ?thesis
        using f' idj Some by (auto simp: lockJobBusinessRows_def)
    qed
    then obtain y where "lockJobBusinessRows n i d' = Inr y" by blast
    moreover have "report_locked ?j n r None newReq' newJob' now' d' = Inr d'"
      using report_check_again [OF chk _ validate_reportable [OF val]] t repeats_again by (simp add: report_locked_def)
    ultimately show ?thesis using f' fn val nodes by (simp add: reportJob_commit_def conflict_def)
  qed
qed

lemma trace_reject_commit: "reportJob_commit 5 40 reject_report None 21 41 2000 claimed_db = Inr released_db"
  by code_simp

lemma retried_report_changes_nothing_witness:
  "reportJob_commit 5 40 reject_report None 90 91 9000 released_db = Inr released_db"
  by (rule retried_report_changes_nothing [OF reachable_claimed trace_reject_commit])

section \<open>Late reports\<close>

lemma accepted_commit:
  assumes "reportJob_commit n i r None newReq newJob now d = Inr d'" "inv d" "j \<in> set (jobs d)" "jb_id j = i"
  shows "jb_node j = n \<and> report_check j r d = Inr () \<and> (repeats j r \<and> d' = d
     \<or> \<not> repeats j r \<and> \<not> terminal_job (jb_state j) \<and> apply_report j r n newReq newJob now d = Inr d')"
proof -
  from commit_parts [OF assms(1)] obtain k where fk: "fetch (\<lambda>j. jb_id j = i \<and> jb_node j = n) (jobs d) = Inr k"
    and rl: "report_locked k n r None newReq newJob now d = Inr d'" by blast
  have "k = j" "jb_node k = n" using fetch_InrD [OF fk] job_key [OF assms(2,3)] assms(4) by auto
  then show ?thesis using rl by (auto simp: report_locked_def bindE_Inr rejectE_Inr split: if_splits)
qed

lemma find_alloc: "inv d \<Longrightarrow> a \<in> set (allocs d) \<Longrightarrow> find (\<lambda>x. al_id x = al_id a) (allocs d) = Some a"
  using alloc_key by (intro find_only) blast+

lemma ignored_iff:
  "report_ignored a k s \<longleftrightarrow> al_state a = AReclaimed \<or> al_state a = AReleasedNoEffect \<or> al_state a = AQuarantined
     \<and> (k, s) \<notin> {(KStop, JSucceeded), (KCreate, JRejectedNoEffect)}"
  by (auto simp: report_ignored_def terminal_alloc_def releasing_def)

text \<open>
  C13: A late report is history only.  A report about an attempt that is already reclaimed or released
  without effect, or about a quarantined attempt unless it says that a stop succeeded or that a create
  was rejected without effect, touches nothing but its own job and the list of reports: attempt,
  request, intent and run stay as they are, and no new job is written.
\<close>

theorem late_report_is_history:
  assumes "reachable d" "reportJob_commit n i r None newReq newJob now d = Inr d'"
    and "j \<in> set (jobs d)" "jb_id j = i" "jb_alloc j = Some (al_id a)" "a \<in> set (allocs d)"
    and "al_state a = AReclaimed \<or> al_state a = AReleasedNoEffect \<or> al_state a = AQuarantined
      \<and> (jb_kind j, rp_State r) \<notin> {(KStop, JSucceeded), (KCreate, JRejectedNoEffect)}"
  shows "d' = d \<or> (\<exists>rs. d' = d\<lparr>jobs := upd_where (\<lambda>k. jb_id k = i \<and> jb_node k = n) (\<lambda>_. reported_job j r) (jobs d), job_reports := rs\<rparr>)"
proof -
  have late: "report_ignored a (jb_kind j) (rp_State r)" using assms(7) by (auto simp: ignored_iff)
  have iv: "inv d" by (rule reachable_inv [OF assms(1)])
  let ?i = "merge_id (coalesce (jb_instance j) []) (rp_InstanceID r)"
  let ?o = "merge_id (coalesce (jb_operation j) []) (rp_OperationID r)"
  from accepted_commit [OF assms(2) iv assms(3,4)] show ?thesis
  proof (elim conjE disjE)
    assume n: "jb_node j = n" and ap: "apply_report j r n newReq newJob now d = Inr d'"
    from ap obtain d1 d2 rs where
      s1: "put_jobs (upd_where (\<lambda>k. jb_id k = jb_id j \<and> jb_node k = n) (write_job r ?i ?o) (jobs d)) d = Inr d1"
      and s2: "applyAllocationJobReport (al_id a) n (jb_kind j) (rp_State r) ?i (rp_ErrorCode r)
                (rp_JoinInfo r) (rp_JoinInfoErrorCode r) newReq newJob now d1 = Inr d2"
      and s3: "d' = d2\<lparr>job_reports := rs\<rparr>"
      by (auto simp: apply_report_def Let_def bindE_Inr assms(5))
    have "allocs d1 = allocs d" using s1 by (simp add: put_Inr)
    then have "d2 = d1" using s2 late find_alloc [OF iv assms(6)]
      by (simp add: applyAllocationJobReport_def fetch_def)
    moreover have "upd_where (\<lambda>k. jb_id k = jb_id j \<and> jb_node k = n) (write_job r ?i ?o) (jobs d)
        = upd_where (\<lambda>k. jb_id k = i \<and> jb_node k = n) (\<lambda>_. reported_job j r) (jobs d)"
      using job_key [OF iv assms(3)] assms(4) by (auto simp: upd_where_def reported_job_def)
    ultimately show ?thesis using s1 s3 by (auto simp: put_Inr)
  qed simp
qed

lemma late_report_is_history_witness:
  "released_db = released_db \<or> (\<exists>rs. released_db = released_db\<lparr>jobs := upd_where (\<lambda>k. jb_id k = 40 \<and> jb_node k = 5)
     (\<lambda>_. reported_job rejected_job reject_report) (jobs released_db), job_reports := rs\<rparr>)"
proof (rule late_report_is_history [OF reachable_released])
  show "reportJob_commit 5 40 reject_report None 90 91 9000 released_db = Inr released_db" by code_simp
  show "rejected_job \<in> set (jobs released_db)" "released_alloc \<in> set (allocs released_db)" by (simp_all add: released_db_def)
  show "al_state released_alloc = AReclaimed \<or> al_state released_alloc = AReleasedNoEffect \<or> al_state released_alloc = AQuarantined
      \<and> (jb_kind rejected_job, rp_State reject_report) \<notin> {(KStop, JSucceeded), (KCreate, JRejectedNoEffect)}"
    by (simp add: released_alloc_def)
qed code_simp+

section \<open>Accepted reports\<close>

definition request_is :: "uuid \<Rightarrow> req_state \<Rightarrow> db \<Rightarrow> bool" where
  "request_is r s d \<longleftrightarrow> (\<exists>q \<in> set (requests d). rq_id q = r \<and> rq_state q = s)"

lemma request_is_append: "request_is r s d \<Longrightarrow> requests d' = requests d @ qs \<Longrightarrow> request_is r s d'"
  by (auto simp: request_is_def)

lemma consume_requests:
  assumes "consumeNextGameIntent src after newID now d = Inr d'"
  shows "\<exists>qs. requests d' = requests d @ qs"
proof -
  have "\<exists>qs. requests d' = requests d @ qs" if "consume_pending src newID now r d = Inr d'" for r
    using that by (auto simp: consume_pending_def result_simps split: sum.splits if_splits)
  then show ?thesis using consume_cases [OF assms] by auto
qed

text \<open>A live request takes the new state; an abandoned one stays abandoned.\<close>

definition live_state :: "request_row \<Rightarrow> req_state \<Rightarrow> req_state" where
  "live_state p s = (if rq_state p = RAbandoned then RAbandoned else s)"

lemma set_live_request_is:
  assumes "set_live_request_state q s now d = Inr d'" "p \<in> set (requests d)" "rq_id p = q"
  shows "request_is q (live_state p s) d'"
proof -
  have "(if rq_state p = RAbandoned then p else p\<lparr>rq_state := s, rq_updated := now\<rparr>) \<in> set (requests d')"
    using assms by (auto simp: set_live_request_state_def put_Inr set_upd_where)
  then show ?thesis
    unfolding request_is_def live_state_def by (rule bexI [rotated]) (simp add: assms(3))
qed

lemma report_owner_request:
  assumes "report_owner a k s e jd x rs newReq now d = Inr d'" "al_request a = Some q"
    and "p \<in> set (requests d)" "rq_id p = q"
  shows "request_is q (live_state p rs) d' \<and> allocs d' = allocs d"
proof -
  from assms(1,2) obtain d1 d2 d3 where
    s1: "set_live_request_state q rs now d = Inr d1"
    and s2: "(case al_run a of None \<Rightarrow> Inr d1 | Some v \<Rightarrow> advanceValidationFromJob v k s x e jd now d1) = Inr d2"
    and s3: "(if x = AQuarantined then pauseNextGameIntent q d2 else Inr d2) = Inr d3"
    and s4: "(if k = KStop \<and> s = JSucceeded \<and> al_state a \<noteq> AQuarantined
         then consumeNextGameIntent q False newReq now d3 else Inr d3) = Inr d'"
    by (auto simp: report_owner_def bindE_Inr)
  have "request_is q (live_state p rs) d1" by (rule set_live_request_is [OF s1 assms(3,4)])
  moreover have "requests d2 = requests d1"
    using s2 advance_job_tables by (auto split: option.splits)
  moreover have "requests d3 = requests d2" using s3 by (auto simp: pauseNextGameIntent_def put_Inr split: if_splits)
  moreover have "\<exists>qs. requests d' = requests d3 @ qs" using s4 consume_requests by (auto split: if_splits)
  ultimately have "request_is q (live_state p rs) d'" using request_is_append by auto
  moreover have "allocs d1 = allocs d" by (rule keeps_allocs(1) [OF s1])
  moreover have "allocs d2 = allocs d1" using s2 advance_keeps_allocs(1) by (auto split: option.splits)
  moreover have "allocs d3 = allocs d2" using s3 keeps_allocs(3) by (auto split: if_splits)
  moreover have "allocs d' = allocs d3" using s4 consume_keeps_allocs by (auto split: if_splits)
  ultimately show ?thesis by simp
qed

text \<open>A create that failed with an instance whose identity is known is stopped at once.\<close>

definition stopped_at_once :: "job_kind \<Rightarrow> job_state \<Rightarrow> string \<Rightarrow> string \<Rightarrow> bool" where
  "stopped_at_once k s i e \<longleftrightarrow> k = KCreate \<and> s = JFailedWithEffect \<and> i \<noteq> [] \<and> e \<noteq> ''IDENTITY_UNVERIFIED''"

lemma effectful_stop_outcome:
  assumes "effectful_create_stop i n (Some q) k s inst e newJob now d = Inr d'"
    and "alloc_is i x d" "request_is q (live_state p rs) d" "rs \<noteq> RAbandoned"
  shows "alloc_is i (if stopped_at_once k s inst e then AStopping else x) d'
    \<and> request_is q (live_state p (if stopped_at_once k s inst e then RStopping else rs)) d'"
proof (cases "stopped_at_once k s inst e")
  case True
  with assms(1) obtain d1 d2 where s1: "insert_stop newJob n i inst now d = Inr d1"
    and s2: "set_alloc i (al_state_update (\<lambda>_. AStopping)) d1 = Inr d2"
    and s3: "set_live_request_state q RStopping now d2 = Inr d'"
    by (auto simp: effectful_create_stop_def stopped_at_once_def bindE_Inr)
  have "alloc_is i AStopping d2" by (rule alloc_is_set [OF s2]) simp_all
  moreover have "requests d2 = requests d" using insert_stop_requests(1) [OF s1] insert_stop_requests(2) [OF s2] by simp
  then obtain p' where p': "p' \<in> set (requests d2)" "rq_id p' = q" "rq_state p' = live_state p rs"
    using assms(3) by (auto simp: request_is_def)
  ultimately show ?thesis using True keeps_allocs(1) [OF s3] set_live_request_is [OF s3 p'(1,2)] p'(3) assms(4)
    by (auto simp: alloc_is_def live_state_def split: if_splits)
next
  case False
  then have "d' = d" using assms(1) unfolding effectful_create_stop_def stopped_at_once_def by (simp split: if_splits)
  with False assms(2,3) show ?thesis by simp
qed

lemma apply_effect_outcome:
  assumes "apply_effect a n k s inst e j je x rs newReq newJob now d = Inr d'"
    and "al_request a = Some q" "p \<in> set (requests d)" "rq_id p = q" "rs \<noteq> RAbandoned"
  shows "alloc_is (al_id a) (if stopped_at_once k s inst e then AStopping else x) d'
    \<and> request_is q (live_state p (if stopped_at_once k s inst e then RStopping else rs)) d'"
proof -
  from apply_effect_steps [OF assms(1)] obtain d1 jd d2 d3 where s1: "set_alloc (al_id a) (write_alloc_state x e now) d = Inr d1"
    and s2: "record_join (al_id a) n k s j je now d1 = Inr (jd, d2)" and s3: "report_owner a k s e jd x rs newReq now d2 = Inr d3"
    and s4: "effectful_create_stop (al_id a) n (al_request a) k s inst e newJob now d3 = Inr d'" by blast
  have "alloc_is (al_id a) x d1" by (rule alloc_is_set [OF s1]) (simp_all add: write_alloc_state_def)
  then have is2: "alloc_is (al_id a) x d2" by (rule record_join_alloc_is [OF s2])
  have "requests d2 = requests d"
    using s1 record_join_cases [OF s2] by (auto simp: set_alloc_def put_Inr)
  then have o: "request_is q (live_state p rs) d3 \<and> allocs d3 = allocs d2"
    using report_owner_request [OF s3 assms(2)] assms(3,4) by simp
  then have "alloc_is (al_id a) x d3" using is2 by (simp add: alloc_is_def)
  from effectful_stop_outcome [OF s4 [unfolded assms(2)] this conjunct1 [OF o] assms(5)] show ?thesis .
qed

text \<open>The two tables of the code, for the attempt and request after every report.\<close>

lemma effect_table:
  assumes "report_effect k s e auto paused = Some (x, y)"
  shows "(k, s, if stopped_at_once k s i e then AStopping else x, if stopped_at_once k s i e then RStopping else y) \<in>
      {(KCreate, JAccepted, ACreating, RCreating),
       (KCreate, JUnknown, ACreateUnknown, RCreating),
       (KCreate, JSucceeded, ARunning, RRunning),
       (KCreate, JRejectedNoEffect, AReleasedNoEffect, if auto then RWaiting else RUnavailable),
       (if e = ''IDENTITY_UNVERIFIED'' then (KCreate, JFailedWithEffect, AQuarantined, RQuarantined)
        else if i = [] then (KCreate, JFailedWithEffect, AFailedUnreclaimed, RFailedUnreclaimed)
        else (KCreate, JFailedWithEffect, AStopping, RStopping)),
       (KStop, JAccepted, AStopping, RStopping),
       (KStop, JUnknown, AStopping, RStopping),
       (KStop, JSucceeded, AReclaimed, if paused then RQuarantined else REnded),
       (KStop, JFailedWithEffect, AQuarantined, RQuarantined)}"
  using assms by (cases k; cases s) (auto simp: report_effect_def stopped_at_once_def)

lemma effect_not_abandoned: "report_effect k s e auto paused = Some (x, y) \<Longrightarrow> y \<noteq> RAbandoned"
  by (cases k; cases s) (auto simp: report_effect_def split: if_splits)

lemma merge_id_empty: "merge_id a b = [] \<longleftrightarrow> b = [] \<and> a = []"
  by (simp add: merge_id_def)

lemma alloc_survives:
  assumes "reachable d" "reportJob_commit n i r None newReq newJob now d = Inr d'" "a \<in> set (allocs d)"
  shows "\<exists>a' \<in> set (allocs d'). al_id a' = al_id a"
proof -
  have "evolves d d'"
    using sound_reportJob_commit [OF assms(2)] reachable_inv [OF assms(1)] by (simp add: sound_step_def)
  then obtain y where "y \<in> set (allocs d')" "alloc_evolves a y"
    using alloc_ev.tbl_member assms(3) unfolding evolves_def by blast
  then show ?thesis by (auto simp: alloc_evolves_def alloc_identity_def)
qed

text \<open>
  C11: An accepted report moves attempt and request together.  When a report about an attempt of a player
  request is committed for the first time, and the attempt is neither reclaimed nor released nor (without a
  proof) quarantined, the job kind and the reported state decide where both are afterwards.  A create:
  accepted - creating and creating; unknown - create unknown and creating; succeeded - running and running;
  rejected without effect - released, and the request waits again if its node was chosen automatically and is
  unavailable otherwise; failed with effect - quarantined if the identity is unverified, otherwise stopping
  if an instance is known and failed unreclaimed if none is.  A stop: accepted or unknown - stopping; succeeded
  - reclaimed, and the request has ended unless its next-game intent is paused, when it is quarantined; failed with
  effect - quarantined.  No other report is accepted, and a request that its owner abandoned stays abandoned.
\<close>

theorem report_moves_attempt_and_request:
  assumes "reachable d" "reportJob_commit n i r None newReq newJob now d = Inr d'"
    and "j \<in> set (jobs d)" "jb_id j = i" "jb_alloc j = Some (al_id a)" "a \<in> set (allocs d)"
    and "\<not> repeats j r" "al_state a \<notin> {AReclaimed, AReleasedNoEffect}"
    and "al_state a = AQuarantined \<longrightarrow> (jb_kind j, rp_State r) \<in> {(KStop, JSucceeded), (KCreate, JRejectedNoEffect)}"
    and "al_request a = Some q" "p \<in> set (requests d)" "rq_id p = q"
  shows "\<exists>x y. (jb_kind j, rp_State r, x, y) \<in>
      {(KCreate, JAccepted, ACreating, RCreating),
       (KCreate, JUnknown, ACreateUnknown, RCreating),
       (KCreate, JSucceeded, ARunning, RRunning),
       (KCreate, JRejectedNoEffect, AReleasedNoEffect, if rq_mode p = SelAuto then RWaiting else RUnavailable),
       (if rp_ErrorCode r = ''IDENTITY_UNVERIFIED'' then (KCreate, JFailedWithEffect, AQuarantined, RQuarantined)
        else if rp_InstanceID r = [] \<and> coalesce (jb_instance j) [] = []
          then (KCreate, JFailedWithEffect, AFailedUnreclaimed, RFailedUnreclaimed)
        else (KCreate, JFailedWithEffect, AStopping, RStopping)),
       (KStop, JAccepted, AStopping, RStopping),
       (KStop, JUnknown, AStopping, RStopping),
       (KStop, JSucceeded, AReclaimed,
          if \<exists>k \<in> set (intents d). ni_source k = q \<and> ni_state k = IPaused then RQuarantined else REnded),
       (KStop, JFailedWithEffect, AQuarantined, RQuarantined)}
    \<and> (\<exists>a' \<in> set (allocs d'). al_id a' = al_id a \<and> al_state a' = x)
    \<and> (\<exists>p' \<in> set (requests d'). rq_id p' = q \<and> rq_state p' = (if rq_state p = RAbandoned then RAbandoned else y))"
proof -
  have iv: "inv d" by (rule reachable_inv [OF assms(1)])
  have early: "\<not> report_ignored a (jb_kind j) (rp_State r)" using assms(8,9) by (auto simp: ignored_iff)
  let ?i = "merge_id (coalesce (jb_instance j) []) (rp_InstanceID r)"
  from accepted_commit [OF assms(2) iv assms(3,4)] assms(7) have "apply_report j r n newReq newJob now d = Inr d'" by simp
  then obtain js d1 d2 rs where s1: "put_jobs js d = Inr d1"
    and s2: "applyAllocationJobReport (al_id a) n (jb_kind j) (rp_State r) ?i (rp_ErrorCode r)
              (rp_JoinInfo r) (rp_JoinInfoErrorCode r) newReq newJob now d1 = Inr d2"
    and s3: "d' = d2\<lparr>job_reports := rs\<rparr>"
    by (auto simp: apply_report_def Let_def bindE_Inr assms(5))
  have same: "allocs d1 = allocs d" "requests d1 = requests d" "intents d1 = intents d" using s1 by (auto simp: put_Inr)
  have key: "rq_id x = q \<Longrightarrow> x \<in> set (requests d) \<Longrightarrow> x = p" for x
    using request_key [OF iv assms(11)] assms(12) by simp
  have "(\<exists>x \<in> set (requests d). rq_id x = q \<and> rq_mode x = SelAuto) \<longleftrightarrow> rq_mode p = SelAuto"
    using key assms(11,12) by blast
  then have auto: "auto_request a d1 = (rq_mode p = SelAuto)" by (simp add: auto_request_def assms(10) same(2))
  let ?paused = "\<exists>k \<in> set (intents d). ni_source k = q \<and> ni_state k = IPaused"
  have paused: "owner_paused a d1 = ?paused"
    using assms(10) same(3) by (simp add: owner_paused_def paused_intent_def)
  obtain x y where eff: "report_effect (jb_kind j) (rp_State r) (rp_ErrorCode r) (rq_mode p = SelAuto) ?paused = Some (x, y)"
    and ap: "apply_effect a n (jb_kind j) (rp_State r) ?i (rp_ErrorCode r) (rp_JoinInfo r) (rp_JoinInfoErrorCode r) x y newReq newJob now d1 = Inr d2"
    using s2 early find_alloc [OF iv assms(6)]
    by (auto simp: applyAllocationJobReport_def fetch_def same(1) auto paused split: option.splits)
  let ?stop = "stopped_at_once (jb_kind j) (rp_State r) ?i (rp_ErrorCode r)"
  define x' y' where "x' = (if ?stop then AStopping else x)" and "y' = (if ?stop then RStopping else y)"
  have p: "p \<in> set (requests d1)" using assms(11) same(2) by simp
  have o: "alloc_is (al_id a) x' d2" "request_is q (live_state p y') d2"
    using apply_effect_outcome [OF ap assms(10) p assms(12) effect_not_abandoned [OF eff]] by (simp_all add: x'_def y'_def)
  note row = effect_table [OF eff, of ?i, folded x'_def y'_def, unfolded merge_id_empty]
  have a': "\<exists>a' \<in> set (allocs d'). al_id a' = al_id a \<and> al_state a' = x'"
    using alloc_survives [OF assms(1,2,6)] o(1) s3 by (auto simp: alloc_is_def)
  have p': "\<exists>p' \<in> set (requests d'). rq_id p' = q \<and> rq_state p' = (if rq_state p = RAbandoned then RAbandoned else y')"
    using o(2) s3 by (simp add: request_is_def live_state_def)
  show ?thesis by (rule exI [of _ x'], rule exI [of _ y'], intro conjI row a' p')
qed

lemma report_moves_attempt_and_request_witness:
  "(\<exists>a' \<in> set (allocs released_db). al_id a' = 30 \<and> al_state a' = AReleasedNoEffect)
    \<and> (\<exists>p' \<in> set (requests released_db). rq_id p' = 20 \<and> rq_state p' = RWaiting)"
proof -
  let ?p = "sample_request\<lparr>rq_state := RAllocating, rq_updated := 1000\<rparr>"
  have in_db: "claimed_job \<in> set (jobs claimed_db)" "sample_alloc \<in> set (allocs claimed_db)" "?p \<in> set (requests claimed_db)"
    by (simp_all add: claimed_db_def reserved_db_def)
  have vals: "jb_id claimed_job = 40" "jb_alloc claimed_job = Some (al_id sample_alloc)" "\<not> repeats claimed_job reject_report"
    "al_state sample_alloc \<notin> {AReclaimed, AReleasedNoEffect}" "al_state sample_alloc \<noteq> AQuarantined"
    "al_request sample_alloc = Some 20" "rq_id ?p = 20" by code_simp+
  have "jb_kind claimed_job = KCreate" "rp_State reject_report = JRejectedNoEffect" "rq_mode ?p = SelAuto"
    "rq_state ?p \<noteq> RAbandoned" "al_id sample_alloc = 30" by code_simp+
  then show ?thesis
    using report_moves_attempt_and_request [OF reachable_claimed trace_reject_commit in_db(1) vals(1,2) in_db(2) vals(3,4) _
        vals(6) in_db(3) vals(7)] vals(5) by (auto split: if_splits)
qed

section \<open>Quarantine\<close>

lemma count_upd_less:
  assumes "x \<in> set rs" "P x" "Q x" "\<And>r. P r \<Longrightarrow> \<not> Q (f r)"
  shows "count_where Q (upd_where P f rs) < count_where Q rs"
  using assms(1)
proof (induction rs)
  case (Cons r rs)
  have le: "count_where Q (upd_where P f rs) \<le> count_where Q rs" by (rule count_upd_where_le) (use assms(4) in blast)
  show ?case
  proof (cases "x = r")
    case True
    then show ?thesis using le assms by (simp add: count_where_Cons)
  next
    case False
    with Cons have "count_where Q (upd_where P f rs) < count_where Q rs" by simp
    then show ?thesis using assms(4) [of r] by (auto simp: count_where_Cons)
  qed
qed simp

lemma quarantine_owner_tables:
  assumes "quarantine_owner a now d = Inr d'"
  shows "jobs d' = jobs d \<and> allocs d' = allocs d \<and> catalogue d' = catalogue d"
proof -
  have fact: "jobs e' = jobs e" if f: "advanceValidationFromFact v FactQuarantined False now e = Inr e'" for v e e'
  proof -
    obtain rs where "e' = e\<lparr>runs := rs\<rparr>" using advanceValidationFromFact_frame [OF f] by blast
    then show ?thesis by simp
  qed
  have "jobs d' = jobs d"
  proof (cases "al_request a")
    case None
    then show ?thesis using assms fact by (auto simp: quarantine_owner_def split: option.splits)
  next
    case (Some r)
    with assms obtain d1 where "set_live_request_state r RQuarantined now d = Inr d1" "pauseNextGameIntent r d1 = Inr d'"
      by (auto simp: quarantine_owner_def bindE_Inr)
    then show ?thesis by (simp add: set_live_request_state_def pauseNextGameIntent_def put_Inr)
  qed
  then show ?thesis using fixed.W_quarantine_owner [OF assms] sound_quarantine_owner [OF assms] by simp
qed

text \<open>
  The quarantine cycle comes to an end.  Each cycle that quarantines an attempt strictly lowers the
  number of attempts whose node has been silent past the threshold; a cycle that reports no work found
  none of them and changed nothing.
\<close>

theorem quarantine_cycle_converges:
  assumes "QuarantineOneUnreachable now d = Inr (again, d')"
  shows "if again then count_where (unreachable now d') (allocs d') < count_where (unreachable now d) (allocs d)
    else d' = d \<and> (\<forall>a \<in> set (allocs d). \<not> unreachable now d a)"
proof (cases "oldest (\<lambda>a. (heartbeat_at d (al_node a), al_assigned a, al_id a)) (unreachable now d) (allocs d)")
  case None
  then have "again = False \<and> d' = d" using assms by (simp add: QuarantineOneUnreachable_def)
  then show ?thesis using None by (simp add: oldest_None)
next
  case (Some a)
  let ?f = "\<lambda>a. a\<lparr>al_state := AQuarantined, al_error := Some ''NODE_UNREACHABLE'', al_quarantined := Some now\<rparr>"
  from assms Some obtain d1 d2 where s1: "set_alloc (al_id a) ?f d = Inr d1" and s2: "quarantine_owner a now d1 = Inr d2"
    and d': "d' = write_audit ''system'' ''allocation.quarantine.unreachable'' (al_id a) d2" and again: "again"
    by (auto simp: QuarantineOneUnreachable_def bindE_Inr rejectE_Inr)
  note q = quarantine_owner_tables [OF s2]
  have al: "allocs d' = upd_where (\<lambda>x. al_id x = al_id a) ?f (allocs d)"
    using s1 q by (simp add: d' write_audit_def set_alloc_def put_Inr)
  have "jobs d' = jobs d \<and> nodes d' = nodes d \<and> settings d' = settings d"
    using s1 q by (simp add: d' write_audit_def set_alloc_def put_Inr catalogue_def)
  then have same: "unreachable now d' = unreachable now d"
    by (simp add: unreachable_def possibly_effectful_def node_of_def fun_eq_iff)
  have "count_where (unreachable now d) (upd_where (\<lambda>x. al_id x = al_id a) ?f (allocs d)) < count_where (unreachable now d) (allocs d)"
    by (rule count_upd_less [of a]) (use oldest_SomeD [OF Some] in \<open>auto simp: unreachable_def possibly_effectful_def\<close>)
  then show ?thesis by (simp add: again al same)
qed

lemma quarantine_cycle_converges_witness:
  "\<exists>d'. count_where (unreachable (2 * hour) d') (allocs d') < count_where (unreachable (2 * hour) claimed_db) (allocs claimed_db)"
proof -
  have "map_sum id fst (QuarantineOneUnreachable (2 * hour) claimed_db) = Inr True" by code_simp
  then obtain d' where "QuarantineOneUnreachable (2 * hour) claimed_db = Inr (True, d')"
    by (cases "QuarantineOneUnreachable (2 * hour) claimed_db") (auto simp: prod_eq_iff)
  from quarantine_cycle_converges [OF this] show ?thesis by auto
qed

text \<open>
  Abandoning does not release capacity.  When an owner abandons a quarantined request, the request
  is abandoned for good and the owner is free to submit again, but every attempt, every job and every
  execution is exactly as before, so the node keeps the slot until the resource is proved gone.
\<close>

theorem abandoning_keeps_capacity:
  assumes "AbandonQuarantinedUserRequest u i newReq now d = Inr (r, d')"
  shows "allocs d' = allocs d \<and> jobs d' = jobs d \<and> executions d' = executions d \<and> occupied d' n = occupied d n
    \<and> request_is i RAbandoned d'"
proof -
  from abandon_cases [OF assms] consider q where "d' = d" "q \<in> set (requests d)" "rq_id q = i" "rq_state q = RAbandoned"
    | q d1 where "q \<in> set (requests d)" "rq_id q = i" "abandon_writes i now d = Inr d1"
      "consumeNextGameIntent i True newReq now d1 = Inr d'" by blast
  then have "allocs d' = allocs d \<and> jobs d' = jobs d \<and> executions d' = executions d \<and> request_is i RAbandoned d'"
  proof cases
    case 1
    then show ?thesis unfolding request_is_def by blast
  next
    case (2 q d1)
    have "q\<lparr>rq_state := RAbandoned, rq_abandoned := Some now, rq_updated := now\<rparr> \<in> set (requests d1)"
      using 2 by (auto simp: abandon_writes_def put_Inr set_upd_where)
    then have "request_is i RAbandoned d1" unfolding request_is_def by (rule bexI [rotated]) (simp add: 2)
    then have "request_is i RAbandoned d'" using consume_requests [OF 2(4)] request_is_append by blast
    moreover have "allocs d1 = allocs d \<and> jobs d1 = jobs d \<and> executions d1 = executions d"
      using 2(3) by (simp add: abandon_writes_def put_Inr)
    ultimately show ?thesis using consume_tables [OF 2(4)] consume_keeps_allocs [OF 2(4)] by simp
  qed
  then show ?thesis by (simp add: occupied_def)
qed

lemma abandoning_keeps_capacity_witness:
  "\<forall>k fp. allocs (abandoned_db k fp) = allocs (quarantined_db k fp) \<and> request_is 20 RAbandoned (abandoned_db k fp)"
proof (intro allI)
  fix k fp
  from committed [OF trace_abandon [of k fp]] obtain r
    where "AbandonQuarantinedUserRequest 7 20 24 5000 (quarantined_db k fp) = Inr (r, abandoned_db k fp)" by blast
  from abandoning_keeps_capacity [OF this]
  show "allocs (abandoned_db k fp) = allocs (quarantined_db k fp) \<and> request_is 20 RAbandoned (abandoned_db k fp)" by blast
qed

end
