(* ===== verification/Guarantees.thy ===== *)
theory Guarantees
  imports Retries
begin

text \<open>
  What the server guarantees over its whole life, for every interleaving of committed operations:
  the statements are about \<open>store_step\<^sup>*\<^sup>*\<close> from a reachable state.  Each rests on the row relations of
  \<open>Evolution\<close>, which every operation keeps.
\<close>

lemma alloc_later:
  assumes "reachable d" "store_step\<^sup>*\<^sup>* d d'" "a \<in> set (allocs d)"
  shows "\<exists>b \<in> set (allocs d'). alloc_evolves a b"
  using reachable_evolves [OF assms(1,2)] alloc_ev.tbl_member assms(3) unfolding evolves_def by blast

lemma job_later:
  assumes "reachable d" "store_step\<^sup>*\<^sup>* d d'" "j \<in> set (jobs d)"
  shows "\<exists>k \<in> set (jobs d'). job_evolves j k"
  using reachable_evolves [OF assms(1,2)] job_ev.tbl_member assms(3) unfolding evolves_def by blast

lemma run_later:
  assumes "reachable d" "store_step\<^sup>*\<^sup>* d d'" "v \<in> set (runs d)"
  shows "\<exists>w \<in> set (runs d'). run_evolves v w"
  using reachable_evolves [OF assms(1,2)] run_ev.tbl_member assms(3) unfolding evolves_def by blast

text \<open>The row with a given key is the successor of the old row with that key.\<close>

lemma alloc_with_id:
  assumes "reachable d" "store_step\<^sup>*\<^sup>* d d'" "a \<in> set (allocs d)" "b \<in> set (allocs d')" "al_id b = al_id a"
  shows "alloc_evolves a b"
proof -
  obtain c where c: "c \<in> set (allocs d')" "alloc_evolves a c" using alloc_later [OF assms(1-3)] by blast
  then have "al_id c = al_id a" by (simp add: alloc_evolves_def alloc_identity_def)
  then have "b = c"
    using alloc_key [OF reachable_inv [OF reachable_steps [OF assms(1,2)]] c(1) assms(4)] assms(5) by simp
  with c(2) show ?thesis by simp
qed

lemma job_with_id:
  assumes "reachable d" "store_step\<^sup>*\<^sup>* d d'" "j \<in> set (jobs d)" "k \<in> set (jobs d')" "jb_id k = jb_id j"
  shows "job_evolves j k"
proof -
  obtain c where c: "c \<in> set (jobs d')" "job_evolves j c" using job_later [OF assms(1-3)] by blast
  then have "jb_id c = jb_id j" by (simp add: job_evolves_def job_identity_def)
  then have "k = c"
    using job_key [OF reachable_inv [OF reachable_steps [OF assms(1,2)]] c(1) assms(4)] assms(5) by simp
  with c(2) show ?thesis by simp
qed

lemma steps_ended: "store_step\<^sup>*\<^sup>* (stopping_db k fp) (ended_db k fp)"
  using steps_run(5-7) by (meson converse_rtranclp_into_rtranclp rtranclp.rtrancl_refl)

lemma steps_stopping: "store_step\<^sup>*\<^sup>* (accepted_db k fp) (stopping_db k fp)"
  using steps_run(3,4) by (meson converse_rtranclp_into_rtranclp rtranclp.rtrancl_refl)

section \<open>Attempts\<close>

text \<open>C1: an attempt that was proved reclaimed or released with no effect is never written again, by any
  operation: its capacity cannot become occupied again and its recorded outcome stands.\<close>

theorem terminal_attempt_is_final:
  assumes "reachable d" "store_step\<^sup>*\<^sup>* d d'" "a \<in> set (allocs d)" "terminal_alloc (al_state a)"
  shows "a \<in> set (allocs d')"
  using alloc_later [OF assms(1-3)] assms(4) unfolding alloc_evolves_def by metis

lemma terminal_attempt_is_final_witness: "released_alloc \<in> set (allocs unavailable_db)"
proof (rule terminal_attempt_is_final [OF reachable_released step_unavailable])
  show "released_alloc \<in> set (allocs released_db)" by (simp add: released_db_def)
  show "terminal_alloc (al_state released_alloc)" by (simp add: released_alloc_def terminal_alloc_def)
qed

text \<open>The request or run, game, node, content version, template revision, sequence and assignment time of
  an attempt are frozen when it is reserved.\<close>

theorem attempt_identity_frozen:
  assumes "reachable d" "store_step\<^sup>*\<^sup>* d d'" "a \<in> set (allocs d)" "b \<in> set (allocs d')" "al_id b = al_id a"
  shows "al_request b = al_request a \<and> al_run b = al_run a \<and> al_game b = al_game a \<and> al_node b = al_node a
    \<and> al_content b = al_content a \<and> al_revision b = al_revision a \<and> al_sequence b = al_sequence a
    \<and> al_assigned b = al_assigned a"
  using alloc_with_id [OF assms] by (simp add: alloc_evolves_def alloc_identity_def)

lemma attempt_identity_frozen_witness: "al_node (running_alloc\<lparr>al_state := AStopping\<rparr>) = al_node
    (sample_alloc\<lparr>al_state := ACreating, al_create_started := Some 1500\<rparr>)"
  using attempt_identity_frozen [OF reachable_run(2) steps_stopping,
      of "sample_alloc\<lparr>al_state := ACreating, al_create_started := Some 1500\<rparr>" "running_alloc\<lparr>al_state := AStopping\<rparr>"]
  by (simp add: accepted_db_def prepared_db_def stopping_db_def running_alloc_def)

text \<open>C9: a quarantined attempt of a player leaves quarantine only when its resources are proved gone; no
  report, observation, stop, abandonment or administrator action makes it running or stopping again.\<close>

theorem quarantine_left_only_by_proof:
  assumes "reachable d" "store_step\<^sup>*\<^sup>* d d'" "a \<in> set (allocs d)" "al_state a = AQuarantined" "al_run a = None"
    and "b \<in> set (allocs d')" "al_id b = al_id a"
  shows "al_state b \<in> {AQuarantined, AReclaimed, AReleasedNoEffect}"
  using alloc_with_id [OF assms(1-3,6,7)] assms(4,5)
  by (auto simp: alloc_evolves_def leaves_quarantine_to_def terminal_alloc_def)

lemma quarantine_left_only_by_proof_witness: "al_state quarantined_alloc \<in> {AQuarantined, AReclaimed, AReleasedNoEffect}"
  using quarantine_left_only_by_proof [OF reachable_quarantined steps_abandoned, of quarantined_alloc quarantined_alloc]
  by (simp add: quarantined_rows quarantined_alloc_def running_alloc_def sample_alloc_def)

section \<open>Node jobs\<close>

text \<open>C5: a job whose operation was accepted by the node, or whose outcome is unknown, is never rejected as
  without effect, nor handed out or queued again.\<close>

theorem ambiguous_job_never_rejected:
  assumes "reachable d" "store_step\<^sup>*\<^sup>* d d'" "j \<in> set (jobs d)" "jb_state j = JAccepted \<or> jb_state j = JUnknown"
    and "k \<in> set (jobs d')" "jb_id k = jb_id j"
  shows "jb_state k \<in> {JAccepted, JUnknown, JSucceeded, JFailedWithEffect}"
  using job_with_id [OF assms(1-3,5,6)] assms(4) by (auto simp: job_evolves_def job_state_evolves_def)

lemma ambiguous_job_never_rejected_witness: "jb_state (accepted_job\<lparr>jb_state := JSucceeded\<rparr>)
    \<in> {JAccepted, JUnknown, JSucceeded, JFailedWithEffect}"
  by (rule ambiguous_job_never_rejected [OF reachable_run(2) steps_stopping, of accepted_job])
    (simp_all add: accepted_db_def stopping_db_def accepted_job_def)

text \<open>Node, kind, attempt, target instance and every pinned fact of a job are frozen when it is written; the
  instance and operation identifiers of the core are set once; a settled job is never written again.\<close>

theorem job_identity_write_once:
  assumes "reachable d" "store_step\<^sup>*\<^sup>* d d'" "j \<in> set (jobs d)" "k \<in> set (jobs d')" "jb_id k = jb_id j"
  shows "jb_node k = jb_node j \<and> jb_kind k = jb_kind j \<and> jb_alloc k = jb_alloc j
    \<and> jb_binding_key k = jb_binding_key j \<and> jb_fingerprint k = jb_fingerprint j \<and> jb_capability k = jb_capability j
    \<and> (coalesce (jb_instance j) [] \<noteq> [] \<longrightarrow> jb_instance k = jb_instance j)
    \<and> (coalesce (jb_operation j) [] \<noteq> [] \<longrightarrow> jb_operation k = jb_operation j)
    \<and> (terminal_job (jb_state j) \<longrightarrow> k = j)"
  using job_with_id [OF assms] unfolding job_evolves_def job_identity_def write_once_def by blast

lemma job_identity_write_once_witness: "jb_instance (accepted_job\<lparr>jb_state := JSucceeded\<rparr>) = Some ''i1''"
  using job_identity_write_once [OF reachable_run(2) steps_stopping, of accepted_job "accepted_job\<lparr>jb_state := JSucceeded\<rparr>"]
  by (simp add: accepted_db_def stopping_db_def accepted_job_def)

text \<open>A frozen create request is never changed or deleted: the stored ones stay in place and new ones are
  appended, at most one per job and per idempotency key.\<close>

theorem frozen_creates_append_only:
  assumes "reachable d" "store_step\<^sup>*\<^sup>* d d'"
  shows "(\<exists>es. executions d' = executions d @ es) \<and> distinct (map ex_job (executions d'))
    \<and> distinct (map ex_key (executions d'))"
proof -
  have "tbl (=) (executions d) (executions d')" using reachable_evolves [OF assms] by (simp add: evolves_def)
  then have "take (length (executions d)) (executions d') = executions d"
    by (intro nth_equalityI) (simp_all add: tbl_def)
  then have "\<exists>es. executions d' = executions d @ es" by (metis append_take_drop_id)
  then show ?thesis
    using reachable_inv [OF reachable_steps [OF assms]] by (simp add: inv_def schema_ok_def executions_ok_def)
qed

lemma frozen_creates_append_only_witness: "\<exists>es. executions (run_of stopping_db) = executions (run_of accepted_db) @ es"
  using frozen_creates_append_only [OF reachable_run(2) steps_stopping] by blast

section \<open>Uniqueness\<close>

text \<open>At every moment an owner has at most one blocking request, a request at most one attempt that is
  not resource-terminal, a validation run at most one attempt, and an attempt at most one create job and
  one unsettled stop job.\<close>

theorem at_most_one_of_each:
  assumes "reachable d"
  shows "count_where (\<lambda>r. blocking (rq_state r) \<and> rq_user r = Some u) (requests d) \<le> 1
    \<and> count_where (\<lambda>r. blocking (rq_state r) \<and> rq_party r = Some p) (requests d) \<le> 1
    \<and> count_where (\<lambda>a. al_request a = Some q \<and> \<not> terminal_alloc (al_state a)) (allocs d) \<le> 1
    \<and> count_where (\<lambda>a. al_run a = Some v) (allocs d) \<le> 1
    \<and> count_where (\<lambda>j. jb_alloc j = Some i \<and> jb_kind j = KCreate) (jobs d) \<le> 1
    \<and> count_where (\<lambda>j. jb_alloc j = Some i \<and> jb_kind j = KStop \<and> open_job (jb_state j)) (jobs d) \<le> 1"
proof -
  note ok = reachable_inv [OF assms, unfolded inv_def schema_ok_def requests_ok_def allocs_ok_def jobs_ok_def]
  have slots: "blocking_user r = Some u \<longleftrightarrow> blocking (rq_state r) \<and> rq_user r = Some u"
    "blocking_party r = Some p \<longleftrightarrow> blocking (rq_state r) \<and> rq_party r = Some p" for r
    by (simp_all add: blocking_user_def blocking_party_def)
  have active: "active_request a = Some q \<longleftrightarrow> al_request a = Some q \<and> \<not> terminal_alloc (al_state a)" for a
    by (simp add: active_request_def)
  have job_slots: "create_slot j = Some i \<longleftrightarrow> jb_alloc j = Some i \<and> jb_kind j = KCreate"
    "open_stop_slot j = Some i \<longleftrightarrow> jb_alloc j = Some i \<and> jb_kind j = KStop \<and> open_job (jb_state j)" for j
    by (auto simp: create_slot_def open_stop_slot_def)
  show ?thesis
    using unique_on_count [of blocking_user "requests d" u] unique_on_count [of blocking_party "requests d" p]
      unique_on_count [of active_request "allocs d" q] unique_on_count [of al_run "allocs d" v]
      unique_on_count [of create_slot "jobs d" i] unique_on_count [of open_stop_slot "jobs d" i] ok
    by (simp add: slots active job_slots)
qed

lemma at_most_one_of_each_witness:
  "count_where (\<lambda>r. blocking (rq_state r) \<and> rq_user r = Some 7) (requests (run_of ended_db)) \<le> 1"
  using at_most_one_of_each [OF reachable_run(7)] by blast

section \<open>Submitting\<close>

text \<open>Whose requests a user submits: the user's own, or, as the leader of a live party, the party's.\<close>

definition submits_for :: "uuid \<Rightarrow> db \<Rightarrow> request_row \<Rightarrow> bool" where
  "submits_for u d r \<longleftrightarrow> (\<forall>m \<in> set (members d). mb_user m \<noteq> u) \<and> rq_user r = Some u
     \<or> (\<exists>m \<in> set (members d). \<exists>p \<in> set (parties d). mb_user m = u \<and> pa_id p = mb_party m \<and> pa_dissolved p = None
          \<and> pa_leader p = Some u \<and> rq_party r = Some (pa_id p))"

lemma find_member:
  assumes "distinct (map mb_user ms)" "m \<in> set ms"
  shows "find (\<lambda>x. mb_user x = mb_user m) ms = Some m"
  using assms by (intro find_only) (auto simp: distinct_map dest: inj_onD)

lemma live_party_of:
  assumes "distinct (map pa_id ps)" "p \<in> set ps" "pa_dissolved p = None"
  shows "find (live_party (pa_id p)) ps = Some p"
  using assms by (intro find_only) (auto simp: live_party_def distinct_map dest: inj_onD)

lemma submitter_owns:
  assumes "distinct (map mb_user (members d))" "distinct (map pa_id (parties d))" "submits_for u d r"
  shows "\<exists>ow. request_owner u d = Inr ow \<and> owned_by ow r"
  using assms(3) unfolding submits_for_def
proof (elim disjE conjE bexE)
  assume "\<forall>m \<in> set (members d). mb_user m \<noteq> u" "rq_user r = Some u"
  then have "find (\<lambda>m. mb_user m = u) (members d) = None" by (auto simp: find_None_iff)
  then show ?thesis using \<open>rq_user r = Some u\<close> by (simp add: request_owner_def member_party_def)
next
  fix m p assume m: "m \<in> set (members d)" "mb_user m = u" and p: "p \<in> set (parties d)" "pa_id p = mb_party m"
    "pa_dissolved p = None" "pa_leader p = Some u" "rq_party r = Some (pa_id p)"
  have "find (\<lambda>x. mb_user x = u) (members d) = Some m"
    using find_member [OF assms(1) m(1)] m(2) by simp
  then show ?thesis
    using live_party_of [OF assms(2) p(1,3)] p by (simp add: request_owner_def member_party_def fetch_def rejectE_def)
qed

lemma owner_submits:
  assumes "request_owner u d = Inr ow" "owned_by ow r"
  shows "submits_for u d r"
proof (cases "find (\<lambda>m. mb_user m = u) (members d)")
  case None
  then have "ow = OwnerUser u" using assms(1) by (simp add: request_owner_def member_party_def)
  moreover have "\<forall>m \<in> set (members d). mb_user m \<noteq> u" using None by (auto simp: find_None_iff)
  ultimately show ?thesis using assms(2) by (simp add: submits_for_def)
next
  case (Some m)
  then obtain p where p: "fetch (live_party (mb_party m)) (parties d) = Inr p" "pa_leader p = Some u" "ow = OwnerParty (mb_party m)"
    using assms(1) by (auto simp: request_owner_def member_party_def bindE_Inr rejectE_Inr)
  have "m \<in> set (members d)" "mb_user m = u" using find_SomeD [OF Some] by simp_all
  moreover have "p \<in> set (parties d)" "pa_id p = mb_party m" "pa_dissolved p = None"
    using fetch_InrD [OF p(1)] by (simp_all add: live_party_def)
  moreover have "rq_party r = Some (pa_id p)" using assms(2) p(3) calculation(4) by simp
  ultimately show ?thesis using p(2) unfolding submits_for_def by blast
qed

lemma blocking_iff: "blocking s \<longleftrightarrow> s \<notin> {REnded, RCancelled, RUnavailable, RAbandoned}"
  by (cases s) (simp_all add: blocking_def)

lemma current_request_only:
  assumes "requests_ok (requests d)" "r \<in> set (requests d)" "owned_by ow r" "blocking (rq_state r)"
  shows "current_request ow d = Some r"
  unfolding current_request_def
proof (rule find_only)
  fix x assume x: "x \<in> set (requests d)" "owned_by ow x \<and> blocking (rq_state x)"
  have same: "k x = k r \<Longrightarrow> k r \<noteq> None \<Longrightarrow> unique_on k (requests d) \<Longrightarrow> x = r" for k :: "request_row \<Rightarrow> uuid option"
    using assms(2) x(1) by (auto simp: unique_on_def distinct_map dest: inj_onD)
  show "x = r"
  proof (cases ow)
    case (OwnerUser u)
    then show ?thesis using same [of blocking_user] x(2) assms by (simp add: blocking_user_def requests_ok_def)
  next
    case (OwnerParty p)
    then show ?thesis using same [of blocking_party] x(2) assms by (simp add: blocking_party_def requests_ok_def)
  qed
qed (use assms in simp_all)

text \<open>
  C6: Submitting twice gives the same request.  While the user, or the party that the user leads, has a request
  that is waiting, allocating, creating, running, stopping, failed unreclaimed or quarantined, a submission
  by the user returns that request and changes nothing; a submission creates a request only when all
  earlier ones are ended, cancelled, unavailable or abandoned, and then it appends exactly the one
  waiting request that was asked for.
\<close>

theorem submit_returns_open_request:
  assumes "reachable d" "distinct (map mb_user (members d))" "distinct (map pa_id (parties d))" "u \<in> set (users d)"
    and "mode = SelAuto \<and> n = None \<or> mode = SelManual \<and> n \<noteq> None"
  shows "(\<forall>r \<in> set (requests d). submits_for u d r
      \<and> rq_state r \<in> {RWaiting, RAllocating, RCreating, RRunning, RStopping, RFailedUnreclaimed, RQuarantined}
      \<longrightarrow> CreateUserRequestSelected u g p mode n newID now d = Inr (r, False, d))
    \<and> (\<forall>q d'. CreateUserRequestSelected u g p mode n newID now d = Inr (q, True, d') \<longrightarrow>
        (\<forall>r \<in> set (requests d). submits_for u d r \<longrightarrow> rq_state r \<in> {REnded, RCancelled, RUnavailable, RAbandoned})
        \<and> d' = d\<lparr>requests := requests d @ [q]\<rparr> \<and> submits_for u d q \<and> rq_id q = newID \<and> rq_state q = RWaiting
        \<and> rq_game q = g \<and> rq_preset q = p \<and> rq_mode q = mode \<and> rq_manual q = n \<and> rq_requested q = now)"
proof -
  have ok: "requests_ok (requests d)" using reachable_inv [OF assms(1)] by (simp add: inv_def schema_ok_def)
  obtain u' where u: "fetch (\<lambda>x. x = u) (users d) = Inr u'"
    using assms(4) find_NoneD [of "\<lambda>x. x = u" "users d" u]
    by (cases "find (\<lambda>x. x = u) (users d)") (auto simp: fetch_def)
  have returned: "CreateUserRequestSelected u g p mode n newID now d = Inr (r, False, d)"
    if r: "r \<in> set (requests d)" "submits_for u d r" "blocking (rq_state r)" for r
  proof -
    obtain ow where ow: "request_owner u d = Inr ow" "owned_by ow r" using submitter_owns [OF assms(2,3) r(2)] by blast
    then have "current_request ow d = Some r" by (intro current_request_only r ok)
    then show ?thesis using assms(5) u ow(1) by (auto simp: CreateUserRequestSelected_def rejectE_def)
  qed
  moreover have "d' = d\<lparr>requests := requests d @ [q]\<rparr> \<and> submits_for u d q \<and> rq_id q = newID \<and> rq_state q = RWaiting
        \<and> rq_game q = g \<and> rq_preset q = p \<and> rq_mode q = mode \<and> rq_manual q = n \<and> rq_requested q = now"
    if new: "CreateUserRequestSelected u g p mode n newID now d = Inr (q, True, d')" for q d'
  proof -
    from new obtain ow where ow: "request_owner u d = Inr ow"
      and q: "q = \<lparr>rq_id = newID, rq_user = (case ow of OwnerUser u \<Rightarrow> Some u | OwnerParty _ \<Rightarrow> None),
                  rq_party = (case ow of OwnerUser _ \<Rightarrow> None | OwnerParty p \<Rightarrow> Some p),
                  rq_game = g, rq_preset = p, rq_state = RWaiting, rq_requested = now, rq_updated = now,
                  rq_mode = mode, rq_manual = (if mode = SelManual then n else None), rq_abandoned = None\<rparr>"
      and put: "put_requests (requests d @ [q]) d = Inr d'"
      by (auto simp: CreateUserRequestSelected_def Let_def bindE_Inr rejectE_Inr split: option.splits)
    have "owned_by ow q" by (cases ow) (simp_all add: q)
    then have "submits_for u d q" by (rule owner_submits [OF ow])
    then show ?thesis using put assms(5) by (auto simp: put_Inr q)
  qed
  ultimately show ?thesis by (fastforce simp: blocking_iff)
qed

lemma submit_returns_open_request_witness:
  "\<exists>r. CreateUserRequestSelected 7 1 2 SelAuto None 99 9000 (run_of quarantined_db) = Inr (r, False, run_of quarantined_db)
    \<and> rq_state r = RQuarantined"
proof -
  let ?d = "run_of quarantined_db"
  have rows: "map (\<lambda>r. (rq_state r, rq_user r)) (requests (quarantined_db k fp)) = [(RQuarantined, Some 7)]"
    "members (quarantined_db k fp) = []" "parties (quarantined_db k fp) = []" "7 \<in> set (users (quarantined_db k fp))"
    for k fp by code_simp+
  from rows(1) have "\<exists>r. requests (quarantined_db k fp) = [r] \<and> rq_state r = RQuarantined \<and> rq_user r = Some 7" for k fp
    by (simp add: map_eq_Cons_conv)
  then obtain r where r: "requests ?d = [r]" "rq_state r = RQuarantined" "rq_user r = Some 7" by blast
  have "submits_for 7 ?d r" by (simp add: submits_for_def rows r(3))
  then show ?thesis
    using conjunct1 [OF submit_returns_open_request [OF reachable_quarantined, of 7 SelAuto None 1 2 99 9000]] rows(2-4) r by auto
qed

section \<open>Intents and validation runs\<close>

text \<open>a next-game intent is consumed at most once, by one fresh request that no other intent has.\<close>

theorem intent_consumed_once:
  assumes "reachable d" "store_step\<^sup>*\<^sup>* d d'" "i \<in> set (intents d)" "ni_state i = IConsumed"
  shows "i \<in> set (intents d') \<and> filter (\<lambda>k. ni_new k = ni_new i) (intents d') = [i]"
proof -
  obtain k where k: "k \<in> set (intents d')" "intent_evolves i k"
    using reachable_evolves [OF assms(1,2)] intent_ev.tbl_member assms(3) unfolding evolves_def by blast
  then have mem: "i \<in> set (intents d')" using assms(4) by (simp add: intent_evolves_def)
  have ok: "intents_ok (intents d')"
    using reachable_inv [OF reachable_steps [OF assms(1,2)]] by (simp add: inv_def schema_ok_def)
  then obtain n where n: "ni_new i = Some n"
    using mem assms(4) by (auto simp: intents_ok_def list_all_iff intent_check_def)
  have "length (filter (\<lambda>k. ni_new k = Some n) (intents d')) \<le> 1"
    using unique_on_count [of ni_new "intents d'" n] ok by (simp add: intents_ok_def count_where_def)
  moreover have "i \<in> set (filter (\<lambda>k. ni_new k = Some n) (intents d'))" using mem n by simp
  ultimately have "filter (\<lambda>k. ni_new k = Some n) (intents d') = [i]"
    by (cases "filter (\<lambda>k. ni_new k = Some n) (intents d')") auto
  with mem n show ?thesis by simp
qed

lemma intent_consumed_once_witness: "hd (intents (run_of ended_db)) \<in> set (intents (run_of ended_db))"
proof -
  have "hd (intents (run_of ended_db)) \<in> set (intents (run_of ended_db)) \<and>
    filter (\<lambda>k. ni_new k = ni_new (hd (intents (run_of ended_db)))) (intents (run_of ended_db))
      = [hd (intents (run_of ended_db))]"
    by (rule intent_consumed_once [OF reachable_run(7) rtranclp.rtrancl_refl]) (simp_all add: ended_db_def)
  then show ?thesis by blast
qed

text \<open>C12: a validation run that passed or failed is never written again, and a human verdict, once given, keeps
  its result, its administrator and its time.\<close>

theorem run_verdict_is_final:
  assumes "reachable d" "store_step\<^sup>*\<^sup>* d d'" "v \<in> set (runs d)" "w \<in> set (runs d')" "vr_id w = vr_id v"
  shows "(vr_state v = VPassed \<or> vr_state v = VFailed \<longrightarrow> w = v)
    \<and> (vr_human v \<noteq> HPending \<longrightarrow> (vr_human w, vr_human_by w, vr_human_at w) = (vr_human v, vr_human_by v, vr_human_at v))"
proof -
  obtain x where x: "x \<in> set (runs d')" "run_evolves v x" using run_later [OF assms(1-3)] by blast
  then have "vr_id x = vr_id v" by (simp add: run_evolves_def run_identity_def)
  then have "w = x"
    using run_key_unique [OF reachable_inv [OF reachable_steps [OF assms(1,2)]] x(1) assms(4)] assms(5) by simp
  then have "run_evolves v w" using x(2) by simp
  then show ?thesis unfolding run_evolves_def run_ended_def by auto
qed

lemma run_verdict_is_final_witness:
  "\<exists>v. runs (validation_failed (candidate_hash candidate)) = [v] \<and> vr_state v = VFailed \<and> v = v"
proof -
  let ?d = "validation_failed (candidate_hash candidate)"
  obtain v where v: "runs ?d = [v]" "vr_state v = VFailed"
    using validation_failed_row [of "candidate_hash candidate"] by (cases "runs ?d") auto
  have "v = v" using run_verdict_is_final [OF reachable_validation rtranclp.rtrancl_refl, of v v] v by simp
  with v show ?thesis by blast
qed

end
