(* ===== verification/Dispatch.thy ===== *)
theory Dispatch
  imports Ledger Trace
begin

text \<open>
  What the scheduler and the job queue promise: capacity, the order in which requests, nodes and jobs
  are taken, and that a claimable job is handed out.
\<close>

section \<open>Capacity\<close>

text \<open>
  C2: The store refines the ledger of live attempts.  Whatever operation commits on a reachable
  database, the attempts that occupy nodes change either by leaving (any number of them) or by exactly
  one fresh attempt on one node whose occupancy was below the smaller of its hard and desired capacity.
\<close>

theorem store_refines_ledger:
  assumes "reachable d" "store_step d d'"
  shows "ledger_step (limit d) (live_ids d) (live_ids d')"
  by (rule ledger_refines [OF reachable_inv [OF assms(1)] assms(2) reachable_linked [OF assms(1)]])

lemma store_refines_ledger_witness:
  "ledger_step (limit sample_db) (live_ids sample_db) (live_ids reserved_db)"
  by (rule store_refines_ledger [OF reachable_sample schedule [OF sample_allocates]])

text \<open>
  A node never takes an attempt beyond its capacity: after any step its occupancy is at most what
  it was or at most its limit.  So a node that is over its limit (because the limit was lowered) only
  drains.
\<close>

theorem occupancy_bounded:
  assumes "reachable d" "store_step d d'"
  shows "occupied d' n \<le> max (occupied d n) (limit d n)"
proof -
  have i: "inv d" "inv d'" using reachable_inv reachable_step assms by blast+
  have "int (card (live_ids d' n)) \<le> max (int (card (live_ids d n))) (limit d n)"
    by (rule ledger_step_card [OF ledger_refines [OF i(1) assms(2) reachable_linked [OF assms(1)]]]) simp
  then show ?thesis by (simp add: card_live_ids i)
qed

lemma occupancy_bounded_witness:
  "occupied reserved_db 5 \<le> max (occupied sample_db 5) (limit sample_db 5) \<and> occupied sample_db 5 < occupied reserved_db 5"
proof
  show "occupied reserved_db 5 \<le> max (occupied sample_db 5) (limit sample_db 5)"
    by (rule occupancy_bounded [OF reachable_sample schedule [OF sample_allocates]])
  show "occupied sample_db 5 < occupied reserved_db 5" by code_simp
qed

section \<open>The order of requests and nodes\<close>

lemma sorted_split_less:
  assumes "sorted (map k (pre @ r # post))" "q \<in> set (pre @ r # post)" "k q < (k r :: 'k::linorder)"
  shows "q \<in> set pre"
  using assms by (auto simp: sorted_append)

text \<open>
  Requests are served in order of submission.  The request a cycle serves was waiting, and every
  request submitted before it (earlier time, then smaller identifier) was tried on the same state and
  could not be served.
\<close>

theorem schedule_in_order:
  assumes "TryAllocateOne newAlloc newJob now d = Inr (True, d')"
  shows "\<exists>r \<in> set (requests d). rq_state r = RWaiting \<and> allocate_request newAlloc newJob now d r = Inr (Some d')
    \<and> (\<forall>q \<in> set (requests d). rq_state q = RWaiting \<and> (rq_requested q, rq_id q) < (rq_requested r, rq_id r)
         \<longrightarrow> allocate_request newAlloc newJob now d q = Inr None)"
proof -
  have "allocate_loop newAlloc newJob now d (waiting_requests d) = Inr (True, d')"
    using assms by (simp add: TryAllocateOne_def)
  from allocate_loop_True [OF this] obtain pre r post where w: "waiting_requests d = pre @ r # post"
    and a: "allocate_request newAlloc newJob now d r = Inr (Some d')"
    and none: "\<forall>q \<in> set pre. allocate_request newAlloc newJob now d q = Inr None" by blast
  have srt: "sorted (map (\<lambda>r. (rq_requested r, rq_id r)) (pre @ r # post))"
    using sorted_order_by [of "\<lambda>r. (rq_requested r, rq_id r)"] unfolding w [symmetric] waiting_requests_def by blast
  have m: "set (pre @ r # post) = {r \<in> set (requests d). rq_state r = RWaiting}"
    using set_waiting_requests [of d] by (simp only: w)
  show ?thesis
  proof (rule bexI [of _ r], intro conjI ballI impI)
    show "rq_state r = RWaiting" "r \<in> set (requests d)" using m by auto
    fix q assume "q \<in> set (requests d)" "rq_state q = RWaiting \<and> (rq_requested q, rq_id q) < (rq_requested r, rq_id r)"
    then have "q \<in> set pre" using m by (intro sorted_split_less [OF srt]) auto
    then show "allocate_request newAlloc newJob now d q = Inr None" using none by blast
  qed (rule a)
qed

lemma schedule_in_order_witness:
  "\<exists>r \<in> set (requests sample_db). rq_state r = RWaiting
    \<and> allocate_request 30 40 1000 sample_db r = Inr (Some reserved_db)"
  using schedule_in_order [OF sample_allocates] by blast

lemma reserving_cycle:
  assumes "TryAllocateOne newAlloc newJob now d = Inr (True, d')" "allocs d' \<noteq> allocs d"
  shows "\<exists>r \<in> set (requests d). rq_state r = RWaiting \<and> reserves newAlloc newJob now d r d'"
proof -
  have "allocate_loop newAlloc newJob now d (waiting_requests d) = Inr (True, d')"
    using assms(1) by (simp add: TryAllocateOne_def)
  from allocate_loop_True [OF this] obtain r where r: "r \<in> set (waiting_requests d)"
    and a: "allocate_request newAlloc newJob now d r = Inr (Some d')" by (metis in_set_conv_decomp)
  moreover have "\<not> set_request_state (rq_id r) RUnavailable now d = Inr d'"
    using assms(2) by (auto simp: set_request_state_def put_Inr)
  ultimately show ?thesis using allocate_request_Some [OF a] set_waiting_requests [of d] by blast
qed

text \<open>
  C7: A reservation goes to the first admissible candidate.  When a cycle reserves, it serves a waiting
  request with the game and preset that the request names, both enabled and accepting; the one attempt
  added is for that game's current content under that preset's template, on a node that is available now
  and, when this preset has the validated contract, proved for it; no candidate before that node is
  admissible under the same contract; and the attempt's create job, of the capability the contract
  requires, is pending on the same node.
\<close>

theorem reservation_on_first_admissible:
  assumes "TryAllocateOne newAlloc newJob now d = Inr (True, d')" "allocs d' \<noteq> allocs d"
  shows "\<exists>r (g :: game_row) (p :: preset_row) sha pre i post a j. r \<in> set (requests d) \<and> rq_state r = RWaiting
    \<and> find (\<lambda>g. gm_id g = rq_game r) (games d) = Some g \<and> find (\<lambda>p. ps_id p = rq_preset r) (presets d) = Some p
    \<and> st_accepting (settings d) \<and> gm_enabled g \<and> gm_accepting g \<and> ps_enabled p \<and> ps_accepting p
    \<and> gm_content g = Some (al_content a) \<and> al_content a \<noteq> []
    \<and> sha = (case find (\<lambda>c. cv_game c = gm_id g \<and> cv_id c = al_content a) (contents d) of None \<Rightarrow> [] | Some c \<Rightarrow> cv_sha256 c)
    \<and> candidate_nodes r d = pre @ i # post
    \<and> admissible (ps_contract p) (gm_id g) (ps_id p) (al_content a) (ps_revision p) sha now d i
    \<and> (\<forall>k \<in> set pre. \<not> admissible (ps_contract p) (gm_id g) (ps_id p) (al_content a) (ps_revision p) sha now d k)
    \<and> allocs d' = allocs d @ [a] \<and> al_request a = Some (rq_id r) \<and> al_game a = gm_id g \<and> al_node a = i
    \<and> al_state a = AReserved \<and> al_revision a = ps_revision p
    \<and> jobs d' = jobs d @ [j] \<and> jb_alloc j = Some (al_id a) \<and> jb_node j = i \<and> jb_kind j = KCreate \<and> jb_state j = JPending
    \<and> jb_capability j = (if ps_contract p = V102Contract then ContentValidationV102 else LegacyV1)"
proof -
  from reserving_cycle [OF assms] obtain r where r: "r \<in> set (requests d)" "rq_state r = RWaiting"
    and "reserves newAlloc newJob now d r d'" by blast
  then obtain g p sha sel where
    g: "find (\<lambda>g. gm_id g = rq_game r) (games d) = Some g" and p: "find (\<lambda>p. ps_id p = rq_preset r) (presets d) = Some p"
    and flags: "gm_enabled g" "ps_enabled p" "st_accepting (settings d)" "gm_accepting g" "ps_accepting p"
    and ne: "coalesce (gm_content g) [] \<noteq> []"
    and sha: "sha = (case find (\<lambda>c. cv_game c = gm_id g \<and> Some (cv_id c) = gm_content g) (contents d) of
                None \<Rightarrow> [] | Some c \<Rightarrow> cv_sha256 c)"
    and sel: "select_node (ps_contract p) (gm_id g) (rq_preset r) (coalesce (gm_content g) []) (ps_revision p) sha now d
         (candidate_nodes r d) = Inr (Some sel)"
    and res: "reserve r g p (coalesce (gm_content g) []) sha sel newAlloc newJob now d = Inr d'"
    unfolding reserves_def by blast
  obtain cid where cid: "gm_content g = Some cid" "cid \<noteq> []" using ne by (cases "gm_content g") simp_all
  have pid: "ps_id p = rq_preset r" using find_SomeD [OF p] by simp
  from select_node_Some [OF sel] obtain pre i post where s: "candidate_nodes r d = pre @ i # post"
    and el: "node_eligibility d i (ps_revision p) (gm_id g) = Inr (se_node sel)"
    and ad: "admissible (ps_contract p) (gm_id g) (rq_preset r) (coalesce (gm_content g) []) (ps_revision p) sha now d i"
    and first: "\<forall>k \<in> set pre. \<not> admissible (ps_contract p) (gm_id g) (rq_preset r) (coalesce (gm_content g) []) (ps_revision p) sha now d k"
    by blast
  let ?a = "new_alloc newAlloc (Some (rq_id r)) None (gm_id g) (next_sequence d (rq_id r)) i cid (ps_revision p) now"
  let ?j = "create_job newJob i newAlloc (ne_BindingKey (se_node sel)) (ps_contract p) (se_fingerprint sel)
          (se_generation sel) (gm_workshop g) cid sha now"
  have i: "ne_ID (se_node sel) = i" by (rule eligibility_fields(1) [OF el])
  have "allocs d' = allocs d @ [?a]" "jobs d' = jobs d @ [?j]"
    using reserve_frame [OF res] by (simp_all add: i cid)
  moreover have "al_content ?a = cid" "al_revision ?a = ps_revision p" "al_game ?a = gm_id g" by (simp_all add: new_alloc_def)
  moreover have "jb_capability ?j = (if ps_contract p = V102Contract then ContentValidationV102 else LegacyV1)"
    by (simp add: create_job_def new_job_def)
  moreover have "sha = (case find (\<lambda>c. cv_game c = gm_id g \<and> cv_id c = cid) (contents d) of None \<Rightarrow> [] | Some c \<Rightarrow> cv_sha256 c)"
    using sha by (simp add: cid)
  moreover have "admissible (ps_contract p) (gm_id g) (ps_id p) cid (ps_revision p) sha now d i"
    "\<forall>k \<in> set pre. \<not> admissible (ps_contract p) (gm_id g) (ps_id p) cid (ps_revision p) sha now d k"
    using ad first by (simp_all add: cid pid)
  ultimately show ?thesis using r g p flags cid s
    by - (rule exI [of _ r], rule exI [of _ g], rule exI [of _ p], rule exI [of _ sha], rule exI [of _ pre], rule exI [of _ i],
        rule exI [of _ post], rule exI [of _ ?a], rule exI [of _ ?j], intro conjI; (assumption | simp))
qed

lemma reservation_on_first_admissible_witness:
  "\<exists>r a i. r \<in> set (requests sample_db) \<and> allocs reserved_db = allocs sample_db @ [a]
    \<and> al_request a = Some (rq_id r) \<and> i \<in> set (candidate_nodes r sample_db) \<and> al_node a = i \<and> al_game a = rq_game r"
proof -
  have "allocs reserved_db \<noteq> allocs sample_db" by (simp add: reserved_db_def sample_db_def)
  from reservation_on_first_admissible [OF sample_allocates this] obtain r :: request_row and g :: game_row
      and pre i post and a :: alloc_row where
    r: "r \<in> set (requests sample_db)" and g: "find (\<lambda>g. gm_id g = rq_game r) (games sample_db) = Some g"
    and c: "candidate_nodes r sample_db = pre @ i # post" and a: "allocs reserved_db = allocs sample_db @ [a]"
      "al_request a = Some (rq_id r)" "al_node a = i" "al_game a = gm_id g" by blast
  have "gm_id g = rq_game r" using find_SomeD [OF g] by simp
  then show ?thesis using r c a by (intro exI [of _ r] exI [of _ a] exI [of _ i]) simp
qed

text \<open>
  An automatic request is never tried again on a node that released one of its attempts with no
  effect, so its retries move on to other nodes.
\<close>

theorem no_retry_on_released_node:
  assumes "TryAllocateOne newAlloc newJob now d = Inr (True, d')" "a \<in> set (allocs d')" "a \<notin> set (allocs d)"
  shows "\<exists>r \<in> set (requests d). al_request a = Some (rq_id r)
    \<and> (rq_mode r = SelManual \<and> rq_manual r = Some (al_node a)
       \<or> rq_mode r \<noteq> SelManual \<and> \<not> released_on d (rq_id r) (al_node a))"
proof -
  have "allocs d' \<noteq> allocs d" using assms(2,3) by auto
  from reserving_cycle [OF assms(1) this] obtain r where r: "r \<in> set (requests d)"
    and "reserves newAlloc newJob now d r d'" by blast
  from reserves_frame [OF this(2)] obtain b where "allocs d' = allocs d @ [b]" and b: "al_request b = Some (rq_id r)"
    and c: "al_node b \<in> set (candidate_nodes r d)" by auto
  then have "a = b" using assms(2,3) by simp
  moreover have "rq_mode r = SelManual \<and> rq_manual r = Some (al_node b)
       \<or> rq_mode r \<noteq> SelManual \<and> \<not> released_on d (rq_id r) (al_node b)"
    using c by (auto simp: candidate_nodes_def split: if_splits)
  ultimately show ?thesis using r b by blast
qed

lemma no_retry_on_released_node_witness:
  "\<exists>r \<in> set (requests sample_db). al_request sample_alloc = Some (rq_id r)
    \<and> (rq_mode r = SelManual \<and> rq_manual r = Some (al_node sample_alloc)
       \<or> rq_mode r \<noteq> SelManual \<and> \<not> released_on sample_db (rq_id r) (al_node sample_alloc))"
  by (rule no_retry_on_released_node [OF sample_allocates]) (simp_all add: reserved_db_def sample_db_def)





section \<open>Job queue\<close>

text \<open>
  C14: A claim hands out the oldest claimable job and nothing else changes: the job was pending on that
  node, no unresolved job of its allocation or instance is in flight, no older job was claimable, and
  afterwards exactly that row is marked as claimed.
\<close>

theorem claim_takes_oldest:
  assumes "claimNextJob n independent cap now d = Inr (Some out, d')"
  shows "\<exists>j \<in> set (jobs d). claimable n independent cap now d j
    \<and> (\<forall>k \<in> set (jobs d). \<not> conflicting j k)
    \<and> (\<forall>k \<in> set (jobs d). claimable n independent cap now d k \<longrightarrow> (jb_created j, jb_id j) \<le> (jb_created k, jb_id k))
    \<and> d' = d\<lparr>jobs := upd_where (\<lambda>i. jb_id i = jb_id j) (\<lambda>i. i\<lparr>jb_state := JClaimed, jb_claimed := Some now\<rparr>) (jobs d)\<rparr>
    \<and> out = scanJob d' (j\<lparr>jb_state := JClaimed, jb_claimed := Some now\<rparr>)"
proof -
  let ?w = "\<lambda>j. \<lambda>i. i\<lparr>jb_state := JClaimed, jb_claimed := Some now\<rparr>"
  from assms obtain j where old: "oldest (\<lambda>j. (jb_created j, jb_id j)) (claimable n independent cap now d) (jobs d) = Some j"
    and put: "put_jobs (upd_where (\<lambda>i. jb_id i = jb_id j) (?w j) (jobs d)) d = Inr d'"
    and job: "JobForNodeWithCapability n (jb_id j) cap d' = Inr out"
    by (auto simp: claimNextJob_def bindE_Inr split: option.splits)
  note o = oldest_SomeD [OF old]
  from put have d': "d' = d\<lparr>jobs := upd_where (\<lambda>i. jb_id i = jb_id j) (?w j) (jobs d)\<rparr>"
    and ok: "distinct (map jb_id (jobs d'))" by (simp_all add: put_Inr jobs_ok_def)
  from job obtain k where k: "k \<in> set (jobs d')" "jb_id k = jb_id j" and out: "out = scanJob d' k"
    by (auto simp: JobForNodeWithCapability_def bindE_Inr dest!: fetch_InrD)
  have "?w j j \<in> set (jobs d')" using o(1) by (auto simp: d' set_upd_where)
  moreover have "jb_id (?w j j) = jb_id k" by (simp add: k(2))
  ultimately have "k = ?w j j" using k(1) ok by (metis distinct_map inj_onD)
  then show ?thesis using o d' out by (intro bexI [of _ j] conjI) (auto simp: claimable_def)
qed

lemma claim_takes_oldest_witness:
  "\<exists>j \<in> set (jobs reserved_db). claimable 5 False RequiredContentValidationV102 1000 reserved_db j \<and> jb_id j = 40"
proof -
  have "okE (claimNextJob 5 False RequiredContentValidationV102 1000 reserved_db)
    \<and> (case claimNextJob 5 False RequiredContentValidationV102 1000 reserved_db of Inr (Some j, _) \<Rightarrow> True | _ \<Rightarrow> False)"
    by code_simp
  then obtain out d' where "claimNextJob 5 False RequiredContentValidationV102 1000 reserved_db = Inr (Some out, d')"
    by (auto split: sum.splits option.splits prod.splits)
  from claim_takes_oldest [OF this] show ?thesis by (auto simp: reserved_db_def sample_job_def create_job_def new_job_def)
qed

lemma claimed_jobs_ok:
  assumes "jobs_ok js" "j \<in> set js" "jb_state j = JPending"
  shows "jobs_ok (upd_where (\<lambda>i. jb_id i = jb_id j) (\<lambda>i. i\<lparr>jb_state := JClaimed, jb_claimed := Some now\<rparr>) js)"
proof -
  let ?w = "\<lambda>i. i\<lparr>jb_state := JClaimed, jb_claimed := Some now\<rparr>"
  have key: "i = j" if "i \<in> set js" "jb_id i = jb_id j" for i
    using assms(1,2) that by (auto simp: jobs_ok_def distinct_map dest: inj_onD)
  have "create_slot (?w i) = create_slot i" for i by (simp add: create_slot_def)
  moreover have "open_stop_slot (?w i) = open_stop_slot i" if "i \<in> set js" "jb_id i = jb_id j" for i
    using key [OF that] assms(3) by (simp add: open_stop_slot_def open_job_def)
  moreover have "job_check (?w i)" if "i \<in> set js" "jb_id i = jb_id j" for i
    using key [OF that] assms by (auto simp: jobs_ok_def list_all_iff job_check_def open_job_def)
  ultimately show ?thesis
    using assms(1) unfolding jobs_ok_def
    by (auto simp: map_upd_where list_all_iff set_upd_where intro!: unique_on_upd_where)
qed

text \<open>
  C15: The queue makes progress: on a reachable database with a claimable job on the node, a claim
  succeeds and hands out a job (with none, it returns no job and changes nothing).
\<close>

theorem claim_progress:
  assumes "reachable d" "k \<in> set (jobs d)" "claimable n independent cap now d k"
  shows "\<exists>out d'. claimNextJob n independent cap now d = Inr (Some out, d')"
proof -
  let ?P = "claimable n independent cap now d"
  have ok: "jobs_ok (jobs d)" using reachable_inv [OF assms(1)] by (simp add: inv_def schema_ok_def)
  have "oldest (\<lambda>j. (jb_created j, jb_id j)) ?P (jobs d) \<noteq> None" using assms(2,3) by (auto simp: oldest_None)
  then obtain j where old: "oldest (\<lambda>j. (jb_created j, jb_id j)) ?P (jobs d) = Some j" by blast
  have o: "j \<in> set (jobs d)" "?P j" using oldest_SomeD [OF old] by simp_all
  let ?j = "j\<lparr>jb_state := JClaimed, jb_claimed := Some now\<rparr>"
  let ?d = "d\<lparr>jobs := upd_where (\<lambda>i. jb_id i = jb_id j) (\<lambda>i. i\<lparr>jb_state := JClaimed, jb_claimed := Some now\<rparr>) (jobs d)\<rparr>"
  have pend: "jb_state j = JPending" "jb_node j = n" "admits cap j" "node_of d n \<noteq> None"
    using o(2) by (auto simp: claimable_def)
  obtain r where "fetch (\<lambda>x. nd_id x = n) (nodes d) = Inr r"
    using pend(4) by (auto simp: node_of_def fetch_def)
  moreover have "put_jobs (jobs ?d) d = Inr ?d"
    using claimed_jobs_ok [OF ok o(1) pend(1)] by (simp add: put_Inr)
  moreover have "\<exists>out. JobForNodeWithCapability n (jb_id j) cap ?d = Inr out"
  proof -
    have "?j \<in> set (jobs ?d)" using o(1) by (auto simp: set_upd_where)
    moreover have "jb_node ?j = n \<and> jb_id ?j = jb_id j \<and> admits cap ?j" using pend by (simp add: admits_def)
    ultimately have "find (\<lambda>i. jb_node i = n \<and> jb_id i = jb_id j \<and> admits cap i) (jobs ?d) \<noteq> None"
      by (metis (mono_tags, lifting) find_NoneD)
    then show ?thesis by (auto simp: JobForNodeWithCapability_def fetch_def)
  qed
  ultimately show ?thesis using old by (auto simp: claimNextJob_def)
qed

lemma claim_progress_witness:
  "\<exists>out d'. claimNextJob 5 True RequiredContentValidationV102 1000 reserved_db = Inr (Some out, d')
    \<or> claimNextJob 5 False RequiredContentValidationV102 1000 reserved_db = Inr (Some out, d')"
proof -
  have "claimable 5 False RequiredContentValidationV102 1000 reserved_db sample_job" by code_simp
  moreover have "sample_job \<in> set (jobs reserved_db)" by (simp add: reserved_db_def)
  ultimately show ?thesis using claim_progress [OF reachable_reserved] by blast
qed

section \<open>What players are shown\<close>

lemma choice_available_iff: "nc_Status (Choice n c now) = SAvailable \<longleftrightarrow> Reason n c now = Available"
  by (auto simp: Choice_def Let_def)

lemma choices_loop_member:
  assumes "choices_loop d cid tr g now ids = Inr cs" "c \<in> set cs"
  shows "\<exists>n. node_eligibility d (nc_ID c) tr g = Inr n \<and> c = Choice n cid now"
  using assms
proof (induction ids arbitrary: cs)
  case (Cons i js)
  from Cons.prems(1) obtain n rest where n: "node_eligibility d i tr g = Inr n"
    and rest: "choices_loop d cid tr g now js = Inr rest" and cs: "cs = Choice n cid now # rest"
    by (auto simp: bindE_Inr)
  show ?case
  proof (cases "c \<in> set rest")
    case True then show ?thesis by (rule Cons.IH [OF rest])
  next
    case False
    then have "c = Choice n cid now" using Cons.prems(2) cs by simp
    moreover then have "nc_ID c = i" using eligibility_fields(1) [OF n] by (simp add: Choice_def Let_def)
    ultimately show ?thesis using n by blast
  qed
qed simp

lemma select_one:
  "(\<exists>s. select_node c g p cid tr sha now d [i] = Inr (Some s)) \<longleftrightarrow> admissible c g p cid tr sha now d i"
  by (cases "node_eligibility d i tr g") (auto simp: admissible_def split: option.splits)

text \<open>What it takes for a node to be available, in the rows of the database.\<close>

lemma available_rows:
  assumes "node_eligibility d i tr g = Inr n"
  shows "Reason n cid now = Available \<longleftrightarrow>
    (\<exists>x r t b. node_of d i = Some x \<and> nd_enabled x \<and> nd_accepting x \<and> \<not> nd_draining x
      \<and> (\<exists>h. nd_heartbeat x = Some h \<and> now - h < 2 * minute)
      \<and> report_of d i = Some r \<and> nr_compatible r
      \<and> template_binding_of d i tr = Some t \<and> tb_key t \<noteq> []
      \<and> content_binding_of d i g = Some b \<and> cb_confirmed b \<and> cb_accepting b \<and> coalesce (cb_version b) [] = cid
      \<and> occupied d i < min (nr_hard_max r) (nd_desired x))"
proof -
  from assms obtain x where x: "node_of d i = Some x" and "find (\<lambda>r. nd_id r = i) (nodes d) = Some x"
    by (auto simp: node_eligibility_def node_of_def result_simps)
  then have n: "node_eligibility d i tr g = Inr n \<Longrightarrow> Reason n cid now = Available \<longleftrightarrow> nd_enabled x \<and> nd_accepting x \<and> \<not> nd_draining x
      \<and> (\<exists>h. nd_heartbeat x = Some h \<and> now - h < 2 * minute)
      \<and> (case report_of d i of None \<Rightarrow> False | Some r \<Rightarrow> nr_compatible r \<and> occupied d i < min (nr_hard_max r) (nd_desired x))
      \<and> (case template_binding_of d i tr of None \<Rightarrow> False | Some t \<Rightarrow> tb_key t \<noteq> [])
      \<and> (case content_binding_of d i g of None \<Rightarrow> False
         | Some b \<Rightarrow> cb_confirmed b \<and> coalesce (cb_version b) [] = cid \<and> cb_accepting b)"
    by (auto simp: node_eligibility_def fetch_def Let_def reason_available_iff connectivity_online_iff nodeOnlineWindow_def
        compatibility_text_def split: option.splits if_splits)
  show ?thesis
    unfolding n [OF assms] x
    by (cases "report_of d i"; cases "template_binding_of d i tr"; cases "content_binding_of d i g") auto
qed

text \<open>
  C19: What a player is shown is what the scheduler decides, but for the machine proof.  A node is shown
  as available for a game and preset exactly when it is enabled, accepting and not draining, was heard of
  less than two minutes ago, reports itself compatible, has a named binding of the preset's template, has an
  open and confirmed binding of the game's current content, and has fewer attempts than the smaller
  of its hard and desired capacity.  The scheduler, offered this node for the preset under the preset's own
  contract, takes it exactly when it is shown as available and, under the validated contract, proved: so under
  the validated contract a node can be shown as available that the scheduler does not take.
\<close>

theorem shown_available_iff_admissible:
  assumes "PlayerNodeChoices collate gameID presetID now d = Inr cs" "c \<in> set cs"
    and "find (\<lambda>g. gm_id g = gameID) (games d) = Some g" "coalesce (gm_content g) [] = cid"
    and "find (\<lambda>p. ps_id p = presetID \<and> ps_game p = gameID) (presets d) = Some p"
  shows "(nc_Status c = SAvailable \<longleftrightarrow>
      (\<exists>x r t b. node_of d (nc_ID c) = Some x \<and> nd_enabled x \<and> nd_accepting x \<and> \<not> nd_draining x
        \<and> (\<exists>h. nd_heartbeat x = Some h \<and> now - h < 2 * minute)
        \<and> report_of d (nc_ID c) = Some r \<and> nr_compatible r
        \<and> template_binding_of d (nc_ID c) (ps_revision p) = Some t \<and> tb_key t \<noteq> []
        \<and> content_binding_of d (nc_ID c) gameID = Some b \<and> cb_confirmed b \<and> cb_accepting b \<and> coalesce (cb_version b) [] = cid
        \<and> occupied d (nc_ID c) < min (nr_hard_max r) (nd_desired x)))
    \<and> ((\<exists>s. select_node (ps_contract p) gameID presetID cid (ps_revision p) sha now d [nc_ID c] = Inr (Some s)) \<longleftrightarrow>
      nc_Status c = SAvailable
      \<and> (ps_contract p = V102Contract \<longrightarrow> validated_binding (nc_ID c) gameID presetID cid (ps_revision p) sha now d \<noteq> None))"
proof -
  from assms have "choices_loop d cid (ps_revision p) gameID now
      (map nd_id (order_by (\<lambda>n. (collate (nd_display_name n), nd_id n)) (nodes d))) = Inr cs"
    by (simp add: PlayerNodeChoices_def)
  from choices_loop_member [OF this assms(2)] obtain n
    where n: "node_eligibility d (nc_ID c) (ps_revision p) gameID = Inr n" and c: "c = Choice n cid now" by blast
  have st: "nc_Status c = SAvailable \<longleftrightarrow> Reason n cid now = Available"
    by (subst c) (rule choice_available_iff)
  have "nc_Status c = SAvailable \<longleftrightarrow>
      (\<exists>x r t b. node_of d (nc_ID c) = Some x \<and> nd_enabled x \<and> nd_accepting x \<and> \<not> nd_draining x
        \<and> (\<exists>h. nd_heartbeat x = Some h \<and> now - h < 2 * minute)
        \<and> report_of d (nc_ID c) = Some r \<and> nr_compatible r
        \<and> template_binding_of d (nc_ID c) (ps_revision p) = Some t \<and> tb_key t \<noteq> []
        \<and> content_binding_of d (nc_ID c) gameID = Some b \<and> cb_confirmed b \<and> cb_accepting b \<and> coalesce (cb_version b) [] = cid
        \<and> occupied d (nc_ID c) < min (nr_hard_max r) (nd_desired x))"
    unfolding st by (rule available_rows [OF n])
  moreover have "(\<exists>s. select_node (ps_contract p) gameID presetID cid (ps_revision p) sha now d [nc_ID c] = Inr (Some s)) \<longleftrightarrow>
      nc_Status c = SAvailable
      \<and> (ps_contract p = V102Contract \<longrightarrow> validated_binding (nc_ID c) gameID presetID cid (ps_revision p) sha now d \<noteq> None)"
    unfolding select_one st by (simp add: admissible_def n)
  ultimately show ?thesis by (rule conjI)
qed

lemma shown_available_iff_admissible_witness:
  "\<exists>c :: NodeChoice. nc_ID c = 5 \<and> nc_Status c = SAvailable
    \<and> (\<exists>s. select_node LegacyContract 1 2 ''v1'' ''t1'' [] 1000 sample_db [5] = Inr (Some s))"
proof -
  have "map_sum id (map nc_ID) (PlayerNodeChoices length 1 2 1000 sample_db) = Inr [5]
    \<and> map_sum id (map nc_Status) (PlayerNodeChoices length 1 2 1000 sample_db) = Inr [SAvailable]" by code_simp
  then obtain c where cs: "PlayerNodeChoices length 1 2 1000 sample_db = Inr [c]" and c: "nc_ID c = 5" "nc_Status c = SAvailable"
    by (cases "PlayerNodeChoices length 1 2 1000 sample_db") auto
  have "map_option gm_content (find (\<lambda>g. gm_id g = 1) (games sample_db)) = Some (Some ''v1'')"
    "map_option (\<lambda>p. (ps_revision p, ps_contract p)) (find (\<lambda>p. ps_id p = 2 \<and> ps_game p = 1) (presets sample_db))
      = Some (''t1'', LegacyContract)" by code_simp+
  then obtain g p where "find (\<lambda>g. gm_id g = 1) (games sample_db) = Some g" "gm_content g = Some ''v1''"
    "find (\<lambda>p. ps_id p = 2 \<and> ps_game p = 1) (presets sample_db) = Some p" "ps_revision p = ''t1''" "ps_contract p = LegacyContract"
    by auto
  with conjunct2 [OF shown_available_iff_admissible [OF cs, of c g "''v1''" p "[]"]] c
  have "\<exists>s. select_node LegacyContract 1 2 ''v1'' ''t1'' [] 1000 sample_db [5] = Inr (Some s)" by simp
  with c show ?thesis by blast
qed

end
