(* ===== verification/Endings.thy ===== *)
theory Endings
  imports Ledger Trace
begin

text \<open>
  What the end of a validation run promises: PASS only on the full evidence, a replayed reservation
  finds its run, and the convergence loop over all runs returns, although one run can keep it from
  reaching the others.
\<close>

section \<open>PASS\<close>

lemma passes_only_by_finalize:
  assumes "store_step d d'" "w \<in> set (runs d')" "vr_state w = VPassed" "w \<notin> set (runs d)"
  shows "\<exists>i now. FinalizeValidationRun i now d = Inr d'"
  using quiet.W_store_step [OF assms(1)]
proof (elim disjE exE)
  assume "quiet d d'" then show ?thesis using assms(2-4) by (auto simp: quiet_def)
next
  assume "business d' = business d" then show ?thesis using assms(2,4) by (simp add: business_def)
next
  fix a j now b assume "TryAllocateOne a j now d = Inr (b, d')"
  then show ?thesis using schedule_allocs assms(2,4) by metis
next
  fix c v a j now i assume "ReserveValidation c v a j now d = Inr (i, d')"
  from reserve_validation_allocs [OF this] show ?thesis using assms(2-4) by auto
qed blast

text \<open>
  C4: PASS is written only on the full evidence.  If a step makes a run passed, the run was passed by a
  human, its instance was started and stopped by succeeded jobs of the same instance and fully
  reclaimed, the bound content, template, epoch and generation are the current ones with the binding
  still closed, and the node's facts are fresh and its inventory complete with nothing unaccounted.
\<close>

theorem pass_needs_evidence:
  assumes "store_step d d'" "w \<in> set (runs d')" "vr_state w = VPassed" "w \<notin> set (runs d)"
  shows "\<exists>v now a c b tb. v \<in> set (runs d) \<and> w = v\<lparr>vr_state := VPassed, vr_result := Some ''PASS'', vr_passed := Some now\<rparr>
    \<and> a \<in> set (allocs d) \<and> al_run a = Some (vr_id v) \<and> c \<in> set (jobs d) \<and> jb_alloc c = Some (al_id a) \<and> jb_kind c = KCreate
    \<and> run_evidence v a c (latest_stop d (al_id a))
    \<and> content_binding_of d (vr_node v) (vr_game v) = Some b \<and> template_binding_of d (vr_node v) (vr_revision v) = Some tb
    \<and> binding_evidence v b tb (template_fact_of d (vr_node v) (vr_revision v))
    \<and> facts_current (al_node a) (al_game a) v now d = Inr ()"
proof -
  from passes_only_by_finalize [OF assms] obtain i now where "FinalizeValidationRun i now d = Inr d'" by blast
  from FinalizeRun_cases [OF this] show ?thesis
  proof (elim disjE exE conjE)
    fix a v c b tb
    assume v: "v \<in> set (runs d)" "vr_id v = i" and a: "a \<in> set (allocs d)" "al_run a = Some i"
      and c: "c \<in> set (jobs d)" "jb_alloc c = Some (al_id a)" "jb_kind c = KCreate"
      and ev: "run_evidence v a c (latest_stop d (al_id a))" "content_binding_of d (vr_node v) (vr_game v) = Some b"
        "template_binding_of d (vr_node v) (vr_revision v) = Some tb"
        "binding_evidence v b tb (template_fact_of d (vr_node v) (vr_revision v))"
        "facts_current (al_node a) (al_game a) v now d = Inr ()"
      and s: "set_run i (\<lambda>v. v\<lparr>vr_state := VPassed, vr_result := Some ''PASS'', vr_passed := Some now\<rparr>) d = Inr d'"
    let ?f = "\<lambda>v. v\<lparr>vr_state := VPassed, vr_result := Some ''PASS'', vr_passed := Some now\<rparr>"
    have d': "runs d' = upd_where (\<lambda>v. vr_id v = i) ?f (runs d)" and "runs_ok (runs d')"
      using s by (simp_all add: set_run_def put_Inr)
    then have "distinct (map vr_id (runs d))" by (simp add: runs_ok_def map_upd_where)
    then have key: "x = v" if "x \<in> set (runs d)" "vr_id x = i" for x
      using that v by (auto simp: distinct_map dest: inj_onD)
    have "w = ?f v"
      using assms(2,4) key unfolding d' set_upd_where by blast
    then show ?thesis using v a c ev by blast
  qed (use assms in blast)
qed

section \<open>Replays\<close>

lemma find_appended: "find P xs = None \<Longrightarrow> find P (xs @ ys) = find P ys"
  by (induction xs) (simp_all split: if_splits)

lemma prior_after:
  assumes "priorI3Request ac q h ad d = Inr None" "i3_requests d' = i3_requests d @ [\<lparr>iq_action = ac, iq_request = q,
    iq_hash = h, iq_result = i, iq_admin = ad\<rparr>]"
  shows "priorI3Request ac q h ad d' = Inr (Some i)"
proof -
  have "find (\<lambda>x. iq_action x = ac \<and> iq_request x = q) (i3_requests d) = None"
    using assms(1) by (auto simp: priorI3Request_def rejectE_Inr split: option.splits)
  then show ?thesis by (simp add: priorI3Request_def assms(2) find_appended)
qed

lemma reserve_run_i3:
  assumes "reserve_run c v g newAlloc newJob now d = Inr d'"
  shows "i3_requests d' = i3_requests d @ [\<lparr>iq_action = ''validation.start'', iq_request = vc_RequestID c,
               iq_hash = candidate_hash c, iq_result = vr_id v, iq_admin = vc_AdminID c\<rparr>]"
  using assms by (auto simp: reserve_run_def result_simps auditAdmin_def)

text \<open>
  Starting a validation is idempotent per request identifier.  Once a reservation has succeeded,
  sending the same candidate again returns the same run and writes nothing, whatever fresh identifiers
  and time the retry comes with.
\<close>

theorem reserve_validation_replays:
  assumes "ReserveValidation c runID newAlloc newJob now d = Inr (i, d')"
  shows "ReserveValidation c runID' newAlloc' newJob' now' d' = Inr (i, d')"
proof -
  let ?p = "\<lambda>d. priorI3Request ''validation.start'' (vc_RequestID c) (candidate_hash c) (vc_AdminID c) d"
  have ok: "\<not> (vc_RequestID c = [] \<or> 128 < length (vc_RequestID c))"
    "\<not> (vc_ExpectedMaintenanceEpoch c \<le> 0 \<or> \<not> revisionPattern (vc_ExpectedFingerprint c))"
    using assms unfolding ReserveValidation_def rejectE_Inr by blast+
  from assms obtain p where p: "?p d = Inr p"
    unfolding ReserveValidation_def rejectE_Inr bindE_Inr by blast
  have "?p d' = Inr (Some i)"
  proof (cases p)
    case None
    with assms p obtain v g where "reserve_run c v g newAlloc newJob now d = Inr d'" and "vr_id v = runID" "i = runID"
      unfolding ReserveValidation_def rejectE_Inr bindE_Inr by (auto simp: bindE_Inr rejectE_Inr new_run_def)
    then show ?thesis using prior_after [OF p [unfolded None] reserve_run_i3] by simp
  next
    case (Some k)
    with assms p ok have "d' = d" "k = i" by (simp_all add: ReserveValidation_def)
    then show ?thesis using p Some by simp
  qed
  then show ?thesis using ok by (simp add: ReserveValidation_def)
qed

lemma reserve_validation_replays_witness:
  "ReserveValidation candidate 51 61 71 9000 (validation_db (candidate_hash candidate))
    = Inr (50, validation_db (candidate_hash candidate))"
  by (rule reserve_validation_replays [OF trace_reserve_validation])

section \<open>The convergence loop returns\<close>

lemma set_run_keys:
  assumes "set_run i f d = Inr d'" "\<And>v. run_key (f v) = run_key v"
  shows "map run_key (runs d') = map run_key (runs d)"
  using assms by (auto simp: set_run_def put_Inr intro: map_upd_where)

lemma finalize_one_keys: "finalize_one now r d = (d', e) \<Longrightarrow> map run_key (runs d') = map run_key (runs d)"
proof -
  have run: "map run_key (runs x) = map run_key (runs d)" if "FinalizeValidationRun i now d = Inr x" for i x
    using FinalizeRun_cases [OF that] set_run_keys by (auto simp: run_key_def)
  have fail: "map run_key (runs x) = map run_key (runs d)" if "FinalizeValidationFailure i why d = Inr x" for i why x
    using FinalizeFailure_cases [OF that] set_run_keys by (auto simp: run_key_def)
  assume "finalize_one now r d = (d', e)"
  then show ?thesis
    by (auto simp: finalize_one_def Let_def run fail split: sum.splits if_splits)
qed

lemma finalize_rows_keys: "finalize_rows now rs d = (d', e) \<Longrightarrow> map run_key (runs d') = map run_key (runs d)"
proof (induction rs arbitrary: d)
  case (Cons r rs)
  obtain x oe where one: "finalize_one now r d = (x, oe)" by (cases "finalize_one now r d")
  then have "map run_key (runs x) = map run_key (runs d)" by (rule finalize_one_keys)
  with Cons one show ?case by (cases oe) auto
qed simp

definition beyond :: "(time \<times> uuid) option \<Rightarrow> (time \<times> uuid) list \<Rightarrow> nat" where
  "beyond cursor ks = length (filter (\<lambda>k. case cursor of None \<Rightarrow> True | Some c \<Rightarrow> c < k) ks)"

lemma beyond_less:
  assumes "k \<in> set ks" "case cursor of None \<Rightarrow> True | Some c \<Rightarrow> c < k"
  shows "beyond (Some k) ks < beyond cursor ks"
proof -
  let ?P = "\<lambda>x. case cursor of None \<Rightarrow> True | Some c \<Rightarrow> c < x"
  have imp: "k < x \<Longrightarrow> ?P x" for x using assms(2) less_trans [of _ k x] by (cases cursor) simp_all
  have "filter (\<lambda>x. ?P x \<and> k < x) ks = filter (\<lambda>x. k < x) ks"
    by (rule filter_cong [OF refl]) (use imp in blast)
  then have sub: "filter (\<lambda>x. k < x) ks = filter (\<lambda>x. k < x) (filter ?P ks)" by (simp only: filter_filter)
  have "k \<in> set (filter ?P ks)" using assms by simp
  then have "length (filter (\<lambda>x. k < x) (filter ?P ks)) < length (filter ?P ks)"
    by (intro length_filter_less [of k]) auto
  then show ?thesis unfolding beyond_def option.case sub .
qed

lemma finalize_pages_returns:
  "beyond cursor (map run_key (runs d)) < fuel \<Longrightarrow> \<exists>r. finalize_pages fuel cursor now d = Some r"
proof (induction fuel arbitrary: cursor d)
  case (Suc fuel)
  let ?page = "ready_page cursor d"
  obtain d' e where rows: "finalize_rows now ?page d = (d', e)" by (cases "finalize_rows now ?page d")
  show ?case
  proof (cases "e = None \<and> \<not> length ?page < 100")
    case True
    then have "?page \<noteq> []" by auto
    then have "last ?page \<in> set ?page" by (rule last_in_set)
    then have m: "last ?page \<in> set (runs d)" "after_cursor cursor (last ?page)"
      by (auto simp: ready_page_def dest!: in_set_takeD)
    have "beyond (Some (run_key (last ?page))) (map run_key (runs d)) < beyond cursor (map run_key (runs d))"
      by (rule beyond_less) (use m in \<open>auto simp: after_cursor_def split: option.splits\<close>)
    with Suc.prems finalize_rows_keys [OF rows]
    have "beyond (Some (run_key (last ?page))) (map run_key (runs d')) < fuel" by simp
    from Suc.IH [OF this] show ?thesis using True rows by simp
  next
    case False
    then show ?thesis using rows by (cases e) (auto simp: Let_def)
  qed
qed simp

text \<open>
  C17: The convergence step of the server always returns: whatever the database holds, the loop over
  pages of 100 runs ends, with a result or with the error of one run.
\<close>

theorem finalize_always_returns:
  "\<exists>d' e. FinalizeReadyValidations now d = Some (d', e)"
proof -
  have "beyond None (map run_key (runs d)) < Suc (length (runs d))" by (simp add: beyond_def)
  from finalize_pages_returns [OF this] show ?thesis by (simp add: FinalizeReadyValidations_def)
qed

section \<open>A run with its evidence\<close>

definition evidence_run :: run_row where
  "evidence_run = (hd (runs (validation_db [])))\<lparr>vr_state := VReclaimObserving, vr_human := HPass, vr_human_by := Some 9,
     vr_human_at := Some 1500, vr_ready := Some 1400, vr_join_at := Some 1400\<rparr>"

definition evidence_db :: db where
  "evidence_db = (validation_db [])\<lparr>
     runs := [evidence_run],
     allocs := [(new_alloc 60 None (Some 50) 1 1 5 ''v1'' ''t1'' 1000)\<lparr>al_state := AReclaimed\<rparr>],
     jobs := [(create_job 70 5 60 ''key'' V102Contract digest64 1 ''123'' ''v1'' digest64 1000)
                \<lparr>jb_state := JSucceeded, jb_instance := Some ''i'', jb_operation := Some ''o''\<rparr>,
              (new_job 71 5 KStop False (Some 60) (Some ''i'') ContentValidationV102 1500)
                \<lparr>jb_state := JSucceeded, jb_operation := Some ''s''\<rparr>]\<rparr>"

definition passed_run :: run_row where
  "passed_run = evidence_run\<lparr>vr_state := VPassed, vr_result := Some ''PASS'', vr_passed := Some 2000\<rparr>"

lemma evidence_finalizes: "FinalizeValidationRun 50 2000 evidence_db = Inr (evidence_db\<lparr>runs := [passed_run]\<rparr>)"
  by code_simp

lemma pass_needs_evidence_witness:
  "\<exists>v \<in> set (runs evidence_db). \<exists>a c. run_evidence v a c (latest_stop evidence_db (al_id a)) \<and> vr_id v = vr_id passed_run"
proof -
  have "vr_state passed_run = VPassed" by (simp add: passed_run_def)
  moreover have "\<forall>v \<in> set (runs evidence_db). vr_state v \<noteq> VPassed" by (simp add: evidence_db_def evidence_run_def)
  then have "passed_run \<notin> set (runs evidence_db)" by (auto simp: passed_run_def)
  moreover have "passed_run \<in> set (runs (evidence_db\<lparr>runs := [passed_run]\<rparr>))" by simp
  ultimately have "\<exists>v now a c b tb. v \<in> set (runs evidence_db)
    \<and> passed_run = v\<lparr>vr_state := VPassed, vr_result := Some ''PASS'', vr_passed := Some now\<rparr>
    \<and> a \<in> set (allocs evidence_db) \<and> al_run a = Some (vr_id v) \<and> c \<in> set (jobs evidence_db) \<and> jb_alloc c = Some (al_id a)
    \<and> jb_kind c = KCreate \<and> run_evidence v a c (latest_stop evidence_db (al_id a))
    \<and> content_binding_of evidence_db (vr_node v) (vr_game v) = Some b
    \<and> template_binding_of evidence_db (vr_node v) (vr_revision v) = Some tb
    \<and> binding_evidence v b tb (template_fact_of evidence_db (vr_node v) (vr_revision v))
    \<and> facts_current (al_node a) (al_game a) v now evidence_db = Inr ()"
    using pass_needs_evidence [OF finalize_run [OF evidence_finalizes]] by blast
  then obtain v now a c where v: "v \<in> set (runs evidence_db)"
    and e: "passed_run = v\<lparr>vr_state := VPassed, vr_result := Some ''PASS'', vr_passed := Some now\<rparr>"
    and ev: "run_evidence v a c (latest_stop evidence_db (al_id a))" by blast
  have "vr_id passed_run = vr_id v" using arg_cong [OF e, of vr_id] by simp
  with v ev show ?thesis by auto
qed

section \<open>A run that blocks the loop\<close>

text \<open>The state after a heartbeat of the node that speaks of an unknown inventory.\<close>

definition inventory_unknown :: "uuid \<Rightarrow> db \<Rightarrow> db" where
  "inventory_unknown n d = d\<lparr>reports := upd_where (\<lambda>r. nr_node r = n) (\<lambda>r. r\<lparr>nr_inventory_confirmed := False\<rparr>) (reports d)\<rparr>"

lemma inventory_unknown_tables [simp]:
  "runs (inventory_unknown n d) = runs d" "allocs (inventory_unknown n d) = allocs d" "jobs (inventory_unknown n d) = jobs d"
  "nodes (inventory_unknown n d) = nodes d" "requests (inventory_unknown n d) = requests d"
  "content_bindings (inventory_unknown n d) = content_bindings d"
  "template_bindings (inventory_unknown n d) = template_bindings d"
  "template_facts (inventory_unknown n d) = template_facts d" "snapshots (inventory_unknown n d) = snapshots d"
  by (simp_all add: inventory_unknown_def)

lemma inventory_unknown_report:
  "report_of (inventory_unknown n d) n = map_option (nr_inventory_confirmed_update (\<lambda>_. False)) (report_of d n)"
proof -
  have "find (\<lambda>r. nr_node r = n) (upd_where (\<lambda>r. nr_node r = n) (nr_inventory_confirmed_update (\<lambda>_. False)) rs)
      = map_option (nr_inventory_confirmed_update (\<lambda>_. False)) (find (\<lambda>r. nr_node r = n) rs)" for rs
    by (induction rs) (simp_all add: upd_where_def)
  then show ?thesis by (simp add: report_of_def inventory_unknown_def)
qed

lemma inventory_unknown_reads [simp]:
  "run_alloc (inventory_unknown n d) = run_alloc d"
  "lockBusinessAllocation x y (inventory_unknown n d) = lockBusinessAllocation x y d"
  "create_of (inventory_unknown n d) = create_of d" "latest_stop (inventory_unknown n d) = latest_stop d"
  "template_fact_of (inventory_unknown n d) = template_fact_of d"
  "finalize_unresolved (inventory_unknown n d) = finalize_unresolved d"
  "other_resources (inventory_unknown n d) = other_resources d"
  "alloc_open_jobs (inventory_unknown n d) = alloc_open_jobs d"
  by (simp_all add: fun_eq_iff run_alloc_def lockBusinessAllocation_def create_of_def latest_stop_def template_fact_of_def
      finalize_unresolved_def other_resources_def alloc_open_jobs_def cong: option.case_cong)

lemma facts_current_unknown:
  assumes "facts_current n g v now d = Inr ()"
  shows "facts_current n g v now (inventory_unknown n d) = Inl NoRows"
proof -
  have none: "\<not> some_and (\<lambda>r. nr_inventory_confirmed r \<and> nr_inventory_scan r = Some x) (report_of (inventory_unknown n d) n)" for x
    by (auto simp: inventory_unknown_report)
  have "reported_snapshot (inventory_unknown n d) n = None"
    by (simp add: reported_snapshot_def none newest_def order_by_def del: some_and_iff)
  then show ?thesis
    using assms by (auto simp: facts_current_def bindE_Inr rejectE_Inr inventory_unknown_report)
qed

lemma set_run_unknown: "set_run i f d = Inr x \<Longrightarrow> set_run i f (inventory_unknown n d) = Inr (inventory_unknown n x)"
  by (auto simp: set_run_def put_Inr inventory_unknown_def)

lemma finalize_failure_unknown:
  assumes "FinalizeValidationFailure i why d = Inr x"
  shows "FinalizeValidationFailure i why (inventory_unknown n d) = Inr (inventory_unknown n x)"
proof -
  from assms obtain b l v where w: "\<not> (why = [] \<or> 128 < length why)"
    and s: "run_alloc d i = Inr b" "lockBusinessAllocation (al_id b) (al_node b) d = Inr l"
      "fetch (\<lambda>v. vr_id v = i) (runs d) = Inr v" "vr_state v \<noteq> VPassed"
    and e: "(if vr_state v = VFailed then Inr d
       else rejectE (\<not> terminal_alloc (al_state b)) (ErrJobConflict []) (
            rejectE (alloc_open_jobs d (al_id b) \<noteq> 0) (ErrJobConflict []) (
            set_run i (\<lambda>v. v\<lparr>vr_state := VFailed, vr_result := Some ''FAIL'', vr_failure := Some why\<rparr>) d))) = Inr x"
    unfolding FinalizeValidationFailure_def bindE_Inr rejectE_Inr by blast
  show ?thesis
  proof (cases "vr_state v = VFailed")
    case True
    with w s e show ?thesis by (simp add: FinalizeValidationFailure_def)
  next
    case False
    with e have "set_run i (\<lambda>v. v\<lparr>vr_state := VFailed, vr_result := Some ''FAIL'', vr_failure := Some why\<rparr>) d = Inr x"
      "terminal_alloc (al_state b)" "alloc_open_jobs d (al_id b) = 0" by (simp_all add: rejectE_Inr)
    with False w s show ?thesis by (simp add: FinalizeValidationFailure_def set_run_unknown)
  qed
qed

lemma finalize_run_unknown:
  assumes "FinalizeValidationRun (vr_id v) now d = Inr d'" "v \<in> set (runs d)" "distinct (map vr_id (runs d))"
    and "vr_state v \<noteq> VPassed" "find (\<lambda>a. al_run a = Some (vr_id v)) (allocs d) = Some a"
  shows "FinalizeValidationRun (vr_id v) now (inventory_unknown (al_node a) d) = Inl NoRows
    \<and> vr_human v = HPass \<and> vr_state v = VReclaimObserving \<and> al_state a = AReclaimed"
proof -
  have ra: "run_alloc d (vr_id v) = Inr a" using assms(5) by (simp add: run_alloc_def fetch_def)
  have "find (\<lambda>x. vr_id x = vr_id v) (runs d) = Some v"
    using find_SomeD find_NoneD [of "\<lambda>x. vr_id x = vr_id v" "runs d" v] assms(2,3)
    by (cases "find (\<lambda>x. vr_id x = vr_id v) (runs d)") (fastforce simp: distinct_map dest: inj_onD)+
  then have rv: "fetch (\<lambda>x. vr_id x = vr_id v) (runs d) = Inr v" by (simp add: fetch_def)
  from assms(1,4) obtain x1 x2 c b tb where
    s: "fetch (\<lambda>n. nd_id n = al_node a) (nodes d) = Inr x1" "lockBusinessAllocation (al_id a) (al_node a) d = Inr x2"
      "create_of d (al_id a) = Inr c"
      "fetch (\<lambda>b. cb_node b = vr_node v \<and> cb_game b = vr_game v) (content_bindings d) = Inr b"
      "fetch (\<lambda>t. tb_node t = vr_node v \<and> tb_revision t = vr_revision v) (template_bindings d) = Inr tb"
    and ok: "run_evidence v a c (latest_stop d (al_id a))" "binding_evidence v b tb (template_fact_of d (vr_node v) (vr_revision v))"
      "finalize_unresolved d (al_node a) (al_game a) = 0" "other_resources d a = 0"
    and f: "facts_current (al_node a) (al_game a) v now d = Inr ()"
    by (auto simp: FinalizeValidationRun_def ra rv bindE_Inr rejectE_Inr)
  have "FinalizeValidationRun (vr_id v) now (inventory_unknown (al_node a) d) = Inl NoRows"
    using ok assms(4) by (simp add: FinalizeValidationRun_def ra rv s facts_current_unknown [OF f])
  then show ?thesis using ok(1) by (simp add: run_evidence_def)
qed

lemma head_of_order:
  assumes "v \<in> set vs" "\<And>w. w \<in> set vs \<Longrightarrow> w \<noteq> v \<Longrightarrow> k v < (k w :: 'k::linorder)"
  shows "\<exists>ws. take (Suc n) (order_by k vs) = v # ws"
proof (cases "order_by k vs")
  case Nil
  then show ?thesis using assms(1) by (metis set_order_by empty_iff empty_set)
next
  case (Cons w ws)
  have "w = v"
  proof (rule ccontr)
    assume "w \<noteq> v"
    have "w \<in> set vs" "v \<in> set (w # ws)" using assms(1) by (simp_all flip: Cons) (metis Cons list.set_intros(1) set_order_by)
    moreover have "sorted (map k (w # ws))" by (simp only: flip: Cons) (rule sorted_order_by)
    ultimately have "k w \<le> k v" using \<open>w \<noteq> v\<close> by auto
    with assms(2) [OF \<open>w \<in> set vs\<close> \<open>w \<noteq> v\<close>] show False by simp
  qed
  with Cons show ?thesis by simp
qed

lemma loop_stops_at_first:
  assumes "ready_page None d = v # vs" "vr_human v = HPass" "vr_state v = VReclaimObserving"
    and "FinalizeValidationRun (vr_id v) now d = Inl e" "\<not> is_job_conflict e"
  shows "FinalizeReadyValidations now d = Some (d, Some e)"
  using assms by (simp add: FinalizeReadyValidations_def finalize_one_def)

text \<open>
  C18: One run can keep the convergence loop from every later run.  Take any database in which a run would be
  passed now and is the oldest of the runs that the loop has to end.  Once the run's node reports its inventory as
  unknown, its finalization fails with the missing-row error of the snapshot query, which the loop
  does not treat as a conflict of that run: it stops with that error and changes nothing, although every run that
  could be closed as failed before can still be closed, one by one.
\<close>

theorem blocked_convergence:
  assumes "distinct (map vr_id (runs d))" "v \<in> set (runs d)" "vr_state v \<noteq> VPassed"
    and "FinalizeValidationRun (vr_id v) now d = Inr d'"
    and "find (\<lambda>a. al_run a = Some (vr_id v)) (allocs d) = Some a"
    and "\<And>w b. w \<in> set (runs d) \<Longrightarrow> w \<noteq> v \<Longrightarrow> vr_state w \<notin> {VPassed, VFailed} \<Longrightarrow> b \<in> set (allocs d) \<Longrightarrow>
      al_run b = Some (vr_id w) \<Longrightarrow> al_state b \<in> {AReclaimed, AReleasedNoEffect} \<Longrightarrow>
      (vr_created v, vr_id v) < (vr_created w, vr_id w)"
  shows "FinalizeReadyValidations now (inventory_unknown (al_node a) d) = Some (inventory_unknown (al_node a) d, Some NoRows)
    \<and> (\<forall>i why x. FinalizeValidationFailure i why d = Inr x \<longrightarrow>
        FinalizeValidationFailure i why (inventory_unknown (al_node a) d) = Inr (inventory_unknown (al_node a) x))"
proof (intro conjI allI impI)
  let ?d = "inventory_unknown (al_node a) d"
  note run = finalize_run_unknown [OF assms(4,2,1,3,5)]
  have "a \<in> set (allocs d) \<and> al_run a = Some (vr_id v)" using find_SomeD [OF assms(5)] by simp
  then have "ready_to_finalize d v" using run by (auto simp: ready_to_finalize_def terminal_alloc_def)
  then have "\<exists>ws. take (Suc 99) (order_by run_key (filter (ready_to_finalize d) (runs d))) = v # ws"
    using assms(2,6) by (intro head_of_order) (auto simp: ready_to_finalize_def terminal_alloc_def run_key_def)
  moreover have "ready_to_finalize ?d = ready_to_finalize d" by (simp add: ready_to_finalize_def fun_eq_iff)
  ultimately obtain ws where "ready_page None ?d = v # ws" by (auto simp: ready_page_def after_cursor_def)
  then show "FinalizeReadyValidations now ?d = Some (?d, Some NoRows)"
    by (rule loop_stops_at_first) (simp_all add: run is_job_conflict_def)
next
  fix i why x assume "FinalizeValidationFailure i why d = Inr x"
  then show "FinalizeValidationFailure i why (inventory_unknown (al_node a) d) = Inr (inventory_unknown (al_node a) x)"
    by (rule finalize_failure_unknown)
qed

text \<open>Two runs are ready: the first has all its evidence, the second was never passed and its attempt is reclaimed.\<close>

definition waiting_run :: run_row where
  "waiting_run = evidence_run\<lparr>vr_id := 51, vr_node := 6, vr_state := VStopPending, vr_human := HPending, vr_human_by := None,
     vr_human_at := None, vr_created := 1500\<rparr>"

definition two_runs_db :: db where
  "two_runs_db = evidence_db\<lparr>runs := [evidence_run, waiting_run],
     allocs := allocs evidence_db @ [(new_alloc 61 None (Some 51) 1 1 5 ''v1'' ''t1'' 1000)\<lparr>al_state := AReclaimed\<rparr>]\<rparr>"

lemma blocked_convergence_witness:
  "FinalizeReadyValidations 2000 (inventory_unknown 5 two_runs_db) = Some (inventory_unknown 5 two_runs_db, Some NoRows)
    \<and> okE (FinalizeValidationFailure 51 ''VALIDATION_NOT_PASSED'' (inventory_unknown 5 two_runs_db))"
proof -
  have run: "okE (FinalizeValidationRun (vr_id evidence_run) 2000 two_runs_db)" by code_simp
  have close: "okE (FinalizeValidationFailure 51 ''VALIDATION_NOT_PASSED'' two_runs_db)" by code_simp
  have at: "map_option al_node (find (\<lambda>a. al_run a = Some (vr_id evidence_run)) (allocs two_runs_db)) = Some 5" by code_simp
  have ids: "distinct (map vr_id (runs two_runs_db))" "vr_state evidence_run \<noteq> VPassed"
    "(vr_created evidence_run, vr_id evidence_run) < (vr_created waiting_run, vr_id waiting_run)" by code_simp+
  have mem: "evidence_run \<in> set (runs two_runs_db)" "\<And>w. w \<in> set (runs two_runs_db) \<Longrightarrow> w \<noteq> evidence_run \<Longrightarrow> w = waiting_run"
    by (simp_all add: two_runs_db_def)
  obtain a where a: "find (\<lambda>a. al_run a = Some (vr_id evidence_run)) (allocs two_runs_db) = Some a" "al_node a = 5"
    using at by auto
  obtain d' where d': "FinalizeValidationRun (vr_id evidence_run) 2000 two_runs_db = Inr d'"
    using run by (auto simp: okE_iff)
  have order: "(vr_created evidence_run, vr_id evidence_run) < (vr_created w, vr_id w)"
    if "w \<in> set (runs two_runs_db)" "w \<noteq> evidence_run" for w
    using mem(2) [OF that] ids(3) by simp
  note blocked = blocked_convergence [OF ids(1) mem(1) ids(2) d' a(1) order, unfolded a(2)]
  show ?thesis using blocked close by (auto simp: okE_iff)
qed

end
