(* ===== verification/Credentials.thy ===== *)
theory Credentials
  imports Auth
begin

text \<open>
  Round trips of the credentials, shared by the theories that issue them: the text of a fresh token gives
  back its digest, and the text of a password hash splits into the fields that verification reads.
\<close>

section \<open>Tokens\<close>

lemma url_decode_encode: "list_all is_byte bs \<Longrightarrow> b64_decode b64_url (b64_encode b64_url bs) = Some bs"
  by (rule b64_decode_encode [OF alphabets(1-4)])

lemma std_decode_encode: "list_all is_byte bs \<Longrightarrow> b64_decode b64_std (b64_encode b64_std bs) = Some bs"
  by (rule b64_decode_encode [OF alphabets(5-8)])

lemma token_hash_new:
  assumes "list_all is_byte raw" "length raw = TokenBytes"
  shows "TokenHash (fst (NewToken raw)) = Some (snd (NewToken raw))"
  using url_decode_encode [OF assms(1)] assms(2) by (simp add: TokenHash_def NewToken_def Let_def)

lemma token_text_inj:
  assumes "list_all is_byte raw" "list_all is_byte other" "fst (NewToken other) = fst (NewToken raw)"
  shows "other = raw"
  using url_decode_encode [OF assms(1)] url_decode_encode [OF assms(2)] assms(3) by (simp add: NewToken_def Let_def)

section \<open>Password hashes\<close>

lemma split_on_step: "c \<notin> set xs \<Longrightarrow> split_on c (xs @ c # ys) = xs # split_on c ys"
  by (induction xs) auto

lemma split_on_rest: "c \<notin> set xs \<Longrightarrow> split_on c xs = [xs]"
  by (induction xs) auto

definition hash_params :: string where
  "hash_params = ''m='' @ dec argonMemory @ '',t='' @ dec argonTime @ '',p='' @ dec argonThreads"

lemma hash_params_text: "hash_params = ''m=65536,t=3,p=4''"
  by (simp add: hash_params_def dec_def argonMemory_def argonTime_def argonThreads_def dec_nat.simps)

lemma hash_params_parse:
  "CHR ''$'' \<notin> set hash_params"
  "\<exists>m t p. split_on (CHR '','') hash_params = [m, t, p] \<and> param ''m='' m 32 = Some argonMemory
     \<and> param ''t='' t 32 = Some argonTime \<and> param ''p='' p 8 = Some argonThreads"
proof -
  show "CHR ''$'' \<notin> set hash_params" by (simp add: hash_params_text)
  have "split_on (CHR '','') hash_params = [''m=65536'', ''t=3'', ''p=4'']" by (simp add: hash_params_text)
  moreover have "param ''m='' ''m=65536'' 32 = Some argonMemory" "param ''t='' ''t=3'' 32 = Some argonTime"
    "param ''p='' ''p=4'' 8 = Some argonThreads"
    by (simp_all add: param_def ParseUint_def is_digit_def byte_le_def byte_of_def argonMemory_def argonTime_def argonThreads_def)
  ultimately show "\<exists>m t p. split_on (CHR '','') hash_params = [m, t, p] \<and> param ''m='' m 32 = Some argonMemory
     \<and> param ''t='' t 32 = Some argonTime \<and> param ''p='' p 8 = Some argonThreads" by blast
qed

lemma hash_splits:
  assumes "HashPassword IDKey salt pw = Some enc" "list_all is_byte salt"
    and "list_all is_byte (IDKey pw salt argonTime argonMemory argonThreads argonKeyBytes)"
  shows "split_on (CHR ''$'') enc = [[], ''argon2id'', ''v=19'', hash_params, b64_encode b64_std salt,
    b64_encode b64_std (IDKey pw salt argonTime argonMemory argonThreads argonKeyBytes)]"
proof -
  let ?k = "IDKey pw salt argonTime argonMemory argonThreads argonKeyBytes"
  have no: "CHR ''$'' \<notin> set (b64_encode b64_std bs)" if "list_all is_byte bs" for bs
    using set_b64_encode [OF alphabets(6) that] alphabets(9) by blast
  have enc: "enc = [] @ CHR ''$'' # ''argon2id'' @ CHR ''$'' # ''v=19'' @ CHR ''$'' # hash_params @ CHR ''$''
      # b64_encode b64_std salt @ CHR ''$'' # b64_encode b64_std ?k"
    using assms(1) by (auto simp: HashPassword_def Let_def hash_params_def split: if_splits)
  have lits: "CHR ''$'' \<notin> set []" "CHR ''$'' \<notin> set ''argon2id''" "CHR ''$'' \<notin> set ''v=19''" by simp_all
  show ?thesis
    unfolding enc
    by (simp only: split_on_step [OF lits(1)] split_on_step [OF lits(2)] split_on_step [OF lits(3)]
        split_on_step [OF hash_params_parse(1)] split_on_step [OF no [OF assms(2)]] split_on_rest [OF no [OF assms(3)]])
qed

lemma verify_hash:
  assumes "HashPassword IDKey salt pw = Some enc" "length salt = saltBytes" "list_all is_byte salt"
    and "length (IDKey pw salt argonTime argonMemory argonThreads argonKeyBytes) = argonKeyBytes"
    and "list_all is_byte (IDKey pw salt argonTime argonMemory argonThreads argonKeyBytes)"
  shows "VerifyPassword IDKey enc guess \<longleftrightarrow>
    IDKey guess salt argonTime argonMemory argonThreads argonKeyBytes
      = IDKey pw salt argonTime argonMemory argonThreads argonKeyBytes"
proof -
  obtain m t p where params: "split_on (CHR '','') hash_params = [m, t, p]" "param ''m='' m 32 = Some argonMemory"
    "param ''t='' t 32 = Some argonTime" "param ''p='' p 8 = Some argonThreads"
    using hash_params_parse(2) by blast
  show ?thesis
    unfolding VerifyPassword_def hash_splits [OF assms(1,3,5)]
    by (simp add: params std_decode_encode [OF assms(3)] std_decode_encode [OF assms(5)] assms(2,4))
qed

end
