(* ===== verification/Interfaces.thy ===== *)
theory Interfaces
  imports Ledger Trace Credentials
begin

text \<open>
  Round trips and agreements at the edges of the platform: tokens and passwords, the entry
  configuration of a node and the join information of an instance, and the idempotency key under
  which a job reaches the node.
\<close>

section \<open>Credentials\<close>

text \<open>
  Every token that is drawn is accepted: hashing the text of a fresh token of 32 random bytes gives
  exactly the digest that was stored for it, and different random bytes give different tokens.
\<close>

theorem token_round_trip:
  assumes "list_all is_byte raw" "length raw = TokenBytes"
  shows "TokenHash (fst (NewToken raw)) = Some (snd (NewToken raw))
    \<and> (\<forall>other. list_all is_byte other \<and> fst (NewToken other) = fst (NewToken raw) \<longrightarrow> other = raw)"
  using token_hash_new [OF assms] token_text_inj [OF assms(1)] by blast

lemma token_round_trip_witness:
  "TokenHash (fst (NewToken (replicate 32 7))) = Some (snd (NewToken (replicate 32 7)))"
  using token_round_trip [of "replicate 32 7"] by (simp add: list_all_iff is_byte_def TokenBytes_def)

text \<open>
  C20: A stored password hash accepts exactly the passwords that derive its key.  For a derivation
  function that returns as many bytes as asked for, the hash of a password verifies a guess if and only if
  the guess derives the same key under the same salt and costs, in particular the password
  itself.
\<close>

theorem password_round_trip:
  assumes "HashPassword IDKey salt pw = Some enc" "length salt = saltBytes" "list_all is_byte salt"
    and "length (IDKey pw salt argonTime argonMemory argonThreads argonKeyBytes) = argonKeyBytes"
    and "list_all is_byte (IDKey pw salt argonTime argonMemory argonThreads argonKeyBytes)"
  shows "VerifyPassword IDKey enc guess \<longleftrightarrow>
    IDKey guess salt argonTime argonMemory argonThreads argonKeyBytes
      = IDKey pw salt argonTime argonMemory argonThreads argonKeyBytes"
  by (rule verify_hash [OF assms])

lemma password_round_trip_witness:
  "VerifyPassword (\<lambda>pw s t m th k. replicate k (int (length pw) mod 256))
     (the (HashPassword (\<lambda>pw s t m th k. replicate k (int (length pw) mod 256)) (replicate 16 9) ''correct horse'')) ''correct horse''
   \<and> \<not> VerifyPassword (\<lambda>pw s t m th k. replicate k (int (length pw) mod 256))
     (the (HashPassword (\<lambda>pw s t m th k. replicate k (int (length pw) mod 256)) (replicate 16 9) ''correct horse'')) ''wrong''"
proof -
  let ?K = "(\<lambda>pw s t m th k. replicate k (int (length pw) mod 256)) :: id_key"
  obtain enc where h: "HashPassword ?K (replicate 16 9) ''correct horse'' = Some enc" by (simp add: HashPassword_def Let_def)
  have "VerifyPassword ?K enc q \<longleftrightarrow> ?K q (replicate 16 9) argonTime argonMemory argonThreads argonKeyBytes
      = ?K ''correct horse'' (replicate 16 9) argonTime argonMemory argonThreads argonKeyBytes" for q
    by (rule password_round_trip [OF h]) (simp_all add: saltBytes_def list_all_iff is_byte_def argonKeyBytes_def)
  then show ?thesis by (simp add: h argonKeyBytes_def)
qed

section \<open>Network facts\<close>

lemma public_port_inj:
  assumes "NetworkFacts_Validate n hm = Inr ()"
  shows "inj_on (public_port n) {nf_LocalPortMin n .. nf_LocalPortMax n}"
proof (cases "nf_MappingMode n = MExplicit")
  case True
  show ?thesis
  proof (rule inj_onI)
    fix p q assume pq: "p \<in> {nf_LocalPortMin n .. nf_LocalPortMax n}" "q \<in> {nf_LocalPortMin n .. nf_LocalPortMax n}"
      "public_port n p = public_port n q"
    obtain m where m: "m \<in> set (nf_Mappings n)" "pm_local m = p" "public_port n p = pm_public m"
      using public_port_explicit [OF assms True, of p] pq(1) by auto
    obtain k where k: "k \<in> set (nf_Mappings n)" "pm_local k = q" "public_port n q = pm_public k"
      using public_port_explicit [OF assms True, of q] pq(2) by auto
    have "m = k" using validated_locals(3) [OF assms True] m k pq(3) by (simp add: distinct_map inj_on_def)
    then show "p = q" using m k by simp
  qed
next
  case False
  then have "nf_MappingMode n = MIdentity" using assms by (auto simp: validate_network)
  then show ?thesis by (simp add: inj_on_def public_port_def)
qed

text \<open>
  Validated network facts let players reach every instance.  For each local port of a validated
  range the join information exists, is itself valid, shows a public port that the node published, and
  carries the revision of exactly these facts; two local ports never share a public port; and the range
  has at least as many ports as the hard capacity.
\<close>

theorem validated_facts_reach_every_port:
  assumes "NetworkFacts_Validate nf hardMax = Inr ()"
  shows "(\<forall>p \<in> {nf_LocalPortMin nf .. nf_LocalPortMax nf}. \<exists>j. network_JoinInfo nf p = (Some j, [])
      \<and> JoinInfo_Validate j = Inr () \<and> ji_LocalPort j = p \<and> ji_PublicPort j \<in> set (PublicPorts nf)
      \<and> ji_EntryConfigRevision j = EntryConfigRevision nf)
    \<and> inj_on (public_port nf) {nf_LocalPortMin nf .. nf_LocalPortMax nf}
    \<and> hardMax \<le> int (card {nf_LocalPortMin nf .. nf_LocalPortMax nf})"
proof (intro conjI ballI)
  fix p assume "p \<in> {nf_LocalPortMin nf .. nf_LocalPortMax nf}"
  then have p: "nf_LocalPortMin nf \<le> p" "p \<le> nf_LocalPortMax nf" by simp_all
  note j = network_join_ok [OF assms p]
  show "\<exists>j. network_JoinInfo nf p = (Some j, [])
    \<and> JoinInfo_Validate j = Inr () \<and> ji_LocalPort j = p \<and> ji_PublicPort j \<in> set (PublicPorts nf)
    \<and> ji_EntryConfigRevision j = EntryConfigRevision nf"
    using j network_join_valid [OF j] public_port_range(3) [OF assms p] by simp
next
  show "inj_on (public_port nf) {nf_LocalPortMin nf .. nf_LocalPortMax nf}" by (rule public_port_inj [OF assms])
  show "hardMax \<le> int (card {nf_LocalPortMin nf .. nf_LocalPortMax nf})" using assms by (auto simp: validate_network)
qed

text \<open>
  The entry configuration revision does not depend on the order in which a node lists its explicit
  mappings: two validated descriptions with the same mappings, equal otherwise, have the same revision,
  so a reordered report never invalidates join information.
\<close>

theorem revision_ignores_mapping_order:
  assumes "NetworkFacts_Validate nf hardMax = Inr ()" "mset ms = mset (nf_Mappings nf)"
  shows "EntryConfigRevision (nf\<lparr>nf_Mappings := ms\<rparr>) = EntryConfigRevision nf"
proof -
  have "sort_key pm_local ms = sort_key pm_local (nf_Mappings nf)"
  proof (cases "nf_MappingMode nf = MExplicit")
    case True
    have dist: "distinct (map pm_local (nf_Mappings nf))" by (rule validated_locals(2) [OF assms(1) True])
    then have d2: "distinct (map pm_local ms)" using assms(2) by (metis mset_eq_imp_distinct_iff mset_map)
    show ?thesis
    proof (rule map_sorted_distinct_set_unique)
      show "inj_on pm_local (set (sort_key pm_local ms) \<union> set (sort_key pm_local (nf_Mappings nf)))"
        using dist mset_eq_setD [OF assms(2)] by (simp add: distinct_map)
      show "distinct (map pm_local (sort_key pm_local ms))" using d2 by (simp add: distinct_map)
      show "distinct (map pm_local (sort_key pm_local (nf_Mappings nf)))" using dist by (simp add: distinct_map)
      show "set (sort_key pm_local ms) = set (sort_key pm_local (nf_Mappings nf))" using mset_eq_setD [OF assms(2)] by simp
    qed simp_all
  next
    case False
    then have "nf_Mappings nf = []" using assms(1) by (auto simp: validate_network)
    then show ?thesis using assms(2) by simp
  qed
  then show ?thesis by (simp add: EntryConfigRevision_def)
qed

definition two_ports :: NetworkFacts where
  "two_ports = \<lparr>nf_ConnectHost = ''play.example'', nf_ProtocolIP = [], nf_LocalPortMin = 27015, nf_LocalPortMax = 27016,
     nf_MappingMode = MExplicit, nf_Mappings = [\<lparr>pm_local = 27016, pm_public = 30001\<rparr>, \<lparr>pm_local = 27015, pm_public = 30000\<rparr>],
     nf_A2SEnabled = False\<rparr>"

lemma two_ports_valid: "NetworkFacts_Validate two_ports 2 = Inr ()"
  by code_simp

lemma validated_facts_reach_every_port_witness:
  "\<exists>j. network_JoinInfo two_ports 27015 = (Some j, []) \<and> ji_EntryConfigRevision j = EntryConfigRevision two_ports"
proof -
  have "27015 \<in> {nf_LocalPortMin two_ports .. nf_LocalPortMax two_ports}" by (simp add: two_ports_def)
  with validated_facts_reach_every_port [OF two_ports_valid] show ?thesis by blast
qed

lemma revision_ignores_mapping_order_witness:
  "EntryConfigRevision (two_ports\<lparr>nf_Mappings := [\<lparr>pm_local = 27015, pm_public = 30000\<rparr>, \<lparr>pm_local = 27016, pm_public = 30001\<rparr>]\<rparr>)
    = EntryConfigRevision two_ports"
  by (rule revision_ignores_mapping_order [OF two_ports_valid]) (simp add: two_ports_def)

section \<open>Idempotency keys\<close>

lemma nibbles_eq:
  "hex_nibbles n u = hex_nibbles n v \<Longrightarrow> i < n \<Longrightarrow> u div 16 ^ i mod 16 = v div 16 ^ i mod 16"
proof -
  assume "hex_nibbles n u = hex_nibbles n v" "i < n"
  then have "hex_digit (int u div 16 ^ i mod 16) = hex_digit (int v div 16 ^ i mod 16)"
    by (simp only: hex_nibbles_def map_eq_conv) simp
  then have "int u div 16 ^ i mod 16 = int v div 16 ^ i mod 16" by (intro hex_digit_inj) simp_all
  then have "int (u div 16 ^ i mod 16) = int (v div 16 ^ i mod 16)" by (simp only: of_nat_mod of_nat_div of_nat_power of_nat_numeral)
  then show ?thesis by (simp only: of_nat_eq_iff)
qed

lemma nibbles_value:
  fixes u v :: nat
  shows "(\<And>i. i < n \<Longrightarrow> u div 16 ^ i mod 16 = v div 16 ^ i mod 16) \<Longrightarrow> u mod 16 ^ n = v mod 16 ^ n"
proof (induction n)
  case (Suc n)
  have split: "w mod 16 ^ Suc n = 16 ^ n * (w div 16 ^ n mod 16) + w mod 16 ^ n" for w :: nat
    by (simp add: mod_mult2_eq power_Suc2 del: power_Suc)
  have "u mod 16 ^ n = v mod 16 ^ n" by (rule Suc.IH) (simp add: Suc.prems)
  then show ?case unfolding split using Suc.prems [of n] by simp
qed simp

lemma length_hex_nibbles [simp]: "length (hex_nibbles n v) = n"
  by (simp add: hex_nibbles_def)

lemma nibble_not_dash: "c \<in> set (hex_nibbles n v) \<Longrightarrow> c \<noteq> CHR ''-'' \<and> is_token_char c"
proof -
  assume "c \<in> set (hex_nibbles n v)"
  then have "c \<in> set hex_digits" using hex_digit_set by (auto simp: hex_nibbles_def)
  moreover have "\<forall>c \<in> set hex_digits. c \<noteq> CHR ''-'' \<and> is_token_char c" by code_simp
  ultimately show ?thesis by blast
qed

lemma uuid_parts:
  "take 8 h @ take 4 (drop 8 h) @ take 4 (drop 12 h) @ take 4 (drop 16 h) @ drop 20 h = h"
proof -
  have "take 4 (drop 16 h) @ drop 20 h = drop 16 h" using append_take_drop_id [of 4 "drop 16 h"] by simp
  moreover have "take 4 (drop 12 h) @ drop 16 h = drop 12 h" using append_take_drop_id [of 4 "drop 12 h"] by simp
  moreover have "take 4 (drop 8 h) @ drop 12 h = drop 8 h" using append_take_drop_id [of 4 "drop 8 h"] by simp
  ultimately show ?thesis by (simp only: append_take_drop_id)
qed

lemma core_key_hex: "CoreIdempotencyKey u = ''nodejob-'' @ hex_nibbles 32 u"
proof -
  let ?h = "hex_nibbles 32 u"
  have keep: "filter (\<lambda>c. c \<noteq> CHR ''-'') xs = xs" if "set xs \<subseteq> set ?h" for xs
    using that nibble_not_dash [of _ 32 u] by (auto simp: filter_id_conv)
  have keeps: "filter (\<lambda>c. c \<noteq> CHR ''-'') (take k (drop m ?h)) = take k (drop m ?h)"
    "filter (\<lambda>c. c \<noteq> CHR ''-'') (take k ?h) = take k ?h" "filter (\<lambda>c. c \<noteq> CHR ''-'') (drop m ?h) = drop m ?h" for k m
    by (rule keep, auto dest: in_set_takeD in_set_dropD)+
  have dash: "filter (\<lambda>c. c \<noteq> CHR ''-'') ''-'' = []" by simp
  have "filter (\<lambda>c. c \<noteq> CHR ''-'') (uuid_text u) = ?h"
    unfolding uuid_text_def Let_def filter_append dash append_Nil keeps by (rule uuid_parts)
  then show ?thesis by (simp only: CoreIdempotencyKey_def core_key_def)
qed

text \<open>
  A job has one idempotency key of its own at the node: the key is a well-formed token for the core,
  and two jobs with different 128-bit identifiers never share it.
\<close>

theorem idempotency_keys_distinct:
  assumes "u < 2 ^ 128" "v < 2 ^ 128"
  shows "coreTokenPattern (CoreIdempotencyKey u) \<and> (CoreIdempotencyKey u = CoreIdempotencyKey v \<longleftrightarrow> u = v)"
proof
  have "list_all is_token_char ''nodejob-''" by code_simp
  moreover have "list_all is_token_char (hex_nibbles 32 u)" using nibble_not_dash [of _ 32 u] by (simp add: list_all_iff)
  ultimately show "coreTokenPattern (CoreIdempotencyKey u)"
    by (simp only: coreTokenPattern_def core_key_hex list_all_append length_append length_hex_nibbles) simp
  have "u = v" if "CoreIdempotencyKey u = CoreIdempotencyKey v"
  proof -
    have "hex_nibbles 32 u = hex_nibbles 32 v" using that by (simp add: core_key_hex)
    then have "u mod 16 ^ 32 = v mod 16 ^ 32" using nibbles_eq nibbles_value by blast
    then show ?thesis using assms by simp
  qed
  then show "CoreIdempotencyKey u = CoreIdempotencyKey v \<longleftrightarrow> u = v" by blast
qed

lemma idempotency_keys_distinct_witness: "CoreIdempotencyKey 40 \<noteq> CoreIdempotencyKey 41"
  using idempotency_keys_distinct [of 40 41] by simp

end
