(* ===== verification/PartyLife.thy ===== *)
theory PartyLife
  imports Ledger Trace
begin

text \<open>
  The life of parties: an invariant of every reachable database about leaders, members, invites and the
  configured size, kept by each party operation and untouched by all others.
\<close>

definition live :: "db \<Rightarrow> uuid \<Rightarrow> bool" where
  "live d q \<longleftrightarrow> (\<exists>p \<in> set (parties d). live_party q p)"

definition sized :: "db \<Rightarrow> bool" where
  "sized d \<longleftrightarrow> (case st_max_party_size (settings d) of None \<Rightarrow> members d = []
     | Some n \<Rightarrow> 0 < n \<and> (\<forall>p. member_count d p \<le> n))"

definition party_inv :: "db \<Rightarrow> bool" where
  "party_inv d \<longleftrightarrow> parties_ok (parties d) \<and> members_ok (members d) \<and> invites_ok (invites d) \<and> party_leader_fk d \<and> sized d
     \<and> (\<forall>m \<in> set (members d). live d (mb_party m))
     \<and> (\<forall>i \<in> set (invites d). iv_revoked i = None \<longrightarrow> live d (iv_party i))"

section \<open>Party operations keep it\<close>

lemma live_mono: "live d q \<Longrightarrow> set (parties d) \<subseteq> set (parties d') \<Longrightarrow> live d' q"
  by (auto simp: live_def)

lemma fk_same:
  assumes "parties d' = parties d" "members d' = members d"
  shows "party_leader_fk d' = party_leader_fk d"
  unfolding party_leader_fk_def assms by (rule refl)

lemma sized_same:
  assumes "st_max_party_size (settings d') = st_max_party_size (settings d)" "members d' = members d"
  shows "sized d' = sized d"
  unfolding sized_def member_count_def assms by (rule refl)

lemma live_same: "parties d' = parties d \<Longrightarrow> live d' = live d"
  by (simp add: live_def fun_eq_iff)

lemma member_count_append:
  "members d' = members d @ [m] \<Longrightarrow> member_count d' p = member_count d p + (if mb_party m = p then 1 else 0)"
  by (simp add: member_count_def count_where_Cons)

lemma count_where_filter: "count_where P (filter Q xs) \<le> count_where P xs"
  by (induction xs) (simp_all add: count_where_Cons)

lemma member_count_filter:
  "members d' = filter P (members d) \<Longrightarrow> member_count d' p \<le> member_count d p"
  by (simp add: member_count_def count_where_filter)

lemma party_inv_ConfigurePartySize:
  assumes "ConfigurePartySize sz d = Inr d'" "party_inv d"
  shows "party_inv d'"
proof -
  from assms(1) have sz: "0 < sz" "\<forall>m \<in> set (members d). member_count d (mb_party m) \<le> sz"
    and d': "d' = d\<lparr>settings := (settings d)\<lparr>st_max_party_size := Some sz\<rparr>\<rparr>"
    by (auto simp: ConfigurePartySize_def rejectE_Inr list_ex_iff not_less)
  have "member_count d p \<le> sz" for p
  proof (cases "\<exists>m \<in> set (members d). mb_party m = p")
    case False
    then have "member_count d p = 0" by (simp add: member_count_def count_where_zero)
    then show ?thesis using sz(1) by simp
  qed (use sz(2) in auto)
  then have "sized d'" using sz(1) by (simp add: sized_def d' member_count_def)
  moreover have "party_leader_fk d' = party_leader_fk d" "live d' = live d"
    by (intro fk_same live_same; simp add: d')+
  ultimately show ?thesis using assms(2) by (simp add: party_inv_def d')
qed

lemma party_inv_CreateParty:
  assumes "CreateParty u p iv raw now d = Inr (p', d')" "party_inv d"
  shows "party_inv d'"
proof -
  let ?p = "\<lparr>pa_id = p, pa_leader = Some u, pa_created = now, pa_dissolved = None\<rparr>"
  let ?m = "\<lparr>mb_party = p, mb_user = u, mb_leader = True, mb_joined = now\<rparr>"
  from assms(1) obtain n where n: "st_max_party_size (settings d) = Some n"
    and d': "d' = d\<lparr>parties := parties d @ [?p], members := members d @ [?m], invites := invites d @ [new_invite iv p raw]\<rparr>"
    and ok: "parties_ok (parties d @ [?p])" "members_ok (members d @ [?m])" "invites_ok (invites d @ [new_invite iv p raw])"
      "party_leader_fk d'"
    by (auto simp: CreateParty_def partySize_def result_simps split: option.splits)
  have new: "live d' p" by (auto simp: live_def live_party_def d')
  have old: "live d q \<Longrightarrow> live d' q" for q by (erule live_mono) (auto simp: d')
  have "p \<notin> pa_id ` set (parties d)" using ok(1) by (auto simp: parties_ok_def)
  then have "\<forall>m \<in> set (members d). mb_party m \<noteq> p"
    using assms(2) by (fastforce simp: party_inv_def live_def live_party_def image_iff)
  then have none: "member_count d p = 0" by (simp add: member_count_def count_where_zero)
  have "member_count d' q \<le> n" for q
    using assms(2) n none member_count_append [of d' d ?m q] by (auto simp: party_inv_def sized_def d')
  then have "sized d'" using assms(2) n by (simp add: sized_def party_inv_def d')
  moreover have "iv_party (new_invite iv p raw) = p" by (simp add: new_invite_def Let_def split: prod.splits)
  ultimately show ?thesis using assms(2) ok new old by (auto simp: party_inv_def d')
qed

lemma party_inv_JoinParty:
  assumes "JoinParty u token now d = Inr (p, d')" "party_inv d"
  shows "party_inv d'"
proof -
  from assms(1) obtain r n where r: "r \<in> set (parties d)" "pa_dissolved r = None"
    and n: "st_max_party_size (settings d) = Some n" "member_count d (pa_id r) < n"
    and d': "d' = d\<lparr>members := members d @ [\<lparr>mb_party = pa_id r, mb_user = u, mb_leader = False, mb_joined = now\<rparr>]\<rparr>"
    and ok: "members_ok (members d')" "party_leader_fk d'"
    by (auto simp: JoinParty_def partySize_def result_simps dest!: fetch_InrD find_SomeD split: option.splits)
  have "member_count d' q \<le> n" for q
    using assms(2) n member_count_append [of d' d "\<lparr>mb_party = pa_id r, mb_user = u, mb_leader = False, mb_joined = now\<rparr>" q]
    by (auto simp: party_inv_def sized_def d')
  then have "sized d'" using assms(2) n(1) by (simp add: sized_def party_inv_def d')
  moreover have "live d (pa_id r)" using r by (auto simp: live_def live_party_def)
  ultimately show ?thesis using assms(2) ok by (auto simp: party_inv_def live_def d')
qed

lemma led_party_live: "led_party u d = Some p \<Longrightarrow> p \<in> set (parties d) \<and> live d (pa_id p)"
  using find_SomeD [of "\<lambda>p. pa_leader p = Some u \<and> pa_dissolved p = None
     \<and> exists_where (\<lambda>m. mb_party m = pa_id p \<and> mb_user m = u) (members d)" "parties d" p]
  by (auto simp: led_party_def live_def live_party_def)

lemma revoke_invites_frame:
  assumes "revoke_invites p now d = Inr d'"
  shows "d' = d\<lparr>invites := invites d'\<rparr> \<and> invites_ok (invites d')
    \<and> (\<forall>i \<in> set (invites d'). iv_revoked i = None \<longrightarrow> i \<in> set (invites d) \<and> iv_party i \<noteq> p)"
  using assms by (auto simp: revoke_invites_def put_Inr set_upd_where)

lemma party_inv_ResetInvite:
  assumes "ResetInvite u iv raw now d = Inr (pt, d')" "party_inv d"
  shows "party_inv d'"
proof -
  from assms(1) obtain p d1 where p: "led_party u d = Some p" and s1: "revoke_invites (pa_id p) now d = Inr d1"
    and d': "d' = d1\<lparr>invites := invites d1 @ [new_invite iv (pa_id p) raw]\<rparr>"
    and ok: "invites_ok (invites d1 @ [new_invite iv (pa_id p) raw])"
    by (auto simp: ResetInvite_def result_simps split: option.splits)
  have iv: "iv_party (new_invite iv (pa_id p) raw) = pa_id p" by (simp add: new_invite_def Let_def split: prod.splits)
  obtain ivs where d1: "d1 = d\<lparr>invites := ivs\<rparr>" and old: "\<forall>i \<in> set ivs. iv_revoked i = None \<longrightarrow> i \<in> set (invites d)"
    using revoke_invites_frame [OF s1] by blast
  have "live d' = live d" "party_leader_fk d' = party_leader_fk d" "sized d' = sized d"
    by (intro fk_same live_same sized_same; simp add: d' d1)+
  then show ?thesis using assms(2) ok old led_party_live [OF p] iv by (auto simp: party_inv_def d' d1)
qed

lemma party_inv_remove_member:
  assumes "remove_member p u d = Inr d'" "party_inv d"
  shows "party_inv d'"
proof -
  let ?ms = "filter (\<lambda>m. \<not> (mb_party m = p \<and> mb_user m = u)) (members d)"
  from assms(1) have d': "d' = d\<lparr>members := ?ms\<rparr>" and ok: "members_ok ?ms" "party_leader_fk d'"
    by (auto simp: remove_member_def result_simps)
  have "member_count d' q \<le> member_count d q" for q by (rule member_count_filter) (simp add: d')
  then have "sized d'" using assms(2) by (auto simp: party_inv_def sized_def d' split: option.splits) (meson order_trans)
  then show ?thesis using assms(2) ok by (auto simp: party_inv_def live_def d')
qed

lemma party_inv_LeaveParty: "LeaveParty u d = Inr d' \<Longrightarrow> party_inv d \<Longrightarrow> party_inv d'"
  by (auto simp: LeaveParty_def bindE_Inr rejectE_Inr intro: party_inv_remove_member split: option.splits)

lemma party_inv_RemovePartyMember: "RemovePartyMember l u d = Inr d' \<Longrightarrow> party_inv d \<Longrightarrow> party_inv d'"
  by (auto simp: RemovePartyMember_def bindE_Inr rejectE_Inr intro: party_inv_remove_member split: option.splits)

lemma party_inv_DisbandParty:
  assumes "DisbandParty u now d = Inr d'" "party_inv d"
  shows "party_inv d'"
proof -
  let ?f = "\<lambda>q. q\<lparr>pa_leader := None, pa_dissolved := Some now\<rparr>"
  from assms(1) obtain p d1 where p: "led_party u d = Some p" and s1: "revoke_invites (pa_id p) now d = Inr d1"
    and d': "d' = d1\<lparr>parties := upd_where (\<lambda>q. pa_id q = pa_id p) ?f (parties d1),
        members := filter (\<lambda>m. mb_party m \<noteq> pa_id p) (members d1)\<rparr>"
    and ok: "parties_ok (parties d')" "members_ok (members d')" "party_leader_fk d'"
    by (auto simp: DisbandParty_def result_simps split: option.splits)
  obtain ivs where d1: "d1 = d\<lparr>invites := ivs\<rparr>" "invites_ok ivs"
    and old: "\<forall>i \<in> set ivs. iv_revoked i = None \<longrightarrow> i \<in> set (invites d) \<and> iv_party i \<noteq> pa_id p"
    using revoke_invites_frame [OF s1] by blast
  have other: "live d q \<Longrightarrow> q \<noteq> pa_id p \<Longrightarrow> live d' q" for q
    by (auto simp: live_def live_party_def d' d1 set_upd_where)
  have "member_count d' q \<le> member_count d q" for q by (rule member_count_filter) (simp add: d' d1)
  then have "sized d'" using assms(2) by (auto simp: party_inv_def sized_def d' d1 split: option.splits) (meson order_trans)
  moreover have "live d' (mb_party m)" if "m \<in> set (members d')" for m
    using that assms(2) other by (auto simp: party_inv_def d' d1)
  moreover have "live d' (iv_party i)" if "i \<in> set (invites d')" "iv_revoked i = None" for i
    using that assms(2) other old by (auto simp: party_inv_def d' d1)
  moreover have "invites d' = ivs" by (simp add: d' d1)
  ultimately show ?thesis using ok d1(2) by (simp add: party_inv_def)
qed

section \<open>Every step keeps it\<close>

lemma party_inv_same:
  assumes "parties d' = parties d" "members d' = members d" "invites d' = invites d"
    "st_max_party_size (settings d') = st_max_party_size (settings d)" "party_inv d"
  shows "party_inv d'"
  using assms fk_same [OF assms(1,2)] sized_same [OF assms(4,2)] live_same [OF assms(1)] by (simp add: party_inv_def)

lemma catalogue_parties:
  assumes "catalogue d' = catalogue d" "party_inv d"
  shows "party_inv d'"
  by (rule party_inv_same [OF _ _ _ _ assms(2)]) (use assms(1) in \<open>simp_all add: catalogue_def\<close>)

lemma core_parties: "core d' = core d \<Longrightarrow> party_inv d \<Longrightarrow> party_inv d'"
  by (rule party_inv_same) (simp_all add: core_def)

lemma schedule_parties:
  assumes "TryAllocateOne newAlloc newJob now d = Inr (b, d')"
  shows "catalogue d' = catalogue d"
proof (cases b)
  case True
  then have "allocate_loop newAlloc newJob now d (waiting_requests d) = Inr (True, d')"
    using assms by (simp add: TryAllocateOne_def)
  from allocate_loop_True [OF this] obtain r where "allocate_request newAlloc newJob now d r = Inr (Some d')" by blast
  from allocate_request_Some [OF this] show ?thesis
  proof
    assume "reserves newAlloc newJob now d r d'"
    from reserves_frame [OF this] show ?thesis by (auto simp: catalogue_def)
  qed (simp add: set_request_state_def put_Inr catalogue_def)
next
  case False
  then have "d' = d" using assms allocate_loop_False [of newAlloc newJob now d] by (simp add: TryAllocateOne_def)
  then show ?thesis by simp
qed

lemma finalize_parties:
  assumes "FinalizeValidationRun i now d = Inr d'"
  shows "catalogue d' = catalogue d"
  using FinalizeRun_cases [OF assms] by (auto simp: set_run_def put_Inr catalogue_def)

lemma reserve_parties:
  assumes "ReserveValidation c v a j now d = Inr (i, d')" "party_inv d"
  shows "party_inv d'"
proof -
  have "parties d' = parties d \<and> members d' = members d \<and> invites d' = invites d \<and> settings d' = settings d"
    using ReserveValidation_cases [OF assms(1)] by (auto simp: reserve_run_def result_simps auditAdmin_def)
  then show ?thesis by (intro party_inv_same [OF _ _ _ _ assms(2)]) simp_all
qed

lemmas party_steps = core_parties party_inv_ConfigurePartySize party_inv_CreateParty party_inv_JoinParty party_inv_ResetInvite
  party_inv_LeaveParty party_inv_RemovePartyMember party_inv_DisbandParty reserve_parties
  catalogue_parties [OF schedule_parties] catalogue_parties [OF finalize_parties]
  fixed.W_operations [THEN catalogue_parties]

lemma party_inv_step:
  assumes "store_step d d'" "party_inv d"
  shows "party_inv d'"
  using assms(1)
proof (cases rule: store_step.cases)
  case admin
  then show ?thesis using fixed.W_admin_action catalogue_parties core_parties assms(2) by blast
qed (erule party_steps [OF _ assms(2)])+

text \<open>
  C16: On a platform that starts without parties and with no or a positive party size, at every later
  moment: a user is in at most one party, every member belongs to a party that is not dissolved, such a
  party has a leader who is one of its members, no party exceeds the configured size, and every invite
  that is still open leads to a live party, which has at most one of them.
\<close>

theorem parties_stay_well_formed:
  assumes "store_step\<^sup>*\<^sup>* d0 d" "empty_business d0" "case st_max_party_size (settings d0) of None \<Rightarrow> True | Some n \<Rightarrow> 0 < n"
  shows "distinct (map mb_user (members d))
    \<and> (\<forall>m \<in> set (members d). live d (mb_party m))
    \<and> (\<forall>p \<in> set (parties d). pa_dissolved p = None
        \<longrightarrow> (\<exists>m \<in> set (members d). mb_party m = pa_id p \<and> pa_leader p = Some (mb_user m) \<and> mb_leader m))
    \<and> (\<forall>n p. st_max_party_size (settings d) = Some n \<longrightarrow> member_count d p \<le> n)
    \<and> (\<forall>i \<in> set (invites d). iv_revoked i = None \<longrightarrow> live d (iv_party i)) \<and> unique_on current_invite (invites d)"
proof -
  have "party_inv d0"
    using assms(2,3) by (auto simp: empty_business_def party_inv_def parties_ok_def members_ok_def invites_ok_def
        party_leader_fk_def sized_def member_count_def split: option.splits)
  with assms(1) have i: "party_inv d"
    by (induction rule: rtranclp_induct) (blast intro: party_inv_step)+
  have leader: "\<exists>m \<in> set (members d). mb_party m = pa_id p \<and> pa_leader p = Some (mb_user m) \<and> mb_leader m"
    if p: "p \<in> set (parties d)" "pa_dissolved p = None" for p
  proof -
    have ok: "parties_ok (parties d)" "party_leader_fk d" using i by (simp_all add: party_inv_def)
    have "(pa_dissolved p = None) = (pa_leader p \<noteq> None)"
      using ok(1) p(1) unfolding parties_ok_def list_all_iff by blast
    then obtain u where "pa_leader p = Some u" using p(2) by auto
    moreover have "case pa_leader p of None \<Rightarrow> True
        | Some u \<Rightarrow> exists_where (\<lambda>m. mb_party m = pa_id p \<and> mb_user m = u \<and> mb_leader m) (members d)"
      using ok(2) p(1) unfolding party_leader_fk_def by (rule bspec)
    ultimately show ?thesis by auto
  qed
  have "\<forall>n p. st_max_party_size (settings d) = Some n \<longrightarrow> member_count d p \<le> n"
    using i unfolding party_inv_def sized_def by auto
  then show ?thesis using i leader by (simp add: party_inv_def members_ok_def invites_ok_def)
qed

lemma parties_stay_well_formed_witness:
  "\<exists>d h. members d = [\<lparr>mb_party = 3, mb_user = 7, mb_leader = True, mb_joined = 10\<rparr>] \<and> live d 3
     \<and> member_count d 3 \<le> 4 \<and> d = start_db\<lparr>parties := parties d, members := members d, invites := [h]\<rparr>"
proof -
  let ?m = "\<lparr>mb_party = 3, mb_user = 7, mb_leader = True, mb_joined = 10\<rparr>"
  let ?d = "start_db\<lparr>parties := [\<lparr>pa_id = 3, pa_leader = Some 7, pa_created = 10, pa_dissolved = None\<rparr>],
    members := [?m], invites := [new_invite 4 3 (replicate 32 1)]\<rparr>"
  have iv: "iv_hash (new_invite 4 3 (replicate 32 1)) = sha256 (b64_encode b64_url (replicate 32 1))"
    "length (iv_token (new_invite 4 3 (replicate 32 1))) = 43"
    by (simp_all add: new_invite_def NewToken_def Let_def b64_encode_def numeral_eq_Suc)
  have "CreateParty 7 3 4 (replicate 32 1) 10 start_db = Inr (3, ?d)"
    by (simp add: CreateParty_def lockUser_def partySize_def member_party_def blockingSolo_def put_defs commit_parties_def
        start_db_def sample_db_def fetch_def parties_ok_def members_ok_def invites_ok_def party_leader_fk_def iv)
  then have "store_step\<^sup>*\<^sup>* start_db ?d" by (intro r_into_rtranclp) (rule create_party)
  from parties_stay_well_formed [OF this start_empty]
  have "(\<forall>m \<in> set (members ?d). live ?d (mb_party m))
    \<and> (\<forall>n p. st_max_party_size (settings ?d) = Some n \<longrightarrow> member_count ?d p \<le> n)"
    by (simp add: start_db_def sample_db_def)
  then have "live ?d 3 \<and> member_count ?d 3 \<le> 4" by (simp add: start_db_def sample_db_def)
  then show ?thesis by (intro exI [of _ ?d] exI [of _ "new_invite 4 3 (replicate 32 1)"]) simp
qed

end
