(* ===== verification/FactTable.thy ===== *)
theory FactTable
  imports Prelude
begin

text \<open>
  A table of facts that a node reports, one row per key with a revision that counts the changes of the
  reported identity, as the heartbeat keeps for content and for templates: every reported fact is
  inserted or updated, then every row in scope that was not reported is set back to the unknown
  identity.  The laws are what the two SQL statements promise; the lemmas give the table in closed form.
\<close>

text \<open>What a report says of a key: its identity in the list of reported facts, or the unknown one.\<close>

definition told :: "'i \<Rightarrow> ('k \<times> 'i) list \<Rightarrow> 'k \<Rightarrow> 'i" where
  "told unknown ps k = (case map_of ps k of None \<Rightarrow> unknown | Some i \<Rightarrow> i)"

locale fact_table =
  fixes key :: "'r \<Rightarrow> 'k" and ident :: "'r \<Rightarrow> 'i" and ver :: "'r \<Rightarrow> int"
    and kept :: "'r \<Rightarrow> 'x"
    and report :: "'t \<Rightarrow> 'i \<Rightarrow> 'r \<Rightarrow> 'r" and first_row :: "'t \<Rightarrow> 'k \<Rightarrow> 'i \<Rightarrow> 'r"
    and upsert :: "'t \<Rightarrow> 'k \<Rightarrow> 'i \<Rightarrow> 'r list \<Rightarrow> 'r list"
    and forget :: "'t \<Rightarrow> 's \<Rightarrow> 'k list \<Rightarrow> 'r list \<Rightarrow> 'r list"
    and scope :: "'s \<Rightarrow> 'k \<Rightarrow> bool" and unknown :: 'i
  assumes key_report: "key (report t i r) = key r"
    and ident_report: "ident (report t i r) = i"
    and kept_report: "kept (report t i r) = kept r"
    and ver_report: "ver (report t i r) = ver r + (if ident r = i then 0 else 1)"
    and key_first: "key (first_row t k i) = k"
    and ident_first: "ident (first_row t k i) = i"
    and upsert_law: "upsert t k i rs = (if k \<in> key ` set rs then upd_where (\<lambda>r. key r = k) (report t i) rs
        else rs @ [first_row t k i])"
    and forget_law: "(\<forall>k \<in> set ks. scope s k) \<Longrightarrow> forget t s ks rs = upd_where (\<lambda>r. scope s (key r) \<and> key r \<notin> set ks) (report t unknown) rs"
begin

text \<open>The rows in the table that were reported, and the new ones.\<close>

lemma upserts:
  assumes "distinct (map fst ps)"
  shows "fold (\<lambda>(k, i). upsert t k i) ps rs =
      map (\<lambda>r. case map_of ps (key r) of None \<Rightarrow> r | Some i \<Rightarrow> report t i r) rs
      @ map (\<lambda>(k, i). first_row t k i) (filter (\<lambda>(k, i). k \<notin> key ` set rs) ps)"
  using assms
proof (induction ps arbitrary: rs)
  case (Cons p ps)
  obtain k i where p: "p = (k, i)" by (cases p)
  have fresh: "k \<notin> fst ` set ps" and dist: "distinct (map fst ps)" using Cons.prems p by auto
  then have none: "map_of ps k = None" by (simp add: map_of_eq_None_iff)
  show ?case
  proof (cases "k \<in> key ` set rs")
    case True
    let ?f = "\<lambda>r. if key r = k then report t i r else r"
    have "fold (\<lambda>(k, i). upsert t k i) (p # ps) rs = fold (\<lambda>(k, i). upsert t k i) ps (map ?f rs)"
      using True by (simp add: p upsert_law upd_where_def)
    moreover have "map (\<lambda>r. case map_of ps (key r) of None \<Rightarrow> r | Some i \<Rightarrow> report t i r) (map ?f rs)
        = map (\<lambda>r. case map_of (p # ps) (key r) of None \<Rightarrow> r | Some i \<Rightarrow> report t i r) rs"
      using none by (simp add: p key_report)
    moreover have "key ` set (map ?f rs) = key ` set rs" unfolding set_map image_image by (intro image_cong) (simp_all add: key_report)
    ultimately show ?thesis using Cons.IH [OF dist, of "map ?f rs"] True by (simp add: p)
  next
    case False
    have "fold (\<lambda>(k, i). upsert t k i) (p # ps) rs = fold (\<lambda>(k, i). upsert t k i) ps (rs @ [first_row t k i])"
      using False by (simp add: p upsert_law)
    moreover have "map (\<lambda>r. case map_of (p # ps) (key r) of None \<Rightarrow> r | Some i \<Rightarrow> report t i r) rs
        = map (\<lambda>r. case map_of ps (key r) of None \<Rightarrow> r | Some i \<Rightarrow> report t i r) rs"
      using False by (auto simp: p)
    moreover have "filter (\<lambda>(x, y). x \<notin> key ` set (rs @ [first_row t k i])) ps = filter (\<lambda>(x, y). x \<notin> key ` set rs) ps"
      using fresh by (intro filter_cong) (force simp: key_first)+
    ultimately show ?thesis using Cons.IH [OF dist, of "rs @ [first_row t k i]"] False none by (simp add: p key_first)
  qed
qed (simp add: split_def)

text \<open>The table after a report: each row in scope has its reported identity, or the unknown one.\<close>

lemma reported:
  assumes "distinct (map fst ps)" "\<forall>k \<in> fst ` set ps. scope s k"
  shows "forget t s (map fst ps) (fold (\<lambda>(k, i). upsert t k i) ps rs) =
      map (\<lambda>r. if scope s (key r) then report t (told unknown ps (key r)) r else r) rs
      @ map (\<lambda>(k, i). first_row t k i) (filter (\<lambda>(k, i). k \<notin> key ` set rs) ps)"
proof -
  let ?g = "\<lambda>r. if scope s (key r) \<and> key r \<notin> set (map fst ps) then report t unknown r else r"
  have old: "?g (case map_of ps (key r) of None \<Rightarrow> r | Some i \<Rightarrow> report t i r)
      = (if scope s (key r) then report t (told unknown ps (key r)) r else r)" for r
  proof (cases "map_of ps (key r)")
    case None
    moreover from None have "key r \<notin> set (map fst ps)" by (simp add: map_of_eq_None_iff)
    ultimately show ?thesis by (simp add: told_def)
  next
    case (Some i)
    then have "key r \<in> fst ` set ps" by (metis domI dom_map_of_conv_image_fst)
    then have "scope s (key r)" "key r \<in> set (map fst ps)" using assms(2) by auto
    with Some show ?thesis by (simp add: told_def key_report)
  qed
  have new: "map ?g (map (\<lambda>(k, i). first_row t k i) (filter Q ps)) = map (\<lambda>(k, i). first_row t k i) (filter Q ps)" for Q
    by (auto simp: key_first image_iff Bex_def)
  have "\<forall>k \<in> set (map fst ps). scope s k" using assms(2) by simp
  then show ?thesis
    unfolding forget_law [OF \<open>\<forall>k \<in> set (map fst ps). scope s k\<close>] upserts [OF assms(1)] upd_where_def map_append new
    by (simp only: map_map comp_def old)
qed

lemma reported_row:
  assumes "distinct (map fst ps)" "\<forall>k \<in> fst ` set ps. scope s k" "r \<in> set rs" "scope s (key r)"
  shows "\<exists>r' \<in> set (forget t s (map fst ps) (fold (\<lambda>(k, i). upsert t k i) ps rs)). key r' = key r \<and> kept r' = kept r
     \<and> ident r' = told unknown ps (key r) \<and> ver r' = ver r + (if ident r' = ident r then 0 else 1)"
proof -
  have "report t (told unknown ps (key r)) r \<in> set (forget t s (map fst ps) (fold (\<lambda>(k, i). upsert t k i) ps rs))"
    unfolding reported [OF assms(1,2)] using assms(3,4) by force
  then show ?thesis by (rule bexI [rotated]) (simp add: key_report ident_report kept_report ver_report)
qed

text \<open>Reporting the same facts again changes no identity and no revision.\<close>

lemma repeated:
  assumes "distinct (map fst ps)" "\<forall>k \<in> fst ` set ps. scope s k"
  defines "after t rs \<equiv> forget t s (map fst ps) (fold (\<lambda>(k, i). upsert t k i) ps rs)"
  shows "map (\<lambda>r. (key r, ident r, ver r, kept r)) (after u (after t rs)) = map (\<lambda>r. (key r, ident r, ver r, kept r)) (after t rs)"
proof -
  have told: "ident r = told unknown ps (key r)" if r: "r \<in> set (after t rs)" "scope s (key r)" for r
  proof -
    consider q where "q \<in> set rs" "r = (if scope s (key q) then report t (told unknown ps (key q)) q else q)"
      | k i where "(k, i) \<in> set ps" "r = first_row t k i"
      using r(1) unfolding after_def reported [OF assms(1,2)] by auto
    then show ?thesis
    proof cases
      case 1
      with r(2) show ?thesis by (auto simp: key_report ident_report split: if_splits)
    next
      case 2
      then have "map_of ps k = Some i" using assms(1) by simp
      with 2 show ?thesis by (simp add: key_first ident_first told_def)
    qed
  qed
  have keys: "k \<in> key ` set (after t rs)" if "(k, i) \<in> set ps" for k i
  proof (cases "k \<in> key ` set rs")
    case True
    then obtain r where "r \<in> set rs" "k = key r" by blast
    then have "(if scope s (key r) then report t (told unknown ps (key r)) r else r) \<in> set (after t rs)"
      unfolding after_def reported [OF assms(1,2)] by auto
    then show ?thesis using \<open>k = key r\<close> by (metis imageI key_report)
  next
    case False
    then have "first_row t k i \<in> set (after t rs)" unfolding after_def reported [OF assms(1,2)] using that by force
    then show ?thesis by (metis imageI key_first)
  qed
  then have none: "filter (\<lambda>(k, i). k \<notin> key ` set (after t rs)) ps = []"
    by (auto simp: filter_empty_conv dest: keys)
  have "after u (after t rs) = map (\<lambda>r. if scope s (key r) then report u (told unknown ps (key r)) r else r) (after t rs)"
    unfolding after_def [of u] reported [OF assms(1,2)] none by simp
  then show ?thesis using told by (auto simp: key_report ident_report ver_report kept_report)
qed

end

end
