(* ===== verification/Nodes.thy ===== *)
theory Nodes
  imports System FactTable
begin

text \<open>
  Nodes (\<open>internal/platform/store/nodes.go\<close>): registration and authentication, the operator controls,
  and the heartbeat, which replaces the node's report, counts the changes of its content and template
  facts, and drops the attestation of its entries when their configuration changes.
\<close>

section \<open>Operator controls\<close>

definition SetNodeDrain :: "uuid \<Rightarrow> bool \<Rightarrow> db \<Rightarrow> db res" where
  "SetNodeDrain nodeID draining d =
     bindE (fetch (\<lambda>n. nd_id n = nodeID) (nodes d)) (\<lambda>_.
     Inr (write_audit ''operator_cli'' ''node.drain'' nodeID
       (d\<lparr>nodes := upd_where (\<lambda>n. nd_id n = nodeID) (nd_draining_update (\<lambda>_. draining)) (nodes d)\<rparr>)))"

definition NodeDraining :: "uuid \<Rightarrow> db \<Rightarrow> bool res" where
  "NodeDraining nodeID d = bindE (fetch (\<lambda>n. nd_id n = nodeID) (nodes d)) (\<lambda>n. Inr (nd_draining n))"

definition SetNodePriority :: "uuid \<Rightarrow> int \<Rightarrow> db \<Rightarrow> db res" where
  "SetNodePriority nodeID priority d =
     bindE (fetch (\<lambda>n. nd_id n = nodeID) (nodes d)) (\<lambda>_.
     rejectE (\<not> int4 priority) (Constraint ''nodes'')
       (Inr (write_audit ''operator_cli'' ''node.priority'' nodeID
         (d\<lparr>nodes := upd_where (\<lambda>n. nd_id n = nodeID) (nd_priority_update (\<lambda>_. priority)) (nodes d)\<rparr>))))"

definition NodePriority :: "uuid \<Rightarrow> db \<Rightarrow> int res" where
  "NodePriority nodeID d = bindE (fetch (\<lambda>n. nd_id n = nodeID) (nodes d)) (\<lambda>n. Inr (nd_priority n))"

section \<open>Registration and authentication\<close>

text \<open>\<open>raw\<close> are the random bytes of the secret; only its digest is stored.\<close>

definition RegisterNode :: "string \<Rightarrow> string \<Rightarrow> uuid \<Rightarrow> int list \<Rightarrow> db \<Rightarrow> ((uuid \<times> string) \<times> db) res" where
  "RegisterNode name osName nodeID raw d =
     (let name = TrimSpace name; (secret, hash) = NewToken raw in
      rejectE (name = [] \<or> 128 < length name \<or> osName \<noteq> ''windows'' \<and> osName \<noteq> ''linux'')
        (Invalid ''invalid node registration'') (
      rejectE (exists_where (\<lambda>n. nd_id n = nodeID \<or> nd_secret n = hash) (nodes d)) (Constraint ''nodes'')
        (Inr ((nodeID, secret), d\<lparr>nodes := nodes d @ [\<lparr>nd_id = nodeID, nd_display_name = name, nd_enabled = True,
           nd_accepting = True, nd_draining = False, nd_heartbeat = None, nd_desired = 0, nd_priority = 0,
           nd_os = osName, nd_secret = hash\<rparr>]\<rparr>))))"

definition AuthenticateNode :: "uuid \<Rightarrow> string \<Rightarrow> db \<Rightarrow> unit res" where
  "AuthenticateNode nodeID secret d = (case TokenHash secret of
      None \<Rightarrow> Inl ErrNodeUnauthorized
    | Some provided \<Rightarrow> (case node_of d nodeID of
          None \<Rightarrow> Inl ErrNodeUnauthorized
        | Some n \<Rightarrow> rejectE (\<not> nd_enabled n \<or> provided \<noteq> nd_secret n) ErrNodeUnauthorized (Inr ())))"

section \<open>Content facts of a heartbeat\<close>

type_synonym content_identity = "string option \<times> bool \<times> string option"

definition unknown_content :: content_identity where
  "unknown_content = (None, False, None)"

text \<open>What a fact says of its game: confirmed only for a known version, with its digest if one is sent.\<close>

definition content_identity :: "ContentFact \<Rightarrow> content_row option \<Rightarrow> content_identity" where
  "content_identity f c =
     (if cf_State f \<noteq> FConfirmed then unknown_content
      else case c of
          None \<Rightarrow> unknown_content
        | Some c \<Rightarrow> if cf_VPKSHA256 f = [] \<or> cf_VPKSHA256 f = cv_sha256 c
                    then (Some (cv_id c), True, nullif (cf_VPKSHA256 f) []) else unknown_content)"

definition reported_content :: "content_binding_row \<Rightarrow> content_identity" where
  "reported_content b = (cb_version b, cb_confirmed b, cb_sha256 b)"

definition report_content :: "time \<Rightarrow> content_identity \<Rightarrow> content_binding_row \<Rightarrow> content_binding_row" where
  "report_content now i b = b\<lparr>
     cb_fact_revision := cb_fact_revision b + (if reported_content b = i then 0 else 1),
     cb_version := fst i, cb_confirmed := fst (snd i), cb_sha256 := snd (snd i), cb_reported_at := Some now\<rparr>"

definition first_content :: "time \<Rightarrow> uuid \<Rightarrow> uuid \<Rightarrow> content_identity \<Rightarrow> content_binding_row" where
  "first_content now nodeID game i = \<lparr>cb_node = nodeID, cb_game = game, cb_version = fst i, cb_confirmed = fst (snd i),
     cb_sha256 = snd (snd i), cb_reported_at = Some now, cb_accepting = False, cb_epoch = 0,
     cb_fact_revision = (if fst (snd i) then 1 else 0)\<rparr>"

definition upsert_content ::
    "time \<Rightarrow> uuid \<Rightarrow> uuid \<Rightarrow> content_identity \<Rightarrow> content_binding_row list \<Rightarrow> content_binding_row list" where
  "upsert_content now nodeID game i bs =
     (if exists_where (\<lambda>b. cb_node b = nodeID \<and> cb_game b = game) bs
      then upd_where (\<lambda>b. cb_node b = nodeID \<and> cb_game b = game) (report_content now i) bs
      else bs @ [first_content now nodeID game i])"

definition forget_content :: "time \<Rightarrow> uuid \<Rightarrow> uuid list \<Rightarrow> content_binding_row list \<Rightarrow> content_binding_row list" where
  "forget_content now nodeID seen bs =
     upd_where (\<lambda>b. cb_node b = nodeID \<and> cb_game b \<notin> set seen) (report_content now unknown_content) bs"

text \<open>The loop over the facts; \<open>seen\<close> collects the games, facts of unknown workshops are skipped.\<close>

fun record_contents :: "uuid \<Rightarrow> time \<Rightarrow> uuid list \<Rightarrow> ContentFact list \<Rightarrow> db \<Rightarrow> uuid list \<times> db" where
  "record_contents nodeID now seen [] d = (seen, d)"
| "record_contents nodeID now seen (f # fs) d =
     (case find (\<lambda>g. gm_workshop g = cf_WorkshopID f) (games d) of
        None \<Rightarrow> record_contents nodeID now seen fs d
      | Some g \<Rightarrow> record_contents nodeID now (seen @ [gm_id g]) fs
          (d\<lparr>content_bindings := upsert_content now nodeID (gm_id g)
             (content_identity f (find (\<lambda>c. cv_game c = gm_id g \<and> cv_id c = cf_ContentVersionID f) (contents d)))
             (content_bindings d)\<rparr>))"

section \<open>Template facts of a heartbeat\<close>

type_synonym template_identity = "string option \<times> bool \<times> string option \<times> string option"

definition unknown_template :: template_identity where
  "unknown_template = (None, False, None, None)"

definition template_identity :: "TemplateFact \<Rightarrow> template_identity" where
  "template_identity f =
     (if tfa_State f = FUnknown then unknown_template
      else (nullif (tfa_BindingKey f) [], tfa_State f = FConfirmed, nullif (tfa_ManifestAlgorithm f) [],
            nullif (tfa_FingerprintSHA256 f) []))"

definition upsert_template :: "time \<Rightarrow> uuid \<Rightarrow> string \<Rightarrow> template_identity \<Rightarrow> db \<Rightarrow> db" where
  "upsert_template now nodeID revision i d = (case i of (key, confirmed, algorithm, fingerprint) \<Rightarrow>
     upsert_template_fact nodeID revision key confirmed algorithm fingerprint now d)"

definition bound_revisions :: "db \<Rightarrow> uuid \<Rightarrow> string \<Rightarrow> string list" where
  "bound_revisions d nodeID key =
     map tb_revision (filter (\<lambda>b. tb_node b = nodeID \<and> tb_key b = key) (template_bindings d))"

fun record_revisions :: "uuid \<Rightarrow> time \<Rightarrow> template_identity \<Rightarrow> string list \<Rightarrow> db \<Rightarrow> db" where
  "record_revisions nodeID now i [] d = d"
| "record_revisions nodeID now i (r # rs) d = record_revisions nodeID now i rs (upsert_template now nodeID r i d)"

fun record_templates :: "uuid \<Rightarrow> time \<Rightarrow> string list \<Rightarrow> TemplateFact list \<Rightarrow> db \<Rightarrow> string list \<times> db" where
  "record_templates nodeID now seen [] d = (seen, d)"
| "record_templates nodeID now seen (f # fs) d =
     (let rs = bound_revisions d nodeID (tfa_BindingKey f) in
      record_templates nodeID now (seen @ rs) fs (record_revisions nodeID now (template_identity f) rs d))"

definition forget_templates :: "time \<Rightarrow> uuid \<Rightarrow> string list \<Rightarrow> template_fact_row list \<Rightarrow> template_fact_row list" where
  "forget_templates now nodeID seen fs =
     upd_where (\<lambda>f. tf_node f = nodeID \<and> tf_revision f \<notin> set seen) (report_fact None False None None now) fs"

section \<open>Entries and diagnostics of a heartbeat\<close>

definition unattested :: "entry_row \<Rightarrow> entry_row" where
  "unattested e = e\<lparr>en_steam_verified := False, en_steam_enabled := False, en_steam_at := None, en_steam_by := None,
     en_china_verified := False, en_china_enabled := False, en_china_at := None, en_china_by := None\<rparr>"

text \<open>An attestation holds for one entry configuration: another revision drops it.\<close>

definition report_entry :: "time \<Rightarrow> string \<Rightarrow> bool \<Rightarrow> bool \<Rightarrow> entry_row \<Rightarrow> entry_row" where
  "report_entry now revision a2s ok e = (if en_revision e = revision then e else unattested e)
     \<lparr>en_revision := revision, en_a2s_enabled := a2s, en_a2s_ok := ok, en_reported := now\<rparr>"

definition first_entry :: "time \<Rightarrow> uuid \<Rightarrow> string \<Rightarrow> bool \<Rightarrow> bool \<Rightarrow> entry_row" where
  "first_entry now nodeID revision a2s ok = \<lparr>en_node = nodeID, en_revision = revision, en_steam_verified = False,
     en_steam_enabled = False, en_china_verified = False, en_china_enabled = False, en_a2s_enabled = a2s, en_a2s_ok = ok,
     en_steam_at = None, en_steam_by = None, en_china_at = None, en_china_by = None, en_reported = now\<rparr>"

definition upsert_entry :: "time \<Rightarrow> uuid \<Rightarrow> string \<Rightarrow> bool \<Rightarrow> bool \<Rightarrow> entry_row list \<Rightarrow> entry_row list" where
  "upsert_entry now nodeID revision a2s ok es =
     (if exists_where (\<lambda>e. en_node e = nodeID) es
      then upd_where (\<lambda>e. en_node e = nodeID) (report_entry now revision a2s ok) es
      else es @ [first_entry now nodeID revision a2s ok])"

definition diagnostic_check :: "diagnostic_row list \<Rightarrow> diagnostic_row \<Rightarrow> bool" where
  "diagnostic_check ds g \<longleftrightarrow> 1 \<le> dg_port g \<and> dg_port g \<le> 65535 \<and> dg_status g \<in> {''ok'', ''failed''}
     \<and> \<not> exists_where (\<lambda>x. dg_node x = dg_node g \<and> (dg_instance x = dg_instance g \<or> dg_port x = dg_port g)) ds"

fun insert_diagnostics ::
    "uuid \<Rightarrow> time \<Rightarrow> A2SDiagnostic list \<Rightarrow> diagnostic_row list \<Rightarrow> diagnostic_row list res" where
  "insert_diagnostics nodeID now [] ds = Inr ds"
| "insert_diagnostics nodeID now (x # xs) ds = (case parse_rfc3339 (ad_CheckedAt x) of
      None \<Rightarrow> Inl (Invalid ''invalid time'')
    | Some t \<Rightarrow>
        let g = \<lparr>dg_node = nodeID, dg_instance = ad_InstanceID x, dg_port = ad_LocalPort x, dg_status = ad_Status x,
                 dg_checked = t, dg_reported = now\<rparr> in
        rejectE (\<not> diagnostic_check ds g) (Constraint ''node_instance_a2s_diagnostics'')
          (insert_diagnostics nodeID now xs (ds @ [g])))"

section \<open>The heartbeat\<close>

definition heartbeat_report :: "uuid \<Rightarrow> Heartbeat \<Rightarrow> time \<Rightarrow> report_row" where
  "heartbeat_report nodeID h now = \<lparr>nr_node = nodeID, nr_hard_max = hb_HardMaxInstances h, nr_compatible = Compatible h,
     nr_capabilities = hb_Capabilities h, nr_inventory_scan = nullif (hb_InventoryScanID h) [],
     nr_inventory_confirmed = (hb_InventoryState h = ''confirmed''), nr_controller_version = hb_ControllerVersion h,
     nr_api_version = hb_NodeAPIVersion h, nr_core_version = hb_D2CoreVersion h, nr_core_commit = hb_D2CoreCommit h,
     nr_core_protocol = hb_D2CoreProtocolVersion h, nr_network = hb_Network h, nr_content = hb_Content h, nr_reported = now\<rparr>"

definition upsert_report :: "report_row \<Rightarrow> report_row list \<Rightarrow> report_row list" where
  "upsert_report r rs = (if exists_where (\<lambda>x. nr_node x = nr_node r) rs
     then upd_where (\<lambda>x. nr_node x = nr_node r) (\<lambda>_. r) rs else rs @ [r])"

text \<open>The writes to the facts, in the order of the transaction.\<close>

definition record_facts :: "uuid \<Rightarrow> Heartbeat \<Rightarrow> time \<Rightarrow> db \<Rightarrow> db" where
  "record_facts nodeID h now d =
     (let (seen, d) = record_contents nodeID now [] (hb_Content h) d;
          d = d\<lparr>content_bindings := forget_content now nodeID seen (content_bindings d),
                reports := upsert_report (heartbeat_report nodeID h now) (reports d)\<rparr>;
          (seen, d) = record_templates nodeID now [] (hb_TemplateFacts h) d
      in d\<lparr>template_facts := forget_templates now nodeID seen (template_facts d),
           entries := upsert_entry now nodeID (EntryConfigRevision (hb_Network h)) (nf_A2SEnabled (hb_Network h))
             (nf_A2SEnabled (hb_Network h) \<and> hb_A2SQueryOK h) (entries d)\<rparr>)"

record HeartbeatResult =
  hr_Compatible :: bool
  hr_ReportedAt :: time
  hr_Requested :: int
  hr_Completed :: int

definition RecordHeartbeat :: "uuid \<Rightarrow> Heartbeat \<Rightarrow> time \<Rightarrow> db \<Rightarrow> (HeartbeatResult \<times> db) res" where
  "RecordHeartbeat nodeID h now d =
     bindE (Heartbeat_Validate h) (\<lambda>_.
     let alive = (\<lambda>n. nd_id n = nodeID \<and> nd_os n = hb_OS h \<and> nd_enabled n) in
     rejectE (\<not> exists_where alive (nodes d)) NoRows (
     rejectE (\<not> int4 (hb_NodeAPIVersion h) \<or> \<not> int4 (hb_D2CoreProtocolVersion h) \<or> \<not> int4 (hb_HardMaxInstances h))
       (Constraint ''node_reports'') (
     let d = record_facts nodeID h now (d\<lparr>nodes := upd_where alive (nd_heartbeat_update (\<lambda>_. Some now)) (nodes d)\<rparr>) in
     bindE (insert_diagnostics nodeID now (hb_A2SDiagnostics h) (filter (\<lambda>g. dg_node g \<noteq> nodeID) (diagnostics d))) (\<lambda>ds.
     let r = find (\<lambda>r. rc_node r = nodeID) (reconciles d) in
     Inr (\<lparr>hr_Compatible = Compatible h, hr_ReportedAt = now, hr_Requested = (case r of None \<Rightarrow> 0 | Some r \<Rightarrow> rc_requested r),
           hr_Completed = (case r of None \<Rightarrow> 0 | Some r \<Rightarrow> rc_completed r)\<rparr>,
          d\<lparr>diagnostics := ds\<rparr>)))))"

definition CompleteNodeReconcile :: "uuid \<Rightarrow> int \<Rightarrow> time \<Rightarrow> db \<Rightarrow> db res" where
  "CompleteNodeReconcile nodeID generation now d =
     (let due = (\<lambda>r. rc_node r = nodeID \<and> rc_requested r = generation \<and> rc_completed r \<le> generation) in
      rejectE (generation \<le> 0) (ErrJobConflict []) (
      rejectE (\<not> exists_where due (reconciles d)) (ErrJobConflict [])
        (Inr (d\<lparr>reconciles := upd_where due (\<lambda>r. r\<lparr>rc_completed := generation, rc_completed_at := Some now\<rparr>) (reconciles d)\<rparr>))))"

definition NodeCompatible :: "uuid \<Rightarrow> db \<Rightarrow> bool" where
  "NodeCompatible nodeID d \<longleftrightarrow>
     some_and (\<lambda>r. exists_where (\<lambda>n. nd_id n = nodeID \<and> nd_enabled n) (nodes d) \<and> nr_compatible r) (report_of d nodeID)"

end
