(* ===== verification/NodeFacts.thy ===== *)
theory NodeFacts
  imports Nodes
begin

text \<open>
  What the heartbeat does to the facts of a node: the content and template tables are two instances of
  \<open>fact_table\<close>, and the other node operations leave the core of the database alone.
\<close>

section \<open>Node operations leave the core alone\<close>

lemma write_audit_core: "core (write_audit k ac t d) = core d"
  by (simp add: write_audit_def)

lemma operator_core:
  "SetNodeDrain n dr d = Inr d' \<Longrightarrow> core d' = core d"
  "SetNodePriority n p d = Inr d' \<Longrightarrow> core d' = core d"
  "RegisterNode name os i raw d = Inr (x, d') \<Longrightarrow> core d' = core d"
  "CompleteNodeReconcile n g now d = Inr d' \<Longrightarrow> core d' = core d"
  by (auto simp: SetNodeDrain_def SetNodePriority_def RegisterNode_def CompleteNodeReconcile_def Let_def
      write_audit_core bindE_Inr rejectE_Inr split: prod.splits)

section \<open>The content loop\<close>

definition content_reports :: "db \<Rightarrow> ContentFact \<Rightarrow> (uuid \<times> content_identity) list" where
  "content_reports d f = (case find (\<lambda>g. gm_workshop g = cf_WorkshopID f) (games d) of
      None \<Rightarrow> []
    | Some g \<Rightarrow> [(gm_id g, content_identity f
        (find (\<lambda>c. cv_game c = gm_id g \<and> cv_id c = cf_ContentVersionID f) (contents d)))])"

definition resolved :: "db \<Rightarrow> ContentFact list \<Rightarrow> (uuid \<times> content_identity) list" where
  "resolved d fs = concat (map (content_reports d) fs)"

lemma content_reports_same [simp]: "content_reports (d\<lparr>content_bindings := bs\<rparr>) = content_reports d"
  by (rule ext) (simp add: content_reports_def split: option.split)

lemma resolved_simps [simp]:
  "resolved d [] = []" "resolved d (f # fs) = content_reports d f @ resolved d fs"
  "resolved (d\<lparr>content_bindings := bs\<rparr>) fs = resolved d fs"
  by (simp_all add: resolved_def)

lemma record_contents_eq:
  "record_contents n now seen fs d = (seen @ map fst (resolved d fs),
     d\<lparr>content_bindings := fold (\<lambda>(g, i). upsert_content now n g i) (resolved d fs) (content_bindings d)\<rparr>)"
proof (induction fs arbitrary: seen d)
  case (Cons f fs)
  then show ?case by (simp add: content_reports_def split: option.split)
qed simp

lemma resolved_games:
  assumes "p \<in> set (resolved d fs)"
  shows "\<exists>f \<in> set fs. \<exists>g \<in> set (games d). gm_workshop g = cf_WorkshopID f \<and> gm_id g = fst p"
proof -
  obtain f where f: "f \<in> set fs" "p \<in> set (content_reports d f)" using assms by (auto simp: resolved_def)
  from f(2) obtain g where g: "find (\<lambda>g. gm_workshop g = cf_WorkshopID f) (games d) = Some g" "fst p = gm_id g"
    by (cases "find (\<lambda>g. gm_workshop g = cf_WorkshopID f) (games d)") (simp_all add: content_reports_def)
  then show ?thesis using f(1) find_SomeD [OF g(1)] by auto
qed

lemma resolved_distinct:
  assumes "distinct (map cf_WorkshopID fs)" "distinct (map gm_id (games d))"
  shows "distinct (map fst (resolved d fs))"
  using assms(1)
proof (induction fs)
  case (Cons f fs)
  show ?case
  proof (cases "find (\<lambda>g. gm_workshop g = cf_WorkshopID f) (games d)")
    case (Some g)
    have g: "g \<in> set (games d)" "gm_workshop g = cf_WorkshopID f" using find_SomeD [OF Some] by simp_all
    have "gm_id g \<notin> fst ` set (resolved d fs)"
    proof
      assume "gm_id g \<in> fst ` set (resolved d fs)"
      then obtain f' g' where f': "f' \<in> set fs" "g' \<in> set (games d)" "gm_workshop g' = cf_WorkshopID f'" "gm_id g' = gm_id g"
        using resolved_games by fastforce
      then have "g' = g" using assms(2) g(1) by (meson distinct_map inj_onD)
      then show False using f' g(2) Cons.prems by (metis distinct.simps(2) image_eqI list.simps(9) list.set_map)
    qed
    then show ?thesis using Cons Some by (simp add: content_reports_def)
  qed (use Cons in \<open>simp add: content_reports_def\<close>)
qed simp

section \<open>The template loop\<close>

definition template_reports :: "db \<Rightarrow> uuid \<Rightarrow> TemplateFact \<Rightarrow> (string \<times> template_identity) list" where
  "template_reports d n f = map (\<lambda>r. (r, template_identity f)) (bound_revisions d n (tfa_BindingKey f))"

definition template_resolved :: "db \<Rightarrow> uuid \<Rightarrow> TemplateFact list \<Rightarrow> (string \<times> template_identity) list" where
  "template_resolved d n fs = concat (map (template_reports d n) fs)"

lemma upsert_template_only: "upsert_template t n r i d = d\<lparr>template_facts := template_facts (upsert_template t n r i d)\<rparr>"
  by (simp add: upsert_template_def upsert_template_fact_def split: prod.split)

lemma upsert_template_rows:
  "template_facts (upsert_template t n r i d) =
     (if (n, r) \<in> (\<lambda>f. (tf_node f, tf_revision f)) ` set (template_facts d)
      then upd_where (\<lambda>f. (tf_node f, tf_revision f) = (n, r))
        (case i of (k, c, a, p) \<Rightarrow> report_fact k c a p t) (template_facts d)
      else template_facts d @ [case i of (k, c, a, p) \<Rightarrow> \<lparr>tf_node = n, tf_revision = r, tf_key = k, tf_algorithm = a,
        tf_confirmed = c, tf_fingerprint = p, tf_fact_revision = (if c then 1 else 0), tf_received = Some t\<rparr>])"
proof -
  have "template_fact_of d n r = None \<longleftrightarrow> (n, r) \<notin> (\<lambda>f. (tf_node f, tf_revision f)) ` set (template_facts d)"
    by (auto simp: template_fact_of_def find_None_iff image_iff)
  then show ?thesis by (auto simp: upsert_template_def upsert_template_fact_def split: prod.split)
qed

lemma record_revisions_eq:
  "record_revisions n now i rs d = fold (\<lambda>(r, i). upsert_template now n r i) (map (\<lambda>r. (r, i)) rs) d"
  by (induction rs arbitrary: d) simp_all

lemma template_resolved_same:
  "template_bindings d' = template_bindings d \<Longrightarrow> template_resolved d' n fs = template_resolved d n fs"
  by (simp add: template_resolved_def template_reports_def [abs_def] bound_revisions_def)

lemma fold_template_only:
  "fold (\<lambda>(r, i). upsert_template t n r i) ps d =
     d\<lparr>template_facts := template_facts (fold (\<lambda>(r, i). upsert_template t n r i) ps d)\<rparr>"
proof (induction ps arbitrary: d)
  case (Cons p ps)
  obtain r i where p: "p = (r, i)" by (cases p)
  let ?e = "upsert_template t n r i d"
  have "fold (\<lambda>(r, i). upsert_template t n r i) ps ?e = ?e\<lparr>template_facts := template_facts (fold (\<lambda>(r, i). upsert_template t n r i) ps ?e)\<rparr>"
    by (rule Cons.IH)
  also have "\<dots> = d\<lparr>template_facts := template_facts (fold (\<lambda>(r, i). upsert_template t n r i) ps ?e)\<rparr>"
    by (subst upsert_template_only) simp
  finally show ?case by (simp add: p)
qed simp

lemma record_templates_eq:
  "record_templates n now seen fs d = (seen @ map fst (template_resolved d n fs),
     fold (\<lambda>(r, i). upsert_template now n r i) (template_resolved d n fs) d)"
proof (induction fs arbitrary: seen d)
  case (Cons f fs)
  let ?e = "record_revisions n now (template_identity f) (bound_revisions d n (tfa_BindingKey f)) d"
  have "template_bindings ?e = template_bindings d"
    unfolding record_revisions_eq by (subst fold_template_only) simp
  then have "template_resolved ?e n fs = template_resolved d n fs" by (rule template_resolved_same)
  then show ?case using Cons.IH [of "seen @ bound_revisions d n (tfa_BindingKey f)" ?e]
    by (simp add: Let_def record_revisions_eq template_resolved_def template_reports_def comp_def)
qed (simp add: template_resolved_def)

lemma template_resolved_distinct:
  assumes "distinct (map tfa_BindingKey fs)" "distinct (map (\<lambda>b. (tb_node b, tb_revision b)) (template_bindings d))"
  shows "distinct (map fst (template_resolved d n fs))"
proof -
  have same: "b = c" if "b \<in> set (template_bindings d)" "c \<in> set (template_bindings d)" "tb_node b = tb_node c" "tb_revision b = tb_revision c" for b c
    using assms(2) that by (auto simp: distinct_map inj_on_def)
  have one: "distinct (bound_revisions d n k)" for k
  proof -
    have "distinct (filter (\<lambda>b. tb_node b = n \<and> tb_key b = k) (template_bindings d))"
      using assms(2) by (simp add: distinct_map)
    then show ?thesis unfolding bound_revisions_def distinct_map by (auto simp: inj_on_def intro: same)
  qed
  show ?thesis
    using assms(1)
  proof (induction fs)
    case (Cons f fs)
    have "r \<notin> fst ` set (template_resolved d n fs)" if r: "r \<in> set (bound_revisions d n (tfa_BindingKey f))" for r
    proof
      assume "r \<in> fst ` set (template_resolved d n fs)"
      then obtain f' where f': "f' \<in> set fs" "r \<in> set (bound_revisions d n (tfa_BindingKey f'))"
        by (auto simp: template_resolved_def template_reports_def)
      then have "tfa_BindingKey f' = tfa_BindingKey f" using r by (auto simp: bound_revisions_def dest: same)
      then show False using f'(1) Cons.prems by (metis distinct.simps(2) image_eqI list.simps(9) list.set_map)
    qed
    then have "set (bound_revisions d n (tfa_BindingKey f)) \<inter> fst ` set (template_resolved d n fs) = {}" by blast
    then show ?case using Cons one by (simp add: template_resolved_def template_reports_def comp_def)
  qed (simp add: template_resolved_def)
qed

section \<open>Two tables of facts\<close>

interpretation content_table: fact_table
  "\<lambda>b. (cb_node b, cb_game b)" reported_content cb_fact_revision "\<lambda>b. (cb_accepting b, cb_epoch b)"
  report_content "\<lambda>t k. first_content t (fst k) (snd k)" "\<lambda>t k. upsert_content t (fst k) (snd k)"
  "\<lambda>t s ks. forget_content t s (map snd ks)" "\<lambda>s k. fst k = s" unknown_content
proof unfold_locales
  fix t s and ks :: "(uuid \<times> uuid) list" and rs assume "\<forall>k \<in> set ks. fst k = s"
  then have "g \<in> snd ` set ks \<longleftrightarrow> (s, g) \<in> set ks" for g by force
  then have "(\<lambda>b. cb_node b = s \<and> cb_game b \<notin> snd ` set ks) = (\<lambda>b. cb_node b = s \<and> (cb_node b, cb_game b) \<notin> set ks)"
    by auto
  then show "forget_content t s (map snd ks) rs = upd_where
      (\<lambda>b. fst (cb_node b, cb_game b) = s \<and> (cb_node b, cb_game b) \<notin> set ks) (report_content t unknown_content) rs"
    unfolding forget_content_def fst_conv set_map by (rule arg_cong)
qed (auto simp: report_content_def reported_content_def first_content_def upsert_content_def exists_where_def list_ex_iff)

definition reported_template :: "template_fact_row \<Rightarrow> template_identity" where
  "reported_template f = (tf_key f, tf_confirmed f, tf_algorithm f, tf_fingerprint f)"

definition report_template :: "time \<Rightarrow> template_identity \<Rightarrow> template_fact_row \<Rightarrow> template_fact_row" where
  "report_template t i = (case i of (k, c, a, p) \<Rightarrow> report_fact k c a p t)"

interpretation template_table: fact_table
  "\<lambda>f. (tf_node f, tf_revision f)" reported_template tf_fact_revision "\<lambda>f. ()" report_template
  "\<lambda>t k i. (case i of (e, c, a, p) \<Rightarrow> \<lparr>tf_node = fst k, tf_revision = snd k, tf_key = e, tf_algorithm = a,
     tf_confirmed = c, tf_fingerprint = p, tf_fact_revision = (if c then 1 else 0), tf_received = Some t\<rparr>)"
  "\<lambda>t k i rs. template_facts (upsert_template t (fst k) (snd k) i (d\<lparr>template_facts := rs\<rparr>))"
  "\<lambda>t s ks. forget_templates t s (map snd ks)" "\<lambda>s k. fst k = s" unknown_template
  for d :: db
proof unfold_locales
  fix t s and ks :: "(uuid \<times> string) list" and rs assume "\<forall>k \<in> set ks. fst k = s"
  then have "g \<in> snd ` set ks \<longleftrightarrow> (s, g) \<in> set ks" for g by force
  then have "(\<lambda>b. tf_node b = s \<and> tf_revision b \<notin> snd ` set ks) = (\<lambda>b. tf_node b = s \<and> (tf_node b, tf_revision b) \<notin> set ks)"
    by auto
  then show "forget_templates t s (map snd ks) rs = upd_where
      (\<lambda>b. fst (tf_node b, tf_revision b) = s \<and> (tf_node b, tf_revision b) \<notin> set ks) (report_template t unknown_template) rs"
    unfolding forget_templates_def report_template_def unknown_template_def fst_conv set_map prod.case by (rule arg_cong)
qed (auto simp: report_template_def reported_template_def report_fact_def upsert_template_rows split: prod.splits)

section \<open>A committed heartbeat\<close>

definition keyed :: "'n \<Rightarrow> ('k \<times> 'i) list \<Rightarrow> (('n \<times> 'k) \<times> 'i) list" where
  "keyed n ps = map (\<lambda>(k, i). ((n, k), i)) ps"

lemma keyed_keys: "map fst (keyed n ps) = map (Pair n) (map fst ps)" "map snd (map fst (keyed n ps)) = map fst ps"
  by (simp_all add: keyed_def comp_def split_def)

lemma keyed_distinct: "distinct (map fst ps) \<Longrightarrow> distinct (map fst (keyed n ps))"
  by (simp only: keyed_keys distinct_map) (simp add: inj_on_def)

lemma keyed_scope: "\<forall>k \<in> fst ` set (keyed n ps). fst k = n"
  by (auto simp: keyed_def)

lemma told_keyed: "told u (keyed n ps) (n, k) = told u ps k"
proof -
  have "map_of (keyed n ps) (n, k) = map_of ps k" by (induction ps) (auto simp: keyed_def)
  then show ?thesis by (simp add: told_def)
qed

lemma fold_keyed: "fold (\<lambda>(k, i). f (fst k) (snd k) i) (keyed n ps) x = fold (\<lambda>(k, i). f n k i) ps x"
  by (induction ps arbitrary: x) (auto simp: keyed_def)

lemma resolved_same: "games d' = games d \<Longrightarrow> contents d' = contents d \<Longrightarrow> resolved d' fs = resolved d fs"
  unfolding resolved_def by (intro arg_cong [where f = concat] map_cong refl) (simp add: content_reports_def split: option.split)

lemma fold_template_rows:
  "template_facts (fold (\<lambda>(r, i). upsert_template t n r i) ps d) =
     fold (\<lambda>(k, i) rs. template_facts (upsert_template t (fst k) (snd k) i (e\<lparr>template_facts := rs\<rparr>)))
       (keyed n ps) (template_facts d)"
proof (induction ps arbitrary: d)
  case (Cons p ps)
  obtain r i where p: "p = (r, i)" by (cases p)
  have "template_facts (upsert_template t n r i d) = template_facts (upsert_template t n r i (e\<lparr>template_facts := template_facts d\<rparr>))"
    unfolding upsert_template_rows by simp
  then show ?case using Cons.IH [of "upsert_template t n r i d"] by (simp add: p keyed_def)
qed (simp add: keyed_def)

definition after_contents :: "uuid \<Rightarrow> Heartbeat \<Rightarrow> time \<Rightarrow> db \<Rightarrow> content_binding_row list" where
  "after_contents n h now d = forget_content now n (map fst (resolved d (hb_Content h)))
     (fold (\<lambda>(g, i). upsert_content now n g i) (resolved d (hb_Content h)) (content_bindings d))"

definition after_templates :: "uuid \<Rightarrow> Heartbeat \<Rightarrow> time \<Rightarrow> db \<Rightarrow> template_fact_row list" where
  "after_templates n h now d = forget_templates now n (map fst (template_resolved d n (hb_TemplateFacts h)))
     (template_facts (fold (\<lambda>(r, i). upsert_template now n r i) (template_resolved d n (hb_TemplateFacts h)) d))"

definition after_entries :: "uuid \<Rightarrow> Heartbeat \<Rightarrow> time \<Rightarrow> entry_row list \<Rightarrow> entry_row list" where
  "after_entries n h now = upsert_entry now n (EntryConfigRevision (hb_Network h)) (nf_A2SEnabled (hb_Network h))
     (nf_A2SEnabled (hb_Network h) \<and> hb_A2SQueryOK h)"

lemma record_facts_eq:
  "record_facts n h now d = d\<lparr>content_bindings := after_contents n h now d,
     reports := upsert_report (heartbeat_report n h now) (reports d),
     template_facts := after_templates n h now d, entries := after_entries n h now (entries d)\<rparr>"
proof -
  let ?d = "d\<lparr>content_bindings := after_contents n h now d, reports := upsert_report (heartbeat_report n h now) (reports d)\<rparr>"
  have c: "record_contents n now [] (hb_Content h) d = (map fst (resolved d (hb_Content h)),
      d\<lparr>content_bindings := fold (\<lambda>(g, i). upsert_content now n g i) (resolved d (hb_Content h)) (content_bindings d)\<rparr>)"
    by (simp add: record_contents_eq)
  have ps: "template_resolved ?d n (hb_TemplateFacts h) = template_resolved d n (hb_TemplateFacts h)"
    by (rule template_resolved_same) simp
  have rows: "template_facts (fold (\<lambda>(r, i). upsert_template now n r i) qs ?d)
      = template_facts (fold (\<lambda>(r, i). upsert_template now n r i) qs d)" for qs
    unfolding fold_template_rows [where e = d] by simp
  have t: "record_templates n now [] (hb_TemplateFacts h) ?d = (map fst (template_resolved d n (hb_TemplateFacts h)),
      ?d\<lparr>template_facts := template_facts (fold (\<lambda>(r, i). upsert_template now n r i) (template_resolved d n (hb_TemplateFacts h)) d)\<rparr>)"
    unfolding record_templates_eq ps by (subst fold_template_only) (simp add: rows)
  show ?thesis
    using t by (simp add: record_facts_def c after_contents_def after_templates_def after_entries_def Let_def)
qed

lemma heartbeat_cases:
  assumes "RecordHeartbeat n h now d = Inr (res, d')"
  shows "Heartbeat_Validate h = Inr () \<and> (\<exists>ns ds. d' = d\<lparr>nodes := ns, content_bindings := after_contents n h now d,
     reports := upsert_report (heartbeat_report n h now) (reports d), template_facts := after_templates n h now d,
     entries := after_entries n h now (entries d), diagnostics := ds\<rparr>)"
proof -
  have same: "after_contents n h now (d\<lparr>nodes := ns\<rparr>) = after_contents n h now d"
    "after_templates n h now (d\<lparr>nodes := ns\<rparr>) = after_templates n h now d" for ns
  proof -
    have "resolved (d\<lparr>nodes := ns\<rparr>) fs = resolved d fs" for fs by (rule resolved_same) simp_all
    then show "after_contents n h now (d\<lparr>nodes := ns\<rparr>) = after_contents n h now d" by (simp add: after_contents_def)
    have "template_resolved (d\<lparr>nodes := ns\<rparr>) n fs = template_resolved d n fs" for fs by (rule template_resolved_same) simp
    then show "after_templates n h now (d\<lparr>nodes := ns\<rparr>) = after_templates n h now d"
      by (simp add: after_templates_def fold_template_rows [where e = d])
  qed
  from assms show ?thesis
    by (auto simp: RecordHeartbeat_def Let_def bindE_Inr rejectE_Inr record_facts_eq same)
qed

lemma heartbeat_core: "RecordHeartbeat n h now d = Inr (res, d') \<Longrightarrow> core d' = core d"
  using heartbeat_cases [of n h now d res d'] by auto

lemma heartbeat_distinct:
  assumes "Heartbeat_Validate h = Inr ()"
  shows "distinct (map cf_WorkshopID (hb_Content h))" "distinct (map tfa_BindingKey (hb_TemplateFacts h))"
proof -
  have "content_loop [] (hb_Content h) = Inr ()" "templates_loop [] (hb_TemplateFacts h) = Inr ()"
    using assms by (auto simp: Heartbeat_Validate_def bindE_Inr rejectE_Inr)
  then show "distinct (map cf_WorkshopID (hb_Content h))" "distinct (map tfa_BindingKey (hb_TemplateFacts h))"
    by (simp_all add: content.loop_start_iff tmpl.loop_start_iff)
qed

text \<open>The two tables after a heartbeat, as instances of \<open>fact_table\<close>.\<close>

lemma after_contents_keyed:
  "after_contents n h now d = forget_content now n (map snd (map fst (keyed n (resolved d (hb_Content h)))))
     (fold (\<lambda>(k, i). upsert_content now (fst k) (snd k) i) (keyed n (resolved d (hb_Content h))) (content_bindings d))"
  by (simp only: after_contents_def keyed_keys(2) fold_keyed)

lemma after_templates_keyed:
  "after_templates n h now d = forget_templates now n (map snd (map fst (keyed n (template_resolved d n (hb_TemplateFacts h)))))
     (fold (\<lambda>(k, i) rs. template_facts (upsert_template now (fst k) (snd k) i (e\<lparr>template_facts := rs\<rparr>)))
       (keyed n (template_resolved d n (hb_TemplateFacts h))) (template_facts d))"
  by (simp only: after_templates_def keyed_keys(2) fold_template_rows [where e = e])

end
