(* ===== verification/NodeGuarantees.thy ===== *)
theory NodeGuarantees
  imports Trace NodeFacts
begin

text \<open>
  Guarantees of the node and administrator operations: agreement of requests and attempts, termination
  of a pending attempt, and what a heartbeat does to the facts and the entries of its node.
\<close>

section \<open>Requests and attempts\<close>

text \<open>
  C21: In every reachable state the attempt of a request belongs to an existing request whose state
  agrees with the state of the attempt: a running attempt has a running request, a quarantined one a
  quarantined or abandoned request, and a request that waits or is settled has only terminal attempts.
\<close>

theorem requests_and_attempts_agree:
  assumes "reachable d" "a \<in> set (allocs d)" "al_request a = Some q"
  shows "\<exists>r \<in> set (requests d). rq_id r = q \<and> agree (rq_state r) (al_state a)"
  using linkedD [OF reachable_linked [OF assms(1)] assms(2,3)] by auto

lemma requests_and_attempts_agree_witness:
  "\<exists>r \<in> set (requests claimed_db). rq_id r = 20 \<and> agree (rq_state r) AReserved"
  using requests_and_attempts_agree [OF reachable_claimed, of sample_alloc 20]
  by (simp add: claimed_db_def reserved_db_def sample_alloc_def new_alloc_def)

section \<open>Ending an attempt before its job was handed out\<close>

lemma terminate_action:
  assumes "ApplyAdminAction adminID a newID now d = Inr d'" "act_Action a = ''allocation.terminate_pending''"
  obtains i e t where "act_TargetID a = Some i" "terminate_pending i now d = Inr e"
    "auditAdmin adminID (act_Action a) t e = Inr d'"
  using assms by (auto simp: ApplyAdminAction_def admin_ops_def rejectE_Inr bindE_Inr named_Inr)

text \<open>
  The administrator ends a pending attempt only while it is reserved and its create job is pending,
  was never claimed and has neither instance, operation, frozen create nor report; otherwise the action
  is refused or, repeated on a terminated attempt, leaves attempts and jobs as they are.
\<close>

theorem terminate_only_untouched:
  assumes "ApplyAdminAction adminID act newID now d = Inr d'" "act_Action act = ''allocation.terminate_pending''"
    and "allocs d' \<noteq> allocs d \<or> jobs d' \<noteq> jobs d"
  shows "\<exists>a \<in> set (allocs d). \<exists>j \<in> set (jobs d). act_TargetID act = Some (al_id a) \<and> al_state a = AReserved
    \<and> jb_alloc j = Some (al_id a) \<and> jb_kind j = KCreate \<and> jb_state j = JPending \<and> jb_claimed j = None
    \<and> jb_instance j = None \<and> jb_operation j = None \<and> (\<forall>e \<in> set (executions d). ex_job e \<noteq> jb_id j)
    \<and> (\<forall>r \<in> set (job_reports d). jr_job r \<noteq> jb_id j)"
proof -
  obtain i e t where i: "act_TargetID act = Some i" "terminate_pending i now d = Inr e"
    and au: "auditAdmin adminID (act_Action act) t e = Inr d'"
    using terminate_action [OF assms(1,2)] .
  have "allocs d' = allocs e" "jobs d' = jobs e" using au by (auto simp: auditAdmin_def rejectE_Inr)
  with assms(3) have "e \<noteq> d" by auto
  with terminate_cases [OF i(2)] obtain a j where
    "a \<in> set (allocs d)" "al_id a = i" "al_state a = AReserved" "j \<in> set (jobs d)" "jb_alloc j = Some i"
    "jb_kind j = KCreate" "jb_state j = JPending" "untouched d j" by blast
  then show ?thesis using i(1) by (auto simp: untouched_def exists_where_def list_ex_iff)
qed

definition blank_action :: AdminAction where
  "blank_action = \<lparr>act_Action = [], act_TargetID = None, act_GameID = None, act_Accepting = None, act_Enabled = None,
     act_Draining = None, act_Priority = None, act_Desired = None, act_Message = None, act_Entry = [],
     act_EntryRevision = [], act_Verified = None, act_Confirmed = False, act_WorkshopID = [], act_DisplayName = [],
     act_ContentVersionID = [], act_ContentSHA256 = [], act_TemplateRevisionID = [], act_BindingKey = [],
     act_Fingerprint = [], act_Generation = None, act_Description = [], act_MaxPlayers = 0\<rparr>"

definition terminate_30 :: AdminAction where
  "terminate_30 = blank_action\<lparr>act_Action := ''allocation.terminate_pending'', act_TargetID := Some 30\<rparr>"

definition managed_db :: db where
  "managed_db = reserved_db\<lparr>admins := [\<lparr>ad_id = 9, ad_enabled = True, ad_username = ''root'', ad_password = [], ad_version = 1\<rparr>]\<rparr>"

definition terminated_db :: db where
  "terminated_db = managed_db\<lparr>
     allocs := [sample_alloc\<lparr>al_state := AReleasedNoEffect, al_error := Some ''PENDING_TERMINATED''\<rparr>],
     jobs := [sample_job\<lparr>jb_state := JRejectedNoEffect, jb_error := Some ''PENDING_TERMINATED'', jb_stage := Some ''dispatch''\<rparr>],
     job_reports := [\<lparr>jr_job = 40, jr_state = JRejectedNoEffect, jr_instance = None, jr_operation = None,
       jr_error = Some ''PENDING_TERMINATED'', jr_stage = Some ''dispatch''\<rparr>],
     requests := [sample_request\<lparr>rq_state := RUnavailable, rq_updated := 2000\<rparr>],
     audit := [(''admin'', ''allocation.terminate_pending'', [30])]\<rparr>"

lemma trace_terminate: "ApplyAdminAction 9 terminate_30 0 2000 managed_db = Inr terminated_db"
  by code_simp

lemma terminate_only_untouched_witness:
  "\<exists>a \<in> set (allocs managed_db). al_id a = 30 \<and> al_state a = AReserved"
proof -
  have "jobs terminated_db \<noteq> jobs managed_db" by code_simp
  then show ?thesis using terminate_only_untouched [OF trace_terminate]
    by (auto simp: terminate_30_def)
qed

section \<open>The facts of a node\<close>

text \<open>
  C22: A heartbeat gives every content binding of its node the identity that it reports for the game, or
  the unknown identity when it reports none, and advances the revision of the fact by one exactly when
  the identity changes; the administrator's switch and the maintenance epoch are kept.
\<close>

theorem heartbeat_counts_changes:
  assumes "RecordHeartbeat n h now d = Inr (res, d')" "distinct (map gm_id (games d))"
    and "b \<in> set (content_bindings d)" "cb_node b = n"
  shows "\<exists>b' \<in> set (content_bindings d'). cb_node b' = n \<and> cb_game b' = cb_game b
    \<and> cb_accepting b' = cb_accepting b \<and> cb_epoch b' = cb_epoch b
    \<and> reported_content b' = told unknown_content (resolved d (hb_Content h)) (cb_game b)
    \<and> cb_fact_revision b' = cb_fact_revision b + (if reported_content b' = reported_content b then 0 else 1)"
proof -
  have h: "Heartbeat_Validate h = Inr ()" "content_bindings d' = after_contents n h now d"
    using heartbeat_cases [OF assms(1)] by auto
  have "distinct (map fst (keyed n (resolved d (hb_Content h))))"
    by (rule keyed_distinct [OF resolved_distinct [OF heartbeat_distinct(1) [OF h(1)] assms(2)]])
  from content_table.reported_row [OF this keyed_scope assms(3), of now] assms(4) show ?thesis
    unfolding h(2) after_contents_keyed by (auto simp: told_keyed)
qed

definition sample_heartbeat :: Heartbeat where
  "sample_heartbeat = \<lparr>hb_OS = ''linux'', hb_ControllerVersion = ''c'', hb_NodeAPIVersion = 1, hb_D2CoreVersion = ''0.1.2'',
     hb_D2CoreCommit = ''6dddb5892f962e70beb32fc30df4a78bce595528'', hb_D2CoreProtocolVersion = 1, hb_HardMaxInstances = 2,
     hb_Network = sample_network, hb_A2SQueryOK = False, hb_A2SDiagnostics = [],
     hb_Content = [\<lparr>cf_WorkshopID = ''123'', cf_ContentVersionID = ''v2'', cf_VPKSHA256 = [], cf_State = FConfirmed\<rparr>],
     hb_Capabilities = [], hb_InventoryScanID = [], hb_InventoryState = [], hb_TemplateFacts = []\<rparr>"

lemma sample_heartbeat_ok: "Heartbeat_Validate sample_heartbeat = Inr ()"
  by code_simp

lemma heartbeat_runs:
  assumes "Heartbeat_Validate h = Inr ()" "hb_A2SDiagnostics h = []"
    and "int4 (hb_NodeAPIVersion h) \<and> int4 (hb_D2CoreProtocolVersion h) \<and> int4 (hb_HardMaxInstances h)"
    and "exists_where (\<lambda>x. nd_id x = n \<and> nd_os x = hb_OS h \<and> nd_enabled x) (nodes d)"
  shows "\<exists>res d'. RecordHeartbeat n h now d = Inr (res, d')"
  using assms by (auto simp: RecordHeartbeat_def Let_def rejectE_def)

lemma sample_beats: "\<exists>res d'. RecordHeartbeat 5 sample_heartbeat 2000 sample_db = Inr (res, d')"
  by (rule heartbeat_runs [OF sample_heartbeat_ok])
    (simp_all add: sample_heartbeat_def int4_def exists_where_def sample_db_def sample_node_def)

lemma heartbeat_counts_changes_witness:
  "\<exists>res d'. RecordHeartbeat 5 sample_heartbeat 2000 sample_db = Inr (res, d')
    \<and> (\<exists>b \<in> set (content_bindings d'). reported_content b = unknown_content \<and> cb_fact_revision b = 2)"
proof -
  obtain res d' where r: "RecordHeartbeat 5 sample_heartbeat 2000 sample_db = Inr (res, d')" using sample_beats by blast
  let ?b = "hd (content_bindings sample_db)"
  have b: "?b \<in> set (content_bindings sample_db)" "cb_node ?b = 5" "distinct (map gm_id (games sample_db))"
    by (simp_all add: sample_db_def)
  have t: "told unknown_content (resolved sample_db (hb_Content sample_heartbeat)) (cb_game ?b) = unknown_content"
    "reported_content ?b \<noteq> unknown_content" "cb_fact_revision ?b = 1"
    by code_simp+
  show ?thesis using heartbeat_counts_changes [OF r b(3,1,2)] r t by auto
qed

text \<open>A row of a table without its time stamp.\<close>

definition timeless_content :: "content_binding_row \<Rightarrow> content_binding_row" where
  "timeless_content b = b\<lparr>cb_reported_at := None\<rparr>"

definition timeless_template :: "template_fact_row \<Rightarrow> template_fact_row" where
  "timeless_template f = f\<lparr>tf_received := None\<rparr>"

definition timeless_entry :: "entry_row \<Rightarrow> entry_row" where
  "timeless_entry e = e\<lparr>en_reported := 0\<rparr>"

lemma timeless_content_map:
  assumes "map (\<lambda>b. ((cb_node b, cb_game b), reported_content b, cb_fact_revision b, cb_accepting b, cb_epoch b)) bs
    = map (\<lambda>b. ((cb_node b, cb_game b), reported_content b, cb_fact_revision b, cb_accepting b, cb_epoch b)) cs"
  shows "map timeless_content bs = map timeless_content cs"
proof -
  let ?t = "\<lambda>b. ((cb_node b, cb_game b), reported_content b, cb_fact_revision b, cb_accepting b, cb_epoch b)"
  let ?g = "\<lambda>((n, g), (v, c, s), k, a, e). \<lparr>cb_node = n, cb_game = g, cb_version = v, cb_confirmed = c, cb_sha256 = s,
     cb_reported_at = None, cb_accepting = a, cb_epoch = e, cb_fact_revision = k\<rparr>"
  have "timeless_content b = ?g (?t b)" for b by (simp add: timeless_content_def reported_content_def)
  then have "map timeless_content xs = map ?g (map ?t xs)" for xs by simp
  then show ?thesis by (simp only: assms)
qed

lemma timeless_template_map:
  assumes "map (\<lambda>f. ((tf_node f, tf_revision f), reported_template f, tf_fact_revision f, ())) fs
    = map (\<lambda>f. ((tf_node f, tf_revision f), reported_template f, tf_fact_revision f, ())) gs"
  shows "map timeless_template fs = map timeless_template gs"
proof -
  let ?t = "\<lambda>f. ((tf_node f, tf_revision f), reported_template f, tf_fact_revision f, ())"
  let ?g = "\<lambda>((n, r), (e, c, a, p), k, _). \<lparr>tf_node = n, tf_revision = r, tf_key = e, tf_algorithm = a, tf_confirmed = c,
     tf_fingerprint = p, tf_fact_revision = k, tf_received = None\<rparr>"
  have "timeless_template f = ?g (?t f)" for f by (simp add: timeless_template_def reported_template_def)
  then have "map timeless_template xs = map ?g (map ?t xs)" for xs by simp
  then show ?thesis by (simp only: assms)
qed

lemma report_entry_node: "en_node (report_entry t rv a o' e) = en_node e"
  by (simp add: report_entry_def unattested_def)

lemma upsert_entry_has: "n \<in> en_node ` set (upsert_entry t n rv a2s ok es)"
  using image_upd_where [of "\<lambda>e. en_node e = n" en_node "report_entry t rv a2s ok" es]
  by (auto simp: upsert_entry_def report_entry_node first_entry_def)

lemma report_entry_set:
  "en_revision (report_entry t rv a2s ok e) = rv \<and> en_a2s_enabled (report_entry t rv a2s ok e) = a2s
    \<and> en_a2s_ok (report_entry t rv a2s ok e) = ok"
  by (simp add: report_entry_def)

lemma upsert_entry_revision:
  assumes "e \<in> set (upsert_entry t n rv a2s ok es)" "en_node e = n"
  shows "en_revision e = rv \<and> en_a2s_enabled e = a2s \<and> en_a2s_ok e = ok"
proof (cases "exists_where (\<lambda>e. en_node e = n) es")
  case True
  with assms(1) have "e \<in> set (upd_where (\<lambda>e. en_node e = n) (report_entry t rv a2s ok) es)" by (simp only: upsert_entry_def if_True)
  then show ?thesis
  proof (cases rule: in_upd_whereE)
    case (1 r)
    then show ?thesis using report_entry_set by simp
  qed (use assms(2) in simp)
next
  case False
  with assms(1) have "e \<in> set es \<or> e = first_entry t n rv a2s ok" by (simp only: upsert_entry_def if_False) auto
  moreover have "e \<notin> set es" using False assms(2) by auto
  ultimately show ?thesis by (simp add: first_entry_def)
qed

lemma map_upd_where_set:
  "(\<And>r. r \<in> set rs \<Longrightarrow> P r \<Longrightarrow> k (f r) = k r) \<Longrightarrow> map k (upd_where P f rs) = map k rs"
  by (induction rs) auto

lemma upsert_entry_again:
  "map timeless_entry (upsert_entry u n rv a2s ok (upsert_entry t n rv a2s ok es))
    = map timeless_entry (upsert_entry t n rv a2s ok es)"
proof -
  define fs where "fs = upsert_entry t n rv a2s ok es"
  have has: "exists_where (\<lambda>e. en_node e = n) fs" using upsert_entry_has [of n t rv a2s ok es] unfolding fs_def by auto
  have same: "timeless_entry (report_entry u rv a2s ok e) = timeless_entry e" if "e \<in> set fs" "en_node e = n" for e
    using upsert_entry_revision [of e t n rv a2s ok es] that unfolding fs_def [symmetric]
    by (simp add: report_entry_def timeless_entry_def)
  have again: "upsert_entry u n rv a2s ok fs = upd_where (\<lambda>e. en_node e = n) (report_entry u rv a2s ok) fs"
    using has by (simp only: upsert_entry_def if_True)
  show ?thesis unfolding fs_def [symmetric] again by (rule map_upd_where_set) (rule same)
qed

text \<open>
  A node that repeats its heartbeat changes nothing but time stamps: every content fact, template
  fact and entry keeps its identity, its revision and its attestation.
\<close>

theorem repeated_heartbeat_settles:
  assumes "RecordHeartbeat n h now d = Inr (res, d1)" "RecordHeartbeat n h later d1 = Inr (res', d2)"
    and "distinct (map gm_id (games d))" "distinct (map (\<lambda>b. (tb_node b, tb_revision b)) (template_bindings d))"
  shows "map timeless_content (content_bindings d2) = map timeless_content (content_bindings d1)
    \<and> map timeless_template (template_facts d2) = map timeless_template (template_facts d1)
    \<and> map timeless_entry (entries d2) = map timeless_entry (entries d1)"
proof -
  have v: "Heartbeat_Validate h = Inr ()" using heartbeat_cases [OF assms(1)] by blast
  have d1: "content_bindings d1 = after_contents n h now d" "template_facts d1 = after_templates n h now d"
    "entries d1 = after_entries n h now (entries d)" "games d1 = games d" "contents d1 = contents d"
    "template_bindings d1 = template_bindings d"
    using heartbeat_cases [OF assms(1)] by auto
  have d2: "content_bindings d2 = after_contents n h later d1" "template_facts d2 = after_templates n h later d1"
    "entries d2 = after_entries n h later (entries d1)"
    using heartbeat_cases [OF assms(2)] by auto
  have cs: "resolved d1 fs = resolved d fs" for fs by (rule resolved_same) (simp_all add: d1)
  have ts: "template_resolved d1 n fs = template_resolved d n fs" for fs by (rule template_resolved_same) (simp add: d1)
  have cd: "distinct (map fst (keyed n (resolved d (hb_Content h))))"
    by (rule keyed_distinct [OF resolved_distinct [OF heartbeat_distinct(1) [OF v] assms(3)]])
  have td: "distinct (map fst (keyed n (template_resolved d n (hb_TemplateFacts h))))"
    by (rule keyed_distinct [OF template_resolved_distinct [OF heartbeat_distinct(2) [OF v] assms(4)]])
  have "map timeless_content (content_bindings d2) = map timeless_content (content_bindings d1)"
    unfolding d2 after_contents_keyed [of n h later] cs unfolding d1 after_contents_keyed
    by (rule timeless_content_map [OF content_table.repeated [OF cd keyed_scope]])
  moreover have "map timeless_template (template_facts d2) = map timeless_template (template_facts d1)"
    unfolding d2 after_templates_keyed [of n h later _ d] ts unfolding d1 after_templates_keyed [of n h now d d]
    by (rule timeless_template_map [OF template_table.repeated [OF td keyed_scope]])
  moreover have "map timeless_entry (entries d2) = map timeless_entry (entries d1)"
    by (simp add: d1 d2 after_entries_def upsert_entry_again)
  ultimately show ?thesis by blast
qed

lemma repeated_heartbeat_settles_witness:
  "\<exists>res d1 res' d2. RecordHeartbeat 5 sample_heartbeat 2000 sample_db = Inr (res, d1)
    \<and> RecordHeartbeat 5 sample_heartbeat 3000 d1 = Inr (res', d2)
    \<and> map timeless_content (content_bindings d2) = map timeless_content (content_bindings d1)"
proof -
  obtain res d1 where r: "RecordHeartbeat 5 sample_heartbeat 2000 sample_db = Inr (res, d1)" using sample_beats by blast
  have n: "nodes d1 = [sample_node\<lparr>nd_heartbeat := Some 2000\<rparr>]"
    using r by (auto simp: RecordHeartbeat_def Let_def bindE_Inr rejectE_Inr record_facts_eq sample_db_def sample_node_def
        sample_heartbeat_def)
  have "\<exists>res' d2. RecordHeartbeat 5 sample_heartbeat 3000 d1 = Inr (res', d2)"
    by (rule heartbeat_runs [OF sample_heartbeat_ok])
      (simp_all add: sample_heartbeat_def int4_def exists_where_def n sample_node_def)
  moreover have "distinct (map gm_id (games sample_db))"
    "distinct (map (\<lambda>b. (tb_node b, tb_revision b)) (template_bindings sample_db))" by (simp_all add: sample_db_def)
  ultimately show ?thesis using repeated_heartbeat_settles [OF r] r by blast
qed

section \<open>Attestation of entries\<close>

text \<open>
  C23: An entry that is shown as verified, or enabled for players, after a heartbeat was so before it and
  for exactly the entry configuration that the node now reports; another configuration drops the
  attestation and disables the entry.
\<close>

theorem attestation_bound_to_configuration:
  assumes "RecordHeartbeat n h now d = Inr (res, d')" "e' \<in> set (entries d')" "en_node e' = n"
    and "en_steam_verified e' \<or> en_steam_enabled e' \<or> en_china_verified e' \<or> en_china_enabled e'"
  shows "en_revision e' = EntryConfigRevision (hb_Network h) \<and>
    (\<exists>e \<in> set (entries d). en_node e = n \<and> en_revision e = EntryConfigRevision (hb_Network h)
       \<and> en_steam_verified e' = en_steam_verified e \<and> en_steam_enabled e' = en_steam_enabled e
       \<and> en_china_verified e' = en_china_verified e \<and> en_china_enabled e' = en_china_enabled e)"
proof -
  let ?rv = "EntryConfigRevision (hb_Network h)"
  have e': "e' \<in> set (after_entries n h now (entries d))" using heartbeat_cases [OF assms(1)] assms(2) by auto
  have old: "exists_where (\<lambda>e. en_node e = n) (entries d)"
  proof (rule ccontr)
    assume none: "\<not> exists_where (\<lambda>e. en_node e = n) (entries d)"
    then have "e' \<notin> set (entries d)" using assms(3) by auto
    then obtain a2s ok where "e' = first_entry now n ?rv a2s ok"
      using e' none unfolding after_entries_def upsert_entry_def by auto
    then show False using assms(4) by (simp add: first_entry_def)
  qed
  then obtain a2s ok where "e' \<in> set (upd_where (\<lambda>e. en_node e = n) (report_entry now ?rv a2s ok) (entries d))"
    using e' unfolding after_entries_def upsert_entry_def by auto
  then obtain e where e: "e \<in> set (entries d)" "en_node e = n" "e' = report_entry now ?rv a2s ok e"
    using assms(3) by (auto elim!: in_upd_whereE)
  have "en_revision e = ?rv"
  proof (rule ccontr)
    assume "en_revision e \<noteq> ?rv"
    then show False using e(3) assms(4) by (simp add: report_entry_def unattested_def)
  qed
  then have "e' = e\<lparr>en_revision := ?rv, en_a2s_enabled := a2s, en_a2s_ok := ok, en_reported := now\<rparr>"
    using e(3) by (simp add: report_entry_def)
  then show ?thesis using e(1,2) \<open>en_revision e = ?rv\<close> by auto
qed

definition attested_db :: db where
  "attested_db = sample_db\<lparr>entries := [\<lparr>en_node = 5, en_revision = EntryConfigRevision sample_network,
     en_steam_verified = True, en_steam_enabled = True, en_china_verified = False, en_china_enabled = False,
     en_a2s_enabled = False, en_a2s_ok = False, en_steam_at = Some 1000, en_steam_by = Some 9, en_china_at = None,
     en_china_by = None, en_reported = 1000\<rparr>]\<rparr>"

lemma attestation_bound_to_configuration_witness:
  "\<exists>res d' e'. RecordHeartbeat 5 sample_heartbeat 2000 attested_db = Inr (res, d') \<and> e' \<in> set (entries d')
    \<and> en_steam_enabled e' \<and> en_revision e' = EntryConfigRevision (hb_Network sample_heartbeat)"
proof -
  obtain res d' where r: "RecordHeartbeat 5 sample_heartbeat 2000 attested_db = Inr (res, d')"
    using heartbeat_runs [OF sample_heartbeat_ok, of 5 attested_db 2000]
    by (auto simp: sample_heartbeat_def int4_def exists_where_def attested_db_def sample_db_def sample_node_def)
  have "hb_Network sample_heartbeat = sample_network" by (simp add: sample_heartbeat_def)
  then have "\<exists>e' \<in> set (entries d'). en_node e' = 5 \<and> en_steam_enabled e'"
    using heartbeat_cases [OF r] by (auto simp: attested_db_def after_entries_def upsert_entry_def upd_where_def
        report_entry_def exists_where_def)
  then show ?thesis using attestation_bound_to_configuration [OF r] r by blast
qed

end
