(* ===== verification/CoreClient.thy ===== *)
theory CoreClient
  imports Quarantine
begin

text \<open>
  The Controller's side of a node: calls to the platform and to the local core, and the core client
  (\<open>internal/controller/core/client.go\<close>).  The core process, the platform API and the local proofs are not
  code of this repository's Controller: they are an environment that answers each call as a function of all
  calls made so far, so every behaviour of them is some environment.  An action reads the history of calls
  and returns its result with the calls that it makes.
\<close>

section \<open>Errors and messages of the core\<close>

record CoreError =
  ce_Code :: string
  ce_Stage :: string
  ce_InstanceID :: string
  ce_OperationID :: string

text \<open>An error is a structured error of the core (\<open>errors.As\<close> finds it) or any other.\<close>

datatype run_error = CoreErr CoreError | OtherErr string

record Accepted =
  ac_Accepted :: bool
  ac_InstanceID :: string
  ac_OperationID :: string

record Operation =
  op_OperationID :: string
  op_Kind :: string
  op_InstanceID :: string
  op_Status :: string
  op_Error :: "CoreError option"

record Instance =
  in_InstanceID :: string
  in_Port :: int
  in_Lifecycle :: string
  in_Process :: string
  in_Room :: string
  in_Cleanup :: string
  in_CurrentOperationID :: string

record ListResult =
  ls_Instances :: "Instance list option"
  ls_HistoryDays :: int

record PrepareCreateRequest =
  pc_Template :: string
  pc_Port :: int
  pc_ManifestAlgorithm :: string
  pc_Fingerprint :: string

section \<open>Calls and their environment\<close>

datatype call =
    CallCreate string int string
  | CallStop string
  | CallOperation string
  | CallStatus string
  | CallList
  | CallOpenJobs
  | CallClaim
  | CallClaimStop
  | CallPrepare string PrepareCreateRequest
  | CallReport string ReportRequest
  | CallBegin string OperationStartRequest
  | CallSession
  | CallTemplateProof string
  | CallContentProof string
  | CallActive
  | CallFact uuid InstanceFact

text \<open>
  What each call answers, given the history that ends with it.  \<open>ev_Session\<close>, \<open>ev_Begin\<close>,
  \<open>ev_ClaimStop\<close> and \<open>ev_Active\<close> are the optional interfaces of the platform, the two proofs may be
  absent.  The clock and the cancellation of the context may depend on the history too.
\<close>

record env =
  ev_Create :: "call list \<Rightarrow> run_error + Accepted"
  ev_Stop :: "call list \<Rightarrow> run_error + Accepted"
  ev_Operation :: "call list \<Rightarrow> run_error + Operation"
  ev_Status :: "call list \<Rightarrow> run_error + Instance"
  ev_List :: "call list \<Rightarrow> run_error + ListResult"
  ev_OpenJobs :: "call list \<Rightarrow> run_error + Job list"
  ev_Claim :: "call list \<Rightarrow> run_error + Job option"
  ev_ClaimStop :: "(call list \<Rightarrow> run_error + Job option) option"
  ev_Prepare :: "call list \<Rightarrow> run_error + FrozenCreate"
  ev_Report :: "call list \<Rightarrow> run_error + unit"
  ev_Begin :: "(call list \<Rightarrow> run_error + Job) option"
  ev_Session :: "(call list \<Rightarrow> run_error + unit) option"
  ev_TemplateProof :: "(call list \<Rightarrow> run_error + string \<times> string) option"
  ev_ContentProof :: "(call list \<Rightarrow> ContentFact) option"
  ev_Active :: "(call list \<Rightarrow> run_error + ActiveAllocation list) option"
  ev_Fact :: "call list \<Rightarrow> run_error + unit"
  ev_Now :: "call list \<Rightarrow> time"
  ev_Cancelled :: "call list \<Rightarrow> bool"

section \<open>Actions\<close>

type_synonym 'a act = "call list \<Rightarrow> (run_error + 'a) \<times> call list"

definition returnA :: "'a \<Rightarrow> 'a act" where
  "returnA x h = (Inr x, [])"

definition failA :: "run_error \<Rightarrow> 'a act" where
  "failA e h = (Inl e, [])"

definition tryA :: "'a act \<Rightarrow> (run_error + 'a \<Rightarrow> 'b act) \<Rightarrow> 'b act" where
  "tryA m f h = (let (r, s) = m h; (r', s') = f r (h @ s) in (r', s @ s'))"

definition bindA :: "'a act \<Rightarrow> ('a \<Rightarrow> 'b act) \<Rightarrow> 'b act" where
  "bindA m f = tryA m (\<lambda>r. case r of Inl e \<Rightarrow> failA e | Inr x \<Rightarrow> f x)"

definition rejectA :: "bool \<Rightarrow> run_error \<Rightarrow> 'a act \<Rightarrow> 'a act" where
  "rejectA c e k = (if c then failA e else k)"

definition perform :: "call \<Rightarrow> (call list \<Rightarrow> run_error + 'a) \<Rightarrow> 'a act" where
  "perform c answer h = (answer (h @ [c]), [c])"

definition readA :: "(call list \<Rightarrow> 'b) \<Rightarrow> ('b \<Rightarrow> 'a act) \<Rightarrow> 'a act" where
  "readA f k h = k (f h) h"

section \<open>The core client\<close>

definition incomplete :: "Accepted \<Rightarrow> bool" where
  "incomplete a \<longleftrightarrow> \<not> ac_Accepted a \<or> ac_InstanceID a = [] \<or> ac_OperationID a = []"

definition core_Create :: "env \<Rightarrow> FrozenCreate \<Rightarrow> Accepted act" where
  "core_Create ev f =
     rejectA (fc_IdempotencyKey f = [] \<or> fc_Template f = [] \<or> fc_Port f < 0 \<or> 65535 < fc_Port f)
       (OtherErr ''incomplete frozen core create request'') (
     bindA (perform (CallCreate (fc_Template f) (fc_Port f) (fc_IdempotencyKey f)) (ev_Create ev)) (\<lambda>a.
     rejectA (incomplete a) (OtherErr ''incomplete d2core create acceptance; outcome unknown'') (returnA a)))"

definition core_Stop :: "env \<Rightarrow> string \<Rightarrow> Accepted act" where
  "core_Stop ev i =
     rejectA (i = []) (OtherErr ''missing instance ID'') (
     bindA (perform (CallStop i) (ev_Stop ev)) (\<lambda>a.
     rejectA (incomplete a) (OtherErr ''incomplete d2core stop acceptance; outcome unknown'') (returnA a)))"

definition core_Operation :: "env \<Rightarrow> string \<Rightarrow> Operation act" where
  "core_Operation ev i =
     bindA (perform (CallOperation i) (ev_Operation ev)) (\<lambda>op.
     rejectA (op_OperationID op = [] \<or> op_InstanceID op = []) (OtherErr ''incomplete d2core operation response'')
       (returnA op))"

definition core_Status :: "env \<Rightarrow> string \<Rightarrow> Instance act" where
  "core_Status ev i =
     bindA (perform (CallStatus i) (ev_Status ev)) (\<lambda>x.
     rejectA (in_InstanceID x = []) (OtherErr ''incomplete d2core status response'') (returnA x))"

fun list_instances :: "string list \<Rightarrow> Instance list \<Rightarrow> bool" where
  "list_instances seen [] = True"
| "list_instances seen (i # is) =
     (if in_InstanceID i = [] \<or> in_InstanceID i \<in> set seen
         \<or> in_Lifecycle i \<notin> {''active'', ''failed'', ''reclaimed''}
         \<or> in_Process i \<notin> {''running'', ''stopped'', ''unknown''}
         \<or> in_Cleanup i \<notin> {''pending'', ''failed'', ''complete''}
      then False else list_instances (in_InstanceID i # seen) is)"

definition core_List :: "env \<Rightarrow> ListResult act" where
  "core_List ev =
     bindA (perform CallList (ev_List ev)) (\<lambda>r. case ls_Instances r of
       None \<Rightarrow> failA (OtherErr ''incomplete d2core list response'')
     | Some is \<Rightarrow> rejectA (\<not> list_instances [] is) (OtherErr ''invalid d2core list instance'') (returnA r))"

text \<open>A rejection that certainly had no effect: no core identifiers, an early stage and a known code.\<close>

definition no_effect_codes :: "string list" where
  "no_effect_codes = [''INVALID_REQUEST'', ''UNSUPPORTED_VERSION'', ''INVALID_TEMPLATE'', ''INVALID_PATH'',
     ''PORT_REQUIRED'', ''PORT_IN_USE'', ''NO_PORT_AVAILABLE'', ''INSUFFICIENT_STORAGE'']"

definition ClearlyNoEffectCreateReject :: "run_error \<Rightarrow> bool" where
  "ClearlyNoEffectCreateReject e = (case e of
      OtherErr _ \<Rightarrow> False
    | CoreErr c \<Rightarrow> ce_InstanceID c = [] \<and> ce_OperationID c = [] \<and> ce_Stage c \<in> {''validate'', ''protocol''}
                   \<and> ce_Code c \<in> set no_effect_codes)"

end
