(* ===== verification/Runner.thy ===== *)
theory Runner
  imports CoreClient
begin

text \<open>
  The Controller's job runner (\<open>internal/controller/runner/runner.go\<close>): one cycle loads the node's open
  jobs, claims more, and executes each through the core, reporting to the platform.  With several workers the
  calls of different jobs interleave; the model runs the jobs of a cycle one after the other, and what is proved
  about one job holds whatever the environment answers, hence under every interleaving of the others.
\<close>

record Runner =
  rn_Bindings :: "(string \<times> string) list"
  rn_Network :: NetworkFacts
  rn_MaxConcurrentJobs :: int
  rn_Windows :: bool

section \<open>Core failures\<close>

definition terminalCoreFailure :: "run_error \<Rightarrow> bool" where
  "terminalCoreFailure e = (case e of
      OtherErr _ \<Rightarrow> False
    | CoreErr c \<Rightarrow> ce_Code c \<in> {''IDENTITY_UNVERIFIED'', ''CLEANUP_FAILED'', ''STOP_FAILED''})"

definition coreIdentityFailure :: "run_error \<Rightarrow> bool" where
  "coreIdentityFailure e = (case e of
      OtherErr _ \<Rightarrow> False
    | CoreErr c \<Rightarrow> ce_Code c \<in> {''IDENTITY_UNVERIFIED'', ''NOT_FOUND''})"

definition coreFailureCode :: "run_error \<Rightarrow> string" where
  "coreFailureCode e = (case e of OtherErr _ \<Rightarrow> [] | CoreErr c \<Rightarrow> ce_Code c)"

definition coreFailureStage :: "run_error \<Rightarrow> string" where
  "coreFailureStage e = (case e of OtherErr _ \<Rightarrow> [] | CoreErr c \<Rightarrow> ce_Stage c)"

definition instance_reclaimed :: "Instance \<Rightarrow> bool" where
  "instance_reclaimed i \<longleftrightarrow> in_Lifecycle i = ''reclaimed'' \<and> in_Process i = ''stopped'' \<and> in_Cleanup i = ''complete''"

section \<open>Paths\<close>

text \<open>\<open>filepath.IsAbs\<close> on Windows and elsewhere.\<close>

definition path_sep :: "char \<Rightarrow> bool" where
  "path_sep c \<longleftrightarrow> c = CHR ''/'' \<or> c = CHR 92"

definition windows_abs :: "string \<Rightarrow> bool" where
  "windows_abs p = (case p of
      c0 # c1 # r \<Rightarrow>
        if c1 = CHR '':'' then (case r of [] \<Rightarrow> False | c2 # _ \<Rightarrow> path_sep c2)
        else path_sep c0 \<and> (path_sep c1
          \<or> (case r of
               c2 # c3 # r2 \<Rightarrow> c1 = CHR ''?'' \<and> c2 = CHR ''?'' \<and> path_sep c3 \<and> list_ex path_sep r2
             | _ \<Rightarrow> False))
    | _ \<Rightarrow> False)"

definition IsAbs :: "bool \<Rightarrow> string \<Rightarrow> bool" where
  "IsAbs windows p = (if windows then windows_abs p else (case p of [] \<Rightarrow> False | c # _ \<Rightarrow> c = CHR ''/''))"

definition validCorePath :: "bool \<Rightarrow> string \<Rightarrow> bool" where
  "validCorePath windows p \<longleftrightarrow> IsAbs windows p \<and> list_all (in_range 32 127) p"

section \<open>Proofs and sessions\<close>

definition validated_job :: "Job \<Rightarrow> bool" where
  "validated_job j \<longleftrightarrow> j_RequiredCapability j = RequiredContentValidationV102"

definition send_report :: "env \<Rightarrow> Job \<Rightarrow> ReportRequest \<Rightarrow> unit act" where
  "send_report ev j r = perform (CallReport (j_ID j) r) (ev_Report ev)"

definition plain :: "job_state \<Rightarrow> ReportRequest" where
  "plain s = \<lparr>rp_State = s, rp_InstanceID = [], rp_OperationID = [], rp_ErrorCode = [], rp_ErrorStage = [],
     rp_JoinInfo = None, rp_JoinInfoErrorCode = []\<rparr>"

definition verifyMachineProof :: "env \<Rightarrow> Job \<Rightarrow> (string \<times> string) act" where
  "verifyMachineProof ev j = (case (ev_TemplateProof ev, ev_ContentProof ev) of
      (Some template, Some content) \<Rightarrow>
        rejectA (j_ExpectedTemplateFingerprintSHA256 j = [] \<or> j_TemplateBindingGeneration j < 1
                 \<or> j_ExpectedWorkshopID j = [] \<or> j_ExpectedContentVersionID j = [] \<or> j_ExpectedVPKSHA256 j = [])
          (OtherErr ''incomplete machine proof'') (
        tryA (perform (CallTemplateProof (j_TemplateBindingKey j)) template) (\<lambda>r. case r of
          Inl _ \<Rightarrow> failA (OtherErr ''template identity mismatch'')
        | Inr (path, digest) \<Rightarrow>
            rejectA (digest \<noteq> j_ExpectedTemplateFingerprintSHA256 j) (OtherErr ''template identity mismatch'') (
            bindA (perform (CallContentProof (j_ExpectedWorkshopID j)) (\<lambda>h. Inr (content h))) (\<lambda>f.
            rejectA (cf_State f \<noteq> FConfirmed \<or> cf_WorkshopID f \<noteq> j_ExpectedWorkshopID j
                     \<or> cf_ContentVersionID f \<noteq> j_ExpectedContentVersionID j \<or> cf_VPKSHA256 f \<noteq> j_ExpectedVPKSHA256 j)
              (OtherErr ''content identity mismatch'') (returnA (path, digest))))))
    | _ \<Rightarrow> failA (OtherErr ''incomplete machine proof''))"

definition checkExecutionSession :: "env \<Rightarrow> Job \<Rightarrow> unit act" where
  "checkExecutionSession ev j =
     (if j_RequiredCapability j = [] \<or> j_RequiredCapability j = ''legacy_v1'' then returnA ()
      else rejectA (\<not> validated_job j) (OtherErr ''unsupported execution capability'') (
        case ev_Session ev of
          None \<Rightarrow> failA (OtherErr ''capability session checker unavailable'')
        | Some check \<Rightarrow> perform CallSession check))"

definition start_request :: "Job \<Rightarrow> FrozenCreate option \<Rightarrow> OperationStartRequest" where
  "start_request j frozen = \<lparr>os_Kind = j_Kind j, os_FrozenCreate = frozen,
     os_InstanceID = (if j_Kind j = KStop then j_InstanceID j else [])\<rparr>"

definition started_ok :: "Job \<Rightarrow> FrozenCreate option \<Rightarrow> Job \<Rightarrow> bool" where
  "started_ok j frozen started \<longleftrightarrow> j_ID started = j_ID j \<and> j_Kind started = j_Kind j \<and> j_State started = JUnknown
     \<and> (j_Kind j = KCreate \<longrightarrow> j_FrozenCreate started \<noteq> None \<and> j_FrozenCreate started = frozen)
     \<and> (j_Kind j = KStop \<longrightarrow> j_InstanceID started = j_InstanceID j)"

definition beginExecution :: "env \<Rightarrow> Job \<Rightarrow> FrozenCreate option \<Rightarrow> unit act" where
  "beginExecution ev j frozen =
     (if \<not> validated_job j then returnA ()
      else case ev_Begin ev of
          None \<Rightarrow> failA (OtherErr ''durable operation-start unavailable'')
        | Some begin \<Rightarrow> bindA (perform (CallBegin (j_ID j) (start_request j frozen)) begin) (\<lambda>started.
            rejectA (\<not> started_ok j frozen started) (OtherErr ''invalid durable operation-start response'') (returnA ())))"

definition validateFrozen :: "bool \<Rightarrow> Job \<Rightarrow> FrozenCreate \<Rightarrow> run_error + unit" where
  "validateFrozen windows j f =
     rejectE (fc_IdempotencyKey f \<noteq> core_key (j_ID j) \<or> \<not> validCorePath windows (fc_Template f)
              \<or> fc_Port f < 0 \<or> 65535 < fc_Port f) (OtherErr ''invalid frozen core create request'') (
     rejectE (fc_FingerprintSHA256 f \<noteq> CreateFingerprint (fc_IdempotencyKey f) (fc_Template f) (fc_Port f))
       (OtherErr ''frozen core create fingerprint mismatch'') (
     rejectE (validated_job j \<and> (fc_RequiredCapability f \<noteq> j_RequiredCapability j
              \<or> fc_TemplateManifestAlgorithm f \<noteq> TemplateManifestAlgorithmV1
              \<or> fc_TemplateFingerprintSHA256 f \<noteq> j_ExpectedTemplateFingerprintSHA256 j))
       (OtherErr ''frozen machine identity mismatch'') (Inr ())))"

section \<open>The core's history\<close>

text \<open>\<open>time.Duration\<close> is a 64-bit number of nanoseconds: products wrap, differences of times saturate.\<close>

definition wrap64 :: "int \<Rightarrow> int" where
  "wrap64 i = (i + 2 ^ 63) mod 2 ^ 64 - 2 ^ 63"

definition saturate64 :: "int \<Rightarrow> int" where
  "saturate64 i = max (- (2 ^ 63)) (min (2 ^ 63 - 1) i)"

definition withinCoreHistory :: "int \<Rightarrow> int \<Rightarrow> time \<Rightarrow> bool" where
  "withinCoreHistory preparedAt historyDays now \<longleftrightarrow> 0 < preparedAt \<and> 1 \<le> historyDays
     \<and> preparedAt * second \<le> now + minute
     \<and> saturate64 (now - preparedAt * second) < wrap64 (wrap64 (wrap64 (historyDays * 24) * hour) - hour)"

section \<open>Observing an operation\<close>

definition failed_report :: "Job \<Rightarrow> string \<Rightarrow> string \<Rightarrow> ReportRequest" where
  "failed_report j code stage = (plain JFailedWithEffect)\<lparr>rp_InstanceID := j_InstanceID j,
     rp_OperationID := j_OperationID j, rp_ErrorCode := code, rp_ErrorStage := stage\<rparr>"

definition unverified_code :: "string \<Rightarrow> string" where
  "unverified_code code = (if code = ''NOT_FOUND'' then ''IDENTITY_UNVERIFIED'' else code)"

definition core_failure_report :: "Job \<Rightarrow> run_error \<Rightarrow> ReportRequest" where
  "core_failure_report j e = failed_report j (unverified_code (coreFailureCode e)) (coreFailureStage e)"

definition identity_report :: "Job \<Rightarrow> ReportRequest" where
  "identity_report j = failed_report j ''IDENTITY_UNVERIFIED'' ''recover''"

text \<open>A failed read of an operation or a status.\<close>

definition observe_error :: "env \<Rightarrow> Job \<Rightarrow> run_error \<Rightarrow> unit act" where
  "observe_error ev j e =
     (if j_Kind j = KStop \<and> (terminalCoreFailure e \<or> coreIdentityFailure e) then send_report ev j (core_failure_report j e)
      else if j_Kind j = KCreate \<and> coreIdentityFailure e then send_report ev j (identity_report j)
      else failA e)"

definition done_report :: "Job \<Rightarrow> ReportRequest" where
  "done_report j = (plain JSucceeded)\<lparr>rp_InstanceID := j_InstanceID j, rp_OperationID := j_OperationID j\<rparr>"

definition joined_report :: "Runner \<Rightarrow> Job \<Rightarrow> Instance \<Rightarrow> ReportRequest" where
  "joined_report rn j i = (let (join, code) = network_JoinInfo (rn_Network rn) (in_Port i) in
     (done_report j)\<lparr>rp_JoinInfo := join, rp_JoinInfoErrorCode := code\<rparr>)"

definition observe_status :: "env \<Rightarrow> Runner \<Rightarrow> Job \<Rightarrow> Operation \<Rightarrow> Instance \<Rightarrow> unit act" where
  "observe_status ev rn j op i =
     (if in_InstanceID i \<noteq> j_InstanceID j then send_report ev j (identity_report j)
      else if j_Kind j = KStop \<and> instance_reclaimed i then send_report ev j (done_report j)
      else if j_Kind j = KStop \<and> (in_Cleanup i = ''failed'' \<or> in_Process i = ''unknown'') then
        send_report ev j (failed_report j (if in_Cleanup i = ''failed'' then ''CLEANUP_FAILED'' else ''IDENTITY_UNVERIFIED'') ''cleanup'')
      else if op_Status op = ''succeeded'' then
        (if j_Kind j = KCreate \<and> (in_Process i = ''unknown'' \<or> in_Lifecycle i = ''failed'' \<or> in_Process i = ''stopped'') then
           send_report ev j (failed_report j (if in_Process i = ''unknown'' then ''IDENTITY_UNVERIFIED'' else ''INSTANCE_FAILED'') ''recover'')
         else if j_Kind j = KCreate \<and> in_Lifecycle i = ''active'' \<and> in_Process i = ''running'' \<and> in_Room i = ''ready'' then
           send_report ev j (joined_report rn j i)
         else if j_Kind j = KStop \<and> instance_reclaimed i then send_report ev j (done_report j)
         else returnA ())
      else if op_Status op \<in> {''failed'', ''cancelled''} then
        send_report ev j (case op_Error op of
            None \<Rightarrow> failed_report j [] [] | Some e \<Rightarrow> failed_report j (ce_Code e) (ce_Stage e))
      else failA (OtherErr ''unknown core operation status''))"

fun kind_text :: "job_kind \<Rightarrow> string" where
  "kind_text KCreate = ''create''"
| "kind_text KStop = ''stop''"
| "kind_text (KOther s) = s"

definition observe_operation :: "env \<Rightarrow> Runner \<Rightarrow> Job \<Rightarrow> unit act" where
  "observe_operation ev rn j =
     tryA (core_Operation ev (j_OperationID j)) (\<lambda>r. case r of
       Inl e \<Rightarrow> observe_error ev j e
     | Inr op \<Rightarrow>
         if op_InstanceID op \<noteq> j_InstanceID j \<or> op_Kind op \<noteq> kind_text (j_Kind j) then send_report ev j (identity_report j)
         else if op_Status op = ''running'' then returnA ()
         else tryA (core_Status ev (j_InstanceID j)) (\<lambda>r. case r of
             Inl e \<Rightarrow> observe_error ev j e
           | Inr i \<Rightarrow> observe_status ev rn j op i))"

definition drift_report :: "Job \<Rightarrow> ReportRequest" where
  "drift_report j = (plain JUnknown)\<lparr>rp_InstanceID := j_InstanceID j, rp_OperationID := j_OperationID j,
     rp_ErrorCode := ''LOCAL_IDENTITY_DRIFT'', rp_ErrorStage := ''reconcile''\<rparr>"

definition observe :: "env \<Rightarrow> Runner \<Rightarrow> Job \<Rightarrow> unit act" where
  "observe ev rn j =
     (if j_OperationID j = [] \<or> j_InstanceID j = [] then returnA ()
      else if j_Kind j = KCreate \<and> validated_job j then
        tryA (verifyMachineProof ev j) (\<lambda>r. case r of
          Inl _ \<Rightarrow> send_report ev j (drift_report j)
        | Inr _ \<Rightarrow> observe_operation ev rn j)
      else observe_operation ev rn j)"

section \<open>Creating an instance\<close>

definition refused :: "string \<Rightarrow> ReportRequest" where
  "refused code = (plain JRejectedNoEffect)\<lparr>rp_ErrorCode := code, rp_ErrorStage := ''validate''\<rparr>"

definition prepare_request :: "Job \<Rightarrow> string \<Rightarrow> string \<Rightarrow> PrepareCreateRequest" where
  "prepare_request j path digest = \<lparr>pc_Template = path, pc_Port = j_RequestedPort j,
     pc_ManifestAlgorithm = (if validated_job j then TemplateManifestAlgorithmV1 else []),
     pc_Fingerprint = (if validated_job j then digest else [])\<rparr>"

definition prepare_path :: "env \<Rightarrow> Runner \<Rightarrow> Job \<Rightarrow> string \<Rightarrow> string \<Rightarrow> (FrozenCreate \<Rightarrow> unit act) \<Rightarrow> unit act" where
  "prepare_path ev rn j path digest k =
     (if \<not> validCorePath (rn_Windows rn) path then send_report ev j (refused ''LOCAL_TEMPLATE_BINDING'')
      else bindA (perform (CallPrepare (j_ID j) (prepare_request j path digest)) (ev_Prepare ev)) k)"

definition prepare_frozen :: "env \<Rightarrow> Runner \<Rightarrow> Job \<Rightarrow> (FrozenCreate \<Rightarrow> unit act) \<Rightarrow> unit act" where
  "prepare_frozen ev rn j k =
     (if j_RequestedPort j \<noteq> 0 \<and> (j_RequestedPort j < nf_LocalPortMin (rn_Network rn)
                                  \<or> nf_LocalPortMax (rn_Network rn) < j_RequestedPort j)
      then send_report ev j (refused ''LOCAL_PORT_RANGE'')
      else if validated_job j then
        tryA (verifyMachineProof ev j) (\<lambda>r. case r of
          Inl _ \<Rightarrow> send_report ev j (refused ''LOCAL_IDENTITY_MISMATCH'')
        | Inr (path, digest) \<Rightarrow> prepare_path ev rn j path digest k)
      else prepare_path ev rn j (coalesce (map_of (rn_Bindings rn) (j_TemplateBindingKey j)) []) [] k)"

definition unknown_create :: "run_error \<Rightarrow> ReportRequest" where
  "unknown_create e = (case e of
      OtherErr _ \<Rightarrow> plain JUnknown
    | CoreErr c \<Rightarrow> (plain JUnknown)\<lparr>rp_InstanceID := ce_InstanceID c, rp_OperationID := ce_OperationID c,
                    rp_ErrorCode := ce_Code c, rp_ErrorStage := ce_Stage c\<rparr>)"

definition accepted_report :: "Job \<Rightarrow> ReportRequest" where
  "accepted_report j = (plain JAccepted)\<lparr>rp_InstanceID := j_InstanceID j, rp_OperationID := j_OperationID j\<rparr>"

definition call_create :: "env \<Rightarrow> Runner \<Rightarrow> Job \<Rightarrow> bool \<Rightarrow> FrozenCreate \<Rightarrow> unit act" where
  "call_create ev rn j retrying f =
     tryA (core_Create ev f) (\<lambda>r. case r of
       Inl e \<Rightarrow>
         if \<not> validated_job j \<and> \<not> retrying \<and> ClearlyNoEffectCreateReject e then
           send_report ev j ((refused (coreFailureCode e))\<lparr>rp_ErrorStage := coreFailureStage e\<rparr>)
         else send_report ev j (unknown_create e)
     | Inr a \<Rightarrow>
         (let j = j\<lparr>j_InstanceID := ac_InstanceID a, j_OperationID := ac_OperationID a\<rparr> in
          bindA (send_report ev j (accepted_report j)) (\<lambda>_. observe ev rn j)))"

definition drifted_create :: "env \<Rightarrow> Job \<Rightarrow> bool \<Rightarrow> unit act" where
  "drifted_create ev j retrying =
     (if \<not> retrying then send_report ev j (refused ''LOCAL_IDENTITY_DRIFT'')
      else if j_State j = JClaimed then
        send_report ev j ((plain JUnknown)\<lparr>rp_ErrorCode := ''LOCAL_IDENTITY_DRIFT'', rp_ErrorStage := ''reconcile''\<rparr>)
      else failA (OtherErr ''local machine identity drift after possible core call''))"

definition execute_frozen :: "env \<Rightarrow> Runner \<Rightarrow> Job \<Rightarrow> bool \<Rightarrow> FrozenCreate \<Rightarrow> unit act" where
  "execute_frozen ev rn j retrying f = (case validateFrozen (rn_Windows rn) j f of
      Inl e \<Rightarrow> failA e
    | Inr _ \<Rightarrow>
        if validated_job j then
          tryA (verifyMachineProof ev j) (\<lambda>r.
            if r \<noteq> Inr (fc_Template f, fc_TemplateFingerprintSHA256 f) then drifted_create ev j retrying
            else bindA (checkExecutionSession ev j) (\<lambda>_.
                 bindA (beginExecution ev j (Some f)) (\<lambda>_. call_create ev rn j retrying f)))
        else call_create ev rn j retrying f)"

definition run_create :: "env \<Rightarrow> Runner \<Rightarrow> Job \<Rightarrow> bool \<Rightarrow> int \<Rightarrow> unit act" where
  "run_create ev rn j newly historyDays =
     (if j_State j = JAccepted \<or> j_State j = JUnknown \<and> j_OperationID j \<noteq> [] then observe ev rn j
      else rejectA (j_State j \<noteq> JClaimed \<and> j_State j \<noteq> JUnknown) (OtherErr ''invalid create job state'') (
        rejectA (j_State j = JUnknown \<and> j_FrozenCreate j = None) (OtherErr ''unknown create lacks frozen request'') (
        readA (ev_Now ev) (\<lambda>now.
        let retrying = (j_FrozenCreate j \<noteq> None \<and> \<not> newly) in
        if retrying \<and> \<not> withinCoreHistory (j_PreparedAtUnix j) historyDays now then
          (if j_State j = JClaimed then send_report ev j (plain JUnknown) else returnA ())
        else (case j_FrozenCreate j of
            None \<Rightarrow> prepare_frozen ev rn j (execute_frozen ev rn j retrying)
          | Some f \<Rightarrow> execute_frozen ev rn j retrying f)))))"

section \<open>Stopping an instance\<close>

definition stop_error :: "env \<Rightarrow> Job \<Rightarrow> run_error \<Rightarrow> unit act \<Rightarrow> unit act" where
  "stop_error ev j e k =
     (if terminalCoreFailure e \<or> coreIdentityFailure e then send_report ev j (core_failure_report j e) else k)"

definition unknown_stop :: "Job \<Rightarrow> run_error \<Rightarrow> ReportRequest" where
  "unknown_stop j e = (let r = (plain JUnknown)\<lparr>rp_InstanceID := j_InstanceID j\<rparr> in case e of
      OtherErr _ \<Rightarrow> r
    | CoreErr c \<Rightarrow> if ce_InstanceID c = [] \<or> ce_InstanceID c = j_InstanceID j
                  then r\<lparr>rp_OperationID := ce_OperationID c, rp_ErrorCode := ce_Code c, rp_ErrorStage := ce_Stage c\<rparr> else r)"

text \<open>\<open>old\<close> is a stop operation that had already ended before: the new job must not adopt its result.\<close>

definition call_stop :: "env \<Rightarrow> Runner \<Rightarrow> Job \<Rightarrow> string \<Rightarrow> unit act" where
  "call_stop ev rn j old =
     bindA (checkExecutionSession ev j) (\<lambda>_.
     bindA (beginExecution ev j None) (\<lambda>_.
     tryA (core_Stop ev (j_InstanceID j)) (\<lambda>r. case r of
       Inl e \<Rightarrow> stop_error ev j e (send_report ev j (unknown_stop j e))
     | Inr a \<Rightarrow>
         rejectA (ac_InstanceID a \<noteq> j_InstanceID j) (OtherErr ''core stop returned different instance ID'') (
         if old \<noteq> [] \<and> ac_OperationID a = old then
           send_report ev j ((plain JUnknown)\<lparr>rp_InstanceID := j_InstanceID j\<rparr>)
         else (let j = j\<lparr>j_OperationID := ac_OperationID a\<rparr> in
           bindA (send_report ev j (accepted_report j)) (\<lambda>_. observe ev rn j))))))"

definition stop_current :: "env \<Rightarrow> Runner \<Rightarrow> Job \<Rightarrow> Instance \<Rightarrow> unit act" where
  "stop_current ev rn j i =
     (if in_CurrentOperationID i = [] then call_stop ev rn j []
      else bindA (core_Operation ev (in_CurrentOperationID i)) (\<lambda>op.
        if op_InstanceID op \<noteq> j_InstanceID j then send_report ev j (identity_report j)
        else if op_Kind op = ''stop'' \<and> (op_Status op = ''running'' \<or> instance_reclaimed i) then
          (let j = j\<lparr>j_OperationID := op_OperationID op\<rparr> in
           bindA (send_report ev j (accepted_report j)) (\<lambda>_. observe ev rn j))
        else call_stop ev rn j
          (if op_Kind op = ''stop'' \<and> op_Status op \<in> {''failed'', ''cancelled'', ''succeeded''} then op_OperationID op else [])))"

definition run_stop :: "env \<Rightarrow> Runner \<Rightarrow> Job \<Rightarrow> unit act" where
  "run_stop ev rn j =
     bindA (checkExecutionSession ev j) (\<lambda>_.
     if j_State j = JAccepted \<or> j_State j = JUnknown \<and> j_OperationID j \<noteq> [] then observe ev rn j
     else rejectA (j_State j \<noteq> JClaimed \<and> j_State j \<noteq> JUnknown) (OtherErr ''invalid stop job state'') (
       tryA (core_Status ev (j_InstanceID j)) (\<lambda>r. case r of
         Inl e \<Rightarrow> stop_error ev j e (failA e)
       | Inr i \<Rightarrow>
           if in_InstanceID i \<noteq> j_InstanceID j then send_report ev j (identity_report j) else stop_current ev rn j i)))"

definition handle :: "env \<Rightarrow> Runner \<Rightarrow> Job \<Rightarrow> bool \<Rightarrow> int \<Rightarrow> unit act" where
  "handle ev rn j newly historyDays =
     bindA (checkExecutionSession ev j) (\<lambda>_. case j_Kind j of
       KCreate \<Rightarrow> run_create ev rn j newly historyDays
     | KStop \<Rightarrow> run_stop ev rn j
     | KOther _ \<Rightarrow> failA (OtherErr ''unsupported node job kind''))"

section \<open>One cycle\<close>

type_synonym work = "Job \<times> bool"

text \<open>Errors of a cycle are collected and joined; an action that ignores them has none.\<close>

type_synonym 'a collected = "call list \<Rightarrow> ('a \<times> run_error list) \<times> call list"

definition keepA :: "'a act \<Rightarrow> (run_error + 'a \<Rightarrow> 'b collected) \<Rightarrow> 'b collected" where
  "keepA m f h = (let (r, s) = m h; (x, s') = f r (h @ s) in (x, s @ s'))"

definition thenA :: "'a collected \<Rightarrow> ('a \<Rightarrow> 'b collected) \<Rightarrow> 'b collected" where
  "thenA m f h = (let ((x, es), s) = m h; ((y, es'), s') = f x (h @ s) in ((y, es @ es'), s @ s'))"

definition doneA :: "'a \<Rightarrow> run_error list \<Rightarrow> 'a collected" where
  "doneA x es h = ((x, es), [])"

definition cycle_limit :: "Runner \<Rightarrow> nat" where
  "cycle_limit rn = nat (min 32 (max 1 (rn_MaxConcurrentJobs rn)))"

definition independent_stop_work :: "env \<Rightarrow> work list \<Rightarrow> work list collected" where
  "independent_stop_work ev items = (case ev_ClaimStop ev of
      None \<Rightarrow> doneA items []
    | Some claim \<Rightarrow>
        if items = [] then doneA items []
        else keepA (perform CallClaimStop claim) (\<lambda>r. case r of
          Inl e \<Rightarrow> doneA items [e]
        | Inr None \<Rightarrow> doneA items []
        | Inr (Some j) \<Rightarrow>
            if j_Kind j \<noteq> KStop \<or> j_InstanceID j = [] then doneA items [OtherErr ''invalid independent stop'']
            else doneA ((j, True) # items) []))"

fun claim_work :: "env \<Rightarrow> nat \<Rightarrow> work list \<Rightarrow> work list collected" where
  "claim_work ev 0 items = doneA items []"
| "claim_work ev (Suc n) items = (\<lambda>h.
     if ev_Cancelled ev h then doneA items [] h
     else keepA (perform CallClaim (ev_Claim ev)) (\<lambda>r. case r of
         Inl e \<Rightarrow> doneA items [e]
       | Inr None \<Rightarrow> doneA items []
       | Inr (Some j) \<Rightarrow> claim_work ev n (items @ [(j, True)])) h)"

fun run_work :: "env \<Rightarrow> Runner \<Rightarrow> int \<Rightarrow> work list \<Rightarrow> unit collected" where
  "run_work ev rn historyDays [] = doneA () []"
| "run_work ev rn historyDays ((j, newly) # items) =
     keepA (handle ev rn j newly historyDays) (\<lambda>r. thenA (doneA () (case r of Inl e \<Rightarrow> [e] | Inr _ \<Rightarrow> []))
       (\<lambda>_. run_work ev rn historyDays items))"

definition active_fact :: "Runner \<Rightarrow> ActiveAllocation \<Rightarrow> run_error + Instance \<Rightarrow> run_error + InstanceFact" where
  "active_fact rn a r =
     (let observed = \<lparr>if_Room = [], if_JoinInfo = None, if_JoinInfoErrorCode = [], if_InstanceID = aa_InstanceID a,
                  if_Outcome = OUncertain, if_Lifecycle = [], if_Process = [], if_Cleanup = [], if_Port = 0\<rparr> in
      case r of
        Inl e \<Rightarrow> rejectE (\<not> coreIdentityFailure e) e (Inr (observed\<lparr>if_Outcome := OIdentityUnverified\<rparr>))
      | Inr i \<Rightarrow>
          if in_InstanceID i \<noteq> aa_InstanceID a then Inr (observed\<lparr>if_Outcome := OIdentityUnverified\<rparr>)
          else (let observed = observed\<lparr>if_Lifecycle := in_Lifecycle i, if_Process := in_Process i, if_Cleanup := in_Cleanup i,
                                if_Port := in_Port i\<rparr> in
            Inr (if instance_reclaimed i then observed\<lparr>if_Outcome := OReclaimed\<rparr>
              else if in_Process i = ''unknown'' then observed\<lparr>if_Outcome := OIdentityUnverified\<rparr>
              else if in_Lifecycle i = ''active'' \<and> in_Process i = ''running'' then
                (let observed = observed\<lparr>if_Outcome := OActive, if_Room := in_Room i\<rparr> in
                 if aa_State a = ARunning \<and> in_Room i = ''ready'' then
                   (let (join, code) = network_JoinInfo (rn_Network rn) (in_Port i) in
                    observed\<lparr>if_JoinInfo := join, if_JoinInfoErrorCode := code\<rparr>)
                 else observed)
              else observed)))"

fun reconcile_each :: "env \<Rightarrow> Runner \<Rightarrow> ActiveAllocation list \<Rightarrow> unit act" where
  "reconcile_each ev rn [] = returnA ()"
| "reconcile_each ev rn (a # as) =
     (if aa_HasOpenJob a \<or> aa_InstanceID a = [] then reconcile_each ev rn as
      else tryA (core_Status ev (aa_InstanceID a)) (\<lambda>r. case active_fact rn a r of
          Inl e \<Rightarrow> failA e
        | Inr observed \<Rightarrow> bindA (perform (CallFact (aa_ID a) observed) (ev_Fact ev)) (\<lambda>_. reconcile_each ev rn as)))"

definition reconcileActive :: "env \<Rightarrow> Runner \<Rightarrow> (call list \<Rightarrow> run_error + ActiveAllocation list) \<Rightarrow> unit act" where
  "reconcileActive ev rn active = bindA (perform CallActive active) (reconcile_each ev rn)"

definition StepWithList :: "env \<Rightarrow> Runner \<Rightarrow> ListResult \<Rightarrow> unit collected" where
  "StepWithList ev rn ls = keepA (perform CallOpenJobs (ev_OpenJobs ev)) (\<lambda>r. case r of
      Inl e \<Rightarrow> doneA () [e]
    | Inr opened \<Rightarrow>
        thenA (independent_stop_work ev (map (\<lambda>j. (j, False)) (filter (\<lambda>j. j_State j \<noteq> JPending) opened))) (\<lambda>items.
        thenA (claim_work ev (cycle_limit rn) items) (\<lambda>items.
        thenA (run_work ev rn (ls_HistoryDays ls) items) (\<lambda>_. case ev_Active ev of
          None \<Rightarrow> doneA () []
        | Some active \<Rightarrow> keepA (reconcileActive ev rn active) (\<lambda>r. doneA () (case r of Inl e \<Rightarrow> [e] | Inr _ \<Rightarrow> []))))))"

definition Step :: "env \<Rightarrow> Runner \<Rightarrow> unit collected" where
  "Step ev rn = keepA (core_List ev) (\<lambda>r. case r of
      Inl e \<Rightarrow> doneA () [e]
    | Inr ls \<Rightarrow> StepWithList ev rn ls)"

end
