(* ===== verification/RunnerSafety.thy ===== *)
theory RunnerSafety
  imports Runner
begin

text \<open>
  What the runner may do to the core and say to the platform while it handles one job, whatever its
  environment answers.  \<open>good G h s\<close> says that after history \<open>h\<close> each of the calls \<open>s\<close> satisfied \<open>G\<close>
  when it was made; \<open>wp\<close> is the weakest precondition of an action for it.
\<close>

section \<open>Weakest preconditions\<close>

fun good :: "(call list \<Rightarrow> call \<Rightarrow> bool) \<Rightarrow> call list \<Rightarrow> call list \<Rightarrow> bool" where
  "good G h [] = True"
| "good G h (c # cs) \<longleftrightarrow> G h c \<and> good G (h @ [c]) cs"

lemma good_append [simp]: "good G h (s @ s') \<longleftrightarrow> good G h s \<and> good G (h @ s) s'"
  by (induction s arbitrary: h) simp_all

definition wp ::
    "(call list \<Rightarrow> call \<Rightarrow> bool) \<Rightarrow> 'a act \<Rightarrow> (run_error + 'a \<Rightarrow> call list \<Rightarrow> bool) \<Rightarrow> call list \<Rightarrow> bool" where
  "wp G m Q h = (case m h of (r, s) \<Rightarrow> good G h s \<and> Q r (h @ s))"

lemma wp_tryA: "wp G (tryA m f) Q h = wp G m (\<lambda>r. wp G (f r) Q) h"
  by (simp add: wp_def tryA_def split: prod.split)

lemma wp_returnA: "wp G (returnA x) Q h = Q (Inr x) h"
  by (simp add: wp_def returnA_def)

lemma wp_failA: "wp G (failA e) Q h = Q (Inl e) h"
  by (simp add: wp_def failA_def)

lemma wp_bindA: "wp G (bindA m f) Q h = wp G m (\<lambda>r. case r of Inl e \<Rightarrow> Q (Inl e) | Inr x \<Rightarrow> wp G (f x) Q) h"
proof -
  have "(\<lambda>r. wp G (case r of Inl e \<Rightarrow> failA e | Inr x \<Rightarrow> f x) Q) = (\<lambda>r. case r of Inl e \<Rightarrow> Q (Inl e) | Inr x \<Rightarrow> wp G (f x) Q)"
    by (intro ext) (simp add: wp_failA split: sum.split)
  then show ?thesis by (simp add: bindA_def wp_tryA)
qed

lemma wp_rejectA: "wp G (rejectA c e k) Q h = (if c then Q (Inl e) h else wp G k Q h)"
  by (simp add: rejectA_def wp_failA)

lemma wp_perform: "wp G (perform c answer) Q h \<longleftrightarrow> G h c \<and> Q (answer (h @ [c])) (h @ [c])"
  by (simp add: wp_def perform_def)

lemma wp_readA: "wp G (readA f k) Q h = wp G (k (f h)) Q h"
  by (simp add: wp_def readA_def)

lemma wp_mono: "wp G m Q h \<Longrightarrow> (\<And>r h'. Q r h' \<Longrightarrow> R r h') \<Longrightarrow> wp G m R h"
  by (auto simp: wp_def split: prod.splits)

lemma wp_if: "(c \<Longrightarrow> wp G m Q h) \<Longrightarrow> (\<not> c \<Longrightarrow> wp G n Q h) \<Longrightarrow> wp G (if c then m else n) Q h"
  by simp

lemma wp_rejectT: "wp G k (\<lambda>_ _. True) h \<Longrightarrow> wp G (rejectA c e k) (\<lambda>_ _. True) h"
  by (simp add: wp_rejectA)

lemma wp_readT: "(\<And>x. wp G (k x) Q h) \<Longrightarrow> wp G (readA f k) Q h"
  by (simp add: wp_readA)

lemmas wp_simps = wp_tryA wp_returnA wp_failA wp_bindA wp_rejectA wp_perform wp_readA

section \<open>The discipline of the runner\<close>

text \<open>The core was not called to create anything under the idempotency key \<open>key\<close>.\<close>

fun is_create :: "string \<Rightarrow> call \<Rightarrow> bool" where
  "is_create key (CallCreate t p k) = (k = key)"
| "is_create key _ = False"

definition no_create :: "string \<Rightarrow> call list \<Rightarrow> bool" where
  "no_create key h \<longleftrightarrow> list_all (\<lambda>c. \<not> is_create key c) h"

abbreviation untried :: "Job \<Rightarrow> call list \<Rightarrow> bool" where
  "untried j \<equiv> no_create (core_key (j_ID j))"

text \<open>The last call made this execution durable, as unknown, and the platform confirmed it.\<close>

definition durably_started :: "env \<Rightarrow> Job \<Rightarrow> call list \<Rightarrow> string \<Rightarrow> int \<Rightarrow> string \<Rightarrow> bool" where
  "durably_started ev j h template port key \<longleftrightarrow> (\<exists>h' f start started.
     h = h' @ [CallBegin (j_ID j) (start_request j (Some f))] \<and> fc_Template f = template \<and> fc_Port f = port
     \<and> fc_IdempotencyKey f = key \<and> ev_Begin ev = Some start \<and> start h = Inr started \<and> j_State started = JUnknown)"

definition refused_by_core :: "env \<Rightarrow> Job \<Rightarrow> call list \<Rightarrow> bool" where
  "refused_by_core ev j h \<longleftrightarrow> \<not> validated_job j \<and> (\<exists>h' t p k e. h = h' @ [CallCreate t p k]
     \<and> ev_Create ev h = Inl e \<and> ClearlyNoEffectCreateReject e)"

definition reclaim_seen :: "env \<Rightarrow> Job \<Rightarrow> call list \<Rightarrow> bool" where
  "reclaim_seen ev j h \<longleftrightarrow> (\<exists>h' i. h = h' @ [CallStatus (j_InstanceID j)] \<and> ev_Status ev h = Inr i
     \<and> in_InstanceID i = j_InstanceID j \<and> instance_reclaimed i)"

text \<open>The job carries no frozen request of an earlier cycle, in which the core may have been called.\<close>

definition first_try :: "Job \<Rightarrow> bool \<Rightarrow> bool" where
  "first_try j newly \<longleftrightarrow> j_FrozenCreate j = None \<or> newly"

definition disciplined :: "env \<Rightarrow> Job \<Rightarrow> bool \<Rightarrow> call list \<Rightarrow> call \<Rightarrow> bool" where
  "disciplined ev j newly h c = (case c of
      CallCreate t p k \<Rightarrow> j_Kind j = KCreate \<and> untried j h \<and> k = core_key (j_ID j)
        \<and> (validated_job j \<longrightarrow> durably_started ev j h t p k)
    | CallStop i \<Rightarrow> j_Kind j = KStop \<and> i = j_InstanceID j
    | CallReport i r \<Rightarrow> i = j_ID j
        \<and> (rp_State r = JRejectedNoEffect \<longrightarrow> first_try j newly \<and> (untried j h \<or> refused_by_core ev j h))
        \<and> (j_Kind j = KStop \<and> rp_State r = JSucceeded \<longrightarrow> reclaim_seen ev j h)
    | _ \<Rightarrow> True)"

text \<open>The job that is reported on is the one handled, with the identifiers learnt meanwhile.\<close>

definition same_job :: "Job \<Rightarrow> Job \<Rightarrow> bool" where
  "same_job j i \<longleftrightarrow> j_ID i = j_ID j \<and> j_Kind i = j_Kind j \<and> j_RequiredCapability i = j_RequiredCapability j
     \<and> (j_Kind j = KStop \<longrightarrow> j_InstanceID i = j_InstanceID j)"

lemma no_create_simps [simp]:
  "no_create k []" "no_create k (h @ s) \<longleftrightarrow> no_create k h \<and> no_create k s"
  "no_create k (c # s) \<longleftrightarrow> \<not> is_create k c \<and> no_create k s"
  by (simp_all add: no_create_def)

lemmas report_defs = plain_def failed_report_def core_failure_report_def identity_report_def done_report_def
  joined_report_def drift_report_def accepted_report_def unknown_create_def unknown_stop_def refused_def

lemma report_ids [simp]:
  "rp_State (plain s) = s" "rp_State (failed_report j c st) = JFailedWithEffect" "rp_State (identity_report j) = JFailedWithEffect"
  "rp_State (core_failure_report j e) = JFailedWithEffect" "rp_State (done_report j) = JSucceeded"
  "rp_State (joined_report rn j i) = JSucceeded" "rp_State (drift_report j) = JUnknown" "rp_State (accepted_report j) = JAccepted"
  "rp_State (unknown_create e) = JUnknown" "rp_State (unknown_stop j e) = JUnknown" "rp_State (refused code) = JRejectedNoEffect"
  by (simp_all add: report_defs Let_def split: run_error.split prod.split)

section \<open>Steps without a create call\<close>

text \<open>A step that makes no create call keeps the absence of one.\<close>

lemma wp_verify:
  "(\<And>r h'. (untried j h \<longrightarrow> untried j h') \<Longrightarrow> Q r h') \<Longrightarrow> wp (disciplined ev j newly) (verifyMachineProof ev i) Q h"
  by (auto simp: verifyMachineProof_def wp_simps disciplined_def split: option.split sum.split prod.split)

lemma wp_session:
  "(\<And>r h'. (untried j h \<longrightarrow> untried j h') \<Longrightarrow> Q r h') \<Longrightarrow> wp (disciplined ev j newly) (checkExecutionSession ev i) Q h"
  by (auto simp: checkExecutionSession_def wp_simps disciplined_def split: option.split)

lemma wp_send:
  assumes "same_job j i" "rp_State r \<noteq> JRejectedNoEffect" "j_Kind j = KStop \<longrightarrow> rp_State r \<noteq> JSucceeded"
  shows "wp (disciplined ev j newly) (send_report ev i r) (\<lambda>_ _. True) h"
  using assms by (auto simp: send_report_def wp_simps disciplined_def same_job_def)

lemma wp_operation:
  "(\<And>r h'. (untried j h \<longrightarrow> untried j h') \<Longrightarrow> Q r h') \<Longrightarrow> wp (disciplined ev j newly) (core_Operation ev i) Q h"
  by (auto simp: core_Operation_def wp_simps disciplined_def split: sum.split)

lemma wp_status:
  assumes "\<And>e h'. (untried j h \<longrightarrow> untried j h') \<Longrightarrow> Q (Inl e) h'"
    and "\<And>x h'. (untried j h \<longrightarrow> untried j h') \<Longrightarrow> h' = h @ [CallStatus i]
        \<Longrightarrow> ev_Status ev h' = Inr x \<Longrightarrow> Q (Inr x) h'"
  shows "wp (disciplined ev j newly) (core_Status ev i) Q h"
  using assms by (auto simp: core_Status_def wp_simps disciplined_def split: sum.split)

section \<open>Observing\<close>

lemma wp_observe_error:
  assumes "same_job j i"
  shows "wp (disciplined ev j newly) (observe_error ev i e) (\<lambda>_ _. True) h"
  using assms by (auto simp: observe_error_def wp_simps intro!: wp_send)

lemma wp_done:
  assumes "same_job j i" "j_Kind j = KStop \<Longrightarrow> reclaim_seen ev j h"
  shows "wp (disciplined ev j newly) (send_report ev i (done_report i)) (\<lambda>_ _. True) h"
  using assms by (simp add: send_report_def wp_simps disciplined_def same_job_def)

lemma wp_observe_status:
  assumes "same_job j i" "h = h' @ [CallStatus (j_InstanceID i)]" "ev_Status ev h = Inr x"
  shows "wp (disciplined ev j newly) (observe_status ev rn i op x) (\<lambda>_ _. True) h"
proof -
  have seen: "reclaim_seen ev j h" if "j_Kind i = KStop" "in_InstanceID x = j_InstanceID i" "instance_reclaimed x"
    using assms that by (auto simp: reclaim_seen_def same_job_def)
  have k: "j_Kind i = j_Kind j" using assms(1) by (simp add: same_job_def)
  show ?thesis
    unfolding observe_status_def
    by (intro wp_if wp_send [OF assms(1)] wp_done [OF assms(1)] seen)
      (simp_all add: wp_returnA wp_failA k [symmetric] split: option.split)
qed

lemma wp_observe_operation:
  assumes "same_job j i"
  shows "wp (disciplined ev j newly) (observe_operation ev rn i) (\<lambda>_ _. True) h"
  unfolding observe_operation_def wp_tryA
proof (rule wp_operation)
  fix r h' show "wp (disciplined ev j newly) (case r of Inl e \<Rightarrow> observe_error ev i e | Inr op \<Rightarrow>
      if op_InstanceID op \<noteq> j_InstanceID i \<or> op_Kind op \<noteq> kind_text (j_Kind i) then send_report ev i (identity_report i)
      else if op_Status op = ''running'' then returnA ()
      else tryA (core_Status ev (j_InstanceID i)) (\<lambda>r. case r of
             Inl e \<Rightarrow> observe_error ev i e
           | Inr x \<Rightarrow> observe_status ev rn i op x)) (\<lambda>_ _. True) h'"
    by (auto simp: wp_simps split: sum.split intro!: wp_send [OF assms] wp_observe_error [OF assms] wp_status
        wp_observe_status [OF assms])
qed

lemma wp_observe:
  assumes "same_job j i"
  shows "wp (disciplined ev j newly) (observe ev rn i) (\<lambda>_ _. True) h"
  by (auto simp: observe_def wp_simps split: sum.split intro!: wp_verify wp_send [OF assms] wp_observe_operation [OF assms])

section \<open>Creating\<close>

lemma wp_refuse:
  assumes "first_try j newly" "untried j h" "rp_State r = JRejectedNoEffect"
  shows "wp (disciplined ev j newly) (send_report ev j r) (\<lambda>_ _. True) h"
  using assms by (simp add: send_report_def wp_simps disciplined_def)

lemma wp_core_Create:
  assumes "disciplined ev j newly h (CallCreate (fc_Template f) (fc_Port f) (fc_IdempotencyKey f))"
    and "\<And>e h'. ClearlyNoEffectCreateReject e \<longrightarrow> h' = h @ [CallCreate (fc_Template f) (fc_Port f) (fc_IdempotencyKey f)]
        \<and> ev_Create ev h' = Inl e \<Longrightarrow> Q (Inl e) h'"
    and "\<And>a h'. Q (Inr a) h'"
  shows "wp (disciplined ev j newly) (core_Create ev f) Q h"
proof -
  have other: "\<not> ClearlyNoEffectCreateReject (OtherErr m)" for m by (simp add: ClearlyNoEffectCreateReject_def)
  show ?thesis
    unfolding core_Create_def wp_simps
    using assms(1) by (auto split: sum.split intro!: assms(2,3) simp: other)
qed

lemma wp_core_Stop:
  assumes "disciplined ev j newly h (CallStop i)" "\<And>r h'. Q r h'"
  shows "wp (disciplined ev j newly) (core_Stop ev i) Q h"
  unfolding core_Stop_def wp_simps using assms by (auto split: sum.split)

lemma wp_call_create:
  assumes "j_Kind j = KCreate" "untried j h" "fc_IdempotencyKey f = core_key (j_ID j)"
    and "validated_job j \<longrightarrow> durably_started ev j h (fc_Template f) (fc_Port f) (fc_IdempotencyKey f)"
    and "retrying = (\<not> first_try j newly)"
  shows "wp (disciplined ev j newly) (call_create ev rn j retrying f) (\<lambda>_ _. True) h"
proof -
  let ?h = "h @ [CallCreate (fc_Template f) (fc_Port f) (fc_IdempotencyKey f)]"
  have same: "same_job j j" "same_job j (j\<lparr>j_InstanceID := a, j_OperationID := b\<rparr>)" for a b
    using assms(1) by (simp_all add: same_job_def)
  have call: "disciplined ev j newly h (CallCreate (fc_Template f) (fc_Port f) (fc_IdempotencyKey f))"
    using assms by (simp add: disciplined_def)
  have accept: "wp (disciplined ev j newly) (let i = j\<lparr>j_InstanceID := a, j_OperationID := b\<rparr> in
      bindA (send_report ev i (accepted_report i)) (\<lambda>_. observe ev rn i)) (\<lambda>_ _. True) g" for a b g
    unfolding Let_def wp_bindA
    by (rule wp_mono [OF wp_send [OF same(2)]]) (auto split: sum.split intro: wp_observe [OF same(2)])
  have refuse: "wp (disciplined ev j newly) (if \<not> validated_job j \<and> \<not> retrying \<and> ClearlyNoEffectCreateReject e
      then send_report ev j ((refused (coreFailureCode e))\<lparr>rp_ErrorStage := coreFailureStage e\<rparr>)
      else send_report ev j (unknown_create e)) (\<lambda>_ _. True) g"
    if e: "ClearlyNoEffectCreateReject e \<longrightarrow> g = ?h \<and> ev_Create ev g = Inl e" for e g
  proof (cases "\<not> validated_job j \<and> \<not> retrying \<and> ClearlyNoEffectCreateReject e")
    case True
    then have "refused_by_core ev j g" "first_try j newly" using e assms(5) by (auto simp: refused_by_core_def)
    then show ?thesis using True assms(1) by (simp add: send_report_def wp_perform disciplined_def)
  next
    case False
    then show ?thesis using wp_send [OF same(1)] by (simp only: if_False) (simp add: assms(1))
  qed
  show ?thesis
    unfolding call_create_def wp_tryA
    by (rule wp_core_Create [OF call]) (simp_all only: sum.case refuse accept)
qed

lemma validateFrozen_key: "validateFrozen w j f = Inr x \<Longrightarrow> fc_IdempotencyKey f = core_key (j_ID j)"
  by (simp add: validateFrozen_def rejectE_Inr)

lemma wp_begin:
  assumes "\<And>e h'. Q (Inl e) h'"
    and "\<And>x h'. (untried j h \<longrightarrow> untried j h') \<Longrightarrow> (validated_job j \<and> j_Kind j = KCreate \<longrightarrow>
        (\<forall>f. frozen = Some f \<longrightarrow> durably_started ev j h' (fc_Template f) (fc_Port f) (fc_IdempotencyKey f))) \<Longrightarrow> Q (Inr x) h'"
  shows "wp (disciplined ev j newly) (beginExecution ev j frozen) Q h"
proof (cases "validated_job j")
  case False
  then show ?thesis using assms(2) [of h] by (simp add: beginExecution_def wp_simps)
next
  case True
  show ?thesis
  proof (cases "ev_Begin ev")
    case None
    then show ?thesis using True assms(1) by (simp add: beginExecution_def wp_simps)
  next
    case (Some start)
    let ?h = "h @ [CallBegin (j_ID j) (start_request j frozen)]"
    have "Q (Inr ()) ?h" if "start ?h = Inr s" "started_ok j frozen s" for s
    proof (rule assms(2))
      show "validated_job j \<and> j_Kind j = KCreate \<longrightarrow> (\<forall>f. frozen = Some f \<longrightarrow>
          durably_started ev j ?h (fc_Template f) (fc_Port f) (fc_IdempotencyKey f))"
        using that Some by (auto simp: durably_started_def started_ok_def)
    qed simp
    then show ?thesis using True Some assms(1)
      by (auto simp: beginExecution_def wp_simps disciplined_def split: sum.split)
  qed
qed

lemma wp_execute_frozen:
  assumes "j_Kind j = KCreate" "untried j h" "retrying = (\<not> first_try j newly)"
  shows "wp (disciplined ev j newly) (execute_frozen ev rn j retrying f) (\<lambda>_ _. True) h"
proof (cases "validateFrozen (rn_Windows rn) j f")
  case (Inr x)
  have same: "same_job j j" by (simp add: same_job_def)
  note key = validateFrozen_key [OF Inr]
  have drift: "wp (disciplined ev j newly) (drifted_create ev j retrying) (\<lambda>_ _. True) h'" if "untried j h'" for h'
    unfolding drifted_create_def
    by (intro wp_if wp_refuse wp_send [OF same]) (use that assms(3) in \<open>simp_all add: wp_failA\<close>)
  show ?thesis
  proof (cases "validated_job j")
    case False
    then show ?thesis using Inr wp_call_create [OF assms(1,2) key _ assms(3)] by (simp add: execute_frozen_def)
  next
    case True
    have go: "wp (disciplined ev j newly) (bindA (checkExecutionSession ev j) (\<lambda>_.
        bindA (beginExecution ev j (Some f)) (\<lambda>_. call_create ev rn j retrying f))) (\<lambda>_ _. True) h'" if "untried j h'" for h'
      unfolding wp_bindA
    proof (rule wp_session)
      fix r h2 assume "untried j h' \<longrightarrow> untried j h2"
      with that have n: "untried j h2" by simp
      show "(case r of Inl e \<Rightarrow> \<lambda>_. True | Inr x \<Rightarrow> wp (disciplined ev j newly) (beginExecution ev j (Some f))
          (\<lambda>r. case r of Inl e \<Rightarrow> \<lambda>_. True | Inr x \<Rightarrow> wp (disciplined ev j newly) (call_create ev rn j retrying f) (\<lambda>_ _. True))) h2"
        using n assms(1) True by (auto split: sum.split intro!: wp_begin wp_call_create [OF assms(1) _ key _ assms(3)])
    qed
    show ?thesis using Inr True
      by (auto simp: execute_frozen_def wp_tryA intro!: wp_verify drift go assms(2))
  qed
qed (simp add: execute_frozen_def wp_simps)

lemma wp_prepare_path:
  assumes "first_try j newly" "untried j h"
    and "\<And>f h'. untried j h' \<Longrightarrow> wp (disciplined ev j newly) (k f) (\<lambda>_ _. True) h'"
  shows "wp (disciplined ev j newly) (prepare_path ev rn j path digest k) (\<lambda>_ _. True) h"
  using assms
  by (auto simp: prepare_path_def wp_simps disciplined_def split: sum.split intro!: wp_refuse)

lemma wp_prepare_frozen:
  assumes "first_try j newly" "untried j h"
    and "\<And>f h'. untried j h' \<Longrightarrow> wp (disciplined ev j newly) (k f) (\<lambda>_ _. True) h'"
  shows "wp (disciplined ev j newly) (prepare_frozen ev rn j k) (\<lambda>_ _. True) h"
  using assms(1,2)
  by (auto simp: prepare_frozen_def wp_tryA split: sum.split intro!: wp_refuse wp_verify wp_prepare_path assms(3))

lemma wp_run_create:
  assumes "j_Kind j = KCreate" "untried j h"
  shows "wp (disciplined ev j newly) (run_create ev rn j newly days) (\<lambda>_ _. True) h"
proof -
  have same: "same_job j j" by (simp add: same_job_def)
  have retry: "(j_FrozenCreate j \<noteq> None \<and> \<not> newly) = (\<not> first_try j newly)" by (simp add: first_try_def)
  have run: "wp (disciplined ev j newly) (case j_FrozenCreate j of
      None \<Rightarrow> prepare_frozen ev rn j (execute_frozen ev rn j (\<not> first_try j newly))
    | Some f \<Rightarrow> execute_frozen ev rn j (\<not> first_try j newly) f) (\<lambda>_ _. True) h"
  proof (cases "j_FrozenCreate j")
    case None
    then have "first_try j newly" by (simp add: first_try_def)
    from wp_prepare_frozen [OF this assms(2) wp_execute_frozen [OF assms(1) _ refl]] None show ?thesis by simp
  qed (simp add: wp_execute_frozen [OF assms refl])
  show ?thesis
    unfolding run_create_def Let_def retry
    by (intro wp_if wp_rejectT wp_readT wp_observe [OF same] wp_send [OF same] run) (simp_all add: wp_returnA)
qed

section \<open>Stopping\<close>

lemma wp_stop_error:
  assumes "same_job j i" "wp (disciplined ev j newly) k (\<lambda>_ _. True) h"
  shows "wp (disciplined ev j newly) (stop_error ev i e k) (\<lambda>_ _. True) h"
  using assms by (auto simp: stop_error_def intro!: wp_send)

lemma wp_accepted:
  assumes "same_job j i"
  shows "wp (disciplined ev j newly) (bindA (send_report ev i (accepted_report i)) (\<lambda>_. observe ev rn i)) (\<lambda>_ _. True) h"
  unfolding wp_bindA
  by (rule wp_mono [OF wp_send [OF assms]]) (auto split: sum.split intro: wp_observe [OF assms])

lemma wp_call_stop:
  assumes "j_Kind j = KStop"
  shows "wp (disciplined ev j newly) (call_stop ev rn j old) (\<lambda>_ _. True) h"
proof -
  have same: "same_job j j" "same_job j (j\<lparr>j_OperationID := b\<rparr>)" for b by (simp_all add: same_job_def)
  have call: "disciplined ev j newly g (CallStop (j_InstanceID j))" for g using assms by (simp add: disciplined_def)
  have result: "wp (disciplined ev j newly) (case r of Inl e \<Rightarrow> stop_error ev j e (send_report ev j (unknown_stop j e))
     | Inr a \<Rightarrow> rejectA (ac_InstanceID a \<noteq> j_InstanceID j) (OtherErr ''core stop returned different instance ID'') (
         if old \<noteq> [] \<and> ac_OperationID a = old then
           send_report ev j ((plain JUnknown)\<lparr>rp_InstanceID := j_InstanceID j\<rparr>)
         else (let j = j\<lparr>j_OperationID := ac_OperationID a\<rparr> in
           bindA (send_report ev j (accepted_report j)) (\<lambda>_. observe ev rn j)))) (\<lambda>_ _. True) g" for r g
    by (auto simp: wp_rejectA Let_def split: sum.split
        intro!: wp_stop_error wp_send [OF same(1)] wp_accepted [OF same(2)] same(1))
  show ?thesis
    unfolding call_stop_def wp_bindA
  proof (rule wp_session)
    fix r h' show "(case r of Inl e \<Rightarrow> \<lambda>_. True | Inr x \<Rightarrow> wp (disciplined ev j newly) (beginExecution ev j None)
        (\<lambda>r. case r of Inl e \<Rightarrow> \<lambda>_. True | Inr x \<Rightarrow> wp (disciplined ev j newly) (tryA (core_Stop ev (j_InstanceID j)) (\<lambda>r. case r of
       Inl e \<Rightarrow> stop_error ev j e (send_report ev j (unknown_stop j e))
     | Inr a \<Rightarrow>
         rejectA (ac_InstanceID a \<noteq> j_InstanceID j) (OtherErr ''core stop returned different instance ID'') (
         if old \<noteq> [] \<and> ac_OperationID a = old then
           send_report ev j ((plain JUnknown)\<lparr>rp_InstanceID := j_InstanceID j\<rparr>)
         else (let j = j\<lparr>j_OperationID := ac_OperationID a\<rparr> in
           bindA (send_report ev j (accepted_report j)) (\<lambda>_. observe ev rn j))))) (\<lambda>_ _. True))) h'"
      by (cases r) (auto simp: wp_tryA intro!: wp_begin wp_core_Stop [OF call] result)
  qed
qed

lemma wp_stop_current:
  assumes "j_Kind j = KStop"
  shows "wp (disciplined ev j newly) (stop_current ev rn j i) (\<lambda>_ _. True) h"
proof -
  have same: "same_job j j" "same_job j (j\<lparr>j_OperationID := b\<rparr>)" for b by (simp_all add: same_job_def)
  have result: "wp (disciplined ev j newly) (if op_InstanceID op \<noteq> j_InstanceID j then send_report ev j (identity_report j)
        else if op_Kind op = ''stop'' \<and> (op_Status op = ''running'' \<or> instance_reclaimed i) then
          (let j = j\<lparr>j_OperationID := op_OperationID op\<rparr> in
           bindA (send_report ev j (accepted_report j)) (\<lambda>_. observe ev rn j))
        else call_stop ev rn j old) (\<lambda>_ _. True) g" for op old g
    by (auto simp: Let_def intro!: wp_send [OF same(1)] wp_accepted [OF same(2)] wp_call_stop assms)
  show ?thesis
    unfolding stop_current_def wp_bindA
  proof (rule wp_if)
    show "wp (disciplined ev j newly) (bindA (core_Operation ev (in_CurrentOperationID i)) (\<lambda>op.
        if op_InstanceID op \<noteq> j_InstanceID j then send_report ev j (identity_report j)
        else if op_Kind op = ''stop'' \<and> (op_Status op = ''running'' \<or> instance_reclaimed i) then
          (let j = j\<lparr>j_OperationID := op_OperationID op\<rparr> in
           bindA (send_report ev j (accepted_report j)) (\<lambda>_. observe ev rn j))
        else call_stop ev rn j
          (if op_Kind op = ''stop'' \<and> op_Status op \<in> {''failed'', ''cancelled'', ''succeeded''} then op_OperationID op else [])))
      (\<lambda>_ _. True) h"
      unfolding wp_bindA [of _ "core_Operation ev (in_CurrentOperationID i)"]
    proof (rule wp_operation, goal_cases)
      case (1 r h')
      then show ?case by (cases r) (simp_all only: sum.case result)
    qed
  qed (rule wp_call_stop [OF assms])
qed

lemma wp_run_stop:
  assumes "j_Kind j = KStop"
  shows "wp (disciplined ev j newly) (run_stop ev rn j) (\<lambda>_ _. True) h"
proof -
  have same: "same_job j j" by (simp add: same_job_def)
  have status: "wp (disciplined ev j newly) (tryA (core_Status ev (j_InstanceID j)) (\<lambda>r. case r of
         Inl e \<Rightarrow> stop_error ev j e (failA e)
       | Inr i \<Rightarrow> if in_InstanceID i \<noteq> j_InstanceID j then send_report ev j (identity_report j) else stop_current ev rn j i))
      (\<lambda>_ _. True) g" for g
    unfolding wp_tryA
    by (rule wp_status) (auto simp: wp_failA intro!: wp_stop_error wp_send [OF same] wp_stop_current same assms)
  show ?thesis
    unfolding run_stop_def wp_bindA
    by (rule wp_session) (auto simp: wp_rejectA split: sum.split intro!: wp_observe [OF same] status)
qed

lemma wp_handle:
  assumes "untried j h"
  shows "wp (disciplined ev j newly) (handle ev rn j newly days) (\<lambda>_ _. True) h"
  unfolding handle_def wp_bindA
  by (rule wp_session) (auto simp: wp_failA assms split: sum.split job_kind.split intro!: wp_run_create wp_run_stop)

section \<open>The guarantee\<close>

text \<open>
  C24: Whatever the core, the platform and the local proofs answer while the runner handles a job: it asks
  the core to create only under the job's own idempotency key, at most once within this handling, and, if the
  job is a validated one, only right after the platform recorded the start as unknown (a legacy job has no
  durable start, and a later handling of the same job may ask again under the same key); it reports a rejection without effect only on a
  first try, and before any create call of the job or right after the core refused one in its earliest
  stages; it reports a stop as succeeded only right after the core showed the instance fully reclaimed;
  and it stops and reports on no other job.
\<close>

theorem runner_disciplined:
  assumes "handle ev rn j newly days h = (r, s)" "no_create (core_key (j_ID j)) h"
  shows "good (disciplined ev j newly) h s"
  using wp_handle [OF assms(2), of ev newly rn days] assms(1) by (simp add: wp_def)

definition sample_work :: Job where
  "sample_work = \<lparr>j_ID = ''a-b'', j_Kind = KCreate, j_State = JClaimed, j_IntegrationOnly = False,
     j_TemplateBindingKey = ''key'', j_RequestedPort = 0, j_InstanceID = [], j_OperationID = [], j_FrozenCreate = None,
     j_PreparedAtUnix = 0, j_RequiredCapability = [], j_ExpectedTemplateFingerprintSHA256 = [],
     j_TemplateBindingGeneration = 0, j_ExpectedWorkshopID = [], j_ExpectedContentVersionID = [], j_ExpectedVPKSHA256 = []\<rparr>"

definition sample_runner :: Runner where
  "sample_runner = \<lparr>rn_Bindings = [(''key'', ''/t'')], rn_Network = \<lparr>nf_ConnectHost = ''h'', nf_ProtocolIP = [],
     nf_LocalPortMin = 1, nf_LocalPortMax = 2, nf_MappingMode = MIdentity, nf_Mappings = [], nf_A2SEnabled = False\<rparr>,
     rn_MaxConcurrentJobs = 1, rn_Windows = False\<rparr>"

definition sample_frozen :: FrozenCreate where
  "sample_frozen = \<lparr>fc_IdempotencyKey = ''nodejob-ab'', fc_Template = ''/t'', fc_Port = 0,
     fc_FingerprintSHA256 = CreateFingerprint ''nodejob-ab'' ''/t'' 0, fc_RequiredCapability = [],
     fc_TemplateManifestAlgorithm = [], fc_TemplateFingerprintSHA256 = []\<rparr>"

text \<open>An environment in which the core accepts the create and is still running it.\<close>

definition sample_env :: env where
  "sample_env = \<lparr>ev_Create = (\<lambda>_. Inr \<lparr>ac_Accepted = True, ac_InstanceID = ''i'', ac_OperationID = ''o''\<rparr>),
     ev_Stop = (\<lambda>_. Inl (OtherErr [])),
     ev_Operation = (\<lambda>_. Inr \<lparr>op_OperationID = ''o'', op_Kind = ''create'', op_InstanceID = ''i'', op_Status = ''running'',
       op_Error = None\<rparr>),
     ev_Status = (\<lambda>_. Inl (OtherErr [])), ev_List = (\<lambda>_. Inl (OtherErr [])), ev_OpenJobs = (\<lambda>_. Inr []),
     ev_Claim = (\<lambda>_. Inr None), ev_ClaimStop = None, ev_Prepare = (\<lambda>_. Inr sample_frozen), ev_Report = (\<lambda>_. Inr ()),
     ev_Begin = None, ev_Session = None, ev_TemplateProof = None, ev_ContentProof = None, ev_Active = None,
     ev_Fact = (\<lambda>_. Inr ()), ev_Now = (\<lambda>_. 0), ev_Cancelled = (\<lambda>_. False)\<rparr>"

definition sample_calls :: "call list" where
  "sample_calls = [CallPrepare ''a-b'' (prepare_request sample_work ''/t'' []), CallCreate ''/t'' 0 ''nodejob-ab'',
     CallReport ''a-b'' ((plain JAccepted)\<lparr>rp_InstanceID := ''i'', rp_OperationID := ''o''\<rparr>), CallOperation ''o'']"

lemma sample_frozen_valid: "validateFrozen False sample_work sample_frozen = Inr ()"
proof -
  have "core_key (j_ID sample_work) = ''nodejob-ab''" "validCorePath False ''/t''" "\<not> validated_job sample_work"
    by code_simp+
  then show ?thesis by (simp add: validateFrozen_def sample_frozen_def rejectE_def)
qed

lemma sample_work_fields:
  "j_ID sample_work = ''a-b''" "j_Kind sample_work = KCreate" "j_State sample_work = JClaimed" "j_RequestedPort sample_work = 0"
  "j_FrozenCreate sample_work = None" "j_RequiredCapability sample_work = []" "j_TemplateBindingKey sample_work = ''key''"
  by (simp_all add: sample_work_def)

lemma sample_env_fields:
  "ev_Create sample_env h = Inr \<lparr>ac_Accepted = True, ac_InstanceID = ''i'', ac_OperationID = ''o''\<rparr>"
  "ev_Operation sample_env h = Inr \<lparr>op_OperationID = ''o'', op_Kind = ''create'', op_InstanceID = ''i'',
     op_Status = ''running'', op_Error = None\<rparr>"
  "ev_Prepare sample_env h = Inr sample_frozen" "ev_Report sample_env h = Inr ()"
  by (simp_all add: sample_env_def)

lemma sample_frozen_fields:
  "fc_Template sample_frozen = ''/t''" "fc_Port sample_frozen = 0" "fc_IdempotencyKey sample_frozen = ''nodejob-ab''"
  by (simp_all add: sample_frozen_def)

lemma sample_handled: "handle sample_env sample_runner sample_work True 30 [] = (Inr (), sample_calls)"
proof -
  have p: "validCorePath False ''/t''" by code_simp
  have rn: "rn_Windows sample_runner = False" "map_of (rn_Bindings sample_runner) ''key'' = Some ''/t''"
    by (simp_all add: sample_runner_def)
  note fields = sample_work_fields sample_env_fields sample_frozen_fields rn
  have v: "\<not> validated_job sample_work" by (simp add: validated_job_def fields RequiredContentValidationV102_def)
  have u: "\<not> validated_job (sample_work\<lparr>j_InstanceID := a, j_OperationID := b\<rparr>)" for a b
    by (simp add: validated_job_def fields RequiredContentValidationV102_def)
  note acts = bindA_def tryA_def returnA_def rejectA_def perform_def failA_def readA_def
  have create: "call_create sample_env sample_runner sample_work False sample_frozen h = (Inr (), tl sample_calls)" for h
    by (simp add: call_create_def core_Create_def observe_def observe_operation_def core_Operation_def send_report_def
        acts fields u incomplete_def accepted_report_def sample_calls_def Let_def)
  have "execute_frozen sample_env sample_runner sample_work False sample_frozen h = (Inr (), tl sample_calls)" for h
    using sample_frozen_valid by (simp add: execute_frozen_def v rn create)
  then show ?thesis
    by (simp add: handle_def checkExecutionSession_def run_create_def prepare_frozen_def prepare_path_def acts fields v p
        sample_calls_def Let_def)
qed

lemma runner_disciplined_witness: "good (disciplined sample_env sample_work True) [] sample_calls"
  by (rule runner_disciplined [OF sample_handled]) simp

end
