(* ===== verification/Identity.thy ===== *)
theory Identity
  imports System Sample Text Credentials
begin

text \<open>
  Identity (\<open>internal/platform/store/identity.go\<close>): the anonymous sessions of players and the passwords
  and sessions of administrators.  Random identifiers and token bytes are arguments, the key
  derivation is a parameter as in \<open>Auth\<close>, and so is what \<open>strings.ToLower\<close> does to text outside
  ASCII.  A login reads the administrator before its transaction: \<open>seen\<close> is the database of that
  read and \<open>d\<close> the one of the transaction.  The display name of a player is presentation only.
\<close>

section \<open>Session tables\<close>

definition userSessionLifetime :: time where "userSessionLifetime = 90 * 24 * hour"
definition adminSessionLifetime :: time where "adminSessionLifetime = 12 * hour"

definition sessions_check :: "session_row list \<Rightarrow> bool" where
  "sessions_check ss \<longleftrightarrow> distinct (map se_id ss) \<and> distinct (map se_hash ss)"

definition open_session :: "int list \<Rightarrow> time \<Rightarrow> session_row \<Rightarrow> bool" where
  "open_session h now s \<longleftrightarrow> se_hash s = h \<and> se_revoked s = None \<and> now < se_expires s"

definition revoke_hash :: "int list \<Rightarrow> time \<Rightarrow> session_row list \<Rightarrow> session_row list" where
  "revoke_hash h now ss = upd_where (\<lambda>s. se_hash s = h \<and> se_revoked s = None) (se_revoked_update (\<lambda>_. Some now)) ss"

section \<open>Players\<close>

definition CreateUserSession :: "uuid \<Rightarrow> uuid \<Rightarrow> int list \<Rightarrow> time \<Rightarrow> db \<Rightarrow> ((uuid \<times> string) \<times> db) res" where
  "CreateUserSession userID sessionID raw now d =
     (let (token, tokenHash) = NewToken raw;
          ss = user_sessions d @ [\<lparr>se_id = sessionID, se_owner = userID, se_hash = tokenHash, se_version = 0,
                 se_expires = now + userSessionLifetime, se_revoked = None\<rparr>] in
      rejectE (userID \<in> set (users d)) (Constraint ''users'') (
      rejectE (\<not> sessions_check ss) (Constraint ''user_sessions'')
        (Inr ((userID, token), d\<lparr>users := users d @ [userID], user_sessions := ss\<rparr>))))"

definition UserForToken :: "string \<Rightarrow> time \<Rightarrow> db \<Rightarrow> uuid res" where
  "UserForToken token now d = (case TokenHash token of
      None \<Rightarrow> Inl ErrInvalidCredentials
    | Some h \<Rightarrow> (case find (open_session h now) (user_sessions d) of
          None \<Rightarrow> Inl ErrInvalidCredentials
        | Some s \<Rightarrow> Inr (se_owner s)))"

definition RevokeUserToken :: "string \<Rightarrow> time \<Rightarrow> db \<Rightarrow> db res" where
  "RevokeUserToken token now d = (case TokenHash token of
      None \<Rightarrow> Inl ErrInvalidCredentials
    | Some h \<Rightarrow> Inr (d\<lparr>user_sessions := revoke_hash h now (user_sessions d)\<rparr>))"

section \<open>Administrators\<close>

definition lower_char :: "char \<Rightarrow> char" where
  "lower_char c = (if 65 \<le> byte_of c \<and> byte_of c \<le> 90 then char_of (nat (byte_of c) + 32) else c)"

definition ToLower :: "(string \<Rightarrow> string) \<Rightarrow> string \<Rightarrow> string" where
  "ToLower unicode s = (if list_all (\<lambda>c. byte_of c < 128) s then map lower_char s else unicode s)"

definition admin_name :: "(string \<Rightarrow> string) \<Rightarrow> string \<Rightarrow> string" where
  "admin_name unicode username = ToLower unicode (TrimSpace username)"

definition CreateAdmin ::
    "(string \<Rightarrow> string) \<Rightarrow> id_key \<Rightarrow> int list \<Rightarrow> uuid \<Rightarrow> string \<Rightarrow> string \<Rightarrow> db \<Rightarrow> (uuid \<times> db) res" where
  "CreateAdmin unicode IDKey salt adminID username password d =
     (let username = admin_name unicode username in
      rejectE (username = [] \<or> 128 < length username) (Invalid ''invalid admin username'') (
      case HashPassword IDKey salt password of
        None \<Rightarrow> Inl (Invalid ''admin password must contain 12 to 1024 bytes'')
      | Some enc \<Rightarrow>
          rejectE (exists_where (\<lambda>a. ad_id a = adminID \<or> ad_username a = username) (admins d)) (Constraint ''admin_users'')
            (Inr (adminID, write_audit ''operator_cli'' ''admin.create'' adminID
              (d\<lparr>admins := admins d @ [\<lparr>ad_id = adminID, ad_enabled = True, ad_username = username,
                 ad_password = enc, ad_version = 1\<rparr>]\<rparr>)))))"

definition ResetAdminPassword ::
    "(string \<Rightarrow> string) \<Rightarrow> id_key \<Rightarrow> int list \<Rightarrow> string \<Rightarrow> string \<Rightarrow> db \<Rightarrow> db res" where
  "ResetAdminPassword unicode IDKey salt username password d =
     (case HashPassword IDKey salt password of
        None \<Rightarrow> Inl (Invalid ''admin password must contain 12 to 1024 bytes'')
      | Some enc \<Rightarrow>
          bindE (fetch (\<lambda>a. ad_username a = admin_name unicode username) (admins d)) (\<lambda>a.
          Inr (write_audit ''operator_cli'' ''admin.reset_password'' (ad_id a)
            (d\<lparr>admins := upd_where (\<lambda>a. ad_username a = admin_name unicode username)
               (\<lambda>a. a\<lparr>ad_password := enc, ad_version := ad_version a + 1\<rparr>) (admins d)\<rparr>))))"

text \<open>The check of the credentials, and the session that the transaction issues for them.\<close>

definition check_admin ::
    "(string \<Rightarrow> string) \<Rightarrow> id_key \<Rightarrow> string \<Rightarrow> string \<Rightarrow> db \<Rightarrow> (uuid \<times> int) res" where
  "check_admin unicode IDKey username password seen =
     (case find (\<lambda>a. ad_username a = admin_name unicode username) (admins seen) of
        None \<Rightarrow> Inl ErrInvalidCredentials
      | Some a \<Rightarrow> rejectE (\<not> VerifyPassword IDKey (ad_password a) password \<or> \<not> ad_enabled a) ErrInvalidCredentials
                   (Inr (ad_id a, ad_version a)))"

definition issue_session :: "uuid \<Rightarrow> int \<Rightarrow> uuid \<Rightarrow> int list \<Rightarrow> time \<Rightarrow> db \<Rightarrow> db res" where
  "issue_session adminID version sessionID tokenHash now d =
     (let ss = admin_sessions d @ [\<lparr>se_id = sessionID, se_owner = adminID, se_hash = tokenHash, se_version = version,
                 se_expires = now + adminSessionLifetime, se_revoked = None\<rparr>] in
      rejectE (\<not> exists_where (\<lambda>a. ad_id a = adminID \<and> ad_enabled a \<and> ad_version a = version) (admins d))
        ErrInvalidCredentials (
      rejectE (\<not> sessions_check ss) (Constraint ''admin_sessions'')
        (Inr (d\<lparr>admin_sessions := ss\<rparr>))))"

definition LoginAdminRotating ::
    "(string \<Rightarrow> string) \<Rightarrow> id_key \<Rightarrow> string \<Rightarrow> string \<Rightarrow> string \<Rightarrow> uuid \<Rightarrow> int list \<Rightarrow> time \<Rightarrow> db \<Rightarrow> db
      \<Rightarrow> ((uuid \<times> string) \<times> db) res" where
  "LoginAdminRotating unicode IDKey username password previous sessionID raw now seen d =
     bindE (check_admin unicode IDKey username password seen) (\<lambda>(adminID, version).
     let (token, tokenHash) = NewToken raw in
     bindE (issue_session adminID version sessionID tokenHash now d) (\<lambda>d1.
     Inr ((adminID, token), case TokenHash previous of
        None \<Rightarrow> d1
      | Some oldHash \<Rightarrow> d1\<lparr>admin_sessions := revoke_hash oldHash now (admin_sessions d1)\<rparr>)))"

definition LoginAdmin ::
    "(string \<Rightarrow> string) \<Rightarrow> id_key \<Rightarrow> string \<Rightarrow> string \<Rightarrow> uuid \<Rightarrow> int list \<Rightarrow> time \<Rightarrow> db \<Rightarrow> db
      \<Rightarrow> ((uuid \<times> string) \<times> db) res" where
  "LoginAdmin unicode IDKey username password = LoginAdminRotating unicode IDKey username password []"

text \<open>The join of a session with its administrator.\<close>

definition authenticates :: "int list \<Rightarrow> time \<Rightarrow> session_row \<times> admin_row \<Rightarrow> bool" where
  "authenticates h now p = (case p of (s, a) \<Rightarrow> ad_id a = se_owner s \<and> open_session h now s
     \<and> ad_enabled a \<and> ad_version a = se_version s)"

definition AdminForToken :: "string \<Rightarrow> time \<Rightarrow> db \<Rightarrow> uuid res" where
  "AdminForToken token now d = (case TokenHash token of
      None \<Rightarrow> Inl ErrInvalidCredentials
    | Some h \<Rightarrow> (case find (authenticates h now) (List.product (admin_sessions d) (admins d)) of
          None \<Rightarrow> Inl ErrInvalidCredentials
        | Some (s, a) \<Rightarrow> Inr (ad_id a)))"

definition RevokeAdminToken :: "string \<Rightarrow> time \<Rightarrow> db \<Rightarrow> db res" where
  "RevokeAdminToken token now d = (case TokenHash token of
      None \<Rightarrow> Inl ErrInvalidCredentials
    | Some h \<Rightarrow> Inr (d\<lparr>admin_sessions := revoke_hash h now (admin_sessions d)\<rparr>))"

section \<open>What the tables keep\<close>

text \<open>Keys are unique, and no session carries a credential version that its administrator has not reached.\<close>

definition identity_ok :: "db \<Rightarrow> bool" where
  "identity_ok d \<longleftrightarrow> distinct (map ad_id (admins d)) \<and> distinct (map ad_username (admins d))
     \<and> sessions_check (admin_sessions d)
     \<and> (\<forall>s \<in> set (admin_sessions d). \<exists>a \<in> set (admins d). ad_id a = se_owner s \<and> se_version s \<le> ad_version a)"

text \<open>One operation on the administrators' tables; every other operation leaves both as they are.\<close>

inductive identity_step :: "db \<Rightarrow> db \<Rightarrow> bool" where
  create: "CreateAdmin unicode IDKey salt i u p d = Inr (x, d') \<Longrightarrow> identity_step d d'"
| reset: "ResetAdminPassword unicode IDKey salt u p d = Inr d' \<Longrightarrow> identity_step d d'"
| login: "LoginAdminRotating unicode IDKey u p previous i raw now seen d = Inr (x, d') \<Longrightarrow> identity_step d d'"
| revoke: "RevokeAdminToken token now d = Inr d' \<Longrightarrow> identity_step d d'"
| elsewhere: "admins d' = admins d \<Longrightarrow> admin_sessions d' = admin_sessions d \<Longrightarrow> identity_step d d'"

text \<open>How the rows move: administrators stay and only raise their version, sessions stay with their
  secret, owner and version, and a revocation is never taken back.\<close>

definition admin_moves :: "admin_row \<Rightarrow> admin_row \<Rightarrow> bool" where
  "admin_moves a a' \<longleftrightarrow> ad_id a' = ad_id a \<and> ad_username a' = ad_username a \<and> ad_enabled a' = ad_enabled a
     \<and> ad_version a \<le> ad_version a'"

definition session_moves :: "session_row \<Rightarrow> session_row \<Rightarrow> bool" where
  "session_moves s s' \<longleftrightarrow> se_id s' = se_id s \<and> se_hash s' = se_hash s \<and> se_owner s' = se_owner s
     \<and> se_version s' = se_version s \<and> se_expires s' = se_expires s \<and> (se_revoked s \<noteq> None \<longrightarrow> se_revoked s' = se_revoked s)"

definition sessions_evolve :: "db \<Rightarrow> db \<Rightarrow> bool" where
  "sessions_evolve d d' \<longleftrightarrow> (\<forall>a \<in> set (admins d). \<exists>a' \<in> set (admins d'). admin_moves a a')
     \<and> (\<forall>s \<in> set (admin_sessions d). \<exists>s' \<in> set (admin_sessions d'). session_moves s s')"

lemma in_upd_where: "r \<in> set rs \<Longrightarrow> (if P r then f r else r) \<in> set (upd_where P f rs)"
  by (simp add: upd_where_def)

text \<open>Columns that a revocation leaves alone, and the rows it reaches.\<close>

lemma map_revoke:
  "map se_id (revoke_hash h now ss) = map se_id ss" "map se_hash (revoke_hash h now ss) = map se_hash ss"
  by (simp_all add: revoke_hash_def map_upd_where)

lemma sessions_check_revoke [simp]: "sessions_check (revoke_hash h now ss) = sessions_check ss"
  by (simp add: sessions_check_def map_revoke)

lemma revoke_moves:
  assumes "s \<in> set ss"
  shows "\<exists>s' \<in> set (revoke_hash h now ss). session_moves s s'"
  unfolding revoke_hash_def by (rule bexI [OF _ in_upd_where [OF assms]]) (simp add: session_moves_def)

lemma in_revoke_hash:
  assumes "s' \<in> set (revoke_hash h now ss)"
  obtains s where "s \<in> set ss" "session_moves s s'" "se_hash s' = h \<longrightarrow> se_revoked s' \<noteq> None"
  using assms unfolding revoke_hash_def
  by (elim in_upd_whereE) (auto simp: session_moves_def)

lemma moves_refl [simp]: "admin_moves a a" "session_moves s s"
  by (simp_all add: admin_moves_def session_moves_def)

lemma evolve_refl: "sessions_evolve d d"
  by (auto simp: sessions_evolve_def intro: moves_refl)

lemma admin_moves_trans: "admin_moves a b \<Longrightarrow> admin_moves b c \<Longrightarrow> admin_moves a c"
  by (simp add: admin_moves_def)

lemma session_moves_trans: "session_moves a b \<Longrightarrow> session_moves b c \<Longrightarrow> session_moves a c"
  by (auto simp: session_moves_def)

lemma evolve_trans: "sessions_evolve d e \<Longrightarrow> sessions_evolve e f \<Longrightarrow> sessions_evolve d f"
  unfolding sessions_evolve_def by (meson admin_moves_trans session_moves_trans)

section \<open>Every operation keeps the tables well formed\<close>

text \<open>New rows at the end, or revocations in place.\<close>

lemma ok_new_admin:
  assumes "identity_ok d" "\<forall>a \<in> set (admins d). ad_id a \<noteq> ad_id b \<and> ad_username a \<noteq> ad_username b"
    and "admins d' = admins d @ [b]" "admin_sessions d' = admin_sessions d"
  shows "identity_ok d' \<and> sessions_evolve d d'"
proof
  show "identity_ok d'" using assms by (force simp: identity_ok_def)
  show "sessions_evolve d d'" using assms(3,4) by (auto simp: sessions_evolve_def intro: moves_refl)
qed

lemma ok_new_session:
  assumes "identity_ok d" "sessions_check (admin_sessions d @ [s])"
    and "\<exists>a \<in> set (admins d). ad_id a = se_owner s \<and> se_version s \<le> ad_version a"
    and "admins d' = admins d" "admin_sessions d' = admin_sessions d @ [s]"
  shows "identity_ok d' \<and> sessions_evolve d d'"
proof
  show "identity_ok d'" using assms by (auto simp: identity_ok_def)
  show "sessions_evolve d d'" using assms(4,5) by (auto simp: sessions_evolve_def intro: moves_refl)
qed

lemma ok_revoke:
  assumes "identity_ok d" "admins d' = admins d" "admin_sessions d' = revoke_hash h now (admin_sessions d)"
  shows "identity_ok d' \<and> sessions_evolve d d'"
proof
  have "\<exists>a \<in> set (admins d). ad_id a = se_owner s' \<and> se_version s' \<le> ad_version a"
    if s': "s' \<in> set (revoke_hash h now (admin_sessions d))" for s'
  proof -
    obtain s where s: "s \<in> set (admin_sessions d)" "session_moves s s'" using s' by (rule in_revoke_hash)
    obtain a where "a \<in> set (admins d)" "ad_id a = se_owner s" "se_version s \<le> ad_version a"
      using assms(1) s(1) by (auto simp: identity_ok_def)
    with s(2) show ?thesis by (auto simp: session_moves_def)
  qed
  then show "identity_ok d'" using assms by (auto simp: identity_ok_def)
  show "sessions_evolve d d'"
    using assms(2,3) revoke_moves by (auto simp: sessions_evolve_def intro: moves_refl)
qed

lemma ok_reset:
  assumes ok: "identity_ok d" and admins': "admins d' = upd_where P (\<lambda>a. a\<lparr>ad_password := enc, ad_version := ad_version a + 1\<rparr>) (admins d)"
    and same: "admin_sessions d' = admin_sessions d"
  shows "identity_ok d' \<and> sessions_evolve d d'"
proof
  let ?f = "\<lambda>a. a\<lparr>ad_password := enc, ad_version := ad_version a + 1\<rparr>"
  have moved: "\<exists>a' \<in> set (admins d'). admin_moves a a'" if "a \<in> set (admins d)" for a
    unfolding admins' by (rule bexI [OF _ in_upd_where [OF that]]) (simp add: admin_moves_def)
  have cols: "map ad_id (admins d') = map ad_id (admins d)" "map ad_username (admins d') = map ad_username (admins d)"
    by (simp_all add: admins' map_upd_where)
  have "\<exists>a' \<in> set (admins d'). ad_id a' = se_owner s \<and> se_version s \<le> ad_version a'"
    if s: "s \<in> set (admin_sessions d)" for s
  proof -
    obtain a where a: "a \<in> set (admins d)" "ad_id a = se_owner s" "se_version s \<le> ad_version a"
      using ok s by (auto simp: identity_ok_def)
    obtain a' where "a' \<in> set (admins d')" "admin_moves a a'" using moved [OF a(1)] by blast
    with a(2,3) show ?thesis by (auto simp: admin_moves_def)
  qed
  then show "identity_ok d'" using ok cols same by (simp add: identity_ok_def)
  show "sessions_evolve d d'" using moved same by (auto simp: sessions_evolve_def intro: moves_refl)
qed

text \<open>What a successful operation did.\<close>

lemma CreateAdmin_cases:
  assumes "CreateAdmin unicode IDKey salt i u p d = Inr (x, d')"
  obtains b where "\<forall>a \<in> set (admins d). ad_id a \<noteq> ad_id b \<and> ad_username a \<noteq> ad_username b"
    "admins d' = admins d @ [b]" "admin_sessions d' = admin_sessions d"
proof (cases "HashPassword IDKey salt p")
  case None
  then show ?thesis using assms by (simp add: CreateAdmin_def Let_def rejectE_def split: if_splits)
next
  case (Some enc)
  let ?b = "\<lparr>ad_id = i, ad_enabled = True, ad_username = admin_name unicode u, ad_password = enc, ad_version = 1\<rparr>"
  have "(\<forall>a \<in> set (admins d). ad_id a \<noteq> i \<and> ad_username a \<noteq> admin_name unicode u)
      \<and> d' = write_audit ''operator_cli'' ''admin.create'' i (d\<lparr>admins := admins d @ [?b]\<rparr>)"
    using assms unfolding CreateAdmin_def Let_def Some option.case rejectE_Inr by auto
  then show ?thesis by (intro that [of ?b]) (simp_all add: write_audit_def)
qed

lemma ResetAdminPassword_cases:
  assumes "ResetAdminPassword unicode IDKey salt u p d = Inr d'"
  obtains enc a where "HashPassword IDKey salt p = Some enc" "a \<in> set (admins d)" "ad_username a = admin_name unicode u"
    "admins d' = upd_where (\<lambda>a. ad_username a = admin_name unicode u)
       (\<lambda>a. a\<lparr>ad_password := enc, ad_version := ad_version a + 1\<rparr>) (admins d)"
    "admin_sessions d' = admin_sessions d"
  using assms by (auto simp: ResetAdminPassword_def write_audit_def bindE_Inr fetch_Inr dest!: find_SomeD split: option.splits)

lemma issue_session_cases:
  assumes "issue_session i v si h now d = Inr d'"
  obtains a s where "a \<in> set (admins d)" "ad_id a = i" "ad_enabled a" "ad_version a = v"
    "s = \<lparr>se_id = si, se_owner = i, se_hash = h, se_version = v, se_expires = now + adminSessionLifetime, se_revoked = None\<rparr>"
    "sessions_check (admin_sessions d @ [s])" "admins d' = admins d" "admin_sessions d' = admin_sessions d @ [s]"
  using assms by (auto simp: issue_session_def Let_def rejectE_Inr)

lemma LoginAdminRotating_cases:
  assumes "LoginAdminRotating unicode IDKey u p previous si raw now seen d = Inr ((i, token), d')"
  obtains v d1 where "check_admin unicode IDKey u p seen = Inr (i, v)" "token = fst (NewToken raw)"
    "issue_session i v si (snd (NewToken raw)) now d = Inr d1" "admins d' = admins d1"
    "case TokenHash previous of None \<Rightarrow> d' = d1 | Some h \<Rightarrow> admin_sessions d' = revoke_hash h now (admin_sessions d1)"
proof -
  from assms obtain v d1 where r: "check_admin unicode IDKey u p seen = Inr (i, v)"
    "issue_session i v si (snd (NewToken raw)) now d = Inr d1" "token = fst (NewToken raw)"
    "d' = (case TokenHash previous of None \<Rightarrow> d1
        | Some oldHash \<Rightarrow> d1\<lparr>admin_sessions := revoke_hash oldHash now (admin_sessions d1)\<rparr>)"
    unfolding LoginAdminRotating_def bindE_Inr by (cases "NewToken raw") (auto simp: bindE_Inr simp del: NewToken_def)
  show thesis by (rule that [OF r(1,3,2)]) (use r(4) in \<open>auto split: option.split\<close>)
qed

lemma identity_step_ok:
  assumes "identity_step d d'" "identity_ok d"
  shows "identity_ok d' \<and> sessions_evolve d d'"
  using assms
proof (induction rule: identity_step.induct)
  case (create unicode IDKey salt i u p d x d')
  then show ?case
    using CreateAdmin_cases [OF create.hyps] ok_new_admin by metis
next
  case (reset unicode IDKey salt u p d d')
  obtain enc where "admins d' = upd_where (\<lambda>a. ad_username a = admin_name unicode u)
       (\<lambda>a. a\<lparr>ad_password := enc, ad_version := ad_version a + 1\<rparr>) (admins d)"
    "admin_sessions d' = admin_sessions d"
    using reset.hyps by (rule ResetAdminPassword_cases)
  then show ?case by (rule ok_reset [OF reset.prems])
next
  case (login unicode IDKey u p previous si raw now seen d x d')
  obtain i token where x: "x = (i, token)" by (cases x)
  obtain v d1 where issued: "issue_session i v si (snd (NewToken raw)) now d = Inr d1" and keep: "admins d' = admins d1"
    and rest: "case TokenHash previous of None \<Rightarrow> d' = d1 | Some h \<Rightarrow> admin_sessions d' = revoke_hash h now (admin_sessions d1)"
    using login.hyps [unfolded x] by (rule LoginAdminRotating_cases)
  obtain a s where as: "a \<in> set (admins d)" "ad_id a = i" "ad_enabled a" "ad_version a = v"
    "s = \<lparr>se_id = si, se_owner = i, se_hash = snd (NewToken raw), se_version = v, se_expires = now + adminSessionLifetime, se_revoked = None\<rparr>"
    "sessions_check (admin_sessions d @ [s])" "admins d1 = admins d" "admin_sessions d1 = admin_sessions d @ [s]"
    using issued by (rule issue_session_cases)
  have one: "identity_ok d1 \<and> sessions_evolve d d1"
    by (rule ok_new_session [OF login.prems as(6) _ as(7,8)]) (use as(1,2,4,5) in auto)
  show ?case
  proof (cases "TokenHash previous")
    case None
    then show ?thesis using one rest by simp
  next
    case (Some h)
    then have "identity_ok d' \<and> sessions_evolve d1 d'" using one rest by (intro ok_revoke [OF _ keep]) simp_all
    then show ?thesis using one evolve_trans by blast
  qed
next
  case (revoke token now d d')
  then obtain h where "d' = d\<lparr>admin_sessions := revoke_hash h now (admin_sessions d)\<rparr>"
    by (auto simp: RevokeAdminToken_def split: option.splits)
  then show ?case by (intro ok_revoke [OF revoke.prems]) simp_all
next
  case (elsewhere d' d)
  then show ?case by (simp add: identity_ok_def sessions_evolve_def) (auto intro: moves_refl)
qed

lemma identity_steps_ok:
  assumes "identity_step\<^sup>*\<^sup>* d d'" "identity_ok d"
  shows "identity_ok d' \<and> sessions_evolve d d'"
  using assms
proof (induction rule: rtranclp_induct)
  case base
  then show ?case by (simp add: evolve_refl)
next
  case (step d1 d2)
  then show ?case using identity_step_ok evolve_trans by blast
qed

section \<open>Authentication\<close>

lemma same_admin: "identity_ok d \<Longrightarrow> a \<in> set (admins d) \<Longrightarrow> b \<in> set (admins d) \<Longrightarrow> ad_id a = ad_id b \<Longrightarrow> a = b"
  by (auto simp: identity_ok_def distinct_map inj_on_def)

lemma same_session:
  "identity_ok d \<Longrightarrow> s \<in> set (admin_sessions d) \<Longrightarrow> t \<in> set (admin_sessions d) \<Longrightarrow> se_hash s = se_hash t \<Longrightarrow> s = t"
  by (auto simp: identity_ok_def sessions_check_def distinct_map inj_on_def)

lemma authenticates_iff:
  "authenticates h now (s, a) \<longleftrightarrow> ad_id a = se_owner s \<and> se_hash s = h \<and> se_revoked s = None
     \<and> now < se_expires s \<and> ad_enabled a \<and> ad_version a = se_version s"
  by (auto simp: authenticates_def open_session_def)

lemma AdminForToken_Inr:
  assumes "AdminForToken token now d = Inr i"
  obtains h s a where "TokenHash token = Some h" "s \<in> set (admin_sessions d)" "a \<in> set (admins d)"
    "authenticates h now (s, a)" "ad_id a = i"
  using assms by (auto simp: AdminForToken_def split: option.splits dest!: find_SomeD)

lemma AdminForToken_iff:
  assumes "identity_ok d" "TokenHash token = Some h"
  shows "AdminForToken token now d = Inr i \<longleftrightarrow>
    (\<exists>s \<in> set (admin_sessions d). \<exists>a \<in> set (admins d). authenticates h now (s, a) \<and> ad_id a = i)"
proof
  assume "AdminForToken token now d = Inr i"
  then show "\<exists>s \<in> set (admin_sessions d). \<exists>a \<in> set (admins d). authenticates h now (s, a) \<and> ad_id a = i"
    using assms(2) by (elim AdminForToken_Inr) (simp, blast)
next
  assume "\<exists>s \<in> set (admin_sessions d). \<exists>a \<in> set (admins d). authenticates h now (s, a) \<and> ad_id a = i"
  then obtain s a where sa: "s \<in> set (admin_sessions d)" "a \<in> set (admins d)" "authenticates h now (s, a)" "ad_id a = i" by blast
  obtain p where p: "find (authenticates h now) (List.product (admin_sessions d) (admins d)) = Some p"
    using sa(1-3) by (cases "find (authenticates h now) (List.product (admin_sessions d) (admins d))") (auto simp: find_None_iff)
  obtain s' a' where p': "p = (s', a')" by (cases p)
  have in': "s' \<in> set (admin_sessions d)" "a' \<in> set (admins d)" "authenticates h now (s', a')"
    using find_SomeD [OF p] p' by auto
  have "s' = s"
    using in'(3) sa(3) by (intro same_session [OF assms(1) in'(1) sa(1)]) (simp add: authenticates_iff)
  then have "ad_id a' = i" using in'(3) sa(3,4) by (simp add: authenticates_def)
  then show "AdminForToken token now d = Inr i" using p p' assms(2) by (simp add: AdminForToken_def)
qed

lemma AdminForToken_error: "AdminForToken token now d = Inl e \<Longrightarrow> e = ErrInvalidCredentials"
  by (auto simp: AdminForToken_def split: option.splits)

lemma AdminForToken_refused:
  "(\<And>i. AdminForToken token now d \<noteq> Inr i) \<Longrightarrow> AdminForToken token now d = Inl ErrInvalidCredentials"
  using AdminForToken_error by (cases "AdminForToken token now d") auto

text \<open>A session that still opens now has opened before, whatever happened in between.\<close>

lemma admitted_before:
  assumes ok: "identity_ok d" "identity_ok d'" and ev: "sessions_evolve d d'" and t: "now \<le> now'"
    and s: "s \<in> set (admin_sessions d)" "TokenHash token = Some (se_hash s)"
    and now': "AdminForToken token now' d' = Inr i"
  shows "AdminForToken token now d = Inr i"
proof -
  obtain s' a' where in': "s' \<in> set (admin_sessions d')" "a' \<in> set (admins d')" "authenticates (se_hash s) now' (s', a')" "ad_id a' = i"
    using now' s(2) by (auto elim: AdminForToken_Inr)
  obtain t' where t': "t' \<in> set (admin_sessions d')" "session_moves s t'" using ev s(1) by (auto simp: sessions_evolve_def)
  have "se_hash t' = se_hash s'" using t'(2) in'(3) by (simp add: session_moves_def authenticates_def open_session_def)
  then have mv: "session_moves s s'"
    using same_session [OF ok(2) t'(1) in'(1)] t'(2) by simp
  obtain a where a: "a \<in> set (admins d)" "ad_id a = se_owner s" "se_version s \<le> ad_version a"
    using ok(1) s(1) by (auto simp: identity_ok_def)
  obtain b where b: "b \<in> set (admins d')" "admin_moves a b" using ev a(1) by (auto simp: sessions_evolve_def)
  have "ad_id b = ad_id a'" using b(2) a(2) in'(3) mv by (simp add: authenticates_def admin_moves_def session_moves_def)
  then have "b = a'" by (rule same_admin [OF ok(2) b(1) in'(2)])
  then have "authenticates (se_hash s) now (s, a)" "ad_id a = i"
    using b(2) a(2,3) in'(3,4) mv t by (auto simp: authenticates_def admin_moves_def session_moves_def open_session_def)
  then show ?thesis unfolding AdminForToken_iff [OF ok(1) s(2)] using s(1) a(1) by blast
qed

section \<open>A sample office\<close>

definition sample_key :: id_key where
  "sample_key = (\<lambda>pw s t m th k. replicate k (int (length pw) mod 256))"

definition sample_token :: "string \<times> int list" where
  "sample_token = NewToken (replicate 32 7)"

definition root_admin :: admin_row where
  "root_admin = \<lparr>ad_id = 9, ad_enabled = True, ad_username = ''root'', ad_password = [], ad_version = 1\<rparr>"

definition root_session :: session_row where
  "root_session = \<lparr>se_id = 20, se_owner = 9, se_hash = snd sample_token, se_version = 1, se_expires = 50, se_revoked = None\<rparr>"

definition office_db :: db where
  "office_db = sample_db\<lparr>admins := [root_admin], admin_sessions := [root_session]\<rparr>"

lemma office_tables: "admins office_db = [root_admin]" "admin_sessions office_db = [root_session]"
  by (simp_all add: office_db_def)

lemma office_ok: "identity_ok office_db"
  by (simp add: identity_ok_def office_tables sessions_check_def root_admin_def root_session_def)

lemma root_name: "admin_name id '' Root '' = ''root''"
  by code_simp

lemma sample_token_hash: "TokenHash (fst sample_token) = Some (snd sample_token)"
  unfolding sample_token_def by (rule token_hash_new) (simp_all add: list_all_iff is_byte_def TokenBytes_def)

section \<open>Guarantees\<close>

text \<open>
  C25: A password reset ends every session of the administrator for good.  On well-formed tables, after a
  successful reset, no token of a session that the administrator had before is accepted again, at no later
  time and after no sequence of operations on accounts and sessions, logins that read the old password
  included.
\<close>

theorem reset_ends_sessions:
  assumes "identity_ok d" "ResetAdminPassword unicode IDKey salt username password d = Inr d1"
    and "s \<in> set (admin_sessions d)" "a \<in> set (admins d)" "ad_username a = admin_name unicode username"
    and "se_owner s = ad_id a" "TokenHash token = Some (se_hash s)" "identity_step\<^sup>*\<^sup>* d1 d2"
  shows "AdminForToken token now d2 = Inl ErrInvalidCredentials"
proof (rule AdminForToken_refused)
  fix i
  have ok1: "identity_ok d1" using identity_step_ok [OF identity_step.reset [OF assms(2)] assms(1)] by blast
  obtain enc where d1: "admins d1 = upd_where (\<lambda>a. ad_username a = admin_name unicode username)
       (\<lambda>a. a\<lparr>ad_password := enc, ad_version := ad_version a + 1\<rparr>) (admins d)" "admin_sessions d1 = admin_sessions d"
    using assms(2) by (rule ResetAdminPassword_cases)
  have raised: "se_version s < ad_version b" if b: "b \<in> set (admins d1)" "ad_id b = se_owner s" for b
  proof -
    obtain a0 where a0: "a0 \<in> set (admins d)" "ad_id a0 = se_owner s" "se_version s \<le> ad_version a0"
      using assms(1,3) by (auto simp: identity_ok_def)
    then have same: "a0 = a" using assms(6) by (intro same_admin [OF assms(1) _ assms(4)]) simp_all
    let ?a = "a\<lparr>ad_password := enc, ad_version := ad_version a + 1\<rparr>"
    have "(if ad_username a = admin_name unicode username
        then a\<lparr>ad_password := enc, ad_version := ad_version a + 1\<rparr> else a) \<in> set (admins d1)"
      unfolding d1 by (rule in_upd_where [OF assms(4)])
    then have "?a \<in> set (admins d1)" using assms(5) by simp
    then have "b = ?a" using same_admin [OF ok1 b(1)] b(2) assms(6) by simp
    then show ?thesis using a0(3) same by simp
  qed
  have refused: "AdminForToken token t d1 \<noteq> Inr i" for t
  proof
    assume "AdminForToken token t d1 = Inr i"
    then obtain s' b where sb: "s' \<in> set (admin_sessions d1)" "b \<in> set (admins d1)" "authenticates (se_hash s) t (s', b)"
      using AdminForToken_iff [OF ok1 assms(7)] by blast
    have "s' = s" using sb(1,3) assms(3) d1(2) by (intro same_session [OF assms(1)]) (simp_all add: authenticates_iff)
    then show False using raised [OF sb(2)] sb(3) by (simp add: authenticates_iff)
  qed
  have steps: "identity_ok d2" "sessions_evolve d1 d2" using identity_steps_ok [OF assms(8) ok1] by simp_all
  show "AdminForToken token now d2 \<noteq> Inr i"
    using admitted_before [OF ok1 steps order_refl, of s token now i] assms(3,7) d1(2) refused by auto
qed

lemma reset_ends_sessions_witness:
  "AdminForToken (fst sample_token) 5 office_db = Inr 9
   \<and> (\<exists>d1. ResetAdminPassword id sample_key (replicate 16 9) '' Root '' ''correct horse'' office_db = Inr d1
        \<and> AdminForToken (fst sample_token) 5 d1 = Inl ErrInvalidCredentials)"
proof
  show "AdminForToken (fst sample_token) 5 office_db = Inr 9"
    by (simp add: AdminForToken_iff [OF office_ok sample_token_hash] office_tables authenticates_iff root_session_def root_admin_def)
  obtain enc where e: "HashPassword sample_key (replicate 16 9) ''correct horse'' = Some enc"
    by (simp add: HashPassword_def Let_def)
  obtain d1 where d1: "ResetAdminPassword id sample_key (replicate 16 9) '' Root '' ''correct horse'' office_db = Inr d1"
    by (simp add: ResetAdminPassword_def e root_name office_tables fetch_def root_admin_def)
  have "AdminForToken (fst sample_token) 5 d1 = Inl ErrInvalidCredentials"
    by (rule reset_ends_sessions [OF office_ok d1, where s = root_session and a = root_admin])
      (simp_all add: office_tables root_name root_admin_def root_session_def sample_token_hash)
  with d1 show "\<exists>d1. ResetAdminPassword id sample_key (replicate 16 9) '' Root '' ''correct horse'' office_db = Inr d1
        \<and> AdminForToken (fst sample_token) 5 d1 = Inl ErrInvalidCredentials" by blast
qed

text \<open>
  C26: A login lets in exactly one administrator, for twelve hours.  The token that a successful login hands
  out authenticates, from then until its expiry and not after it, the administrator whose name was given; the
  password was verified against the hash that was read, the account was enabled, and its credentials had not
  changed between the read and the transaction.
\<close>

theorem login_authenticates:
  assumes "identity_ok d"
    and "LoginAdminRotating unicode IDKey username password previous sessionID raw now seen d = Inr ((i, token), d')"
    and "list_all is_byte raw" "length raw = TokenBytes" "TokenHash previous \<noteq> TokenHash token" "now \<le> t"
  shows "(AdminForToken token t d' = Inr i \<longleftrightarrow> t < now + adminSessionLifetime)
    \<and> (\<exists>a \<in> set (admins seen). \<exists>b \<in> set (admins d). ad_id a = i \<and> ad_username a = admin_name unicode username
        \<and> VerifyPassword IDKey (ad_password a) password \<and> ad_enabled a
        \<and> ad_id b = i \<and> ad_enabled b \<and> ad_version b = ad_version a)"
proof -
  obtain v d1 where l: "check_admin unicode IDKey username password seen = Inr (i, v)" "token = fst (NewToken raw)"
    "issue_session i v sessionID (snd (NewToken raw)) now d = Inr d1" "admins d' = admins d1"
    "case TokenHash previous of None \<Rightarrow> d' = d1 | Some h \<Rightarrow> admin_sessions d' = revoke_hash h now (admin_sessions d1)"
    using assms(2) by (rule LoginAdminRotating_cases)
  obtain b s where b: "b \<in> set (admins d)" "ad_id b = i" "ad_enabled b" "ad_version b = v"
    and s: "s = \<lparr>se_id = sessionID, se_owner = i, se_hash = snd (NewToken raw), se_version = v,
      se_expires = now + adminSessionLifetime, se_revoked = None\<rparr>"
    and d1: "admins d1 = admins d" "admin_sessions d1 = admin_sessions d @ [s]"
    using l(3) by (rule issue_session_cases)
  obtain a where a: "a \<in> set (admins seen)" "ad_id a = i" "ad_version a = v" "ad_username a = admin_name unicode username"
    "VerifyPassword IDKey (ad_password a) password" "ad_enabled a"
    using l(1) by (auto simp: check_admin_def rejectE_Inr split: option.splits dest!: find_SomeD)
  have hash: "TokenHash token = Some (snd (NewToken raw))" unfolding l(2) by (rule token_hash_new [OF assms(3,4)])
  have ok': "identity_ok d'" using identity_step_ok [OF identity_step.login [OF assms(2)] assms(1)] by blast
  have kept: "s \<in> set (admin_sessions d')"
  proof (cases "TokenHash previous")
    case None
    then show ?thesis using l(5) d1(2) by simp
  next
    case (Some h)
    then have "se_hash s \<noteq> h" using assms(5) hash by (simp add: s)
    moreover have "(if se_hash s = h \<and> se_revoked s = None then se_revoked_update (\<lambda>_. Some now) s else s)
        \<in> set (revoke_hash h now (admin_sessions d1))"
      unfolding revoke_hash_def by (rule in_upd_where) (simp add: d1(2))
    ultimately show ?thesis using l(5) Some by (simp split: if_splits)
  qed
  have "AdminForToken token t d' = Inr i \<longleftrightarrow> t < now + adminSessionLifetime"
    unfolding AdminForToken_iff [OF ok' hash]
  proof
    assume "t < now + adminSessionLifetime"
    then have "authenticates (snd (NewToken raw)) t (s, b)" using b by (simp add: s authenticates_def open_session_def)
    then show "\<exists>s \<in> set (admin_sessions d'). \<exists>a \<in> set (admins d'). authenticates (snd (NewToken raw)) t (s, a) \<and> ad_id a = i"
      using kept b(1,2) l(4) d1(1) by auto
  next
    assume "\<exists>s \<in> set (admin_sessions d'). \<exists>a \<in> set (admins d'). authenticates (snd (NewToken raw)) t (s, a) \<and> ad_id a = i"
    then obtain s' b' where o: "s' \<in> set (admin_sessions d')" "authenticates (snd (NewToken raw)) t (s', b')" by blast
    have "s' = s" using o(2) by (intro same_session [OF ok' o(1) kept]) (simp add: authenticates_iff s)
    then show "t < now + adminSessionLifetime" using o(2) by (simp add: s authenticates_iff)
  qed
  then show ?thesis using a b by blast
qed

definition office_login :: "((uuid \<times> string) \<times> db) res" where
  "office_login = (let enc = the (HashPassword sample_key (replicate 16 9) ''correct horse'') in
     LoginAdmin id sample_key ''root'' ''correct horse'' 21 (replicate 32 7) 100
       (sample_db\<lparr>admins := [root_admin\<lparr>ad_password := enc\<rparr>]\<rparr>) (sample_db\<lparr>admins := [root_admin\<lparr>ad_password := enc\<rparr>]\<rparr>))"

lemma login_authenticates_witness:
  "\<exists>d'. office_login = Inr ((9, fst sample_token), d') \<and> AdminForToken (fst sample_token) 101 d' = Inr 9"
proof -
  let ?enc = "the (HashPassword sample_key (replicate 16 9) ''correct horse'')"
  let ?d = "sample_db\<lparr>admins := [root_admin\<lparr>ad_password := ?enc\<rparr>]\<rparr>"
  obtain enc where enc: "HashPassword sample_key (replicate 16 9) ''correct horse'' = Some enc"
    by (simp add: HashPassword_def Let_def)
  have verify: "VerifyPassword sample_key ?enc ''correct horse''" unfolding enc option.sel
    by (subst verify_hash [OF enc]) (simp_all add: saltBytes_def list_all_iff is_byte_def argonKeyBytes_def sample_key_def)
  have name: "admin_name id ''root'' = ''root''" by code_simp
  have none: "TokenHash [] = None" by (simp add: TokenHash_def b64_decode_def TokenBytes_def)
  have empty: "admin_sessions sample_db = []" by (simp add: sample_db_def)
  obtain tok h where st: "sample_token = (tok, h)" by (cases sample_token)
  have split: "NewToken (replicate 32 7) = (tok, h)" by (simp add: st flip: sample_token_def)
  obtain d' where d': "LoginAdminRotating id sample_key ''root'' ''correct horse'' [] 21 (replicate 32 7) 100 ?d ?d
      = Inr ((9, fst sample_token), d')"
    by (simp add: LoginAdminRotating_def check_admin_def issue_session_def Let_def name verify none empty
        root_admin_def split st sessions_check_def)
  have ok: "identity_ok ?d" by (simp add: identity_ok_def empty sessions_check_def)
  have "AdminForToken (fst sample_token) 101 d' = Inr 9"
    using login_authenticates [OF ok d', of 101]
    by (simp add: list_all_iff is_byte_def TokenBytes_def none sample_token_hash adminSessionLifetime_def hour_def minute_def second_def)
  then show ?thesis using d' by (simp add: office_login_def LoginAdmin_def Let_def)
qed

end
