(* ===== verification/Release.thy ===== *)
theory Release
  imports Endings
begin

text \<open>
  Releases (\<open>internal/platform/store/release.go\<close>): one transaction that compares the plan with the
  content and presets of a game, demands a current machine proof for every preset it opens, and then moves
  the content and the template of each preset, records the release and answers a repeated request with the
  first result.  An empty optional identifier is None; a text that is not an identifier at all is rejected
  by the queries of the code as one that no row has.
\<close>

section \<open>The request\<close>

record ReleasePresetPlan =
  rpp_PresetID :: uuid
  rpp_OldRevision :: string
  rpp_NewRevision :: string
  rpp_OldAccepting :: bool
  rpp_NewAccepting :: bool
  rpp_ValidationRunID :: "uuid option"

record ReleasePublishRequest =
  rpr_GameID :: "uuid option"
  rpr_OldContent :: string
  rpr_NewContent :: string
  rpr_Presets :: "ReleasePresetPlan list"
  rpr_RollbackOf :: "uuid option"
  rpr_RequestID :: string

definition optional_id :: "string \<Rightarrow> uuid option \<Rightarrow> (string \<times> string) list" where
  "optional_id k i = (case i of None \<Rightarrow> [] | Some i \<Rightarrow> [(k, json_string (uuid_text i))])"

definition plan_json :: "ReleasePresetPlan \<Rightarrow> string" where
  "plan_json p = json_object
     ([(''presetId'', json_string (uuid_text (rpp_PresetID p))),
       (''expectedOldTemplateRevisionId'', json_string (rpp_OldRevision p)),
       (''newTemplateRevisionId'', json_string (rpp_NewRevision p)),
       (''expectedOldAccepting'', json_bool (rpp_OldAccepting p)), (''newAccepting'', json_bool (rpp_NewAccepting p))]
      @ optional_id ''validationRunId'' (rpp_ValidationRunID p))"

definition release_hash :: "ReleasePublishRequest \<Rightarrow> string" where
  "release_hash r = sha256_hex (json_object
     ([(''gameId'', json_string (case rpr_GameID r of None \<Rightarrow> [] | Some g \<Rightarrow> uuid_text g)),
       (''expectedOldContentVersionId'', json_string (rpr_OldContent r)),
       (''newContentVersionId'', json_string (rpr_NewContent r)),
       (''presets'', json_array (map plan_json (rpr_Presets r)))]
      @ optional_id ''rollbackOfReleaseId'' (rpr_RollbackOf r) @ [(''requestId'', json_string (rpr_RequestID r))]))"

section \<open>Comparison with the presets of the game\<close>

definition game_presets :: "uuid \<Rightarrow> db \<Rightarrow> preset_row list" where
  "game_presets game d = order_by ps_id (filter (\<lambda>p. ps_game p = game) (presets d))"

text \<open>The first release of a game: it has no history yet, or a preset from before the validated contract.\<close>

definition first_release :: "uuid \<Rightarrow> db \<Rightarrow> bool" where
  "first_release game d \<longleftrightarrow> exists_where (\<lambda>p. ps_contract p \<noteq> V102Contract) (game_presets game d)
     \<or> \<not> exists_where (\<lambda>r. rl_game r = game) (releases d)"

definition stale_plan :: "uuid \<Rightarrow> db \<Rightarrow> uuid list \<Rightarrow> ReleasePresetPlan \<Rightarrow> bool" where
  "stale_plan game d seen p \<longleftrightarrow> rpp_PresetID p \<in> set seen \<or> rpp_NewRevision p = []
     \<or> \<not> exists_where (\<lambda>x. ps_id x = rpp_PresetID p \<and> ps_revision x = rpp_OldRevision p
           \<and> ps_accepting x = rpp_OldAccepting p) (game_presets game d)"

fun check_plans :: "uuid \<Rightarrow> db \<Rightarrow> uuid list \<Rightarrow> ReleasePresetPlan list \<Rightarrow> uuid list res" where
  "check_plans game d seen [] = Inr seen"
| "check_plans game d seen (p # ps) =
     rejectE (stale_plan game d seen p) ErrCASConflict (
     rejectE (rpp_NewAccepting p \<and> rpp_ValidationRunID p = None) ErrValidationIncomplete (
     rejectE (\<not> rpp_NewAccepting p \<and> rpp_ValidationRunID p \<noteq> None) ErrInvalidAdminAction (
     rejectE ((rpp_NewRevision p, game) \<notin> set (revisions d)) ErrInvalidAdminAction
       (check_plans game d (seen @ [rpp_PresetID p]) ps))))"

text \<open>A rollback names a release of the game and moves the content back the way that release moved it.\<close>

definition check_rollback :: "uuid \<Rightarrow> string \<Rightarrow> ReleasePublishRequest \<Rightarrow> db \<Rightarrow> unit res" where
  "check_rollback game oldContent r d = (case rpr_RollbackOf r of
      None \<Rightarrow> Inr ()
    | Some i \<Rightarrow> (case find (\<lambda>l. rl_id l = i \<and> rl_game l = game) (releases d) of
          None \<Rightarrow> Inl ErrCASConflict
        | Some l \<Rightarrow> rejectE (rl_new l \<noteq> oldContent \<or> coalesce (rl_old l) [] \<noteq> rpr_NewContent r) ErrCASConflict (Inr ())))"

section \<open>Proofs\<close>

text \<open>The nodes of the validation runs that the plans name, by plan.\<close>

fun proof_nodes :: "db \<Rightarrow> ReleasePresetPlan list \<Rightarrow> (ReleasePresetPlan \<times> uuid) list res" where
  "proof_nodes d [] = Inr []"
| "proof_nodes d (p # ps) =
     (if \<not> rpp_NewAccepting p then proof_nodes d ps
      else case find (\<lambda>v. Some (vr_id v) = rpp_ValidationRunID p) (runs d) of
          None \<Rightarrow> Inl ErrValidationIncomplete
        | Some v \<Rightarrow> bindE (proof_nodes d ps) (\<lambda>qs. Inr ((p, vr_node v) # qs)))"

fun lock_nodes :: "db \<Rightarrow> uuid list \<Rightarrow> unit res" where
  "lock_nodes d [] = Inr ()"
| "lock_nodes d (n # ns) = bindE (fetch (\<lambda>x. nd_id x = n) (nodes d)) (\<lambda>_. lock_nodes d ns)"

definition closed_binding :: "db \<Rightarrow> uuid \<Rightarrow> uuid \<Rightarrow> bool" where
  "closed_binding d node game \<longleftrightarrow> some_and (\<lambda>b. \<not> cb_accepting b) (content_binding_of d node game)"

fun check_proofs :: "uuid \<Rightarrow> string \<Rightarrow> time \<Rightarrow> db \<Rightarrow> (ReleasePresetPlan \<times> uuid) list \<Rightarrow> unit res" where
  "check_proofs game content now d [] = Inr ()"
| "check_proofs game content now d ((p, node) # ps) =
     rejectE (\<not> closed_binding d node game) ErrValidationIncomplete (
     rejectE (effectiveValidationProof node game (rpp_PresetID p) content (rpp_NewRevision p) (rpp_ValidationRunID p) now d = None)
       ErrValidationIncomplete (check_proofs game content now d ps))"

section \<open>The writes\<close>

definition release_preset :: "uuid \<Rightarrow> uuid \<Rightarrow> (ReleasePresetPlan \<times> uuid) list \<Rightarrow> ReleasePresetPlan \<Rightarrow> release_preset_row" where
  "release_preset releaseID game ns p = \<lparr>lp_release = releaseID, lp_game = game, lp_preset = rpp_PresetID p,
     lp_old_revision = rpp_OldRevision p, lp_new_revision = rpp_NewRevision p, lp_old_accepting = rpp_OldAccepting p,
     lp_new_accepting = rpp_NewAccepting p, lp_run = rpp_ValidationRunID p, lp_node = map_of ns p\<rparr>"

definition move_preset :: "ReleasePresetPlan \<Rightarrow> preset_row list \<Rightarrow> preset_row list" where
  "move_preset p = upd_where (\<lambda>x. ps_id x = rpp_PresetID p)
     (\<lambda>x. x\<lparr>ps_revision := rpp_NewRevision p, ps_accepting := rpp_NewAccepting p, ps_contract := V102Contract\<rparr>)"

fun write_presets :: "uuid \<Rightarrow> uuid \<Rightarrow> (ReleasePresetPlan \<times> uuid) list \<Rightarrow> ReleasePresetPlan list \<Rightarrow> db \<Rightarrow> db res" where
  "write_presets releaseID game ns [] d = Inr d"
| "write_presets releaseID game ns (p # ps) d =
     rejectE ((rpp_OldRevision p, game) \<notin> set (revisions d)) (Constraint ''content_release_presets'')
       (write_presets releaseID game ns ps
         (d\<lparr>release_presets := release_presets d @ [release_preset releaseID game ns p],
            presets := move_preset p (presets d)\<rparr>))"

definition write_release ::
    "uuid \<Rightarrow> ReleasePublishRequest \<Rightarrow> uuid \<Rightarrow> string \<Rightarrow> (ReleasePresetPlan \<times> uuid) list \<Rightarrow> uuid \<Rightarrow> db \<Rightarrow> db res" where
  "write_release adminID r game oldContent ns newID d =
     rejectE (exists_where (\<lambda>l. rl_id l = newID) (releases d) \<or> \<not> exists_where (\<lambda>a. ad_id a = adminID) (admins d))
       (Constraint ''content_releases'') (
     let d = d\<lparr>releases := releases d @ [\<lparr>rl_id = newID, rl_game = game, rl_old = nullif oldContent [],
               rl_new = rpr_NewContent r, rl_by = adminID, rl_rollback = rpr_RollbackOf r\<rparr>]\<rparr> in
     bindE (write_presets newID game ns (rpr_Presets r) d) (\<lambda>d.
     let d = d\<lparr>games := upd_where (\<lambda>g. gm_id g = game) (gm_content_update (\<lambda>_. Some (rpr_NewContent r))) (games d)\<rparr> in
     bindE (auditAdmin adminID ''release.publish'' [game] d) (\<lambda>d.
     Inr (d\<lparr>i3_requests := i3_requests d @ [\<lparr>iq_action = ''release.publish'', iq_request = rpr_RequestID r,
            iq_hash = release_hash r, iq_result = newID, iq_admin = adminID\<rparr>]\<rparr>))))"

section \<open>Publication\<close>

text \<open>Whether the plan must name every preset of the game.\<close>

definition whole_plan :: "uuid \<Rightarrow> string \<Rightarrow> ReleasePublishRequest \<Rightarrow> db \<Rightarrow> bool" where
  "whole_plan game oldContent r d \<longleftrightarrow> first_release game d \<or> oldContent \<noteq> rpr_NewContent r"

text \<open>Only a release that closes every preset may do without a proof, and never a rollback.\<close>

definition unproved_release :: "uuid \<Rightarrow> string \<Rightarrow> ReleasePublishRequest \<Rightarrow> uuid list \<Rightarrow> db \<Rightarrow> bool" where
  "unproved_release game oldContent r seen d \<longleftrightarrow> rpr_RollbackOf r \<noteq> None \<or> \<not> whole_plan game oldContent r d
     \<or> length seen \<noteq> length (game_presets game d) \<or> list_ex rpp_NewAccepting (rpr_Presets r)"

definition publish_new :: "uuid \<Rightarrow> ReleasePublishRequest \<Rightarrow> uuid \<Rightarrow> uuid \<Rightarrow> time \<Rightarrow> db \<Rightarrow> (uuid \<times> db) res" where
  "publish_new adminID r game newID now d =
     bindE (fetch (\<lambda>g. gm_id g = game) (games d)) (\<lambda>g.
     let oldContent = coalesce (gm_content g) [] in
     rejectE (oldContent \<noteq> rpr_OldContent r) ErrCASConflict (
     rejectE (\<not> exists_where (\<lambda>c. cv_game c = game \<and> cv_id c = rpr_NewContent r) (contents d)) ErrInvalidAdminAction (
     rejectE (whole_plan game oldContent r d \<and> length (rpr_Presets r) \<noteq> length (game_presets game d)) ErrCASConflict (
     bindE (check_plans game d [] (rpr_Presets r)) (\<lambda>seen.
     rejectE (whole_plan game oldContent r d \<and> length seen \<noteq> length (game_presets game d)) ErrCASConflict (
     bindE (check_rollback game oldContent r d) (\<lambda>_.
     bindE (proof_nodes d (rpr_Presets r)) (\<lambda>ns.
     rejectE (ns = [] \<and> unproved_release game oldContent r seen d) ErrValidationIncomplete (
     bindE (lock_nodes d (sort (remdups (map snd ns)))) (\<lambda>_.
     bindE (check_proofs game (rpr_NewContent r) now d ns) (\<lambda>_.
     bindE (write_release adminID r game oldContent ns newID d) (\<lambda>d'.
     Inr (newID, d')))))))))))))"

definition PublishRelease :: "uuid \<Rightarrow> ReleasePublishRequest \<Rightarrow> uuid \<Rightarrow> time \<Rightarrow> db \<Rightarrow> (uuid \<times> db) res" where
  "PublishRelease adminID r newID now d = (case rpr_GameID r of
      None \<Rightarrow> Inl ErrInvalidAdminAction
    | Some game \<Rightarrow>
        rejectE (rpr_NewContent r = [] \<or> rpr_RequestID r = [] \<or> 128 < length (rpr_RequestID r) \<or> rpr_Presets r = [])
          ErrInvalidAdminAction (
        bindE (priorI3Request ''release.publish'' (rpr_RequestID r) (release_hash r) adminID d) (\<lambda>prior.
        case prior of
          Some i \<Rightarrow> Inr (i, d)
        | None \<Rightarrow> publish_new adminID r game newID now d)))"

section \<open>The record of a release\<close>

record ReleaseRecord =
  rrc_ID :: uuid
  rrc_GameID :: uuid
  rrc_OldContent :: string
  rrc_NewContent :: string
  rrc_PublishedBy :: uuid
  rrc_RollbackOf :: "uuid option"
  rrc_Presets :: "release_preset_row list"

definition ReleaseDetail :: "uuid \<Rightarrow> db \<Rightarrow> ReleaseRecord res" where
  "ReleaseDetail i d =
     bindE (fetch (\<lambda>l. rl_id l = i) (releases d)) (\<lambda>l.
     Inr \<lparr>rrc_ID = rl_id l, rrc_GameID = rl_game l, rrc_OldContent = coalesce (rl_old l) [], rrc_NewContent = rl_new l,
       rrc_PublishedBy = rl_by l, rrc_RollbackOf = rl_rollback l,
       rrc_Presets = order_by lp_preset (filter (\<lambda>p. lp_release p = i) (release_presets d))\<rparr>)"

section \<open>What the checks guarantee\<close>

lemma check_plans_Inr:
  assumes "check_plans game d seen ps = Inr out"
  shows "out = seen @ map rpp_PresetID ps \<and> distinct (map rpp_PresetID ps) \<and> (\<forall>p \<in> set ps. rpp_PresetID p \<notin> set seen)
    \<and> (\<forall>p \<in> set ps. rpp_PresetID p \<in> ps_id ` set (game_presets game d))"
  using assms
proof (induction ps arbitrary: seen)
  case (Cons p ps)
  then have st: "\<not> stale_plan game d seen p" and rest: "check_plans game d (seen @ [rpp_PresetID p]) ps = Inr out"
    by (simp_all add: rejectE_Inr)
  then have "rpp_PresetID p \<notin> set seen" "rpp_PresetID p \<in> ps_id ` set (game_presets game d)"
    by (auto simp: stale_plan_def intro: rev_image_eqI)
  then show ?case using Cons.IH [OF rest] by auto
qed simp

lemma proof_nodes_Inr:
  assumes "proof_nodes d ps = Inr ns"
  shows "map fst ns = filter rpp_NewAccepting ps
    \<and> (\<forall>(p, n) \<in> set ns. \<exists>v \<in> set (runs d). Some (vr_id v) = rpp_ValidationRunID p \<and> vr_node v = n)"
  using assms
proof (induction ps arbitrary: ns)
  case (Cons p ps)
  then show ?case by (auto simp: bindE_Inr dest!: find_SomeD split: option.splits if_splits)
qed simp

lemma check_proofs_Inr:
  assumes "check_proofs game content now d ns = Inr u" "(p, n) \<in> set ns"
  shows "closed_binding d n game
    \<and> effectiveValidationProof n game (rpp_PresetID p) content (rpp_NewRevision p) (rpp_ValidationRunID p) now d \<noteq> None"
  using assms
proof (induction ns)
  case (Cons q ns)
  then show ?case by (cases q) (auto simp: rejectE_Inr)
qed simp

text \<open>The presets after the writes, in closed form.\<close>

definition moved :: "ReleasePresetPlan list \<Rightarrow> preset_row \<Rightarrow> preset_row" where
  "moved ps x = (case find (\<lambda>p. rpp_PresetID p = ps_id x) ps of
      None \<Rightarrow> x
    | Some p \<Rightarrow> x\<lparr>ps_revision := rpp_NewRevision p, ps_accepting := rpp_NewAccepting p, ps_contract := V102Contract\<rparr>)"

lemma moved_Cons:
  assumes "rpp_PresetID p \<notin> rpp_PresetID ` set ps"
  shows "map (moved ps) (move_preset p xs) = map (moved (p # ps)) xs"
proof -
  have "find (\<lambda>q. rpp_PresetID q = rpp_PresetID p) ps = None" using assms by (auto simp: find_None_iff intro: rev_image_eqI)
  then show ?thesis by (auto simp: move_preset_def upd_where_def moved_def)
qed

lemma write_presets_Inr:
  assumes "write_presets releaseID game ns ps d = Inr d'" "distinct (map rpp_PresetID ps)"
  shows "presets d' = map (moved ps) (presets d) \<and> release_presets d' = release_presets d @ map (release_preset releaseID game ns) ps
    \<and> core d' = core d \<and> (games d', releases d', i3_requests d', runs d') = (games d, releases d, i3_requests d, runs d)"
  using assms
proof (induction ps arbitrary: d)
  case Nil
  have "moved [] = id" by (simp add: fun_eq_iff moved_def)
  then show ?case using Nil by simp
next
  case (Cons p ps)
  let ?d = "d\<lparr>release_presets := release_presets d @ [release_preset releaseID game ns p], presets := move_preset p (presets d)\<rparr>"
  have "write_presets releaseID game ns ps ?d = Inr d'" using Cons.prems(1) by (simp add: rejectE_Inr)
  moreover have "core ?d = core d" by (simp add: core_def business_def)
  ultimately show ?case using Cons.IH [of ?d] Cons.prems(2) by (simp add: moved_Cons)
qed

lemma write_release_cases:
  assumes "write_release adminID r game oldContent ns newID d = Inr d'" "distinct (map rpp_PresetID (rpr_Presets r))"
  shows "presets d' = map (moved (rpr_Presets r)) (presets d)
    \<and> games d' = upd_where (\<lambda>g. gm_id g = game) (gm_content_update (\<lambda>_. Some (rpr_NewContent r))) (games d)
    \<and> releases d' = releases d @ [\<lparr>rl_id = newID, rl_game = game, rl_old = nullif oldContent [], rl_new = rpr_NewContent r,
         rl_by = adminID, rl_rollback = rpr_RollbackOf r\<rparr>]
    \<and> i3_requests d' = i3_requests d @ [\<lparr>iq_action = ''release.publish'', iq_request = rpr_RequestID r,
         iq_hash = release_hash r, iq_result = newID, iq_admin = adminID\<rparr>]
    \<and> release_presets d' = release_presets d @ map (release_preset newID game ns) (rpr_Presets r)
    \<and> core d' = core d"
proof -
  let ?d1 = "d\<lparr>releases := releases d @ [\<lparr>rl_id = newID, rl_game = game, rl_old = nullif oldContent [],
               rl_new = rpr_NewContent r, rl_by = adminID, rl_rollback = rpr_RollbackOf r\<rparr>]\<rparr>"
  let ?g = "\<lambda>d. d\<lparr>games := upd_where (\<lambda>g. gm_id g = game) (gm_content_update (\<lambda>_. Some (rpr_NewContent r))) (games d)\<rparr>"
  obtain d2 d3 where w: "write_presets newID game ns (rpr_Presets r) ?d1 = Inr d2"
    and a: "auditAdmin adminID ''release.publish'' [game] (?g d2) = Inr d3"
    and d': "d' = d3\<lparr>i3_requests := i3_requests d3 @ [\<lparr>iq_action = ''release.publish'', iq_request = rpr_RequestID r,
            iq_hash = release_hash r, iq_result = newID, iq_admin = adminID\<rparr>]\<rparr>"
    using assms(1) unfolding write_release_def Let_def rejectE_Inr bindE_Inr by blast
  have d3: "d3 = (?g d2)\<lparr>audit := audit d2 @ [(''admin'', ''release.publish'', [game])]\<rparr>"
    using a by (simp add: auditAdmin_def rejectE_Inr)
  have c: "core (d\<lparr>releases := x\<rparr>) = core d" "core (d\<lparr>games := y, audit := z, i3_requests := q\<rparr>) = core d" for d x y z q
    by (simp_all add: core_def business_def)
  show ?thesis using write_presets_Inr [OF w assms(2)] c by (simp add: d' d3)
qed

lemma publish_new_cases:
  assumes "publish_new adminID r game newID now d = Inr (i, d')"
  obtains g ns where "find (\<lambda>g. gm_id g = game) (games d) = Some g" "i = newID"
    "check_plans game d [] (rpr_Presets r) = Inr (map rpp_PresetID (rpr_Presets r))"
    "whole_plan game (coalesce (gm_content g) []) r d \<longrightarrow> length (rpr_Presets r) = length (game_presets game d)"
    "proof_nodes d (rpr_Presets r) = Inr ns" "check_proofs game (rpr_NewContent r) now d ns = Inr ()"
    "write_release adminID r game (coalesce (gm_content g) []) ns newID d = Inr d'"
proof -
  from assms obtain g seen ns u u' where r: "i = newID" "find (\<lambda>g. gm_id g = game) (games d) = Some g"
    "check_plans game d [] (rpr_Presets r) = Inr seen"
    "\<not> (whole_plan game (coalesce (gm_content g) []) r d \<and> length (rpr_Presets r) \<noteq> length (game_presets game d))"
    "check_rollback game (coalesce (gm_content g) []) r d = Inr u"
    "proof_nodes d (rpr_Presets r) = Inr ns" "check_proofs game (rpr_NewContent r) now d ns = Inr u'"
    "write_release adminID r game (coalesce (gm_content g) []) ns newID d = Inr d'"
    "exists_where (\<lambda>c. cv_game c = game \<and> cv_id c = rpr_NewContent r) (contents d)"
    "\<not> (ns = [] \<and> unproved_release game (coalesce (gm_content g) []) r seen d)"
    "\<not> coalesce (gm_content g) [] \<noteq> rpr_OldContent r"
    unfolding publish_new_def Let_def bindE_Inr rejectE_Inr fetch_Inr prod.inject sum.inject
    by blast
  have seen: "seen = map rpp_PresetID (rpr_Presets r)" using check_plans_Inr [OF r(3)] by simp
  show thesis by (rule that [OF r(2,1) _ _ r(6) _ r(8)]) (use r(3,4,7) seen in simp_all)
qed

lemma publish_cases:
  assumes "PublishRelease adminID r newID now d = Inr (i, d')"
  obtains (replayed) game where "rpr_GameID r = Some game" "d' = d"
      "priorI3Request ''release.publish'' (rpr_RequestID r) (release_hash r) adminID d = Inr (Some i)"
    | (published) game where "rpr_GameID r = Some game"
      "priorI3Request ''release.publish'' (rpr_RequestID r) (release_hash r) adminID d = Inr None"
      "publish_new adminID r game newID now d = Inr (i, d')"
proof (cases "rpr_GameID r")
  case None
  then show thesis using assms by (simp add: PublishRelease_def)
next
  case (Some game)
  obtain prior where prior: "priorI3Request ''release.publish'' (rpr_RequestID r) (release_hash r) adminID d = Inr prior"
    and rest: "(case prior of Some i \<Rightarrow> Inr (i, d) | None \<Rightarrow> publish_new adminID r game newID now d) = Inr (i, d')"
    using assms unfolding PublishRelease_def Some option.case rejectE_Inr bindE_Inr by blast
  show thesis
  proof (cases prior)
    case None
    show thesis by (rule published [OF Some]) (use prior rest None in simp_all)
  next
    case (Some j)
    show thesis by (rule replayed [OF \<open>rpr_GameID r = Some game\<close>]) (use prior rest Some in simp_all)
  qed
qed

text \<open>A publication is an operation of the store like the other catalogue operations.\<close>

lemma publish_core: "PublishRelease adminID r newID now d = Inr (i, d') \<Longrightarrow> core d' = core d"
proof (erule publish_cases)
  fix game assume "publish_new adminID r game newID now d = Inr (i, d')"
  then show "core d' = core d"
  proof (rule publish_new_cases)
    fix g ns assume c: "check_plans game d [] (rpr_Presets r) = Inr (map rpp_PresetID (rpr_Presets r))"
      and w: "write_release adminID r game (coalesce (gm_content g) []) ns newID d = Inr d'"
    have "distinct (map rpp_PresetID (rpr_Presets r))" using check_plans_Inr [OF c] by simp
    then show "core d' = core d" using write_release_cases [OF w] by simp
  qed
qed simp

lemma publish_store_step: "PublishRelease adminID r newID now d = Inr (i, d') \<Longrightarrow> store_step d d'"
  by (rule store_step.catalogue) (rule publish_core)

text \<open>When the whole game must be planned, every preset of it is in the plan.\<close>

lemma plan_covers_game:
  assumes "check_plans game d [] ps = Inr seen" "length ps = length (game_presets game d)"
    and "distinct (map ps_id (presets d))" "x \<in> set (presets d)" "ps_game x = game"
  shows "ps_id x \<in> rpp_PresetID ` set ps"
proof -
  have plan: "distinct (map rpp_PresetID ps)" "rpp_PresetID ` set ps \<subseteq> ps_id ` set (game_presets game d)"
    using check_plans_Inr [OF assms(1)] by auto
  have "card (ps_id ` set (game_presets game d)) \<le> length (game_presets game d)"
    by (metis card_length list.set_map length_map)
  also have "\<dots> = card (rpp_PresetID ` set ps)"
    using distinct_card [OF plan(1)] assms(2) by simp
  finally have "rpp_PresetID ` set ps = ps_id ` set (game_presets game d)"
    using plan(2) by (meson card_seteq finite_imageI finite_set)
  then show ?thesis using assms(4,5) by (auto simp: game_presets_def)
qed

section \<open>Guarantees\<close>

lemma planned_preset_proved:
  assumes nodes: "proof_nodes d ps = Inr ns" and proofs: "check_proofs game content now d ns = Inr ()"
    and p: "p \<in> set ps" "rpp_NewAccepting p"
  shows "\<exists>v \<in> set (runs d). proves d (vr_node v) game (rpp_PresetID p) content (rpp_NewRevision p) (Some (vr_id v)) now v
    \<and> closed_binding d (vr_node v) game"
proof -
  have "p \<in> set (map fst ns)" using proof_nodes_Inr [OF nodes] p by simp
  then obtain n where n: "(p, n) \<in> set ns" by force
  obtain v where v: "v \<in> set (runs d)" "Some (vr_id v) = rpp_ValidationRunID p" "vr_node v = n"
    using proof_nodes_Inr [OF nodes] n by auto
  note k = check_proofs_Inr [OF proofs n]
  then obtain j where j: "effectiveValidationProof n game (rpp_PresetID p) content (rpp_NewRevision p)
    (rpp_ValidationRunID p) now d = Some j" by blast
  obtain v' where v': "v' \<in> set (runs d)"
    "proves d n game (rpp_PresetID p) content (rpp_NewRevision p) (rpp_ValidationRunID p) now v'"
    using effectiveValidationProof_SomeD [OF j] by blast
  have "vr_node v' = n" "rpp_ValidationRunID p = Some (vr_id v')" using v'(2) v(2) by (auto simp: proves_def)
  then show ?thesis using v' k by auto
qed

text \<open>
  C27: A release opens a preset only on a proof.  After a publication that was not a replay, the game has the
  new content, and every preset of it that accepts requests is either planned as open, with the new template
  and a passed validation run of exactly that node, game, preset, content and template whose facts were all
  current, on a node whose binding was closed to new allocations; or it was not in the plan and is as before,
  which happens only when the content has not changed.
\<close>

theorem release_opens_only_proved:
  assumes "PublishRelease adminID r newID now d = Inr (i, d')" "d' \<noteq> d" "rpr_GameID r = Some game"
    and "distinct (map ps_id (presets d))" "x \<in> set (presets d')" "ps_game x = game" "ps_accepting x"
  shows "(\<forall>g \<in> set (games d'). gm_id g = game \<longrightarrow> gm_content g = Some (rpr_NewContent r))
    \<and> ((\<exists>v \<in> set (runs d). proves d (vr_node v) game (ps_id x) (rpr_NewContent r) (ps_revision x) (Some (vr_id v)) now v
          \<and> closed_binding d (vr_node v) game \<and> ps_contract x = V102Contract)
       \<or> x \<in> set (presets d) \<and> (\<exists>g \<in> set (games d). gm_id g = game \<and> coalesce (gm_content g) [] = rpr_NewContent r))"
proof -
  have new: "publish_new adminID r game newID now d = Inr (i, d')"
    using assms(1) by (rule publish_cases) (use assms(2,3) in simp_all)
  obtain g ns where c: "find (\<lambda>g. gm_id g = game) (games d) = Some g" "i = newID"
    "check_plans game d [] (rpr_Presets r) = Inr (map rpp_PresetID (rpr_Presets r))"
    "whole_plan game (coalesce (gm_content g) []) r d \<longrightarrow> length (rpr_Presets r) = length (game_presets game d)"
    "proof_nodes d (rpr_Presets r) = Inr ns" "check_proofs game (rpr_NewContent r) now d ns = Inr ()"
    "write_release adminID r game (coalesce (gm_content g) []) ns newID d = Inr d'"
    using new by (rule publish_new_cases)
  have plan: "distinct (map rpp_PresetID (rpr_Presets r))" using check_plans_Inr [OF c(3)] by simp
  have w: "presets d' = map (moved (rpr_Presets r)) (presets d)"
    "games d' = upd_where (\<lambda>g. gm_id g = game) (gm_content_update (\<lambda>_. Some (rpr_NewContent r))) (games d)"
    using write_release_cases [OF c(7) plan] by blast+
  have content: "\<forall>g \<in> set (games d'). gm_id g = game \<longrightarrow> gm_content g = Some (rpr_NewContent r)"
  proof (intro ballI impI)
    fix g assume g: "g \<in> set (games d')" "gm_id g = game"
    obtain h where "g = (if gm_id h = game then gm_content_update (\<lambda>_. Some (rpr_NewContent r)) h else h)"
      using g(1) unfolding w(2) upd_where_def set_map by (rule imageE)
    then show "gm_content g = Some (rpr_NewContent r)" using g(2) by (simp split: if_splits)
  qed
  obtain y where y: "y \<in> set (presets d)" "x = moved (rpr_Presets r) y" using assms(5) by (auto simp: w(1) image_iff)
  have game: "ps_game y = game" "ps_id y = ps_id x"
    using assms(6) y(2) by (auto simp: moved_def split: option.splits)
  show ?thesis
  proof (cases "find (\<lambda>p. rpp_PresetID p = ps_id y) (rpr_Presets r)")
    case None
    then have "x = y" by (simp add: y(2) moved_def)
    moreover have "ps_id y \<notin> rpp_PresetID ` set (rpr_Presets r)" using None by (auto simp: find_None_iff)
    then have "\<not> whole_plan game (coalesce (gm_content g) []) r d"
      using plan_covers_game [OF c(3) _ assms(4) y(1) game(1)] c(4) by blast
    ultimately show ?thesis using content y(1) find_SomeD [OF c(1)] by (auto simp: whole_plan_def)
  next
    case (Some p)
    then have p: "p \<in> set (rpr_Presets r)" "rpp_PresetID p = ps_id x" using find_SomeD [OF Some] game(2) by auto
    have x: "ps_revision x = rpp_NewRevision p" "rpp_NewAccepting p" "ps_contract x = V102Contract"
      using y(2) Some assms(7) by (auto simp: moved_def)
    show ?thesis using planned_preset_proved [OF c(5,6) p(1) x(2)] content p(2) x(1,3) by auto
  qed
qed

definition proved_db :: db where
  "proved_db = evidence_db\<lparr>runs := [passed_run]\<rparr>"

definition first_release_plan :: ReleasePresetPlan where
  "first_release_plan = \<lparr>rpp_PresetID = 2, rpp_OldRevision = ''t1'', rpp_NewRevision = ''t1'', rpp_OldAccepting = True,
     rpp_NewAccepting = True, rpp_ValidationRunID = Some 50\<rparr>"

definition first_release_request :: ReleasePublishRequest where
  "first_release_request = \<lparr>rpr_GameID = Some 1, rpr_OldContent = ''v1'', rpr_NewContent = ''v1'',
     rpr_Presets = [first_release_plan], rpr_RollbackOf = None, rpr_RequestID = ''q1''\<rparr>"

lemma first_release_fields:
  "rpr_GameID first_release_request = Some 1" "rpr_NewContent first_release_request = ''v1''"
  "rpr_OldContent first_release_request = ''v1''" "rpr_Presets first_release_request = [first_release_plan]"
  "rpr_RollbackOf first_release_request = None" "rpr_RequestID first_release_request = ''q1''"
  by (simp_all add: first_release_request_def)

lemma first_release_checks:
  "check_plans 1 proved_db [] [first_release_plan] = Inr [2]"
  "proof_nodes proved_db [first_release_plan] = Inr [(first_release_plan, 5)]"
  "check_proofs 1 ''v1'' 2000 proved_db [(first_release_plan, 5)] = Inr ()"
  "lock_nodes proved_db [5] = Inr ()" "length (game_presets 1 proved_db) = 1"
  "map (\<lambda>p. (ps_id p, ps_game p)) (presets proved_db) = [(2, 1)]"
  "map (\<lambda>g. (gm_id g, gm_content g)) (games proved_db) = [(1, Some ''v1'')]"
  "list_ex (\<lambda>c. cv_game c = 1 \<and> cv_id c = ''v1'') (contents proved_db)"
  "releases proved_db = []" "list_ex (\<lambda>a. ad_id a = 9 \<and> ad_enabled a) (admins proved_db)"
  "list_all (\<lambda>q. iq_action q = ''validation.start'') (i3_requests proved_db)" "(''t1'', 1) \<in> set (revisions proved_db)"
  by code_simp+

lemma first_release_written:
  "\<exists>d'. write_release 9 first_release_request 1 ''v1'' [(first_release_plan, 5)] 80 proved_db = Inr d'"
proof -
  have plans: "rpp_OldRevision first_release_plan = ''t1''" "rpp_PresetID first_release_plan = 2"
    by (simp_all add: first_release_plan_def)
  have t: "(''t1'', 1) \<in> set (revisions proved_db)" "exists_where (\<lambda>a. ad_id a = 9) (admins proved_db)"
    "exists_where (\<lambda>a. ad_id a = 9 \<and> ad_enabled a) (admins proved_db)"
    using first_release_checks(10,12) by (auto simp: list_ex_iff)
  show ?thesis
    using t by (simp add: write_release_def Let_def first_release_fields plans auditAdmin_def rejectE_def first_release_checks(9)
        del: One_nat_def)
qed

lemma first_release_runs:
  "\<exists>d'. PublishRelease 9 first_release_request 80 2000 proved_db = Inr (80, d')
     \<and> write_release 9 first_release_request 1 ''v1'' [(first_release_plan, 5)] 80 proved_db = Inr d'"
proof -
  obtain d' where w: "write_release 9 first_release_request 1 ''v1'' [(first_release_plan, 5)] 80 proved_db = Inr d'"
    using first_release_written by blast
  obtain g where g: "games proved_db = [g]" "gm_id g = 1" "gm_content g = Some ''v1''"
    using first_release_checks(7) by auto
  have prior: "priorI3Request ''release.publish'' ''q1'' h 9 proved_db = Inr None" for h
    using first_release_checks(11) by (auto simp: priorI3Request_def list_all_iff find_None_iff split: option.splits dest!: find_SomeD)
  have owned: "exists_where (\<lambda>c. cv_game c = 1 \<and> cv_id c = ''v1'') (contents proved_db)"
    using first_release_checks(8) by (auto simp: list_ex_iff)
  have "publish_new 9 first_release_request 1 80 2000 proved_db = Inr (80, d')"
    using owned by (simp add: publish_new_def first_release_fields first_release_checks(1-5) g fetch_def w
        check_rollback_def rejectE_def Let_def del: One_nat_def check_plans.simps proof_nodes.simps check_proofs.simps lock_nodes.simps)
  then show ?thesis using w prior by (simp add: PublishRelease_def first_release_fields rejectE_def)
qed

lemma release_opens_only_proved_witness:
  "\<exists>d'. PublishRelease 9 first_release_request 80 2000 proved_db = Inr (80, d')
     \<and> (\<forall>g \<in> set (games d'). gm_id g = 1 \<longrightarrow> gm_content g = Some ''v1'') \<and> (\<exists>x \<in> set (presets d'). ps_accepting x)"
proof -
  obtain d' where d': "PublishRelease 9 first_release_request 80 2000 proved_db = Inr (80, d')"
    and w: "write_release 9 first_release_request 1 ''v1'' [(first_release_plan, 5)] 80 proved_db = Inr d'"
    using first_release_runs by blast
  obtain y where y: "presets proved_db = [y]" "ps_id y = 2" "ps_game y = 1" using first_release_checks(6) by auto
  have one: "distinct (map rpp_PresetID (rpr_Presets first_release_request))" by (simp add: first_release_fields)
  note facts_after = write_release_cases [OF w one]
  have "presets d' = [moved [first_release_plan] y]" using facts_after y(1) by (simp add: first_release_fields)
  moreover have "ps_game (moved [first_release_plan] y) = 1" "ps_accepting (moved [first_release_plan] y)"
    using y by (simp_all add: moved_def first_release_plan_def)
  moreover have "d' \<noteq> proved_db" using facts_after first_release_checks(9) by auto
  ultimately obtain x where x: "x \<in> set (presets d')" "ps_game x = 1" "ps_accepting x" "d' \<noteq> proved_db" by auto
  have "distinct (map ps_id (presets proved_db))" using y by simp
  from release_opens_only_proved [OF d' x(4) first_release_fields(1) this x(1-3)] show ?thesis
    using d' x by (auto simp: first_release_fields)
qed

lemma release_replays:
  assumes "PublishRelease adminID r newID now d = Inr (i, d')"
  shows "PublishRelease adminID r otherID later d' = Inr (i, d')"
proof -
  have "priorI3Request ''release.publish'' (rpr_RequestID r) (release_hash r) adminID d' = Inr (Some i)"
    using assms
  proof (rule publish_cases)
    fix game assume none: "priorI3Request ''release.publish'' (rpr_RequestID r) (release_hash r) adminID d = Inr None"
      and new: "publish_new adminID r game newID now d = Inr (i, d')"
    obtain g ns where c: "find (\<lambda>g. gm_id g = game) (games d) = Some g" "i = newID"
      "check_plans game d [] (rpr_Presets r) = Inr (map rpp_PresetID (rpr_Presets r))"
      "whole_plan game (coalesce (gm_content g) []) r d \<longrightarrow> length (rpr_Presets r) = length (game_presets game d)"
      "proof_nodes d (rpr_Presets r) = Inr ns" "check_proofs game (rpr_NewContent r) now d ns = Inr ()"
      "write_release adminID r game (coalesce (gm_content g) []) ns newID d = Inr d'"
      using new by (rule publish_new_cases)
    have "distinct (map rpp_PresetID (rpr_Presets r))" using check_plans_Inr [OF c(3)] by simp
    then have "i3_requests d' = i3_requests d @ [\<lparr>iq_action = ''release.publish'', iq_request = rpr_RequestID r,
         iq_hash = release_hash r, iq_result = i, iq_admin = adminID\<rparr>]"
      using write_release_cases [OF c(7)] c(2) by simp
    then show ?thesis by (rule prior_after [OF none])
  qed simp
  moreover have "\<exists>game. rpr_GameID r = Some game" "\<not> (rpr_NewContent r = [] \<or> rpr_RequestID r = [] \<or> 128 < length (rpr_RequestID r) \<or> rpr_Presets r = [])"
    using assms by (auto simp: PublishRelease_def rejectE_Inr split: option.splits)
  ultimately show ?thesis by (auto simp: PublishRelease_def rejectE_def)
qed

end
