(* ===== verification/Paths.thy ===== *)
theory Paths
  imports Bytes
begin

text \<open>
  Go's \<open>path/filepath\<close> on Unix, as far as the content tool and the controller use it: \<open>Clean\<close>, \<open>Join\<close>,
  \<open>Base\<close>, \<open>IsAbs\<close> and the question whether \<open>Rel\<close> leaves a directory.
\<close>

definition slash :: char where "slash = CHR ''/''"

definition join_with :: "char \<Rightarrow> string list \<Rightarrow> string" where
  "join_with c ws = (case ws of [] \<Rightarrow> [] | w # ws \<Rightarrow> w @ concat (map (\<lambda>v. c # v) ws))"

definition IsAbs :: "string \<Rightarrow> bool" where
  "IsAbs p \<longleftrightarrow> p \<noteq> [] \<and> hd p = slash"

text \<open>The elements of a path that \<open>Clean\<close> keeps, innermost first.\<close>

fun clean_steps :: "bool \<Rightarrow> string list \<Rightarrow> string list \<Rightarrow> string list" where
  "clean_steps rooted out [] = out"
| "clean_steps rooted out (w # ws) =
     (if w = [] \<or> w = ''.'' then clean_steps rooted out ws
      else if w = ''..'' then
        (case out of
           [] \<Rightarrow> clean_steps rooted (if rooted then [] else [''..'']) ws
         | v # vs \<Rightarrow> clean_steps rooted (if v = ''..'' then ''..'' # out else vs) ws)
      else clean_steps rooted (w # out) ws)"

definition elements :: "string \<Rightarrow> string list" where
  "elements p = rev (clean_steps (IsAbs p) [] (split_on slash p))"

definition Clean :: "string \<Rightarrow> string" where
  "Clean p = (if IsAbs p then slash # join_with slash (elements p)
              else if elements p = [] then ''.'' else join_with slash (elements p))"

definition Join :: "string list \<Rightarrow> string" where
  "Join ps = (case filter (\<lambda>p. p \<noteq> []) ps of [] \<Rightarrow> [] | qs \<Rightarrow> Clean (join_with slash qs))"

fun strip_slashes :: "string \<Rightarrow> string" where
  "strip_slashes [] = []"
| "strip_slashes (c # cs) = (if c = slash then strip_slashes cs else c # cs)"

definition Base :: "string \<Rightarrow> string" where
  "Base p = (if p = [] then ''.''
             else let q = rev (takeWhile (\<lambda>c. c \<noteq> slash) (strip_slashes (rev p))) in if q = [] then [slash] else q)"

text \<open>\<open>Rel(base, p)\<close> of two clean absolute paths does not climb out of \<open>base\<close>.\<close>

fun is_prefix :: "'a list \<Rightarrow> 'a list \<Rightarrow> bool" where
  "is_prefix [] ys = True"
| "is_prefix (x # xs) [] = False"
| "is_prefix (x # xs) (y # ys) = (x = y \<and> is_prefix xs ys)"

definition inside :: "string \<Rightarrow> string \<Rightarrow> bool" where
  "inside base p \<longleftrightarrow> is_prefix (elements base) (elements p)"

lemma Base_no_slash: "slash \<notin> set p \<Longrightarrow> p \<noteq> [] \<Longrightarrow> Base p = p"
proof -
  assume no: "slash \<notin> set p" "p \<noteq> []"
  have "strip_slashes (rev p) = rev p" using no(1) by (cases "rev p") auto
  then have "takeWhile (\<lambda>c. c \<noteq> slash) (strip_slashes (rev p)) = rev p" using no(1) by (auto simp: takeWhile_eq_all_conv)
  then show ?thesis using no(2) by (simp add: Base_def Let_def)
qed

end
