(* ===== verification/ContentTool.thy ===== *)
theory ContentTool
  imports Paths NodeV1 "HOL-Library.Char_ord" "HOL-Library.List_Lexorder"
begin

text \<open>
  The content tool (\<open>internal/contenttool\<close>, on Unix): immutable releases of one workshop, the link of the
  game to one of them, and the record of a transition that lets a later run finish or undo an interrupted
  one.  The file system is a state, and every access consults the next of a list of fates: it works, it
  fails, or the machine stops there, after which nothing runs any more, deferred calls included.
\<close>

section \<open>The file system of a workshop\<close>

text \<open>A file that holds a JSON value, or one that does not decode.\<close>

datatype 'a json_file = NoFile | BadFile | Holds 'a

datatype vpk = NoVpk | IrregularVpk | Vpk string

text \<open>An entry of \<open>releases\<close>: a real directory with its package file, or anything else.\<close>

datatype release_entry = NotDirectory | ReleaseDirectory vpk

text \<open>An entry of \<open>dota_addons\<close>: a link to a release, a link elsewhere, which resolves or not, or no link.\<close>

datatype addon_entry = ToRelease string | ToElsewhere bool | NotLink

datatype dir_state = NoDir | RealDir | OtherFile

record Metadata =
  cm_WorkshopID :: string
  cm_ContentVersionID :: string
  cm_ReleasePath :: string
  cm_VPKSHA256 :: string
  cm_SizeBytes :: int
  cm_PreparedAt :: int

record transition =
  tr_Old :: string
  tr_New :: string
  tr_TempName :: string
  tr_BackupName :: string
  tr_Rollback :: bool

record Status =
  cs_WorkshopID :: string
  cs_CurrentVersion :: string
  cs_PreviousVersion :: string
  cs_PreparedVersions :: "string list"
  cs_State :: string

text \<open>\<open>fs_metas\<close> are the metadata files of the releases by version, \<open>fs_addons\<close> the entries of
  \<open>dota_addons\<close> by name and \<open>fs_staged\<close> the staging directory of a preparation.\<close>

record content_fs =
  fs_base :: dir_state
  fs_releases_dir :: dir_state
  fs_metadata_dir :: dir_state
  fs_addons_dir :: dir_state
  fs_releases :: "string \<Rightarrow> release_entry option"
  fs_metas :: "(string \<times> Metadata json_file) list"
  fs_current :: "Metadata json_file"
  fs_previous :: "string json_file"
  fs_pending :: "transition json_file"
  fs_addons :: "string \<Rightarrow> addon_entry option"
  fs_locked :: bool
  fs_staged :: "vpk option"

section \<open>Accesses that may fail\<close>

datatype fate = Works | Breaks | Stops

datatype fs_error = NotExist | Exists | FsError string

datatype 'a answer = Done 'a | Err fs_error | Halted

type_synonym 'a tool = "fate list \<Rightarrow> content_fs \<Rightarrow> 'a answer \<times> fate list \<times> content_fs"

definition returnT :: "'a \<Rightarrow> 'a tool" where
  "returnT x fs s = (Done x, fs, s)"

definition failT :: "fs_error \<Rightarrow> 'a tool" where
  "failT e fs s = (Err e, fs, s)"

definition rejectT :: "bool \<Rightarrow> fs_error \<Rightarrow> 'a tool \<Rightarrow> 'a tool" where
  "rejectT c e k = (if c then failT e else k)"

text \<open>The continuation sees the error, except when the machine has stopped.\<close>

definition tryT :: "'a tool \<Rightarrow> (fs_error + 'a \<Rightarrow> 'b tool) \<Rightarrow> 'b tool" where
  "tryT m f fs s = (case m fs s of
      (Done x, fs', s') \<Rightarrow> f (Inr x) fs' s'
    | (Err e, fs', s') \<Rightarrow> f (Inl e) fs' s'
    | (Halted, fs', s') \<Rightarrow> (Halted, fs', s'))"

definition bindT :: "'a tool \<Rightarrow> ('a \<Rightarrow> 'b tool) \<Rightarrow> 'b tool" where
  "bindT m f = tryT m (\<lambda>r. case r of Inl e \<Rightarrow> failT e | Inr x \<Rightarrow> f x)"

definition thenT :: "'a tool \<Rightarrow> 'b tool \<Rightarrow> 'b tool" where
  "thenT m k = bindT m (\<lambda>_. k)"

text \<open>\<open>_ = m\<close>: the error is dropped.\<close>

definition ignoreT :: "'a tool \<Rightarrow> 'b tool \<Rightarrow> 'b tool" where
  "ignoreT m k = tryT m (\<lambda>_. k)"

text \<open>\<open>defer c\<close> around \<open>m\<close>, the error of \<open>c\<close> dropped.\<close>

definition deferT :: "'c tool \<Rightarrow> 'a tool \<Rightarrow> 'a tool" where
  "deferT c m = tryT m (\<lambda>r. ignoreT c (case r of Inl e \<Rightarrow> failT e | Inr x \<Rightarrow> returnT x))"

definition access :: "(content_fs \<Rightarrow> (fs_error + 'a) \<times> content_fs) \<Rightarrow> 'a tool" where
  "access f fs s = (case fs of
      Breaks # r \<Rightarrow> (Err (FsError ''i/o error''), r, s)
    | Stops # r \<Rightarrow> (Halted, r, s)
    | _ \<Rightarrow> (case f s of (Inl e, s') \<Rightarrow> (Err e, tl fs, s') | (Inr x, s') \<Rightarrow> (Done x, tl fs, s')))"

definition reads :: "(content_fs \<Rightarrow> fs_error + 'a) \<Rightarrow> 'a tool" where
  "reads f = access (\<lambda>s. (f s, s))"

definition writes :: "(content_fs \<Rightarrow> content_fs) \<Rightarrow> unit tool" where
  "writes f = access (\<lambda>s. (Inr (), f s))"

text \<open>A temporary file that replaces the target (\<open>writeJSON\<close>), and a read (\<open>readJSON\<close>).\<close>

definition readJSON :: "(content_fs \<Rightarrow> 'a json_file) \<Rightarrow> 'a tool" where
  "readJSON file = reads (\<lambda>s. case file s of
      NoFile \<Rightarrow> Inl NotExist | BadFile \<Rightarrow> Inl (FsError ''invalid JSON'') | Holds x \<Rightarrow> Inr x)"

definition meta_file :: "string \<Rightarrow> content_fs \<Rightarrow> Metadata json_file" where
  "meta_file version s = (case map_of (fs_metas s) version of None \<Rightarrow> NoFile | Some f \<Rightarrow> f)"

definition put_meta :: "string \<Rightarrow> Metadata \<Rightarrow> content_fs \<Rightarrow> content_fs" where
  "put_meta version m s = s\<lparr>fs_metas := (version, Holds m) # filter (\<lambda>p. fst p \<noteq> version) (fs_metas s)\<rparr>"

section \<open>Links\<close>

definition lstat_addon :: "string \<Rightarrow> addon_entry tool" where
  "lstat_addon name = reads (\<lambda>s. case fs_addons s name of None \<Rightarrow> Inl NotExist | Some e \<Rightarrow> Inr e)"

definition isDirectoryLink :: "string \<Rightarrow> bool tool" where
  "isDirectoryLink name = bindT (lstat_addon name) (\<lambda>e. returnT (e \<noteq> NotLink))"

definition createDirectoryLink :: "string \<Rightarrow> string \<Rightarrow> unit tool" where
  "createDirectoryLink name version = access (\<lambda>s.
     if fs_addons s name \<noteq> None then (Inl Exists, s)
     else (Inr (), s\<lparr>fs_addons := (fs_addons s)(name \<mapsto> ToRelease version)\<rparr>))"

text \<open>A link replaces another link, but no directory.\<close>

definition rename_addon :: "string \<Rightarrow> string \<Rightarrow> unit tool" where
  "rename_addon from' to' = access (\<lambda>s. case fs_addons s from' of
      None \<Rightarrow> (Inl NotExist, s)
    | Some e \<Rightarrow> if fs_addons s to' = Some NotLink then (Inl Exists, s)
                else (Inr (), s\<lparr>fs_addons := ((fs_addons s)(from' := None))(to' \<mapsto> e)\<rparr>))"

definition remove_addon :: "string \<Rightarrow> unit tool" where
  "remove_addon name = access (\<lambda>s. case fs_addons s name of
      None \<Rightarrow> (Inl NotExist, s)
    | Some NotLink \<Rightarrow> (Inl (FsError ''directory not empty''), s)
    | Some _ \<Rightarrow> (Inr (), s\<lparr>fs_addons := (fs_addons s)(name := None)\<rparr>))"

text \<open>\<open>os.Stat\<close> and \<open>os.SameFile\<close>: a link to a release is that release if it is there.\<close>

definition stat_release :: "string \<Rightarrow> string tool" where
  "stat_release version = reads (\<lambda>s. if fs_releases s version = None then Inl NotExist else Inr version)"

definition stat_addon :: "string \<Rightarrow> string option tool" where
  "stat_addon name = reads (\<lambda>s. case fs_addons s name of
      None \<Rightarrow> Inl NotExist
    | Some (ToRelease v) \<Rightarrow> if fs_releases s v = None then Inl NotExist else Inr (Some v)
    | Some (ToElsewhere resolves) \<Rightarrow> if resolves then Inr None else Inl NotExist
    | Some NotLink \<Rightarrow> Inr None)"

definition sameLinkedDirectory :: "string \<Rightarrow> string \<Rightarrow> bool tool" where
  "sameLinkedDirectory name version = tryT (isDirectoryLink name) (\<lambda>r. case r of
      Inl NotExist \<Rightarrow> returnT False
    | Inl e \<Rightarrow> failT e
    | Inr False \<Rightarrow> failT (FsError ''unknown real directory blocks content recovery'')
    | Inr True \<Rightarrow> bindT (stat_addon name) (\<lambda>a. bindT (stat_release version) (\<lambda>b. returnT (a = Some b))))"

definition removeKnownLink :: "string \<Rightarrow> string \<Rightarrow> unit tool" where
  "removeKnownLink name version = bindT (sameLinkedDirectory name version) (\<lambda>match.
     if \<not> match then tryT (lstat_addon name) (\<lambda>r. case r of
          Inl NotExist \<Rightarrow> returnT ()
        | _ \<Rightarrow> failT (FsError ''temporary content link target changed''))
     else remove_addon name)"

section \<open>Configuration\<close>

record tool_config =
  cfg_ContentRoot :: string
  cfg_DotaRoot :: string

text \<open>The directories outside the workshop: what is a directory, what exists, where links lead.\<close>

record host =
  ho_IsDir :: "string \<Rightarrow> bool"
  ho_Lstat :: "string \<Rightarrow> fs_error + unit"
  ho_Resolve :: "string \<Rightarrow> fs_error + string"

text \<open>\<open>resolveExistingParents\<close> on the elements of a clean absolute path, innermost first.\<close>

fun resolveExistingParents :: "host \<Rightarrow> string list \<Rightarrow> fs_error + string" where
  "resolveExistingParents h ws =
     (let p = slash # join_with slash (rev ws) in
      case ho_Lstat h p of
        Inr _ \<Rightarrow> ho_Resolve h p
      | Inl e \<Rightarrow> if e \<noteq> NotExist then Inl e
                 else (case ws of
                     [] \<Rightarrow> Inl (FsError ''cannot resolve root'')
                   | w # vs \<Rightarrow> bindE (resolveExistingParents h vs) (\<lambda>r. Inr (Join [r, w]))))"

definition critical_char :: "char \<Rightarrow> bool" where
  "critical_char c \<longleftrightarrow> byte_of c > 127 \<or> byte_of c < 32 \<or> c \<in> {CHR ''['', CHR '']'', CHR ''*'', CHR ''?''}"

definition check :: "host \<Rightarrow> tool_config \<Rightarrow> fs_error + unit" where
  "check h c =
     rejectE (\<not> IsAbs (cfg_ContentRoot c) \<or> \<not> IsAbs (cfg_DotaRoot c)) (FsError ''content and Dota roots must be absolute'') (
     rejectE (list_ex critical_char (cfg_ContentRoot c)) (FsError ''critical paths must be printable ASCII without wildcards'') (
     rejectE (\<not> ho_IsDir h (cfg_ContentRoot c)) (FsError ''root is not a directory'') (
     rejectE (list_ex critical_char (cfg_DotaRoot c)) (FsError ''critical paths must be printable ASCII without wildcards'') (
     rejectE (\<not> ho_IsDir h (cfg_DotaRoot c)) (FsError ''root is not a directory'') (
     rejectE (Clean (cfg_ContentRoot c) = Clean (cfg_DotaRoot c)) (FsError ''content and Dota roots must differ'') (
     bindE (ho_Resolve h (cfg_ContentRoot c)) (\<lambda>content.
     bindE (resolveExistingParents h (rev (elements (Join [cfg_DotaRoot c, ''game'', ''dota_addons''])))) (\<lambda>addons.
     rejectE (inside addons content) (FsError ''content root must be outside the actual dota_addons subtree'') (Inr ())))))))))"

definition validID :: "string \<Rightarrow> string \<Rightarrow> bool" where
  "validID workshop version \<longleftrightarrow> ValidWorkshop workshop \<and> (version = [] \<or> ValidVersion version)"

definition release_path :: "tool_config \<Rightarrow> string \<Rightarrow> string \<Rightarrow> string" where
  "release_path c workshop version = Join [Join [cfg_ContentRoot c, workshop], ''releases'', version]"

section \<open>Directories, packages and releases\<close>

definition realDirectory :: "(content_fs \<Rightarrow> dir_state) \<Rightarrow> unit tool" where
  "realDirectory get = reads (\<lambda>s. case get s of
      NoDir \<Rightarrow> Inl NotExist | RealDir \<Rightarrow> Inr () | OtherFile \<Rightarrow> Inl (FsError ''expected real directory''))"

definition ensureDir ::
    "(content_fs \<Rightarrow> dir_state) \<Rightarrow> ((dir_state \<Rightarrow> dir_state) \<Rightarrow> content_fs \<Rightarrow> content_fs) \<Rightarrow> unit tool" where
  "ensureDir get put =
     tryT (access (\<lambda>s. if get s \<noteq> NoDir then (Inl Exists, s) else (Inr (), put (\<lambda>_. RealDir) s))) (\<lambda>r. case r of
        Inl Exists \<Rightarrow> realDirectory get
      | Inl e \<Rightarrow> failT e
      | Inr _ \<Rightarrow> realDirectory get)"

definition fileDigest :: "vpk \<Rightarrow> fs_error + string \<times> int" where
  "fileDigest f = (case f of
      NoVpk \<Rightarrow> Inl NotExist
    | IrregularVpk \<Rightarrow> Inl (FsError ''VPK must be a regular file, not a link'')
    | Vpk bytes \<Rightarrow> Inr (sha256_hex bytes, int (length bytes)))"

definition release_digest :: "string \<Rightarrow> (string \<times> int) tool" where
  "release_digest version = reads (\<lambda>s. case fs_releases s version of
      Some (ReleaseDirectory f) \<Rightarrow> fileDigest f
    | _ \<Rightarrow> Inl NotExist)"

definition release_directory :: "string \<Rightarrow> unit tool" where
  "release_directory version = reads (\<lambda>s. case fs_releases s version of
      None \<Rightarrow> Inl NotExist
    | Some NotDirectory \<Rightarrow> Inl (FsError ''expected real directory'')
    | Some (ReleaseDirectory _) \<Rightarrow> Inr ())"

definition describes :: "tool_config \<Rightarrow> string \<Rightarrow> string \<Rightarrow> Metadata \<Rightarrow> bool" where
  "describes c workshop version m \<longleftrightarrow> cm_WorkshopID m = workshop \<and> cm_ContentVersionID m = version
     \<and> Clean (cm_ReleasePath m) = Clean (release_path c workshop version) \<and> 0 < cm_SizeBytes m"

definition readRelease :: "tool_config \<Rightarrow> string \<Rightarrow> string \<Rightarrow> Metadata tool" where
  "readRelease c workshop version =
     thenT (release_directory version) (
     bindT (readJSON (meta_file version)) (\<lambda>m.
     rejectT (\<not> describes c workshop version m) (FsError ''release metadata does not match requested release'') (
     bindT (release_digest version) (\<lambda>(h, len).
     rejectT (h \<noteq> cm_VPKSHA256 m \<or> len \<noteq> cm_SizeBytes m) (FsError ''release VPK differs from immutable metadata'')
       (returnT m)))))"

definition lockWorkshop :: "unit tool" where
  "lockWorkshop = access (\<lambda>s. if fs_locked s then (Inl (FsError ''content operation locked''), s)
     else (Inr (), s\<lparr>fs_locked := True\<rparr>))"

definition unlock :: "unit tool" where
  "unlock = writes (fs_locked_update (\<lambda>_. False))"

section \<open>Prepare\<close>

text \<open>The source is read twice: \<open>source\<close> is what the first reading finds, \<open>copied\<close> the second.\<close>

definition new_metadata :: "tool_config \<Rightarrow> string \<Rightarrow> string \<Rightarrow> string \<Rightarrow> int \<Rightarrow> int \<Rightarrow> Metadata" where
  "new_metadata c workshop version h len now = \<lparr>cm_WorkshopID = workshop, cm_ContentVersionID = version,
     cm_ReleasePath = release_path c workshop version, cm_VPKSHA256 = h, cm_SizeBytes = len, cm_PreparedAt = now\<rparr>"

text \<open>A release directory without metadata is completed if its package is the source.\<close>

definition resume_release ::
    "tool_config \<Rightarrow> string \<Rightarrow> string \<Rightarrow> string \<Rightarrow> int \<Rightarrow> int \<Rightarrow> fs_error + Metadata \<Rightarrow> Metadata tool" where
  "resume_release c workshop version h len now r = (case r of
      Inl NotExist \<Rightarrow> tryT (release_digest version) (\<lambda>e.
        rejectT (e \<noteq> Inr (h, len)) (FsError ''existing incomplete release differs from source'') (
        thenT (writes (put_meta version (new_metadata c workshop version h len now))) (readRelease c workshop version)))
    | Inl e \<Rightarrow> failT (FsError ''existing release is incomplete or different'')
    | Inr m \<Rightarrow> rejectT (cm_VPKSHA256 m \<noteq> h \<or> cm_SizeBytes m \<noteq> len)
        (FsError ''immutable version already has different content'') (returnT m))"

definition existing_release :: "tool_config \<Rightarrow> string \<Rightarrow> string \<Rightarrow> string \<Rightarrow> int \<Rightarrow> int \<Rightarrow> Metadata tool" where
  "existing_release c workshop version h len now =
     tryT (readRelease c workshop version) (resume_release c workshop version h len now)"

definition install_staged :: "string \<Rightarrow> unit tool" where
  "install_staged version = access (\<lambda>s. case fs_staged s of
      None \<Rightarrow> (Inl NotExist, s)
    | Some f \<Rightarrow> if fs_releases s version \<noteq> None then (Inl Exists, s)
                else (Inr (), s\<lparr>fs_releases := (fs_releases s)(version \<mapsto> ReleaseDirectory f), fs_staged := None\<rparr>))"

definition copy_release ::
    "tool_config \<Rightarrow> string \<Rightarrow> string \<Rightarrow> string \<Rightarrow> int \<Rightarrow> string option \<Rightarrow> int \<Rightarrow> Metadata tool" where
  "copy_release c workshop version h len copied now =
     thenT (writes (fs_staged_update (\<lambda>_. Some NoVpk))) (
     deferT (writes (fs_staged_update (\<lambda>_. None))) (
     bindT (reads (\<lambda>_. case copied of None \<Rightarrow> Inl NotExist | Some b \<Rightarrow> Inr b)) (\<lambda>bytes.
     thenT (writes (fs_staged_update (\<lambda>_. Some (Vpk bytes)))) (
     rejectT (int (length bytes) \<noteq> len \<or> sha256_hex bytes \<noteq> h) (FsError ''source VPK changed during copy'') (
     thenT (install_staged version) (
     thenT (writes (put_meta version (new_metadata c workshop version h len now))) (
     thenT (readRelease c workshop version) (returnT (new_metadata c workshop version h len now)))))))))"

definition Prepare ::
    "host \<Rightarrow> tool_config \<Rightarrow> string \<Rightarrow> string \<Rightarrow> string \<Rightarrow> vpk \<Rightarrow> string option \<Rightarrow> int \<Rightarrow> Metadata tool" where
  "Prepare h c workshop version path source copied now =
     (case check h c of
        Inl e \<Rightarrow> failT e
      | Inr _ \<Rightarrow>
          rejectT (\<not> validID workshop version \<or> version = []) (FsError ''Workshop ID and version are required'') (
          rejectT (\<not> IsAbs path) (FsError ''source VPK path must be absolute'') (
          bindT (reads (\<lambda>_. fileDigest source)) (\<lambda>(d, len).
          rejectT (len \<le> 0) (FsError ''source VPK is empty'') (
          thenT (ensureDir fs_base fs_base_update) (
          thenT (ensureDir fs_releases_dir fs_releases_dir_update) (
          thenT (ensureDir fs_metadata_dir fs_metadata_dir_update) (
          thenT lockWorkshop (
          deferT unlock (
          tryT (reads (\<lambda>s. if fs_releases s version = None then Inl NotExist else Inr ())) (\<lambda>r. case r of
             Inr _ \<Rightarrow> existing_release c workshop version d len now
           | Inl e \<Rightarrow> rejectT (e \<noteq> NotExist) e (
               tryT (reads (\<lambda>s. if meta_file version s = NoFile then Inl NotExist else Inr ())) (\<lambda>r. case r of
                  Inr _ \<Rightarrow> failT (FsError ''metadata exists without release'')
                | Inl e \<Rightarrow> rejectT (e \<noteq> NotExist) e (copy_release c workshop version d len copied now))))))))))))))"

section \<open>The current release\<close>

definition current :: "tool_config \<Rightarrow> string \<Rightarrow> string tool" where
  "current c workshop = tryT (readJSON fs_current) (\<lambda>r. case r of
      Inl NotExist \<Rightarrow> tryT (lstat_addon workshop) (\<lambda>l.
        rejectT (l \<noteq> Inl NotExist) (FsError ''current metadata is absent or invalid'') (returnT []))
    | Inl e \<Rightarrow> failT (FsError ''current metadata is absent or invalid'')
    | Inr m \<Rightarrow>
        let version = cm_ContentVersionID m in
        rejectT (\<not> validID workshop version \<or> version = [] \<or> cm_WorkshopID m \<noteq> workshop) (FsError ''invalid current metadata'') (
        bindT (readRelease c workshop version) (\<lambda>p.
        rejectT (cm_VPKSHA256 m \<noteq> cm_VPKSHA256 p \<or> cm_SizeBytes m \<noteq> cm_SizeBytes p
                 \<or> Clean (cm_ReleasePath m) \<noteq> Clean (cm_ReleasePath p)) (FsError ''current metadata differs from release'') (
        bindT (isDirectoryLink workshop) (\<lambda>linked.
        rejectT (\<not> linked) (FsError ''current addon is not a directory link'') (
        bindT (stat_addon workshop) (\<lambda>a. bindT (stat_release version) (\<lambda>b.
        rejectT (a \<noteq> Some b) (FsError ''current link and metadata disagree'') (returnT version)))))))))"

definition prepared_versions :: "string \<Rightarrow> string list \<Rightarrow> string list" where
  "prepared_versions workshop vs = filter (validID workshop) (sort_key (\<lambda>v. v @ ''.json'') vs)"

definition Status_of :: "host \<Rightarrow> tool_config \<Rightarrow> string \<Rightarrow> Status tool" where
  "Status_of h c workshop =
     (case check h c of
        Inl e \<Rightarrow> failT e
      | Inr _ \<Rightarrow>
          rejectT (\<not> validID workshop []) (FsError ''invalid Workshop ID'') (
          bindT (reads (\<lambda>s. case fs_metadata_dir s of
             NoDir \<Rightarrow> Inr [] | OtherFile \<Rightarrow> Inl (FsError ''not a directory'') | RealDir \<Rightarrow> Inr (map fst (fs_metas s)))) (\<lambda>vs.
          let st = \<lparr>cs_WorkshopID = workshop, cs_CurrentVersion = [], cs_PreviousVersion = [],
                cs_PreparedVersions = prepared_versions workshop vs, cs_State = ''unknown''\<rparr> in
          tryT (reads (\<lambda>s. if fs_pending s = NoFile then Inl NotExist else Inr ())) (\<lambda>r. case r of
             Inr _ \<Rightarrow> returnT (st\<lparr>cs_State := ''transition_incomplete''\<rparr>)
           | Inl _ \<Rightarrow> bindT (current c workshop) (\<lambda>v.
               tryT (readJSON fs_previous) (\<lambda>p.
               returnT (st\<lparr>cs_CurrentVersion := v, cs_State := (if v = [] then ''not_switched'' else ''confirmed''),
                 cs_PreviousVersion := (case p of Inl _ \<Rightarrow> [] | Inr q \<Rightarrow> q)\<rparr>)))))))"

section \<open>Transitions\<close>

definition temp_name :: "string \<Rightarrow> string \<Rightarrow> string" where
  "temp_name workshop suffix = ''.content-tool-'' @ workshop @ ''-'' @ suffix"

definition backup_name :: "string \<Rightarrow> string \<Rightarrow> string" where
  "backup_name workshop suffix = ''.content-tool-backup-'' @ workshop @ ''-'' @ suffix"

definition has_prefix :: "string \<Rightarrow> string \<Rightarrow> bool" where
  "has_prefix p s \<longleftrightarrow> take (length p) s = p"

definition valid_transition :: "string \<Rightarrow> transition \<Rightarrow> bool" where
  "valid_transition workshop p \<longleftrightarrow> tr_New p \<noteq> [] \<and> validID workshop (tr_New p)
     \<and> (tr_Old p \<noteq> [] \<longrightarrow> validID workshop (tr_Old p))
     \<and> Base (tr_TempName p) = tr_TempName p \<and> Base (tr_BackupName p) = tr_BackupName p
     \<and> has_prefix (temp_name workshop []) (tr_TempName p) \<and> has_prefix (backup_name workshop []) (tr_BackupName p)"

definition lost_links :: "fs_error" where
  "lost_links = FsError ''content transition lost both current and backup links''"

text \<open>The new link is in place: the metadata follows it and the old links go.\<close>

definition finish_transition :: "tool_config \<Rightarrow> string \<Rightarrow> transition \<Rightarrow> unit tool" where
  "finish_transition c workshop p =
     bindT (readRelease c workshop (tr_New p)) (\<lambda>m.
     thenT (writes (fs_current_update (\<lambda>_. Holds m))) (
     thenT (if tr_Rollback p \<or> tr_Old p = [] then ignoreT (writes (fs_previous_update (\<lambda>_. NoFile))) (returnT ())
            else writes (fs_previous_update (\<lambda>_. Holds (tr_Old p)))) (
     thenT (if tr_Old p \<noteq> [] then removeKnownLink (tr_BackupName p) (tr_Old p) else returnT ()) (
     thenT (removeKnownLink (tr_TempName p) (tr_New p))
       (writes (fs_pending_update (\<lambda>_. NoFile)))))))"

text \<open>The new link is not in place: the old one is put back.\<close>

definition undo_transition :: "string \<Rightarrow> transition \<Rightarrow> unit tool" where
  "undo_transition workshop p =
     thenT (if tr_Old p \<noteq> [] then
              bindT (sameLinkedDirectory workshop (tr_Old p)) (\<lambda>oldCurrent.
              if oldCurrent then returnT ()
              else bindT (sameLinkedDirectory (tr_BackupName p) (tr_Old p)) (\<lambda>backupMatches.
                rejectT (\<not> backupMatches) lost_links (
                tryT (lstat_addon workshop) (\<lambda>r.
                rejectT (r \<noteq> Inl NotExist) (FsError ''unknown addon link blocks recovery'')
                  (rename_addon (tr_BackupName p) workshop)))))
            else tryT (lstat_addon workshop) (\<lambda>r.
              rejectT (r \<noteq> Inl NotExist) (FsError ''unknown initial addon link blocks recovery'') (returnT ()))) (
     thenT (removeKnownLink (tr_TempName p) (tr_New p))
       (writes (fs_pending_update (\<lambda>_. NoFile))))"

definition recoverTransition :: "tool_config \<Rightarrow> string \<Rightarrow> unit tool" where
  "recoverTransition c workshop = tryT (readJSON fs_pending) (\<lambda>r. case r of
      Inl NotExist \<Rightarrow> returnT ()
    | Inl e \<Rightarrow> failT e
    | Inr p \<Rightarrow>
        rejectT (\<not> valid_transition workshop p) (FsError ''invalid content transition record'') (
        bindT (sameLinkedDirectory workshop (tr_New p)) (\<lambda>newCurrent.
        if newCurrent then finish_transition c workshop p else undo_transition workshop p)))"

section \<open>Switch\<close>

text \<open>The links move: a new link under a temporary name, the record, the old link aside, the new one in.\<close>

definition move_links :: "tool_config \<Rightarrow> string \<Rightarrow> transition \<Rightarrow> unit tool" where
  "move_links c workshop p =
     thenT (createDirectoryLink (tr_TempName p) (tr_New p)) (
     tryT (writes (fs_pending_update (\<lambda>_. Holds p))) (\<lambda>r. case r of
       Inl e \<Rightarrow> ignoreT (remove_addon (tr_TempName p)) (failT e)
     | Inr _ \<Rightarrow>
        tryT (if tr_Old p \<noteq> [] then rename_addon workshop (tr_BackupName p) else returnT ()) (\<lambda>r. case r of
          Inl e \<Rightarrow> ignoreT (recoverTransition c workshop) (failT e)
        | Inr _ \<Rightarrow>
            tryT (rename_addon (tr_TempName p) workshop) (\<lambda>r. case r of
              Inl e \<Rightarrow> ignoreT (recoverTransition c workshop) (failT e)
            | Inr _ \<Rightarrow> recoverTransition c workshop))))"

definition switch_to :: "tool_config \<Rightarrow> string \<Rightarrow> string \<Rightarrow> bool \<Rightarrow> string \<Rightarrow> unit tool" where
  "switch_to c workshop version rollback suffix =
     bindT (readRelease c workshop version) (\<lambda>metadata.
     bindT (current c workshop) (\<lambda>old.
     if old = version then
       (if rollback then ignoreT (writes (fs_previous_update (\<lambda>_. NoFile))) (returnT ()) else returnT ())
     else
       thenT (realDirectory fs_addons_dir) (
       thenT (move_links c workshop \<lparr>tr_Old = old, tr_New = version, tr_TempName = temp_name workshop suffix,
                tr_BackupName = backup_name workshop suffix, tr_Rollback = rollback\<rparr>) (
       bindT (current c workshop) (\<lambda>now.
       rejectT (now \<noteq> version) (FsError ''switch readback'') (
       rejectT (cm_ContentVersionID metadata \<noteq> version) (FsError ''invalid prepared metadata'') (returnT ())))))))"

definition switchVersion :: "host \<Rightarrow> tool_config \<Rightarrow> string \<Rightarrow> string \<Rightarrow> bool \<Rightarrow> string \<Rightarrow> unit tool" where
  "switchVersion h c workshop version rollback suffix =
     (case check h c of
        Inl e \<Rightarrow> failT e
      | Inr _ \<Rightarrow>
          rejectT (\<not> validID workshop version \<or> \<not> rollback \<and> version = []) (FsError ''invalid Workshop ID or version'') (
          thenT (realDirectory fs_metadata_dir) (
          thenT lockWorkshop (
          deferT unlock (
          thenT (recoverTransition c workshop) (
          if rollback then
            bindT (readJSON fs_previous) (\<lambda>v.
            rejectT (v = [] \<or> \<not> validID workshop v) (FsError ''no valid previous version'')
              (switch_to c workshop v rollback suffix))
          else switch_to c workshop version rollback suffix))))))"

definition Switch :: "host \<Rightarrow> tool_config \<Rightarrow> string \<Rightarrow> string \<Rightarrow> string \<Rightarrow> unit tool" where
  "Switch h c workshop version suffix = switchVersion h c workshop version False suffix"

definition Rollback :: "host \<Rightarrow> tool_config \<Rightarrow> string \<Rightarrow> string \<Rightarrow> unit tool" where
  "Rollback h c workshop suffix = switchVersion h c workshop [] True suffix"

end
