(* ===== verification/ContentSafety.thy ===== *)
theory ContentSafety
  imports ContentTool
begin

text \<open>
  Crash safety of the content tool.  A weakest-precondition calculus for accesses with fates carries an
  invariant through a switch and through recovery: wherever the machine stops or an access fails, the
  links, the metadata and the record are in one of the phases of the transition, and from every phase a
  recovery without faults ends with a consistent current release.
\<close>

section \<open>Weakest preconditions\<close>

text \<open>\<open>wpT b m Q E H s\<close>: from \<open>s\<close>, with any fates if \<open>b\<close> and with none otherwise, \<open>m\<close> ends in \<open>Q\<close>
  with a value, in \<open>E\<close> with an error or in \<open>H\<close> when the machine stops.\<close>

definition wpT ::
    "bool \<Rightarrow> 'a tool \<Rightarrow> ('a \<Rightarrow> content_fs \<Rightarrow> bool) \<Rightarrow> (fs_error \<Rightarrow> content_fs \<Rightarrow> bool) \<Rightarrow> (content_fs \<Rightarrow> bool) \<Rightarrow> content_fs \<Rightarrow> bool" where
  "wpT b m Q E H s \<longleftrightarrow> (\<forall>fs. (\<not> b \<longrightarrow> fs = []) \<longrightarrow> (\<forall>r fs' s'. m fs s = (r, fs', s') \<longrightarrow> (\<not> b \<longrightarrow> fs' = [])
     \<and> (case r of Done x \<Rightarrow> Q x s' | Err e \<Rightarrow> E e s' | Halted \<Rightarrow> H s')))"

lemma wpT_D:
  assumes "wpT b m Q E H s" "m fs s = (r, fs', s')" "\<not> b \<longrightarrow> fs = []"
  shows "(\<not> b \<longrightarrow> fs' = []) \<and> (case r of Done x \<Rightarrow> Q x s' | Err e \<Rightarrow> E e s' | Halted \<Rightarrow> H s')"
  using assms unfolding wpT_def by blast

lemma wp_return: "Q x s \<Longrightarrow> wpT b (returnT x) Q E H s"
  by (simp add: wpT_def returnT_def)

lemma wp_fail: "E e s \<Longrightarrow> wpT b (failT e) Q E H s"
  by (simp add: wpT_def failT_def)

lemma wp_try:
  assumes "wpT b m (\<lambda>x. wpT b (f (Inr x)) Q E H) (\<lambda>e. wpT b (f (Inl e)) Q E H) H s"
  shows "wpT b (tryT m f) Q E H s"
proof -
  have "(\<not> b \<longrightarrow> fs' = []) \<and> (case r of Done x \<Rightarrow> Q x s' | Err e \<Rightarrow> E e s' | Halted \<Rightarrow> H s')"
    if fs: "\<not> b \<longrightarrow> fs = []" and run: "tryT m f fs s = (r, fs', s')" for fs r fs' s'
  proof -
    obtain r1 fs1 s1 where m: "m fs s = (r1, fs1, s1)" by (cases "m fs s")
    note one = wpT_D [OF assms m fs]
    show ?thesis
    proof (cases r1)
      case (Done x)
      then have "wpT b (f (Inr x)) Q E H s1" "\<not> b \<longrightarrow> fs1 = []" using one by simp_all
      then show ?thesis using run m Done wpT_D by (fastforce simp: tryT_def)
    next
      case (Err e)
      then have "wpT b (f (Inl e)) Q E H s1" "\<not> b \<longrightarrow> fs1 = []" using one by simp_all
      then show ?thesis using run m Err wpT_D by (fastforce simp: tryT_def)
    next
      case Halted
      then show ?thesis using run m one by (simp add: tryT_def)
    qed
  qed
  then show ?thesis unfolding wpT_def by blast
qed

lemma wpT_mono:
  assumes "wpT b m Q E H s" "\<And>x s. Q x s \<Longrightarrow> Q' x s" "\<And>e s. E e s \<Longrightarrow> E' e s" "\<And>s. H s \<Longrightarrow> H' s"
  shows "wpT b m Q' E' H' s"
proof -
  have "(\<not> b \<longrightarrow> fs' = []) \<and> (case r of Done x \<Rightarrow> Q' x s' | Err e \<Rightarrow> E' e s' | Halted \<Rightarrow> H' s')"
    if fs: "\<not> b \<longrightarrow> fs = []" and run: "m fs s = (r, fs', s')" for fs r fs' s'
    using wpT_D [OF assms(1) run fs] assms(2-4) by (cases r) auto
  then show ?thesis unfolding wpT_def by blast
qed

lemma wp_bind:
  assumes "wpT b m (\<lambda>x. wpT b (f x) Q E H) E H s"
  shows "wpT b (bindT m f) Q E H s"
  unfolding bindT_def
  by (rule wp_try) (use assms in \<open>simp add: wpT_mono wp_fail\<close>)

lemma wp_then: "wpT b m (\<lambda>_. wpT b k Q E H) E H s \<Longrightarrow> wpT b (thenT m k) Q E H s"
  by (simp add: thenT_def wp_bind)

lemma wp_ignore: "wpT b m (\<lambda>_. wpT b k Q E H) (\<lambda>_. wpT b k Q E H) H s \<Longrightarrow> wpT b (ignoreT m k) Q E H s"
  by (simp add: ignoreT_def wp_try)

lemma wp_reject: "(c \<Longrightarrow> E e s) \<Longrightarrow> (\<not> c \<Longrightarrow> wpT b k Q E H s) \<Longrightarrow> wpT b (rejectT c e k) Q E H s"
  by (simp add: rejectT_def wp_fail)

lemma wpT_if: "(c \<Longrightarrow> wpT b m Q E H s) \<Longrightarrow> (\<not> c \<Longrightarrow> wpT b k Q E H s) \<Longrightarrow> wpT b (if c then m else k) Q E H s"
  by simp

text \<open>An access: the faults, if there may be any, and what it does when it works.\<close>

lemma wp_access:
  assumes "b \<Longrightarrow> E (FsError ''i/o error'') s" "b \<Longrightarrow> H s"
    and "case f s of (Inl e, s') \<Rightarrow> E e s' | (Inr x, s') \<Rightarrow> Q x s'"
  shows "wpT b (access f) Q E H s"
proof -
  have "(\<not> b \<longrightarrow> fs' = []) \<and> (case r of Done x \<Rightarrow> Q x s' | Err e \<Rightarrow> E e s' | Halted \<Rightarrow> H s')"
    if "\<not> b \<longrightarrow> fs = []" "access f fs s = (r, fs', s')" for fs r fs' s'
    using that assms
    by (cases fs) (auto simp: access_def split: fate.splits prod.splits sum.splits)
  then show ?thesis unfolding wpT_def by blast
qed

lemma wp_reads:
  assumes "b \<Longrightarrow> E (FsError ''i/o error'') s" "b \<Longrightarrow> H s" "case f s of Inl e \<Rightarrow> E e s | Inr x \<Rightarrow> Q x s"
  shows "wpT b (reads f) Q E H s"
  unfolding reads_def by (rule wp_access) (use assms in \<open>auto split: sum.splits\<close>)

lemma wp_writes:
  assumes "b \<Longrightarrow> E (FsError ''i/o error'') s" "b \<Longrightarrow> H s" "Q () (f s)"
  shows "wpT b (writes f) Q E H s"
  unfolding writes_def by (rule wp_access) (use assms in auto)

section \<open>Reading releases and links\<close>

text \<open>An error that faults may cause: allowed, in any form, where faults are.\<close>

definition release_ok :: "tool_config \<Rightarrow> string \<Rightarrow> string \<Rightarrow> Metadata \<Rightarrow> content_fs \<Rightarrow> bool" where
  "release_ok c w v m s \<longleftrightarrow> (\<exists>bytes. fs_releases s v = Some (ReleaseDirectory (Vpk bytes)) \<and> meta_file v s = Holds m
     \<and> describes c w v m \<and> sha256_hex bytes = cm_VPKSHA256 m \<and> int (length bytes) = cm_SizeBytes m)"

lemma wp_readRelease:
  assumes "b \<Longrightarrow> (\<And>t. E (FsError t) s)" "b \<Longrightarrow> H s" "release_ok c w v m s" "Q m s"
  shows "wpT b (readRelease c w v) Q E H s"
proof -
  obtain bytes where "fs_releases s v = Some (ReleaseDirectory (Vpk bytes))" "meta_file v s = Holds m"
    "describes c w v m" "sha256_hex bytes = cm_VPKSHA256 m" "int (length bytes) = cm_SizeBytes m"
    using assms(3) unfolding release_ok_def by blast
  then show ?thesis
    unfolding readRelease_def release_directory_def readJSON_def release_digest_def
    by (intro wp_then wp_bind wp_reads wp_reject assms(1,2) wp_return; simp)
      (intro wp_bind wp_reads wp_reject wp_return assms(1,2,4); simp add: fileDigest_def)+
qed

lemma readRelease_Done:
  assumes "readRelease c w v fs s = (Done m, fs', s')"
  shows "release_ok c w v m s \<and> s' = s"
  using assms
  by (auto simp: readRelease_def thenT_def bindT_def tryT_def rejectT_def returnT_def failT_def release_directory_def reads_def
      access_def readJSON_def release_digest_def fileDigest_def release_ok_def
      split: answer.splits list.splits fate.splits option.splits release_entry.splits json_file.splits vpk.splits
        if_splits prod.splits sum.splits)

text \<open>A name that is free or links to a release that is there.\<close>

definition plain_link :: "string \<Rightarrow> content_fs \<Rightarrow> bool" where
  "plain_link n s \<longleftrightarrow> fs_addons s n = None \<or> (\<exists>v. fs_addons s n = Some (ToRelease v) \<and> fs_releases s v \<noteq> None)"

lemma wp_lstat:
  assumes "b \<Longrightarrow> (\<And>t. E (FsError t) s)" "b \<Longrightarrow> H s"
    and "case fs_addons s n of None \<Rightarrow> E NotExist s | Some a \<Rightarrow> Q a s"
  shows "wpT b (lstat_addon n) Q E H s"
  unfolding lstat_addon_def by (rule wp_reads) (use assms in \<open>auto split: option.splits\<close>)

lemma wp_same:
  assumes fault: "b \<Longrightarrow> (\<And>t. E (FsError t) s)" "b \<Longrightarrow> H s" and "fs_releases s v \<noteq> None" "plain_link n s"
    and "Q (fs_addons s n = Some (ToRelease v)) s"
  shows "wpT b (sameLinkedDirectory n v) Q E H s"
proof -
  have stats: "wpT b (bindT (stat_addon n) (\<lambda>a. bindT (stat_release v) (\<lambda>b. returnT (a = Some b)))) Q E H s"
    if "fs_addons s n \<noteq> None"
    unfolding stat_addon_def stat_release_def
    using that assms(3-5)
    by (intro wp_bind wp_reads fault; (simp split: option.split addon_entry.split add: plain_link_def)?)
      (auto simp: plain_link_def intro!: wp_bind wp_reads wp_return fault)
  show ?thesis
    unfolding sameLinkedDirectory_def isDirectoryLink_def
    by (intro wp_try wp_bind wp_lstat fault)
      (use assms(4,5) fault stats in \<open>auto simp: plain_link_def wp_fail intro!: wp_return wp_fail split: option.split\<close>)
qed

lemma wp_create:
  assumes "b \<Longrightarrow> (\<And>t. E (FsError t) s)" "b \<Longrightarrow> H s" "fs_addons s n = None"
    and "Q () (s\<lparr>fs_addons := (fs_addons s)(n \<mapsto> ToRelease v)\<rparr>)"
  shows "wpT b (createDirectoryLink n v) Q E H s"
  unfolding createDirectoryLink_def by (rule wp_access) (use assms in auto)

lemma wp_rename:
  assumes "b \<Longrightarrow> (\<And>t. E (FsError t) s)" "b \<Longrightarrow> H s" "fs_addons s n = Some e" "fs_addons s k = None"
    and "Q () (s\<lparr>fs_addons := ((fs_addons s)(n := None))(k \<mapsto> e)\<rparr>)"
  shows "wpT b (rename_addon n k) Q E H s"
  unfolding rename_addon_def by (rule wp_access) (use assms in auto)

lemma wp_remove:
  assumes "b \<Longrightarrow> (\<And>t. E (FsError t) s)" "b \<Longrightarrow> H s" "fs_addons s n = Some (ToRelease v)"
    and "Q () (s\<lparr>fs_addons := (fs_addons s)(n := None)\<rparr>)"
  shows "wpT b (remove_addon n) Q E H s"
  unfolding remove_addon_def by (rule wp_access) (use assms in auto)

lemma drop_absent: "fs_addons s n = None \<Longrightarrow> s\<lparr>fs_addons := (fs_addons s)(n := None)\<rparr> = s"
  by (simp add: fun_upd_idem)

lemma wp_removeKnown:
  assumes fault: "b \<Longrightarrow> (\<And>t. E (FsError t) s)" "b \<Longrightarrow> H s" and "fs_releases s v \<noteq> None"
    and "fs_addons s n = None \<or> fs_addons s n = Some (ToRelease v)"
    and "Q () (s\<lparr>fs_addons := (fs_addons s)(n := None)\<rparr>)"
  shows "wpT b (removeKnownLink n v) Q E H s"
proof -
  have plain: "plain_link n s" using assms(3,4) by (auto simp: plain_link_def)
  have rest: "wpT b (if \<not> match then tryT (lstat_addon n) (\<lambda>r. case r of
        Inl NotExist \<Rightarrow> returnT ()
      | _ \<Rightarrow> failT (FsError ''temporary content link target changed'')) else remove_addon n) Q E H s"
    if m: "match = (fs_addons s n = Some (ToRelease v))" for match
  proof (cases match)
    case True
    then show ?thesis using m fault assms(5) by (simp add: wp_remove)
  next
    case False
    then have none: "fs_addons s n = None" using m assms(4) by auto
    then have "Q () s" using assms(5) by (simp add: drop_absent)
    then show ?thesis using False none fault
      by (auto simp: wp_fail intro!: wp_try wp_lstat wp_return)
  qed
  show ?thesis unfolding removeKnownLink_def
    by (rule wp_bind, rule wp_same) (use fault assms(3) plain rest in auto)
qed

section \<open>The phases of a transition\<close>

text \<open>A run of the tool on workshop \<open>w\<close> in the state \<open>s0\<close>: the record of the transition it makes, and the
  metadata of the release it goes to.\<close>

definition release_link :: "string \<Rightarrow> addon_entry option" where
  "release_link v = (if v = [] then None else Some (ToRelease v))"

definition transition_ready :: "tool_config \<Rightarrow> string \<Rightarrow> transition \<Rightarrow> Metadata \<Rightarrow> content_fs \<Rightarrow> bool" where
  "transition_ready c w p m s0 \<longleftrightarrow> valid_transition w p \<and> tr_Old p \<noteq> tr_New p
     \<and> distinct [w, tr_BackupName p, tr_TempName p]
     \<and> release_ok c w (tr_New p) m s0 \<and> (tr_Old p \<noteq> [] \<longrightarrow> fs_releases s0 (tr_Old p) \<noteq> None)
     \<and> fs_addons s0 w = release_link (tr_Old p)
     \<and> fs_addons s0 (tr_BackupName p) = None \<and> fs_addons s0 (tr_TempName p) = None \<and> fs_pending s0 = NoFile"

text \<open>What a transition never touches: the releases, the directories and the other entries.\<close>

definition same_content :: "string \<Rightarrow> transition \<Rightarrow> content_fs \<Rightarrow> content_fs \<Rightarrow> bool" where
  "same_content w p s0 s \<longleftrightarrow> fs_releases s = fs_releases s0 \<and> fs_metas s = fs_metas s0 \<and> fs_base s = fs_base s0
     \<and> fs_releases_dir s = fs_releases_dir s0 \<and> fs_metadata_dir s = fs_metadata_dir s0 \<and> fs_addons_dir s = fs_addons_dir s0
     \<and> fs_staged s = fs_staged s0
     \<and> (\<forall>n. n \<notin> {w, tr_BackupName p, tr_TempName p} \<longrightarrow> fs_addons s n = fs_addons s0 n)"

definition links :: "string \<Rightarrow> transition \<Rightarrow> content_fs \<Rightarrow> addon_entry option \<times> addon_entry option \<times> addon_entry option" where
  "links w p s = (fs_addons s w, fs_addons s (tr_BackupName p), fs_addons s (tr_TempName p))"

definition previous_after :: "transition \<Rightarrow> content_fs \<Rightarrow> string json_file \<Rightarrow> bool" where
  "previous_after p s0 f \<longleftrightarrow> (if tr_Rollback p \<or> tr_Old p = [] then f \<in> {fs_previous s0, NoFile} else f = Holds (tr_Old p))"

text \<open>Before the new link is in place, while it is and the files follow, and after.\<close>

definition phase_old :: "string \<Rightarrow> transition \<Rightarrow> content_fs \<Rightarrow> content_fs \<Rightarrow> bool" where
  "phase_old w p s0 s \<longleftrightarrow> fs_current s = fs_current s0 \<and> fs_previous s = fs_previous s0
     \<and> (links w p s \<in> {(release_link (tr_Old p), None, None), (release_link (tr_Old p), None, release_link (tr_New p))}
          \<and> fs_pending s \<in> {NoFile, Holds p}
        \<or> tr_Old p \<noteq> [] \<and> links w p s = (None, release_link (tr_Old p), release_link (tr_New p)) \<and> fs_pending s = Holds p)"

definition phase_new :: "string \<Rightarrow> transition \<Rightarrow> Metadata \<Rightarrow> content_fs \<Rightarrow> content_fs \<Rightarrow> bool" where
  "phase_new w p m s0 s \<longleftrightarrow> links w p s \<in> {(release_link (tr_New p), release_link (tr_Old p), None), (release_link (tr_New p), None, None)}
     \<and> fs_current s \<in> {fs_current s0, Holds m} \<and> (fs_previous s = fs_previous s0 \<or> previous_after p s0 (fs_previous s))
     \<and> fs_pending s = Holds p"

definition phase_done :: "string \<Rightarrow> transition \<Rightarrow> Metadata \<Rightarrow> content_fs \<Rightarrow> content_fs \<Rightarrow> bool" where
  "phase_done w p m s0 s \<longleftrightarrow> links w p s = (release_link (tr_New p), None, None)
     \<and> fs_current s = Holds m \<and> previous_after p s0 (fs_previous s) \<and> fs_pending s = NoFile"

definition in_transition :: "string \<Rightarrow> transition \<Rightarrow> Metadata \<Rightarrow> content_fs \<Rightarrow> content_fs \<Rightarrow> bool" where
  "in_transition w p m s0 s \<longleftrightarrow> same_content w p s0 s \<and> (phase_old w p s0 s \<or> phase_new w p m s0 s \<or> phase_done w p m s0 s)"

lemma release_ok_same: "same_content w p s0 s \<Longrightarrow> release_ok c w v m s = release_ok c w v m s0"
  by (simp add: same_content_def release_ok_def meta_file_def)

lemma release_ok_there: "release_ok c w v m s \<Longrightarrow> fs_releases s v \<noteq> None"
  by (auto simp: release_ok_def)

text \<open>The steps of finishing: each write stays in the phase until the record goes.\<close>

lemma same_content_writes:
  "same_content w p s0 (s\<lparr>fs_current := x\<rparr>) = same_content w p s0 s"
  "same_content w p s0 (s\<lparr>fs_previous := y\<rparr>) = same_content w p s0 s"
  "same_content w p s0 (s\<lparr>fs_pending := z\<rparr>) = same_content w p s0 s"
  "same_content w p s0 (s\<lparr>fs_locked := l\<rparr>) = same_content w p s0 s"
  by (simp_all add: same_content_def)

lemma links_writes:
  "links w p (s\<lparr>fs_current := x\<rparr>) = links w p s" "links w p (s\<lparr>fs_previous := y\<rparr>) = links w p s"
  "links w p (s\<lparr>fs_pending := z\<rparr>) = links w p s" "links w p (s\<lparr>fs_locked := l\<rparr>) = links w p s"
  by (simp_all add: links_def)

lemma finish_steps:
  assumes ready: "transition_ready c w p m s0" and sc: "same_content w p s0 s" and new: "phase_new w p m s0 s"
  shows "wpT b (finish_transition c w p) (\<lambda>_. \<lambda>s'. same_content w p s0 s' \<and> phase_done w p m s0 s')
    (\<lambda>_ s'. b \<and> in_transition w p m s0 s') (\<lambda>s'. b \<and> in_transition w p m s0 s') s"
proof -
  let ?E = "\<lambda>_ s'. b \<and> in_transition w p m s0 s'" and ?H = "\<lambda>s'. b \<and> in_transition w p m s0 s'"
  let ?Q = "\<lambda>_ s'. same_content w p s0 s' \<and> phase_done w p m s0 s'"
  have rd: "tr_Old p \<noteq> tr_New p" "distinct [w, tr_BackupName p, tr_TempName p]" "release_ok c w (tr_New p) m s0"
    "tr_Old p \<noteq> [] \<Longrightarrow> fs_releases s0 (tr_Old p) \<noteq> None"
    using ready by (auto simp: transition_ready_def)
  have drop: "wpT b (writes (fs_pending_update (\<lambda>_. NoFile))) ?Q ?E ?H s"
    if "same_content w p s0 s" "phase_new w p m s0 s" "fs_current s = Holds m" "previous_after p s0 (fs_previous s)"
      "links w p s = (release_link (tr_New p), None, None)" for s
    by (rule wp_writes) (use that in \<open>auto simp: in_transition_def same_content_writes phase_done_def links_writes\<close>)
  have temp: "wpT b (thenT (removeKnownLink (tr_TempName p) (tr_New p)) (writes (fs_pending_update (\<lambda>_. NoFile)))) ?Q ?E ?H s"
    if s: "same_content w p s0 s" "phase_new w p m s0 s" "fs_current s = Holds m" "previous_after p s0 (fs_previous s)"
      "links w p s = (release_link (tr_New p), None, None)" for s
  proof (rule wp_then, rule wp_removeKnown)
    have none: "fs_addons s (tr_TempName p) = None" using s(5) by (simp add: links_def)
    then show "wpT b (writes (fs_pending_update (\<lambda>_. NoFile))) ?Q ?E ?H (s\<lparr>fs_addons := (fs_addons s)(tr_TempName p := None)\<rparr>)"
      using drop [OF s] by (simp add: drop_absent)
    show "fs_releases s (tr_New p) \<noteq> None" using release_ok_there [OF rd(3)] s(1) by (simp add: same_content_def)
  qed (use s in \<open>auto simp: in_transition_def links_def\<close>)
  have backup: "wpT b (thenT (if tr_Old p \<noteq> [] then removeKnownLink (tr_BackupName p) (tr_Old p) else returnT ())
      (thenT (removeKnownLink (tr_TempName p) (tr_New p)) (writes (fs_pending_update (\<lambda>_. NoFile))))) ?Q ?E ?H s"
    if s: "same_content w p s0 s" "phase_new w p m s0 s" "fs_current s = Holds m" "previous_after p s0 (fs_previous s)" for s
  proof (cases "tr_Old p = []")
    case True
    then have "links w p s = (release_link (tr_New p), None, None)" using s(2) by (auto simp: phase_new_def release_link_def)
    then show ?thesis using True temp [OF s] by (auto intro!: wp_then wp_return)
  next
    case False
    let ?s = "s\<lparr>fs_addons := (fs_addons s)(tr_BackupName p := None)\<rparr>"
    have "links w p ?s = (release_link (tr_New p), None, None)"
      using s(2) rd(2) by (auto simp: phase_new_def links_def)
    moreover have "same_content w p s0 ?s" using s(1) by (simp add: same_content_def)
    ultimately have "phase_new w p m s0 ?s" using s(2) by (auto simp: phase_new_def)
    then have "wpT b (thenT (removeKnownLink (tr_TempName p) (tr_New p)) (writes (fs_pending_update (\<lambda>_. NoFile)))) ?Q ?E ?H ?s"
      using s(3,4) \<open>links w p ?s = _\<close> \<open>same_content w p s0 ?s\<close> by (intro temp) simp_all
    moreover have "fs_addons s (tr_BackupName p) = None \<or> fs_addons s (tr_BackupName p) = Some (ToRelease (tr_Old p))"
      using s(2) False by (auto simp: phase_new_def links_def release_link_def)
    moreover have "fs_releases s (tr_Old p) \<noteq> None" using rd(4) [OF False] s(1) by (simp add: same_content_def)
    ultimately show ?thesis
      using False s(1,2) by (auto simp: in_transition_def intro!: wp_then wp_removeKnown)
  qed
  have previous: "wpT b (thenT (if tr_Rollback p \<or> tr_Old p = [] then ignoreT (writes (fs_previous_update (\<lambda>_. NoFile))) (returnT ())
        else writes (fs_previous_update (\<lambda>_. Holds (tr_Old p))))
      (thenT (if tr_Old p \<noteq> [] then removeKnownLink (tr_BackupName p) (tr_Old p) else returnT ())
      (thenT (removeKnownLink (tr_TempName p) (tr_New p)) (writes (fs_pending_update (\<lambda>_. NoFile)))))) ?Q ?E ?H s"
    if s: "same_content w p s0 s" "phase_new w p m s0 s" "fs_current s = Holds m" for s
  proof (cases "tr_Rollback p \<or> tr_Old p = []")
    case True
    have "previous_after p s0 (fs_previous s)" "previous_after p s0 NoFile"
      using True s(2) by (auto simp: phase_new_def previous_after_def)
    moreover have "phase_new w p m s0 (s\<lparr>fs_previous := NoFile\<rparr>)"
      using s(2) calculation by (auto simp: phase_new_def links_writes)
    ultimately show ?thesis
      unfolding if_P [OF True]
      by (intro wp_then wp_ignore wp_writes wp_return backup)
        (use s in \<open>auto simp: in_transition_def same_content_writes\<close>)
  next
    case False
    have "previous_after p s0 (Holds (tr_Old p))" using False by (simp add: previous_after_def)
    moreover have "phase_new w p m s0 (s\<lparr>fs_previous := Holds (tr_Old p)\<rparr>)"
      using s(2) calculation by (auto simp: phase_new_def links_writes)
    ultimately show ?thesis
      unfolding if_not_P [OF False]
      by (intro wp_then wp_writes backup) (use s in \<open>auto simp: in_transition_def same_content_writes\<close>)
  qed
  have current: "wpT b (thenT (writes (fs_current_update (\<lambda>_. Holds m)))
      (thenT (if tr_Rollback p \<or> tr_Old p = [] then ignoreT (writes (fs_previous_update (\<lambda>_. NoFile))) (returnT ())
        else writes (fs_previous_update (\<lambda>_. Holds (tr_Old p))))
      (thenT (if tr_Old p \<noteq> [] then removeKnownLink (tr_BackupName p) (tr_Old p) else returnT ())
      (thenT (removeKnownLink (tr_TempName p) (tr_New p)) (writes (fs_pending_update (\<lambda>_. NoFile))))))) ?Q ?E ?H s"
    by (intro wp_then wp_writes previous)
      (use sc new in \<open>auto simp: in_transition_def same_content_writes phase_new_def links_writes\<close>)
  show ?thesis
    unfolding finish_transition_def
    by (intro wp_bind wp_readRelease [where m = m])
      (use current sc new rd(3) release_ok_same [OF sc] in \<open>auto simp: in_transition_def\<close>)
qed

text \<open>Undoing: the old link comes back, the temporary one goes, and then the record.\<close>

lemma undo_steps:
  assumes ready: "transition_ready c w p m s0" and sc: "same_content w p s0 s" and old: "phase_old w p s0 s"
    and pending: "fs_pending s = Holds p"
  shows "wpT b (undo_transition w p) (\<lambda>_ s'. same_content w p s0 s' \<and> phase_old w p s0 s' \<and> fs_pending s' = NoFile
        \<and> links w p s' = (release_link (tr_Old p), None, None))
    (\<lambda>_ s'. b \<and> in_transition w p m s0 s') (\<lambda>s'. b \<and> in_transition w p m s0 s') s"
proof -
  let ?E = "\<lambda>_ s'. b \<and> in_transition w p m s0 s'" and ?H = "\<lambda>s'. b \<and> in_transition w p m s0 s'"
  let ?Q = "\<lambda>_ s'. same_content w p s0 s' \<and> phase_old w p s0 s' \<and> fs_pending s' = NoFile
        \<and> links w p s' = (release_link (tr_Old p), None, None)"
  let ?L = "release_link (tr_Old p)" and ?N = "release_link (tr_New p)"
  have rd: "tr_Old p \<noteq> tr_New p" "distinct [w, tr_BackupName p, tr_TempName p]" "release_ok c w (tr_New p) m s0"
    "tr_Old p \<noteq> [] \<Longrightarrow> fs_releases s0 (tr_Old p) \<noteq> None" "tr_New p \<noteq> []"
    using ready by (auto simp: transition_ready_def valid_transition_def)
  have drop: "wpT b (writes (fs_pending_update (\<lambda>_. NoFile))) ?Q ?E ?H s"
    if "same_content w p s0 s" "phase_old w p s0 s" "links w p s = (?L, None, None)" for s
    by (rule wp_writes) (use that in \<open>auto simp: in_transition_def same_content_writes phase_old_def links_writes\<close>)
  have temp: "wpT b (thenT (removeKnownLink (tr_TempName p) (tr_New p)) (writes (fs_pending_update (\<lambda>_. NoFile)))) ?Q ?E ?H s"
    if s: "same_content w p s0 s" "phase_old w p s0 s" "fs_pending s = Holds p" "links w p s \<in> {(?L, None, None), (?L, None, ?N)}" for s
  proof (rule wp_then, rule wp_removeKnown)
    let ?s = "s\<lparr>fs_addons := (fs_addons s)(tr_TempName p := None)\<rparr>"
    have "links w p ?s = (?L, None, None)" using s(4) rd(2) by (auto simp: links_def)
    moreover have "same_content w p s0 ?s" using s(1) by (simp add: same_content_def)
    moreover have "phase_old w p s0 ?s" using s(2,3) calculation(1) by (simp add: phase_old_def)
    ultimately show "wpT b (writes (fs_pending_update (\<lambda>_. NoFile))) ?Q ?E ?H ?s" by (intro drop)
    show "fs_releases s (tr_New p) \<noteq> None" using release_ok_there [OF rd(3)] s(1) by (simp add: same_content_def)
    show "fs_addons s (tr_TempName p) = None \<or> fs_addons s (tr_TempName p) = Some (ToRelease (tr_New p))"
      using s(4) rd(5) by (auto simp: links_def release_link_def)
  qed (use s in \<open>auto simp: in_transition_def\<close>)
  have there: "fs_releases s (tr_Old p) \<noteq> None" if "tr_Old p \<noteq> []"
    using rd(4) [OF that] sc by (simp add: same_content_def)
  have inT: "in_transition w p m s0 s" using sc old by (simp add: in_transition_def)
  consider (first) "tr_Old p = []" | (same) "tr_Old p \<noteq> []" "links w p s \<in> {(?L, None, None), (?L, None, ?N)}"
    | (aside) "tr_Old p \<noteq> []" "links w p s = (None, ?L, ?N)"
    using old by (auto simp: phase_old_def)
  then show ?thesis
  proof cases
    case first
    then have l: "links w p s \<in> {(?L, None, None), (?L, None, ?N)}" using old by (auto simp: phase_old_def)
    then have "fs_addons s w = None" using first by (auto simp: links_def release_link_def)
    then show ?thesis
      using first temp [OF sc old pending l] inT
      unfolding undo_transition_def
      by (auto intro!: wp_then wp_try wp_lstat wp_reject wp_return)
  next
    case same
    then have at: "fs_addons s w = Some (ToRelease (tr_Old p))" by (auto simp: links_def release_link_def)
    then have "plain_link w s" using there same(1) by (simp add: plain_link_def)
    then show ?thesis
      using same(1) at temp [OF sc old pending same(2)] inT there
      unfolding undo_transition_def
      by (auto intro!: wp_then wp_bind wp_same wp_return)
  next
    case aside
    then have at: "fs_addons s w = None" "fs_addons s (tr_BackupName p) = Some (ToRelease (tr_Old p))"
      by (auto simp: links_def release_link_def)
    let ?s = "s\<lparr>fs_addons := ((fs_addons s)(tr_BackupName p := None))(w \<mapsto> ToRelease (tr_Old p))\<rparr>"
    have l: "links w p ?s = (?L, None, ?N)" using aside rd(2) by (auto simp: links_def release_link_def)
    have sc': "same_content w p s0 ?s" using sc by (simp add: same_content_def)
    have old': "phase_old w p s0 ?s" using old pending l by (simp add: phase_old_def)
    have "wpT b (thenT (removeKnownLink (tr_TempName p) (tr_New p)) (writes (fs_pending_update (\<lambda>_. NoFile)))) ?Q ?E ?H ?s"
      by (rule temp [OF sc' old']) (use pending l in simp_all)
    moreover have "plain_link w s" "plain_link (tr_BackupName p) s" using at there [OF aside(1)] by (auto simp: plain_link_def)
    ultimately show ?thesis
      using aside(1) at inT there
      unfolding undo_transition_def
      by (auto intro!: wp_then wp_bind wp_same wp_reject wp_try wp_lstat wp_rename)
  qed
qed

section \<open>Recovery\<close>

text \<open>A transition that is over, in either direction.\<close>

definition settled :: "string \<Rightarrow> transition \<Rightarrow> Metadata \<Rightarrow> content_fs \<Rightarrow> content_fs \<Rightarrow> bool" where
  "settled w p m s0 s \<longleftrightarrow> same_content w p s0 s \<and> fs_pending s = NoFile \<and> (phase_old w p s0 s \<or> phase_done w p m s0 s)"

lemma wp_pending:
  assumes "b \<Longrightarrow> (\<And>t. E (FsError t) s)" "b \<Longrightarrow> H s" "fs_pending s = Holds p" "Q p s"
  shows "wpT b (readJSON fs_pending) Q E H s"
  unfolding readJSON_def by (rule wp_reads) (use assms in auto)

lemma recover_new:
  assumes ready: "transition_ready c w p m s0" and sc: "same_content w p s0 s" and new: "phase_new w p m s0 s"
  shows "wpT b (recoverTransition c w) (\<lambda>_ s'. same_content w p s0 s' \<and> phase_done w p m s0 s')
    (\<lambda>_ s'. b \<and> in_transition w p m s0 s') (\<lambda>s'. b \<and> in_transition w p m s0 s') s"
proof -
  have inT: "in_transition w p m s0 s" using sc new by (simp add: in_transition_def)
  have rd: "valid_transition w p" "fs_releases s (tr_New p) \<noteq> None" "tr_New p \<noteq> []"
    using ready sc release_ok_there by (auto simp: transition_ready_def same_content_def valid_transition_def)
  have at: "fs_addons s w = Some (ToRelease (tr_New p))" "fs_pending s = Holds p"
    using new rd(3) by (auto simp: phase_new_def links_def release_link_def)
  then have "plain_link w s" using rd(2) by (simp add: plain_link_def)
  then show ?thesis
    using at rd(1,2) inT finish_steps [OF ready sc new, of b]
    unfolding recoverTransition_def
    by (auto intro!: wp_try wp_pending wp_reject wp_bind wp_same wp_fail)
qed

lemma recover_old:
  assumes ready: "transition_ready c w p m s0" and sc: "same_content w p s0 s" and old: "phase_old w p s0 s"
    and pending: "fs_pending s = Holds p"
  shows "wpT b (recoverTransition c w) (\<lambda>_. settled w p m s0)
    (\<lambda>_ s'. b \<and> in_transition w p m s0 s') (\<lambda>s'. b \<and> in_transition w p m s0 s') s"
proof -
  have inT: "in_transition w p m s0 s" using sc old by (simp add: in_transition_def)
  have rd: "valid_transition w p" "fs_releases s (tr_New p) \<noteq> None" "tr_New p \<noteq> []" "tr_Old p \<noteq> tr_New p"
    "tr_Old p \<noteq> [] \<longrightarrow> fs_releases s (tr_Old p) \<noteq> None"
    using ready sc release_ok_there by (auto simp: transition_ready_def same_content_def valid_transition_def)
  have at: "fs_addons s w \<noteq> Some (ToRelease (tr_New p))" "plain_link w s"
    using old rd(3-5) by (auto simp: phase_old_def links_def release_link_def plain_link_def split: if_splits)
  have "wpT b (undo_transition w p) (\<lambda>_. settled w p m s0)
    (\<lambda>_ s'. b \<and> in_transition w p m s0 s') (\<lambda>s'. b \<and> in_transition w p m s0 s') s"
    by (rule wpT_mono [OF undo_steps [OF ready sc old pending]]) (auto simp: settled_def)
  then show ?thesis
    using at rd(1,2) inT pending
    unfolding recoverTransition_def
    by (auto intro!: wp_try wp_pending wp_reject wp_bind wp_same wp_fail)
qed

lemma recover_steps:
  assumes ready: "transition_ready c w p m s0" and inT: "in_transition w p m s0 s"
  shows "wpT b (recoverTransition c w) (\<lambda>_. settled w p m s0)
    (\<lambda>_ s'. b \<and> in_transition w p m s0 s') (\<lambda>s'. b \<and> in_transition w p m s0 s') s"
proof (cases "fs_pending s = NoFile")
  case True
  then have st: "settled w p m s0 s" using inT by (auto simp: in_transition_def settled_def phase_new_def)
  have "wpT b (readJSON fs_pending) (\<lambda>x. wpT b (case Inr x of Inl NotExist \<Rightarrow> returnT () | Inl e \<Rightarrow> failT e
      | Inr p \<Rightarrow> rejectT (\<not> valid_transition w p) (FsError ''invalid content transition record'') (
        bindT (sameLinkedDirectory w (tr_New p)) (\<lambda>newCurrent.
        if newCurrent then finish_transition c w p else undo_transition w p)))
        (\<lambda>_. settled w p m s0) (\<lambda>_ s'. b \<and> in_transition w p m s0 s') (\<lambda>s'. b \<and> in_transition w p m s0 s'))
      (\<lambda>e. wpT b (case Inl e of Inl NotExist \<Rightarrow> returnT () | Inl e \<Rightarrow> failT e
      | Inr p \<Rightarrow> rejectT (\<not> valid_transition w p) (FsError ''invalid content transition record'') (
        bindT (sameLinkedDirectory w (tr_New p)) (\<lambda>newCurrent.
        if newCurrent then finish_transition c w p else undo_transition w p)))
        (\<lambda>_. settled w p m s0) (\<lambda>_ s'. b \<and> in_transition w p m s0 s') (\<lambda>s'. b \<and> in_transition w p m s0 s'))
      (\<lambda>s'. b \<and> in_transition w p m s0 s') s"
    unfolding readJSON_def
    by (rule wp_reads) (use True inT st in \<open>auto intro!: wp_return wp_fail\<close>)
  then show ?thesis unfolding recoverTransition_def by (rule wp_try)
next
  case False
  consider "phase_old w p s0 s" "fs_pending s = Holds p" | "phase_new w p m s0 s"
    using False inT by (auto simp: in_transition_def phase_old_def phase_done_def)
  then show ?thesis
  proof cases
    case 1
    then show ?thesis using recover_old [OF ready] inT by (simp add: in_transition_def)
  next
    case 2
    have "settled w p m s0 s'" if "same_content w p s0 s' \<and> phase_done w p m s0 s'" for s'
      using that by (simp add: settled_def phase_done_def)
    then show ?thesis using wpT_mono [OF recover_new [OF ready _ 2]] inT by (auto simp: in_transition_def)
  qed
qed

section \<open>The current release\<close>

definition points_to :: "tool_config \<Rightarrow> string \<Rightarrow> string \<Rightarrow> content_fs \<Rightarrow> bool" where
  "points_to c w v s \<longleftrightarrow> (if v = [] then fs_current s = NoFile \<and> fs_addons s w = None
     else \<exists>m q. fs_current s = Holds m \<and> cm_ContentVersionID m = v \<and> validID w v \<and> cm_WorkshopID m = w
       \<and> release_ok c w v q s \<and> cm_VPKSHA256 m = cm_VPKSHA256 q \<and> cm_SizeBytes m = cm_SizeBytes q
       \<and> Clean (cm_ReleasePath m) = Clean (cm_ReleasePath q) \<and> fs_addons s w = Some (ToRelease v))"

lemma current_Done:
  assumes "current c w fs s = (Done v, fs', s')"
  shows "points_to c w v s \<and> s' = s"
proof (cases "fs_current s")
  case NoFile
  then show ?thesis using assms
    by (auto simp: current_def tryT_def bindT_def readJSON_def reads_def access_def rejectT_def returnT_def failT_def
        lstat_addon_def points_to_def Let_def split: list.splits fate.splits option.splits if_splits)
next
  case BadFile
  then show ?thesis using assms
    by (auto simp: current_def tryT_def readJSON_def reads_def access_def failT_def split: list.splits fate.splits)
next
  case (Holds m)
  then obtain fs1 where rest: "rejectT (\<not> validID w (cm_ContentVersionID m) \<or> cm_ContentVersionID m = [] \<or> cm_WorkshopID m \<noteq> w)
      (FsError ''invalid current metadata'') (
        bindT (readRelease c w (cm_ContentVersionID m)) (\<lambda>p.
        rejectT (cm_VPKSHA256 m \<noteq> cm_VPKSHA256 p \<or> cm_SizeBytes m \<noteq> cm_SizeBytes p
                 \<or> Clean (cm_ReleasePath m) \<noteq> Clean (cm_ReleasePath p)) (FsError ''current metadata differs from release'') (
        bindT (isDirectoryLink w) (\<lambda>linked.
        rejectT (\<not> linked) (FsError ''current addon is not a directory link'') (
        bindT (stat_addon w) (\<lambda>a. bindT (stat_release (cm_ContentVersionID m)) (\<lambda>b.
        rejectT (a \<noteq> Some b) (FsError ''current link and metadata disagree'') (returnT (cm_ContentVersionID m))))))))) fs1 s
      = (Done v, fs', s')"
    using assms
    by (auto simp: current_def tryT_def readJSON_def reads_def access_def failT_def Let_def split: list.splits fate.splits)
  have ok: "validID w (cm_ContentVersionID m)" "cm_ContentVersionID m \<noteq> []" "cm_WorkshopID m = w"
    using rest by (auto simp: rejectT_def failT_def split: if_splits)
  obtain q fs2 s2 where rr: "readRelease c w (cm_ContentVersionID m) fs1 s = (Done q, fs2, s2)"
    using rest ok by (cases "readRelease c w (cm_ContentVersionID m) fs1 s")
      (auto simp: rejectT_def bindT_def tryT_def failT_def split: answer.splits)
  note q = readRelease_Done [OF rr]
  show ?thesis
    using rest ok rr q Holds
    by (auto simp: rejectT_def bindT_def tryT_def failT_def returnT_def isDirectoryLink_def lstat_addon_def stat_addon_def
        stat_release_def reads_def access_def points_to_def
        split: answer.splits list.splits fate.splits option.splits addon_entry.splits if_splits)
qed

lemma wp_current:
  assumes fault: "b \<Longrightarrow> (\<And>t. E (FsError t) s)" "b \<Longrightarrow> H s" and at: "points_to c w v s" and "Q v s"
  shows "wpT b (current c w) Q E H s"
proof (cases "v = []")
  case True
  then have "fs_current s = NoFile" "fs_addons s w = None" using at by (simp_all add: points_to_def)
  then show ?thesis
    unfolding current_def readJSON_def
    using fault assms(4) True
    by (auto intro!: wp_try wp_reads wp_lstat wp_reject wp_return wp_fail)
next
  case False
  then obtain m q where mq: "fs_current s = Holds m" "cm_ContentVersionID m = v" "validID w v" "cm_WorkshopID m = w"
    "release_ok c w v q s" "cm_VPKSHA256 m = cm_VPKSHA256 q" "cm_SizeBytes m = cm_SizeBytes q"
    "Clean (cm_ReleasePath m) = Clean (cm_ReleasePath q)" "fs_addons s w = Some (ToRelease v)"
    using at by (auto simp: points_to_def)
  then have "fs_releases s v \<noteq> None" by (simp add: release_ok_there)
  then show ?thesis
    unfolding current_def readJSON_def isDirectoryLink_def stat_addon_def stat_release_def
    using fault assms(4) False mq
    by (auto simp: Let_def intro!: wp_try wp_reads wp_lstat wp_reject wp_return wp_fail wp_bind wp_readRelease [where m = q])
qed

text \<open>A settled transition shows one of the two releases.\<close>

lemma settled_points:
  assumes "transition_ready c w p m s0" "points_to c w (tr_Old p) s0" "settled w p m s0 s"
  shows "phase_old w p s0 s \<and> points_to c w (tr_Old p) s \<or> phase_done w p m s0 s \<and> points_to c w (tr_New p) s"
proof (cases "phase_done w p m s0 s")
  case True
  have sc: "same_content w p s0 s" using assms(3) by (simp add: settled_def)
  have rd: "release_ok c w (tr_New p) m s" "tr_New p \<noteq> []" "validID w (tr_New p)" "describes c w (tr_New p) m"
    using assms(1) release_ok_same [OF sc] by (auto simp: transition_ready_def valid_transition_def release_ok_def)
  then show ?thesis using True
    by (auto simp: phase_done_def points_to_def links_def release_link_def describes_def)
next
  case False
  then have old: "phase_old w p s0 s" "fs_pending s = NoFile" and sc: "same_content w p s0 s"
    using assms(3) by (auto simp: settled_def)
  have "fs_addons s w = fs_addons s0 w" "fs_current s = fs_current s0"
    using old assms(1) by (auto simp: phase_old_def links_def transition_ready_def)
  then have "points_to c w (tr_Old p) s"
    using assms(2) release_ok_same [OF sc] by (auto simp: points_to_def)
  then show ?thesis using old by blast
qed

section \<open>Switching\<close>

lemma ready_start:
  assumes "transition_ready c w p m s0" "same_content w p s0 s" "fs_addons s = fs_addons s0" "fs_current s = fs_current s0"
    "fs_previous s = fs_previous s0" "fs_pending s = NoFile"
  shows "in_transition w p m s0 s"
  using assms by (simp add: in_transition_def phase_old_def links_def transition_ready_def)

lemma ignore_recover:
  assumes ready: "transition_ready c w p m s0" and inT: "in_transition w p m s0 s"
  shows "wpT True (ignoreT (recoverTransition c w) (failT e)) Q (\<lambda>_. in_transition w p m s0) (in_transition w p m s0) s"
  by (rule wp_ignore, rule wpT_mono [OF recover_steps [OF ready inT]])
    (auto simp: settled_def in_transition_def intro!: wp_fail)

lemma move_steps:
  assumes ready: "transition_ready c w p m s0" and sc: "same_content w p s0 s" and at: "fs_addons s = fs_addons s0"
    and "fs_current s = fs_current s0" "fs_previous s = fs_previous s0" "fs_pending s = NoFile"
  shows "wpT True (move_links c w p) (\<lambda>_ s'. same_content w p s0 s' \<and> phase_done w p m s0 s')
    (\<lambda>_. in_transition w p m s0) (in_transition w p m s0) s"
proof -
  let ?I = "in_transition w p m s0" and ?Q = "\<lambda>_ s'. same_content w p s0 s' \<and> phase_done w p m s0 s'"
  let ?L = "release_link (tr_Old p)" and ?N = "release_link (tr_New p)"
  let ?s1 = "s\<lparr>fs_addons := (fs_addons s)(tr_TempName p \<mapsto> ToRelease (tr_New p))\<rparr>"
  have rd: "distinct [w, tr_BackupName p, tr_TempName p]" "tr_New p \<noteq> []" "fs_addons s w = ?L"
    "fs_addons s (tr_BackupName p) = None" "fs_addons s (tr_TempName p) = None"
    using ready at by (auto simp: transition_ready_def valid_transition_def)
  have start: "?I s" using assms by (intro ready_start)
  have l1: "links w p ?s1 = (?L, None, ?N)" using rd by (auto simp: links_def release_link_def)
  have sc1: "same_content w p s0 ?s1" using sc by (simp add: same_content_def)
  have one: "?I ?s1" using sc1 l1 assms(4-6) by (simp add: in_transition_def phase_old_def)
  let ?s2 = "?s1\<lparr>fs_pending := Holds p\<rparr>"
  have l2: "links w p ?s2 = (?L, None, ?N)" using l1 by (simp only: links_writes)
  have sc2: "same_content w p s0 ?s2" using sc1 by (simp only: same_content_writes)
  have old2: "phase_old w p s0 ?s2" using l2 assms(4,5) by (simp add: phase_old_def)
  have two: "?I ?s2" using sc2 old2 by (simp add: in_transition_def)
  let ?s3 = "?s2\<lparr>fs_addons := ((fs_addons ?s2)(w := None))(tr_BackupName p := ?L)\<rparr>"
  have install: "wpT True (rename_addon (tr_TempName p) w)
      (\<lambda>_. wpT True (recoverTransition c w) ?Q (\<lambda>_. ?I) ?I) (\<lambda>e. wpT True (ignoreT (recoverTransition c w) (failT e)) ?Q (\<lambda>_. ?I) ?I) ?I s3"
    if s3: "same_content w p s0 s3" "phase_old w p s0 s3" "fs_pending s3 = Holds p" "links w p s3 = (None, ?L, ?N)"
      "fs_current s3 = fs_current s0" "fs_previous s3 = fs_previous s0" for s3
  proof (rule wp_rename)
    have i3: "?I s3" using s3(1,2) by (simp add: in_transition_def)
    then show "wpT True (ignoreT (recoverTransition c w) (failT (FsError t))) ?Q (\<lambda>_. ?I) ?I s3" for t
      by (rule ignore_recover [OF ready])
    show "?I s3" by (rule i3)
    show "fs_addons s3 (tr_TempName p) = Some (ToRelease (tr_New p))" "fs_addons s3 w = None"
      using s3(4) rd(2) by (simp_all add: links_def release_link_def)
    let ?s4 = "s3\<lparr>fs_addons := ((fs_addons s3)(tr_TempName p := None))(w \<mapsto> ToRelease (tr_New p))\<rparr>"
    have "links w p ?s4 = (?N, ?L, None)" using s3(4) rd(1,2) by (auto simp: links_def release_link_def)
    then have "phase_new w p m s0 ?s4" using s3(3,5,6) by (simp add: phase_new_def)
    moreover have "same_content w p s0 ?s4" using s3(1) by (simp add: same_content_def)
    ultimately show "wpT True (recoverTransition c w) ?Q (\<lambda>_. ?I) ?I ?s4"
      using recover_new [OF ready, of ?s4 True] by simp
  qed
  have aside: "wpT True (if tr_Old p \<noteq> [] then rename_addon w (tr_BackupName p) else returnT ())
      (\<lambda>_. wpT True (tryT (rename_addon (tr_TempName p) w) (\<lambda>r. case r of
              Inl e \<Rightarrow> ignoreT (recoverTransition c w) (failT e)
            | Inr _ \<Rightarrow> recoverTransition c w)) ?Q (\<lambda>_. ?I) ?I)
      (\<lambda>e. wpT True (ignoreT (recoverTransition c w) (failT e)) ?Q (\<lambda>_. ?I) ?I) ?I ?s2"
  proof (cases "tr_Old p = []")
    case True
    then have l: "links w p ?s2 = (None, ?L, ?N)" using l2 by (simp add: release_link_def)
    show ?thesis
      unfolding if_not_P [of "tr_Old p \<noteq> []", unfolded not_not, OF True]
      by (intro wp_return wp_try) (use install [OF sc2 old2 _ l] assms(4,5) in simp)
  next
    case False
    have l3: "links w p ?s3 = (None, ?L, ?N)" using rd by (auto simp: links_def release_link_def)
    have sc3: "same_content w p s0 ?s3" using sc2 by (simp add: same_content_def)
    have old3: "phase_old w p s0 ?s3" using l3 False assms(4,5) by (simp add: phase_old_def)
    have L: "?L = Some (ToRelease (tr_Old p))" using False by (simp add: release_link_def)
    have w2: "fs_addons ?s2 w = Some (ToRelease (tr_Old p))" "fs_addons ?s2 (tr_BackupName p) = None"
      using rd L by auto
    have "wpT True (rename_addon w (tr_BackupName p))
      (\<lambda>_. wpT True (tryT (rename_addon (tr_TempName p) w) (\<lambda>r. case r of
              Inl e \<Rightarrow> ignoreT (recoverTransition c w) (failT e)
            | Inr _ \<Rightarrow> recoverTransition c w)) ?Q (\<lambda>_. ?I) ?I)
      (\<lambda>e. wpT True (ignoreT (recoverTransition c w) (failT e)) ?Q (\<lambda>_. ?I) ?I) ?I ?s2"
    proof (rule wp_rename [OF _ _ w2])
      show "wpT True (tryT (rename_addon (tr_TempName p) w) (\<lambda>r. case r of
              Inl e \<Rightarrow> ignoreT (recoverTransition c w) (failT e)
            | Inr _ \<Rightarrow> recoverTransition c w)) ?Q (\<lambda>_. ?I) ?I
          (?s2\<lparr>fs_addons := ((fs_addons ?s2)(w := None))(tr_BackupName p \<mapsto> ToRelease (tr_Old p))\<rparr>)"
        using install [OF sc3 old3 _ l3] assms(4,5) L by (intro wp_try) simp
    qed (use two ignore_recover [OF ready two] in simp_all)
    then show ?thesis using False by simp
  qed
  have recorded: "wpT True (writes (fs_pending_update (\<lambda>_. Holds p)))
      (\<lambda>_. wpT True (tryT (if tr_Old p \<noteq> [] then rename_addon w (tr_BackupName p) else returnT ()) (\<lambda>r. case r of
          Inl e \<Rightarrow> ignoreT (recoverTransition c w) (failT e)
        | Inr _ \<Rightarrow> tryT (rename_addon (tr_TempName p) w) (\<lambda>r. case r of
              Inl e \<Rightarrow> ignoreT (recoverTransition c w) (failT e)
            | Inr _ \<Rightarrow> recoverTransition c w))) ?Q (\<lambda>_. ?I) ?I)
      (\<lambda>e. wpT True (ignoreT (remove_addon (tr_TempName p)) (failT e)) ?Q (\<lambda>_. ?I) ?I) ?I ?s1"
  proof (rule wp_writes)
    have "?s1\<lparr>fs_addons := (fs_addons ?s1)(tr_TempName p := None)\<rparr> = s" using rd(5) by (simp add: fun_upd_idem)
    then show "wpT True (ignoreT (remove_addon (tr_TempName p)) (failT (FsError ''i/o error''))) ?Q (\<lambda>_. ?I) ?I ?s1"
      using start one by (auto intro!: wp_ignore wp_remove wp_fail)
  qed (use one aside in \<open>auto intro!: wp_try\<close>)
  show ?thesis
    unfolding move_links_def
    by (rule wp_then, rule wp_create) (use start rd(5) recorded in \<open>auto intro!: wp_try\<close>)
qed

lemma wp_defer:
  assumes "wpT b m (\<lambda>x. wpT b (ignoreT k (returnT x)) Q E H) (\<lambda>e. wpT b (ignoreT k (failT e)) Q E H) H s"
  shows "wpT b (deferT k m) Q E H s"
  unfolding deferT_def by (rule wp_try) (use assms in simp)

lemma wp_realDirectory:
  assumes "\<And>e. E e s" "H s" "Q () s"
  shows "wpT b (realDirectory get) Q E H s"
  unfolding realDirectory_def by (rule wp_reads) (use assms in \<open>auto split: dir_state.splits\<close>)

text \<open>A state that differs from the start only in the lock.\<close>

definition at_start :: "content_fs \<Rightarrow> content_fs \<Rightarrow> bool" where
  "at_start s0 s \<longleftrightarrow> (\<exists>l. s = s0\<lparr>fs_locked := l\<rparr>)"

lemma at_start_facts:
  assumes "at_start s0 s"
  shows "same_content w p s0 s" "fs_addons s = fs_addons s0" "fs_current s = fs_current s0"
    "fs_previous s = fs_previous s0" "fs_pending s = fs_pending s0" "points_to c w v s = points_to c w v s0"
    "release_ok c w v m s = release_ok c w v m s0"
  using assms by (auto simp: at_start_def same_content_def points_to_def release_ok_def meta_file_def)

lemma in_transition_lock: "in_transition w p m s0 (s\<lparr>fs_locked := l\<rparr>) = in_transition w p m s0 s"
  by (simp add: in_transition_def same_content_writes phase_old_def phase_new_def phase_done_def links_writes)

definition finished :: "string \<Rightarrow> transition \<Rightarrow> Metadata \<Rightarrow> content_fs \<Rightarrow> content_fs \<Rightarrow> bool" where
  "finished w p m s0 s \<longleftrightarrow> same_content w p s0 s \<and> phase_done w p m s0 s"

lemma finished_in: "finished w p m s0 s \<Longrightarrow> in_transition w p m s0 s"
  by (simp add: finished_def in_transition_def)

lemma finished_lock: "finished w p m s0 (s\<lparr>fs_locked := l\<rparr>) = finished w p m s0 s"
  by (simp add: finished_def same_content_writes phase_done_def links_writes)

lemma finished_points:
  assumes "transition_ready c w p m s0" "finished w p m s0 s"
  shows "points_to c w (tr_New p) s"
proof -
  have sc: "same_content w p s0 s" using assms(2) by (simp add: finished_def)
  have "release_ok c w (tr_New p) m s" "tr_New p \<noteq> []" "validID w (tr_New p)" "describes c w (tr_New p) m"
    using assms(1) release_ok_same [OF sc] by (auto simp: transition_ready_def valid_transition_def release_ok_def)
  then show ?thesis using assms(2)
    by (auto simp: finished_def phase_done_def points_to_def links_def release_link_def describes_def)
qed

lemma switch_steps:
  assumes ready: "transition_ready c w p m s0" and at: "points_to c w (tr_Old p) s0" and s: "at_start s0 s"
    and names: "tr_TempName p = temp_name w suffix" "tr_BackupName p = backup_name w suffix" "tr_Rollback p = rollback"
  shows "wpT True (switch_to c w (tr_New p) rollback suffix) (\<lambda>_. finished w p m s0)
    (\<lambda>_. in_transition w p m s0) (in_transition w p m s0) s"
proof -
  let ?I = "in_transition w p m s0"
  note f = at_start_facts [OF s]
  have rd: "release_ok c w (tr_New p) m s" "tr_Old p \<noteq> tr_New p" "fs_pending s = NoFile"
    using ready f by (auto simp: transition_ready_def)
  have start: "?I s" using ready f(2-5) rd(3) by (intro ready_start f(1))
  have p: "\<lparr>tr_Old = tr_Old p, tr_New = tr_New p, tr_TempName = temp_name w suffix,
      tr_BackupName = backup_name w suffix, tr_Rollback = rollback\<rparr> = p"
    using names by (cases p) simp
  have desc: "cm_ContentVersionID m = tr_New p" using rd(1) by (auto simp: release_ok_def describes_def)
  have readback: "wpT True (bindT (current c w) (\<lambda>now. rejectT (now \<noteq> tr_New p) (FsError ''switch readback'') (
       rejectT (cm_ContentVersionID m \<noteq> tr_New p) (FsError ''invalid prepared metadata'') (returnT ()))))
       (\<lambda>_. finished w p m s0) (\<lambda>_. ?I) ?I s'" if "finished w p m s0 s'" for s'
    using that finished_points [OF ready that] finished_in [OF that] desc
    by (auto intro!: wp_bind wp_current wp_reject wp_return)
  have moves: "wpT True (move_links c w p) (\<lambda>_. finished w p m s0) (\<lambda>_. ?I) ?I s"
    by (rule wpT_mono [OF move_steps [OF ready f(1-4) rd(3)]]) (auto simp: finished_def)
  have rest: "wpT True (thenT (realDirectory fs_addons_dir) (thenT (move_links c w p) (
       bindT (current c w) (\<lambda>now. rejectT (now \<noteq> tr_New p) (FsError ''switch readback'') (
       rejectT (cm_ContentVersionID m \<noteq> tr_New p) (FsError ''invalid prepared metadata'') (returnT ()))))))
       (\<lambda>_. finished w p m s0) (\<lambda>_. ?I) ?I s"
    by (rule wp_then, rule wp_realDirectory, rule start, rule start, rule wp_then, rule wpT_mono [OF moves])
      (use readback in auto)
  show ?thesis
    unfolding switch_to_def
    by (intro wp_bind wp_readRelease [where m = m] wp_current)
      (use rd start at f(6) p rest in auto)
qed

lemma recover_idle:
  assumes "fs_pending s = NoFile"
  shows "wpT b (recoverTransition c w) (\<lambda>_ s'. s' = s) (\<lambda>_ s'. b \<and> s' = s) (\<lambda>s'. b \<and> s' = s) s"
  unfolding recoverTransition_def readJSON_def
  by (rule wp_try, rule wp_reads) (use assms in \<open>auto intro!: wp_return wp_fail\<close>)

lemma switchVersion_steps:
  assumes ready: "transition_ready c w p m s0" and at: "points_to c w (tr_Old p) s0"
    and names: "tr_TempName p = temp_name w suffix" "tr_BackupName p = backup_name w suffix" "tr_Rollback p = rollback"
    and target: "if rollback then fs_previous s0 = Holds (tr_New p) else version = tr_New p"
  shows "wpT True (switchVersion h c w version rollback suffix) (\<lambda>_. finished w p m s0)
    (\<lambda>_. in_transition w p m s0) (in_transition w p m s0) s0"
proof -
  let ?I = "in_transition w p m s0" and ?F = "finished w p m s0"
  let ?s = "s0\<lparr>fs_locked := True\<rparr>"
  have none: "fs_pending s0 = NoFile" and valid: "tr_New p \<noteq> []" "validID w (tr_New p)"
    using ready by (auto simp: transition_ready_def valid_transition_def)
  have start: "?I s0" using ready none by (intro ready_start) (simp_all add: same_content_def)
  have start': "?I ?s" using start by (simp add: in_transition_lock)
  have s: "at_start s0 ?s" by (auto simp: at_start_def)
  note sw = switch_steps [OF ready at s names]
  have chosen: "wpT True (if rollback then bindT (readJSON fs_previous) (\<lambda>v.
            rejectT (v = [] \<or> \<not> validID w v) (FsError ''no valid previous version'') (switch_to c w v rollback suffix))
          else switch_to c w version rollback suffix) (\<lambda>_. ?F) (\<lambda>_. ?I) ?I ?s"
  proof (cases rollback)
    case True
    then have "fs_previous ?s = Holds (tr_New p)" using target by simp
    then show ?thesis using True sw valid start'
      unfolding readJSON_def by (auto intro!: wp_bind wp_reads wp_reject)
  next
    case False
    then show ?thesis using target sw by simp
  qed
  have free: "wpT True (ignoreT unlock k) Q (\<lambda>_. ?I) ?I s1"
    if "?I s1" "wpT True k Q (\<lambda>_. ?I) ?I s1" "wpT True k Q (\<lambda>_. ?I) ?I (s1\<lparr>fs_locked := False\<rparr>)" for s1 and k :: "unit tool" and Q
    unfolding unlock_def by (intro wp_ignore wp_writes) (use that in auto)
  have whole: "wpT True (thenT (recoverTransition c w) (if rollback then bindT (readJSON fs_previous) (\<lambda>v.
            rejectT (v = [] \<or> \<not> validID w v) (FsError ''no valid previous version'') (switch_to c w v rollback suffix))
          else switch_to c w version rollback suffix)) (\<lambda>_. ?F) (\<lambda>_. ?I) ?I ?s"
    by (rule wp_then, rule wpT_mono [OF recover_idle]) (use none chosen start' in auto)
  have deferred: "wpT True (deferT unlock (thenT (recoverTransition c w) (if rollback then bindT (readJSON fs_previous) (\<lambda>v.
            rejectT (v = [] \<or> \<not> validID w v) (FsError ''no valid previous version'') (switch_to c w v rollback suffix))
          else switch_to c w version rollback suffix))) (\<lambda>_. ?F) (\<lambda>_. ?I) ?I ?s"
    by (rule wp_defer, rule wpT_mono [OF whole])
      (auto intro!: free wp_return wp_fail simp: finished_in finished_lock in_transition_lock)
  show ?thesis
  proof (cases "check h c")
    case (Inl e)
    then show ?thesis using start by (simp add: switchVersion_def wp_fail)
  next
    case (Inr u)
    show ?thesis
      unfolding switchVersion_def Inr sum.case
    proof (rule wp_reject)
      show "wpT True (thenT (realDirectory fs_metadata_dir) (thenT lockWorkshop (deferT unlock (thenT (recoverTransition c w)
          (if rollback then bindT (readJSON fs_previous) (\<lambda>v.
            rejectT (v = [] \<or> \<not> validID w v) (FsError ''no valid previous version'') (switch_to c w v rollback suffix))
          else switch_to c w version rollback suffix))))) (\<lambda>_. ?F) (\<lambda>_. ?I) ?I s0"
        unfolding lockWorkshop_def
        by (rule wp_then, rule wp_realDirectory, rule start, rule start, rule wp_then, rule wp_access)
          (use start deferred in auto)
    qed (rule start)
  qed
qed

section \<open>Guarantees\<close>

text \<open>A recovery run, interrupted or not.\<close>

definition recovery_run :: "tool_config \<Rightarrow> string \<Rightarrow> content_fs \<Rightarrow> content_fs \<Rightarrow> bool" where
  "recovery_run c w s s' \<longleftrightarrow> (\<exists>fs r rest. recoverTransition c w fs s = (r, rest, s'))"

text \<open>The start of a switch of workshop \<open>w\<close> from release \<open>old\<close> to release \<open>new\<close>.\<close>

definition switch_start :: "tool_config \<Rightarrow> string \<Rightarrow> string \<Rightarrow> string \<Rightarrow> string \<Rightarrow> content_fs \<Rightarrow> bool" where
  "switch_start c w old new suffix s0 \<longleftrightarrow> (\<exists>m. current c w [] s0 = (Done old, [], s0) \<and> readRelease c w new [] s0 = (Done m, [], s0))
     \<and> new \<noteq> [] \<and> validID w new \<and> old \<noteq> new \<and> fs_pending s0 = NoFile \<and> slash \<notin> set suffix
     \<and> fs_addons s0 (temp_name w suffix) = None \<and> fs_addons s0 (backup_name w suffix) = None"

definition switch_record :: "string \<Rightarrow> string \<Rightarrow> string \<Rightarrow> string \<Rightarrow> bool \<Rightarrow> transition" where
  "switch_record w old new suffix rollback = \<lparr>tr_Old = old, tr_New = new, tr_TempName = temp_name w suffix,
     tr_BackupName = backup_name w suffix, tr_Rollback = rollback\<rparr>"

lemma switch_record_simps [simp]:
  "tr_Old (switch_record w old new suffix rb) = old" "tr_New (switch_record w old new suffix rb) = new"
  "tr_TempName (switch_record w old new suffix rb) = temp_name w suffix"
  "tr_BackupName (switch_record w old new suffix rb) = backup_name w suffix"
  "tr_Rollback (switch_record w old new suffix rb) = rb"
  by (simp_all add: switch_record_def)

lemma workshop_chars:
  assumes "validID w v"
  shows "w \<noteq> []" "\<forall>c \<in> set w. is_digit c"
  using assms by (auto simp: validID_def ValidWorkshop_def list_all_iff)

lemma names_apart:
  assumes "validID w v" "slash \<notin> set suffix"
  shows "distinct [w, backup_name w suffix, temp_name w suffix]" "Base (temp_name w suffix) = temp_name w suffix"
    "Base (backup_name w suffix) = backup_name w suffix"
proof -
  obtain d ds where w: "w = d # ds" using workshop_chars(1) [OF assms(1)] by (cases w) auto
  have digits: "\<forall>c \<in> set w. is_digit c" by (rule workshop_chars(2) [OF assms(1)])
  then have "d \<noteq> CHR ''.''" "d \<noteq> CHR ''b''" "slash \<notin> set w"
    using w by (auto simp: is_digit_def slash_def byte_of_def)
  then show "distinct [w, backup_name w suffix, temp_name w suffix]" using w by (simp add: backup_name_def temp_name_def)
  have "slash \<notin> set (temp_name w suffix)" "slash \<notin> set (backup_name w suffix)"
    using \<open>slash \<notin> set w\<close> assms(2) by (simp_all add: temp_name_def backup_name_def slash_def)
  then show "Base (temp_name w suffix) = temp_name w suffix" "Base (backup_name w suffix) = backup_name w suffix"
    by (simp_all add: Base_no_slash temp_name_def backup_name_def)
qed

lemma switch_ready:
  assumes "switch_start c w old new suffix s0"
  obtains m where "transition_ready c w (switch_record w old new suffix rb) m s0" "points_to c w old s0"
proof -
  from assms obtain m where s: "current c w [] s0 = (Done old, [], s0)" "readRelease c w new [] s0 = (Done m, [], s0)"
    "new \<noteq> []" "validID w new" "old \<noteq> new" "fs_pending s0 = NoFile" "slash \<notin> set suffix"
    "fs_addons s0 (temp_name w suffix) = None" "fs_addons s0 (backup_name w suffix) = None"
    by (auto simp: switch_start_def)
  have pt: "points_to c w old s0" using current_Done [OF s(1)] by blast
  have new: "release_ok c w new m s0" using readRelease_Done [OF s(2)] by blast
  have prefix: "has_prefix (temp_name w []) (temp_name w suffix)" "has_prefix (backup_name w []) (backup_name w suffix)"
    by (simp_all add: has_prefix_def temp_name_def backup_name_def)
  have "fs_addons s0 w = release_link old" "old \<noteq> [] \<longrightarrow> validID w old \<and> fs_releases s0 old \<noteq> None"
    using pt release_ok_there by (auto simp: points_to_def release_link_def split: if_splits)
  then have "transition_ready c w (switch_record w old new suffix rb) m s0"
    using s new prefix names_apart [OF s(4,7)] by (simp add: transition_ready_def valid_transition_def)
  then show thesis using pt that by blast
qed

lemma recovered_stays:
  assumes ready: "transition_ready c w p m s0" and inT: "in_transition w p m s0 s" and runs: "(recovery_run c w)\<^sup>*\<^sup>* s s2"
  shows "in_transition w p m s0 s2 \<and> (finished w p m s0 s \<longrightarrow> finished w p m s0 s2)"
  using runs
proof (induction rule: rtranclp_induct)
  case base
  then show ?case using inT by simp
next
  case (step y z)
  then obtain fs r rest where run: "recoverTransition c w fs y = (r, rest, z)" by (auto simp: recovery_run_def)
  have "in_transition w p m s0 z"
    using wpT_D [OF recover_steps [OF ready, of y True] run] step.IH
    by (cases r) (auto simp: settled_def in_transition_def)
  moreover have "finished w p m s0 z" if "finished w p m s0 y"
  proof -
    have "fs_pending y = NoFile" using that by (simp add: finished_def phase_done_def)
    then have "z = y" using wpT_D [OF recover_idle run, of True] by (cases r) auto
    then show ?thesis using that by simp
  qed
  ultimately show ?case using step.IH by blast
qed

lemma points_current:
  assumes "points_to c w v s"
  shows "current c w [] s = (Done v, [], s)"
proof -
  obtain r fs s' where run: "current c w [] s = (r, fs, s')" by (cases "current c w [] s")
  have "wpT False (current c w) (\<lambda>x s'. x = v \<and> s' = s) (\<lambda>_ _. False) (\<lambda>_. False) s"
    by (rule wp_current [OF _ _ assms]) simp_all
  from wpT_D [OF this run] show ?thesis by (cases r) (simp_all add: run)
qed

lemma release_read:
  assumes "release_ok c w v m s"
  shows "readRelease c w v [] s = (Done m, [], s)"
proof -
  obtain r fs s' where run: "readRelease c w v [] s = (r, fs, s')" by (cases "readRelease c w v [] s")
  have "wpT False (readRelease c w v) (\<lambda>x s'. x = m \<and> s' = s) (\<lambda>_ _. False) (\<lambda>_. False) s"
    by (rule wp_readRelease [OF _ _ assms]) simp_all
  from wpT_D [OF this run] show ?thesis by (cases r) (simp_all add: run)
qed

lemma recover_completes:
  assumes "transition_ready c w p m s0" "in_transition w p m s0 s"
  obtains s' where "recoverTransition c w [] s = (Done (), [], s')" "settled w p m s0 s'" "finished w p m s0 s \<Longrightarrow> s' = s"
proof -
  obtain r fs s' where run: "recoverTransition c w [] s = (r, fs, s')" by (cases "recoverTransition c w [] s")
  have e: "r = Done ()" "fs = []" "settled w p m s0 s'"
    using wpT_D [OF recover_steps [OF assms, of False] run] by (cases r; simp)+
  moreover have "s' = s" if "finished w p m s0 s"
  proof -
    have "fs_pending s = NoFile" using that by (simp add: finished_def phase_done_def)
    then show ?thesis using wpT_D [OF recover_idle run, of False] e by simp
  qed
  ultimately show thesis using run that by simp
qed

lemma switch_outcome:
  assumes "transition_ready c w (switch_record w old new suffix rollback) m s0" "points_to c w old s0"
    and "if rollback then fs_previous s0 = Holds new else version = new"
    and run: "switchVersion h c w version rollback suffix fates s0 = (r, rest, s1)"
  shows "in_transition w (switch_record w old new suffix rollback) m s0 s1
    \<and> (r = Done () \<longrightarrow> finished w (switch_record w old new suffix rollback) m s0 s1)"
proof -
  let ?p = "switch_record w old new suffix rollback"
  have "wpT True (switchVersion h c w version rollback suffix) (\<lambda>_. finished w ?p m s0)
    (\<lambda>_. in_transition w ?p m s0) (in_transition w ?p m s0) s0"
    by (rule switchVersion_steps [OF assms(1)]) (use assms(2,3) in simp_all)
  from wpT_D [OF this run] show ?thesis using finished_in by (cases r) auto
qed

text \<open>
  C28: A switch or rollback that is interrupted at any point can be recovered.  Wherever the machine stops
  or an access fails during a switch, and however many recoveries are interrupted after it, a recovery
  without faults succeeds and the tool then confirms a current release, the old one or the new one: the link,
  the metadata and the release agree, no record and no old link is left over, no release has changed, and it
  is the new release if the switch had reported success.
\<close>

theorem interrupted_switch_recovers:
  assumes "switch_start c w old new suffix s0" "if rollback then fs_previous s0 = Holds new else version = new"
    and "switchVersion h c w version rollback suffix fates s0 = (r, rest, s1)"
    and "(recovery_run c w)\<^sup>*\<^sup>* s1 s2"
  shows "\<exists>v s3. recoverTransition c w [] s2 = (Done (), [], s3) \<and> current c w [] s3 = (Done v, [], s3)
    \<and> v \<in> {old, new} \<and> (r = Done () \<longrightarrow> v = new) \<and> fs_pending s3 = NoFile \<and> fs_addons s3 (backup_name w suffix) = None
    \<and> fs_releases s3 = fs_releases s0 \<and> fs_metas s3 = fs_metas s0"
proof -
  let ?p = "switch_record w old new suffix rollback"
  obtain m where ready: "transition_ready c w ?p m s0" and at: "points_to c w old s0"
    using assms(1) by (rule switch_ready)
  note s1 = switch_outcome [OF ready at assms(2,3)]
  note s2 = recovered_stays [OF ready s1 [THEN conjunct1] assms(4)]
  obtain s3 where s3: "recoverTransition c w [] s2 = (Done (), [], s3)" "settled w ?p m s0 s3" "finished w ?p m s0 s2 \<Longrightarrow> s3 = s2"
    using recover_completes [OF ready s2 [THEN conjunct1]] by blast
  have "\<exists>v. points_to c w v s3 \<and> v \<in> {old, new} \<and> (r = Done () \<longrightarrow> v = new)"
    using settled_points [OF ready _ s3(2)] at s1 s2 s3(3) finished_points [OF ready, of s3] by fastforce
  then obtain v where v: "points_to c w v s3" "v \<in> {old, new}" "r = Done () \<longrightarrow> v = new" by blast
  have "fs_pending s3 = NoFile" "fs_releases s3 = fs_releases s0" "fs_metas s3 = fs_metas s0"
    "fs_addons s3 (backup_name w suffix) = None"
    using s3(2) by (auto simp: settled_def same_content_def phase_old_def phase_done_def links_def)
  then show ?thesis using s3(1) points_current [OF v(1)] v(2,3) by blast
qed

text \<open>
  C29: A switch that reports success has done exactly what it says.  The link of the workshop points to the
  new release and nothing else changed in the directory of the links, the current metadata are those of the
  new release, the previous release is recorded unless there is none or the switch was a rollback, and no
  release or metadata of a release has changed.
\<close>

theorem successful_switch_is_exact:
  assumes "switch_start c w old new suffix s0" "if rollback then fs_previous s0 = Holds new else version = new"
    and "switchVersion h c w version rollback suffix fates s0 = (Done (), rest, s1)"
  shows "fs_addons s1 = (fs_addons s0)(w \<mapsto> ToRelease new) \<and> fs_current s1 = meta_file new s0
    \<and> (\<not> rollback \<and> old \<noteq> [] \<longrightarrow> fs_previous s1 = Holds old)
    \<and> fs_releases s1 = fs_releases s0 \<and> fs_metas s1 = fs_metas s0 \<and> current c w [] s1 = (Done new, [], s1)"
proof -
  let ?p = "switch_record w old new suffix rollback"
  obtain m where ready: "transition_ready c w ?p m s0" and at: "points_to c w old s0"
    using assms(1) by (rule switch_ready)
  have fin: "finished w ?p m s0 s1" using switch_outcome [OF ready at assms(2,3)] by blast
  then have d: "same_content w ?p s0 s1" "phase_done w ?p m s0 s1" by (simp_all add: finished_def)
  have rd: "new \<noteq> []" "fs_addons s0 (temp_name w suffix) = None" "fs_addons s0 (backup_name w suffix) = None"
    "meta_file new s0 = Holds m" "distinct [w, backup_name w suffix, temp_name w suffix]"
    using ready by (auto simp: transition_ready_def valid_transition_def release_ok_def)
  have l: "fs_addons s1 w = Some (ToRelease new)" "fs_addons s1 (temp_name w suffix) = None" "fs_addons s1 (backup_name w suffix) = None"
    using d(2) rd(1) by (simp_all add: phase_done_def links_def release_link_def)
  have "fs_addons s1 n = ((fs_addons s0)(w \<mapsto> ToRelease new)) n" for n
    using d(1) l rd(2,3) by (cases "n \<in> {w, backup_name w suffix, temp_name w suffix}") (auto simp: same_content_def)
  then show ?thesis
    using d rd(4) finished_points [OF ready fin] points_current
    by (auto simp: phase_done_def same_content_def previous_after_def)
qed

section \<open>A sample workshop\<close>

definition sample_config :: tool_config where
  "sample_config = \<lparr>cfg_ContentRoot = ''/c'', cfg_DotaRoot = ''/d''\<rparr>"

definition sample_host :: host where
  "sample_host = \<lparr>ho_IsDir = (\<lambda>_. True), ho_Lstat = (\<lambda>_. Inr ()), ho_Resolve = Inr\<rparr>"

definition sample_meta :: "string \<Rightarrow> string \<Rightarrow> Metadata" where
  "sample_meta v bytes = new_metadata sample_config ''123'' v (sha256_hex bytes) (int (length bytes)) 0"

text \<open>Two prepared releases, the first one current.\<close>

definition workshop_fs :: content_fs where
  "workshop_fs = \<lparr>fs_base = RealDir, fs_releases_dir = RealDir, fs_metadata_dir = RealDir, fs_addons_dir = RealDir,
     fs_releases = [''v1'' \<mapsto> ReleaseDirectory (Vpk ''one''), ''v2'' \<mapsto> ReleaseDirectory (Vpk ''two'')],
     fs_metas = [(''v1'', Holds (sample_meta ''v1'' ''one'')), (''v2'', Holds (sample_meta ''v2'' ''two''))],
     fs_current = Holds (sample_meta ''v1'' ''one''), fs_previous = NoFile, fs_pending = NoFile,
     fs_addons = [''123'' \<mapsto> ToRelease ''v1''], fs_locked = False, fs_staged = None\<rparr>"

lemma sample_meta_fields:
  "cm_WorkshopID (sample_meta v b) = ''123''" "cm_ContentVersionID (sample_meta v b) = v"
  "cm_VPKSHA256 (sample_meta v b) = sha256_hex b" "cm_SizeBytes (sample_meta v b) = int (length b)"
  "cm_ReleasePath (sample_meta v b) = release_path sample_config ''123'' v"
  by (simp_all add: sample_meta_def new_metadata_def)

lemma workshop_release:
  "release_ok sample_config ''123'' ''v1'' (sample_meta ''v1'' ''one'') workshop_fs"
  "release_ok sample_config ''123'' ''v2'' (sample_meta ''v2'' ''two'') workshop_fs"
  by (simp_all add: release_ok_def workshop_fs_def meta_file_def describes_def sample_meta_fields)

lemma workshop_start: "switch_start sample_config ''123'' ''v1'' ''v2'' ''0f'' workshop_fs"
proof -
  have ids: "validID ''123'' ''v1''" "validID ''123'' ''v2''" by code_simp+
  have "points_to sample_config ''123'' ''v1'' workshop_fs"
    using ids workshop_release(1) by (auto simp: points_to_def workshop_fs_def sample_meta_fields)
  then have "current sample_config ''123'' [] workshop_fs = (Done ''v1'', [], workshop_fs)" by (rule points_current)
  moreover have "readRelease sample_config ''123'' ''v2'' [] workshop_fs = (Done (sample_meta ''v2'' ''two''), [], workshop_fs)"
    by (rule release_read [OF workshop_release(2)])
  ultimately show ?thesis using ids(2)
    by (auto simp: switch_start_def workshop_fs_def slash_def temp_name_def backup_name_def)
qed

lemma interrupted_switch_recovers_witness:
  "\<forall>fates. \<exists>v s3. recoverTransition sample_config ''123'' [] (snd (snd (Switch sample_host sample_config ''123'' ''v2'' ''0f'' fates workshop_fs)))
       = (Done (), [], s3) \<and> current sample_config ''123'' [] s3 = (Done v, [], s3) \<and> v \<in> {''v1'', ''v2''}"
proof
  fix fates
  obtain r rest s1 where run: "switchVersion sample_host sample_config ''123'' ''v2'' False ''0f'' fates workshop_fs = (r, rest, s1)"
    by (cases "switchVersion sample_host sample_config ''123'' ''v2'' False ''0f'' fates workshop_fs")
  have "\<exists>v s3. recoverTransition sample_config ''123'' [] s1 = (Done (), [], s3) \<and> current sample_config ''123'' [] s3 = (Done v, [], s3)
    \<and> v \<in> {''v1'', ''v2''}"
    using interrupted_switch_recovers [OF workshop_start _ run, of s1] by auto
  then show "\<exists>v s3. recoverTransition sample_config ''123'' [] (snd (snd (Switch sample_host sample_config ''123'' ''v2'' ''0f'' fates workshop_fs)))
       = (Done (), [], s3) \<and> current sample_config ''123'' [] s3 = (Done v, [], s3) \<and> v \<in> {''v1'', ''v2''}"
    by (simp add: Switch_def run)
qed

lemmas tool_defs = returnT_def failT_def rejectT_def tryT_def bindT_def thenT_def ignoreT_def deferT_def access_def reads_def
  writes_def readJSON_def lstat_addon_def isDirectoryLink_def createDirectoryLink_def rename_addon_def remove_addon_def
  stat_release_def stat_addon_def sameLinkedDirectory_def removeKnownLink_def realDirectory_def lockWorkshop_def unlock_def

lemma sample_check: "check sample_host sample_config = Inr ()"
  by code_simp

lemma sample_ids:
  "validID ''123'' ''v1''" "validID ''123'' ''v2''"
  "valid_transition ''123'' (switch_record ''123'' ''v1'' ''v2'' ''0f'' False)"
  by code_simp+

lemma sample_switch:
  "\<exists>s1. switchVersion sample_host sample_config ''123'' ''v2'' False ''0f'' [] workshop_fs = (Done (), [], s1)"
  using sample_ids
  by (simp add: switchVersion_def switch_to_def move_links_def recoverTransition_def finish_transition_def
      current_def readRelease_def release_directory_def release_digest_def fileDigest_def Let_def
      workshop_fs_def meta_file_def describes_def sample_meta_fields sample_check switch_record_def
      temp_name_def backup_name_def tool_defs)

lemma successful_switch_is_exact_witness:
  "\<exists>s1. switchVersion sample_host sample_config ''123'' ''v2'' False ''0f'' [] workshop_fs = (Done (), [], s1)
     \<and> fs_addons s1 ''123'' = Some (ToRelease ''v2'') \<and> fs_previous s1 = Holds ''v1''"
proof -
  obtain s1 where run: "switchVersion sample_host sample_config ''123'' ''v2'' False ''0f'' [] workshop_fs = (Done (), [], s1)"
    using sample_switch by blast
  have "fs_addons s1 ''123'' = Some (ToRelease ''v2'')" "fs_previous s1 = Holds ''v1''"
    using successful_switch_is_exact [OF workshop_start _ run] by simp_all
  then show ?thesis using run by blast
qed

section \<open>Preparation\<close>

text \<open>What a preparation may change: it adds a release or the metadata of one, and directories.\<close>

definition only_adds :: "content_fs \<Rightarrow> content_fs \<Rightarrow> bool" where
  "only_adds s0 s \<longleftrightarrow> (\<forall>v x. fs_releases s0 v = Some x \<longrightarrow> fs_releases s v = Some x)
     \<and> (\<forall>v m. meta_file v s0 = Holds m \<longrightarrow> meta_file v s = Holds m)
     \<and> fs_addons s = fs_addons s0 \<and> fs_current s = fs_current s0 \<and> fs_previous s = fs_previous s0 \<and> fs_pending s = fs_pending s0"

lemma only_adds_refl: "only_adds s s"
  by (simp add: only_adds_def)

lemma meta_put: "meta_file v (put_meta version m s) = (if v = version then Holds m else meta_file v s)"
proof -
  have "map_of (filter (\<lambda>p. fst p \<noteq> version) ms) v = map_of ms v" if "v \<noteq> version" for ms :: "(string \<times> Metadata json_file) list"
    using that by (induction ms) auto
  then show ?thesis by (simp add: meta_file_def put_meta_def)
qed

lemma only_adds_writes [simp]:
  "only_adds s0 (fs_base_update g s) = only_adds s0 s" "only_adds s0 (fs_releases_dir_update g s) = only_adds s0 s"
  "only_adds s0 (fs_metadata_dir_update g s) = only_adds s0 s" "only_adds s0 (s\<lparr>fs_locked := l\<rparr>) = only_adds s0 s"
  "only_adds s0 (s\<lparr>fs_staged := f\<rparr>) = only_adds s0 s"
  by (simp_all add: only_adds_def meta_file_def)

lemma meta_file_writes [simp]:
  "meta_file v (fs_base_update g s) = meta_file v s" "meta_file v (fs_releases_dir_update g s) = meta_file v s"
  "meta_file v (fs_metadata_dir_update g s) = meta_file v s" "meta_file v (s\<lparr>fs_locked := l\<rparr>) = meta_file v s"
  "meta_file v (s\<lparr>fs_staged := f\<rparr>) = meta_file v s"
  by (simp_all add: meta_file_def)

lemma only_adds_put:
  assumes "only_adds s0 s" "meta_file v s = NoFile"
  shows "only_adds s0 (put_meta v m s)"
proof -
  have "meta_file v s0 \<noteq> Holds k" for k using assms by (force simp: only_adds_def)
  moreover have "fs_releases (put_meta v m s) = fs_releases s" "fs_addons (put_meta v m s) = fs_addons s"
    "fs_current (put_meta v m s) = fs_current s" "fs_previous (put_meta v m s) = fs_previous s"
    "fs_pending (put_meta v m s) = fs_pending s" by (simp_all add: put_meta_def)
  ultimately show ?thesis using assms(1) by (auto simp: only_adds_def meta_put)
qed

text \<open>Reading a release changes nothing; its success and its missing files say what is there.\<close>

lemma wp_readRelease_any:
  assumes "\<And>m. release_ok c w v m s \<Longrightarrow> Q m s" "\<And>t. E (FsError t) s" "H s"
    and "meta_file v s = NoFile \<or> release_digest v [] s = (Err NotExist, [], s) \<Longrightarrow> E NotExist s"
  shows "wpT True (readRelease c w v) Q E H s"
proof -
  have "case r of Done x \<Rightarrow> Q x s' | Err e \<Rightarrow> E e s' | Halted \<Rightarrow> H s'" if run: "readRelease c w v fs s = (r, rest, s')" for fs r rest s'
  proof (cases r)
    case (Done m)
    then show ?thesis using readRelease_Done [OF run [unfolded Done]] assms(1) by simp
  next
    case (Err e)
    then show ?thesis using run assms(2,4)
      by (auto simp: readRelease_def thenT_def bindT_def tryT_def rejectT_def returnT_def failT_def release_directory_def reads_def
          access_def readJSON_def release_digest_def fileDigest_def
          split: answer.splits list.splits fate.splits option.splits release_entry.splits json_file.splits vpk.splits
            if_splits prod.splits sum.splits)
  next
    case Halted
    then show ?thesis using run assms(3)
      by (auto simp: readRelease_def thenT_def bindT_def tryT_def rejectT_def returnT_def failT_def release_directory_def reads_def
          access_def readJSON_def release_digest_def fileDigest_def
          split: answer.splits list.splits fate.splits option.splits release_entry.splits json_file.splits vpk.splits
            if_splits prod.splits sum.splits)
  qed
  then show ?thesis unfolding wpT_def by blast
qed

text \<open>What a successful preparation returns.\<close>

definition prepared :: "tool_config \<Rightarrow> string \<Rightarrow> string \<Rightarrow> string \<Rightarrow> int \<Rightarrow> content_fs \<Rightarrow> Metadata \<Rightarrow> content_fs \<Rightarrow> bool" where
  "prepared c w v h len s0 m s \<longleftrightarrow> only_adds s0 s \<and> release_ok c w v m s \<and> cm_VPKSHA256 m = h \<and> cm_SizeBytes m = len"

lemma prepared_writes [simp]:
  "prepared c w v h len s0 m (s\<lparr>fs_locked := l\<rparr>) = prepared c w v h len s0 m s"
  "prepared c w v h len s0 m (s\<lparr>fs_staged := f\<rparr>) = prepared c w v h len s0 m s"
  by (simp_all add: prepared_def release_ok_def meta_file_def)

lemma wp_read_new:
  assumes "only_adds s0 s" "meta_file v s = Holds (new_metadata c w v h len now)"
    and "prepared c w v h len s0 (new_metadata c w v h len now) s \<Longrightarrow> Q (new_metadata c w v h len now) s"
  shows "wpT True (readRelease c w v) Q (\<lambda>_. only_adds s0) (only_adds s0) s"
proof (rule wp_readRelease_any)
  fix m assume m: "release_ok c w v m s"
  then have "m = new_metadata c w v h len now" using assms(2) by (auto simp: release_ok_def)
  then show "Q m s" using m assms(1,3) by (simp add: prepared_def new_metadata_def)
qed (use assms(1) in simp_all)

lemma existing_steps:
  assumes "only_adds s0 s"
  shows "wpT True (existing_release c w v h len now) (prepared c w v h len s0) (\<lambda>_. only_adds s0) (only_adds s0) s"
  unfolding existing_release_def
proof (rule wp_try, rule wp_readRelease_any)
  show "only_adds s0 s" by (rule assms)
  show "wpT True (resume_release c w v h len now (Inl (FsError t))) (prepared c w v h len s0) (\<lambda>_. only_adds s0) (only_adds s0) s" for t
    using assms by (simp add: resume_release_def wp_fail)
  show "wpT True (resume_release c w v h len now (Inr m)) (prepared c w v h len s0) (\<lambda>_. only_adds s0) (only_adds s0) s"
    if "release_ok c w v m s" for m
    using that assms by (auto simp: resume_release_def prepared_def intro!: wp_reject wp_return)
next
  let ?P = "prepared c w v h len s0" and ?n = "new_metadata c w v h len now"
  assume missing: "meta_file v s = NoFile \<or> release_digest v [] s = (Err NotExist, [], s)"
  have written: "wpT True (thenT (writes (put_meta v ?n)) (readRelease c w v)) ?P (\<lambda>_. only_adds s0) (only_adds s0) s"
    if "meta_file v s = NoFile"
    by (rule wp_then, rule wp_writes, rule assms, rule assms, rule wp_read_new)
      (simp_all add: only_adds_put [OF assms that] meta_put)
  show "wpT True (resume_release c w v h len now (Inl NotExist)) ?P (\<lambda>_. only_adds s0) (only_adds s0) s"
    unfolding resume_release_def release_digest_def sum.case fs_error.case
    using assms written missing
    by (intro wp_try wp_reads wp_reject)
      (auto simp: release_digest_def reads_def access_def intro!: wp_reject split: option.splits release_entry.splits sum.splits)
qed

lemma wp_defer_writes:
  assumes "wpT True m Q (\<lambda>_. I) I s" "\<And>x s. Q x s \<Longrightarrow> Q x (f s) \<and> I s" "\<And>s. I s \<Longrightarrow> I (f s)"
  shows "wpT True (deferT (writes f) m) Q (\<lambda>_. I) I s"
  by (rule wp_defer, rule wpT_mono [OF assms(1)])
    (use assms(2,3) in \<open>auto intro!: wp_ignore wp_writes wp_return wp_fail\<close>)

lemma copy_steps:
  assumes "only_adds s0 s" "meta_file v s = NoFile"
  shows "wpT True (copy_release c w v h len copied now) (prepared c w v h len s0) (\<lambda>_. only_adds s0) (only_adds s0) s"
proof -
  let ?P = "prepared c w v h len s0" and ?n = "new_metadata c w v h len now" and ?I = "only_adds s0"
  let ?J = "\<lambda>s. only_adds s0 s \<and> meta_file v s = NoFile"
  have finish: "wpT True (thenT (writes (put_meta v ?n)) (thenT (readRelease c w v) (returnT ?n))) ?P (\<lambda>_. ?I) ?I s"
    if j: "?J s" for s
    by (rule wp_then, rule wp_writes, use j in simp, use j in simp, rule wp_then, rule wp_read_new)
      (use j in \<open>auto simp: only_adds_put meta_put intro: wp_return\<close>)
  have install: "wpT True (thenT (install_staged v) (thenT (writes (put_meta v ?n)) (thenT (readRelease c w v) (returnT ?n)))) ?P (\<lambda>_. ?I) ?I s"
    if j: "?J s" for s
    unfolding install_staged_def
  proof (rule wp_then, rule wp_access)
    have "?J (s\<lparr>fs_releases := (fs_releases s)(v \<mapsto> ReleaseDirectory f), fs_staged := None\<rparr>)" if "fs_releases s v = None" for f
      using j that by (auto simp: only_adds_def meta_file_def)
    then show "case (case fs_staged s of None \<Rightarrow> (Inl NotExist, s)
          | Some f \<Rightarrow> if fs_releases s v \<noteq> None then (Inl Exists, s)
              else (Inr (), s\<lparr>fs_releases := (fs_releases s)(v \<mapsto> ReleaseDirectory f), fs_staged := None\<rparr>))
        of (Inl e, x) \<Rightarrow> ?I x
        | (Inr x, y) \<Rightarrow> wpT True (thenT (writes (put_meta v ?n)) (thenT (readRelease c w v) (returnT ?n))) ?P (\<lambda>_. ?I) ?I y"
      using j finish by (auto split: option.split)
  qed (use j in simp_all)
  have body: "wpT True (bindT (reads (\<lambda>_. case copied of None \<Rightarrow> Inl NotExist | Some b \<Rightarrow> Inr b)) (\<lambda>bytes.
      thenT (writes (fs_staged_update (\<lambda>_. Some (Vpk bytes)))) (
      rejectT (int (length bytes) \<noteq> len \<or> sha256_hex bytes \<noteq> h) (FsError ''source VPK changed during copy'') (
      thenT (install_staged v) (thenT (writes (put_meta v ?n)) (thenT (readRelease c w v) (returnT ?n))))))) ?P (\<lambda>_. ?I) ?I s"
    if j: "?J s" for s
    by (intro wp_bind wp_reads)
      (use j install in \<open>auto intro!: wp_then [where m = "writes f" for f] wp_writes wp_reject split: option.split\<close>)
  show ?thesis
    unfolding copy_release_def
    by (rule wp_then, rule wp_writes, use assms in simp, use assms in simp, rule wp_defer_writes, rule body)
      (use assms in \<open>auto simp: prepared_def release_ok_def\<close>)
qed

lemma wp_ensure_then:
  assumes "I s" "\<And>x s. I s \<Longrightarrow> I (put x s)" "\<And>s. I s \<Longrightarrow> wpT True k Q (\<lambda>_. I) I s"
  shows "wpT True (thenT (ensureDir get put) k) Q (\<lambda>_. I) I s"
  unfolding ensureDir_def
  by (rule wp_then, rule wp_try, rule wp_access)
    (use assms in \<open>auto intro!: wp_realDirectory wp_fail split: fs_error.split\<close>)

lemma prepare_steps:
  "wpT True (Prepare h c w version path source copied now)
     (\<lambda>m s. \<exists>bytes. source = Vpk bytes \<and> prepared c w version (sha256_hex bytes) (int (length bytes)) s0 m s)
     (\<lambda>_. only_adds s0) (only_adds s0) s0"
proof -
  let ?I = "only_adds s0"
  let ?Q = "\<lambda>m s. \<exists>bytes. source = Vpk bytes \<and> prepared c w version (sha256_hex bytes) (int (length bytes)) s0 m s"
  have work: "wpT True (tryT (reads (\<lambda>s. if fs_releases s version = None then Inl NotExist else Inr ())) (\<lambda>r. case r of
             Inr _ \<Rightarrow> existing_release c w version d len now
           | Inl e \<Rightarrow> rejectT (e \<noteq> NotExist) e (
               tryT (reads (\<lambda>s. if meta_file version s = NoFile then Inl NotExist else Inr ())) (\<lambda>r. case r of
                  Inr _ \<Rightarrow> failT (FsError ''metadata exists without release'')
                | Inl e \<Rightarrow> rejectT (e \<noteq> NotExist) e (copy_release c w version d len copied now)))))
      (prepared c w version d len s0) (\<lambda>_. ?I) ?I s" if i: "?I s" for s d len
    by (intro wp_try wp_reads)
      (use i existing_steps copy_steps in \<open>auto intro!: wp_try wp_reads wp_reject wp_fail\<close>)
  have deferred: "wpT True (deferT unlock k) (prepared c w version d len s0) (\<lambda>_. ?I) ?I s"
    if "wpT True k (prepared c w version d len s0) (\<lambda>_. ?I) ?I s" for k :: "Metadata tool" and s d len
    unfolding unlock_def by (rule wp_defer_writes [OF that]) (auto simp: prepared_def release_ok_def)
  show ?thesis
  proof (cases "check h c")
    case (Inl e)
    then show ?thesis by (simp add: Prepare_def wp_fail only_adds_refl)
  next
    case (Inr u)
    have locked: "wpT True (thenT lockWorkshop (deferT unlock k)) (prepared c w version d len s0) (\<lambda>_. ?I) ?I s"
      if "?I s" "\<And>s. ?I s \<Longrightarrow> wpT True k (prepared c w version d len s0) (\<lambda>_. ?I) ?I s" for k :: "Metadata tool" and s d len
      unfolding lockWorkshop_def by (rule wp_then, rule wp_access) (use that deferred in auto)
    have dirs: "wpT True (thenT (ensureDir fs_base fs_base_update) (thenT (ensureDir fs_releases_dir fs_releases_dir_update) (
          thenT (ensureDir fs_metadata_dir fs_metadata_dir_update) k))) (prepared c w version d len s0) (\<lambda>_. ?I) ?I s0"
      if "\<And>s. ?I s \<Longrightarrow> wpT True k (prepared c w version d len s0) (\<lambda>_. ?I) ?I s" for k :: "Metadata tool" and d len
      by (intro wp_ensure_then that) (auto simp: only_adds_refl)
    show ?thesis
      unfolding Prepare_def Inr sum.case
    proof (intro wp_reject wp_bind wp_reads)
      show "case fileDigest source of Inl e \<Rightarrow> ?I s0
        | Inr x \<Rightarrow> wpT True (case x of (d, len) \<Rightarrow> rejectT (len \<le> 0) (FsError ''source VPK is empty'') (
            thenT (ensureDir fs_base fs_base_update) (thenT (ensureDir fs_releases_dir fs_releases_dir_update) (
            thenT (ensureDir fs_metadata_dir fs_metadata_dir_update) (thenT lockWorkshop (deferT unlock (
            tryT (reads (\<lambda>s. if fs_releases s version = None then Inl NotExist else Inr ())) (\<lambda>r. case r of
             Inr _ \<Rightarrow> existing_release c w version d len now
           | Inl e \<Rightarrow> rejectT (e \<noteq> NotExist) e (
               tryT (reads (\<lambda>s. if meta_file version s = NoFile then Inl NotExist else Inr ())) (\<lambda>r. case r of
                  Inr _ \<Rightarrow> failT (FsError ''metadata exists without release'')
                | Inl e \<Rightarrow> rejectT (e \<noteq> NotExist) e (copy_release c w version d len copied now)))))))))))
            ?Q (\<lambda>_. ?I) ?I s0"
        using wpT_mono [OF dirs [OF locked [OF _ work]]]
        by (auto simp: fileDigest_def only_adds_refl intro!: wp_reject split: vpk.split)
    qed (simp_all add: only_adds_refl)
  qed
qed

text \<open>
  C30: Releases are immutable.  Whatever fails or stops during a preparation, no release and no metadata that
  were there have changed, nor has the link, the current or the previous release; and a preparation that
  succeeds returns metadata that match the release on disk and the digest and length of the source package.
\<close>

theorem prepare_never_rewrites:
  assumes "Prepare h c w version path source copied now fates s0 = (r, rest, s1)"
  shows "only_adds s0 s1 \<and> (\<forall>m. r = Done m \<longrightarrow> release_ok c w version m s1
    \<and> (\<exists>bytes. source = Vpk bytes \<and> cm_VPKSHA256 m = sha256_hex bytes \<and> cm_SizeBytes m = int (length bytes)))"
  using wpT_D [OF prepare_steps assms] by (cases r) (auto simp: prepared_def)

lemma prepare_never_rewrites_witness:
  "\<forall>fates. only_adds workshop_fs (snd (snd
     (Prepare sample_host sample_config ''123'' ''v3'' ''/src'' (Vpk ''three'') (Some ''three'') 5 fates workshop_fs)))"
proof
  fix fates
  obtain r rest s1 where run: "Prepare sample_host sample_config ''123'' ''v3'' ''/src'' (Vpk ''three'') (Some ''three'') 5 fates workshop_fs
      = (r, rest, s1)"
    by (cases "Prepare sample_host sample_config ''123'' ''v3'' ''/src'' (Vpk ''three'') (Some ''three'') 5 fates workshop_fs")
  show "only_adds workshop_fs (snd (snd
     (Prepare sample_host sample_config ''123'' ''v3'' ''/src'' (Vpk ''three'') (Some ''three'') 5 fates workshop_fs)))"
    using prepare_never_rewrites [OF run] by (simp add: run)
qed

end
