(* ===== verification/LoginGate.thy ===== *)
theory LoginGate
  imports Schema "HOL-Library.AList"
begin

text \<open>
  The gate in front of the administrator login (\<open>loginGate\<close> in
  \<open>internal/platform/httpapi/server.go\<close>): after three failures in a row a client waits, longer with
  every further failure, and the gate never holds more than ten thousand clients.  The map of attempts
  is an association list with distinct keys; each operation runs under the gate's mutex, so it is one
  step from the time \<open>now\<close> it reads.  The zero \<open>time.Time\<close> is \<open>None\<close>: no instant is before it, and every
  instant is more than an hour after it.
\<close>

section \<open>The gate\<close>

record loginAttempt =
  la_failures :: int
  la_next :: "time option"
  la_last :: "time option"

type_synonym loginGate = "(string \<times> loginAttempt) list"

definition newLoginGate :: loginGate where "newLoginGate = []"

definition gate_bound :: nat where "gate_bound = 10000"

text \<open>\<open>now.Sub(t) > time.Hour\<close> and \<open>now.Before(t)\<close>.\<close>

definition hour_old :: "time \<Rightarrow> time option \<Rightarrow> bool" where
  "hour_old now t = (case t of None \<Rightarrow> True | Some t \<Rightarrow> hour < now - t)"

definition before :: "time \<Rightarrow> time option \<Rightarrow> bool" where
  "before now t = (case t of None \<Rightarrow> False | Some t \<Rightarrow> now < t)"

definition prune :: "time \<Rightarrow> loginGate \<Rightarrow> loginGate" where
  "prune now g = filter (\<lambda>(k, a). \<not> hour_old now (la_last a)) g"

definition Allowed :: "string \<Rightarrow> time \<Rightarrow> loginGate \<Rightarrow> bool \<times> loginGate" where
  "Allowed key now g = (case map_of g key of
      Some a \<Rightarrow> (\<not> before now (la_next a), g)
    | None \<Rightarrow>
        let g = (if gate_bound \<le> length g then prune now g else g) in
        if gate_bound \<le> length g then (False, g)
        else (True, AList.update key \<lparr>la_failures = 0, la_next = None, la_last = Some now\<rparr> g))"

definition delay :: "int \<Rightarrow> time" where
  "delay failures = 2 ^ nat (min (failures - 3) 6) * second"

definition fail_attempt :: "time \<Rightarrow> loginAttempt \<Rightarrow> loginAttempt" where
  "fail_attempt now a =
     (let n = (if hour_old now (la_last a) then 0 else la_failures a) + 1 in
      \<lparr>la_failures = n, la_next = (if 3 \<le> n then Some (now + delay n) else la_next a), la_last = Some now\<rparr>)"

definition Failed :: "string \<Rightarrow> time \<Rightarrow> loginGate \<Rightarrow> loginGate" where
  "Failed key now g =
     (if map_of g key = None \<and> gate_bound \<le> length g then g
      else AList.update key (fail_attempt now
        (case map_of g key of None \<Rightarrow> \<lparr>la_failures = 0, la_next = None, la_last = None\<rparr> | Some a \<Rightarrow> a)) g)"

definition Succeeded :: "string \<Rightarrow> loginGate \<Rightarrow> loginGate" where
  "Succeeded key g = AList.delete key g"

section \<open>Histories of the gate\<close>

datatype gate_call = CallAllowed string | CallFailed string | CallSucceeded string

fun gate_step :: "time \<times> gate_call \<Rightarrow> loginGate \<Rightarrow> loginGate" where
  "gate_step (now, CallAllowed key) g = snd (Allowed key now g)"
| "gate_step (now, CallFailed key) g = Failed key now g"
| "gate_step (now, CallSucceeded key) g = Succeeded key g"

definition gate_run :: "(time \<times> gate_call) list \<Rightarrow> loginGate \<Rightarrow> loginGate" where
  "gate_run cs g = fold gate_step cs g"

lemma gate_run_simps [simp]:
  "gate_run [] g = g"
  "gate_run (c # cs) g = gate_run cs (gate_step c g)"
  by (simp_all add: gate_run_def)

section \<open>The table stays small and its keys distinct\<close>

definition gate_ok :: "loginGate \<Rightarrow> bool" where
  "gate_ok g \<longleftrightarrow> distinct (map fst g) \<and> length g \<le> gate_bound"

lemma length_alist_update:
  "length (AList.update k v al) = (if map_of al k = None then Suc (length al) else length al)"
  by (induction al) auto

lemma prune_ok: "gate_ok g \<Longrightarrow> gate_ok (prune now g)"
  unfolding gate_ok_def prune_def
  by (auto simp: distinct_map_filter intro: le_trans [OF length_filter_le])

lemma update_ok:
  "gate_ok g \<Longrightarrow> map_of g k \<noteq> None \<or> length g < gate_bound \<Longrightarrow> gate_ok (AList.update k v g)"
  by (auto simp: gate_ok_def length_alist_update distinct_update)

lemma Allowed_ok:
  assumes "gate_ok g"
  shows "gate_ok (snd (Allowed key now g))"
proof -
  let ?g = "if gate_bound \<le> length g then prune now g else g"
  have "gate_ok ?g" using assms by (simp add: prune_ok)
  then show ?thesis using assms update_ok [of ?g key]
    by (auto simp: Allowed_def Let_def split: option.splits)
qed

lemma gate_step_ok: "gate_ok g \<Longrightarrow> gate_ok (gate_step c g)"
proof (induction c g rule: gate_step.induct)
  case (2 now key g)
  then show ?case by (auto simp: Failed_def intro!: update_ok)
next
  case (3 now key g)
  then show ?case
    by (auto simp: Succeeded_def gate_ok_def distinct_delete intro: le_trans [OF length_delete_le])
qed (simp_all add: Allowed_ok)

lemma gate_run_ok: "gate_ok g \<Longrightarrow> gate_ok (gate_run cs g)"
  by (induction cs arbitrary: g) (simp_all add: gate_step_ok)

section \<open>A penalty is served\<close>

text \<open>
  The client is held until \<open>due\<close>: it has failed at least \<open>n\<close> times in a row, lately, and may not try again
  before \<open>due\<close>.
\<close>

definition held :: "string \<Rightarrow> int \<Rightarrow> time \<Rightarrow> time \<Rightarrow> loginGate \<Rightarrow> bool" where
  "held key n since due g \<longleftrightarrow> (\<exists>a l t. map_of g key = Some a \<and> n \<le> la_failures a \<and> la_last a = Some l
     \<and> since \<le> l \<and> la_next a = Some t \<and> due \<le> t)"

lemma held_refuses: "held key n since due g \<Longrightarrow> t < due \<Longrightarrow> \<not> fst (Allowed key t g)"
  by (auto simp: held_def Allowed_def before_def)

lemma delay_mono: "m \<le> n \<Longrightarrow> delay m \<le> delay n"
  unfolding delay_def second_def
  by (intro mult_right_mono power_increasing nat_mono min.mono) simp_all

lemma delay_le: "delay n \<le> 64 * second"
proof -
  have "(2::int) ^ nat (min (n - 3) 6) \<le> 2 ^ 6" by (intro power_increasing) (simp_all add: nat_le_iff)
  then show ?thesis by (simp add: delay_def second_def)
qed

lemma map_of_prune:
  assumes "map_of g k = Some a" "\<not> hour_old now (la_last a)" "distinct (map fst g)"
  shows "map_of (prune now g) k = Some a"
  using assms by (auto simp: prune_def distinct_map_filter map_of_eq_Some_iff)

lemma held_cong: "map_of g' key = map_of g key \<Longrightarrow> held key n since due g' = held key n since due g"
  by (simp add: held_def)

lemma held_prune:
  assumes "held key n since due g" "gate_ok g" "now \<le> since + hour"
  shows "held key n since due (prune now g)"
proof -
  obtain a l t where a: "map_of g key = Some a" "n \<le> la_failures a" "la_last a = Some l" "since \<le> l"
    "la_next a = Some t" "due \<le> t" using assms(1) by (auto simp: held_def)
  have "map_of (prune now g) key = Some a"
    using assms(2,3) a by (intro map_of_prune) (auto simp: hour_old_def gate_ok_def)
  then show ?thesis using a by (auto simp: held_def)
qed

text \<open>The calls of others, and those of the client other than a success, keep it held.\<close>

lemma held_step:
  assumes held: "held key n since (since + delay n) g" and ok: "gate_ok g" and n: "3 \<le> n"
    and now: "since \<le> now" "now \<le> since + hour" and call: "c \<noteq> CallSucceeded key"
  shows "held key n since (since + delay n) (gate_step (now, c) g)"
proof (cases c)
  case (CallAllowed k)
  show ?thesis
  proof (cases "map_of g k")
    case None
    then have "k \<noteq> key" using held by (auto simp: held_def)
    moreover have "held key n since (since + delay n) (if gate_bound \<le> length g then prune now g else g)"
      using held held_prune [OF held ok now(2)] by simp
    ultimately show ?thesis
      using None CallAllowed by (simp add: Allowed_def Let_def update_conv' held_def)
  qed (use held CallAllowed in \<open>simp add: Allowed_def\<close>)
next
  case (CallFailed k)
  obtain a l t where a: "map_of g key = Some a" "n \<le> la_failures a" "la_last a = Some l" "since \<le> l"
    "la_next a = Some t" "since + delay n \<le> t" using held by (auto simp: held_def)
  show ?thesis
  proof (cases "k = key")
    case True
    have "\<not> hour_old now (la_last a)" using a(3,4) now by (simp add: hour_old_def)
    moreover have "delay n \<le> delay (la_failures a + 1)" using a(2) by (intro delay_mono) simp
    ultimately show ?thesis
      using True CallFailed a now n by (simp add: Failed_def held_def update_conv' fail_attempt_def Let_def)
  qed (use held CallFailed in \<open>simp add: Failed_def held_def update_conv'\<close>)
next
  case (CallSucceeded k)
  then show ?thesis using held call by (simp add: Succeeded_def held_def delete_conv')
qed

lemma held_run:
  assumes "held key n since (since + delay n) g" "gate_ok g" "3 \<le> n"
    and "\<forall>(t, c) \<in> set cs. since \<le> t \<and> t \<le> since + hour \<and> c \<noteq> CallSucceeded key"
  shows "held key n since (since + delay n) (gate_run cs g)"
  using assms
proof (induction cs arbitrary: g)
  case (Cons x cs)
  obtain t c where x: "x = (t, c)" by (cases x)
  have "held key n since (since + delay n) (gate_step x g)"
    using Cons.prems x by (auto intro: held_step)
  then show ?case using Cons gate_step_ok by auto
qed simp

lemma Failed_holds:
  assumes "map_of g key = Some a" "\<not> hour_old now (la_last a)" "2 \<le> la_failures a"
  shows "held key (la_failures a + 1) now (now + delay (la_failures a + 1)) (Failed key now g)"
  using assms by (simp add: held_def Failed_def update_conv' fail_attempt_def Let_def)

section \<open>Guarantees\<close>

text \<open>
  C34: A penalty is served whatever the other clients do.  When a client that has already failed at least
  twice in a row, the last time within the hour, fails again as its failure number n, the gate refuses it for
  2 to the power of min (n - 3) 6 seconds, after any calls of other clients in that time (their reservations,
  failures, successes and the pruning they cause) and any further attempts or failures of its own; and the
  table stays within its bound.
\<close>

theorem login_penalty_served:
  assumes "gate_ok g" "map_of g key = Some a" "\<not> hour_old now (la_last a)" "2 \<le> la_failures a"
    and "n = la_failures a + 1" "now \<le> t" "t < now + 2 ^ nat (min (n - 3) 6) * second"
    and "\<forall>(u, c) \<in> set cs. now \<le> u \<and> u \<le> t \<and> c \<noteq> CallSucceeded key"
  shows "\<not> fst (Allowed key t (gate_run cs (Failed key now g)))
    \<and> length (gate_run cs (Failed key now g)) \<le> 10000"
proof
  have held: "held key n now (now + delay n) (Failed key now g)"
    using Failed_holds [OF assms(2-4)] assms(5) by simp
  have ok: "gate_ok (Failed key now g)" using gate_step_ok [OF assms(1), of "(now, CallFailed key)"] by simp
  have t: "t < now + delay n" using assms(7) by (simp add: delay_def)
  then have "t \<le> now + hour" using delay_le [of n] by (simp add: hour_def minute_def second_def)
  then have times: "\<forall>(u, c) \<in> set cs. now \<le> u \<and> u \<le> now + hour \<and> c \<noteq> CallSucceeded key"
    using assms(8) by fastforce
  show "\<not> fst (Allowed key t (gate_run cs (Failed key now g)))"
    by (rule held_refuses [OF held_run [OF held ok _ times] t]) (use assms(4,5) in simp)
  show "length (gate_run cs (Failed key now g)) \<le> 10000"
    using gate_run_ok [OF ok, of cs] by (simp add: gate_ok_def gate_bound_def)
qed

definition tried_twice :: loginGate where
  "tried_twice = gate_run [(0, CallAllowed ''10.0.0.1:root''), (0, CallFailed ''10.0.0.1:root''),
     (second, CallAllowed ''10.0.0.1:root''), (second, CallFailed ''10.0.0.1:root''),
     (2 * second, CallAllowed ''10.0.0.1:root'')] newLoginGate"

lemma login_penalty_served_witness:
  "\<not> fst (Allowed ''10.0.0.1:root'' (2 * second) (gate_run [(2 * second, CallAllowed ''10.0.0.2:root'')]
       (Failed ''10.0.0.1:root'' (2 * second) tried_twice)))
   \<and> fst (Allowed ''10.0.0.1:root'' (3 * second) (gate_run [(2 * second, CallAllowed ''10.0.0.2:root'')]
       (Failed ''10.0.0.1:root'' (2 * second) tried_twice)))"
proof
  have g: "tried_twice = [(''10.0.0.1:root'', \<lparr>la_failures = 2, la_next = None, la_last = Some second\<rparr>)]"
    by (simp add: tried_twice_def newLoginGate_def Allowed_def Failed_def gate_bound_def fail_attempt_def
        hour_old_def before_def hour_def minute_def second_def)
  show "\<not> fst (Allowed ''10.0.0.1:root'' (2 * second) (gate_run [(2 * second, CallAllowed ''10.0.0.2:root'')]
       (Failed ''10.0.0.1:root'' (2 * second) tried_twice)))"
    using login_penalty_served [of tried_twice "''10.0.0.1:root''"
        "\<lparr>la_failures = 2, la_next = None, la_last = Some second\<rparr>" "2 * second" 3 "2 * second"
        "[(2 * second, CallAllowed ''10.0.0.2:root'')]"]
    by (simp add: g gate_ok_def gate_bound_def hour_old_def hour_def minute_def second_def)
  show "fst (Allowed ''10.0.0.1:root'' (3 * second) (gate_run [(2 * second, CallAllowed ''10.0.0.2:root'')]
       (Failed ''10.0.0.1:root'' (2 * second) tried_twice)))"
    by (simp add: g Allowed_def Failed_def gate_bound_def fail_attempt_def hour_old_def before_def delay_def
        hour_def minute_def second_def)
qed

end
