(* ===== verification/NodeSession.thy ===== *)
theory NodeSession
  imports Schema Heartbeat Credentials
begin

text \<open>
  Capability sessions: the leases of the platform (\<open>internal/platform/httpapi/node_session.go\<close>) and the
  session that a controller process keeps (\<open>internal/controller/platformclient/client.go\<close>), put together
  into a protocol of several controller processes that share the credential of one node.  Times are
  instants of one clock, a lease travels as its token and its expiry (RFC 3339 with nanoseconds, so no
  part of the instant is lost), and the random bytes of a token are an argument, \<open>None\<close> when the system
  gives none.
\<close>

section \<open>Leases of the platform\<close>

record CapabilitySessionRequest =
  csr_ProcessID :: string
  csr_Capabilities :: "string list"

record CapabilitySession =
  cse_Token :: string
  cse_ExpiresAt :: time

record capabilityLease =
  le_digest :: "int list"
  le_processID :: string
  le_capabilities :: "string list"
  le_expires :: time

type_synonym capabilityLeases = "uuid \<Rightarrow> capabilityLease option"

definition newCapabilityLeases :: capabilityLeases where "newCapabilityLeases = Map.empty"

definition capabilityLeaseDuration :: time where "capabilityLeaseDuration = 90 * second"

definition CapabilityContentValidationV102 :: string where "CapabilityContentValidationV102 = ''contentValidationV102''"
definition CapabilityTemplateManifestV1 :: string where "CapabilityTemplateManifestV1 = ''templateManifestSha256V1''"
definition CapabilityCoreInventoryV1 :: string where "CapabilityCoreInventoryV1 = ''coreInventoryV1''"

definition lease_request_ok :: "CapabilitySessionRequest \<Rightarrow> bool" where
  "lease_request_ok i \<longleftrightarrow> 16 \<le> length (csr_ProcessID i) \<and> length (csr_ProcessID i) \<le> 128
     \<and> okE (ValidateCapabilities (csr_Capabilities i))
     \<and> CapabilityContentValidationV102 \<in> set (csr_Capabilities i)
     \<and> CapabilityTemplateManifestV1 \<in> set (csr_Capabilities i)
     \<and> CapabilityCoreInventoryV1 \<in> set (csr_Capabilities i)"

definition issue ::
    "uuid \<Rightarrow> CapabilitySessionRequest \<Rightarrow> int list option \<Rightarrow> time \<Rightarrow> capabilityLeases
      \<Rightarrow> (CapabilitySession \<times> capabilityLeases) option" where
  "issue nodeID input secret now ls =
     (if \<not> lease_request_ok input then None
      else case secret of
          None \<Rightarrow> None
        | Some raw \<Rightarrow>
            let (token, digest) = NewToken raw;
                expires = now + capabilityLeaseDuration in
            Some (\<lparr>cse_Token = token, cse_ExpiresAt = expires\<rparr>,
              ls(nodeID \<mapsto> \<lparr>le_digest = digest, le_processID = csr_ProcessID input,
                 le_capabilities = csr_Capabilities input, le_expires = expires\<rparr>)))"

definition validLocked :: "uuid \<Rightarrow> string \<Rightarrow> string \<Rightarrow> time \<Rightarrow> capabilityLeases \<Rightarrow> bool" where
  "validLocked nodeID token capability now ls \<longleftrightarrow> token \<noteq> [] \<and> length token \<le> 128
     \<and> (case ls nodeID of
          None \<Rightarrow> False
        | Some l \<Rightarrow> now < le_expires l \<and> capability \<in> set (le_capabilities l) \<and> sha256 token = le_digest l)"

section \<open>The session of a controller process\<close>

text \<open>The zero time of a session that was never opened, or was dropped, is \<open>None\<close>.\<close>

record Client =
  cl_processID :: string
  cl_sessionToken :: string
  cl_sessionExpires :: "time option"

definition new_client :: "string \<Rightarrow> Client" where
  "new_client processID = \<lparr>cl_processID = processID, cl_sessionToken = [], cl_sessionExpires = None\<rparr>"

definition session_request :: "Client \<Rightarrow> CapabilitySessionRequest" where
  "session_request c = \<lparr>csr_ProcessID = cl_processID c, csr_Capabilities =
     [CapabilityContentValidationV102, CapabilityTemplateManifestV1, CapabilityCoreInventoryV1]\<rparr>"

definition lasting :: "time \<Rightarrow> Client \<Rightarrow> bool" where
  "lasting now c \<longleftrightarrow> cl_sessionToken c \<noteq> [] \<and> some_and (\<lambda>t. 45 * second < t - now) (cl_sessionExpires c)"

text \<open>\<open>post\<close> is the exchange \<open>POST /session\<close>; it happens only when the session does not last.\<close>

definition accept_session :: "time \<Rightarrow> CapabilitySession \<Rightarrow> Client \<Rightarrow> Client res" where
  "accept_session now s c =
     rejectE (cse_Token s = [] \<or> cse_ExpiresAt s - now < 30 * second) (Invalid ''invalid capability session response'')
       (Inr (c\<lparr>cl_sessionToken := cse_Token s, cl_sessionExpires := Some (cse_ExpiresAt s)\<rparr>))"

definition EnsureSession ::
    "(CapabilitySessionRequest \<Rightarrow> 's \<Rightarrow> (CapabilitySession res) \<times> 's) \<Rightarrow> time \<Rightarrow> Client \<times> 's \<Rightarrow> (unit res) \<times> Client \<times> 's" where
  "EnsureSession post now st = (case st of (c, s) \<Rightarrow>
     if lasting now c then (Inr (), c, s)
     else if cl_processID c = [] then (Inl (Invalid ''cannot generate Controller process identity''), c, s)
     else case post (session_request c) s of
         (Inl e, s) \<Rightarrow> (Inl e, c, s)
       | (Inr answer, s) \<Rightarrow> (case accept_session now answer c of
             Inl e \<Rightarrow> (Inl e, c, s)
           | Inr c \<Rightarrow> (Inr (), c, s)))"

definition DropSession :: "Client \<Rightarrow> Client" where
  "DropSession c = c\<lparr>cl_sessionToken := [], cl_sessionExpires := None\<rparr>"

section \<open>Processes, leases and restarts\<close>

text \<open>The answer of the platform to an authenticated \<open>POST /session\<close>; a refusal is its status 400.\<close>

definition post_session ::
    "uuid \<Rightarrow> int list option \<Rightarrow> time \<Rightarrow> CapabilitySessionRequest \<Rightarrow> capabilityLeases \<Rightarrow> (CapabilitySession res) \<times> capabilityLeases" where
  "post_session nodeID secret now i ls = (case issue nodeID i secret now ls of
      None \<Rightarrow> (Inl (Invalid ''invalid session capability''), ls)
    | Some (s, ls) \<Rightarrow> (Inr s, ls))"

text \<open>
  Several controller processes hold the credential of node \<open>n\<close>.  Each ensures its session whenever it
  likes, the exchange may be answered by the platform or lost after the platform issued the lease, a
  process may drop its session, and the platform may restart and forget all leases.  A token never
  repeats the digest of an earlier one.
\<close>

record exchange =
  ex_clients :: "nat \<Rightarrow> Client"
  ex_leases :: capabilityLeases
  ex_used :: "int list set"

inductive session_step :: "uuid \<Rightarrow> exchange \<Rightarrow> exchange \<Rightarrow> bool" for n where
  ensure: "length raw = TokenBytes \<Longrightarrow> list_all is_byte raw \<Longrightarrow> snd (NewToken raw) \<notin> ex_used s
    \<Longrightarrow> EnsureSession (post_session n (Some raw) now) now (ex_clients s p, ex_leases s) = (r, c, ls)
    \<Longrightarrow> session_step n s (s\<lparr>ex_clients := (ex_clients s)(p := c), ex_leases := ls,
          ex_used := insert (snd (NewToken raw)) (ex_used s)\<rparr>)"
| lost: "length raw = TokenBytes \<Longrightarrow> list_all is_byte raw \<Longrightarrow> snd (NewToken raw) \<notin> ex_used s
    \<Longrightarrow> session_step n s (s\<lparr>ex_leases := snd (post_session n (Some raw) now (session_request (ex_clients s p)) (ex_leases s)),
          ex_used := insert (snd (NewToken raw)) (ex_used s)\<rparr>)"
| drop: "session_step n s (s\<lparr>ex_clients := (ex_clients s)(p := DropSession (ex_clients s p))\<rparr>)"
| restart: "session_step n s (s\<lparr>ex_leases := newCapabilityLeases\<rparr>)"

definition session_start :: "(nat \<Rightarrow> string) \<Rightarrow> exchange" where
  "session_start ids = \<lparr>ex_clients = (\<lambda>p. new_client (ids p)), ex_leases = newCapabilityLeases, ex_used = {}\<rparr>"

section \<open>Tokens\<close>

lemma token_nonempty:
  assumes "length raw = TokenBytes" "list_all is_byte raw"
  shows "fst (NewToken raw) \<noteq> []"
proof
  assume "fst (NewToken raw) = []"
  moreover have "TokenHash [] = None" by (simp add: TokenHash_def b64_decode_def TokenBytes_def)
  ultimately show False using token_hash_new [OF assms(2,1)] by simp
qed

lemma token_digest: "sha256 (fst (NewToken raw)) = snd (NewToken raw)"
  by (simp add: NewToken_def Let_def)

lemma length_b64_digits: "length (b64_digits bs) \<le> 2 * length bs"
  by (induction bs rule: b64_digits.induct) simp_all

lemma token_short:
  assumes "length raw = TokenBytes"
  shows "length (fst (NewToken raw)) \<le> 128"
  using length_b64_digits [of raw] assms by (simp add: NewToken_def Let_def TokenBytes_def b64_encode_def)

section \<open>What an exchange does\<close>

definition granted :: "uuid \<Rightarrow> int list \<Rightarrow> time \<Rightarrow> Client \<Rightarrow> capabilityLeases \<Rightarrow> capabilityLeases" where
  "granted n raw now c ls = ls(n \<mapsto> \<lparr>le_digest = snd (NewToken raw), le_processID = cl_processID c,
     le_capabilities = csr_Capabilities (session_request c), le_expires = now + capabilityLeaseDuration\<rparr>)"

lemma post_session_cases:
  obtains e where "post_session n (Some raw) now (session_request c) ls = (Inl e, ls)"
  | "post_session n (Some raw) now (session_request c) ls
       = (Inr \<lparr>cse_Token = fst (NewToken raw), cse_ExpiresAt = now + capabilityLeaseDuration\<rparr>, granted n raw now c ls)"
proof (cases "lease_request_ok (session_request c)")
  case True
  then have "post_session n (Some raw) now (session_request c) ls
       = (Inr \<lparr>cse_Token = fst (NewToken raw), cse_ExpiresAt = now + capabilityLeaseDuration\<rparr>, granted n raw now c ls)"
    by (simp add: post_session_def issue_def granted_def session_request_def case_prod_unfold Let_def)
  then show ?thesis by (rule that(2))
next
  case False
  then have "post_session n (Some raw) now (session_request c) ls = (Inl (Invalid ''invalid session capability''), ls)"
    by (simp add: post_session_def issue_def)
  then show ?thesis by (rule that(1))
qed

lemma ensure_cases:
  assumes "EnsureSession (post_session n (Some raw) now) now (c, ls) = (r, c', ls')"
    and "length raw = TokenBytes" "list_all is_byte raw"
  obtains (kept) "c' = c" "ls' = ls" "r = Inr () \<longrightarrow> lasting now c"
  | (renewed) "r = Inr ()" "c' = c\<lparr>cl_sessionToken := fst (NewToken raw), cl_sessionExpires := Some (now + capabilityLeaseDuration)\<rparr>"
      "ls' = granted n raw now c ls"
proof (cases "lasting now c \<or> cl_processID c = []")
  case True
  then show ?thesis using assms(1) by (intro kept) (auto simp: EnsureSession_def split: if_splits)
next
  case False
  have accept: "accept_session now \<lparr>cse_Token = fst (NewToken raw), cse_ExpiresAt = now + capabilityLeaseDuration\<rparr> c
      = Inr (c\<lparr>cl_sessionToken := fst (NewToken raw), cl_sessionExpires := Some (now + capabilityLeaseDuration)\<rparr>)"
    using token_nonempty [OF assms(2,3)] by (simp add: accept_session_def capabilityLeaseDuration_def second_def)
  show ?thesis
  proof (cases rule: post_session_cases [of n raw now c ls])
    case (1 e)
    then show ?thesis using assms(1) False by (intro kept) (auto simp: EnsureSession_def)
  next
    case 2
    then show ?thesis using assms(1) False accept by (intro renewed) (auto simp: EnsureSession_def)
  qed
qed

section \<open>The invariant of the protocol\<close>

text \<open>
  Tokens in use have been drawn, two processes never hold the same one, and a process whose digest is
  the lease's knows when the lease ends and asked for all three capabilities.
\<close>

definition holds_token :: "Client \<Rightarrow> int list \<Rightarrow> bool" where
  "holds_token c h \<longleftrightarrow> cl_sessionToken c \<noteq> [] \<and> sha256 (cl_sessionToken c) = h"

definition exchange_ok :: "uuid \<Rightarrow> exchange \<Rightarrow> bool" where
  "exchange_ok n s \<longleftrightarrow>
     (\<forall>p h. holds_token (ex_clients s p) h \<longrightarrow> h \<in> ex_used s \<and> length (cl_sessionToken (ex_clients s p)) \<le> 128)
     \<and> (\<forall>p q h. holds_token (ex_clients s p) h \<longrightarrow> holds_token (ex_clients s q) h \<longrightarrow> p = q)
     \<and> (\<forall>l. ex_leases s n = Some l \<longrightarrow> le_digest l \<in> ex_used s
          \<and> (\<forall>p. holds_token (ex_clients s p) (le_digest l) \<longrightarrow> cl_sessionExpires (ex_clients s p) = Some (le_expires l)
               \<and> set known_capabilities \<subseteq> set (le_capabilities l)))"

lemma new_token_held:
  assumes "length raw = TokenBytes" "list_all is_byte raw"
  shows "holds_token (c\<lparr>cl_sessionToken := fst (NewToken raw), cl_sessionExpires := e\<rparr>) h \<longleftrightarrow> h = snd (NewToken raw)"
  using token_nonempty [OF assms] by (auto simp: holds_token_def token_digest)

lemma asks_all: "set known_capabilities \<subseteq> set (csr_Capabilities (session_request c))"
  by (simp add: known_capabilities_def session_request_def CapabilityContentValidationV102_def
      CapabilityTemplateManifestV1_def CapabilityCoreInventoryV1_def)

lemma exchange_ok_start: "exchange_ok n (session_start ids)"
  by (simp add: exchange_ok_def session_start_def holds_token_def new_client_def newCapabilityLeases_def)

lemma exchange_ok_more: "exchange_ok n s \<Longrightarrow> exchange_ok n (s\<lparr>ex_used := insert h (ex_used s)\<rparr>)"
  unfolding exchange_ok_def by auto

lemma exchange_ok_step:
  assumes "session_step n s s'" "exchange_ok n s"
  shows "exchange_ok n s'"
  using assms
proof cases
  case (ensure raw now p r c ls)
  show ?thesis
    using ensure(5,2,3)
  proof (cases rule: ensure_cases)
    case kept
    then have "s' = s\<lparr>ex_used := insert (snd (NewToken raw)) (ex_used s)\<rparr>" by (simp add: ensure(1))
    then show ?thesis using exchange_ok_more [OF assms(2)] by simp
  next
    case renewed
    have new: "\<And>q. \<not> holds_token (ex_clients s q) (snd (NewToken raw))"
      using assms(2) ensure(4) by (auto simp: exchange_ok_def)
    show ?thesis
      using assms(2) new token_short [OF ensure(2)]
      by (auto simp: exchange_ok_def ensure(1) renewed new_token_held [OF ensure(2,3)] granted_def asks_all)
  qed
next
  case (lost raw now p)
  have new: "\<And>q. \<not> holds_token (ex_clients s q) (snd (NewToken raw))"
    using assms(2) lost(4) by (auto simp: exchange_ok_def)
  show ?thesis
  proof (cases rule: post_session_cases [of n raw now "ex_clients s p" "ex_leases s"])
    case (1 e)
    then show ?thesis using exchange_ok_more [OF assms(2)] by (simp add: lost(1))
  next
    case 2
    then show ?thesis using assms(2) new by (auto simp: exchange_ok_def lost(1) granted_def)
  qed
next
  case (drop p)
  then show ?thesis using assms(2) by (auto simp: exchange_ok_def holds_token_def DropSession_def)
next
  case restart
  then show ?thesis using assms(2) by (auto simp: exchange_ok_def newCapabilityLeases_def)
qed

lemma exchange_ok_reach: "(session_step n)\<^sup>*\<^sup>* (session_start ids) s \<Longrightarrow> exchange_ok n s"
  by (induction rule: rtranclp_induct) (auto intro: exchange_ok_start exchange_ok_step)

section \<open>Guarantees\<close>

definition session_accepted :: "uuid \<Rightarrow> Client \<Rightarrow> string \<Rightarrow> time \<Rightarrow> capabilityLeases \<Rightarrow> bool" where
  "session_accepted n c capability t ls \<longleftrightarrow> validLocked n (cl_sessionToken c) capability t ls"

text \<open>
  C32: One controller process at a time acts for a node.  However the processes that share a node's
  credential open, renew, lose and drop their sessions and whenever the platform restarts, the sessions of
  two different processes are never both accepted.  And a process that ensures its session with success,
  with its digest in the lease (which a renewal just put there), is accepted for every capability for
  the next 45 seconds at least.
\<close>

theorem one_controller_at_a_time:
  assumes "(session_step n)\<^sup>*\<^sup>* (session_start ids) s"
  shows "(session_accepted n (ex_clients s p) capability t (ex_leases s)
      \<and> session_accepted n (ex_clients s q) capability' t' (ex_leases s) \<longrightarrow> p = q)
    \<and> (length raw = TokenBytes \<and> list_all is_byte raw
      \<and> EnsureSession (post_session n (Some raw) now) now (ex_clients s p, ex_leases s) = (Inr (), c, ls)
      \<and> some_and (\<lambda>l. le_digest l = sha256 (cl_sessionToken c)) (ls n)
      \<and> now \<le> t \<and> t \<le> now + 45 * second \<and> capability \<in> set known_capabilities
      \<longrightarrow> session_accepted n c capability t ls)"
proof (intro conjI impI)
  have ok: "exchange_ok n s" using assms by (rule exchange_ok_reach)
  show "p = q"
    if both: "session_accepted n (ex_clients s p) capability t (ex_leases s)
      \<and> session_accepted n (ex_clients s q) capability' t' (ex_leases s)"
  proof -
    obtain h where "holds_token (ex_clients s p) h" "holds_token (ex_clients s q) h"
      using both by (auto simp: session_accepted_def validLocked_def holds_token_def split: option.splits)
    then show "p = q" using ok by (auto simp: exchange_ok_def)
  qed
  show "session_accepted n c capability t ls"
    if e: "length raw = TokenBytes \<and> list_all is_byte raw
      \<and> EnsureSession (post_session n (Some raw) now) now (ex_clients s p, ex_leases s) = (Inr (), c, ls)
      \<and> some_and (\<lambda>l. le_digest l = sha256 (cl_sessionToken c)) (ls n)
      \<and> now \<le> t \<and> t \<le> now + 45 * second \<and> capability \<in> set known_capabilities"
  proof -
    have raw: "length raw = TokenBytes" "list_all is_byte raw"
      and run: "EnsureSession (post_session n (Some raw) now) now (ex_clients s p, ex_leases s) = (Inr (), c, ls)" using e by simp_all
    show ?thesis using run raw
    proof (cases rule: ensure_cases)
      case kept
      obtain l where l: "ex_leases s n = Some l" "le_digest l = sha256 (cl_sessionToken c)" using e kept by auto
      have lasts: "lasting now c" using kept by simp
      then have "holds_token (ex_clients s p) (le_digest l)" using l kept by (simp add: holds_token_def lasting_def)
      then have "cl_sessionExpires c = Some (le_expires l)" "set known_capabilities \<subseteq> set (le_capabilities l)"
        "length (cl_sessionToken c) \<le> 128" using ok l kept(1) by (auto simp: exchange_ok_def)
      then show ?thesis using lasts l e kept by (auto simp: session_accepted_def validLocked_def lasting_def)
    next
      case renewed
      then show ?thesis using e token_nonempty [OF raw] token_short [OF raw(1)] asks_all
        by (auto simp: session_accepted_def validLocked_def granted_def token_digest capabilityLeaseDuration_def second_def)
    qed
  qed
qed

definition two_processes :: exchange where
  "two_processes = session_start (\<lambda>p. replicate 32 (CHR ''a''))"

definition first_token :: "int list" where "first_token = replicate 32 7"

lemma one_controller_at_a_time_witness:
  "\<exists>c ls. EnsureSession (post_session 1 (Some first_token) 0) 0 (ex_clients two_processes 0, ex_leases two_processes) = (Inr (), c, ls)
     \<and> session_accepted 1 c CapabilityContentValidationV102 (45 * second) ls
     \<and> \<not> session_accepted 1 (ex_clients two_processes 1) CapabilityContentValidationV102 0 ls"
proof -
  let ?p = "post_session 1 (Some first_token) 0"
  have raw: "length first_token = TokenBytes" "list_all is_byte first_token"
    by (simp_all add: first_token_def TokenBytes_def is_byte_def list_all_iff)
  define c where "c = (ex_clients two_processes 0)\<lparr>cl_sessionToken := fst (NewToken first_token),
    cl_sessionExpires := Some (0 + capabilityLeaseDuration)\<rparr>"
  define ls where "ls = granted 1 first_token 0 (ex_clients two_processes 0) (ex_leases two_processes)"
  have "lease_request_ok (session_request (ex_clients two_processes 0))"
    by (simp add: lease_request_ok_def session_request_def two_processes_def session_start_def new_client_def
        CapabilityContentValidationV102_def CapabilityTemplateManifestV1_def CapabilityCoreInventoryV1_def
        ValidateCapabilities_def known_capabilities_def)
  then have run: "EnsureSession ?p 0 (ex_clients two_processes 0, ex_leases two_processes) = (Inr (), c, ls)"
    using token_nonempty [OF raw]
    by (simp add: EnsureSession_def post_session_def issue_def lasting_def accept_session_def c_def ls_def granted_def
        case_prod_unfold Let_def capabilityLeaseDuration_def second_def two_processes_def session_start_def new_client_def
        session_request_def)
  have digest: "some_and (\<lambda>l. le_digest l = sha256 (cl_sessionToken c)) (ls 1)"
    by (simp add: ls_def granted_def c_def token_digest)
  have known: "CapabilityContentValidationV102 \<in> set known_capabilities"
    by (simp add: CapabilityContentValidationV102_def known_capabilities_def)
  let ?s = "two_processes\<lparr>ex_clients := (ex_clients two_processes)(0 := c), ex_leases := ls,
    ex_used := insert (snd (NewToken first_token)) (ex_used two_processes)\<rparr>"
  have start: "(session_step 1)\<^sup>*\<^sup>* (session_start (\<lambda>p. replicate 32 (CHR ''a''))) two_processes"
    by (simp add: two_processes_def)
  have "session_step 1 two_processes ?s"
    by (rule session_step.ensure [OF raw _ run]) (simp add: two_processes_def session_start_def)
  then have step: "(session_step 1)\<^sup>*\<^sup>* (session_start (\<lambda>p. replicate 32 (CHR ''a''))) ?s" using start by simp
  have accepted: "session_accepted 1 c CapabilityContentValidationV102 t ls" if "0 \<le> t" "t \<le> 45 * second" for t
    using one_controller_at_a_time [OF start, of 0 _ _ _ _ _ first_token 0 c ls] raw run digest known that by auto
  have "\<not> session_accepted 1 (ex_clients two_processes 1) CapabilityContentValidationV102 0 ls"
    using one_controller_at_a_time [OF step, of 0 CapabilityContentValidationV102 0 1 CapabilityContentValidationV102 0]
      accepted [of 0] by (auto simp: second_def)
  then show ?thesis using run accepted [of "45 * second"] by (auto simp: second_def)
qed

end
