(* ===== verification/Http.thy ===== *)
theory Http
  imports Identity
begin

text \<open>
  What the handlers of \<open>internal/platform/httpapi\<close> share (\<open>server.go\<close>): requests as far as the code
  reads them, replies with their status, the check of the origin, cookies, JSON bodies, and identifiers
  in text.  The network and the JSON syntax are left to the server: a request comes with its headers
  split (an absent header is empty), a body with the value that \<open>Decode\<close> finds in it under the size
  limit, if any, and whether nothing follows that value.
\<close>

section \<open>Requests and replies\<close>

record HttpConfig =
  hc_PublicOrigin :: string
  hc_Development :: bool

text \<open>
  \<open>hq_peer\<close> is the parsed peer address, whether it is a loopback address and its canonical text;
  \<open>hq_forwarded\<close> the values of \<open>X-Platform-Client-IP\<close>, each with the text of its address if it is one.
\<close>

record http_request =
  hq_Origin :: string
  hq_NodeID :: string
  hq_Authorization :: string
  hq_Session :: string
  hq_Cookies :: "(string \<times> string) list"
  hq_id :: string
  hq_Query :: "(string \<times> string) list"
  hq_peer :: "(bool \<times> string) option"
  hq_forwarded :: "string option list"

definition Cookie :: "http_request \<Rightarrow> string \<Rightarrow> string option" where
  "Cookie r name = map_of (hq_Cookies r) name"

definition QueryGet :: "http_request \<Rightarrow> string \<Rightarrow> string" where
  "QueryGet r name = coalesce (map_of (hq_Query r) name) []"

text \<open>A refusal is \<open>http.Error\<close> or an error as JSON with its code; other replies are empty (204) or carry a
  body with its status.\<close>

datatype refusal =
    HttpError int string
  | Coded int string

datatype 'a reply =
    refused: Refused refusal
  | NoContent
  | Sent int 'a

fun status :: "'a reply \<Rightarrow> int" where
  "status (Refused (HttpError n t)) = n"
| "status (Refused (Coded n c)) = n"
| "status NoContent = 204"
| "status (Sent n x) = n"

text \<open>A handler that stops with a refusal leaves the state as it is.\<close>

definition answer :: "'s \<Rightarrow> refusal + ('a reply \<times> 's) \<Rightarrow> 'a reply \<times> 's" where
  "answer s h = (case h of Inl f \<Rightarrow> (Refused f, s) | Inr x \<Rightarrow> x)"

definition on_error :: "(err \<Rightarrow> refusal) \<Rightarrow> 'b res \<Rightarrow> refusal + 'b" where
  "on_error f m = (case m of Inl e \<Rightarrow> Inl (f e) | Inr x \<Rightarrow> Inr x)"

definition given :: "refusal \<Rightarrow> 'b option \<Rightarrow> refusal + 'b" where
  "given r x = (case x of None \<Rightarrow> Inl r | Some v \<Rightarrow> Inr v)"

lemma on_error_Inr [result_simps]: "on_error f m = Inr x \<longleftrightarrow> m = Inr x"
  by (cases m) (simp_all add: on_error_def)

lemma given_Inr [result_simps]: "given r x = Inr v \<longleftrightarrow> x = Some v"
  by (cases x) (simp_all add: given_def)

lemma answer_cases:
  assumes "answer s h = (r, s')"
  obtains (stopped) f where "h = Inl f" "r = Refused f" "s' = s" | (served) "h = Inr (r, s')"
  using assms by (cases h) (auto simp: answer_def)

section \<open>Origin and cookies\<close>

definition secureCookie :: "HttpConfig \<Rightarrow> bool" where
  "secureCookie c \<longleftrightarrow> take 8 (hc_PublicOrigin c) = ''https://''"

definition userCookieName :: "HttpConfig \<Rightarrow> string" where
  "userCookieName c = (if hc_Development c then ''arcade_session_dev'' else ''__Host-arcade_session'')"

definition adminCookieName :: "HttpConfig \<Rightarrow> string" where
  "adminCookieName c = (if hc_Development c then ''arcade_admin_dev'' else ''__Host-arcade_admin'')"

definition checkOrigin :: "HttpConfig \<Rightarrow> http_request \<Rightarrow> refusal + unit" where
  "checkOrigin c r = rejectE (hq_Origin r \<noteq> hc_PublicOrigin c) (HttpError 403 ''invalid origin'') (Inr ())"

text \<open>A cookie that a reply sets or, with an empty value and no age, clears.\<close>

record set_cookie =
  sc_Name :: string
  sc_Value :: string
  sc_Secure :: bool
  sc_MaxAge :: int

definition setCookie :: "HttpConfig \<Rightarrow> string \<Rightarrow> string \<Rightarrow> time \<Rightarrow> set_cookie" where
  "setCookie c name token lifetime = \<lparr>sc_Name = name, sc_Value = token, sc_Secure = secureCookie c,
     sc_MaxAge = lifetime div second\<rparr>"

definition clearCookie :: "HttpConfig \<Rightarrow> string \<Rightarrow> set_cookie" where
  "clearCookie c name = \<lparr>sc_Name = name, sc_Value = [], sc_Secure = secureCookie c, sc_MaxAge = -1\<rparr>"

section \<open>Bodies\<close>

record 'b body =
  bd_ContentType :: string
  bd_value :: "'b option"
  bd_ends :: bool

definition decode_body :: "(string \<Rightarrow> string) \<Rightarrow> 'b body \<Rightarrow> 'b option" where
  "decode_body unicode b =
     (if take 16 (ToLower unicode (bd_ContentType b)) \<noteq> ''application/json'' then None
      else case bd_value b of
          None \<Rightarrow> None
        | Some v \<Rightarrow> if bd_ends b then Some v else None)"

definition decodeJSON :: "(string \<Rightarrow> string) \<Rightarrow> 'b body \<Rightarrow> 'b option" where
  "decodeJSON unicode b = decode_body unicode b"

definition decodeNodeJSON :: "(string \<Rightarrow> string) \<Rightarrow> 'b body \<Rightarrow> 'b option" where
  "decodeNodeJSON unicode b = decode_body unicode b"

section \<open>Identifiers in text\<close>

definition hex_char :: "char \<Rightarrow> bool" where
  "hex_char c \<longleftrightarrow> c \<in> set hex_digits"

definition dash_at :: "nat \<Rightarrow> bool" where
  "dash_at i \<longleftrightarrow> i = 8 \<or> i = 13 \<or> i = 18 \<or> i = 23"

definition nodeIDPattern :: "string \<Rightarrow> bool" where
  "nodeIDPattern s \<longleftrightarrow> length s = 36
     \<and> list_all (\<lambda>(i, c). if dash_at i then c = CHR ''-'' else hex_char c) (enumerate 0 s)"

definition hex_value :: "string \<Rightarrow> nat" where
  "hex_value s = foldl (\<lambda>v c. 16 * v + nat (coalesce (index_of c hex_digits) 0)) 0 s"

definition uuid_value :: "string \<Rightarrow> uuid" where
  "uuid_value s = hex_value (filter (\<lambda>c. c \<noteq> CHR ''-'') s)"

text \<open>The identifier that the code checks with \<open>nodeIDPattern\<close> before it uses it.\<close>

definition checked_id :: "string \<Rightarrow> uuid option" where
  "checked_id s = (if nodeIDPattern s then Some (uuid_value s) else None)"

text \<open>
  Where the code passes a text on without a check, the database parses it: \<open>pg\<close> is its reading of text as a
  UUID, which accepts the canonical form among others.
\<close>

definition reads_canonical :: "(string \<Rightarrow> uuid option) \<Rightarrow> bool" where
  "reads_canonical pg \<longleftrightarrow> (\<forall>s. nodeIDPattern s \<longrightarrow> pg s = Some (uuid_value s))"

definition stored_id :: "(string \<Rightarrow> uuid option) \<Rightarrow> string \<Rightarrow> uuid res" where
  "stored_id pg s = (case pg s of None \<Rightarrow> Inl (Invalid ''invalid input syntax for type uuid'') | Some i \<Rightarrow> Inr i)"

lemma stored_id_Inr [result_simps]: "stored_id pg s = Inr i \<longleftrightarrow> pg s = Some i"
  by (simp add: stored_id_def split: option.splits)

end
