(* ===== verification/NodeApi.thy ===== *)
theory NodeApi
  imports Http NodeSession Nodes Quarantine Validation CoreClient
begin

text \<open>
  The node API (\<open>internal/platform/httpapi/node.go\<close> and the handlers of \<open>node_session.go\<close>): a node
  authenticates with its secret, and whatever needs validated content also with the live lease of one
  controller process.  A handler runs under the lock of the leases and is one step on the database.
\<close>

section \<open>Who is asking\<close>

text \<open>What a handler draws from its surroundings: the clock, fresh identifiers, random bytes, the
  database's reading of text as a UUID, and \<open>strings.ToLower\<close> outside ASCII.\<close>

record node_env =
  ne_now :: time
  ne_newRequest :: uuid
  ne_newJob :: uuid
  ne_secret :: "int list option"
  ne_pg :: "string \<Rightarrow> uuid option"
  ne_unicode :: "string \<Rightarrow> string"

definition bearer :: "string \<Rightarrow> string option" where
  "bearer h = (if take 7 h = ''Bearer '' then Some (drop 7 h) else None)"

definition authenticatedNode :: "http_request \<Rightarrow> db \<Rightarrow> refusal + uuid" where
  "authenticatedNode r d = (case bearer (hq_Authorization r) of
      None \<Rightarrow> Inl (HttpError 401 ''unauthorized'')
    | Some secret \<Rightarrow>
        rejectE (\<not> nodeIDPattern (hq_NodeID r) \<or> secret = []) (HttpError 401 ''unauthorized'') (
        bindE (on_error (\<lambda>e. if e = ErrNodeUnauthorized then HttpError 401 ''unauthorized''
                             else HttpError 503 ''node authentication unavailable'')
                (AuthenticateNode (uuid_value (hq_NodeID r)) secret d)) (\<lambda>_.
        Inr (uuid_value (hq_NodeID r)))))"

definition requestHasNodeCapability :: "http_request \<Rightarrow> uuid \<Rightarrow> string \<Rightarrow> time \<Rightarrow> capabilityLeases \<Rightarrow> bool" where
  "requestHasNodeCapability r nodeID capability now ls = validLocked nodeID (hq_Session r) capability now ls"

definition requestHasCapability :: "http_request \<Rightarrow> uuid \<Rightarrow> string \<Rightarrow> time \<Rightarrow> capabilityLeases \<Rightarrow> bool" where
  "requestHasCapability r nodeID capability now ls =
     (if capability = [] \<or> capability = ''legacy_v1'' then True
      else if capability \<noteq> RequiredContentValidationV102 then False
      else requestHasNodeCapability r nodeID CapabilityContentValidationV102 now ls)"

definition requestCapability :: "http_request \<Rightarrow> uuid \<Rightarrow> time \<Rightarrow> capabilityLeases \<Rightarrow> string" where
  "requestCapability r nodeID now ls =
     (if requestHasCapability r nodeID RequiredContentValidationV102 now ls then RequiredContentValidationV102
      else ''legacy_v1'')"

text \<open>A missing row is 404; a resource of another capability is not distinguished from a missing one.\<close>

definition authorizeJob ::
    "node_env \<Rightarrow> http_request \<Rightarrow> uuid \<Rightarrow> string \<Rightarrow> capabilityLeases \<Rightarrow> db \<Rightarrow> refusal + uuid" where
  "authorizeJob env r nodeID jobID ls d =
     bindE (on_error (\<lambda>e. if e = NoRows then HttpError 404 ''not found'' else HttpError 503 ''job unavailable'')
       (bindE (stored_id (ne_pg env) jobID) (\<lambda>j. bindE (RequiredCapabilityForJob nodeID j d) (\<lambda>c. Inr (j, c))))) (\<lambda>(j, c).
     rejectE (\<not> requestHasCapability r nodeID c (ne_now env) ls) (HttpError 404 ''not found'') (Inr j))"

definition authorizeAllocation ::
    "node_env \<Rightarrow> http_request \<Rightarrow> uuid \<Rightarrow> uuid \<Rightarrow> capabilityLeases \<Rightarrow> db \<Rightarrow> refusal + unit" where
  "authorizeAllocation env r nodeID allocationID ls d =
     bindE (on_error (\<lambda>e. if e = NoRows then HttpError 404 ''not found'' else HttpError 503 ''allocation unavailable'')
       (RequiredCapabilityForAllocation nodeID allocationID d)) (\<lambda>c.
     rejectE (\<not> requestHasCapability r nodeID c (ne_now env) ls) (HttpError 404 ''not found'') (Inr ()))"

section \<open>Sessions\<close>

definition nodeCapabilitySession ::
    "node_env \<Rightarrow> http_request \<Rightarrow> CapabilitySessionRequest body \<Rightarrow> db \<Rightarrow> capabilityLeases \<Rightarrow> CapabilitySession reply \<times> capabilityLeases" where
  "nodeCapabilitySession env r b d ls = answer ls (
     bindE (authenticatedNode r d) (\<lambda>nodeID.
     bindE (given (HttpError 400 ''invalid session request'') (decodeNodeJSON (ne_unicode env) b)) (\<lambda>input.
     bindE (given (HttpError 400 ''invalid session capability'') (issue nodeID input (ne_secret env) (ne_now env) ls)) (\<lambda>(session, ls).
     Inr (Sent 200 session, ls)))))"

definition nodeCheckSession :: "node_env \<Rightarrow> http_request \<Rightarrow> capabilityLeases \<Rightarrow> db \<Rightarrow> unit reply \<times> db" where
  "nodeCheckSession env r ls d = answer d (
     bindE (authenticatedNode r d) (\<lambda>nodeID.
     rejectE (\<not> requestHasNodeCapability r nodeID CapabilityContentValidationV102 (ne_now env) ls)
       (HttpError 403 ''capability required'') (Inr (NoContent, d))))"

section \<open>Facts of the node\<close>

text \<open>\<open>err.Error()\<close> of a validation.\<close>

definition error_text :: "err \<Rightarrow> string" where
  "error_text e = (case e of Invalid m \<Rightarrow> m | _ \<Rightarrow> [])"

definition nodeHeartbeat :: "node_env \<Rightarrow> http_request \<Rightarrow> Heartbeat body \<Rightarrow> db \<Rightarrow> HeartbeatResult reply \<times> db" where
  "nodeHeartbeat env r b d = answer d (
     bindE (authenticatedNode r d) (\<lambda>nodeID.
     bindE (given (HttpError 400 ''invalid heartbeat JSON'') (decodeNodeJSON (ne_unicode env) b)) (\<lambda>h.
     bindE (on_error (\<lambda>e. HttpError 400 (error_text e)) (Heartbeat_Validate h)) (\<lambda>_.
     bindE (on_error (\<lambda>_. HttpError 503 ''heartbeat unavailable'') (RecordHeartbeat nodeID h (ne_now env) d)) (\<lambda>(result, d).
     Inr (Sent 200 result, d))))))"

definition nodeReconcileComplete :: "node_env \<Rightarrow> http_request \<Rightarrow> int body \<Rightarrow> db \<Rightarrow> unit reply \<times> db" where
  "nodeReconcileComplete env r b d = answer d (
     bindE (authenticatedNode r d) (\<lambda>nodeID.
     bindE (given (HttpError 400 ''invalid reconcile generation'') (decodeNodeJSON (ne_unicode env) b)) (\<lambda>generation.
     rejectE (generation \<le> 0) (HttpError 400 ''invalid reconcile generation'') (
     bindE (on_error (\<lambda>e. case e of ErrJobConflict _ \<Rightarrow> HttpError 409 ''stale reconcile generation''
                                  | _ \<Rightarrow> HttpError 503 ''reconcile unavailable'')
              (CompleteNodeReconcile nodeID generation (ne_now env) d)) (\<lambda>d.
     Inr (NoContent, d))))))"

definition nodeInventory :: "node_env \<Rightarrow> http_request \<Rightarrow> InventoryReport body \<Rightarrow> capabilityLeases \<Rightarrow> db \<Rightarrow> snapshot_row reply \<times> db" where
  "nodeInventory env r b ls d = answer d (
     bindE (authenticatedNode r d) (\<lambda>nodeID.
     rejectE (\<not> requestHasNodeCapability r nodeID CapabilityCoreInventoryV1 (ne_now env) ls)
       (HttpError 403 ''capability required'') (
     bindE (given (HttpError 400 ''invalid inventory'') (decodeNodeJSON (ne_unicode env) b)) (\<lambda>p.
     bindE (on_error (\<lambda>_. HttpError 400 ''invalid inventory'') (InventoryReport_Validate p)) (\<lambda>_.
     bindE (on_error (\<lambda>e. case e of ErrJobConflict _ \<Rightarrow> HttpError 409 ''inventory conflict''
                                  | _ \<Rightarrow> HttpError 503 ''inventory unavailable'')
              (RecordInventory nodeID (ir_ScanID p) (ir_Complete p) (ir_ErrorCode p) (ir_Instances p) (ne_now env) d)) (\<lambda>(s, d).
     Inr (Sent 200 s, d)))))))"

section \<open>Attempts\<close>

definition nodeActiveAllocations :: "node_env \<Rightarrow> http_request \<Rightarrow> capabilityLeases \<Rightarrow> db \<Rightarrow> ActiveAllocation list reply \<times> db" where
  "nodeActiveAllocations env r ls d = answer d (
     bindE (authenticatedNode r d) (\<lambda>nodeID.
     Inr (Sent 200 (ActiveAllocationsForNodeWithCapability nodeID (requestCapability r nodeID (ne_now env) ls) d), d)))"

definition nodeInstanceFact :: "node_env \<Rightarrow> http_request \<Rightarrow> InstanceFact body \<Rightarrow> capabilityLeases \<Rightarrow> db \<Rightarrow> unit reply \<times> db" where
  "nodeInstanceFact env r b ls d = answer d (
     bindE (authenticatedNode r d) (\<lambda>nodeID.
     bindE (given (HttpError 404 ''not found'') (checked_id (hq_id r))) (\<lambda>i.
     bindE (authorizeAllocation env r nodeID i ls d) (\<lambda>_.
     bindE (given (HttpError 400 ''invalid instance fact'') (decodeNodeJSON (ne_unicode env) b)) (\<lambda>f.
     bindE (on_error (\<lambda>e. case e of NoRows \<Rightarrow> HttpError 404 ''not found''
                                  | ErrJobConflict _ \<Rightarrow> HttpError 409 ''invalid instance fact''
                                  | _ \<Rightarrow> HttpError 503 ''instance reconciliation unavailable'')
              (ReportInstanceFact nodeID i f (ne_newRequest env) (ne_newJob env) (ne_now env) d)) (\<lambda>d.
     Inr (NoContent, d)))))))"

section \<open>Jobs\<close>

definition nodeOpenJobs :: "node_env \<Rightarrow> http_request \<Rightarrow> capabilityLeases \<Rightarrow> db \<Rightarrow> Job list reply \<times> db" where
  "nodeOpenJobs env r ls d = answer d (
     bindE (authenticatedNode r d) (\<lambda>nodeID.
     Inr (Sent 200 (OpenJobsForNodeWithCapability nodeID (requestCapability r nodeID (ne_now env) ls) d), d)))"

definition nodeClaimJob :: "node_env \<Rightarrow> http_request \<Rightarrow> capabilityLeases \<Rightarrow> db \<Rightarrow> Job reply \<times> db" where
  "nodeClaimJob env r ls d = answer d (
     bindE (authenticatedNode r d) (\<lambda>nodeID.
     bindE (on_error (\<lambda>_. HttpError 503 ''claim unavailable'')
              (claimNextJob nodeID (QueryGet r ''independentStop'' = ''true'')
                 (requestCapability r nodeID (ne_now env) ls) (ne_now env) d)) (\<lambda>(job, d).
     Inr (case job of None \<Rightarrow> NoContent | Some j \<Rightarrow> Sent 200 j, d))))"

definition nodeGetJob :: "node_env \<Rightarrow> http_request \<Rightarrow> capabilityLeases \<Rightarrow> db \<Rightarrow> Job reply \<times> db" where
  "nodeGetJob env r ls d = answer d (
     bindE (authenticatedNode r d) (\<lambda>nodeID.
     bindE (on_error (\<lambda>e. if e = NoRows then HttpError 404 ''job not found'' else HttpError 503 ''job unavailable'')
              (bindE (stored_id (ne_pg env) (hq_id r)) (\<lambda>i.
                 JobForNodeWithCapability nodeID i (requestCapability r nodeID (ne_now env) ls) d))) (\<lambda>job.
     Inr (Sent 200 job, d))))"

definition job_error :: "string \<Rightarrow> string \<Rightarrow> string \<Rightarrow> err \<Rightarrow> refusal" where
  "job_error gone refusal down e = (case e of
      NoRows \<Rightarrow> HttpError 404 gone
    | ErrJobConflict _ \<Rightarrow> HttpError 409 refusal
    | _ \<Rightarrow> HttpError 503 down)"

definition nodePrepareJob :: "node_env \<Rightarrow> http_request \<Rightarrow> PrepareCreateRequest body \<Rightarrow> capabilityLeases \<Rightarrow> db \<Rightarrow> FrozenCreate reply \<times> db" where
  "nodePrepareJob env r b ls d = answer d (
     bindE (authenticatedNode r d) (\<lambda>nodeID.
     bindE (authorizeJob env r nodeID (hq_id r) ls d) (\<lambda>j.
     bindE (given (HttpError 400 ''invalid prepare JSON'') (decodeNodeJSON (ne_unicode env) b)) (\<lambda>p.
     bindE (on_error (job_error ''job not found'' ''prepare conflict'' ''prepare unavailable'')
              (prepareCreate nodeID j (pc_Template p) (pc_Port p) (pc_ManifestAlgorithm p) (pc_Fingerprint p) (ne_now env) d)) (\<lambda>(e, d).
     Inr (Sent 200 (frozen_of e), d))))))"

definition nodeOperationStart :: "node_env \<Rightarrow> http_request \<Rightarrow> OperationStartRequest body \<Rightarrow> capabilityLeases \<Rightarrow> db \<Rightarrow> Job reply \<times> db" where
  "nodeOperationStart env r b ls d = answer d (
     bindE (authenticatedNode r d) (\<lambda>nodeID.
     bindE (authorizeJob env r nodeID (hq_id r) ls d) (\<lambda>j.
     rejectE (\<not> requestHasCapability r nodeID RequiredContentValidationV102 (ne_now env) ls)
       (HttpError 403 ''capability required'') (
     bindE (given (HttpError 400 ''invalid operation start'') (decodeNodeJSON (ne_unicode env) b)) (\<lambda>p.
     bindE (on_error (\<lambda>_. HttpError 400 ''invalid operation start'') (OperationStartRequest_Validate p)) (\<lambda>_.
     bindE (on_error (job_error ''not found'' ''operation start conflict'' ''operation start unavailable'')
              (BeginOperation nodeID j p (ne_newRequest env) (ne_newJob env) (ne_now env) d)) (\<lambda>(job, d).
     Inr (Sent 200 job, d))))))))"

definition nodeReportJob :: "node_env \<Rightarrow> http_request \<Rightarrow> ReportRequest body \<Rightarrow> capabilityLeases \<Rightarrow> db \<Rightarrow> Job reply \<times> db" where
  "nodeReportJob env r b ls d = answer d (
     bindE (authenticatedNode r d) (\<lambda>nodeID.
     bindE (authorizeJob env r nodeID (hq_id r) ls d) (\<lambda>j.
     bindE (given (HttpError 400 ''invalid report JSON'') (decodeNodeJSON (ne_unicode env) b)) (\<lambda>p.
     bindE (on_error (\<lambda>_. HttpError 400 ''invalid report'') (ReportRequest_Validate p)) (\<lambda>_.
     bindE (on_error (job_error ''job not found'' ''report conflict'' ''report unavailable'')
              (ReportJob nodeID j p (ne_newRequest env) (ne_newJob env) (ne_now env) d)) (\<lambda>(job, d).
     Inr (Sent 200 job, d)))))))"

end
