(* ===== verification/NodeSafety.thy ===== *)
theory NodeSafety
  imports NodeApi NodeFacts Guarantees
begin

text \<open>
  The node API as a whole: the routes that \<open>NewHandler\<close> registers under the node contract, each as one
  request on the leases and the database, and what holds of every request.
\<close>

section \<open>Routes\<close>

datatype node_call =
    NHeartbeat "Heartbeat body"
  | NSession "CapabilitySessionRequest body"
  | NCheckSession
  | NInventory "InventoryReport body"
  | NReconcileComplete "int body"
  | NActiveAllocations
  | NInstanceFact "InstanceFact body"
  | NOpenJobs
  | NClaimJob
  | NGetJob
  | NPrepareJob "PrepareCreateRequest body"
  | NOperationStart "OperationStartRequest body"
  | NReportJob "ReportRequest body"

datatype node_view =
    ViewUnit
  | ViewHeartbeat HeartbeatResult
  | ViewSession CapabilitySession
  | ViewSnapshot snapshot_row
  | ViewAllocations "ActiveAllocation list"
  | ViewJobs "Job list"
  | ViewFrozen FrozenCreate

definition on_db :: "('a \<Rightarrow> node_view) \<Rightarrow> capabilityLeases \<Rightarrow> 'a reply \<times> db \<Rightarrow> node_view reply \<times> capabilityLeases \<times> db" where
  "on_db view ls out = (map_reply view (fst out), ls, snd out)"

definition view_unit :: "unit \<Rightarrow> node_view" where "view_unit u = ViewUnit"
definition view_job :: "Job \<Rightarrow> node_view" where "view_job j = ViewJobs [j]"

fun serve_node :: "node_env \<Rightarrow> http_request \<Rightarrow> node_call \<Rightarrow> capabilityLeases \<Rightarrow> db \<Rightarrow> node_view reply \<times> capabilityLeases \<times> db" where
  "serve_node env r (NHeartbeat b) ls d = on_db ViewHeartbeat ls (nodeHeartbeat env r b d)"
| "serve_node env r (NSession b) ls d =
     (let (rep, ls') = nodeCapabilitySession env r b d ls in (map_reply ViewSession rep, ls', d))"
| "serve_node env r NCheckSession ls d = on_db view_unit ls (nodeCheckSession env r ls d)"
| "serve_node env r (NInventory b) ls d = on_db ViewSnapshot ls (nodeInventory env r b ls d)"
| "serve_node env r (NReconcileComplete b) ls d = on_db view_unit ls (nodeReconcileComplete env r b d)"
| "serve_node env r NActiveAllocations ls d = on_db ViewAllocations ls (nodeActiveAllocations env r ls d)"
| "serve_node env r (NInstanceFact b) ls d = on_db view_unit ls (nodeInstanceFact env r b ls d)"
| "serve_node env r NOpenJobs ls d = on_db ViewJobs ls (nodeOpenJobs env r ls d)"
| "serve_node env r NClaimJob ls d = on_db view_job ls (nodeClaimJob env r ls d)"
| "serve_node env r NGetJob ls d = on_db view_job ls (nodeGetJob env r ls d)"
| "serve_node env r (NPrepareJob b) ls d = on_db ViewFrozen ls (nodePrepareJob env r b ls d)"
| "serve_node env r (NOperationStart b) ls d = on_db view_job ls (nodeOperationStart env r b ls d)"
| "serve_node env r (NReportJob b) ls d = on_db view_job ls (nodeReportJob env r b ls d)"

section \<open>Authority\<close>

definition from_node :: "http_request \<Rightarrow> db \<Rightarrow> bool" where
  "from_node r d \<longleftrightarrow> nodeIDPattern (hq_NodeID r)
     \<and> (\<exists>secret. bearer (hq_Authorization r) = Some secret \<and> AuthenticateNode (uuid_value (hq_NodeID r)) secret d = Inr ())"

definition caller :: "http_request \<Rightarrow> uuid" where
  "caller r = uuid_value (hq_NodeID r)"

text \<open>The request carries the node's live lease, or the job needs no lease.\<close>

definition may_act :: "node_env \<Rightarrow> http_request \<Rightarrow> capabilityLeases \<Rightarrow> job_row \<Rightarrow> bool" where
  "may_act env r ls j \<longleftrightarrow> jb_node j = caller r \<and> (jb_capability j = LegacyV1
     \<or> validLocked (caller r) (hq_Session r) CapabilityContentValidationV102 (ne_now env) ls)"

definition jobs_shown :: "node_view reply \<Rightarrow> Job list" where
  "jobs_shown rep = (case rep of Sent _ (ViewJobs js) \<Rightarrow> js | _ \<Rightarrow> [])"

fun names_job :: "node_call \<Rightarrow> bool" where
  "names_job (NPrepareJob b) = True"
| "names_job (NOperationStart b) = True"
| "names_job (NReportJob b) = True"
| "names_job c = False"

lemma jobs_shown_simps [simp]:
  "jobs_shown (Refused f) = []" "jobs_shown NoContent = []"
  "jobs_shown (Sent n (ViewJobs js)) = js" "jobs_shown (Sent n ViewUnit) = []" "jobs_shown (Sent n (ViewHeartbeat h)) = []"
  "jobs_shown (Sent n (ViewSession x)) = []" "jobs_shown (Sent n (ViewSnapshot y)) = []"
  "jobs_shown (Sent n (ViewAllocations z)) = []" "jobs_shown (Sent n (ViewFrozen e)) = []"
  by (simp_all add: jobs_shown_def)

lemma authenticatedNode_Inr [result_simps]: "authenticatedNode r d = Inr n \<longleftrightarrow> from_node r d \<and> n = caller r"
proof (cases "bearer (hq_Authorization r)")
  case (Some secret)
  have "AuthenticateNode n [] d \<noteq> Inr x" for n x
    by (simp add: AuthenticateNode_def TokenHash_def b64_decode_def TokenBytes_def)
  then show ?thesis using Some
    by (auto simp: authenticatedNode_def from_node_def caller_def bindE_Inr rejectE_Inr on_error_Inr)
qed (simp add: authenticatedNode_def from_node_def)

lemma has_capability:
  "requestHasCapability r (caller r) (capability_text (jb_capability j)) (ne_now env) ls
     \<longleftrightarrow> (jb_capability j = LegacyV1 \<or> validLocked (caller r) (hq_Session r) CapabilityContentValidationV102 (ne_now env) ls)"
  by (cases "jb_capability j") (simp_all add: requestHasCapability_def requestHasNodeCapability_def RequiredContentValidationV102_def)

lemma admits_may_act:
  "admits (requestCapability r (caller r) (ne_now env) ls) j \<Longrightarrow> jb_node j = caller r \<Longrightarrow> may_act env r ls j"
  by (cases "jb_capability j")
    (auto simp: admits_def requestCapability_def requestHasCapability_def requestHasNodeCapability_def may_act_def
      RequiredContentValidationV102_def split: if_splits)

lemma authorizeJob_Inr:
  assumes "authorizeJob env r (caller r) t ls d = Inr i"
  obtains j where "j \<in> set (jobs d)" "jb_id j = i" "ne_pg env t = Some i" "may_act env r ls j"
proof -
  obtain j where j: "fetch (\<lambda>j. jb_node j = caller r \<and> jb_id j = i) (jobs d) = Inr j" "ne_pg env t = Some i"
    "requestHasCapability r (caller r) (capability_text (jb_capability j)) (ne_now env) ls"
    using assms by (auto simp: authorizeJob_def bindE_Inr on_error_Inr rejectE_Inr stored_id_Inr RequiredCapabilityForJob_def)
  have "may_act env r ls j" using fetch_InrD [OF j(1)] j(3) by (simp add: may_act_def has_capability)
  then show ?thesis using fetch_InrD [OF j(1)] j(2) that by blast
qed

section \<open>One request\<close>

text \<open>What the jobs shown in a reply are, and the job a call names.\<close>

definition shows_own :: "node_env \<Rightarrow> http_request \<Rightarrow> capabilityLeases \<Rightarrow> db \<Rightarrow> node_view reply \<Rightarrow> bool" where
  "shows_own env r ls d rep \<longleftrightarrow> (\<forall>x \<in> set (jobs_shown rep). \<exists>j \<in> set (jobs d). x = scanJob d j \<and> may_act env r ls j)"

definition job_allowed :: "node_env \<Rightarrow> http_request \<Rightarrow> capabilityLeases \<Rightarrow> db \<Rightarrow> bool" where
  "job_allowed env r ls d \<longleftrightarrow> (\<exists>j \<in> set (jobs d). ne_pg env (hq_id r) = Some (jb_id j) \<and> may_act env r ls j)"

definition served_well ::
    "node_env \<Rightarrow> http_request \<Rightarrow> node_call \<Rightarrow> capabilityLeases \<Rightarrow> db \<Rightarrow> node_view reply \<Rightarrow> db \<Rightarrow> bool" where
  "served_well env r c ls d rep d' \<longleftrightarrow> \<not> refused rep \<and> store_step d d' \<and> shows_own env r ls d' rep
     \<and> (names_job c \<longrightarrow> job_allowed env r ls d)"

definition route_ok ::
    "node_env \<Rightarrow> http_request \<Rightarrow> node_call \<Rightarrow> capabilityLeases \<Rightarrow> db \<Rightarrow> node_view reply \<Rightarrow> capabilityLeases \<Rightarrow> db \<Rightarrow> bool" where
  "route_ok env r c ls d rep ls' d' \<longleftrightarrow> ls' = ls \<and> (\<not> from_node r d \<longrightarrow> refused rep)
     \<and> (if refused rep then d' = d else served_well env r c ls d rep d')"

text \<open>Every handler on the database starts by authenticating the node and then serves well.\<close>

lemma on_db_cases:
  assumes "on_db view ls (answer d (bindE (authenticatedNode r d) k)) = (rep, ls', d')"
    and served: "\<And>rep' d'. k (caller r) = Inr (rep', d') \<Longrightarrow> served_well env r c ls d (map_reply view rep') d'"
  shows "route_ok env r c ls d rep ls' d'"
proof -
  obtain rep0 where rep0: "answer d (bindE (authenticatedNode r d) k) = (rep0, d')" "rep = map_reply view rep0" "ls' = ls"
    using assms(1) by (cases "answer d (bindE (authenticatedNode r d) k)") (simp add: on_db_def)
  show ?thesis
    using rep0(1)
  proof (cases rule: answer_cases)
    case (stopped f)
    then show ?thesis using rep0 by (simp add: route_ok_def)
  next
    case served
    then have "from_node r d" "k (caller r) = Inr (rep0, d')" by (auto simp: bindE_Inr authenticatedNode_Inr)
    then show ?thesis using assms(2) rep0 by (auto simp: served_well_def route_ok_def)
  qed
qed

lemma quiet: "store_step d d"
  by (rule catalogue) simp

lemma open_jobs_shown:
  assumes "x \<in> set (OpenJobsForNodeWithCapability (caller r) (requestCapability r (caller r) (ne_now env) ls) d)"
  shows "\<exists>j \<in> set (jobs d). x = scanJob d j \<and> may_act env r ls j"
  using assms by (auto simp: OpenJobsForNodeWithCapability_def order_by_def intro!: admits_may_act)

lemma job_shown:
  assumes "JobForNodeWithCapability (caller r) i (requestCapability r (caller r) (ne_now env) ls) d = Inr x"
  shows "\<exists>j \<in> set (jobs d). x = scanJob d j \<and> may_act env r ls j"
proof -
  obtain j where j: "fetch (\<lambda>j. jb_node j = caller r \<and> jb_id j = i
      \<and> admits (requestCapability r (caller r) (ne_now env) ls) j) (jobs d) = Inr j" "x = scanJob d j"
    using assms by (auto simp: JobForNodeWithCapability_def bindE_Inr)
  then show ?thesis using fetch_InrD [OF j(1)] admits_may_act by auto
qed

lemma claim_shown:
  assumes "claimNextJob (caller r) ind (requestCapability r (caller r) (ne_now env) ls) now d = Inr (Some x, d')"
  shows "\<exists>j \<in> set (jobs d'). x = scanJob d' j \<and> may_act env r ls j"
  using assms by (auto simp: claimNextJob_def bindE_Inr split: option.splits intro: job_shown)

text \<open>A job keeps its node and capability through a report, so what is shown afterwards was allowed before.\<close>

lemma reported_shown:
  assumes "reachable d" "store_step d d'" "j \<in> set (jobs d)" "jb_id j = i" "may_act env r ls j"
    and "JobForNodeWithCapability (caller r) i cap d' = Inr x"
  shows "\<exists>k \<in> set (jobs d'). x = scanJob d' k \<and> may_act env r ls k"
proof -
  obtain k where k: "fetch (\<lambda>k. jb_node k = caller r \<and> jb_id k = i \<and> admits cap k) (jobs d') = Inr k" "x = scanJob d' k"
    using assms(6) by (auto simp: JobForNodeWithCapability_def bindE_Inr)
  have "job_evolves j k"
    using job_with_id [OF assms(1) r_into_rtranclp [of store_step, OF assms(2)] assms(3)] fetch_InrD [OF k(1)] assms(4) by auto
  then have "may_act env r ls k" using assms(5) by (simp add: may_act_def job_evolves_def job_identity_def)
  then show ?thesis using fetch_InrD [OF k(1)] k(2) by blast
qed

section \<open>Each route serves well\<close>

lemma serve_heartbeat:
  assumes "serve_node env r (NHeartbeat b) ls d = (rep, ls', d')"
  shows "route_ok env r (NHeartbeat b) ls d rep ls' d'"
  using assms unfolding serve_node.simps nodeHeartbeat_def
  by (rule on_db_cases)
    (auto simp: bindE_Inr on_error_Inr given_Inr served_well_def shows_own_def intro!: catalogue heartbeat_core)

lemma serve_check:
  assumes "serve_node env r NCheckSession ls d = (rep, ls', d')"
  shows "route_ok env r NCheckSession ls d rep ls' d'"
  using assms unfolding serve_node.simps nodeCheckSession_def
  by (rule on_db_cases) (auto simp: rejectE_Inr served_well_def shows_own_def intro: quiet)

lemma serve_inventory:
  assumes "serve_node env r (NInventory b) ls d = (rep, ls', d')"
  shows "route_ok env r (NInventory b) ls d rep ls' d'"
  using assms unfolding serve_node.simps nodeInventory_def
  by (rule on_db_cases)
    (auto simp: bindE_Inr rejectE_Inr on_error_Inr given_Inr served_well_def shows_own_def intro!: catalogue RecordInventory_core)

lemma serve_reconcile:
  assumes "serve_node env r (NReconcileComplete b) ls d = (rep, ls', d')"
  shows "route_ok env r (NReconcileComplete b) ls d rep ls' d'"
  using assms unfolding serve_node.simps nodeReconcileComplete_def
  by (rule on_db_cases)
    (auto simp: bindE_Inr rejectE_Inr on_error_Inr given_Inr served_well_def shows_own_def view_unit_def intro!: catalogue operator_core(4))

lemma serve_active:
  assumes "serve_node env r NActiveAllocations ls d = (rep, ls', d')"
  shows "route_ok env r NActiveAllocations ls d rep ls' d'"
  using assms unfolding serve_node.simps nodeActiveAllocations_def
  by (rule on_db_cases) (auto simp: served_well_def shows_own_def intro: quiet)

lemma serve_fact:
  assumes "serve_node env r (NInstanceFact b) ls d = (rep, ls', d')"
  shows "route_ok env r (NInstanceFact b) ls d rep ls' d'"
  using assms unfolding serve_node.simps nodeInstanceFact_def
  by (rule on_db_cases)
    (auto simp: bindE_Inr on_error_Inr given_Inr served_well_def shows_own_def view_unit_def intro: observe)

lemma serve_open_jobs:
  assumes "serve_node env r NOpenJobs ls d = (rep, ls', d')"
  shows "route_ok env r NOpenJobs ls d rep ls' d'"
  using assms unfolding serve_node.simps nodeOpenJobs_def
  by (rule on_db_cases) (auto simp: served_well_def shows_own_def intro: quiet open_jobs_shown)

lemma serve_claim:
  assumes "serve_node env r NClaimJob ls d = (rep, ls', d')"
  shows "route_ok env r NClaimJob ls d rep ls' d'"
  using assms unfolding serve_node.simps nodeClaimJob_def
  by (rule on_db_cases)
    (auto simp: bindE_Inr on_error_Inr served_well_def shows_own_def view_job_def split: option.splits
      intro: claim claim_shown)

lemma serve_get:
  assumes "serve_node env r NGetJob ls d = (rep, ls', d')"
  shows "route_ok env r NGetJob ls d rep ls' d'"
  using assms unfolding serve_node.simps nodeGetJob_def
  by (rule on_db_cases)
    (auto simp: bindE_Inr on_error_Inr served_well_def shows_own_def view_job_def intro: quiet job_shown)

lemma allowed_job:
  "authorizeJob env r (caller r) (hq_id r) ls d = Inr i \<Longrightarrow> job_allowed env r ls d"
  by (erule authorizeJob_Inr) (auto simp: job_allowed_def)

lemma serve_prepare:
  assumes "serve_node env r (NPrepareJob b) ls d = (rep, ls', d')"
  shows "route_ok env r (NPrepareJob b) ls d rep ls' d'"
  using assms unfolding serve_node.simps nodePrepareJob_def
  by (rule on_db_cases)
    (auto simp: bindE_Inr on_error_Inr given_Inr served_well_def shows_own_def intro: prepare allowed_job)

lemma commit_shown:
  assumes "reachable d" "authorizeJob env r (caller r) t ls d = Inr i" "store_step d d'"
    and "reportJob (caller r) i p st newReq newJob now d = Inr (x, d')"
  shows "\<exists>k \<in> set (jobs d'). x = scanJob d' k \<and> may_act env r ls k"
proof -
  obtain j where j: "j \<in> set (jobs d)" "jb_id j = i" "may_act env r ls j" using assms(2) by (rule authorizeJob_Inr)
  show ?thesis
    using assms(4) by (auto simp: reportJob_def bindE_Inr intro: reported_shown [OF assms(1,3) j])
qed

lemma serve_start:
  assumes "reachable d" "serve_node env r (NOperationStart b) ls d = (rep, ls', d')"
  shows "route_ok env r (NOperationStart b) ls d rep ls' d'"
  using assms(2) unfolding serve_node.simps nodeOperationStart_def
proof (rule on_db_cases, goal_cases)
  case (1 rep' d')
  then obtain i p x where c: "authorizeJob env r (caller r) (hq_id r) ls d = Inr i" "rep' = Sent 200 x"
    "BeginOperation (caller r) i p (ne_newRequest env) (ne_newJob env) (ne_now env) d = Inr (x, d')"
    by (auto simp: bindE_Inr rejectE_Inr on_error_Inr given_Inr)
  have step: "store_step d d'" by (rule begin_operation [OF c(3)])
  obtain st where "reportJob (caller r) i begin_report (Some st) (ne_newRequest env) (ne_newJob env) (ne_now env) d = Inr (x, d')"
    using c(3) by (auto simp: BeginOperation_def bindE_Inr)
  then show ?case
    using commit_shown [OF assms(1) c(1) step] step allowed_job [OF c(1)] c(2)
    by (simp add: served_well_def shows_own_def view_job_def)
qed

lemma serve_report:
  assumes "reachable d" "serve_node env r (NReportJob b) ls d = (rep, ls', d')"
  shows "route_ok env r (NReportJob b) ls d rep ls' d'"
  using assms(2) unfolding serve_node.simps nodeReportJob_def
proof (rule on_db_cases, goal_cases)
  case (1 rep' d')
  then obtain i p x where c: "authorizeJob env r (caller r) (hq_id r) ls d = Inr i" "rep' = Sent 200 x"
    "ReportJob (caller r) i p (ne_newRequest env) (ne_newJob env) (ne_now env) d = Inr (x, d')"
    by (auto simp: bindE_Inr on_error_Inr given_Inr)
  have step: "store_step d d'" by (rule report [OF c(3)])
  show ?case
    using commit_shown [OF assms(1) c(1) step c(3) [unfolded ReportJob_def]] step allowed_job [OF c(1)] c(2)
    by (simp add: served_well_def shows_own_def view_job_def)
qed

lemma serve_session:
  assumes "serve_node env r (NSession b) ls d = (rep, ls', d')"
  shows "d' = d \<and> (\<not> from_node r d \<longrightarrow> refused rep) \<and> (refused rep \<longrightarrow> ls' = ls) \<and> jobs_shown rep = []"
proof -
  obtain rep0 where rep0: "nodeCapabilitySession env r b d ls = (rep0, ls')" "rep = map_reply ViewSession rep0" "d' = d"
    using assms by (auto split: prod.splits)
  show ?thesis
    using rep0(1) unfolding nodeCapabilitySession_def
  proof (cases rule: answer_cases)
    case (stopped f)
    then show ?thesis using rep0 by simp
  next
    case served
    then show ?thesis using rep0(2,3) by (auto simp: bindE_Inr authenticatedNode_Inr on_error_Inr given_Inr)
  qed
qed

lemmas serve_routes = serve_heartbeat serve_check serve_inventory serve_reconcile serve_active serve_fact
  serve_open_jobs serve_claim serve_get serve_prepare serve_start serve_report

lemma serve_node_routes:
  assumes "reachable d" "serve_node env r c ls d = (rep, ls', d')" "\<not> (\<exists>b. c = NSession b)"
  shows "route_ok env r c ls d rep ls' d'"
  using assms by (cases c) (auto simp del: serve_node.simps intro: serve_routes)

lemma serve_node_step:
  assumes "reachable d" "serve_node env r c ls d = (rep, ls', d')"
  shows "store_step d d'"
proof (cases "\<exists>b. c = NSession b")
  case True
  then show ?thesis using serve_session assms(2) quiet by fastforce
next
  case False
  then show ?thesis using serve_node_routes [OF assms False] by (auto simp: route_ok_def served_well_def quiet split: if_splits)
qed

section \<open>Guarantees\<close>

text \<open>
  C31: Every request to the node API is one sound step of an authorised caller.  On a reachable database a
  request commits at most one operation of the store; a refusal changes nothing; any other reply went to the
  enabled node whose secret the request presents; every job it shows belongs to that node and, when it needs
  validated content, the request carried the node's live lease; and the same holds of the job that a
  prepare, a durable start or a report is about.
\<close>

theorem node_api_guarded:
  assumes "reachable d" "serve_node env r c ls d = (rep, ls', d')"
  shows "store_step d d'
    \<and> (refused rep \<longrightarrow> d' = d \<and> ls' = ls)
    \<and> (\<not> refused rep \<longrightarrow> from_node r d)
    \<and> (\<forall>x \<in> set (jobs_shown rep). \<exists>j \<in> set (jobs d'). x = scanJob d' j \<and> may_act env r ls j)
    \<and> (names_job c \<and> \<not> refused rep \<longrightarrow>
         (\<exists>j \<in> set (jobs d). ne_pg env (hq_id r) = Some (jb_id j) \<and> may_act env r ls j))"
proof (cases "\<exists>b. c = NSession b")
  case True
  then show ?thesis using serve_session assms(2) quiet by fastforce
next
  case False
  have "route_ok env r c ls d rep ls' d'" using assms False by (rule serve_node_routes)
  then show ?thesis
    by (cases rep) (auto simp: route_ok_def served_well_def shows_own_def job_allowed_def quiet split: if_splits)
qed

definition secret_db :: db where
  "secret_db = claimed_db\<lparr>nodes := map (nd_secret_update (\<lambda>_. snd sample_token)) (nodes claimed_db)\<rparr>"

definition own_request :: http_request where
  "own_request = \<lparr>hq_Origin = [], hq_NodeID = uuid_text 5, hq_Authorization = ''Bearer '' @ fst sample_token, hq_Session = [],
     hq_Cookies = [], hq_id = uuid_text 40, hq_Query = [], hq_peer = None, hq_forwarded = []\<rparr>"

definition node_sample_env :: node_env where
  "node_sample_env = \<lparr>ne_now = 1500, ne_newRequest = 60, ne_newJob = 61, ne_secret = None, ne_pg = checked_id, ne_unicode = id\<rparr>"

lemma node_api_guarded_witness:
  "jobs_shown (fst (serve_node node_sample_env own_request NGetJob newCapabilityLeases secret_db)) = [scanJob secret_db claimed_job]
   \<and> may_act node_sample_env own_request newCapabilityLeases claimed_job"
proof -
  have reach: "reachable secret_db"
    by (rule reachable_step [OF reachable_claimed catalogue]) (simp add: secret_db_def core_def business_def)
  have ids: "nodeIDPattern (uuid_text 5)" "uuid_value (uuid_text 5) = 5" "checked_id (uuid_text 40) = Some 40"
    by code_simp+
  have tables: "jobs secret_db = [claimed_job]" "nodes secret_db = [sample_node\<lparr>nd_secret := snd sample_token\<rparr>]"
    by (simp_all add: secret_db_def claimed_db_def reserved_db_def sample_db_def)
  have auth: "AuthenticateNode 5 (fst sample_token) secret_db = Inr ()"
    by (simp add: AuthenticateNode_def sample_token_hash node_of_def tables sample_node_def)
  have node: "authenticatedNode own_request secret_db = Inr 5"
    by (simp add: authenticatedNode_Inr from_node_def caller_def own_request_def bearer_def ids auth)
  have row: "jb_id claimed_job = 40" "jb_node claimed_job = 5" "jb_capability claimed_job = LegacyV1" by code_simp+
  have heads: "hq_id own_request = uuid_text 40" "hq_Session own_request = []" by (simp_all add: own_request_def)
  have job: "JobForNodeWithCapability 5 40 ''legacy_v1'' secret_db = Inr (scanJob secret_db claimed_job)"
    by (simp add: JobForNodeWithCapability_def fetch_def tables admits_def row)
  obtain rep ls' d' where out: "serve_node node_sample_env own_request NGetJob newCapabilityLeases secret_db = (rep, ls', d')"
    using prod_cases3 by blast
  have shown: "jobs_shown rep = [scanJob secret_db claimed_job]" and d': "d' = secret_db"
    using out by (auto simp: nodeGetJob_def node answer_def on_db_def heads node_sample_env_def stored_id_def ids job
        on_error_def view_job_def requestCapability_def requestHasCapability_def requestHasNodeCapability_def
        validLocked_def newCapabilityLeases_def RequiredContentValidationV102_def)
  then have "may_act node_sample_env own_request newCapabilityLeases claimed_job"
    using node_api_guarded [OF reach out] by (simp add: tables)
  then show ?thesis using out shown by simp
qed

end
