(* ===== verification/PlayerApi.thy ===== *)
theory PlayerApi
  imports Http Scheduler Quarantine Party LoginGate
begin

text \<open>
  What a browser can ask as a player (\<open>internal/platform/httpapi/server.go\<close>, \<open>player.go\<close>, \<open>party.go\<close>):
  anonymous sessions, requests for a server, and parties.  A refusal with JSON is kept with its code; its
  message for the player is presentation only.  The landing page's catalogue is not modelled.
\<close>

section \<open>What a handler draws from its surroundings\<close>

record web_env =
  we_config :: HttpConfig
  we_now :: time
  we_newID :: uuid
  we_otherID :: uuid
  we_raw :: "int list"
  we_unicode :: "string \<Rightarrow> string"

section \<open>Sessions\<close>

text \<open>The display name that goes with an identity is not kept; its read fails only for an unknown user.\<close>

definition writeUserIdentity :: "int \<Rightarrow> uuid \<Rightarrow> db \<Rightarrow> uuid reply" where
  "writeUserIdentity code i d =
     (if i \<in> set (users d) then Sent code i else Refused (HttpError 503 ''session unavailable''))"

definition session_user :: "web_env \<Rightarrow> http_request \<Rightarrow> db \<Rightarrow> uuid option" where
  "session_user env r d = (case Cookie r (userCookieName (we_config env)) of
      None \<Rightarrow> None
    | Some token \<Rightarrow> (case UserForToken token (we_now env) d of Inl _ \<Rightarrow> None | Inr i \<Rightarrow> Some i))"

definition createSession :: "web_env \<Rightarrow> http_request \<Rightarrow> db \<Rightarrow> (uuid reply \<times> set_cookie option) \<times> db" where
  "createSession env r d = (case checkOrigin (we_config env) r of
      Inl f \<Rightarrow> ((Refused f, None), d)
    | Inr _ \<Rightarrow> (case session_user env r d of
          Some i \<Rightarrow> ((writeUserIdentity 200 i d, None), d)
        | None \<Rightarrow> (case CreateUserSession (we_newID env) (we_otherID env) (we_raw env) (we_now env) d of
              Inl _ \<Rightarrow> ((Refused (HttpError 503 ''session unavailable''), None), d)
            | Inr ((i, token), d') \<Rightarrow>
                ((writeUserIdentity 201 i d',
                  Some (setCookie (we_config env) (userCookieName (we_config env)) token (90 * 24 * hour))), d'))))"

definition playerUser :: "web_env \<Rightarrow> http_request \<Rightarrow> db \<Rightarrow> refusal + uuid" where
  "playerUser env r d = given (HttpError 401 ''unauthorized'') (session_user env r d)"

definition me :: "web_env \<Rightarrow> http_request \<Rightarrow> db \<Rightarrow> uuid reply" where
  "me env r d = (case playerUser env r d of Inl f \<Rightarrow> Refused f | Inr i \<Rightarrow> writeUserIdentity 200 i d)"

definition logout :: "web_env \<Rightarrow> http_request \<Rightarrow> db \<Rightarrow> (unit reply \<times> set_cookie option) \<times> db" where
  "logout env r d = (case checkOrigin (we_config env) r of
      Inl f \<Rightarrow> ((Refused f, None), d)
    | Inr _ \<Rightarrow>
        let gone = Some (clearCookie (we_config env) (userCookieName (we_config env))) in
        (case Cookie r (userCookieName (we_config env)) of
          None \<Rightarrow> ((NoContent, gone), d)
        | Some token \<Rightarrow> (case RevokeUserToken token (we_now env) d of
              Inl ErrInvalidCredentials \<Rightarrow> ((NoContent, gone), d)
            | Inl _ \<Rightarrow> ((Refused (HttpError 503 ''logout unavailable''), None), d)
            | Inr d' \<Rightarrow> ((NoContent, gone), d'))))"

section \<open>Asking as a player\<close>

text \<open>Reads need a session; writes need the origin of the platform first.\<close>

definition as_reader :: "web_env \<Rightarrow> http_request \<Rightarrow> db \<Rightarrow> (uuid \<Rightarrow> refusal + 'a reply) \<Rightarrow> 'a reply \<times> db" where
  "as_reader env r d k = answer d (bindE (playerUser env r d) (\<lambda>u. bindE (k u) (\<lambda>rep. Inr (rep, d))))"

definition as_player :: "web_env \<Rightarrow> http_request \<Rightarrow> db \<Rightarrow> (uuid \<Rightarrow> refusal + ('a reply \<times> db)) \<Rightarrow> 'a reply \<times> db" where
  "as_player env r d k = answer d (
     bindE (checkOrigin (we_config env) r) (\<lambda>_. bindE (playerUser env r d) k))"

definition path_id :: "http_request \<Rightarrow> refusal + uuid" where
  "path_id r = given (HttpError 404 ''not found'') (checked_id (hq_id r))"

section \<open>Requests for a server\<close>

record create_body =
  cb_ArcadeGameID :: string
  cb_GamePresetID :: string
  cb_NodeSelectionMode :: string
  cb_ManualNodeID :: string

definition selection_mode :: "string \<Rightarrow> sel_mode" where
  "selection_mode s = (if s = [] \<or> s = ''auto'' then SelAuto else if s = ''manual'' then SelManual else SelOther s)"

definition playerNodes ::
    "(string \<Rightarrow> 'k::linorder) \<Rightarrow> web_env \<Rightarrow> http_request \<Rightarrow> db \<Rightarrow> NodeChoice list reply \<times> db" where
  "playerNodes collate env r d = as_reader env r d (\<lambda>_.
     case (checked_id (QueryGet r ''arcadeGameId''), checked_id (QueryGet r ''gamePresetId'')) of
       (Some game, Some preset) \<Rightarrow>
         bindE (on_error (\<lambda>e. if e = ErrInvalidSelection then HttpError 404 ''game or preset unavailable''
                              else HttpError 503 ''nodes unavailable'')
                  (PlayerNodeChoices collate game preset (we_now env) d)) (\<lambda>ns. Inr (Sent 200 ns))
     | _ \<Rightarrow> Inl (HttpError 400 ''invalid selection''))"

definition create_error :: "err \<Rightarrow> refusal" where
  "create_error e = (case e of
      MaintenanceError _ _ \<Rightarrow> Coded 503 ''maintenance''
    | ErrInvalidSelection \<Rightarrow> HttpError 404 ''game or preset unavailable''
    | ErrInvalidNodeSelection \<Rightarrow> HttpError 400 ''invalid node selection''
    | ErrPartyForbidden \<Rightarrow> Coded 403 ''leader_required''
    | ErrPresetPartyTooLarge \<Rightarrow> Coded 409 ''party_exceeds_preset''
    | _ \<Rightarrow> HttpError 503 ''request unavailable'')"

definition createPlayerRequest :: "web_env \<Rightarrow> http_request \<Rightarrow> create_body body \<Rightarrow> db \<Rightarrow> request_row reply \<times> db" where
  "createPlayerRequest env r b d = as_player env r d (\<lambda>u.
     bindE (given (HttpError 400 ''invalid request'') (decodeJSON (we_unicode env) b)) (\<lambda>input.
     bindE (given (HttpError 400 ''invalid request'') (checked_id (cb_ArcadeGameID input))) (\<lambda>game.
     bindE (given (HttpError 400 ''invalid request'') (checked_id (cb_GamePresetID input))) (\<lambda>preset.
     rejectE (cb_ManualNodeID input \<noteq> [] \<and> \<not> nodeIDPattern (cb_ManualNodeID input)) (HttpError 400 ''invalid node selection'') (
     bindE (on_error create_error (CreateUserRequestSelected u game preset (selection_mode (cb_NodeSelectionMode input))
              (checked_id (cb_ManualNodeID input)) (we_newID env) (we_now env) d)) (\<lambda>(q, created, d').
     Inr (Sent (if created then 201 else 200) q, d')))))))"

text \<open>The three outcomes that the other commands on a request share.\<close>

definition request_error :: "string \<Rightarrow> string \<Rightarrow> err \<Rightarrow> refusal" where
  "request_error code down e = (case e of
      NoRows \<Rightarrow> HttpError 404 ''not found''
    | ErrPartyForbidden \<Rightarrow> Coded 403 ''leader_required''
    | ErrJobConflict _ \<Rightarrow> Coded 409 code
    | _ \<Rightarrow> HttpError 503 down)"

definition cancelPlayerRequest :: "web_env \<Rightarrow> http_request \<Rightarrow> db \<Rightarrow> request_row option reply \<times> db" where
  "cancelPlayerRequest env r d = as_player env r d (\<lambda>u.
     bindE (path_id r) (\<lambda>i.
     bindE (on_error (request_error ''cancel_unsafe'' ''cancel unavailable'') (CancelUserRequest u i (we_now env) d)) (\<lambda>d'.
     Inr (Sent 200 (find (\<lambda>q. rq_id q = i) (requests d')), d'))))"

definition currentPlayerRequest :: "web_env \<Rightarrow> http_request \<Rightarrow> db \<Rightarrow> request_row option reply \<times> db" where
  "currentPlayerRequest env r d = as_reader env r d (\<lambda>u. Inr (Sent 200 (CurrentUserRequest u d)))"

definition read_error :: "string \<Rightarrow> err \<Rightarrow> refusal" where
  "read_error down e = (if e = NoRows then HttpError 404 ''not found'' else HttpError 503 down)"

definition playerRequest :: "web_env \<Rightarrow> http_request \<Rightarrow> db \<Rightarrow> request_row reply \<times> db" where
  "playerRequest env r d = as_reader env r d (\<lambda>u.
     bindE (path_id r) (\<lambda>i.
     bindE (on_error (read_error ''request unavailable'') (UserRequest u i d)) (\<lambda>q. Inr (Sent 200 q))))"

text \<open>A stop in the wrong state is refused in plain text, the other conflicts as JSON.\<close>

definition player_stop_error :: "err \<Rightarrow> refusal" where
  "player_stop_error e = (case e of
      NoRows \<Rightarrow> HttpError 404 ''not found''
    | ErrPartyForbidden \<Rightarrow> Coded 403 ''leader_required''
    | ErrJobConflict _ \<Rightarrow> HttpError 409 ''request cannot be stopped in its current state''
    | _ \<Rightarrow> HttpError 503 ''stop unavailable'')"

definition stopPlayerRequest :: "web_env \<Rightarrow> http_request \<Rightarrow> db \<Rightarrow> request_row reply \<times> db" where
  "stopPlayerRequest env r d = as_player env r d (\<lambda>u.
     bindE (path_id r) (\<lambda>i.
     bindE (on_error player_stop_error (StopUserRequest u i (we_newID env) (we_now env) d)) (\<lambda>(q, d').
     Inr (Sent 200 q, d'))))"

definition abandonPlayerRequest :: "web_env \<Rightarrow> http_request \<Rightarrow> bool body \<Rightarrow> db \<Rightarrow> request_row reply \<times> db" where
  "abandonPlayerRequest env r b d = as_player env r d (\<lambda>u.
     bindE (path_id r) (\<lambda>i.
     rejectE (decodeJSON (we_unicode env) b \<noteq> Some True) (Coded 400 ''confirmation_required'') (
     bindE (on_error (request_error ''not_quarantined'' ''abandon unavailable'')
              (AbandonQuarantinedUserRequest u i (we_newID env) (we_now env) d)) (\<lambda>(q, d').
     Inr (Sent 200 q, d')))))"

definition nextGamePlayerRequest :: "web_env \<Rightarrow> http_request \<Rightarrow> db \<Rightarrow> request_row reply \<times> db" where
  "nextGamePlayerRequest env r d = as_player env r d (\<lambda>u.
     bindE (path_id r) (\<lambda>i.
     bindE (on_error (request_error ''next_game_unavailable'' ''next game unavailable'')
              (NextGameUserRequest u i (we_newID env) (we_now env) d)) (\<lambda>(q, d').
     Inr (Sent 200 q, d'))))"

definition playerNextGameIntent :: "web_env \<Rightarrow> http_request \<Rightarrow> db \<Rightarrow> intent_row option reply \<times> db" where
  "playerNextGameIntent env r d = as_reader env r d (\<lambda>u.
     bindE (path_id r) (\<lambda>i.
     bindE (on_error (read_error ''next game unavailable'') (UserNextGameIntent u i d)) (\<lambda>n. Inr (Sent 200 n))))"

definition playerAllocation :: "web_env \<Rightarrow> http_request \<Rightarrow> db \<Rightarrow> PlayerAllocation option reply \<times> db" where
  "playerAllocation env r d = as_reader env r d (\<lambda>u.
     bindE (path_id r) (\<lambda>i.
     bindE (on_error (read_error ''allocation unavailable'') (UserRequest u i d)) (\<lambda>_.
     Inr (Sent 200 (UserRequestAllocation u i d)))))"

section \<open>Parties\<close>

definition partyError :: "err \<Rightarrow> refusal" where
  "partyError e = (case e of
      ErrAlreadyInParty \<Rightarrow> Coded 409 ''already_in_party''
    | ErrPartyFull \<Rightarrow> Coded 409 ''party_full''
    | ErrPartySizeUnset \<Rightarrow> Coded 503 ''party_size_unset''
    | ErrInvalidInvite \<Rightarrow> Coded 404 ''invalid_invite''
    | ErrPartyBusy \<Rightarrow> Coded 409 ''party_busy''
    | ErrUserBusy \<Rightarrow> Coded 409 ''solo_request_busy''
    | ErrCannotRemoveLeader \<Rightarrow> Coded 409 ''leader_cannot_leave''
    | ErrPartyForbidden \<Rightarrow> Coded 403 ''forbidden''
    | NoRows \<Rightarrow> Coded 403 ''forbidden''
    | _ \<Rightarrow> Coded 503 ''party_unavailable'')"

definition currentParty :: "web_env \<Rightarrow> http_request \<Rightarrow> db \<Rightarrow> PartyView option reply \<times> db" where
  "currentParty env r d = as_reader env r d (\<lambda>u.
     bindE (on_error partyError (CurrentParty u d)) (\<lambda>p. Inr (Sent 200 p)))"

text \<open>The party is read again after the commit; a failure of that read does not undo it.\<close>

definition show_party :: "int \<Rightarrow> uuid \<Rightarrow> db \<Rightarrow> PartyView option reply \<times> db" where
  "show_party code u d = (case CurrentParty u d of Inl e \<Rightarrow> Refused (partyError e) | Inr p \<Rightarrow> Sent code p, d)"

definition createParty :: "web_env \<Rightarrow> http_request \<Rightarrow> db \<Rightarrow> PartyView option reply \<times> db" where
  "createParty env r d = as_player env r d (\<lambda>u.
     bindE (on_error partyError (CreateParty u (we_newID env) (we_otherID env) (we_raw env) (we_now env) d)) (\<lambda>(p, d').
     Inr (show_party 201 u d')))"

definition currentPartyInvite :: "web_env \<Rightarrow> http_request \<Rightarrow> db \<Rightarrow> (uuid \<times> string) reply \<times> db" where
  "currentPartyInvite env r d = as_reader env r d (\<lambda>u.
     bindE (on_error partyError (CurrentInvite u d)) (\<lambda>v. Inr (Sent 200 v)))"

definition resetPartyInvite :: "web_env \<Rightarrow> http_request \<Rightarrow> db \<Rightarrow> (uuid \<times> string) reply \<times> db" where
  "resetPartyInvite env r d = as_player env r d (\<lambda>u.
     bindE (on_error partyError (ResetInvite u (we_newID env) (we_raw env) (we_now env) d)) (\<lambda>(v, d').
     Inr (Sent 200 v, d')))"

definition joinParty :: "web_env \<Rightarrow> http_request \<Rightarrow> string body \<Rightarrow> db \<Rightarrow> PartyView option reply \<times> db" where
  "joinParty env r b d = as_player env r d (\<lambda>u.
     bindE (given (HttpError 400 ''invalid request'') (decodeJSON (we_unicode env) b)) (\<lambda>token.
     bindE (on_error partyError (JoinParty u token (we_now env) d)) (\<lambda>(p, d').
     Inr (show_party 200 u d'))))"

definition leaveParty :: "web_env \<Rightarrow> http_request \<Rightarrow> db \<Rightarrow> unit reply \<times> db" where
  "leaveParty env r d = as_player env r d (\<lambda>u.
     bindE (on_error partyError (LeaveParty u d)) (\<lambda>d'. Inr (NoContent, d')))"

definition removePartyMember :: "web_env \<Rightarrow> http_request \<Rightarrow> db \<Rightarrow> unit reply \<times> db" where
  "removePartyMember env r d = as_player env r d (\<lambda>u.
     bindE (path_id r) (\<lambda>i.
     bindE (on_error partyError (RemovePartyMember u i d)) (\<lambda>d'. Inr (NoContent, d'))))"

definition disbandParty :: "web_env \<Rightarrow> http_request \<Rightarrow> db \<Rightarrow> unit reply \<times> db" where
  "disbandParty env r d = as_player env r d (\<lambda>u.
     bindE (on_error partyError (DisbandParty u (we_now env) d)) (\<lambda>d'. Inr (NoContent, d')))"

end
