(* ===== verification/AdminApi.thy ===== *)
theory AdminApi
  imports PlayerApi Release
begin

text \<open>
  What a browser can ask as an administrator (\<open>internal/platform/httpapi/server.go\<close>, \<open>admin.go\<close>,
  \<open>admin_i3.go\<close>): the login behind its gate, the actions, maintenance, validation and releases.  The
  overview page is not modelled.  Identifiers arrive as text and are checked before the store sees them.
\<close>

section \<open>Login\<close>

text \<open>The address a login is counted under: the peer, or the one address a loopback proxy forwards.\<close>

definition loginClientIP :: "HttpConfig \<Rightarrow> http_request \<Rightarrow> string" where
  "loginClientIP c r = (case hq_peer r of
      None \<Rightarrow> ''invalid-peer''
    | Some (loopback, text) \<Rightarrow>
        if \<not> hc_Development c \<and> loopback
        then (case hq_forwarded r of [Some forwarded] \<Rightarrow> forwarded | _ \<Rightarrow> text)
        else text)"

definition login_key :: "web_env \<Rightarrow> http_request \<Rightarrow> string \<Rightarrow> string" where
  "login_key env r username = loginClientIP (we_config env) r @ '':'' @ admin_name (we_unicode env) username"

text \<open>
  The gate is asked at \<open>we_now\<close> and told at \<open>later\<close>, after the key derivation; \<open>seen\<close> is the database that
  the check of the password reads.
\<close>

definition adminLogin ::
    "web_env \<Rightarrow> id_key \<Rightarrow> http_request \<Rightarrow> (string \<times> string) body \<Rightarrow> time \<Rightarrow> db \<Rightarrow> loginGate \<times> db
      \<Rightarrow> (uuid reply \<times> set_cookie option) \<times> loginGate \<times> db" where
  "adminLogin env IDKey r b later seen st = (case st of (g, d) \<Rightarrow>
     case checkOrigin (we_config env) r of
       Inl f \<Rightarrow> ((Refused f, None), g, d)
     | Inr _ \<Rightarrow> (case decodeJSON (we_unicode env) b of
           None \<Rightarrow> ((Refused (HttpError 400 ''invalid request''), None), g, d)
         | Some (username, password) \<Rightarrow>
             let key = login_key env r username; (allowed, g) = Allowed key (we_now env) g in
             if \<not> allowed then ((Refused (HttpError 429 ''login temporarily limited''), None), g, d)
             else (case LoginAdminRotating (we_unicode env) IDKey username password
                     (coalesce (Cookie r (adminCookieName (we_config env))) []) (we_newID env) (we_raw env) later seen d of
                 Inl ErrInvalidCredentials \<Rightarrow> ((Refused (HttpError 401 ''invalid credentials''), None), Failed key later g, d)
               | Inl _ \<Rightarrow> ((Refused (HttpError 503 ''login unavailable''), None), g, d)
               | Inr ((i, token), d') \<Rightarrow>
                   ((Sent 200 i, Some (setCookie (we_config env) (adminCookieName (we_config env)) token (12 * hour))),
                    Succeeded key g, d'))))"

section \<open>Asking as an administrator\<close>

definition authenticatedAdmin :: "web_env \<Rightarrow> http_request \<Rightarrow> db \<Rightarrow> refusal + uuid" where
  "authenticatedAdmin env r d = (case Cookie r (adminCookieName (we_config env)) of
      None \<Rightarrow> Inl (HttpError 401 ''unauthorized'')
    | Some token \<Rightarrow> on_error (\<lambda>_. HttpError 401 ''unauthorized'') (AdminForToken token (we_now env) d))"

definition adminMe :: "web_env \<Rightarrow> http_request \<Rightarrow> db \<Rightarrow> uuid reply" where
  "adminMe env r d = (case authenticatedAdmin env r d of Inl f \<Rightarrow> Refused f | Inr i \<Rightarrow> Sent 200 i)"

definition adminLogout :: "web_env \<Rightarrow> http_request \<Rightarrow> db \<Rightarrow> (unit reply \<times> set_cookie option) \<times> db" where
  "adminLogout env r d = (case checkOrigin (we_config env) r of
      Inl f \<Rightarrow> ((Refused f, None), d)
    | Inr _ \<Rightarrow>
        let gone = Some (clearCookie (we_config env) (adminCookieName (we_config env))) in
        (case Cookie r (adminCookieName (we_config env)) of
          None \<Rightarrow> ((NoContent, gone), d)
        | Some token \<Rightarrow> (case RevokeAdminToken token (we_now env) d of
              Inl ErrInvalidCredentials \<Rightarrow> ((NoContent, gone), d)
            | Inl _ \<Rightarrow> ((Refused (HttpError 503 ''logout unavailable''), None), d)
            | Inr d' \<Rightarrow> ((NoContent, gone), d'))))"

definition admin_reads :: "web_env \<Rightarrow> http_request \<Rightarrow> db \<Rightarrow> (uuid \<Rightarrow> refusal + 'a reply) \<Rightarrow> 'a reply \<times> db" where
  "admin_reads env r d k = answer d (bindE (authenticatedAdmin env r d) (\<lambda>a. bindE (k a) (\<lambda>rep. Inr (rep, d))))"

definition admin_acts :: "web_env \<Rightarrow> http_request \<Rightarrow> db \<Rightarrow> (uuid \<Rightarrow> refusal + ('a reply \<times> db)) \<Rightarrow> 'a reply \<times> db" where
  "admin_acts env r d k = answer d (
     bindE (checkOrigin (we_config env) r) (\<lambda>_. bindE (authenticatedAdmin env r d) k))"

section \<open>Errors of the store\<close>

definition i3Error :: "err \<Rightarrow> refusal" where
  "i3Error e = (case e of
      ErrInvalidAdminAction \<Rightarrow> Coded 400 ''INVALID_ACTION''
    | ErrCASConflict \<Rightarrow> Coded 409 ''CAS_CONFLICT''
    | ErrValidationIncomplete \<Rightarrow> Coded 409 ''VALIDATION_INCOMPLETE''
    | ErrScopedResourcesActive \<Rightarrow> Coded 409 ''SCOPED_RESOURCES_ACTIVE''
    | ErrCapacityFull \<Rightarrow> Coded 409 ''CAPACITY_FULL''
    | ErrContentFactMismatch \<Rightarrow> Coded 409 ''CONTENT_FACT_MISMATCH''
    | ErrTemplateFactMismatch \<Rightarrow> Coded 409 ''TEMPLATE_FACT_MISMATCH''
    | ErrInventoryUnknown \<Rightarrow> Coded 409 ''INVENTORY_UNKNOWN''
    | ErrUnaccountedInstance \<Rightarrow> Coded 409 ''UNACCOUNTED_INSTANCE''
    | ErrJobConflict _ \<Rightarrow> Coded 409 ''ACTION_CONFLICT''
    | NoRows \<Rightarrow> Coded 404 ''NOT_FOUND''
    | ErrInvalidCredentials \<Rightarrow> Coded 401 ''UNAUTHORIZED''
    | _ \<Rightarrow> Coded 503 ''ACTION_UNAVAILABLE'')"

definition action_error :: "err \<Rightarrow> refusal" where
  "action_error e = (case e of
      ErrInvalidAdminAction \<Rightarrow> Coded 400 ''invalid_action''
    | ErrInvalidDesiredCapacity \<Rightarrow> Coded 409 ''action_conflict''
    | ErrJobConflict _ \<Rightarrow> Coded 409 ''action_conflict''
    | NoRows \<Rightarrow> HttpError 404 ''target not found''
    | ErrInvalidCredentials \<Rightarrow> HttpError 401 ''unauthorized''
    | ErrCASConflict \<Rightarrow> i3Error e
    | ErrValidationIncomplete \<Rightarrow> i3Error e
    | ErrScopedResourcesActive \<Rightarrow> i3Error e
    | ErrCapacityFull \<Rightarrow> i3Error e
    | ErrContentFactMismatch \<Rightarrow> i3Error e
    | ErrTemplateFactMismatch \<Rightarrow> i3Error e
    | ErrInventoryUnknown \<Rightarrow> i3Error e
    | ErrUnaccountedInstance \<Rightarrow> i3Error e
    | _ \<Rightarrow> HttpError 503 ''action unavailable'')"

definition invalid_action :: refusal where
  "invalid_action = Coded 400 ''INVALID_ACTION''"

section \<open>Actions\<close>

text \<open>An action arrives with its two identifiers in text; \<open>at_action\<close> holds its other fields.\<close>

record action_text =
  at_TargetID :: string
  at_GameID :: string
  at_action :: AdminAction

definition action_of :: "action_text \<Rightarrow> AdminAction" where
  "action_of t = (at_action t)\<lparr>act_TargetID := checked_id (at_TargetID t), act_GameID := checked_id (at_GameID t)\<rparr>"

definition adminAction :: "web_env \<Rightarrow> http_request \<Rightarrow> action_text body \<Rightarrow> db \<Rightarrow> unit reply \<times> db" where
  "adminAction env r b d = admin_acts env r d (\<lambda>admin.
     bindE (given (HttpError 400 ''invalid action JSON'') (decodeJSON (we_unicode env) b)) (\<lambda>t.
     rejectE (at_TargetID t \<noteq> [] \<and> \<not> nodeIDPattern (at_TargetID t)) (Coded 400 ''invalid_target'') (
     rejectE (at_GameID t \<noteq> [] \<and> \<not> nodeIDPattern (at_GameID t)) (Coded 400 ''invalid_game'') (
     bindE (on_error action_error (ApplyAdminAction admin (action_of t) (we_newID env) (we_now env) d)) (\<lambda>d'.
     Inr (Sent 200 (), d'))))))"

section \<open>Maintenance\<close>

record maintenance_body =
  mb_NodeID :: string
  mb_GameID :: string
  mb_ExpectedMaintenanceEpoch :: int
  mb_RequestID :: string
  mb_Reason :: string

definition adminMaintenanceBegin :: "web_env \<Rightarrow> http_request \<Rightarrow> maintenance_body body \<Rightarrow> db \<Rightarrow> int reply \<times> db" where
  "adminMaintenanceBegin env r b d = admin_acts env r d (\<lambda>admin.
     bindE (given invalid_action (decodeJSON (we_unicode env) b)) (\<lambda>m.
     bindE (given invalid_action (checked_id (mb_NodeID m))) (\<lambda>node.
     bindE (given invalid_action (checked_id (mb_GameID m))) (\<lambda>game.
     rejectE (mb_RequestID m = []) invalid_action (
     bindE (on_error i3Error (BeginScopedMaintenance node game admin (mb_RequestID m) (mb_Reason m)
              (mb_ExpectedMaintenanceEpoch m) d)) (\<lambda>(epoch, d').
     Inr (Sent 200 epoch, d')))))))"

definition adminMaintenanceStatus :: "web_env \<Rightarrow> http_request \<Rightarrow> db \<Rightarrow> MaintenanceStatus reply \<times> db" where
  "adminMaintenanceStatus env r d = admin_reads env r d (\<lambda>_.
     bindE (given invalid_action (checked_id (QueryGet r ''nodeId''))) (\<lambda>node.
     bindE (given invalid_action (checked_id (QueryGet r ''gameId''))) (\<lambda>game.
     bindE (on_error i3Error (ScopedMaintenanceStatus node game d)) (\<lambda>s. Inr (Sent 200 s)))))"

section \<open>Validation\<close>

text \<open>\<open>vs_candidate\<close> holds the fields of a start that are not identifiers.\<close>

record start_body =
  vs_NodeID :: string
  vs_GameID :: string
  vs_PresetID :: string
  vs_candidate :: ValidationCandidate

definition adminValidationStart :: "web_env \<Rightarrow> uuid \<Rightarrow> http_request \<Rightarrow> start_body body \<Rightarrow> db \<Rightarrow> uuid reply \<times> db" where
  "adminValidationStart env newJob r b d = admin_acts env r d (\<lambda>admin.
     bindE (given invalid_action (decodeJSON (we_unicode env) b)) (\<lambda>v.
     bindE (given invalid_action (checked_id (vs_NodeID v))) (\<lambda>node.
     bindE (given invalid_action (checked_id (vs_GameID v))) (\<lambda>game.
     bindE (given invalid_action (checked_id (vs_PresetID v))) (\<lambda>preset.
     rejectE (vc_RequestID (vs_candidate v) = []) invalid_action (
     bindE (on_error i3Error (ReserveValidation ((vs_candidate v)\<lparr>vc_NodeID := node, vc_GameID := game, vc_PresetID := preset,
              vc_AdminID := admin\<rparr>) (we_newID env) (we_otherID env) newJob (we_now env) d)) (\<lambda>(run, d').
     Inr (Sent 200 run, d'))))))))"

definition run_states :: "(string \<times> run_state) list" where
  "run_states = [(''create_pending'', VCreatePending), (''create_observing'', VCreateObserving),
     (''create_unknown'', VCreateUnknown), (''ready_no_join'', VReadyNoJoin), (''awaiting_human'', VAwaitingHuman),
     (''cleanup_required'', VCleanupRequired), (''stop_pending'', VStopPending), (''reclaim_observing'', VReclaimObserving),
     (''stop_unknown'', VStopUnknown), (''quarantined'', VQuarantined), (''passed'', VPassed), (''failed'', VFailed)]"

text \<open>The store compares the text with the run's state; a text that names no state differs from it.\<close>

definition expected_state :: "string \<Rightarrow> uuid \<Rightarrow> db \<Rightarrow> run_state" where
  "expected_state t i d = (case map_of run_states t of
      Some s \<Rightarrow> s
    | None \<Rightarrow> if exists_where (\<lambda>v. vr_id v = i \<and> vr_state v = VPassed) (runs d) then VFailed else VPassed)"

definition human_text :: "string \<Rightarrow> human_result" where
  "human_text t = (if t = ''pass'' then HPass else if t = ''fail'' then HFail else HPending)"

record confirm_body =
  vb_Result :: string
  vb_Confirmed :: bool
  vb_ExpectedRunState :: string

definition adminValidationConfirm :: "web_env \<Rightarrow> http_request \<Rightarrow> confirm_body body \<Rightarrow> db \<Rightarrow> uuid reply \<times> db" where
  "adminValidationConfirm env r b d = admin_acts env r d (\<lambda>admin.
     bindE (given invalid_action (checked_id (hq_id r))) (\<lambda>i.
     bindE (given invalid_action (decodeJSON (we_unicode env) b)) (\<lambda>v.
     rejectE (\<not> vb_Confirmed v \<or> vb_ExpectedRunState v = []) invalid_action (
     bindE (on_error i3Error (ConfirmValidationHuman i admin (human_text (vb_Result v))
              (Some (expected_state (vb_ExpectedRunState v) i d)) (we_newID env) (we_now env) d)) (\<lambda>d'.
     Inr (Sent 200 i, d'))))))"

definition adminValidationStop :: "web_env \<Rightarrow> http_request \<Rightarrow> string body \<Rightarrow> db \<Rightarrow> uuid reply \<times> db" where
  "adminValidationStop env r b d = admin_acts env r d (\<lambda>admin.
     bindE (given invalid_action (checked_id (hq_id r))) (\<lambda>i.
     bindE (given invalid_action (decodeJSON (we_unicode env) b)) (\<lambda>expected.
     rejectE (expected = []) invalid_action (
     bindE (on_error i3Error (StopValidation i admin (Some (expected_state expected i d)) (we_newID env) (we_now env) d)) (\<lambda>d'.
     Inr (Sent 200 i, d'))))))"

definition adminValidationDetail :: "web_env \<Rightarrow> http_request \<Rightarrow> db \<Rightarrow> ValidationDetail reply \<times> db" where
  "adminValidationDetail env r d = admin_reads env r d (\<lambda>_.
     bindE (given invalid_action (checked_id (hq_id r))) (\<lambda>i.
     bindE (on_error i3Error (ValidationDetail i (we_now env) d)) (\<lambda>v. Inr (Sent 200 v))))"

section \<open>Releases\<close>

record plan_text =
  pt_PresetID :: string
  pt_ValidationRunID :: string
  pt_plan :: ReleasePresetPlan

record release_text =
  rt_GameID :: string
  rt_RollbackOfReleaseID :: string
  rt_Presets :: "plan_text list"
  rt_request :: ReleasePublishRequest

text \<open>An identifier that may be left out.\<close>

definition optional_ok :: "string \<Rightarrow> bool" where
  "optional_ok t \<longleftrightarrow> t = [] \<or> nodeIDPattern t"

definition plan_of :: "plan_text \<Rightarrow> ReleasePresetPlan" where
  "plan_of t = (pt_plan t)\<lparr>rpp_PresetID := uuid_value (pt_PresetID t), rpp_ValidationRunID := checked_id (pt_ValidationRunID t)\<rparr>"

definition release_of :: "release_text \<Rightarrow> ReleasePublishRequest" where
  "release_of t = (rt_request t)\<lparr>rpr_GameID := checked_id (rt_GameID t), rpr_RollbackOf := checked_id (rt_RollbackOfReleaseID t),
     rpr_Presets := map plan_of (rt_Presets t)\<rparr>"

definition adminReleasePublish :: "web_env \<Rightarrow> http_request \<Rightarrow> release_text body \<Rightarrow> db \<Rightarrow> uuid reply \<times> db" where
  "adminReleasePublish env r b d = admin_acts env r d (\<lambda>admin.
     bindE (given invalid_action (decodeJSON (we_unicode env) b)) (\<lambda>t.
     rejectE (\<not> nodeIDPattern (rt_GameID t) \<or> \<not> optional_ok (rt_RollbackOfReleaseID t)) invalid_action (
     rejectE (list_ex (\<lambda>p. \<not> nodeIDPattern (pt_PresetID p) \<or> \<not> optional_ok (pt_ValidationRunID p)) (rt_Presets t))
       invalid_action (
     bindE (on_error i3Error (PublishRelease admin (release_of t) (we_newID env) (we_now env) d)) (\<lambda>(i, d').
     Inr (Sent 200 i, d'))))))"

definition adminReleaseDetail :: "web_env \<Rightarrow> http_request \<Rightarrow> db \<Rightarrow> ReleaseRecord reply \<times> db" where
  "adminReleaseDetail env r d = admin_reads env r d (\<lambda>_.
     bindE (given invalid_action (checked_id (hq_id r))) (\<lambda>i.
     bindE (on_error i3Error (ReleaseDetail i d)) (\<lambda>l. Inr (Sent 200 l))))"

end
