(* ===== verification/BrowserSafety.thy ===== *)
theory BrowserSafety
  imports AdminApi PartyLife
begin

text \<open>
  The browser's API as a whole: the routes that \<open>NewHandler\<close> registers for players and administrators,
  each as one request on the login gate and the database, and what holds of every request.
\<close>

section \<open>Routes\<close>

datatype web_call =
    WCreateSession | WMe | WLogout
  | WNodes | WCreateRequest "create_body body" | WCurrentRequest | WRequest | WStop | WNextGame | WNextGameIntent
  | WAbandon "bool body" | WCancel | WAllocation
  | WParty | WCreateParty | WInvite | WResetInvite | WJoin "string body" | WLeave | WRemove | WDisband
  | WLogin "(string \<times> string) body" time db | WAdminMe | WAdminLogout
  | WAction "action_text body" | WMaintenanceBegin "maintenance_body body" | WMaintenanceStatus
  | WValidationStart "start_body body" uuid | WConfirm "confirm_body body" | WValidationStop "string body" | WValidationDetail
  | WPublish "release_text body" | WRelease

definition shown :: "loginGate \<Rightarrow> 'a reply \<times> db \<Rightarrow> unit reply \<times> loginGate \<times> db" where
  "shown g out = (map_reply (\<lambda>_. ()) (fst out), g, snd out)"

fun serve_web ::
    "(string \<Rightarrow> 'k::linorder) \<Rightarrow> id_key \<Rightarrow> web_env \<Rightarrow> http_request \<Rightarrow> web_call \<Rightarrow> loginGate \<Rightarrow> db \<Rightarrow> unit reply \<times> loginGate \<times> db" where
  "serve_web collate key env r WCreateSession g d = (let ((rep, _), d') = createSession env r d in shown g (rep, d'))"
| "serve_web collate key env r WMe g d = shown g (me env r d, d)"
| "serve_web collate key env r WLogout g d = (let ((rep, _), d') = logout env r d in shown g (rep, d'))"
| "serve_web collate key env r WNodes g d = shown g (playerNodes collate env r d)"
| "serve_web collate key env r (WCreateRequest b) g d = shown g (createPlayerRequest env r b d)"
| "serve_web collate key env r WCurrentRequest g d = shown g (currentPlayerRequest env r d)"
| "serve_web collate key env r WRequest g d = shown g (playerRequest env r d)"
| "serve_web collate key env r WStop g d = shown g (stopPlayerRequest env r d)"
| "serve_web collate key env r WNextGame g d = shown g (nextGamePlayerRequest env r d)"
| "serve_web collate key env r WNextGameIntent g d = shown g (playerNextGameIntent env r d)"
| "serve_web collate key env r (WAbandon b) g d = shown g (abandonPlayerRequest env r b d)"
| "serve_web collate key env r WCancel g d = shown g (cancelPlayerRequest env r d)"
| "serve_web collate key env r WAllocation g d = shown g (playerAllocation env r d)"
| "serve_web collate key env r WParty g d = shown g (currentParty env r d)"
| "serve_web collate key env r WCreateParty g d = shown g (createParty env r d)"
| "serve_web collate key env r WInvite g d = shown g (currentPartyInvite env r d)"
| "serve_web collate key env r WResetInvite g d = shown g (resetPartyInvite env r d)"
| "serve_web collate key env r (WJoin b) g d = shown g (joinParty env r b d)"
| "serve_web collate key env r WLeave g d = shown g (leaveParty env r d)"
| "serve_web collate key env r WRemove g d = shown g (removePartyMember env r d)"
| "serve_web collate key env r WDisband g d = shown g (disbandParty env r d)"
| "serve_web collate key env r (WLogin b later seen) g d =
     (let ((rep, _), g', d') = adminLogin env key r b later seen (g, d) in shown g' (rep, d'))"
| "serve_web collate key env r WAdminMe g d = shown g (adminMe env r d, d)"
| "serve_web collate key env r WAdminLogout g d = (let ((rep, _), d') = adminLogout env r d in shown g (rep, d'))"
| "serve_web collate key env r (WAction b) g d = shown g (adminAction env r b d)"
| "serve_web collate key env r (WMaintenanceBegin b) g d = shown g (adminMaintenanceBegin env r b d)"
| "serve_web collate key env r WMaintenanceStatus g d = shown g (adminMaintenanceStatus env r d)"
| "serve_web collate key env r (WValidationStart b job) g d = shown g (adminValidationStart env job r b d)"
| "serve_web collate key env r (WConfirm b) g d = shown g (adminValidationConfirm env r b d)"
| "serve_web collate key env r (WValidationStop b) g d = shown g (adminValidationStop env r b d)"
| "serve_web collate key env r WValidationDetail g d = shown g (adminValidationDetail env r d)"
| "serve_web collate key env r (WPublish b) g d = shown g (adminReleasePublish env r b d)"
| "serve_web collate key env r WRelease g d = shown g (adminReleaseDetail env r d)"

text \<open>The calls that open and close sessions, those of players, and those of administrators.\<close>

fun session_call :: "web_call \<Rightarrow> bool" where
  "session_call WCreateSession = True"
| "session_call WLogout = True"
| "session_call (WLogin b later seen) = True"
| "session_call WAdminLogout = True"
| "session_call c = False"

fun admin_call :: "web_call \<Rightarrow> bool" where
  "admin_call (WAction b) = True"
| "admin_call (WMaintenanceBegin b) = True"
| "admin_call (WValidationStart b job) = True"
| "admin_call (WConfirm b) = True"
| "admin_call (WValidationStop b) = True"
| "admin_call (WPublish b) = True"
| "admin_call c = False"

definition authorised :: "web_env \<Rightarrow> http_request \<Rightarrow> web_call \<Rightarrow> db \<Rightarrow> bool" where
  "authorised env r c d \<longleftrightarrow> hq_Origin r = hc_PublicOrigin (we_config env)
     \<and> (session_call c \<or> (if admin_call c then okE (authenticatedAdmin env r d) else session_user env r d \<noteq> None))"

text \<open>A reply went well: one sound step, nothing on a refusal, and a change only with authority.\<close>

definition web_ok :: "web_env \<Rightarrow> http_request \<Rightarrow> web_call \<Rightarrow> db \<Rightarrow> 'a reply \<Rightarrow> db \<Rightarrow> bool" where
  "web_ok env r c d rep d' \<longleftrightarrow> store_step d d' \<and> (refused rep \<longrightarrow> d' = d) \<and> (d' \<noteq> d \<longrightarrow> authorised env r c d)"

lemma web_ok_same: "web_ok env r c d rep d"
  by (simp add: web_ok_def catalogue)

lemma reader_ok: "as_reader env r d k = (rep, d') \<Longrightarrow> web_ok env r c d rep d'"
  by (auto simp: as_reader_def answer_def bindE_Inr web_ok_same split: sum.splits)

lemma admin_reader_ok: "admin_reads env r d k = (rep, d') \<Longrightarrow> web_ok env r c d rep d'"
  by (auto simp: admin_reads_def answer_def bindE_Inr web_ok_same split: sum.splits)

lemma player_ok:
  assumes "as_player env r d k = (rep, d')" "\<not> admin_call c"
    and served: "\<And>u rep d'. k u = Inr (rep, d') \<Longrightarrow> store_step d d' \<and> \<not> refused rep"
  shows "web_ok env r c d rep d'"
  using assms(1) unfolding as_player_def
proof (cases rule: answer_cases)
  case (stopped f)
  then show ?thesis by (simp add: web_ok_same)
next
  case served
  then obtain u where "hq_Origin r = hc_PublicOrigin (we_config env)" "session_user env r d = Some u" "k u = Inr (rep, d')"
    by (auto simp: bindE_Inr checkOrigin_def rejectE_Inr playerUser_def given_Inr)
  then show ?thesis using assms(2,3) by (auto simp: web_ok_def authorised_def)
qed

lemma admin_ok:
  assumes "admin_acts env r d k = (rep, d')" "admin_call c"
    and served: "\<And>u rep d'. k u = Inr (rep, d') \<Longrightarrow> store_step d d' \<and> \<not> refused rep"
  shows "web_ok env r c d rep d'"
  using assms(1) unfolding admin_acts_def
proof (cases rule: answer_cases)
  case (stopped f)
  then show ?thesis by (simp add: web_ok_same)
next
  case served
  then obtain u where "hq_Origin r = hc_PublicOrigin (we_config env)" "authenticatedAdmin env r d = Inr u" "k u = Inr (rep, d')"
    by (auto simp: bindE_Inr checkOrigin_def rejectE_Inr)
  then show ?thesis using assms(2,3) by (auto simp: web_ok_def authorised_def)
qed

section \<open>Session calls\<close>

lemma session_core:
  "CreateUserSession u i raw now d = Inr (x, d') \<Longrightarrow> core d' = core d"
  "RevokeUserToken t now d = Inr d' \<Longrightarrow> core d' = core d"
  "RevokeAdminToken t now d = Inr d' \<Longrightarrow> core d' = core d"
  by (auto simp: CreateUserSession_def RevokeUserToken_def RevokeAdminToken_def Let_def rejectE_Inr core_def business_def
      split: prod.splits option.splits)

lemma login_core:
  assumes "LoginAdminRotating f key u p prev i raw now seen d = Inr (x, d')"
  shows "core d' = core d"
proof -
  obtain a v h d1 where "issue_session a v i h now d = Inr d1"
    "d' = (case TokenHash prev of None \<Rightarrow> d1 | Some old \<Rightarrow> d1\<lparr>admin_sessions := revoke_hash old now (admin_sessions d1)\<rparr>)"
    using assms by (cases "NewToken raw") (auto simp: LoginAdminRotating_def bindE_Inr)
  then show ?thesis
    by (auto simp: issue_session_def Let_def rejectE_Inr core_def business_def split: option.splits)
qed

lemma session_ok:
  "hq_Origin r = hc_PublicOrigin (we_config env) \<Longrightarrow> session_call c \<Longrightarrow> core d' = core d \<Longrightarrow> \<not> refused rep
    \<Longrightarrow> web_ok env r c d rep d'"
  by (simp add: web_ok_def authorised_def catalogue)

lemma fresh_user: "CreateUserSession u i raw now d = Inr ((j, t), d') \<Longrightarrow> j \<in> set (users d')"
  by (auto simp: CreateUserSession_def Let_def rejectE_Inr split: prod.splits)

lemma createSession_ok:
  assumes "createSession env r d = ((rep, cookie), d')"
  shows "web_ok env r WCreateSession d rep d' \<and> core d' = core d"
proof (cases "hq_Origin r = hc_PublicOrigin (we_config env) \<and> session_user env r d = None")
  case True
  then show ?thesis using assms session_core(1) fresh_user
    by (auto simp: createSession_def checkOrigin_def web_ok_same writeUserIdentity_def split: sum.splits prod.splits
        intro!: session_ok)
next
  case False
  then show ?thesis using assms
    by (auto simp: createSession_def checkOrigin_def rejectE_def web_ok_same split: if_splits)
qed

lemma logout_ok:
  assumes "logout env r d = ((rep, cookie), d')"
  shows "web_ok env r WLogout d rep d' \<and> core d' = core d"
  using assms session_core(2)
  by (auto simp: logout_def checkOrigin_def rejectE_def Let_def web_ok_same split: if_splits option.splits sum.splits err.splits
      intro!: session_ok)

lemma adminLogout_ok:
  assumes "adminLogout env r d = ((rep, cookie), d')"
  shows "web_ok env r WAdminLogout d rep d' \<and> core d' = core d"
  using assms session_core(3)
  by (auto simp: adminLogout_def checkOrigin_def rejectE_def Let_def web_ok_same split: if_splits option.splits sum.splits err.splits
      intro!: session_ok)

lemma adminLogin_ok:
  assumes "adminLogin env key r b later seen (g, d) = ((rep, cookie), g', d')"
  shows "web_ok env r (WLogin b later seen) d rep d' \<and> core d' = core d"
  using assms login_core
  by (auto simp: adminLogin_def checkOrigin_def rejectE_def Let_def web_ok_same split: if_splits option.splits sum.splits err.splits prod.splits
      intro!: session_ok)

section \<open>Parties after a change\<close>

text \<open>On well-formed parties the view of a player's party is always there.\<close>

lemma party_view:
  assumes "party_inv d"
  shows "\<exists>v. CurrentParty u d = Inr v"
proof (cases "find (\<lambda>m. mb_user m = u \<and> exists_where (live_party (mb_party m)) (parties d)) (members d)")
  case (Some m)
  then have m: "m \<in> set (members d)" "exists_where (live_party (mb_party m)) (parties d)" by (auto dest: find_SomeD)
  obtain p where p: "fetch (live_party (mb_party m)) (parties d) = Inr p"
    using m(2) by (cases "find (live_party (mb_party m)) (parties d)") (auto simp: fetch_def find_None_iff)
  then have "p \<in> set (parties d)" "pa_dissolved p = None" using fetch_InrD [OF p] by (auto simp: live_party_def)
  then obtain l where "pa_leader p = Some l" using assms by (auto simp: party_inv_def parties_ok_def list_all_iff)
  moreover obtain n where "st_max_party_size (settings d) = Some n"
    using assms m(1) by (cases "st_max_party_size (settings d)") (auto simp: party_inv_def sized_def)
  ultimately show ?thesis using Some p by (simp add: CurrentParty_def)
qed (simp add: CurrentParty_def)

lemma show_party_ok: "party_inv d \<Longrightarrow> show_party n u d = (rep, d') \<Longrightarrow> d' = d \<and> \<not> refused rep"
  using party_view [of d u] by (auto simp: show_party_def)

lemma party_committed:
  assumes "party_inv d" "store_step d d1" "show_party n u d1 = (rep, d')"
  shows "store_step d d' \<and> \<not> refused rep"
  using show_party_ok [OF party_inv_step [OF assms(2,1)] assms(3)] assms(2) by simp

section \<open>Every route\<close>

lemma shown_ok:
  "shown g out = (rep, g', d') \<Longrightarrow> web_ok env r c d (fst out) (snd out) \<Longrightarrow> web_ok env r c d rep d'"
  by (auto simp: shown_def web_ok_def)

lemma player_routes:
  "web_ok env r WStop d (fst (stopPlayerRequest env r d)) (snd (stopPlayerRequest env r d))"
  "web_ok env r WNextGame d (fst (nextGamePlayerRequest env r d)) (snd (nextGamePlayerRequest env r d))"
  "web_ok env r (WAbandon b) d (fst (abandonPlayerRequest env r b d)) (snd (abandonPlayerRequest env r b d))"
  "web_ok env r WCancel d (fst (cancelPlayerRequest env r d)) (snd (cancelPlayerRequest env r d))"
  "web_ok env r (WCreateRequest cb) d (fst (createPlayerRequest env r cb d)) (snd (createPlayerRequest env r cb d))"
  "web_ok env r WResetInvite d (fst (resetPartyInvite env r d)) (snd (resetPartyInvite env r d))"
  "web_ok env r WLeave d (fst (leaveParty env r d)) (snd (leaveParty env r d))"
  "web_ok env r WRemove d (fst (removePartyMember env r d)) (snd (removePartyMember env r d))"
  "web_ok env r WDisband d (fst (disbandParty env r d)) (snd (disbandParty env r d))"
  unfolding stopPlayerRequest_def nextGamePlayerRequest_def abandonPlayerRequest_def cancelPlayerRequest_def
    createPlayerRequest_def resetPartyInvite_def leaveParty_def removePartyMember_def disbandParty_def
    StopUserRequest_def NextGameUserRequest_def
  by (rule player_ok [OF prod.collapse [symmetric]], simp,
      auto simp: bindE_Inr rejectE_Inr on_error_Inr given_Inr intro: store_step.intros)+

lemma party_routes:
  assumes "party_inv d"
  shows "web_ok env r WCreateParty d (fst (createParty env r d)) (snd (createParty env r d))"
    "web_ok env r (WJoin b) d (fst (joinParty env r b d)) (snd (joinParty env r b d))"
  unfolding createParty_def joinParty_def
  by (rule player_ok [OF prod.collapse [symmetric]], simp,
      auto simp: bindE_Inr on_error_Inr given_Inr
        dest: party_committed [OF assms create_party] party_committed [OF assms join_party])+

lemma admin_routes:
  "web_ok env r (WAction ab) d (fst (adminAction env r ab d)) (snd (adminAction env r ab d))"
  "web_ok env r (WMaintenanceBegin mb) d (fst (adminMaintenanceBegin env r mb d)) (snd (adminMaintenanceBegin env r mb d))"
  "web_ok env r (WValidationStart sb job) d (fst (adminValidationStart env job r sb d)) (snd (adminValidationStart env job r sb d))"
  "web_ok env r (WConfirm vb) d (fst (adminValidationConfirm env r vb d)) (snd (adminValidationConfirm env r vb d))"
  "web_ok env r (WValidationStop tb) d (fst (adminValidationStop env r tb d)) (snd (adminValidationStop env r tb d))"
  "web_ok env r (WPublish rb) d (fst (adminReleasePublish env r rb d)) (snd (adminReleasePublish env r rb d))"
  unfolding adminAction_def adminMaintenanceBegin_def adminValidationStart_def adminValidationConfirm_def
    adminValidationStop_def adminReleasePublish_def
  by (rule admin_ok [OF prod.collapse [symmetric]], simp,
      auto simp: bindE_Inr rejectE_Inr on_error_Inr given_Inr
        intro: store_step.intros(2-) publish_store_step catalogue [OF BeginScopedMaintenance_core])+

lemma read_routes:
  "web_ok env r c d (fst (playerNodes collate env r d)) (snd (playerNodes collate env r d))"
  "web_ok env r c d (fst (currentPlayerRequest env r d)) (snd (currentPlayerRequest env r d))"
  "web_ok env r c d (fst (playerRequest env r d)) (snd (playerRequest env r d))"
  "web_ok env r c d (fst (playerNextGameIntent env r d)) (snd (playerNextGameIntent env r d))"
  "web_ok env r c d (fst (playerAllocation env r d)) (snd (playerAllocation env r d))"
  "web_ok env r c d (fst (currentParty env r d)) (snd (currentParty env r d))"
  "web_ok env r c d (fst (currentPartyInvite env r d)) (snd (currentPartyInvite env r d))"
  "web_ok env r c d (fst (adminMaintenanceStatus env r d)) (snd (adminMaintenanceStatus env r d))"
  "web_ok env r c d (fst (adminValidationDetail env r d)) (snd (adminValidationDetail env r d))"
  "web_ok env r c d (fst (adminReleaseDetail env r d)) (snd (adminReleaseDetail env r d))"
  unfolding playerNodes_def currentPlayerRequest_def playerRequest_def playerNextGameIntent_def playerAllocation_def
    currentParty_def currentPartyInvite_def adminMaintenanceStatus_def adminValidationDetail_def adminReleaseDetail_def
  by (rule reader_ok [OF prod.collapse [symmetric]] admin_reader_ok [OF prod.collapse [symmetric]])+

lemma serve_session_ok:
  assumes "serve_web collate key env r c g d = (rep, g', d')" "session_call c"
  shows "web_ok env r c d rep d' \<and> core d' = core d"
proof (cases c)
  case WCreateSession
  obtain rep0 k d1 where out: "createSession env r d = ((rep0, k), d1)" by (metis surj_pair)
  then show ?thesis using assms(1) WCreateSession createSession_ok [OF out] by (auto simp: shown_def web_ok_def)
next
  case WLogout
  obtain rep0 k d1 where out: "logout env r d = ((rep0, k), d1)" by (metis surj_pair)
  then show ?thesis using assms(1) WLogout logout_ok [OF out] by (auto simp: shown_def web_ok_def)
next
  case WAdminLogout
  obtain rep0 k d1 where out: "adminLogout env r d = ((rep0, k), d1)" by (metis surj_pair)
  then show ?thesis using assms(1) WAdminLogout adminLogout_ok [OF out] by (auto simp: shown_def web_ok_def)
next
  case (WLogin b later seen)
  obtain rep0 k g1 d1 where out: "adminLogin env key r b later seen (g, d) = ((rep0, k), g1, d1)" by (metis surj_pair)
  then show ?thesis using assms(1) WLogin adminLogin_ok [OF out] by (auto simp: shown_def web_ok_def)
qed (use assms(2) in simp_all)

lemma serve_web_ok:
  assumes "party_inv d" "serve_web collate key env r c g d = (rep, g', d')"
  shows "web_ok env r c d rep d' \<and> (session_call c \<longrightarrow> core d' = core d)"
proof (cases "session_call c")
  case True
  then show ?thesis using serve_session_ok [OF assms(2)] by (simp add: web_ok_def)
next
  case False
  have "web_ok env r c d rep d'"
    using assms(2) False
    by (cases c) (auto elim!: shown_ok intro: player_routes admin_routes read_routes party_routes [OF assms(1)] simp: web_ok_same)
  then show ?thesis using False by (simp add: web_ok_def)
qed

section \<open>Guarantees\<close>

text \<open>
  C33: A browser changes the platform only with authority.  Where the parties are well formed, every request
  to the player and administrator API commits at most one sound operation of the store; a refusal changes no
  row; a change came from the platform's own origin and, unless the call opens or closes a session, with the
  cookie of an open session, an administrator's for the calls of administrators; and the calls on
  sessions touch neither requests, attempts, jobs, runs nor parties.
\<close>

theorem browser_changes_need_authority:
  assumes "party_inv d" "serve_web collate key env r c g d = (rep, g', d')"
  shows "store_step d d' \<and> (refused rep \<longrightarrow> d' = d) \<and> (d' \<noteq> d \<longrightarrow> authorised env r c d)
    \<and> (session_call c \<longrightarrow> core d' = core d)"
  using serve_web_ok [OF assms] by (simp add: web_ok_def)

definition player_session :: session_row where
  "player_session = \<lparr>se_id = 20, se_owner = 7, se_hash = snd sample_token, se_version = 0, se_expires = 50, se_revoked = None\<rparr>"

definition signed_in_db :: db where
  "signed_in_db = start_db\<lparr>user_sessions := [player_session]\<rparr>"

definition browser_env :: web_env where
  "browser_env = \<lparr>we_config = \<lparr>hc_PublicOrigin = ''https://arcade.example'', hc_Development = False\<rparr>, we_now = 10,
     we_newID = 20, we_otherID = 21, we_raw = replicate 32 9, we_unicode = id\<rparr>"

definition signed_request :: http_request where
  "signed_request = \<lparr>hq_Origin = ''https://arcade.example'', hq_NodeID = [], hq_Authorization = [], hq_Session = [],
     hq_Cookies = [(''__Host-arcade_session'', fst sample_token)], hq_id = [], hq_Query = [], hq_peer = None, hq_forwarded = []\<rparr>"

definition create_json :: "create_body body" where
  "create_json = \<lparr>bd_ContentType = ''application/json'', bd_value = Some \<lparr>cb_ArcadeGameID = uuid_text 1,
     cb_GamePresetID = uuid_text 2, cb_NodeSelectionMode = [], cb_ManualNodeID = []\<rparr>, bd_ends = True\<rparr>"

lemma browser_changes_need_authority_witness:
  "\<exists>rep d'. serve_web id sample_key browser_env signed_request (WCreateRequest create_json) newLoginGate signed_in_db
       = (rep, newLoginGate, d') \<and> rep = Sent 201 () \<and> requests d' = [sample_request]
     \<and> store_step signed_in_db d' \<and> authorised browser_env signed_request (WCreateRequest create_json) signed_in_db"
proof -
  have user: "session_user browser_env signed_request signed_in_db = Some 7"
    by (simp add: session_user_def Cookie_def signed_request_def browser_env_def userCookieName_def UserForToken_def
        sample_token_hash signed_in_db_def player_session_def open_session_def)
  have input: "decodeJSON id create_json = bd_value create_json" "checked_id (uuid_text 1) = Some 1"
    "checked_id (uuid_text 2) = Some 2" by code_simp+
  have none: "checked_id [] = None" by code_simp
  have "requests_ok [sample_request]" by code_simp
  note ok = this [unfolded sample_request_def]
  obtain d' where made: "CreateUserRequestSelected 7 1 2 SelAuto None 20 10 signed_in_db = Inr (sample_request, True, d')"
    "requests d' = [sample_request]"
    by (simp add: CreateUserRequestSelected_def signed_in_db_def start_db_def sample_db_def fetch_def request_owner_def
        member_party_def current_request_def validateFreshRequest_def put_requests_def sample_request_def ok Let_def del: One_nat_def)
  have inv: "party_inv signed_in_db"
    by (simp add: party_inv_def signed_in_db_def start_db_def sample_db_def parties_ok_def members_ok_def invites_ok_def
        party_leader_fk_def sized_def member_count_def)
  obtain rep g' d1 where out: "serve_web id sample_key browser_env signed_request (WCreateRequest create_json) newLoginGate signed_in_db
      = (rep, g', d1)" using prod_cases3 by blast
  then have shows': "rep = Sent 201 ()" "g' = newLoginGate" "d1 = d'"
    using input made(1) user none
    by (auto simp: createPlayerRequest_def as_player_def shown_def answer_def checkOrigin_def playerUser_def given_def
        signed_request_def browser_env_def create_json_def on_error_def selection_mode_def)
  have "d' \<noteq> signed_in_db" using made(2) by (auto simp: signed_in_db_def start_db_def)
  then show ?thesis using browser_changes_need_authority [OF inv out] out shows' made(2) by auto
qed

end
