(* ===== verification/Manifest.thy ===== *)
theory Manifest
  imports Paths Sha256 Heartbeat "HOL-Library.Char_ord" "HOL-Library.List_Lexorder"
begin

text \<open>
  What a controller proves of its own disk (\<open>internal/controller/config/manifest.go\<close>): the fingerprint
  of a template, computed over an explicit list of read-only files below one version directory.  The
  disk is what its calls answer: \<open>dk_Eval\<close> is \<open>EvalSymlinks\<close> made absolute, \<open>dk_Dir\<close> the \<open>Stat\<close> of the
  directories, \<open>dk_Info\<close>, \<open>dk_Before\<close> and \<open>dk_After\<close> the three of a file, \<open>dk_Read\<close> what copying the file
  into the hash yields; files may change between the calls.  Paths are those of Unix.
\<close>

section \<open>The disk\<close>

text \<open>\<open>fi_id\<close> is what \<open>os.SameFile\<close> compares, \<open>fi_writable\<close> any of the permissions \<open>0222\<close>.\<close>

record file_info =
  fi_id :: nat
  fi_dir :: bool
  fi_regular :: bool
  fi_writable :: bool
  fi_size :: int
  fi_mtime :: int

record disk =
  dk_Eval :: "string \<Rightarrow> string option"
  dk_Dir :: "string \<Rightarrow> file_info option"
  dk_Info :: "string \<Rightarrow> file_info option"
  dk_Before :: "string \<Rightarrow> file_info option"
  dk_After :: "string \<Rightarrow> file_info option"
  dk_Read :: "string \<Rightarrow> string option"

record TemplateManifestBinding =
  tm_VersionRoot :: string
  tm_TemplatePath :: string
  tm_Dependencies :: "string list"

record manifestEntry =
  ma_path :: string
  ma_digest :: string
  ma_size :: int

definition attempt :: "string \<Rightarrow> 'a option \<Rightarrow> 'a res" where
  "attempt m x = (case x of None \<Rightarrow> Inl (Invalid m) | Some v \<Rightarrow> Inr v)"

lemma attempt_Inr [result_simps]: "attempt m x = Inr v \<longleftrightarrow> x = Some v"
  by (simp add: attempt_def split: option.splits)

section \<open>Paths and single files\<close>

definition validateCorePath :: "string \<Rightarrow> bool" where
  "validateCorePath p \<longleftrightarrow> IsAbs p \<and> list_all (in_range 32 127) p"

definition canonicalManifestPath :: "disk \<Rightarrow> string \<Rightarrow> string res" where
  "canonicalManifestPath dk p =
     rejectE (\<not> validateCorePath p) (Invalid ''d2core path must be absolute'') (
     bindE (attempt ''no such file'' (dk_Eval dk p)) (\<lambda>c.
     rejectE (\<not> validateCorePath c) (Invalid ''unstable manifest path'') (Inr (Clean c))))"

definition read_only_dir :: "file_info option \<Rightarrow> bool" where
  "read_only_dir i = (case i of None \<Rightarrow> False | Some i \<Rightarrow> fi_dir i \<and> \<not> fi_writable i)"

definition changed :: "file_info \<Rightarrow> file_info \<Rightarrow> int \<Rightarrow> bool" where
  "changed before after copied \<longleftrightarrow> copied \<noteq> fi_size before \<or> fi_id before \<noteq> fi_id after
     \<or> fi_size before \<noteq> fi_size after \<or> fi_mtime before \<noteq> fi_mtime after"

definition hashManifestAsset :: "disk \<Rightarrow> string \<Rightarrow> manifestEntry res" where
  "hashManifestAsset dk path =
     bindE (attempt ''manifest asset unavailable'' (dk_Before dk path)) (\<lambda>before.
     rejectE (\<not> fi_regular before) (Invalid ''manifest asset unavailable'') (
     rejectE (fi_writable before) (Invalid ''manifest asset writable'') (
     bindE (attempt ''manifest asset changed while hashing'' (dk_Read dk path)) (\<lambda>bytes.
     bindE (attempt ''manifest asset changed while hashing'' (dk_After dk path)) (\<lambda>after.
     rejectE (changed before after (int (length bytes))) (Invalid ''manifest asset changed while hashing'')
       (Inr \<lparr>ma_path = path, ma_digest = sha256_hex bytes, ma_size = int (length bytes)\<rparr>))))))"

section \<open>The assets of a manifest\<close>

text \<open>The directories between the root and a file below it, innermost first.\<close>

definition dirs_below :: "string \<Rightarrow> string \<Rightarrow> string list" where
  "dirs_below root path = map (\<lambda>k. slash # join_with slash (take k (elements path)))
     (rev [Suc (length (elements root))..<length (elements path)])"

fun manifest_loop :: "disk \<Rightarrow> string \<Rightarrow> string list \<Rightarrow> nat list \<Rightarrow> string list \<Rightarrow> manifestEntry list res" where
  "manifest_loop dk root seen ids [] = Inr []"
| "manifest_loop dk root seen ids (input # inputs) =
     bindE (canonicalManifestPath dk input) (\<lambda>path.
     rejectE (\<not> inside root path \<or> path = root) (Invalid ''manifest asset outside version root'') (
     rejectE (path \<in> set seen) (Invalid ''duplicate manifest asset'') (
     rejectE (\<not> list_all (\<lambda>dir. read_only_dir (dk_Dir dk dir)) (dirs_below root path))
       (Invalid ''writable or unavailable version subdirectory'') (
     bindE (attempt ''no such file'' (dk_Info dk path)) (\<lambda>info.
     rejectE (fi_id info \<in> set ids) (Invalid ''duplicate manifest file identity'') (
     bindE (hashManifestAsset dk path) (\<lambda>e.
     bindE (manifest_loop dk root (path # seen) (fi_id info # ids) inputs) (\<lambda>es.
     Inr (e # es)))))))))"

section \<open>The fingerprint\<close>

definition manifest_uint :: "int \<Rightarrow> string" where
  "manifest_uint n = map (\<lambda>b. char_of (nat b)) (be_bytes 8 n)"

definition manifest_string :: "string \<Rightarrow> string" where
  "manifest_string s = manifest_uint (int (length s)) @ s"

definition entry_text :: "manifestEntry \<Rightarrow> string" where
  "entry_text e = manifest_string (ma_path e) @ manifest_uint (ma_size e) @ manifest_string (ma_digest e)"

text \<open>The bytes that are hashed: the template first, then the other assets by path.\<close>

definition manifest_text :: "string \<Rightarrow> manifestEntry list \<Rightarrow> string" where
  "manifest_text template es =
     (let es = sort_key ma_path es;
          t = (case find (\<lambda>e. ma_path e = template) es of
                 None \<Rightarrow> \<lparr>ma_path = [], ma_digest = [], ma_size = 0\<rparr> | Some e \<Rightarrow> e) in
      manifest_string ''template-manifest-sha256-v1'' @ manifest_string template @ manifest_string (ma_digest t)
      @ manifest_uint (ma_size t) @ concat (map entry_text (filter (\<lambda>e. ma_path e \<noteq> template) es)))"

definition manifest_entries :: "disk \<Rightarrow> TemplateManifestBinding \<Rightarrow> (string \<times> manifestEntry list) res" where
  "manifest_entries dk b =
     rejectE (tm_VersionRoot b = [] \<or> tm_TemplatePath b = []) (Invalid ''template manifest unavailable'') (
     bindE (canonicalManifestPath dk (tm_VersionRoot b)) (\<lambda>root.
     rejectE (\<not> read_only_dir (dk_Dir dk root)) (Invalid ''version directory is not read-only'') (
     bindE (canonicalManifestPath dk (tm_TemplatePath b)) (\<lambda>template.
     bindE (manifest_loop dk root [] [] (template # tm_Dependencies b)) (\<lambda>es.
     Inr (template, es))))))"

definition TemplateManifestSHA256V1 :: "disk \<Rightarrow> (string \<Rightarrow> TemplateManifestBinding option) \<Rightarrow> string \<Rightarrow> (string \<times> string) res" where
  "TemplateManifestSHA256V1 dk manifests key =
     bindE (attempt ''template manifest unavailable'' (manifests key)) (\<lambda>b.
     bindE (manifest_entries dk b) (\<lambda>(template, es).
     Inr (template, sha256_hex (manifest_text template es))))"

section \<open>The hashed bytes determine the manifest\<close>

lemma bytes_value:
  fixes u v :: int
  shows "(\<And>i. i < n \<Longrightarrow> u div 256 ^ i mod 256 = v div 256 ^ i mod 256) \<Longrightarrow> u mod 256 ^ n = v mod 256 ^ n"
proof (induction n)
  case (Suc n)
  have split: "w mod 256 ^ Suc n = 256 ^ n * (w div 256 ^ n mod 256) + w mod 256 ^ n" for w :: int
    by (simp add: zmod_zmult2_eq power_Suc2 del: power_Suc)
  have "u mod 256 ^ n = v mod 256 ^ n" by (rule Suc.IH) (simp add: Suc.prems)
  then show ?case unfolding split using Suc.prems [of n] by simp
qed simp

definition word_sized :: "int \<Rightarrow> bool" where "word_sized n \<longleftrightarrow> 0 \<le> n \<and> n < 2 ^ 64"

lemma byte_char: "0 \<le> b \<Longrightarrow> b < 256 \<Longrightarrow> of_char (char_of (nat b) :: char) = nat b"
  by (simp add: nat_less_iff)

lemma manifest_uint_inj:
  assumes "manifest_uint u = manifest_uint v" "word_sized u" "word_sized v"
  shows "u = v"
proof -
  have "(u div 256 ^ i) mod 256 = (v div 256 ^ i) mod 256" if i: "i < 8" for i
  proof -
    have "char_of (nat ((u div 256 ^ i) mod 256)) = (char_of (nat ((v div 256 ^ i) mod 256)) :: char)"
      using assms(1) i unfolding manifest_uint_def be_bytes_def by (simp add: map_eq_conv)
    then have "nat ((u div 256 ^ i) mod 256) = nat ((v div 256 ^ i) mod 256)"
      using byte_char [of "(u div 256 ^ i) mod 256"] byte_char [of "(v div 256 ^ i) mod 256"] by simp
    then show ?thesis by simp
  qed
  then have "u mod 256 ^ 8 = v mod 256 ^ 8" by (rule bytes_value)
  then show ?thesis using assms(2,3) by (simp add: word_sized_def)
qed

lemma length_manifest_uint [simp]: "length (manifest_uint n) = 8"
  by (simp add: manifest_uint_def)

definition short :: "string \<Rightarrow> bool" where "short s \<longleftrightarrow> word_sized (int (length s))"

lemma manifest_uint_append:
  "manifest_uint u @ r = manifest_uint v @ s \<Longrightarrow> word_sized u \<Longrightarrow> word_sized v \<Longrightarrow> u = v \<and> r = s"
  using manifest_uint_inj by (auto simp: append_eq_append_conv)

lemma manifest_string_append:
  assumes "manifest_string x @ r = manifest_string y @ s" "short x" "short y"
  shows "x = y \<and> r = s"
proof -
  have "manifest_uint (int (length x)) @ x @ r = manifest_uint (int (length y)) @ y @ s"
    using assms(1) by (simp add: manifest_string_def)
  then have "int (length x) = int (length y) \<and> x @ r = y @ s"
    using assms(2,3) unfolding short_def by (rule manifest_uint_append)
  then show ?thesis by (auto simp: append_eq_append_conv)
qed

definition entry_small :: "manifestEntry \<Rightarrow> bool" where
  "entry_small e \<longleftrightarrow> short (ma_path e) \<and> short (ma_digest e) \<and> word_sized (ma_size e)"

lemma entry_text_append:
  assumes "entry_text e @ r = entry_text f @ s" "entry_small e" "entry_small f"
  shows "e = f \<and> r = s"
proof -
  have 1: "ma_path e = ma_path f \<and> manifest_uint (ma_size e) @ manifest_string (ma_digest e) @ r
      = manifest_uint (ma_size f) @ manifest_string (ma_digest f) @ s"
    using assms by (intro manifest_string_append) (simp_all add: entry_text_def entry_small_def)
  then have 2: "ma_size e = ma_size f \<and> manifest_string (ma_digest e) @ r = manifest_string (ma_digest f) @ s"
    using assms(2,3) by (intro manifest_uint_append) (simp_all add: entry_small_def)
  then have "ma_digest e = ma_digest f \<and> r = s"
    using assms(2,3) by (intro manifest_string_append) (simp_all add: entry_small_def)
  then show ?thesis using 1 2 by simp
qed

lemma entries_text_inj:
  "concat (map entry_text es) = concat (map entry_text fs) \<Longrightarrow> list_all entry_small es \<Longrightarrow> list_all entry_small fs \<Longrightarrow> es = fs"
proof (induction es arbitrary: fs)
  case Nil
  then show ?case by (cases fs) (auto simp: entry_text_def manifest_string_def dest: arg_cong [of _ _ length])
next
  case (Cons e es)
  show ?case
  proof (cases fs)
    case Nil
    then show ?thesis using Cons.prems by (auto simp: entry_text_def manifest_string_def dest: arg_cong [of _ _ length])
  next
    case (Cons f fs')
    then have "e = f \<and> concat (map entry_text es) = concat (map entry_text fs')"
      using Cons.prems by (intro entry_text_append) simp_all
    then show ?thesis using Cons.IH [of fs'] Cons.prems \<open>fs = f # fs'\<close> by simp
  qed
qed

lemma found_entry:
  assumes "template \<in> ma_path ` set es" "distinct (map ma_path es)"
  obtains e where "find (\<lambda>e. ma_path e = template) (sort_key ma_path es) = Some e" "ma_path e = template" "e \<in> set es"
    "set es = insert e (set (filter (\<lambda>e. ma_path e \<noteq> template) (sort_key ma_path es)))"
proof -
  obtain e where e: "find (\<lambda>e. ma_path e = template) (sort_key ma_path es) = Some e"
    using assms(1) by (cases "find (\<lambda>e. ma_path e = template) (sort_key ma_path es)") (auto simp: find_None_iff)
  then have in': "e \<in> set es" "ma_path e = template" using find_SomeD [OF e] by simp_all
  moreover have "f = e" if "f \<in> set es" "ma_path f = template" for f
    using that in' assms(2) by (auto simp: distinct_map inj_on_def)
  ultimately show ?thesis using e that by fastforce
qed

lemma manifest_text_inj:
  assumes "manifest_text t es = manifest_text u fs"
    and es: "t \<in> ma_path ` set es" "distinct (map ma_path es)" "\<forall>e \<in> set es. entry_small e"
    and fs: "u \<in> ma_path ` set fs" "distinct (map ma_path fs)" "\<forall>e \<in> set fs. entry_small e"
  shows "t = u \<and> set es = set fs"
proof -
  obtain a where a: "find (\<lambda>e. ma_path e = t) (sort_key ma_path es) = Some a" "ma_path a = t" "a \<in> set es"
    "set es = insert a (set (filter (\<lambda>e. ma_path e \<noteq> t) (sort_key ma_path es)))" by (rule found_entry [OF es(1,2)])
  obtain b where b: "find (\<lambda>e. ma_path e = u) (sort_key ma_path fs) = Some b" "ma_path b = u" "b \<in> set fs"
    "set fs = insert b (set (filter (\<lambda>e. ma_path e \<noteq> u) (sort_key ma_path fs)))" by (rule found_entry [OF fs(1,2)])
  define es' where "es' = filter (\<lambda>e. ma_path e \<noteq> t) (sort_key ma_path es)"
  define fs' where "fs' = filter (\<lambda>e. ma_path e \<noteq> u) (sort_key ma_path fs)"
  have small: "entry_small a" "entry_small b" "list_all entry_small es'" "list_all entry_small fs'"
    using es(3) fs(3) a(3) b(3) by (auto simp: list_all_iff es'_def fs'_def)
  have "manifest_string t @ manifest_string (ma_digest a) @ manifest_uint (ma_size a) @ concat (map entry_text es')
      = manifest_string u @ manifest_string (ma_digest b) @ manifest_uint (ma_size b) @ concat (map entry_text fs')"
    using assms(1) a(1) b(1) by (simp add: manifest_text_def Let_def es'_def fs'_def)
  then have 1: "t = u \<and> manifest_string (ma_digest a) @ manifest_uint (ma_size a) @ concat (map entry_text es')
      = manifest_string (ma_digest b) @ manifest_uint (ma_size b) @ concat (map entry_text fs')"
    using small a(2) b(2) by (intro manifest_string_append) (auto simp: entry_small_def)
  have 2: "ma_digest a = ma_digest b \<and> manifest_uint (ma_size a) @ concat (map entry_text es')
      = manifest_uint (ma_size b) @ concat (map entry_text fs')"
    using small conjunct2 [OF 1] by (intro manifest_string_append) (simp_all add: entry_small_def)
  have 3: "ma_size a = ma_size b \<and> concat (map entry_text es') = concat (map entry_text fs')"
    using small conjunct2 [OF 2] by (intro manifest_uint_append) (simp_all add: entry_small_def)
  have "es' = fs'" using conjunct2 [OF 3] small(3,4) by (rule entries_text_inj)
  moreover have "a = b"
    using conjunct1 [OF 1] conjunct1 [OF 2] conjunct1 [OF 3] a(2) b(2) by (intro manifestEntry.equality) simp_all
  ultimately have "set es = set fs" unfolding a(4) b(4) es'_def [symmetric] fs'_def [symmetric] by (rule arg_cong2 [where f = "\<lambda>x l. insert x (set l)", rotated])
  then show ?thesis using conjunct1 [OF 1] by (rule conjI [rotated])
qed

section \<open>What a successful walk has seen\<close>

lemma hash_asset:
  assumes "hashManifestAsset dk p = Inr e"
  obtains c i where "dk_Read dk p = Some c" "e = \<lparr>ma_path = p, ma_digest = sha256_hex c, ma_size = int (length c)\<rparr>"
    "dk_Before dk p = Some i" "fi_regular i" "\<not> fi_writable i"
  using assms by (auto simp: hashManifestAsset_def bindE_Inr rejectE_Inr attempt_Inr)

definition hashed_from :: "disk \<Rightarrow> string list \<Rightarrow> manifestEntry \<Rightarrow> bool" where
  "hashed_from dk inputs e \<longleftrightarrow> (\<exists>i \<in> set inputs. \<exists>p. canonicalManifestPath dk i = Inr p \<and> hashManifestAsset dk p = Inr e)"

lemma manifest_loop_Inr:
  assumes "manifest_loop dk root seen ids inputs = Inr es"
  shows "set es = {e. hashed_from dk inputs e} \<and> distinct (map ma_path es) \<and> (\<forall>e \<in> set es. ma_path e \<notin> set seen)
    \<and> (\<forall>i \<in> set inputs. \<exists>p. canonicalManifestPath dk i = Inr p \<and> p \<in> ma_path ` set es)
    \<and> (\<forall>e \<in> set es. inside root (ma_path e))"
  using assms
proof (induction inputs arbitrary: seen ids es)
  case (Cons i rest)
  obtain p e fs and info :: file_info where c: "canonicalManifestPath dk i = Inr p" "inside root p" "p \<notin> set seen"
    "hashManifestAsset dk p = Inr e" "manifest_loop dk root (p # seen) (fi_id info # ids) rest = Inr fs" "Inr (e # fs) = (Inr es :: manifestEntry list res)"
    using Cons.prems unfolding manifest_loop.simps bindE_Inr rejectE_Inr attempt_Inr by blast
  have e: "ma_path e = p" using c(4) by (auto elim: hash_asset)
  have "hashed_from dk (i # rest) x \<longleftrightarrow> x = e \<or> hashed_from dk rest x" for x
    using c(1,4) by (auto simp: hashed_from_def)
  then have "{x. hashed_from dk (i # rest) x} = insert e {x. hashed_from dk rest x}" by blast
  moreover obtain ih: "set fs = {e. hashed_from dk rest e}" "distinct (map ma_path fs)" "\<forall>e \<in> set fs. ma_path e \<notin> set (p # seen)"
    "\<forall>i \<in> set rest. \<exists>p. canonicalManifestPath dk i = Inr p \<and> p \<in> ma_path ` set fs" "\<forall>e \<in> set fs. inside root (ma_path e)"
    using Cons.IH [OF c(5)] by blast
  moreover have es: "es = e # fs" using c(6) by simp
  ultimately have "set es = {x. hashed_from dk (i # rest) x}" by simp
  moreover have "distinct (map ma_path es) \<and> (\<forall>e \<in> set es. ma_path e \<notin> set seen) \<and> (\<forall>e \<in> set es. inside root (ma_path e))"
    using ih(2,3,5) c(2,3) e unfolding es by auto
  moreover have "\<forall>j \<in> set (i # rest). \<exists>p. canonicalManifestPath dk j = Inr p \<and> p \<in> ma_path ` set es"
    using ih(4) c(1) e unfolding es by fastforce
  ultimately show ?case by blast
qed (simp add: hashed_from_def)

text \<open>The files of a manifest with what was read of them, and the bytes under the fingerprint.\<close>

definition manifest_files :: "disk \<Rightarrow> (string \<Rightarrow> TemplateManifestBinding option) \<Rightarrow> string \<Rightarrow> (string \<times> string) set" where
  "manifest_files dk m key = {(p, c). \<exists>b t i. m key = Some b \<and> canonicalManifestPath dk (tm_TemplatePath b) = Inr t
     \<and> i \<in> set (t # tm_Dependencies b) \<and> canonicalManifestPath dk i = Inr p \<and> dk_Read dk p = Some c}"

definition manifest_input :: "disk \<Rightarrow> (string \<Rightarrow> TemplateManifestBinding option) \<Rightarrow> string \<Rightarrow> string" where
  "manifest_input dk m key = (case m key of None \<Rightarrow> [] | Some b \<Rightarrow> (case manifest_entries dk b of
      Inl _ \<Rightarrow> [] | Inr (template, es) \<Rightarrow> manifest_text template es))"

text \<open>The absolute path that \<open>EvalSymlinks\<close> answers is clean and without symbolic links.\<close>

definition links_settled :: "disk \<Rightarrow> bool" where
  "links_settled dk \<longleftrightarrow> (\<forall>p q. dk_Eval dk p = Some q \<longrightarrow> dk_Eval dk q = Some q \<and> Clean q = q)"

lemma canonical_settled: "links_settled dk \<Longrightarrow> canonicalManifestPath dk p = Inr t \<Longrightarrow> canonicalManifestPath dk t = Inr t"
  by (auto simp: links_settled_def canonicalManifestPath_def bindE_Inr rejectE_Inr attempt_Inr)

lemma manifest_success:
  assumes "TemplateManifestSHA256V1 dk m key = Inr (t, h)" "links_settled dk"
  obtains es where "h = sha256_hex (manifest_text t es)" "manifest_input dk m key = manifest_text t es"
    "t \<in> ma_path ` set es" "distinct (map ma_path es)"
    "\<And>p c. (p, c) \<in> manifest_files dk m key \<longleftrightarrow> \<lparr>ma_path = p, ma_digest = sha256_hex c, ma_size = int (length c)\<rparr> \<in> set es \<and> dk_Read dk p = Some c"
    "\<And>e. e \<in> set es \<Longrightarrow> \<exists>c. (ma_path e, c) \<in> manifest_files dk m key \<and> ma_digest e = sha256_hex c \<and> ma_size e = int (length c)"
proof -
  obtain b root es where b: "m key = Some b" "manifest_entries dk b = Inr (t, es)" "h = sha256_hex (manifest_text t es)"
    "canonicalManifestPath dk (tm_TemplatePath b) = Inr t"
    "manifest_loop dk root [] [] (t # tm_Dependencies b) = Inr es"
    using assms(1) by (auto simp: TemplateManifestSHA256V1_def manifest_entries_def bindE_Inr rejectE_Inr attempt_Inr simp del: manifest_loop.simps)
  note l = manifest_loop_Inr [OF b(5)]
  have files: "(p, c) \<in> manifest_files dk m key \<longleftrightarrow> (\<exists>i \<in> set (t # tm_Dependencies b).
      canonicalManifestPath dk i = Inr p) \<and> dk_Read dk p = Some c" for p c using b(1,4) by (auto simp: manifest_files_def)
  have entry: "\<exists>c. dk_Read dk (ma_path e) = Some c \<and> e = \<lparr>ma_path = ma_path e, ma_digest = sha256_hex c, ma_size = int (length c)\<rparr>
      \<and> (\<exists>i \<in> set (t # tm_Dependencies b). canonicalManifestPath dk i = Inr (ma_path e))" if "e \<in> set es" for e
  proof -
    have "hashed_from dk (t # tm_Dependencies b) e" using l that by blast
    then obtain i p where i: "i \<in> set (t # tm_Dependencies b)" "canonicalManifestPath dk i = Inr p"
      "hashManifestAsset dk p = Inr e" unfolding hashed_from_def by blast
    then show ?thesis by (auto elim!: hash_asset)
  qed
  show ?thesis
  proof (rule that [of es])
    show "h = sha256_hex (manifest_text t es)" "manifest_input dk m key = manifest_text t es"
      using b by (simp_all add: manifest_input_def)
    show "t \<in> ma_path ` set es" "distinct (map ma_path es)" using l canonical_settled [OF assms(2) b(4)] by auto
    show "(p, c) \<in> manifest_files dk m key \<longleftrightarrow> \<lparr>ma_path = p, ma_digest = sha256_hex c, ma_size = int (length c)\<rparr> \<in> set es \<and> dk_Read dk p = Some c" for p c
    proof
      assume f: "(p, c) \<in> manifest_files dk m key"
      then obtain e where e: "e \<in> set es" "ma_path e = p" using l files by fastforce
      then show "\<lparr>ma_path = p, ma_digest = sha256_hex c, ma_size = int (length c)\<rparr> \<in> set es \<and> dk_Read dk p = Some c"
        using entry [OF e(1)] f files by auto
    next
      assume "\<lparr>ma_path = p, ma_digest = sha256_hex c, ma_size = int (length c)\<rparr> \<in> set es \<and> dk_Read dk p = Some c"
      then show "(p, c) \<in> manifest_files dk m key" using entry files by fastforce
    qed
    show "\<exists>c. (ma_path e, c) \<in> manifest_files dk m key \<and> ma_digest e = sha256_hex c \<and> ma_size e = int (length c)" if "e \<in> set es" for e
      using entry [OF that] files by (metis manifestEntry.select_convs(2,3))
  qed
qed

section \<open>What a fingerprint proves\<close>

definition short_file :: "string \<times> string \<Rightarrow> bool" where
  "short_file f \<longleftrightarrow> short (fst f) \<and> short (snd f)"

lemma files_of_entries:
  assumes F: "\<And>p c. (p, c) \<in> F \<longleftrightarrow> \<lparr>ma_path = p, ma_digest = sha256_hex c, ma_size = int (length c)\<rparr> \<in> set es \<and> rd p = Some c"
    and F': "\<And>p c. (p, c) \<in> F' \<longleftrightarrow> \<lparr>ma_path = p, ma_digest = sha256_hex c, ma_size = int (length c)\<rparr> \<in> set es \<and> rd' p = Some c"
    and e': "\<And>e. e \<in> set es \<Longrightarrow> \<exists>c. (ma_path e, c) \<in> F' \<and> ma_digest e = sha256_hex c \<and> ma_size e = int (length c)"
    and inj: "inj_on sha256_hex (snd ` F \<union> snd ` F')"
  shows "F \<subseteq> F'"
proof
  fix f assume f: "f \<in> F"
  obtain p c where pc: "f = (p, c)" by (cases f)
  then have "\<lparr>ma_path = p, ma_digest = sha256_hex c, ma_size = int (length c)\<rparr> \<in> set es" using f F by simp
  from e' [OF this] obtain c' where c': "(p, c') \<in> F'" "sha256_hex c = sha256_hex c'" by auto
  then have "c = c'" using inj f pc by (auto dest!: inj_onD intro: rev_image_eqI)
  then show "f \<in> F'" using c'(1) pc by simp
qed

lemma entries_small:
  assumes "\<And>e. e \<in> set es \<Longrightarrow> \<exists>c. (ma_path e, c) \<in> F \<and> ma_digest e = sha256_hex c \<and> ma_size e = int (length c)"
    and "\<forall>f \<in> F. short_file f"
  shows "\<forall>e \<in> set es. entry_small e"
proof
  fix e assume "e \<in> set es"
  then obtain c where c: "(ma_path e, c) \<in> F" "ma_digest e = sha256_hex c" "ma_size e = int (length c)" using assms(1) by blast
  then have "short (ma_path e)" "short c" using assms(2) unfolding short_file_def by force+
  moreover have "short (sha256_hex c)" by (simp add: short_def word_sized_def)
  ultimately show "entry_small e" using c by (simp add: entry_small_def short_def)
qed

text \<open>
  C35: a template fingerprint identifies the template.  If two computations, on whatever disks and
  configurations, answer the same fingerprint, and SHA-256 has no collision among the files they read
  and the two manifests they hashed, then they name the same template path and have read the same
  files with the same contents, whatever the order of the dependencies and the links that lead to them.
\<close>

theorem manifest_identifies_files:
  assumes "TemplateManifestSHA256V1 dk m key = Inr (t, h)" "TemplateManifestSHA256V1 dk' m' key' = Inr (t', h)"
    and "links_settled dk" "links_settled dk'"
    and short: "\<forall>f \<in> manifest_files dk m key \<union> manifest_files dk' m' key'. short_file f"
    and inj: "inj_on sha256_hex (snd ` manifest_files dk m key \<union> snd ` manifest_files dk' m' key')"
    and inj': "inj_on sha256_hex {manifest_input dk m key, manifest_input dk' m' key'}"
  shows "t = t' \<and> manifest_files dk m key = manifest_files dk' m' key'"
proof -
  let ?F = "manifest_files dk m key" and ?F' = "manifest_files dk' m' key'"
  obtain es where es: "h = sha256_hex (manifest_text t es)" "manifest_input dk m key = manifest_text t es"
    "t \<in> ma_path ` set es" "distinct (map ma_path es)"
    "\<And>p c. (p, c) \<in> ?F \<longleftrightarrow> \<lparr>ma_path = p, ma_digest = sha256_hex c, ma_size = int (length c)\<rparr> \<in> set es \<and> dk_Read dk p = Some c"
    "\<And>e. e \<in> set es \<Longrightarrow> \<exists>c. (ma_path e, c) \<in> ?F \<and> ma_digest e = sha256_hex c \<and> ma_size e = int (length c)"
    using assms(1,3) by (rule manifest_success) blast
  obtain fs where fs: "h = sha256_hex (manifest_text t' fs)" "manifest_input dk' m' key' = manifest_text t' fs"
    "t' \<in> ma_path ` set fs" "distinct (map ma_path fs)"
    "\<And>p c. (p, c) \<in> ?F' \<longleftrightarrow> \<lparr>ma_path = p, ma_digest = sha256_hex c, ma_size = int (length c)\<rparr> \<in> set fs \<and> dk_Read dk' p = Some c"
    "\<And>e. e \<in> set fs \<Longrightarrow> \<exists>c. (ma_path e, c) \<in> ?F' \<and> ma_digest e = sha256_hex c \<and> ma_size e = int (length c)"
    using assms(2,4) by (rule manifest_success) blast
  have small: "\<forall>e \<in> set es. entry_small e" "\<forall>e \<in> set fs. entry_small e"
    using entries_small [OF es(6)] entries_small [OF fs(6)] short by blast+
  have "manifest_text t es = manifest_text t' fs"
    using inj_onD [OF inj', of "manifest_text t es" "manifest_text t' fs"] es(1,2) fs(1,2) by auto
  then have eq: "t = t' \<and> set es = set fs" using es(3,4) small(1) fs(3,4) small(2) by (rule manifest_text_inj)
  then have same: "set es = set fs" by simp
  have "?F \<subseteq> ?F'" by (rule files_of_entries [OF es(5) fs(5,6) [folded same] inj])
  moreover have "?F' \<subseteq> ?F" by (rule files_of_entries [OF fs(5) es(5,6) [unfolded same] inj [unfolded Un_commute [of "snd ` ?F"]]])
  ultimately show ?thesis using eq by blast
qed

text \<open>A version directory with one template, named by its path under one key and by a link under another.\<close>

definition link_disk :: disk where
  "link_disk = (let asset = (\<lambda>p. if p = ''/v/t'' then Some \<lparr>fi_id = 2, fi_dir = False, fi_regular = True,
       fi_writable = False, fi_size = 1, fi_mtime = 5\<rparr> else None) in
     \<lparr>dk_Eval = [''/v'' \<mapsto> ''/v'', ''/v/t'' \<mapsto> ''/v/t'', ''/l'' \<mapsto> ''/v/t''],
      dk_Dir = (\<lambda>p. if p = ''/v'' then Some \<lparr>fi_id = 1, fi_dir = True, fi_regular = False, fi_writable = False,
        fi_size = 0, fi_mtime = 5\<rparr> else None),
      dk_Info = asset, dk_Before = asset, dk_After = asset, dk_Read = [''/v/t'' \<mapsto> ''x'']\<rparr>)"

definition link_manifests :: "string \<Rightarrow> TemplateManifestBinding option" where
  "link_manifests = [''direct'' \<mapsto> \<lparr>tm_VersionRoot = ''/v'', tm_TemplatePath = ''/v/t'', tm_Dependencies = []\<rparr>,
     ''linked'' \<mapsto> \<lparr>tm_VersionRoot = ''/v'', tm_TemplatePath = ''/l'', tm_Dependencies = []\<rparr>]"

definition link_entry :: manifestEntry where
  "link_entry = \<lparr>ma_path = ''/v/t'', ma_digest = sha256_hex ''x'', ma_size = 1\<rparr>"

lemma link_canonical:
  "canonicalManifestPath link_disk ''/v'' = Inr ''/v''" "canonicalManifestPath link_disk ''/v/t'' = Inr ''/v/t''"
  "canonicalManifestPath link_disk ''/l'' = Inr ''/v/t''"
  by (simp_all add: canonicalManifestPath_def link_disk_def Let_def attempt_def bindE_def rejectE_def) code_simp+

lemma link_settled: "links_settled link_disk"
proof -
  have "Clean ''/v'' = ''/v''" "Clean ''/v/t'' = ''/v/t''" by code_simp+
  then show ?thesis by (auto simp: links_settled_def link_disk_def Let_def)
qed

lemma link_loop: "manifest_loop link_disk ''/v'' [] [] [''/v/t''] = Inr [link_entry]"
proof -
  have inside: "inside ''/v'' ''/v/t''" "dirs_below ''/v'' ''/v/t'' = []" by code_simp+
  have "hashManifestAsset link_disk ''/v/t'' = Inr link_entry"
    by (simp add: hashManifestAsset_def link_disk_def Let_def attempt_def changed_def link_entry_def)
  moreover have "dk_Info link_disk ''/v/t'' \<noteq> None" by (simp add: link_disk_def Let_def)
  ultimately show ?thesis using inside by (auto simp: link_canonical attempt_def)
qed

lemma link_entries:
  assumes "link_manifests key = Some b"
  shows "manifest_entries link_disk b = Inr (''/v/t'', [link_entry])"
proof -
  have "b = \<lparr>tm_VersionRoot = ''/v'', tm_TemplatePath = ''/v/t'', tm_Dependencies = []\<rparr>
      \<or> b = \<lparr>tm_VersionRoot = ''/v'', tm_TemplatePath = ''/l'', tm_Dependencies = []\<rparr>"
    using assms by (auto simp: link_manifests_def split: if_splits)
  moreover have "read_only_dir (dk_Dir link_disk ''/v'')" by (simp add: link_disk_def Let_def read_only_dir_def)
  ultimately show ?thesis
    by (auto simp: manifest_entries_def link_canonical link_loop simp del: manifest_loop.simps)
qed

lemma link_text:
  assumes "key = ''direct'' \<or> key = ''linked''"
  shows "TemplateManifestSHA256V1 link_disk link_manifests key = Inr (''/v/t'', sha256_hex (manifest_text ''/v/t'' [link_entry]))"
    and "manifest_input link_disk link_manifests key = manifest_text ''/v/t'' [link_entry]"
    and "manifest_files link_disk link_manifests key \<subseteq> {(''/v/t'', ''x'')}"
proof -
  obtain b where b: "link_manifests key = Some b" "tm_Dependencies b = []"
    "canonicalManifestPath link_disk (tm_TemplatePath b) = Inr ''/v/t''"
    using assms by (auto simp: link_manifests_def link_canonical)
  note e = link_entries [OF b(1)]
  show "TemplateManifestSHA256V1 link_disk link_manifests key = Inr (''/v/t'', sha256_hex (manifest_text ''/v/t'' [link_entry]))"
    "manifest_input link_disk link_manifests key = manifest_text ''/v/t'' [link_entry]"
    using b(1) e by (simp_all add: TemplateManifestSHA256V1_def manifest_input_def attempt_def)
  have "dk_Read link_disk ''/v/t'' = Some ''x''" by (simp add: link_disk_def Let_def)
  then show "manifest_files link_disk link_manifests key \<subseteq> {(''/v/t'', ''x'')}"
    using b link_canonical(2) by (auto simp: manifest_files_def)
qed

theorem manifest_identifies_files_witness:
  "(\<exists>h. TemplateManifestSHA256V1 link_disk link_manifests ''direct'' = Inr (''/v/t'', h)
      \<and> TemplateManifestSHA256V1 link_disk link_manifests ''linked'' = Inr (''/v/t'', h))
   \<and> manifest_files link_disk link_manifests ''direct'' = manifest_files link_disk link_manifests ''linked''"
proof -
  note d = link_text [of "''direct''", simplified] and l = link_text [of "''linked''", simplified]
  have files: "manifest_files link_disk link_manifests ''direct'' \<union> manifest_files link_disk link_manifests ''linked''
      \<subseteq> {(''/v/t'', ''x'')}" using d(3) l(3) by blast
  then have contents: "snd ` manifest_files link_disk link_manifests ''direct'' \<union> snd ` manifest_files link_disk link_manifests ''linked''
      \<subseteq> {''x''}" by auto
  have "inj_on sha256_hex {''x''}" by simp
  from inj_on_subset [OF this contents]
  have inj: "inj_on sha256_hex (snd ` manifest_files link_disk link_manifests ''direct'' \<union> snd ` manifest_files link_disk link_manifests ''linked'')" .
  have "short_file (''/v/t'', ''x'')" by (simp add: short_file_def short_def word_sized_def)
  then have short: "\<forall>f \<in> manifest_files link_disk link_manifests ''direct'' \<union> manifest_files link_disk link_manifests ''linked''. short_file f"
    using files by blast
  have "manifest_files link_disk link_manifests ''direct'' = manifest_files link_disk link_manifests ''linked''"
    by (rule manifest_identifies_files [OF d(1) l(1) link_settled link_settled short inj, THEN conjunct2]) (simp add: d(2) l(2))
  then show ?thesis using d(1) l(1) by blast
qed

end
