(* ===== verification/LocalFacts.thy ===== *)
theory LocalFacts
  imports Manifest NetJoin
begin

text \<open>
  What a controller tells about its own node (\<open>internal/controller/config/config.go\<close> and \<open>facts.go\<close>): the
  validation of its configuration, the content facts with the cache of digests that the heartbeat keeps,
  and the facts of one heartbeat.  The disk is that of Manifest, with the two JSON files as what reading
  and decoding them answers; the decomposition of a URL is an argument, as \<open>net/url\<close> answers it.
\<close>

section \<open>Configuration\<close>

record ContentBinding =
  cb_WorkshopID :: string
  cb_CurrentLinkPath :: string
  cb_MetadataPath :: string

record Config =
  co_PlatformURL :: string
  co_Development :: bool
  co_NodeID :: string
  co_NodeSecretFile :: string
  co_D2CoreBuildFile :: string
  co_D2CoreDataDir :: string
  co_HardMaxInstances :: int
  co_Network :: NetworkFacts
  co_TemplateBindings :: "(string \<times> string) list"
  co_TemplateManifests :: "(string \<times> TemplateManifestBinding) list"
  co_ContentBindings :: "ContentBinding list"

text \<open>\<open>ur_Loopback\<close>: the host name is an IP address of the loopback network.\<close>

record url_parts =
  ur_Scheme :: string
  ur_Host :: string
  ur_Hostname :: string
  ur_User :: bool
  ur_Path :: string
  ur_RawQuery :: string
  ur_Fragment :: string
  ur_Loopback :: bool

definition config_nodeIDPattern :: "string \<Rightarrow> bool" where
  "config_nodeIDPattern s \<longleftrightarrow> map length (split_on (CHR ''-'') s) = [8, 4, 4, 4, 12]
     \<and> list_all (list_all is_lower_hex) (split_on (CHR ''-'') s)"

fun content_bindings_loop :: "string list \<Rightarrow> ContentBinding list \<Rightarrow> unit res" where
  "content_bindings_loop seen [] = Inr ()"
| "content_bindings_loop seen (b # bs) =
     rejectE (\<not> ValidWorkshop (cb_WorkshopID b) \<or> cb_WorkshopID b \<in> set seen
              \<or> \<not> IsAbs (cb_CurrentLinkPath b) \<or> \<not> IsAbs (cb_MetadataPath b)) (Invalid ''invalid content binding'')
       (content_bindings_loop (cb_WorkshopID b # seen) bs)"

definition origin_url :: "url_parts \<Rightarrow> bool" where
  "origin_url u \<longleftrightarrow> ur_Host u \<noteq> [] \<and> \<not> ur_User u \<and> ur_Path u = [] \<and> ur_RawQuery u = [] \<and> ur_Fragment u = []"

definition secure_url :: "bool \<Rightarrow> url_parts \<Rightarrow> bool" where
  "secure_url development u \<longleftrightarrow> ur_Scheme u = ''https''
     \<or> development \<and> ur_Scheme u = ''http'' \<and> (ur_Hostname u = ''localhost'' \<or> ur_Loopback u)"

definition Config_Validate :: "(string \<Rightarrow> url_parts option) \<Rightarrow> Config \<Rightarrow> unit res" where
  "Config_Validate urlParse c =
     bindE (attempt ''platformUrl must be a URL origin'' (urlParse (co_PlatformURL c))) (\<lambda>u.
     rejectE (\<not> origin_url u) (Invalid ''platformUrl must be a URL origin'') (
     rejectE (\<not> secure_url (co_Development c) u) (Invalid ''controller requires HTTPS except for loopback development'') (
     rejectE (\<not> config_nodeIDPattern (co_NodeID c) \<or> \<not> IsAbs (co_NodeSecretFile c))
       (Invalid ''node ID and absolute secret file are required'') (
     rejectE (\<not> list_all validateCorePath [co_D2CoreBuildFile c, co_D2CoreDataDir c]) (Invalid ''d2core path'') (
     bindE (NetworkFacts_Validate (co_Network c) (co_HardMaxInstances c)) (\<lambda>_.
     rejectE (list_ex (\<lambda>(key, path). key = [] \<or> \<not> validateCorePath path) (co_TemplateBindings c))
       (Invalid ''template binding'') (
     content_bindings_loop [] (co_ContentBindings c))))))))"

section \<open>Content facts\<close>

record buildManifest =
  bm_Version :: string
  bm_GitCommit :: string

record contentMetadata =
  cm_WorkshopID :: string
  cm_ContentVersionID :: string
  cm_ReleasePath :: string
  cm_VPKSHA256 :: string

text \<open>\<open>lo_Metadata\<close> and \<open>lo_Build\<close>: reading and decoding the file succeeds with this value.\<close>

record local =
  lo_disk :: disk
  lo_Metadata :: "string \<Rightarrow> contentMetadata option"
  lo_Build :: "string \<Rightarrow> buildManifest option"

type_synonym vpk_cache = "string \<Rightarrow> (file_info \<times> string) option"

definition same_file :: "file_info \<Rightarrow> file_info \<Rightarrow> bool" where
  "same_file i j \<longleftrightarrow> fi_id i = fi_id j \<and> fi_size i = fi_size j \<and> fi_mtime i = fi_mtime j"

definition unknown_fact :: "string \<Rightarrow> ContentFact" where
  "unknown_fact w = \<lparr>cf_WorkshopID = w, cf_ContentVersionID = [], cf_VPKSHA256 = [], cf_State = FUnknown\<rparr>"

definition metadata_ok :: "ContentBinding \<Rightarrow> contentMetadata \<Rightarrow> bool" where
  "metadata_ok b m \<longleftrightarrow> cm_WorkshopID m = cb_WorkshopID b \<and> cm_ContentVersionID m \<noteq> []
     \<and> IsAbs (cm_ReleasePath m) \<and> revisionPattern (cm_VPKSHA256 m)"

definition linked_release :: "disk \<Rightarrow> string \<Rightarrow> string \<Rightarrow> bool" where
  "linked_release dk link release = (case (dk_Dir dk link, dk_Dir dk release) of
      (Some i, Some j) \<Rightarrow> fi_dir i \<and> fi_dir j \<and> fi_id i = fi_id j
    | _ \<Rightarrow> False)"

text \<open>The digest of a file, from the cache while identity, size and time are those of the cached read.\<close>

definition hash_vpk :: "disk \<Rightarrow> string \<Rightarrow> file_info \<Rightarrow> vpk_cache \<Rightarrow> (string \<times> vpk_cache) option" where
  "hash_vpk dk path info cache =
     Option.bind (dk_Read dk path) (\<lambda>bytes.
     Option.bind (dk_After dk path) (\<lambda>after.
     if \<not> same_file info after then None
     else Some (sha256_hex bytes, cache(path \<mapsto> (after, sha256_hex bytes)))))"

definition vpk_digest :: "disk \<Rightarrow> string \<Rightarrow> vpk_cache \<Rightarrow> (string \<times> vpk_cache) option" where
  "vpk_digest dk path cache =
     Option.bind (dk_Before dk path) (\<lambda>info.
     if fi_dir info then None
     else case cache path of
         None \<Rightarrow> hash_vpk dk path info cache
       | Some (seen, digest) \<Rightarrow> if same_file seen info then Some (digest, cache) else hash_vpk dk path info cache)"

definition readContentFact :: "local \<Rightarrow> ContentBinding \<Rightarrow> vpk_cache \<Rightarrow> ContentFact \<times> vpk_cache" where
  "readContentFact lo b cache =
     (let unknown = unknown_fact (cb_WorkshopID b) in
      case lo_Metadata lo (cb_MetadataPath b) of
        None \<Rightarrow> (unknown, cache)
      | Some m \<Rightarrow>
          if \<not> metadata_ok b m \<or> \<not> linked_release (lo_disk lo) (cb_CurrentLinkPath b) (cm_ReleasePath m) then (unknown, cache)
          else case vpk_digest (lo_disk lo) (Join [cm_ReleasePath m, ''pak01_dir.vpk'']) cache of
              None \<Rightarrow> (unknown, cache)
            | Some (digest, cache) \<Rightarrow>
                if digest \<noteq> cm_VPKSHA256 m then (unknown, cache)
                else (unknown\<lparr>cf_ContentVersionID := cm_ContentVersionID m, cf_VPKSHA256 := digest,
                        cf_State := FConfirmed\<rparr>, cache))"

fun read_facts :: "local \<Rightarrow> ContentBinding list \<Rightarrow> vpk_cache \<Rightarrow> ContentFact list \<times> vpk_cache" where
  "read_facts lo [] cache = ([], cache)"
| "read_facts lo (b # bs) cache =
     (let (f, cache) = readContentFact lo b cache; (fs, cache) = read_facts lo bs cache in (f # fs, cache))"

text \<open>The check before a create reads afresh.\<close>

definition local_content_fact :: "Config \<Rightarrow> local \<Rightarrow> string \<Rightarrow> ContentFact" where
  "local_content_fact c lo w = (case find (\<lambda>b. cb_WorkshopID b = w) (co_ContentBindings c) of
      Some b \<Rightarrow> fst (readContentFact lo b Map.empty)
    | None \<Rightarrow> unknown_fact w)"

section \<open>The facts of a heartbeat\<close>

definition template_fact :: "Config \<Rightarrow> local \<Rightarrow> string \<Rightarrow> TemplateFact" where
  "template_fact c lo key = (case TemplateManifestSHA256V1 (lo_disk lo) (map_of (co_TemplateManifests c)) key of
      Inl _ \<Rightarrow> \<lparr>tfa_BindingKey = key, tfa_State = FUnknown, tfa_ManifestAlgorithm = [], tfa_FingerprintSHA256 = []\<rparr>
    | Inr (_, digest) \<Rightarrow> \<lparr>tfa_BindingKey = key, tfa_State = FConfirmed,
        tfa_ManifestAlgorithm = TemplateManifestAlgorithmV1, tfa_FingerprintSHA256 = digest\<rparr>)"

definition core_build :: "Config \<Rightarrow> local \<Rightarrow> string \<times> string" where
  "core_build c lo = (case lo_Build lo (co_D2CoreBuildFile c) of
      Some m \<Rightarrow> if bm_Version m \<noteq> [] \<and> bm_GitCommit m \<noteq> [] then (bm_Version m, bm_GitCommit m) else (''unknown'', ''unknown'')
    | None \<Rightarrow> (''unknown'', ''unknown''))"

definition Facts :: "Config \<Rightarrow> string \<Rightarrow> string \<Rightarrow> int \<Rightarrow> local \<Rightarrow> vpk_cache \<Rightarrow> Heartbeat \<times> vpk_cache" where
  "Facts c os version protocol lo cache =
     (let (core, commit) = core_build c lo;
          (content, cache) = read_facts lo (co_ContentBindings c) cache in
      (\<lparr>hb_OS = os, hb_ControllerVersion = version, hb_NodeAPIVersion = 1,
        hb_D2CoreVersion = core, hb_D2CoreCommit = commit, hb_D2CoreProtocolVersion = protocol,
        hb_HardMaxInstances = co_HardMaxInstances c, hb_Network = co_Network c, hb_A2SQueryOK = False,
        hb_A2SDiagnostics = [], hb_Content = content,
        hb_Capabilities = [''contentValidationV102'', ''templateManifestSha256V1'', ''coreInventoryV1''],
        hb_InventoryScanID = [], hb_InventoryState = [],
        hb_TemplateFacts = map (template_fact c lo) (sort (remdups (map fst (co_TemplateManifests c))))\<rparr>, cache))"

section \<open>A confirmed content was hashed\<close>

text \<open>Every cached digest was computed by an earlier read of an unchanged file.\<close>

definition hashed_at :: "disk \<Rightarrow> string \<Rightarrow> file_info \<Rightarrow> string \<Rightarrow> bool" where
  "hashed_at dk path info digest \<longleftrightarrow> (\<exists>bytes i. dk_Read dk path = Some bytes \<and> digest = sha256_hex bytes
     \<and> dk_Before dk path = Some i \<and> \<not> fi_dir i \<and> same_file i info)"

definition cache_sound :: "disk list \<Rightarrow> vpk_cache \<Rightarrow> bool" where
  "cache_sound dks cache \<longleftrightarrow> (\<forall>path info digest. cache path = Some (info, digest) \<longrightarrow> (\<exists>dk \<in> set dks. hashed_at dk path info digest))"

lemma same_file_sym: "same_file i j \<longleftrightarrow> same_file j i"
  by (auto simp: same_file_def)

lemma same_file_trans: "same_file i j \<Longrightarrow> same_file j k \<Longrightarrow> same_file i k"
  by (auto simp: same_file_def)

lemma hashed_at_same: "hashed_at dk path i d \<Longrightarrow> same_file i j \<Longrightarrow> hashed_at dk path j d"
  by (auto simp: hashed_at_def intro: same_file_trans)

lemma cache_sound_more: "cache_sound dks cache \<Longrightarrow> set dks \<subseteq> set dks' \<Longrightarrow> cache_sound dks' cache"
  by (fastforce simp: cache_sound_def)

lemma hash_vpk_sound:
  assumes "hash_vpk dk path info cache = Some (d, cache')" "dk_Before dk path = Some info" "\<not> fi_dir info" "cache_sound dks cache"
  shows "hashed_at dk path info d" "cache_sound (dk # dks) cache'"
proof -
  obtain bytes after where b: "dk_Read dk path = Some bytes" "same_file info after" "d = sha256_hex bytes"
    "cache' = cache(path \<mapsto> (after, d))"
    using assms(1) by (auto simp: hash_vpk_def split: Option.bind_splits if_splits)
  show h: "hashed_at dk path info d" using b assms(2,3) by (auto simp: hashed_at_def same_file_def)
  show "cache_sound (dk # dks) cache'"
    using assms(4) hashed_at_same [OF h b(2)] by (auto simp: cache_sound_def b(4))
qed

lemma vpk_digest_sound:
  assumes "vpk_digest dk path cache = Some (d, cache')" "cache_sound dks cache"
  shows "\<exists>info dk'. dk_Before dk path = Some info \<and> \<not> fi_dir info \<and> dk' \<in> set (dk # dks) \<and> hashed_at dk' path info d"
    and "cache_sound (dk # dks) cache'"
proof -
  obtain info where i: "dk_Before dk path = Some info" "\<not> fi_dir info"
    "hash_vpk dk path info cache = Some (d, cache')
     \<or> (\<exists>seen. cache path = Some (seen, d) \<and> same_file seen info \<and> cache' = cache)"
    using assms(1) by (auto simp: vpk_digest_def split: Option.bind_splits if_splits option.splits)
  then have "\<exists>dk' \<in> set (dk # dks). hashed_at dk' path info d" "cache_sound (dk # dks) cache'"
  proof (atomize (full), elim disjE exE conjE)
    fix seen assume seen: "cache path = Some (seen, d)" "same_file seen info" "cache' = cache"
    then obtain dk' where "dk' \<in> set dks" "hashed_at dk' path seen d"
      using assms(2) seen(1) unfolding cache_sound_def by blast
    then show "(\<exists>dk' \<in> set (dk # dks). hashed_at dk' path info d) \<and> cache_sound (dk # dks) cache'"
      using hashed_at_same [OF _ seen(2)] seen(3) cache_sound_more [OF assms(2), of "dk # dks"] by auto
  qed (use hash_vpk_sound [OF _ i(1,2) assms(2)] in auto)
  then show "\<exists>info dk'. dk_Before dk path = Some info \<and> \<not> fi_dir info \<and> dk' \<in> set (dk # dks) \<and> hashed_at dk' path info d"
    "cache_sound (dk # dks) cache'" using i(1,2) by blast+
qed

text \<open>What stands behind a confirmed fact: the metadata, the link and a read of the file as it is now.\<close>

definition proved_by :: "local \<Rightarrow> disk set \<Rightarrow> ContentBinding \<Rightarrow> ContentFact \<Rightarrow> bool" where
  "proved_by lo dks b f \<longleftrightarrow> cb_WorkshopID b = cf_WorkshopID f \<and> (\<exists>m info dk. lo_Metadata lo (cb_MetadataPath b) = Some m
     \<and> cm_WorkshopID m = cf_WorkshopID f \<and> cm_ContentVersionID m = cf_ContentVersionID f \<and> cm_VPKSHA256 m = cf_VPKSHA256 f
     \<and> linked_release (lo_disk lo) (cb_CurrentLinkPath b) (cm_ReleasePath m)
     \<and> dk_Before (lo_disk lo) (Join [cm_ReleasePath m, ''pak01_dir.vpk'']) = Some info
     \<and> dk \<in> dks \<and> hashed_at dk (Join [cm_ReleasePath m, ''pak01_dir.vpk'']) info (cf_VPKSHA256 f))"

lemma readContentFact_sound:
  assumes "readContentFact lo b cache = (f, cache')" "cache_sound dks cache"
  shows "cf_State f = FConfirmed \<Longrightarrow> proved_by lo (set (lo_disk lo # dks)) b f"
    and "cache_sound (lo_disk lo # dks) cache'"
proof -
  note more = cache_sound_more [OF assms(2), of "lo_disk lo # dks"]
  have r: "f = unknown_fact (cb_WorkshopID b) \<and> cache' = cache \<or> (\<exists>m digest.
      lo_Metadata lo (cb_MetadataPath b) = Some m \<and> metadata_ok b m
      \<and> linked_release (lo_disk lo) (cb_CurrentLinkPath b) (cm_ReleasePath m)
      \<and> vpk_digest (lo_disk lo) (Join [cm_ReleasePath m, ''pak01_dir.vpk'']) cache = Some (digest, cache')
      \<and> (f = unknown_fact (cb_WorkshopID b) \<or> digest = cm_VPKSHA256 m
          \<and> f = (unknown_fact (cb_WorkshopID b))\<lparr>cf_ContentVersionID := cm_ContentVersionID m, cf_VPKSHA256 := digest,
                   cf_State := FConfirmed\<rparr>))"
    using assms(1) by (auto simp: readContentFact_def Let_def split: option.splits if_splits)
  then show "cache_sound (lo_disk lo # dks) cache'"
    using more vpk_digest_sound(2) [OF _ assms(2)] by auto
  assume confirmed: "cf_State f = FConfirmed"
  then obtain m where m: "lo_Metadata lo (cb_MetadataPath b) = Some m" "metadata_ok b m"
      "linked_release (lo_disk lo) (cb_CurrentLinkPath b) (cm_ReleasePath m)"
      "vpk_digest (lo_disk lo) (Join [cm_ReleasePath m, ''pak01_dir.vpk'']) cache = Some (cm_VPKSHA256 m, cache')"
      "f = (unknown_fact (cb_WorkshopID b))\<lparr>cf_ContentVersionID := cm_ContentVersionID m, cf_VPKSHA256 := cm_VPKSHA256 m,
                   cf_State := FConfirmed\<rparr>"
    using r by (auto simp: unknown_fact_def)
  then show "proved_by lo (set (lo_disk lo # dks)) b f"
    using vpk_digest_sound(1) [OF m(4) assms(2)] by (auto simp: proved_by_def metadata_ok_def unknown_fact_def)
qed

lemma read_facts_sound:
  "read_facts lo bs cache = (fs, cache') \<Longrightarrow> cache_sound dks cache \<Longrightarrow> lo_disk lo \<in> set dks \<Longrightarrow>
     list_all2 (\<lambda>b f. cf_State f = FConfirmed \<longrightarrow> proved_by lo (set dks) b f) bs fs \<and> cache_sound dks cache'"
proof (induction bs arbitrary: cache fs cache')
  case (Cons b bs)
  obtain f c1 where f: "readContentFact lo b cache = (f, c1)" by (cases "readContentFact lo b cache")
  obtain gs c2 where gs: "read_facts lo bs c1 = (gs, c2)" by (cases "read_facts lo bs c1")
  have same: "set (lo_disk lo # dks) = set dks" using Cons.prems(3) by auto
  note sound = readContentFact_sound [OF f Cons.prems(2)]
  have "cache_sound dks c1" using sound(2) cache_sound_more [of "lo_disk lo # dks" c1 dks] same by auto
  then show ?case using Cons.IH [OF gs _ Cons.prems(3)] sound(1) Cons.prems(1) f gs same by auto
qed simp

text \<open>The cache of a reader after some heartbeats, the latest first.\<close>

fun reader_cache :: "Config \<Rightarrow> string \<Rightarrow> string \<Rightarrow> (int \<times> local) list \<Rightarrow> vpk_cache" where
  "reader_cache c os version [] = Map.empty"
| "reader_cache c os version ((protocol, lo) # past) = snd (Facts c os version protocol lo (reader_cache c os version past))"

lemma Facts_content:
  "hb_Content (fst (Facts c os version protocol lo cache)) = fst (read_facts lo (co_ContentBindings c) cache)"
  "snd (Facts c os version protocol lo cache) = snd (read_facts lo (co_ContentBindings c) cache)"
  by (simp_all add: Facts_def split: prod.splits)

lemma reader_cache_sound: "cache_sound (map (\<lambda>h. lo_disk (snd h)) past) (reader_cache c os version past)"
proof (induction past)
  case (Cons h past)
  obtain p lo where h: "h = (p, lo)" by (cases h)
  let ?dks = "map (\<lambda>h. lo_disk (snd h)) (h # past)"
  have "cache_sound ?dks (reader_cache c os version past)" using Cons by (rule cache_sound_more) auto
  then show ?case
    using read_facts_sound [of lo "co_ContentBindings c" "reader_cache c os version past" _ _ ?dks]
    by (simp add: h Facts_content) (metis prod.collapse)
qed (simp add: cache_sound_def)

text \<open>
  C36: a confirmed content was hashed.  Whatever happens on the disk between the heartbeats of a
  controller, a heartbeat confirms a version of a workshop only if its metadata name that version and
  digest now, the link leads to the release of the metadata now, and the digest was computed in this or
  an earlier heartbeat from the bytes of the release's file, which has had the same identity, size and
  time ever since that read as far as the heartbeat can see.
\<close>

theorem confirmed_content_was_hashed:
  assumes "(h, cache) = Facts c os version protocol lo (reader_cache c os version past)"
    and f: "f \<in> set (hb_Content h)" "cf_State f = FConfirmed"
  shows "\<exists>b \<in> set (co_ContentBindings c). proved_by lo (set (map (\<lambda>h. lo_disk (snd h)) ((protocol, lo) # past))) b f"
proof -
  let ?dks = "map (\<lambda>h. lo_disk (snd h)) ((protocol, lo) # past)"
  have "cache_sound ?dks (reader_cache c os version past)" using reader_cache_sound by (rule cache_sound_more) auto
  moreover obtain fs cache' where fs: "read_facts lo (co_ContentBindings c) (reader_cache c os version past) = (fs, cache')"
    by fastforce
  ultimately have "list_all2 (\<lambda>b f. cf_State f = FConfirmed \<longrightarrow> proved_by lo (set ?dks) b f) (co_ContentBindings c) fs"
    using read_facts_sound [OF fs, of ?dks] by simp
  moreover have "hb_Content h = fs"
    using Facts_content(1) [of c os version protocol lo "reader_cache c os version past"] fs assms(1) by (cases "Facts c os version protocol lo (reader_cache c os version past)") auto
  ultimately show ?thesis using f by (fastforce simp: list_all2_conv_all_nth in_set_conv_nth)
qed

text \<open>A release behind a link, as two heartbeats see it.\<close>

definition content_binding :: ContentBinding where
  "content_binding = \<lparr>cb_WorkshopID = ''1'', cb_CurrentLinkPath = ''/c'', cb_MetadataPath = ''/m''\<rparr>"

definition content_config :: "Config \<Rightarrow> Config" where
  "content_config c = c\<lparr>co_ContentBindings := [content_binding]\<rparr>"

definition content_metadata :: contentMetadata where
  "content_metadata = \<lparr>cm_WorkshopID = ''1'', cm_ContentVersionID = ''v1'', cm_ReleasePath = ''/r'', cm_VPKSHA256 = sha256_hex ''x''\<rparr>"

definition content_local :: local where
  "content_local =
     (let file = (\<lambda>p. if p = ''/r/pak01_dir.vpk'' then Some \<lparr>fi_id = 8, fi_dir = False, fi_regular = True,
        fi_writable = False, fi_size = 1, fi_mtime = 5\<rparr> else None) in
      \<lparr>lo_disk = \<lparr>dk_Eval = Some, dk_Dir = (\<lambda>p. if p \<in> {''/c'', ''/r''} then Some \<lparr>fi_id = 7, fi_dir = True, fi_regular = False,
           fi_writable = False, fi_size = 0, fi_mtime = 5\<rparr> else None), dk_Info = file, dk_Before = file, dk_After = file,
         dk_Read = [''/r/pak01_dir.vpk'' \<mapsto> ''x'']\<rparr>,
       lo_Metadata = [''/m'' \<mapsto> content_metadata], lo_Build = Map.empty\<rparr>)"

lemma content_confirmed:
  "fst (readContentFact content_local content_binding Map.empty)
     = \<lparr>cf_WorkshopID = ''1'', cf_ContentVersionID = ''v1'', cf_VPKSHA256 = sha256_hex ''x'', cf_State = FConfirmed\<rparr>"
proof -
  have "IsAbs ''/r''" "Join [''/r'', ''pak01_dir.vpk''] = ''/r/pak01_dir.vpk''" by code_simp+
  then show ?thesis
    by (simp add: readContentFact_def Let_def content_local_def content_binding_def content_metadata_def metadata_ok_def
        linked_release_def vpk_digest_def hash_vpk_def same_file_def unknown_fact_def revision_of_digest)
qed

theorem confirmed_content_was_hashed_witness:
  "\<forall>c os version. \<exists>f \<in> set (hb_Content (fst (Facts (content_config c) os version 1 content_local (reader_cache (content_config c) os version [])))).
     cf_VPKSHA256 f = sha256_hex ''x'' \<and> proved_by content_local {lo_disk content_local} content_binding f"
proof (intro allI)
  fix c os version
  let ?c = "content_config c"
  obtain h cache where h: "(h, cache) = Facts ?c os version 1 content_local (reader_cache ?c os version [])" by (metis prod.exhaust)
  let ?f = "fst (readContentFact content_local content_binding Map.empty)"
  have "hb_Content h = [?f]" using Facts_content(1) [of ?c os version 1 content_local Map.empty] h
    by (simp add: content_config_def split: prod.splits) (metis fst_conv)
  then have f: "?f \<in> set (hb_Content h)" "cf_State ?f = FConfirmed" by (simp_all add: content_confirmed)
  have "proved_by content_local {lo_disk content_local} content_binding ?f"
    using confirmed_content_was_hashed [OF h f] by (auto simp: content_config_def)
  moreover have "cf_VPKSHA256 ?f = sha256_hex ''x''" by (simp add: content_confirmed)
  ultimately show "\<exists>f \<in> set (hb_Content (fst (Facts ?c os version 1 content_local (reader_cache ?c os version [])))).
      cf_VPKSHA256 f = sha256_hex ''x'' \<and> proved_by content_local {lo_disk content_local} content_binding f"
    unfolding h [symmetric] fst_conv using f(1) by blast
qed

text \<open>The check before a create hashes now, whatever a heartbeat has cached.\<close>

lemma fresh_content_was_hashed:
  assumes "cf_State (local_content_fact c lo w) = FConfirmed"
  shows "\<exists>b \<in> set (co_ContentBindings c). proved_by lo {lo_disk lo} b (local_content_fact c lo w)"
proof -
  obtain b where b: "find (\<lambda>b. cb_WorkshopID b = w) (co_ContentBindings c) = Some b"
    "local_content_fact c lo w = fst (readContentFact lo b Map.empty)"
    using assms by (auto simp: local_content_fact_def unknown_fact_def split: option.splits)
  have "cache_sound [] Map.empty" by (simp add: cache_sound_def)
  then show ?thesis
    using readContentFact_sound(1) [of lo b Map.empty _ _ "[]"] b find_SomeD [OF b(1)] assms
    by (cases "readContentFact lo b Map.empty") auto
qed

section \<open>The heartbeat is one that the platform accepts\<close>

definition plain_text :: "string \<Rightarrow> bool" where
  "plain_text s \<longleftrightarrow> length s \<le> 128 \<and> \<not> contains_any s [CHR 13, CHR 10, CHR 0x00]"

text \<open>What \<open>Validate\<close> does not check: the sizes and names on which the contract insists.\<close>

definition reportable_config :: "Config \<Rightarrow> local \<Rightarrow> bool" where
  "reportable_config c lo \<longleftrightarrow> length (co_ContentBindings c) \<le> 128 \<and> length (co_TemplateManifests c) \<le> 256
     \<and> (\<forall>key \<in> set (map fst (co_TemplateManifests c)). key \<noteq> [] \<and> plain_text key)
     \<and> (\<forall>b \<in> set (co_ContentBindings c). \<forall>m. lo_Metadata lo (cb_MetadataPath b) = Some m \<longrightarrow> plain_text (cm_ContentVersionID m))
     \<and> length (fst (core_build c lo)) \<le> 128 \<and> length (snd (core_build c lo)) \<le> 128"

definition binding_ok :: "ContentBinding \<Rightarrow> bool" where
  "binding_ok b \<longleftrightarrow> ValidWorkshop (cb_WorkshopID b) \<and> IsAbs (cb_CurrentLinkPath b) \<and> IsAbs (cb_MetadataPath b)"

interpretation bindings: seen_loop cb_WorkshopID binding_ok content_bindings_loop
  by unfold_locales (auto simp: rejectE_Inr binding_ok_def)

lemma valid_config:
  "Config_Validate u c = Inr () \<Longrightarrow> NetworkFacts_Validate (co_Network c) (co_HardMaxInstances c) = Inr ()
     \<and> (\<forall>b \<in> set (co_ContentBindings c). binding_ok b) \<and> distinct (map cb_WorkshopID (co_ContentBindings c))"
  by (auto simp: Config_Validate_def bindE_Inr rejectE_Inr bindings.loop_start_iff)

lemma read_fact_ok:
  assumes "ValidWorkshop (cb_WorkshopID b)" "\<forall>m. lo_Metadata lo (cb_MetadataPath b) = Some m \<longrightarrow> plain_text (cm_ContentVersionID m)"
  shows "content_ok (fst (readContentFact lo b cache))" "cf_WorkshopID (fst (readContentFact lo b cache)) = cb_WorkshopID b"
proof -
  obtain f c1 where f: "readContentFact lo b cache = (f, c1)" by (cases "readContentFact lo b cache")
  have "content_ok f \<and> cf_WorkshopID f = cb_WorkshopID b" using f assms
    by (auto simp: readContentFact_def Let_def content_ok_def unknown_fact_def plain_text_def contains_any_def
        metadata_ok_def split: option.splits if_splits)
  then show "content_ok (fst (readContentFact lo b cache))" "cf_WorkshopID (fst (readContentFact lo b cache)) = cb_WorkshopID b"
    using f by simp_all
qed

lemma read_facts_ok:
  assumes "\<forall>b \<in> set bs. ValidWorkshop (cb_WorkshopID b)
      \<and> (\<forall>m. lo_Metadata lo (cb_MetadataPath b) = Some m \<longrightarrow> plain_text (cm_ContentVersionID m))"
  shows "(\<forall>f \<in> set (fst (read_facts lo bs cache)). content_ok f)
    \<and> map cf_WorkshopID (fst (read_facts lo bs cache)) = map cb_WorkshopID bs"
  using assms
proof (induction bs arbitrary: cache)
  case (Cons b bs)
  obtain f c1 where f: "readContentFact lo b cache = (f, c1)" by (cases "readContentFact lo b cache")
  obtain fs c2 where fs: "read_facts lo bs c1 = (fs, c2)" by (cases "read_facts lo bs c1")
  show ?case using Cons.IH [of c1] Cons.prems read_fact_ok [of b lo cache] by (simp add: f fs)
qed simp

lemma template_fact_ok: "key \<noteq> [] \<Longrightarrow> plain_text key \<Longrightarrow> template_ok (template_fact c lo key)"
  by (auto simp: template_fact_def template_ok_def plain_text_def TemplateManifestSHA256V1_def bindE_Inr revision_of_digest
      split: sum.splits)

lemma template_facts_ok:
  assumes "\<forall>key \<in> set keys. key \<noteq> [] \<and> plain_text key"
  shows "(\<forall>f \<in> set (map (template_fact c lo) keys). template_ok f)" and "map tfa_BindingKey (map (template_fact c lo) keys) = keys"
proof -
  show "(\<forall>f \<in> set (map (template_fact c lo) keys). template_ok f)" using assms template_fact_ok by auto
  have "tfa_BindingKey (template_fact c lo key) = key" for key by (simp add: template_fact_def split: sum.splits prod.splits)
  then show "map tfa_BindingKey (map (template_fact c lo) keys) = keys" by (simp add: map_idI)
qed

text \<open>
  The facts with what the cycle adds to them: the scan, and diagnostics of the instances.
\<close>

lemma facts_valid:
  assumes "Config_Validate u c = Inr ()" "reportable_config c lo" "(h, cache') = Facts c os version protocol lo cache"
    and "os = ''windows'' \<or> os = ''linux''" "\<not> all_space version" "length version \<le> 128"
    and "state = ''confirmed'' \<or> state = ''unknown''" "scan \<noteq> []" "length scan \<le> 128"
    and "(ds \<noteq> [] \<or> ok) \<longrightarrow> nf_A2SEnabled (co_Network c)" "length ds \<le> 4096"
    and "diagnostics_loop (nf_LocalPortMin (co_Network c)) (nf_LocalPortMax (co_Network c)) [] [] ds = Inr ()"
  shows "Heartbeat_Validate (h\<lparr>hb_InventoryScanID := scan, hb_InventoryState := state,
           hb_A2SDiagnostics := ds, hb_A2SQueryOK := ok\<rparr>) = Inr ()"
proof -
  note v = valid_config [OF assms(1)]
  let ?keys = "sort (remdups (map fst (co_TemplateManifests c)))"
  obtain fs c2 where fs: "read_facts lo (co_ContentBindings c) cache = (fs, c2)" by (cases "read_facts lo (co_ContentBindings c) cache")
  have keys: "\<forall>key \<in> set ?keys. key \<noteq> [] \<and> plain_text key" using assms(2) by (auto simp: reportable_config_def)
  have "templates_loop [] (map (template_fact c lo) ?keys) = Inr ()"
    unfolding tmpl.loop_start_iff template_facts_ok(2) [OF keys] using template_facts_ok(1) [OF keys] by simp
  moreover have "length ?keys \<le> 256"
    using assms(2) length_remdups_leq [of "map fst (co_TemplateManifests c)"] by (simp add: reportable_config_def)
  moreover have content: "(\<forall>f \<in> set fs. content_ok f) \<and> map cf_WorkshopID fs = map cb_WorkshopID (co_ContentBindings c)"
    using read_facts_ok [of "co_ContentBindings c" lo cache] v assms(2) fs by (auto simp: binding_ok_def reportable_config_def)
  moreover have "content_loop [] fs = Inr ()" unfolding content.loop_start_iff using content v by simp
  moreover have "length fs = length (co_ContentBindings c)" using content by (metis length_map)
  moreover have "ValidateCapabilities [''contentValidationV102'', ''templateManifestSha256V1'', ''coreInventoryV1''] = Inr ()"
    by code_simp
  moreover obtain core commit where core: "core_build c lo = (core, commit)" by fastforce
  moreover have "length core \<le> 128" "length commit \<le> 128" using assms(2) core by (simp_all add: reportable_config_def)
  moreover have "h = \<lparr>hb_OS = os, hb_ControllerVersion = version, hb_NodeAPIVersion = 1,
        hb_D2CoreVersion = core, hb_D2CoreCommit = commit, hb_D2CoreProtocolVersion = protocol,
        hb_HardMaxInstances = co_HardMaxInstances c, hb_Network = co_Network c, hb_A2SQueryOK = False,
        hb_A2SDiagnostics = [], hb_Content = fs,
        hb_Capabilities = [''contentValidationV102'', ''templateManifestSha256V1'', ''coreInventoryV1''],
        hb_InventoryScanID = [], hb_InventoryState = [], hb_TemplateFacts = map (template_fact c lo) ?keys\<rparr>"
    using assms(3) core fs by (simp add: Facts_def)
  moreover have "0 \<le> co_HardMaxInstances c" using v by (simp add: validate_network)
  moreover have "length (co_ContentBindings c) \<le> 128" using assms(2) by (simp add: reportable_config_def)
  ultimately show ?thesis using assms(4-) v
    by (simp only: Heartbeat_Validate_def rejectE_Inr bindE_Inr Heartbeat.simps Heartbeat.update_convs length_map simp_thms) auto
qed

text \<open>
  The names of manifests are not part of the validation of a configuration, and one bad name is enough
  for the contract to refuse the heartbeat.
\<close>

lemma unchecked_key_refuses_heartbeat:
  "Config_Validate u (c\<lparr>co_TemplateManifests := ms\<rparr>) = Config_Validate u c
   \<and> ([] \<in> fst ` set (co_TemplateManifests c) \<longrightarrow> Heartbeat_Validate (fst (Facts c os version protocol lo cache)) \<noteq> Inr ())"
proof (intro conjI impI notI)
  show "Config_Validate u (c\<lparr>co_TemplateManifests := ms\<rparr>) = Config_Validate u c" by (simp add: Config_Validate_def)
  let ?keys = "sort (remdups (map fst (co_TemplateManifests c)))"
  assume "[] \<in> fst ` set (co_TemplateManifests c)" "Heartbeat_Validate (fst (Facts c os version protocol lo cache)) = Inr ()"
  moreover have "hb_TemplateFacts (fst (Facts c os version protocol lo cache)) = map (template_fact c lo) ?keys"
    by (simp add: Facts_def split: prod.splits)
  ultimately have "[] \<in> set ?keys" "templates_loop [] (map (template_fact c lo) ?keys) = Inr ()"
    by (auto simp: Heartbeat_Validate_def bindE_Inr rejectE_Inr)
  then have "template_ok (template_fact c lo [])" unfolding tmpl.loop_start_iff by auto
  moreover have "tfa_BindingKey (template_fact c lo []) = []" by (simp add: template_fact_def split: sum.splits prod.splits)
  ultimately show False by (simp add: template_ok_def)
qed

end
