(* ===== verification/Cycle.thy ===== *)
theory Cycle
  imports LocalFacts NodeSession Nodes Runner
begin

text \<open>
  The cycle of a controller (\<open>cmd/node-controller/main.go\<close>) and its diagnostics of instances
  (\<open>internal/controller/network/a2s.go\<close>): session, list of the core, inventory, heartbeat and then the jobs.
  The platform is a record of the exchanges that the cycle makes, over a state of its own, so a lost
  answer or an answer of an older platform is one such record; what the core, the UDP sockets, the clock and the
  random source answer are arguments.
\<close>

section \<open>A2S queries\<close>

definition a2sHeader :: string where
  "a2sHeader = replicate 4 (CHR 0xFF)"

definition a2sInfoRequest :: string where
  "a2sInfoRequest = a2sHeader @ [CHR 0x54] @ ''Source Engine Query'' @ [CHR 0x00]"

text \<open>\<open>net\<close> answers the datagrams sent so far, \<open>None\<close> when writing or reading fails; a buffer takes 2048 bytes.\<close>

fun a2s_rounds :: "(string list \<Rightarrow> string option) \<Rightarrow> nat \<Rightarrow> bool \<Rightarrow> string list \<Rightarrow> string \<Rightarrow> unit res" where
  "a2s_rounds net 0 first sent request = Inl (Invalid ''A2S info response absent'')"
| "a2s_rounds net (Suc k) first sent request =
     bindE (attempt ''A2S exchange'' (map_option (take 2048) (net (sent @ [request])))) (\<lambda>buf.
     rejectE (length buf < 5 \<or> take 4 buf \<noteq> a2sHeader) (Invalid ''invalid A2S response header'') (
     if buf ! 4 = CHR 0x49 then rejectE (length buf < 8) (Invalid ''incomplete A2S info response'') (Inr ())
     else if buf ! 4 = CHR 0x41 then
       rejectE (\<not> first \<or> length buf \<noteq> 9) (Invalid ''invalid A2S challenge'')
         (a2s_rounds net k False (sent @ [request]) (a2sInfoRequest @ drop 5 buf))
     else Inl (Invalid ''unexpected A2S response'')))"

definition QueryA2SInfo :: "(string list \<Rightarrow> string option) \<Rightarrow> int \<Rightarrow> unit res" where
  "QueryA2SInfo net port =
     rejectE (port < 1 \<or> 65535 < port) (Invalid ''invalid A2S port'') (a2s_rounds net 2 True [] a2sInfoRequest)"

text \<open>
  What a probe meets at the instance with an index: too little time is left before its query, the
  context has ended after it, and the instant as RFC 3339 text.
\<close>

record probe_env =
  pb_Short :: "nat \<Rightarrow> bool"
  pb_Ended :: "nat \<Rightarrow> bool"
  pb_Net :: "nat \<Rightarrow> string list \<Rightarrow> string option"
  pb_Now :: "nat \<Rightarrow> string"

definition instance_ready :: "Instance \<Rightarrow> bool" where
  "instance_ready i \<longleftrightarrow> in_Lifecycle i = ''active'' \<and> in_Process i = ''running'' \<and> in_Room i = ''ready''"

fun probe_loop :: "probe_env \<Rightarrow> nat \<Rightarrow> Instance list \<Rightarrow> A2SDiagnostic list" where
  "probe_loop e k [] = []"
| "probe_loop e k (i # rest) =
     (if \<not> instance_ready i then probe_loop e (Suc k) rest
      else if pb_Short e k then []
      else (let ok = okE (QueryA2SInfo (pb_Net e k) (in_Port i)) in
        if \<not> ok \<and> pb_Ended e k then []
        else \<lparr>ad_InstanceID = in_InstanceID i, ad_LocalPort = in_Port i, ad_Status = (if ok then ''ok'' else ''failed''),
               ad_CheckedAt = pb_Now e k\<rparr> # probe_loop e (Suc k) rest))"

definition ProbeReadyInstances :: "probe_env \<Rightarrow> Instance list \<Rightarrow> A2SDiagnostic list" where
  "ProbeReadyInstances e instances = probe_loop e 0 instances"

section \<open>The inventory of a list\<close>

definition inventory_instance :: "Instance \<Rightarrow> InventoryInstance" where
  "inventory_instance i = \<lparr>ii_InstanceID = in_InstanceID i, ii_Lifecycle = in_Lifecycle i, ii_Process = in_Process i,
     ii_Cleanup = in_Cleanup i, ii_CurrentOperationID = in_CurrentOperationID i\<rparr>"

definition inventoryForList :: "string \<Rightarrow> run_error + ListResult \<Rightarrow> InventoryReport" where
  "inventoryForList scan r =
     (let failed = (\<lambda>code. \<lparr>ir_ScanID = scan, ir_Complete = False, ir_Instances = [], ir_ErrorCode = code\<rparr>) in
      case r of
        Inl e \<Rightarrow> failed ''CORE_LIST_FAILED''
      | Inr ls \<Rightarrow> (case ls_Instances ls of
          None \<Rightarrow> failed ''CORE_LIST_INVALID''
        | Some instances \<Rightarrow>
            (let report = \<lparr>ir_ScanID = scan, ir_Complete = True,
                   ir_Instances = map inventory_instance (filter (\<lambda>i. \<not> (in_Lifecycle i = ''reclaimed''
                     \<and> in_Process i = ''stopped'' \<and> in_Cleanup i = ''complete'')) instances), ir_ErrorCode = []\<rparr> in
             if okE (InventoryReport_Validate report) then report else failed ''CORE_LIST_INVALID'')))"

section \<open>The platform and the controller\<close>

text \<open>The exchanges carry the session token of the client as the code's \<open>do\<close> does.\<close>

record 's platform =
  pl_Session :: "CapabilitySessionRequest \<Rightarrow> 's \<Rightarrow> (CapabilitySession res) \<times> 's"
  pl_Inventory :: "string \<Rightarrow> InventoryReport \<Rightarrow> 's \<Rightarrow> (unit res) \<times> 's"
  pl_Heartbeat :: "string \<Rightarrow> Heartbeat \<Rightarrow> 's \<Rightarrow> (HeartbeatResult res) \<times> 's"
  pl_Reconciled :: "string \<Rightarrow> int \<Rightarrow> 's \<Rightarrow> (unit res) \<times> 's"

record 's controller =
  ct_client :: Client
  ct_cache :: vpk_cache
  ct_platform :: 's

text \<open>What one cycle finds: the configuration and version of the process, and the answers of its surroundings.\<close>

record surroundings =
  su_config :: Config
  su_os :: string
  su_version :: string
  su_now :: time
  su_scan :: "string option"
  su_list :: "run_error + ListResult"
  su_local :: local
  su_probe :: probe_env

definition listed :: "run_error + ListResult \<Rightarrow> Instance list" where
  "listed r = (case r of Inl _ \<Rightarrow> [] | Inr ls \<Rightarrow> (case ls_Instances ls of None \<Rightarrow> [] | Some instances \<Rightarrow> instances))"

definition with_diagnostics :: "surroundings \<Rightarrow> Heartbeat \<Rightarrow> Heartbeat" where
  "with_diagnostics su h =
     (if nf_A2SEnabled (co_Network (su_config su)) \<and> okE (su_list su) then
        (let ds = ProbeReadyInstances (su_probe su) (listed (su_list su)) in
         h\<lparr>hb_A2SDiagnostics := ds, hb_A2SQueryOK := ds \<noteq> [] \<and> list_all (\<lambda>d. ad_Status d = ''ok'') ds\<rparr>)
      else h)"

text \<open>The second component: the list is usable for a cycle of jobs.\<close>

definition send :: "'s platform \<Rightarrow> surroundings \<Rightarrow> 's controller \<Rightarrow> ((HeartbeatResult \<times> bool) res) \<times> 's controller" where
  "send pl su ct =
     (let (ensured, client, s) = EnsureSession (pl_Session pl) (su_now su) (ct_client ct, ct_platform ct) in
      case su_scan su of
        None \<Rightarrow> (Inl (Invalid ''no randomness''), ct\<lparr>ct_client := client, ct_platform := s\<rparr>)
      | Some scan \<Rightarrow>
          (let inventory = inventoryForList scan (su_list su);
               (h, cache) = Facts (su_config su) (su_os su) (su_version su) (if okE (su_list su) then 1 else 0) (su_local su) (ct_cache ct);
               (reported, s) = (if okE ensured then pl_Inventory pl (cl_sessionToken client) inventory s else (ensured, s));
               confirmed = okE reported \<and> ir_Complete inventory;
               client = (if confirmed then client else DropSession client);
               h = with_diagnostics su (h\<lparr>hb_InventoryScanID := scan,
                     hb_InventoryState := if confirmed then ''confirmed'' else ''unknown''\<rparr>);
               (answer, s) = pl_Heartbeat pl (cl_sessionToken client) h s;
               ct = \<lparr>ct_client = client, ct_cache = cache, ct_platform = s\<rparr> in
           case answer of
             Inl e \<Rightarrow> (Inl e, ct)
           | Inr result \<Rightarrow> (Inr (result, okE (su_list su) \<and> ir_Complete inventory), ct)))"

text \<open>
  One turn of the loop of \<open>run\<close>.  The jobs run against the environment of the runner; their calls follow
  the history \<open>h\<close> of earlier ones.
\<close>

definition run_turn :: "'s platform \<Rightarrow> env \<Rightarrow> Runner \<Rightarrow> surroundings \<Rightarrow> call list \<Rightarrow> 's controller \<Rightarrow> 's controller \<times> call list" where
  "run_turn pl ev worker su h ct =
     (case send pl su ct of
        (Inr (result, True), ct) \<Rightarrow>
          if \<not> hr_Compatible result then (ct, [])
          else (case su_list su of
            Inl _ \<Rightarrow> (ct, [])
          | Inr ls \<Rightarrow>
              (let (((), errors), calls) = StepWithList ev worker ls h in
               if errors = [] \<and> hr_Completed result < hr_Requested result
               then (ct\<lparr>ct_platform := snd (pl_Reconciled pl (cl_sessionToken (ct_client ct)) (hr_Requested result) (ct_platform ct))\<rparr>, calls)
               else (ct, calls)))
      | (_, ct) \<Rightarrow> (ct, []))"

section \<open>The inventory is always one that the contract admits\<close>

text \<open>The report lists every instance of the core that is not proved reclaimed.\<close>

definition lists_all :: "(run_error + ListResult) \<Rightarrow> InventoryReport \<Rightarrow> bool" where
  "lists_all r p \<longleftrightarrow> (\<exists>ls instances. r = Inr ls \<and> ls_Instances ls = Some instances
     \<and> ir_Instances p = map inventory_instance (filter (\<lambda>i. \<not> (in_Lifecycle i = ''reclaimed''
         \<and> in_Process i = ''stopped'' \<and> in_Cleanup i = ''complete'')) instances))"

lemma inventory_complete:
  "ir_ScanID (inventoryForList scan r) = scan" "ir_Complete (inventoryForList scan r) \<Longrightarrow> lists_all r (inventoryForList scan r)"
  by (auto simp: inventoryForList_def Let_def lists_all_def split: sum.splits option.splits if_splits)

lemma failed_inventory_valid:
  assumes "coreTokenPattern scan" "code = ''CORE_LIST_FAILED'' \<or> code = ''CORE_LIST_INVALID''"
  shows "InventoryReport_Validate \<lparr>ir_ScanID = scan, ir_Complete = False, ir_Instances = [], ir_ErrorCode = code\<rparr> = Inr ()"
proof -
  have "coreTokenPattern ''CORE_LIST_FAILED''" "coreTokenPattern ''CORE_LIST_INVALID''" by code_simp+
  then show ?thesis using assms by (auto simp: InventoryReport_Validate_def rejectE_Inr coreTokenPattern_def)
qed

lemma inventory_report_valid:
  assumes "coreTokenPattern scan"
  shows "InventoryReport_Validate (inventoryForList scan r) = Inr ()"
  using failed_inventory_valid [OF assms]
  by (auto simp: inventoryForList_def Let_def okE_def split: sum.splits option.splits)

section \<open>Diagnostics within the port range\<close>

definition instances_reportable :: "NetworkFacts \<Rightarrow> Instance list \<Rightarrow> bool" where
  "instances_reportable n xs \<longleftrightarrow> length xs \<le> 4096 \<and> distinct (map in_InstanceID xs)
     \<and> distinct (map in_Port (filter instance_ready xs))
     \<and> (\<forall>i \<in> set xs. instance_ready i \<longrightarrow> coreTokenPattern (in_InstanceID i)
          \<and> nf_LocalPortMin n \<le> in_Port i \<and> in_Port i \<le> nf_LocalPortMax n)"

definition timed :: "probe_env \<Rightarrow> bool" where
  "timed e \<longleftrightarrow> (\<forall>k. parse_rfc3339 (pb_Now e k) \<notin> {None, Some 0})"

lemma probe_loop_length: "length (probe_loop e k xs) \<le> length xs"
  by (induction e k xs rule: probe_loop.induct) (auto simp: Let_def)

lemma probe_loop_valid:
  "timed e \<Longrightarrow> distinct (map in_InstanceID xs) \<Longrightarrow> distinct (map in_Port (filter instance_ready xs))
    \<Longrightarrow> (\<forall>i \<in> set xs. instance_ready i \<longrightarrow> coreTokenPattern (in_InstanceID i) \<and> lo \<le> in_Port i \<and> in_Port i \<le> hi)
    \<Longrightarrow> set ids \<inter> in_InstanceID ` set xs = {} \<Longrightarrow> set ports \<inter> in_Port ` set (filter instance_ready xs) = {}
    \<Longrightarrow> diagnostics_loop lo hi ids ports (probe_loop e k xs) = Inr ()"
proof (induction e k xs arbitrary: ids ports rule: probe_loop.induct)
  case (2 e k i rest)
  note prems = "2.prems"(2-) and timed = "2.prems"(1)
  note t = timed [unfolded timed_def, rule_format, of k]
  show ?case
  proof (cases "instance_ready i \<and> \<not> pb_Short e k \<and> (okE (QueryA2SInfo (pb_Net e k) (in_Port i)) \<or> \<not> pb_Ended e k)")
    case True
    have "diagnostics_loop lo hi (in_InstanceID i # ids) (in_Port i # ports) (probe_loop e (Suc k) rest) = Inr ()"
      using True prems timed by (intro "2.IH"(2)) auto
    then show ?thesis using True prems t by (auto simp: Let_def rejectE_Inr)
  next
    case False
    have "diagnostics_loop lo hi ids ports (probe_loop e (Suc k) rest) = Inr ()" if "\<not> instance_ready i"
      using that prems timed by (intro "2.IH"(1)) auto
    then show ?thesis using False by (auto simp: Let_def)
  qed
qed simp

section \<open>What a cycle tells the platform\<close>

text \<open>A platform that writes down what it was told, with its answer.\<close>

datatype message = Inventory string InventoryReport "unit res" | Beat string Heartbeat "HeartbeatResult res"

definition recording :: "'s platform \<Rightarrow> ('s \<times> message list) platform" where
  "recording pl =
     \<lparr>pl_Session = (\<lambda>q (s, l). case pl_Session pl q s of (a, s) \<Rightarrow> (a, s, l)),
      pl_Inventory = (\<lambda>t p (s, l). case pl_Inventory pl t p s of (a, s) \<Rightarrow> (a, s, l @ [Inventory t p a])),
      pl_Heartbeat = (\<lambda>t h (s, l). case pl_Heartbeat pl t h s of (a, s) \<Rightarrow> (a, s, l @ [Beat t h a])),
      pl_Reconciled = (\<lambda>t g (s, l). case pl_Reconciled pl t g s of (a, s) \<Rightarrow> (a, s, l))\<rparr>"

abbreviation told :: "('s \<times> message list) controller \<Rightarrow> message list" where
  "told ct \<equiv> snd (ct_platform ct)"

lemma ensured_recording:
  "EnsureSession (pl_Session (recording pl)) now (c, s) = (r, c', s') \<Longrightarrow> snd s' = snd s"
  by (cases s) (auto simp: EnsureSession_def recording_def split: if_splits prod.splits sum.splits)

lemma ensured_token: "EnsureSession post now (c, s) = (Inr x, c', s') \<Longrightarrow> cl_sessionToken c' \<noteq> []"
  by (auto simp: EnsureSession_def lasting_def accept_session_def rejectE_Inr split: if_splits prod.splits sum.splits)

text \<open>The messages of a send: at most one inventory, and a heartbeat that fits its answer.\<close>

definition beat_of :: "surroundings \<Rightarrow> vpk_cache \<Rightarrow> string \<Rightarrow> string \<Rightarrow> Heartbeat" where
  "beat_of su cache scan state = with_diagnostics su ((fst (Facts (su_config su) (su_os su) (su_version su)
      (if okE (su_list su) then 1 else 0) (su_local su) cache))\<lparr>hb_InventoryScanID := scan, hb_InventoryState := state\<rparr>)"

lemma beat_fields [simp]:
  "hb_InventoryState (beat_of su cache scan state) = state" "hb_InventoryScanID (beat_of su cache scan state) = scan"
  by (simp_all add: beat_of_def with_diagnostics_def Let_def)

lemma send_messages:
  assumes "send (recording pl) su ct = (r, ct')" "su_scan su = Some scan"
  defines "p \<equiv> inventoryForList scan (su_list su)"
  shows "\<exists>state tok a tells. told ct' = told ct @ tells @ [Beat tok (beat_of su (ct_cache ct) scan state) a]
     \<and> (tells = [] \<and> state = ''unknown'' \<and> tok = []
        \<or> (\<exists>t b. tells = [Inventory t p b] \<and> t \<noteq> []
             \<and> (if okE b \<and> ir_Complete p then state = ''confirmed'' \<and> tok = t else state = ''unknown'' \<and> tok = [])))
     \<and> tok = cl_sessionToken (ct_client ct')
     \<and> r = (case a of Inl e \<Rightarrow> Inl e | Inr result \<Rightarrow> Inr (result, okE (su_list su) \<and> ir_Complete p))"
proof -
  obtain ensured client s where e: "EnsureSession (pl_Session (recording pl)) (su_now su) (ct_client ct, ct_platform ct) = (ensured, client, s)"
    by (metis prod.exhaust)
  obtain s0 l where s: "s = (s0, l)" by (cases s)
  have l: "l = told ct" using ensured_recording [OF e] s by simp
  obtain h cache where f: "Facts (su_config su) (su_os su) (su_version su) (if okE (su_list su) then 1 else 0) (su_local su) (ct_cache ct) = (h, cache)"
    by fastforce
  obtain b s1 where b: "pl_Inventory pl (cl_sessionToken client) p s0 = (b, s1)" by fastforce
  note run = assms(1) [unfolded send_def e Let_def assms(2) option.case prod.case f s p_def [symmetric]]
  have dropped: "cl_sessionToken (DropSession client) = []" by (simp add: DropSession_def)
  have beat: "with_diagnostics su (h\<lparr>hb_InventoryScanID := scan, hb_InventoryState := state\<rparr>) = beat_of su (ct_cache ct) scan state" for state
    using f by (simp add: beat_of_def)
  show ?thesis
  proof (cases ensured)
    case (Inl x)
    obtain a s2 where a: "pl_Heartbeat pl [] (beat_of su (ct_cache ct) scan ''unknown'') s0 = (a, s2)" by fastforce
    show ?thesis
      by (rule exI [of _ "''unknown''"], rule exI [of _ "[]"], rule exI [of _ a], rule exI [of _ "[]"])
         (use run in \<open>auto simp: Inl dropped beat recording_def a l p_def split: sum.splits\<close>)
  next
    case (Inr x)
    then have token: "cl_sessionToken client \<noteq> []" using e by (auto dest: ensured_token)
    define ok where "ok \<longleftrightarrow> okE b \<and> ir_Complete p"
    define state where "state = (if ok then ''confirmed'' else ''unknown'')"
    define tok where "tok = (if ok then cl_sessionToken client else [])"
    obtain a s2 where a: "pl_Heartbeat pl tok (beat_of su (ct_cache ct) scan state) s1 = (a, s2)" by fastforce
    show ?thesis
      by (rule exI [of _ state], rule exI [of _ tok], rule exI [of _ a], rule exI [of _ "[Inventory (cl_sessionToken client) p b]"])
         (use run token a in \<open>auto simp: Inr dropped beat recording_def b l ok_def state_def tok_def split: sum.splits if_splits\<close>)
  qed
qed

lemma send_without_scan:
  assumes "send (recording pl) su ct = (r, ct')" "su_scan su = None"
  shows "told ct' = told ct"
proof -
  obtain ensured client s where "EnsureSession (pl_Session (recording pl)) (su_now su) (ct_client ct, ct_platform ct) = (ensured, client, s)"
    by (metis prod.exhaust)
  then show ?thesis using assms ensured_recording by (fastforce simp: send_def)
qed

text \<open>
  C37: a heartbeat confirms only the inventory that the platform has just accepted.  Whatever core and
  platform answer in a cycle, the heartbeat speaks of a confirmed inventory only if, earlier in the same
  cycle and in the same open session, the platform accepted a complete report of that scan with every
  instance of the core that is not proved reclaimed; in every other case it says that the inventory is
  unknown, carries no session, and the session is gone after the cycle.  The cycle goes on to the jobs
  only with a list that makes such a report.
\<close>

theorem heartbeat_confirms_accepted_inventory:
  assumes "send (recording pl) su ct = (r, ct')" "told ct = []" "Beat tok h a \<in> set (told ct')"
  shows "(if hb_InventoryState h = ''confirmed''
      then \<exists>p. told ct' = [Inventory tok p (Inr ()), Beat tok h a] \<and> tok \<noteq> [] \<and> ir_Complete p
             \<and> ir_ScanID p = hb_InventoryScanID h \<and> lists_all (su_list su) p
      else hb_InventoryState h = ''unknown'' \<and> tok = [] \<and> cl_sessionToken (ct_client ct') = [])
    \<and> (\<forall>result. r = Inr (result, True) \<longrightarrow> lists_all (su_list su) (inventoryForList (hb_InventoryScanID h) (su_list su)))"
proof -
  obtain scan where scan: "su_scan su = Some scan" using assms send_without_scan by (cases "su_scan su") fastforce+
  note inv = inventory_complete [of scan "su_list su"]
  obtain state b tells where m: "told ct' = tells @ [Beat (cl_sessionToken (ct_client ct')) (beat_of su (ct_cache ct) scan state) b]"
      "tells = [] \<and> state = ''unknown'' \<and> cl_sessionToken (ct_client ct') = []
        \<or> (\<exists>t b. tells = [Inventory t (inventoryForList scan (su_list su)) b] \<and> t \<noteq> []
             \<and> (if okE b \<and> ir_Complete (inventoryForList scan (su_list su))
                 then state = ''confirmed'' \<and> cl_sessionToken (ct_client ct') = t
                 else state = ''unknown'' \<and> cl_sessionToken (ct_client ct') = []))"
      "r = (case b of Inl e \<Rightarrow> Inl e | Inr result \<Rightarrow> Inr (result, okE (su_list su) \<and> ir_Complete (inventoryForList scan (su_list su))))"
    using send_messages [OF assms(1) scan] assms(2) by auto
  then have beat: "h = beat_of su (ct_cache ct) scan state" "tok = cl_sessionToken (ct_client ct')" "a = b" using assms(3) by auto
  show ?thesis using m inv by (auto simp: beat okE_iff split: if_splits sum.splits)
qed

text \<open>
  C38: every message of a cycle is one that the contract admits, when all of the following hold.  The
  configuration is valid, and beyond what its validation checks, it has at most 128 content bindings and 256
  template manifests, the keys of the manifests and the content versions in the metadata are plain texts, and
  the two version texts of the core have at most 128 characters; the operating system is windows or linux, the
  controller's version text is not blank and has at most 128 characters, and the scan identifier is a token; the
  clock texts of the probe parse; and with A2S diagnostics enabled the core lists at most 4096 instances with distinct
  identifiers, the ready ones with token identifiers on distinct ports of the configured range.  Then the
  inventory and the heartbeat of the cycle pass the validation with which the platform receives them, whatever
  the disk and the A2S queries answer.
\<close>

theorem cycle_messages_valid:
  assumes "send (recording pl) su ct = (r, ct')" "told ct = []"
    and "Config_Validate u (su_config su) = Inr ()" "reportable_config (su_config su) (su_local su)"
    and "su_os su = ''windows'' \<or> su_os su = ''linux''" "\<not> all_space (su_version su)" "length (su_version su) \<le> 128"
    and "\<forall>scan. su_scan su = Some scan \<longrightarrow> coreTokenPattern scan"
    and "nf_A2SEnabled (co_Network (su_config su)) \<longrightarrow> instances_reportable (co_Network (su_config su)) (listed (su_list su))"
    and "timed (su_probe su)" "x \<in> set (told ct')"
  shows "case x of Inventory t p a \<Rightarrow> InventoryReport_Validate p = Inr () | Beat t h a \<Rightarrow> Heartbeat_Validate h = Inr ()"
proof -
  obtain scan where scan: "su_scan su = Some scan" using assms(1,2,11) send_without_scan by (cases "su_scan su") fastforce+
  have token: "coreTokenPattern scan" using assms(8) scan by blast
  let ?n = "co_Network (su_config su)" and ?ds = "ProbeReadyInstances (su_probe su) (listed (su_list su))"
  have ds: "diagnostics_loop (nf_LocalPortMin ?n) (nf_LocalPortMax ?n) [] [] ?ds = Inr () \<and> length ?ds \<le> 4096" if "nf_A2SEnabled ?n"
    using probe_loop_valid [OF assms(10), of "listed (su_list su)"] assms(9) that
      probe_loop_length [of "su_probe su" 0 "listed (su_list su)"]
    by (auto simp: instances_reportable_def ProbeReadyInstances_def)
  have beat: "Heartbeat_Validate (beat_of su (ct_cache ct) scan state) = Inr ()" if state: "state = ''confirmed'' \<or> state = ''unknown''" for state
  proof -
    let ?protocol = "if okE (su_list su) then 1 else (0 :: int)"
    obtain h cache where h: "(h, cache) = Facts (su_config su) (su_os su) (su_version su) ?protocol (su_local su) (ct_cache ct)"
      by (metis prod.exhaust)
    note valid = facts_valid [OF assms(3,4) h assms(5-7) state]
    have scan_ok: "scan \<noteq> []" "length scan \<le> 128" using token by (simp_all add: coreTokenPattern_def)
    have "Heartbeat_Validate (h\<lparr>hb_InventoryScanID := scan, hb_InventoryState := state, hb_A2SDiagnostics := [], hb_A2SQueryOK := False\<rparr>) = Inr ()"
      by (rule valid [OF scan_ok]) simp_all
    moreover have "Heartbeat_Validate (h\<lparr>hb_InventoryScanID := scan, hb_InventoryState := state, hb_A2SDiagnostics := ?ds,
        hb_A2SQueryOK := ok\<rparr>) = Inr ()" if "nf_A2SEnabled ?n" for ok
      using ds that by (intro valid [OF scan_ok]) simp_all
    moreover have "hb_A2SDiagnostics h = []" "\<not> hb_A2SQueryOK h" using h by (simp_all add: Facts_def split: prod.splits)
    then have "h\<lparr>hb_InventoryScanID := scan, hb_InventoryState := state, hb_A2SDiagnostics := [], hb_A2SQueryOK := False\<rparr>
        = h\<lparr>hb_InventoryScanID := scan, hb_InventoryState := state\<rparr>" by simp
    ultimately show ?thesis by (simp add: beat_of_def with_diagnostics_def Let_def flip: h)
  qed
  show ?thesis using send_messages [OF assms(1) scan] assms(2,11) beat inventory_report_valid [OF token] by (auto split: if_splits)
qed

section \<open>An instance outside the port range\<close>

lemma diagnostics_in_range:
  "diagnostics_loop lo hi ids ports ds = Inr () \<Longrightarrow> d \<in> set ds \<Longrightarrow> lo \<le> ad_LocalPort d \<and> ad_LocalPort d \<le> hi"
  by (induction ds arbitrary: ids ports) (auto simp: rejectE_Inr)

lemma probe_reports:
  "\<forall>k. \<not> pb_Short e k \<and> \<not> pb_Ended e k \<Longrightarrow> i \<in> set xs \<Longrightarrow> instance_ready i \<Longrightarrow>
     \<exists>d \<in> set (probe_loop e k xs). ad_LocalPort d = in_Port i"
  by (induction xs arbitrary: k) (auto simp: Let_def)

text \<open>
  C39: one instance on a port outside the configured range silences its node for the cycle.  Assume that
  A2S diagnostics are enabled, that the list of the core succeeded and shows a ready instance on such a
  port, that the probe neither runs short of its budget nor is cut off, so that every instance is queried,
  and that the platform refuses a heartbeat which the contract does not admit.  Then the heartbeat of this cycle is
  refused, whatever else the core lists, and the turn of the controller makes no call for any job: no instance
  of the node is created, stopped or reported in it.
\<close>

theorem stray_port_stops_jobs:
  assumes "\<And>tok b s. Heartbeat_Validate b \<noteq> Inr () \<Longrightarrow> \<not> okE (fst (pl_Heartbeat pl tok b s))"
    and "nf_A2SEnabled (co_Network (su_config su))" "okE (su_list su)"
    and i: "i \<in> set (listed (su_list su))" "instance_ready i"
    and "in_Port i < nf_LocalPortMin (co_Network (su_config su)) \<or> nf_LocalPortMax (co_Network (su_config su)) < in_Port i"
    and "\<forall>k. \<not> pb_Short (su_probe su) k \<and> \<not> pb_Ended (su_probe su) k"
  shows "\<not> okE (fst (send pl su ct)) \<and> snd (run_turn pl ev worker su h ct) = []"
proof -
  let ?n = "co_Network (su_config su)"
  obtain d where d: "d \<in> set (ProbeReadyInstances (su_probe su) (listed (su_list su)))" "ad_LocalPort d = in_Port i"
    using probe_reports [OF assms(7) i] by (auto simp: ProbeReadyInstances_def)
  have refused: "Heartbeat_Validate (with_diagnostics su b) \<noteq> Inr ()" if "hb_Network b = ?n" for b
  proof
    assume "Heartbeat_Validate (with_diagnostics su b) = Inr ()"
    then have "diagnostics_loop (nf_LocalPortMin ?n) (nf_LocalPortMax ?n) [] [] (ProbeReadyInstances (su_probe su) (listed (su_list su))) = Inr ()"
      using assms(2,3) that by (auto simp: Heartbeat_Validate_def with_diagnostics_def Let_def bindE_Inr rejectE_Inr)
    from diagnostics_in_range [OF this d(1)] show False using assms(6) d(2) by auto
  qed
  have "hb_Network (fst (Facts c os v p lo cache)) = co_Network c" for c os v p lo cache
    by (simp add: Facts_def split: prod.splits)
  then have net: "Facts (su_config su) os v p lo cache = (b, cache') \<Longrightarrow> hb_Network b = ?n" for os v p lo cache b cache'
    by (metis fst_conv)
  obtain r ct' where send: "send pl su ct = (r, ct')" by fastforce
  have "\<not> okE r"
  proof (cases "su_scan su")
    case (Some scan)
    obtain b cache where b: "Facts (su_config su) (su_os su) (su_version su) (if okE (su_list su) then 1 else 0) (su_local su) (ct_cache ct) = (b, cache)"
      by fastforce
    have "\<not> okE (fst (pl_Heartbeat pl tok (with_diagnostics su (b\<lparr>hb_InventoryScanID := scan, hb_InventoryState := state\<rparr>)) s))"
      for tok state s using net [OF b] by (intro assms(1) refused) simp
    then have no: "pl_Heartbeat pl tok (with_diagnostics su (b\<lparr>hb_InventoryScanID := scan, hb_InventoryState := state\<rparr>)) s \<noteq> (Inr y, s')"
      for tok state s y s' by (metis fst_conv okE_simps(2))
    show ?thesis
    proof
      assume "okE r"
      then obtain y where "send pl su ct = (Inr y, ct')" using send by (auto simp: okE_iff)
      then show False using no by (auto simp: send_def Let_def Some b split: prod.splits sum.splits)
    qed
  qed (use send in \<open>auto simp: send_def split: prod.splits\<close>)
  moreover from this have "snd (run_turn pl ev worker su h ct) = []"
    using send by (auto simp: run_turn_def okE_iff split: sum.splits)
  ultimately show ?thesis by (simp add: send)
qed

section \<open>A concrete controller\<close>

definition sample_parse :: "string \<Rightarrow> url_parts option" where
  "sample_parse s = Some \<lparr>ur_Scheme = ''https'', ur_Host = ''p'', ur_Hostname = ''p'', ur_User = False, ur_Path = [],
     ur_RawQuery = [], ur_Fragment = [], ur_Loopback = False\<rparr>"

definition controller_config :: Config where
  "controller_config = \<lparr>co_PlatformURL = ''https://p'', co_Development = False, co_NodeID = ''00000000-0000-0000-0000-000000000001'',
     co_NodeSecretFile = ''/s'', co_D2CoreBuildFile = ''/b'', co_D2CoreDataDir = ''/d'', co_HardMaxInstances = 2,
     co_Network = \<lparr>nf_ConnectHost = ''host'', nf_ProtocolIP = [], nf_LocalPortMin = 27000, nf_LocalPortMax = 27009,
       nf_MappingMode = MIdentity, nf_Mappings = [], nf_A2SEnabled = True\<rparr>,
     co_TemplateBindings = [], co_TemplateManifests = [], co_ContentBindings = []\<rparr>"

definition sample_instance :: "int \<Rightarrow> Instance" where
  "sample_instance port = \<lparr>in_InstanceID = ''i1'', in_Port = port, in_Lifecycle = ''active'', in_Process = ''running'',
     in_Room = ''ready'', in_Cleanup = ''pending'', in_CurrentOperationID = []\<rparr>"

definition sample_local :: local where
  "sample_local = \<lparr>lo_disk = link_disk, lo_Metadata = (\<lambda>_. None), lo_Build = (\<lambda>_. None)\<rparr>"

definition sample_surroundings :: "Instance list \<Rightarrow> surroundings" where
  "sample_surroundings xs = \<lparr>su_config = controller_config, su_os = ''linux'', su_version = ''v1'', su_now = 0,
     su_scan = Some ''5a'', su_list = Inr \<lparr>ls_Instances = Some xs, ls_HistoryDays = 7\<rparr>, su_local = sample_local,
     su_probe = \<lparr>pb_Short = (\<lambda>_. False), pb_Ended = (\<lambda>_. False), pb_Net = (\<lambda>_ _. None),
       pb_Now = (\<lambda>_. ''2026-01-01T00:00:00Z'')\<rparr>\<rparr>"

definition sample_platform :: "unit platform" where
  "sample_platform = \<lparr>pl_Session = (\<lambda>_ s. (Inr \<lparr>cse_Token = ''t'', cse_ExpiresAt = 90 * second\<rparr>, s)),
     pl_Inventory = (\<lambda>_ _ s. (Inr (), s)),
     pl_Heartbeat = (\<lambda>_ h s. (case Heartbeat_Validate h of Inl e \<Rightarrow> Inl e
         | Inr _ \<Rightarrow> Inr \<lparr>hr_Compatible = True, hr_ReportedAt = 0, hr_Requested = 0, hr_Completed = 0\<rparr>, s)),
     pl_Reconciled = (\<lambda>_ _ s. (Inr (), s))\<rparr>"

definition sample_controller :: "'s \<Rightarrow> 's controller" where
  "sample_controller s = \<lparr>ct_client = new_client ''p1'', ct_cache = Map.empty, ct_platform = s\<rparr>"

lemma controller_config_valid: "Config_Validate sample_parse controller_config = Inr ()"
  by code_simp

lemma sample_told:
  obtains r ct' h tok a where "send (recording sample_platform) (sample_surroundings xs) (sample_controller ((), [])) = (r, ct')"
    "Beat tok h a \<in> set (told ct')"
proof -
  obtain r ct' where s: "send (recording sample_platform) (sample_surroundings xs) (sample_controller ((), [])) = (r, ct')" by fastforce
  have "su_scan (sample_surroundings xs) = Some ''5a''" by (simp add: sample_surroundings_def)
  from send_messages [OF s this] show ?thesis using that [OF s] by fastforce
qed

theorem cycle_messages_valid_witness:
  "\<exists>tok h a. Beat tok h a \<in> set (told (snd (send (recording sample_platform) (sample_surroundings [sample_instance 27001]) (sample_controller ((), [])))))
     \<and> Heartbeat_Validate h = Inr ()"
proof -
  let ?su = "sample_surroundings [sample_instance 27001]"
  obtain r ct' h tok a where s: "send (recording sample_platform) ?su (sample_controller ((), [])) = (r, ct')"
    "Beat tok h a \<in> set (told ct')" by (rule sample_told)
  have "instances_reportable (co_Network (su_config ?su)) (listed (su_list ?su))"
    by (simp add: instances_reportable_def sample_surroundings_def listed_def sample_instance_def controller_config_def instance_ready_def) code_simp
  moreover have "parse_rfc3339 ''2026-01-01T00:00:00Z'' \<notin> {None, Some 0}" by code_simp
  then have "timed (su_probe ?su)" by (simp add: timed_def sample_surroundings_def)
  moreover have "reportable_config (su_config ?su) (su_local ?su)"
    by (simp add: reportable_config_def sample_surroundings_def controller_config_def sample_local_def core_build_def)
  moreover have "coreTokenPattern ''5a''" "\<not> all_space ''v1''" by code_simp+
  ultimately have "case Beat tok h a of Inventory t p a \<Rightarrow> InventoryReport_Validate p = Inr () | Beat t h a \<Rightarrow> Heartbeat_Validate h = Inr ()"
    using controller_config_valid
    by (intro cycle_messages_valid [OF s(1) _ _ _ _ _ _ _ _ _ s(2)]) (auto simp: sample_surroundings_def sample_controller_def)
  then show ?thesis using s by auto
qed

lemma sample_accepted:
  obtains h a where "told (snd (send (recording sample_platform) (sample_surroundings []) (sample_controller ((), []))))
     = [Inventory ''t'' (inventoryForList ''5a'' (Inr \<lparr>ls_Instances = Some [], ls_HistoryDays = 7\<rparr>)) (Inr ()), Beat ''t'' h a]"
    "hb_InventoryState h = ''confirmed''"
proof -
  let ?su = "sample_surroundings []" and ?ls = "Inr \<lparr>ls_Instances = Some [], ls_HistoryDays = 7\<rparr> :: run_error + ListResult"
  obtain r ct' where s: "send (recording sample_platform) ?su (sample_controller ((), [])) = (r, ct')" by fastforce
  have su: "su_scan ?su = Some ''5a''" "su_list ?su = ?ls" "su_now ?su = 0" by (simp_all add: sample_surroundings_def)
  have "InventoryReport_Validate \<lparr>ir_ScanID = ''5a'', ir_Complete = True, ir_Instances = [], ir_ErrorCode = []\<rparr> = Inr ()" by code_simp
  then have c: "ir_Complete (inventoryForList ''5a'' ?ls)" by (simp add: inventoryForList_def)
  have e: "EnsureSession (pl_Session (recording sample_platform)) 0 (new_client ''p1'', ((), []))
      = (Inr (), (new_client ''p1'')\<lparr>cl_sessionToken := ''t'', cl_sessionExpires := Some (90 * second)\<rparr>, ((), []))"
    by (simp add: EnsureSession_def lasting_def new_client_def recording_def sample_platform_def accept_session_def second_def)
  obtain h cache where f: "Facts (su_config ?su) (su_os ?su) (su_version ?su) 1 (su_local ?su) Map.empty = (h, cache)" by fastforce
  let ?h = "with_diagnostics ?su (h\<lparr>hb_InventoryScanID := ''5a'', hb_InventoryState := ''confirmed''\<rparr>)"
  have "\<exists>a. told (snd (send (recording sample_platform) ?su (sample_controller ((), []))))
      = [Inventory ''t'' (inventoryForList ''5a'' ?ls) (Inr ()), Beat ''t'' ?h a]"
    unfolding send_def Let_def su sample_controller_def controller.simps e
    using c f by (cases "Heartbeat_Validate ?h") (simp_all add: recording_def sample_platform_def)
  then obtain a where a: "told (snd (send (recording sample_platform) ?su (sample_controller ((), []))))
      = [Inventory ''t'' (inventoryForList ''5a'' ?ls) (Inr ()), Beat ''t'' ?h a]" ..
  have "hb_InventoryState ?h = ''confirmed''" by (simp add: with_diagnostics_def Let_def)
  with a show ?thesis by (rule that)
qed

theorem heartbeat_confirms_accepted_inventory_witness:
  "\<exists>p h a. told (snd (send (recording sample_platform) (sample_surroundings []) (sample_controller ((), []))))
       = [Inventory ''t'' p (Inr ()), Beat ''t'' h a]
     \<and> hb_InventoryState h = ''confirmed'' \<and> ir_ScanID p = hb_InventoryScanID h"
proof -
  obtain r ct' where s: "send (recording sample_platform) (sample_surroundings []) (sample_controller ((), [])) = (r, ct')" by fastforce
  obtain h a where h: "Beat ''t'' h a \<in> set (told ct')" "hb_InventoryState h = ''confirmed''"
    using sample_accepted s by (metis list.set_intros snd_conv)
  have "told (sample_controller ((), [])) = []" by (simp add: sample_controller_def)
  from heartbeat_confirms_accepted_inventory [OF s this h(1)] h(2) s show ?thesis by auto
qed

theorem stray_port_stops_jobs_witness:
  "\<forall>ev worker. \<not> okE (fst (send sample_platform (sample_surroundings [sample_instance 28000]) (sample_controller ())))
     \<and> snd (run_turn sample_platform ev worker (sample_surroundings [sample_instance 28000]) [] (sample_controller ())) = []"
  by (intro allI, rule stray_port_stops_jobs [of _ _ "sample_instance 28000"])
     (auto simp: sample_platform_def sample_surroundings_def controller_config_def listed_def sample_instance_def instance_ready_def
        split: sum.splits)

end
