(* ===== verification/Migrations.thy ===== *)
theory Migrations
  imports Paths Heartbeat AdminCatalogue "HOL-Library.Char_ord" "HOL-Library.List_Lexorder"
begin

text \<open>
  Schema migrations (\<open>internal/platform/store/migrations.go\<close>).  What the SQL of a file does to the schema
  and the rows is an argument, as is the backfill of version 9; \<open>works\<close> says for which versions the
  transaction goes through, so a run may fail or the process may end at any migration.  The files are
  those embedded in the program, a pair of name and content each, and the ledger is the list of rows of
  \<open>schema_migrations\<close>.  The advisory lock makes a run one step.
\<close>

section \<open>A run\<close>

text \<open>\<open>strconv.Atoi\<close> on a 64-bit machine.\<close>

definition Atoi :: "string \<Rightarrow> int option" where
  "Atoi s =
     (let neg = s \<noteq> [] \<and> hd s = CHR ''-''; body = (if s \<noteq> [] \<and> hd s \<in> set ''+-'' then tl s else s);
          n = (if neg then - digits_val 0 body else digits_val 0 body) in
      if body = [] \<or> \<not> list_all is_digit body \<or> n < - (2 ^ 63) \<or> 2 ^ 63 - 1 < n then None else Some n)"

type_synonym migration = "string \<times> string"

record 'd migrated =
  mg_state :: 'd
  mg_applied :: "(int \<times> string) list"

definition migration_version :: "string \<Rightarrow> int option" where
  "migration_version name =
     (let base = Base name in
      if CHR ''_'' \<notin> set base then None
      else case Atoi (takeWhile (\<lambda>c. c \<noteq> CHR ''_'') base) of
          None \<Rightarrow> None
        | Some v \<Rightarrow> if v \<le> 0 then None else Some v)"

fun check_names :: "int list \<Rightarrow> migration list \<Rightarrow> (int list) res" where
  "check_names seen [] = Inr seen"
| "check_names seen (f # fs) = (case migration_version (fst f) of
      None \<Rightarrow> Inl (Invalid ''invalid migration name'')
    | Some v \<Rightarrow> rejectE (v \<in> set seen) (Invalid ''invalid or duplicate migration version'') (check_names (v # seen) fs))"

definition checksum :: "migration \<Rightarrow> string" where
  "checksum f = sha256_hex (snd f)"

text \<open>One migration is one transaction: the file, the backfill of version 9 and the row of the ledger.\<close>

definition apply_one ::
    "(string \<Rightarrow> 'd \<Rightarrow> 'd option) \<Rightarrow> ('d \<Rightarrow> 'd option) \<Rightarrow> migration \<Rightarrow> int \<Rightarrow> 'd migrated \<Rightarrow> 'd migrated option" where
  "apply_one exec backfill f v m =
     Option.bind (exec (snd f) (mg_state m)) (\<lambda>d.
     Option.bind (if v = 9 then backfill d else Some d) (\<lambda>d.
     if \<not> int4 v then None
     else Some \<lparr>mg_state = d, mg_applied = mg_applied m @ [(v, checksum f)]\<rparr>))"

fun apply_loop ::
    "(string \<Rightarrow> 'd \<Rightarrow> 'd option) \<Rightarrow> ('d \<Rightarrow> 'd option) \<Rightarrow> (int \<Rightarrow> bool) \<Rightarrow> (int \<Rightarrow> string option) \<Rightarrow> migration list
      \<Rightarrow> 'd migrated \<Rightarrow> (unit res) \<times> 'd migrated" where
  "apply_loop exec backfill works applied [] m = (Inr (), m)"
| "apply_loop exec backfill works applied (f # fs) m = (case migration_version (fst f) of
      None \<Rightarrow> (Inl (Invalid ''invalid migration name''), m)
    | Some v \<Rightarrow> (case applied v of
          Some old \<Rightarrow> if old \<noteq> checksum f then (Inl (Invalid ''checksum changed''), m)
                      else apply_loop exec backfill works applied fs m
        | None \<Rightarrow> (case (if works v then apply_one exec backfill f v m else None) of
            None \<Rightarrow> (Inl (Invalid ''apply migration''), m)
          | Some m' \<Rightarrow> apply_loop exec backfill works applied fs m')))"

definition ApplyMigrations ::
    "(string \<Rightarrow> 'd \<Rightarrow> 'd option) \<Rightarrow> ('d \<Rightarrow> 'd option) \<Rightarrow> (int \<Rightarrow> bool) \<Rightarrow> migration list \<Rightarrow> 'd migrated \<Rightarrow> (unit res) \<times> 'd migrated" where
  "ApplyMigrations exec backfill works files m =
     (let files = sort_key fst files in
      case check_names [] files of
        Inl e \<Rightarrow> (Inl e, m)
      | Inr seen \<Rightarrow>
          if \<not> list_all (\<lambda>(v, _). v \<in> set seen) (mg_applied m) then (Inl (Invalid ''database has unknown migration''), m)
          else apply_loop exec backfill works (map_of (mg_applied m)) files m)"

section \<open>Runs move along the files\<close>

definition version :: "migration \<Rightarrow> int" where
  "version f = the (migration_version (fst f))"

definition ledger_row :: "migration \<Rightarrow> int \<times> string" where
  "ledger_row f = (version f, checksum f)"

lemma check_names_Inr:
  "check_names seen fs = Inr vs \<Longrightarrow> (\<forall>f \<in> set fs. migration_version (fst f) = Some (version f)) \<and> distinct (map version fs)
     \<and> set vs = set seen \<union> version ` set fs \<and> set seen \<inter> version ` set fs = {}"
proof (induction fs arbitrary: seen)
  case (Cons f fs)
  then obtain v where v: "migration_version (fst f) = Some v" "v \<notin> set seen" "check_names (v # seen) fs = Inr vs"
    by (auto simp: rejectE_Inr split: option.splits)
  then have "version f = v" by (simp add: version_def)
  then show ?case using Cons.IH [OF v(3)] v(1,2) by auto
qed simp

text \<open>The first migrations have been applied, in order, and nothing else.\<close>

definition migrated_through ::
    "(string \<Rightarrow> 'd \<Rightarrow> 'd option) \<Rightarrow> ('d \<Rightarrow> 'd option) \<Rightarrow> 'd \<Rightarrow> migration list \<Rightarrow> 'd migrated \<Rightarrow> bool" where
  "migrated_through exec backfill d0 fs m \<longleftrightarrow>
     apply_loop exec backfill (\<lambda>_. True) Map.empty fs \<lparr>mg_state = d0, mg_applied = []\<rparr> = (Inr (), m)"

lemma apply_one_ledger: "apply_one exec backfill f v m = Some m' \<Longrightarrow> mg_applied m' = mg_applied m @ [(v, checksum f)]"
  by (auto simp: apply_one_def split: Option.bind_splits if_splits)

lemma loop_append:
  "apply_loop exec backfill works applied (fs @ gs) m = (case apply_loop exec backfill works applied fs m of
      (Inl e, m') \<Rightarrow> (Inl e, m') | (Inr _, m') \<Rightarrow> apply_loop exec backfill works applied gs m')"
  by (induction fs arbitrary: m) (auto split: option.splits prod.splits sum.splits)

lemma loop_ledger:
  "\<forall>f \<in> set fs. migration_version (fst f) = Some (version f) \<and> applied (version f) = None \<Longrightarrow>
     apply_loop exec backfill works applied fs m = (r, m') \<Longrightarrow>
     \<exists>k \<le> length fs. apply_loop exec backfill (\<lambda>_. True) Map.empty (take k fs) m = (Inr (), m')
       \<and> mg_applied m' = mg_applied m @ map ledger_row (take k fs) \<and> (r = Inr () \<longrightarrow> k = length fs)"
proof (induction fs arbitrary: m)
  case (Cons f fs)
  have v: "migration_version (fst f) = Some (version f)" "applied (version f) = None" using Cons.prems(1) by auto
  show ?case
  proof (cases "if works (version f) then apply_one exec backfill f (version f) m else None")
    case None
    then show ?thesis using Cons.prems(2) v by (intro exI [of _ 0]) auto
  next
    case (Some m1)
    then have one: "apply_one exec backfill f (version f) m = Some m1" by (simp split: if_splits)
    have "apply_loop exec backfill works applied fs m1 = (r, m')" using Cons.prems(2) v Some by simp
    then obtain k where k: "k \<le> length fs" "apply_loop exec backfill (\<lambda>_. True) Map.empty (take k fs) m1 = (Inr (), m')"
      "mg_applied m' = mg_applied m1 @ map ledger_row (take k fs)" "r = Inr () \<longrightarrow> k = length fs"
      using Cons.IH [of m1] Cons.prems(1) by auto
    then show ?thesis using one v apply_one_ledger [OF one] by (intro exI [of _ "Suc k"]) (simp add: ledger_row_def)
  qed
qed simp

lemma loop_skips:
  "\<forall>f \<in> set fs. migration_version (fst f) = Some (version f) \<and> applied (version f) = Some (checksum f) \<Longrightarrow>
     apply_loop exec backfill works applied fs m = (Inr (), m)"
  by (induction fs) auto

text \<open>A run starts where the last one ended and ends somewhere further along.\<close>

definition valid_files :: "migration list \<Rightarrow> bool" where
  "valid_files files \<longleftrightarrow> okE (check_names [] (sort_key fst files))"

lemma names_ok:
  assumes "valid_files files"
  obtains vs where "check_names [] (sort_key fst files) = Inr vs" "set vs = version ` set (sort_key fst files)"
    "\<forall>f \<in> set (sort_key fst files). migration_version (fst f) = Some (version f)" "distinct (map version (sort_key fst files))"
  using assms check_names_Inr that by (fastforce simp: valid_files_def okE_iff)

lemma ledger_through:
  assumes "valid_files files" "migrated_through exec backfill d0 (take k (sort_key fst files)) m"
  shows "mg_applied m = map ledger_row (take k (sort_key fst files))"
    and "\<forall>f \<in> set (take k (sort_key fst files)). migration_version (fst f) = Some (version f) \<and> map_of (mg_applied m) (version f) = Some (checksum f)"
    and "\<forall>f \<in> set (drop k (sort_key fst files)). migration_version (fst f) = Some (version f) \<and> map_of (mg_applied m) (version f) = None"
    and "ApplyMigrations exec backfill works files m
      = apply_loop exec backfill works (map_of (mg_applied m)) (drop k (sort_key fst files)) m"
proof -
  define fs where "fs = sort_key fst files"
  obtain vs where vs: "check_names [] fs = Inr vs" "set vs = version ` set fs"
    "\<forall>f \<in> set fs. migration_version (fst f) = Some (version f)" "distinct (map version fs)"
    using names_ok [OF assms(1)] unfolding fs_def by blast
  have taken: "\<forall>f \<in> set (take k fs). migration_version (fst f) = Some (version f)" "\<forall>f \<in> set (drop k fs). migration_version (fst f) = Some (version f)"
    using vs(3) set_take_subset [of k fs] set_drop_subset [of k fs] by blast+
  then obtain j where "mg_applied m = map ledger_row (take j (take k fs))" "j = length (take k fs)"
    using loop_ledger [of "take k fs" Map.empty exec backfill "\<lambda>_. True" "\<lparr>mg_state = d0, mg_applied = []\<rparr>" "Inr ()" m] assms(2)
    by (auto simp: migrated_through_def fs_def)
  then have ledger: "mg_applied m = map ledger_row (take k fs)" by (metis take_all order_refl)
  then show "mg_applied m = map ledger_row (take k (sort_key fst files))" by (simp add: fs_def)
  have dist: "distinct (map fst (map ledger_row (take k fs)))"
    using distinct_take [OF vs(4), of k] by (simp add: take_map ledger_row_def comp_def)
  have skip: "\<forall>f \<in> set (take k fs). migration_version (fst f) = Some (version f) \<and> map_of (mg_applied m) (version f) = Some (checksum f)"
    unfolding ledger using taken(1) dist by (auto simp: map_of_eq_Some_iff ledger_row_def image_iff)
  then show "\<forall>f \<in> set (take k (sort_key fst files)). migration_version (fst f) = Some (version f) \<and> map_of (mg_applied m) (version f) = Some (checksum f)"
    by (simp add: fs_def)
  have "version ` set (take k fs) \<inter> version ` set (drop k fs) = {}"
    using vs(4) append_take_drop_id [of k fs] by (metis (no_types, lifting) distinct_append list.set_map map_append)
  then show "\<forall>f \<in> set (drop k (sort_key fst files)). migration_version (fst f) = Some (version f) \<and> map_of (mg_applied m) (version f) = None"
    unfolding ledger fs_def [symmetric] using taken(2) by (auto simp: map_of_eq_None_iff ledger_row_def image_iff)
  have "version f \<in> set vs" if "f \<in> set (take k fs)" for f using that vs(2) set_take_subset [of k fs] by blast
  then have known: "list_all (\<lambda>(v, _). v \<in> set vs) (mg_applied m)" unfolding ledger by (auto simp: list_all_iff ledger_row_def)
  have "ApplyMigrations exec backfill works files m = apply_loop exec backfill works (map_of (mg_applied m)) (take k fs @ drop k fs) m"
    using vs(1) known by (simp add: ApplyMigrations_def Let_def flip: fs_def)
  then show "ApplyMigrations exec backfill works files m = apply_loop exec backfill works (map_of (mg_applied m)) (drop k (sort_key fst files)) m"
    unfolding loop_append loop_skips [OF skip] by (simp add: fs_def)
qed

lemma run_moves_on:
  assumes "valid_files files" and m: "migrated_through exec backfill d0 (take k (sort_key fst files)) m"
    and run: "ApplyMigrations exec backfill works files m = (r, m')"
  shows "\<exists>n. migrated_through exec backfill d0 (take n (sort_key fst files)) m' \<and> (r = Inr () \<longrightarrow> length files \<le> n)"
proof -
  note through = ledger_through [OF assms(1) m]
  have "apply_loop exec backfill works (map_of (mg_applied m)) (drop k (sort_key fst files)) m = (r, m')"
    using run through(4) [of works] by simp
  from loop_ledger [OF through(3) this] obtain n where n: "n \<le> length (drop k (sort_key fst files))"
    "apply_loop exec backfill (\<lambda>_. True) Map.empty (take n (drop k (sort_key fst files))) m = (Inr (), m')"
    "r = Inr () \<longrightarrow> n = length (drop k (sort_key fst files))" by (elim exE conjE) (rule that)
  then have "migrated_through exec backfill d0 (take (k + n) (sort_key fst files)) m'"
    using m by (simp add: migrated_through_def take_add loop_append)
  then show ?thesis using n(3) by (intro exI [of _ "k + n"]) auto
qed

section \<open>Interrupted migrations\<close>

definition migration_run :: "(string \<Rightarrow> 'd \<Rightarrow> 'd option) \<Rightarrow> ('d \<Rightarrow> 'd option) \<Rightarrow> migration list \<Rightarrow> 'd migrated \<Rightarrow> 'd migrated \<Rightarrow> bool" where
  "migration_run exec backfill files m m' \<longleftrightarrow> (\<exists>works r. ApplyMigrations exec backfill works files m = (r, m'))"

lemma runs_move_on:
  assumes "(migration_run exec backfill files)\<^sup>*\<^sup>* \<lparr>mg_state = d0, mg_applied = []\<rparr> m" "valid_files files"
  shows "\<exists>k. migrated_through exec backfill d0 (take k (sort_key fst files)) m"
  using assms(1)
proof (induction rule: rtranclp_induct)
  case base
  then show ?case by (intro exI [of _ 0]) (simp add: migrated_through_def)
next
  case (step y z)
  from step.IH obtain k where k: "migrated_through exec backfill d0 (take k (sort_key fst files)) y" by blast
  from step.hyps(2) obtain works r where "ApplyMigrations exec backfill works files y = (r, z)"
    by (auto simp: migration_run_def)
  from run_moves_on [OF assms(2) k this] show ?case by blast
qed

text \<open>
  C40: interrupted migrations end like uninterrupted ones.  However often the migrations of a new
  database are started, and wherever a run fails or is stopped, the first run that succeeds leaves exactly the
  schema, rows and ledger that one uninterrupted run on a new database leaves: each file has been applied once, in the order
  of the names, under its checksum; and every later run succeeds without touching anything.
\<close>

theorem interrupted_migrations_resume:
  assumes "valid_files files" "(migration_run exec backfill files)\<^sup>*\<^sup>* \<lparr>mg_state = d0, mg_applied = []\<rparr> m"
    and "ApplyMigrations exec backfill works files m = (Inr (), m')"
  shows "ApplyMigrations exec backfill (\<lambda>_. True) files \<lparr>mg_state = d0, mg_applied = []\<rparr> = (Inr (), m')
    \<and> mg_applied m' = map ledger_row (sort_key fst files)
    \<and> (\<forall>works'. ApplyMigrations exec backfill works' files m' = (Inr (), m'))"
proof -
  obtain n where n: "migrated_through exec backfill d0 (take n (sort_key fst files)) m'" "length files \<le> n"
    by (rule exE [OF runs_move_on [OF assms(2,1)]]) (use run_moves_on [OF assms(1) _ assms(3)] in blast)
  note through = ledger_through [OF assms(1) n(1)]
  have start: "migrated_through exec backfill d0 (take 0 (sort_key fst files)) \<lparr>mg_state = d0, mg_applied = []\<rparr>"
    by (simp add: migrated_through_def)
  show ?thesis using n through(1,4) ledger_through(4) [OF assms(1) start] by (simp add: migrated_through_def)
qed

text \<open>A run that dies before the second of two migrations, and the next run.\<close>

definition two_files :: "migration list" where
  "two_files = [(''migrations/0002_b.sql'', ''B''), (''migrations/0001_a.sql'', ''A'')]"

definition note_sql :: "string \<Rightarrow> string list \<Rightarrow> string list option" where
  "note_sql sql d = Some (d @ [sql])"

lemma two_names: "sort_key fst two_files = [(''migrations/0001_a.sql'', ''A''), (''migrations/0002_b.sql'', ''B'')]"
  "migration_version ''migrations/0001_a.sql'' = Some 1" "migration_version ''migrations/0002_b.sql'' = Some 2"
  by code_simp+

theorem interrupted_migrations_resume_witness:
  "\<exists>m m'. ApplyMigrations note_sql Some (\<lambda>v. v = 1) two_files \<lparr>mg_state = [], mg_applied = []\<rparr> = (Inl (Invalid ''apply migration''), m)
     \<and> mg_state m = [''A''] \<and> ApplyMigrations note_sql Some (\<lambda>_. True) two_files m = (Inr (), m') \<and> mg_state m' = [''A'', ''B'']
     \<and> ApplyMigrations note_sql Some (\<lambda>_. True) two_files \<lparr>mg_state = [], mg_applied = []\<rparr> = (Inr (), m')"
proof -
  let ?m = "\<lparr>mg_state = [''A''], mg_applied = [(1, checksum (''migrations/0001_a.sql'', ''A''))]\<rparr>"
  let ?m' = "\<lparr>mg_state = [''A'', ''B''], mg_applied = [(1, checksum (''migrations/0001_a.sql'', ''A'')), (2, checksum (''migrations/0002_b.sql'', ''B''))]\<rparr>"
  note run = ApplyMigrations_def two_names apply_one_def note_sql_def int4_def Let_def
  have 1: "ApplyMigrations note_sql Some (\<lambda>v. v = 1) two_files \<lparr>mg_state = [], mg_applied = []\<rparr> = (Inl (Invalid ''apply migration''), ?m)"
    by (simp add: run)
  have 2: "ApplyMigrations note_sql Some (\<lambda>_. True) two_files ?m = (Inr (), ?m')"
    by (simp add: run)
  have "valid_files two_files" by (simp add: valid_files_def two_names)
  moreover have "(migration_run note_sql Some two_files)\<^sup>*\<^sup>* \<lparr>mg_state = [], mg_applied = []\<rparr> ?m"
    using 1 by (intro r_into_rtranclp) (auto simp: migration_run_def)
  ultimately have "ApplyMigrations note_sql Some (\<lambda>_. True) two_files \<lparr>mg_state = [], mg_applied = []\<rparr> = (Inr (), ?m')"
    by (rule interrupted_migrations_resume [OF _ _ 2, THEN conjunct1])
  then show ?thesis using 1 2 by (intro exI [of _ ?m] exI [of _ ?m']) simp
qed

end
