(* ===== verification/Server.thy ===== *)
theory Server
  imports NodeSafety BrowserSafety Endings Migrations
begin

text \<open>
  The server process as a whole (\<open>cmd/platform-server/main.go\<close>): the operator's command line, the start of
  the service, the cycle in its background and the two groups of HTTP routes over one database.  Every way
  to the database is here, so the guarantees about the store are guarantees about the server.
\<close>

section \<open>Numbers and passwords of the operator\<close>

definition trim_suffix :: "char \<Rightarrow> string \<Rightarrow> string" where
  "trim_suffix c s = (if s \<noteq> [] \<and> last s = c then butlast s else s)"

text \<open>\<open>None\<close> is a terminal, or a failing read.\<close>

definition readPasswordFromPipe :: "string option \<Rightarrow> string res" where
  "readPasswordFromPipe pipe =
     bindE (case pipe of None \<Rightarrow> Inl (Invalid ''pipe the admin password on stdin'') | Some s \<Rightarrow> Inr (take 1026 s)) (\<lambda>s.
     rejectE (1025 < length s) (Invalid ''admin password too long'') (
     Inr (trim_suffix (CHR 13) (trim_suffix (CHR 10) s))))"

section \<open>The command line\<close>

text \<open>
  What a command draws from its surroundings; \<open>cl_pg\<close> is the conversion of text to an identifier by the
  database.  Each command is a process of its own.
\<close>

record cli =
  cl_now :: time
  cl_id :: uuid
  cl_raw :: "int list"
  cl_salt :: "int list"
  cl_pipe :: "string option"
  cl_pg :: "string \<Rightarrow> uuid option"
  cl_unicode :: "string \<Rightarrow> string"
  cl_IDKey :: id_key

datatype printed =
    Help | Version | Current | AdminUpdated
  | Draining uuid bool | Priority uuid int | NodeCapacityIs uuid NodeCapacity
  | Registered uuid string | JobCreated uuid | Quarantined uuid

definition usage :: "printed res" where "usage = Inl (Invalid ''usage'')"

text \<open>A write and what is read and printed after its commit.\<close>

definition committed :: "db res \<Rightarrow> (db \<Rightarrow> printed res) \<Rightarrow> db \<Rightarrow> (printed res) \<times> db" where
  "committed m show d = (case m of Inl e \<Rightarrow> (Inl e, d) | Inr d' \<Rightarrow> (show d', d'))"

definition with_id :: "cli \<Rightarrow> string \<Rightarrow> (uuid \<Rightarrow> db res) \<Rightarrow> db res" where
  "with_id c s f = bindE (stored_id (cl_pg c) s) f"

definition read_id :: "cli \<Rightarrow> string \<Rightarrow> (uuid \<Rightarrow> printed res) \<Rightarrow> printed res" where
  "read_id c s f = bindE (stored_id (cl_pg c) s) f"

definition show_priority :: "cli \<Rightarrow> string \<Rightarrow> db \<Rightarrow> printed res" where
  "show_priority c s d = read_id c s (\<lambda>i. bindE (NodePriority i d) (\<lambda>p. Inr (Priority i p)))"

definition show_capacity :: "cli \<Rightarrow> string \<Rightarrow> db \<Rightarrow> printed res" where
  "show_capacity c s d = read_id c s (\<lambda>i. bindE (Capacity i d) (\<lambda>p. Inr (NodeCapacityIs i p)))"

definition drain_command :: "cli \<Rightarrow> string \<Rightarrow> bool \<Rightarrow> db \<Rightarrow> (printed res) \<times> db" where
  "drain_command c s drain d = committed (with_id c s (\<lambda>i. SetNodeDrain i drain d))
     (\<lambda>d. read_id c s (\<lambda>i. bindE (NodeDraining i d) (\<lambda>b. Inr (Draining i b)))) d"

definition numbered :: "string \<Rightarrow> (int \<Rightarrow> db res) \<Rightarrow> db res" where
  "numbered s f = (case Atoi s of None \<Rightarrow> Inl (Invalid ''must be an integer'') | Some n \<Rightarrow> f n)"

definition register_command :: "cli \<Rightarrow> string \<Rightarrow> string \<Rightarrow> db \<Rightarrow> (printed res) \<times> db" where
  "register_command c name os d = (case RegisterNode name os (cl_id c) (cl_raw c) d of
      Inl e \<Rightarrow> (Inl e, d)
    | Inr ((i, secret), d') \<Rightarrow> (Inr (Registered i secret), d'))"

definition integration_create :: "cli \<Rightarrow> string \<Rightarrow> string \<Rightarrow> string list \<Rightarrow> db \<Rightarrow> (printed res) \<times> db" where
  "integration_create c node key ports d =
     committed ((case ports of [] \<Rightarrow> (\<lambda>f. f 0) | p # _ \<Rightarrow> numbered p)
       (\<lambda>port. with_id c node (\<lambda>n. CreateIntegrationCreateJob n key port (cl_id c) (cl_now c) d))) (\<lambda>_. Inr (JobCreated (cl_id c))) d"

definition integration_command :: "cli \<Rightarrow> string \<Rightarrow> string \<Rightarrow> string list \<Rightarrow> db \<Rightarrow> (printed res) \<times> db" where
  "integration_command c node kind rest d =
     (if kind = ''create'' then
        (if length rest \<noteq> 1 \<and> length rest \<noteq> 2 then (usage, d) else integration_create c node (hd rest) (tl rest) d)
      else if kind = ''stop'' then
        (case rest of
           [i] \<Rightarrow> committed (with_id c node (\<lambda>n. CreateIntegrationJob n KStop i (cl_id c) (cl_now c) d)) (\<lambda>_. Inr (JobCreated (cl_id c))) d
         | _ \<Rightarrow> (usage, d))
      else (usage, d))"

text \<open>The arguments after \<open>node\<close>.\<close>

definition node_command :: "cli \<Rightarrow> string list \<Rightarrow> db \<Rightarrow> (printed res) \<times> db" where
  "node_command c args d = (case args of
      [verb, node] \<Rightarrow>
        if verb = ''drain'' \<or> verb = ''resume'' then drain_command c node (verb = ''drain'') d
        else if verb = ''priority'' then (show_priority c node d, d)
        else if verb = ''capacity'' then (show_capacity c node d, d)
        else (usage, d)
    | verb # node # x # rest \<Rightarrow>
        if verb = ''priority'' \<and> rest = [] then
          committed (numbered x (\<lambda>n. with_id c node (\<lambda>i. SetNodePriority i n d))) (show_priority c node) d
        else if verb = ''capacity'' \<and> rest = [] then
          committed (numbered x (\<lambda>n. with_id c node (\<lambda>i. SetDesiredCapacity i n d))) (show_capacity c node) d
        else if verb = ''register'' \<and> rest = [] then register_command c node x d
        else if verb = ''integration-job'' then integration_command c node x rest d
        else (usage, d)
    | _ \<Rightarrow> (usage, d))"

definition admin_command :: "cli \<Rightarrow> string list \<Rightarrow> db \<Rightarrow> (printed res) \<times> db" where
  "admin_command c args d = (case args of
      [verb, name] \<Rightarrow> (case readPasswordFromPipe (cl_pipe c) of
          Inl e \<Rightarrow> (Inl e, d)
        | Inr password \<Rightarrow>
            committed (if verb = ''create'' then
                bindE (CreateAdmin (cl_unicode c) (cl_IDKey c) (cl_salt c) (cl_id c) name password d) (\<lambda>(_, d). Inr d)
              else if verb = ''reset-password'' then ResetAdminPassword (cl_unicode c) (cl_IDKey c) (cl_salt c) name password d
              else Inl (Invalid ''unknown admin command'')) (\<lambda>_. Inr AdminUpdated) d)
    | _ \<Rightarrow> (usage, d))"

definition run_command :: "cli \<Rightarrow> string list \<Rightarrow> db \<Rightarrow> (printed res) \<times> db" where
  "run_command c args d = (case args of
      [] \<Rightarrow> (usage, d)
    | verb # rest \<Rightarrow>
        if rest = [] \<and> (verb = ''--help'' \<or> verb = ''help'') then (Inr Help, d)
        else if rest = [] \<and> verb = ''version'' then (Inr Version, d)
        else if verb = ''migrate'' then (if rest = [] then Inr Current else usage, d)
        else if verb = ''admin'' then admin_command c rest d
        else if verb = ''node'' then node_command c rest d
        else if verb = ''allocation'' then
          (case rest of
             [what, i] \<Rightarrow> if what = ''quarantine''
               then committed (with_id c i (\<lambda>a. MarkAllocationQuarantined a (cl_now c) d)) (\<lambda>_. read_id c i (\<lambda>a. Inr (Quarantined a))) d
               else (usage, d)
           | _ \<Rightarrow> (usage, d))
        else (usage, d))"

section \<open>The service\<close>

text \<open>The settings with which the service starts; \<open>parseDuration\<close> is \<open>time.ParseDuration\<close>.\<close>

definition serve_settings :: "(string \<Rightarrow> time option) \<Rightarrow> string \<Rightarrow> string \<Rightarrow> string \<Rightarrow> db \<Rightarrow> (unit res) \<times> db" where
  "serve_settings parseDuration environment party quarantine d =
     (if environment \<notin> {[], ''production'', ''development''} then (Inl (Invalid ''PLATFORM_ENV''), d)
      else case Atoi party of
          None \<Rightarrow> (Inl (Invalid ''PLATFORM_MAX_PARTY_SIZE''), d)
        | Some n \<Rightarrow>
            if n \<le> 0 then (Inl (Invalid ''PLATFORM_MAX_PARTY_SIZE''), d)
            else case ConfigurePartySize n d of
                Inl e \<Rightarrow> (Inl e, d)
              | Inr d \<Rightarrow>
                  (case (if quarantine = [] then Some (15 * minute) else parseDuration quarantine) of
                     None \<Rightarrow> (Inl (Invalid ''PLATFORM_QUARANTINE_AFTER_NODE_UNREACHABLE''), d)
                   | Some t \<Rightarrow>
                       if t \<le> 0 then (Inl (Invalid ''PLATFORM_QUARANTINE_AFTER_NODE_UNREACHABLE''), d)
                       else case ConfigureQuarantineThreshold t d of Inl e \<Rightarrow> (Inl e, d) | Inr d \<Rightarrow> (Inr (), d)))"

text \<open>One turn of the background loop: an error of one cycle is logged and the next cycle runs.\<close>

record turn =
  tn_alloc :: uuid
  tn_job :: uuid
  tn_allocate :: time
  tn_quarantine :: time
  tn_finalize :: time

definition background_turn :: "turn \<Rightarrow> db \<Rightarrow> db" where
  "background_turn t d =
     (let d = (case TryAllocateOne (tn_alloc t) (tn_job t) (tn_allocate t) d of Inl _ \<Rightarrow> d | Inr (_, d) \<Rightarrow> d);
          d = (case QuarantineOneUnreachable (tn_quarantine t) d of Inl _ \<Rightarrow> d | Inr (_, d) \<Rightarrow> d) in
      case FinalizeReadyValidations (tn_finalize t) d of None \<Rightarrow> d | Some (d, _) \<Rightarrow> d)"

section \<open>Every way to the database\<close>

record server =
  sv_db :: db
  sv_leases :: capabilityLeases
  sv_gate :: loginGate

inductive server_step :: "(string \<Rightarrow> 'k::linorder) \<Rightarrow> id_key \<Rightarrow> server \<Rightarrow> server \<Rightarrow> bool" for collate key where
  node: "serve_node env r c (sv_leases s) (sv_db s) = (rep, ls', d') \<Longrightarrow>
    server_step collate key s (s\<lparr>sv_db := d', sv_leases := ls'\<rparr>)"
| web: "serve_web collate key env r c (sv_gate s) (sv_db s) = (rep, g', d') \<Longrightarrow>
    server_step collate key s (s\<lparr>sv_db := d', sv_gate := g'\<rparr>)"
| background: "server_step collate key s (s\<lparr>sv_db := background_turn t (sv_db s)\<rparr>)"
| command: "run_command c args (sv_db s) = (out, d') \<Longrightarrow> server_step collate key s (s\<lparr>sv_db := d'\<rparr>)"
| start: "serve_settings parse e p q (sv_db s) = (out, d') \<Longrightarrow>
    server_step collate key s (s\<lparr>sv_db := d', sv_leases := newCapabilityLeases, sv_gate := newLoginGate\<rparr>)"

section \<open>Commands are steps of the store\<close>

lemma account_core:
  "CreateAdmin f IDKey salt i name pw d = Inr (x, d') \<Longrightarrow> core d' = core d"
  "ResetAdminPassword f IDKey salt name pw d = Inr d' \<Longrightarrow> core d' = core d"
  "SetDesiredCapacity n c d = Inr d' \<Longrightarrow> core d' = core d"
  by (auto simp: CreateAdmin_def ResetAdminPassword_def SetDesiredCapacity_def Let_def write_audit_def core_def business_def
      bindE_Inr rejectE_Inr split: option.splits)

lemma committed_step:
  assumes "committed m show d = (out, d')" "\<And>d'. m = Inr d' \<Longrightarrow> store_step d d'"
  shows "store_step d d'"
  using assms by (auto simp: committed_def quiet split: sum.splits)

lemma numbered_Inr [result_simps]: "numbered s f = Inr x \<longleftrightarrow> (\<exists>n. Atoi s = Some n \<and> f n = Inr x)"
  by (simp add: numbered_def split: option.splits)

lemma with_id_Inr [result_simps]: "with_id c s f = Inr x \<longleftrightarrow> (\<exists>i. cl_pg c s = Some i \<and> f i = Inr x)"
  by (simp add: with_id_def bindE_Inr stored_id_Inr)

lemma drain_step: "drain_command c s b d = (out, d') \<Longrightarrow> store_step d d'"
  unfolding drain_command_def by (erule committed_step) (auto simp: with_id_Inr intro: catalogue operator_core)

lemma register_step: "register_command c n os d = (out, d') \<Longrightarrow> store_step d d'"
  by (auto simp: register_command_def quiet intro: catalogue operator_core split: sum.splits)

lemma integration_create_step: "integration_create c n key ports d = (out, d') \<Longrightarrow> store_step d d'"
  unfolding integration_create_def
  by (erule committed_step) (auto simp: result_simps intro: integration_create split: list.splits)

lemma integration_step: "integration_command c n kind rest d = (out, d') \<Longrightarrow> store_step d d'"
  by (auto simp: integration_command_def quiet with_id_Inr split: if_splits list.splits intro: integration
      elim!: integration_create_step committed_step)

lemma setting_step:
  "committed (numbered x (\<lambda>n. with_id c s (\<lambda>i. SetNodePriority i n d))) show d = (out, d') \<Longrightarrow> store_step d d'"
  "committed (numbered x (\<lambda>n. with_id c s (\<lambda>i. SetDesiredCapacity i n d))) show d = (out, d') \<Longrightarrow> store_step d d'"
  by (erule committed_step, auto simp: result_simps intro: catalogue operator_core account_core)+

lemma node_command_step: "node_command c args d = (out, d') \<Longrightarrow> store_step d d'"
  by (auto simp: node_command_def quiet split: if_splits list.splits
      intro: drain_step register_step integration_step setting_step)

lemma admin_command_step: "admin_command c args d = (out, d') \<Longrightarrow> store_step d d'"
  by (auto simp: admin_command_def quiet bindE_Inr split: list.splits sum.splits if_splits
      intro: catalogue [OF account_core(1)] catalogue [OF account_core(2)] elim!: committed_step)

lemma run_command_step: "run_command c args d = (out, d') \<Longrightarrow> store_step d d'"
  by (auto simp: run_command_def quiet with_id_Inr split: list.splits if_splits
      intro: node_command_step admin_command_step mark elim!: committed_step)

section \<open>The service takes steps of the store\<close>

lemma serve_settings_steps: "serve_settings parse e p q d = (out, d') \<Longrightarrow> store_step\<^sup>*\<^sup>* d d'"
proof -
  have "store_step\<^sup>*\<^sup>* d d2" if "ConfigurePartySize n d = Inr d1" "ConfigureQuarantineThreshold t d1 = Inr d2" for n t d1 d2
    using party_size [OF that(1)] catalogue [OF ConfigureQuarantineThreshold_core [OF that(2)]] by (meson r_into_rtranclp rtranclp.rtrancl_into_rtrancl)
  then show "serve_settings parse e p q d = (out, d') \<Longrightarrow> store_step\<^sup>*\<^sup>* d d'"
    by (auto simp: serve_settings_def split: if_splits option.splits sum.splits intro: party_size)
qed

lemma finalize_one_step: "finalize_one now r d = (d', e) \<Longrightarrow> store_step d d'"
  by (auto simp: finalize_one_def quiet split: if_splits sum.splits intro: finalize_run finalize_failure)

lemma finalize_rows_steps: "finalize_rows now rs d = (d', e) \<Longrightarrow> store_step\<^sup>*\<^sup>* d d'"
proof (induction rs arbitrary: d)
  case (Cons r rs)
  then show ?case
    by (auto split: prod.splits option.splits dest: finalize_one_step intro: converse_rtranclp_into_rtranclp)
qed simp

lemma finalize_pages_steps: "finalize_pages fuel cursor now d = Some (d', e) \<Longrightarrow> store_step\<^sup>*\<^sup>* d d'"
proof (induction fuel arbitrary: cursor d)
  case (Suc fuel)
  obtain d1 e1 where 1: "finalize_rows now (ready_page cursor d) d = (d1, e1)" by fastforce
  then show ?case using Suc.prems Suc.IH finalize_rows_steps [OF 1] rtranclp_trans
    by (fastforce simp: Let_def split: option.splits if_splits)
qed simp

lemma background_steps: "store_step\<^sup>*\<^sup>* d (background_turn t d)"
proof -
  define d1 where "d1 = (case TryAllocateOne (tn_alloc t) (tn_job t) (tn_allocate t) d of Inl _ \<Rightarrow> d | Inr (_, d) \<Rightarrow> d)"
  define d2 where "d2 = (case QuarantineOneUnreachable (tn_quarantine t) d1 of Inl _ \<Rightarrow> d1 | Inr (_, d) \<Rightarrow> d)"
  have "store_step d d1" by (auto simp: d1_def quiet split: sum.splits intro: schedule)
  moreover have "store_step d1 d2" by (auto simp: d2_def quiet split: sum.splits intro: quarantine)
  moreover have "store_step\<^sup>*\<^sup>* d2 (background_turn t d)"
    unfolding background_turn_def Let_def d1_def [symmetric] d2_def [symmetric]
    by (auto simp: FinalizeReadyValidations_def simp del: finalize_pages.simps split: option.splits dest: finalize_pages_steps)
  ultimately show ?thesis by (meson converse_rtranclp_into_rtranclp)
qed

lemma party_inv_steps: "store_step\<^sup>*\<^sup>* d d' \<Longrightarrow> party_inv d \<Longrightarrow> party_inv d'"
  by (induction rule: rtranclp_induct) (auto intro: party_inv_step)

lemma server_step_store:
  assumes "server_step collate key s s'" "reachable (sv_db s)" "party_inv (sv_db s)"
  shows "store_step\<^sup>*\<^sup>* (sv_db s) (sv_db s')"
  using assms(1)
proof (cases rule: server_step.cases)
  case web
  then have "store_step (sv_db s) (sv_db s')" using conjunct1 [OF serve_web_ok [OF assms(3)]] by (fastforce simp: web_ok_def)
  then show ?thesis by (rule r_into_rtranclp)
qed (auto intro: serve_node_step [OF assms(2)] run_command_step background_steps serve_settings_steps)

text \<open>
  C3: The whole server only takes steps of the store.  Whatever requests nodes and browsers send, whatever
  commands the operator runs, and however often the service is started and its background loop turns, in
  any order, a server that began on an empty platform has reached its database by operations of the store;
  so its constraints hold, no row has changed against its row relation, requests agree with attempts and
  the parties are well formed.
\<close>

theorem server_refines_store:
  assumes "(server_step collate key)\<^sup>*\<^sup>* s s'" "empty_business (sv_db s)" "party_inv (sv_db s)"
  shows "store_step\<^sup>*\<^sup>* (sv_db s) (sv_db s') \<and> inv (sv_db s') \<and> evolves (sv_db s) (sv_db s')
    \<and> linked None (sv_db s') \<and> party_inv (sv_db s')"
proof -
  have "store_step\<^sup>*\<^sup>* (sv_db s) (sv_db s')"
    using assms(1)
  proof (induction rule: rtranclp_induct)
    case (step y z)
    have "reachable (sv_db y)" using step.IH assms(2) unfolding reachable_def by blast
    then show ?case using server_step_store [OF step.hyps(2)] party_inv_steps [OF step.IH assms(3)] step.IH rtranclp_trans by metis
  qed simp
  then show ?thesis using store_steps_keep [OF _ empty_inv [OF assms(2)] empty_linked [OF assms(2)]] party_inv_steps [OF _ assms(3)] by blast
qed

text \<open>A first start and one turn of the background loop.\<close>

definition started_server :: server where
  "started_server = \<lparr>sv_db = start_db, sv_leases = newCapabilityLeases, sv_gate = newLoginGate\<rparr>"

theorem server_refines_store_witness:
  "\<exists>s'. (server_step length (\<lambda>_ _ _ _ _ _. []))\<^sup>*\<^sup>* started_server s' \<and> st_max_party_size (settings (sv_db s')) = Some 6
     \<and> store_step\<^sup>*\<^sup>* start_db (sv_db s') \<and> inv (sv_db s') \<and> party_inv (sv_db s')"
proof -
  let ?d = "start_db\<lparr>settings := \<lparr>st_accepting = True, st_message = [], st_max_party_size = Some 6, st_quarantine_after = 15 * minute\<rparr>\<rparr>"
  let ?s = "started_server\<lparr>sv_db := ?d\<rparr>"
  have atoi: "Atoi ''6'' = Some 6" by code_simp
  have "serve_settings (\<lambda>_. None) [] ''6'' [] start_db = (Inr (), ?d)"
    by (simp add: serve_settings_def atoi ConfigurePartySize_def ConfigureQuarantineThreshold_def start_db_def sample_db_def
        minute_def hour_def second_def)
  then have "server_step length (\<lambda>_ _ _ _ _ _. []) started_server ?s"
    using server_step.start [of "\<lambda>_. None" "[]" "''6''" "[]" started_server "Inr ()" ?d] by (simp add: started_server_def)
  then have steps: "(server_step length (\<lambda>_ _ _ _ _ _. []))\<^sup>*\<^sup>* started_server ?s" by (rule r_into_rtranclp)
  have "empty_business (sv_db started_server)" "party_inv (sv_db started_server)"
    by (simp_all add: started_server_def empty_business_def business_def party_inv_def start_db_def sample_db_def parties_ok_def
        members_ok_def invites_ok_def party_leader_fk_def sized_def member_count_def)
  from server_refines_store [OF steps this] steps show ?thesis by (intro exI [of _ ?s]) (simp add: started_server_def)
qed

end
