(* ===== verification/Spec2Isabelle.thy ===== *)
theory Spec2Isabelle
  imports Guarantees Dispatch Retries Endings Interfaces PartyLife NodeGuarantees RunnerSafety Identity Release ContentSafety
    LoginGate NodeSession NodeSafety BrowserSafety Cycle Server
begin

text \<open>
  The control plane of a platform for arcade games: a verification development.

  The program.  A Platform Server (src/internal/platform) keeps games, presets, nodes, players,
  requests, allocations, node jobs, parties, validation runs, releases and administrator accounts in
  PostgreSQL and serves three groups of HTTP routes: nodes, players and administrators.  A Node
  Controller (src/internal/controller) on every node reports a heartbeat, claims jobs, carries them out
  on the local core process that runs the game instances, and reports what it could prove.  A content
  tool (src/internal/contenttool) switches the releases of workshop content on the disk of a node.  The
  messages between server and controller are a contract of their own (src/internal/contracts).  The
  server decides (which request gets a slot, which job is handed out, what a report proves), a
  controller only acts, and everything a controller does may be repeated, lost or late; most of
  the theorems say that the database stays right all the same.

  How code becomes definitions.  A Go function is a HOL function with the name of the source where that
  name is free; a function with several SQL statements is composed of one definition per statement, in
  the order of the code.  A row of a table is a record, a table a list of rows in the order of their
  insertion, the database the record database of Schema.  An operation runs in a transaction, so an
  error is a value Inl e with no new state, and Inr (d', r) is the committed state with the result.  What
  the code reads from the outside (the clock, fresh identifiers and random bytes) is an argument.  The
  operations are serialised: the row locks and the advisory lock of the scheduler, which make the code's
  transactions serialisable, are not modelled as locks, and a read that the code takes under a lock is a
  read of the same state.  SHA-256 is computed (Sha256); argon2, UUID parsing of the driver, the lower
  case of non-ASCII letters and the random source are parameters.
\<close>

text \<open>
  Foundations.
  \<^item> Prelude: errors, fallible sums and their combinators, tables as lists, the collections of lemmas
    that the component proofs share.
  \<^item> Sha256, Bytes, Text, Paths: what the program uses of Go's crypto/sha256, strconv, encoding/json,
    strings and path/filepath on byte strings.

  The contract of server and controller.
  \<^item> NodeV1, Heartbeat (contracts/nodev1/types.go, contracts/contentid/id.go): every message with its
    validation, the frozen create and its digest, the fingerprint of an entry.  NetJoin
    (controller/network/join.go): join information from a published port.  The three loops with a set of
    seen keys are instances of the locale seen_loop (NetJoin).
  \<^item> Auth, Credentials (platform/auth/credentials.go): tokens, digests, the bounded password format.

  The store (platform/store).
  \<^item> Schema: the rows of migrations/*.sql and the constraints well_formed (CHECK constraints, unique and
    partial unique indexes, foreign keys that the operations rely on).
  \<^item> Eligibility (node_eligibility.go, capacity.go), MachineProof (proof.go), Requests
    (player_requests.go, cancel.go, next_game.go), Jobs (jobs.go, node_jobs_api.go, lock_order.go),
    Scheduler (allocation.go), Reports (reportJob of node_jobs_api.go), Quarantine (quarantine.go,
    reconcile.go), Party (party.go), ValidationSteps, Validation, ValidationEnd (validation_ledger.go),
    AdminRequests, AdminCatalogue, AdminActions (admin_actions.go), Nodes (nodes.go), Identity
    (identity.go), Release (release.go).
  \<^item> System: the server as the step relation store_step, one rule per operation that commits, and the
    rule catalogue for the edits of the catalogue and of node facts, which leave the business tables
    alone.  Sample and Trace hold a concrete platform and two concrete histories, on which the
    witnesses apply the theorems.

  The HTTP API (platform/httpapi).
  \<^item> Http: requests, refusals and replies with their status codes, cookies, identifiers in paths.
    LoginGate: the gate of failed logins.  NodeSession: the leases of capability sessions together with
    the session that a controller process keeps and renews (controller/platformclient/client.go).
    NodeApi (node.go), PlayerApi (server.go, player.go, party.go) and AdminApi (admin.go, admin_i3.go):
    one definition per handler.  NodeSafety and BrowserSafety: the routes of NewHandler (server.go) as one function
    from a request and a database to a reply and a database.

  The process of the server.
  \<^item> Migrations (platform/store/migrations.go): runs that may fail or stop at any migration.
  \<^item> Server (cmd/platform-server/main.go): the commands of the operator, the start of the service, its
    background loop, and every way to the database as the step relation server_step.

  The controller and the content tool.
  \<^item> CoreClient, Runner (controller/core/client.go, controller/runner/runner.go): the job runner against
    an environment that answers each call to the core process, the platform, the local proofs and the
    clock in an arbitrary way.
  \<^item> Manifest, LocalFacts (controller/config): the fingerprint of a template, the configuration, and what a
    heartbeat tells of the disk, with the cache of digests.  Cycle (cmd/node-controller/main.go,
    controller/network/a2s.go): one turn of the controller against any platform.
  \<^item> ContentTool (contenttool/tool.go, transition.go, link_unix.go): the tool over a file system, every
    access to which has a fate: it works, it breaks (an error is returned) or it stops (the process ends
    there, the machine crashed).
\<close>

text \<open>
  What the lemmas show.
  \<^item> Evolution, Soundness, Operations: how rows may change over their life (alloc_evolves, job_evolves
    and so on, instances of the locale row_evolution), that every operation keeps the
    constraints and the row relations (sound_step), and that reachable states are well formed.  Guarantees draws the
    conclusions about the whole life of the server: terminal attempts are final, ambiguous jobs are never
    retried, a quarantine ends by proof only, verdicts are final, one of each, and a submission gives the open
    request of its owner again.
  \<^item> Agreement, AgreementOps: the states of a request and of its live attempt agree, operation by
    operation; NodeGuarantees states it for reachable states, with what a heartbeat may change.
  \<^item> Frames, Ledger: what operations leave alone, once for any relation that single writes respect
    (locale writes), and the refinement of the store to an abstract ledger of live attempts per node.
    Dispatch rests on it: capacity, the order of requests, nodes and jobs, progress of claims, and how the
    availability shown to players differs from the scheduler's choice (it leaves out the machine proof).
  \<^item> Retries, Endings: reports that are repeated, late or in conflict, and where an accepted one leaves the attempt
    and its request; the end of validation runs, the convergence loop over all of them, and how a node
    that reports its inventory as unknown blocks it.
  \<^item> PartyLife: the invariant of parties.  Interfaces: round trips and agreements at the edges.
  \<^item> FactTable, NodeFacts: the two tables of reported facts in the heartbeat, as interpretations of one
    locale (fact_table) on the statements of the code.
  \<^item> RunnerSafety: a calculus (good) for the runner against every environment.  ContentSafety: a
    weakest-precondition calculus for accesses with fates, the phases of a switch and recovery from each.
  \<^item> Manifest, LocalFacts, Cycle: equal fingerprints mean equal files, a confirmed content was hashed from
    the file as it still is, a heartbeat confirms only the inventory that was just accepted, and which
    messages the contract admits (and one ready instance that stops a node).
  \<^item> Server: whatever the whole server does is a sequence of operations of the store (server_refines_store), so the
    guarantees above, which are stated over store_step, are guarantees about the running system.
    Migrations: interrupted migrations end like an uninterrupted run.
  \<^item> LoginGate, NodeSession, NodeSafety, BrowserSafety: the penalty of failed logins, one controller at a
    time, and that a request to any route is refused without effect or is at most one sound step of
    the store by a caller with the authority the route asks for.

  Recursion.  All functions are total.  finalize_pages has fuel, length of the runs plus one: every page
  that is not the last starts after a run that has not been a page start before, so the fuel is never
  used up (finalize_always_returns).  The other loops recurse on their data: the runs, jobs or nodes in
  the order of the query, the files of a directory, the fates that are left.

  Not modelled.
  \<^item> Presentation: the overview of administrators (admin_overview.go), the read of the landing page,
    the read-side lists of player requests, display names, the details of audit records.  They change no
    state.
  \<^item> Process wiring and transport: signals and timers, the command line of the content tool, the ownership
    lock, the connection pool, the SQL of the migrations (their effect on tables is Schema), JSON
    syntax and headers, timeouts and cancellation of contexts, a database that fails in the middle of a
    transaction (which PostgreSQL rolls back), the HTTP exchanges of the platform client.
  \<^item> Text that PostgreSQL refuses (NUL bytes, invalid UTF-8), and identifiers that are not UUIDs, which are
    treated as unknown identifiers.
  \<^item> Concurrency inside one transaction (see above; the SKIP LOCKED of claimNextJob has nothing to skip when
    operations are serialised), the goroutines of the runner (its workers are
    modelled one after the other, each with an arbitrary environment), and requests to the lease table,
    each of which is one step under its mutex.
  \<^item> The Windows junctions of the content tool, and files that change between two reads of it.
\<close>

end
